(* ===== verification/Prelude.thy ===== *)
theory Prelude
  imports Main "HOL-Library.Word"
begin

text \<open>
  Shared vocabulary of the development. Bytes are \<open>8 word\<close>, a Python \<open>bytes\<close> object is a list of
  them, and every other Python integer is an \<open>int\<close>. The theory holds the big-endian and
  little-endian readings that Python's \<open>struct\<close> and \<open>int.from_bytes\<close> / \<open>int.to_bytes\<close> use, the
  slices \<open>xs[a:b]\<close>, the error-sum combinators, the lookup of an \<open>IntEnum\<close> member by its value, and
  the lemma collections the component theories extend.
\<close>

unbundle bit_operations_syntax

type_synonym byte = "8 word"
type_synonym bytes = "byte list"

named_theorems bytes_simps "big-endian and little-endian encodings, slices"
named_theorems result_simps "error-sum combinators"

section \<open>Error results\<close>

text \<open>A fallible computation is a sum: \<open>Inl\<close> carries the exception, \<open>Inr\<close> the value.\<close>

definition result_bind :: "'e + 'a \<Rightarrow> ('a \<Rightarrow> 'e + 'b) \<Rightarrow> 'e + 'b" where
  "result_bind m k = (case m of Inl e \<Rightarrow> Inl e | Inr x \<Rightarrow> k x)"

definition check :: "bool \<Rightarrow> 'e \<Rightarrow> ('e + 'a) \<Rightarrow> 'e + 'a" where
  "check bad e k = (if bad then Inl e else k)"

definition of_option :: "'e \<Rightarrow> 'a option \<Rightarrow> 'e + 'a" where
  "of_option e m = (case m of None \<Rightarrow> Inl e | Some x \<Rightarrow> Inr x)"

lemma result_bind_Inl [simp, result_simps]: "result_bind (Inl e) k = Inl e"
  by (simp add: result_bind_def)

lemma result_bind_Inr [simp, result_simps]: "result_bind (Inr x) k = k x"
  by (simp add: result_bind_def)

lemma result_bind_eq_Inr [result_simps]:
  "result_bind m k = Inr y \<longleftrightarrow> (\<exists>x. m = Inr x \<and> k x = Inr y)"
  by (cases m) auto

lemma check_eq_Inr [simp, result_simps]: "check bad e k = Inr y \<longleftrightarrow> \<not> bad \<and> k = Inr y"
  by (simp add: check_def)

lemma check_False [simp]: "check False e k = k"
  by (simp add: check_def)

lemma check_True [simp]: "check True e k = Inl e"
  by (simp add: check_def)

lemma of_option_eq_Inr [simp, result_simps]: "of_option e m = Inr x \<longleftrightarrow> m = Some x"
  by (cases m) (auto simp: of_option_def)

lemma of_option_Some [simp]: "of_option e (Some x) = Inr x"
  by (simp add: of_option_def)

section \<open>Slices\<close>

text \<open>Python's \<open>xs[a:b]\<close> for \<open>0 \<le> a\<close>: out-of-range bounds give a shorter list, never an error.\<close>

definition slice :: "nat \<Rightarrow> nat \<Rightarrow> 'a list \<Rightarrow> 'a list" where
  "slice a b xs = take (b - a) (drop a xs)"

lemma length_slice [simp, bytes_simps]: "length (slice a b xs) = min (b - a) (length xs - a)"
  by (simp add: slice_def)

lemma slice_append_left: "b \<le> length xs \<Longrightarrow> slice a b (xs @ ys) = slice a b xs"
  by (simp add: slice_def)

lemma slice_append_right:
  "length xs \<le> a \<Longrightarrow> slice a b (xs @ ys) = slice (a - length xs) (b - length xs) ys"
  by (simp add: slice_def)

lemma slice_all: "slice 0 (length xs) xs = xs"
  by (simp add: slice_def)

lemma take_eq_slice_append: "a \<le> b \<Longrightarrow> take b xs = take a xs @ slice a b xs"
  by (metis slice_def le_add_diff_inverse take_add)

section \<open>Big-endian and little-endian integers\<close>

definition be_int :: "bytes \<Rightarrow> int" where
  "be_int bs = foldl (\<lambda>acc b. acc * 256 + uint b) 0 bs"

primrec to_be :: "nat \<Rightarrow> int \<Rightarrow> bytes" where
  "to_be 0 x = []"
| "to_be (Suc n) x = to_be n (x div 256) @ [word_of_int x]"

definition le_int :: "bytes \<Rightarrow> int" where
  "le_int bs = be_int (rev bs)"

definition to_le :: "nat \<Rightarrow> int \<Rightarrow> bytes" where
  "to_le n x = rev (to_be n x)"

lemma be_int_Nil [simp]: "be_int [] = 0"
  by (simp add: be_int_def)

lemma be_int_snoc [simp]: "be_int (bs @ [b]) = be_int bs * 256 + uint b"
  by (simp add: be_int_def)

lemma uint_byte_lt [simp]: "uint (b :: byte) < 256"
  using uint_lt2p [of b] by simp

lemma be_int_nonneg [simp]: "0 \<le> be_int bs"
  by (induction bs rule: rev_induct) auto

lemma be_int_less: "be_int bs < 256 ^ length bs"
proof (induction bs rule: rev_induct)
  case Nil
  show ?case by simp
next
  case (snoc b bs)
  then have "be_int bs * 256 + 256 \<le> 256 ^ length bs * 256" by simp
  then show ?case using uint_byte_lt [of b] by (simp add: mult.commute del: uint_byte_lt)
qed

lemma length_to_be [simp, bytes_simps]: "length (to_be n x) = n"
  by (induction n arbitrary: x) auto

lemma length_to_le [simp, bytes_simps]: "length (to_le n x) = n"
  by (simp add: to_le_def)

lemma uint_word_of_int_byte: "uint (word_of_int x :: byte) = x mod 256"
  by (simp add: uint_word_of_int)

lemma be_int_to_be: "be_int (to_be n x) = x mod 256 ^ n"
proof (induction n arbitrary: x)
  case 0
  show ?case by simp
next
  case (Suc n)
  have "(x div 256) mod 256 ^ n * 256 + x mod 256 = x mod (256 * 256 ^ n)"
    using mod_mult2_eq' [of x 256 "256 ^ n"] by (simp add: mult.commute)
  then show ?case by (simp add: Suc uint_word_of_int_byte)
qed

lemma be_int_to_be_id [simp, bytes_simps]:
  "0 \<le> x \<Longrightarrow> x < 256 ^ n \<Longrightarrow> be_int (to_be n x) = x"
  by (simp add: be_int_to_be)

lemma to_be_be_int [simp, bytes_simps]: "to_be (length bs) (be_int bs) = bs"
proof (induction bs rule: rev_induct)
  case Nil
  show ?case by simp
next
  case (snoc b bs)
  have "(be_int bs * 256 + uint b) div 256 = be_int bs"
    using uint_byte_lt [of b] by simp
  moreover have "(word_of_int (be_int bs * 256 + uint b) :: byte) = b"
    using uint_byte_lt [of b] by (simp add: word_uint_eq_iff uint_word_of_int_byte del: of_int_add of_int_mult wi_hom_syms)
  ultimately show ?case by (simp add: snoc)
qed

lemma be_int_inj: "length bs = length cs \<Longrightarrow> be_int bs = be_int cs \<Longrightarrow> bs = cs"
  by (metis to_be_be_int)

lemma to_be_inj:
  "to_be n x = to_be n y \<Longrightarrow> 0 \<le> x \<Longrightarrow> x < 256 ^ n \<Longrightarrow> 0 \<le> y \<Longrightarrow> y < 256 ^ n \<Longrightarrow> x = y"
  by (metis be_int_to_be_id)

lemma be_int_eq_iff:
  "length bs = n \<Longrightarrow> 0 \<le> x \<Longrightarrow> x < 256 ^ n \<Longrightarrow> be_int bs = x \<longleftrightarrow> bs = to_be n x"
  by (metis be_int_to_be_id to_be_be_int)

lemma le_int_to_le [simp, bytes_simps]: "0 \<le> x \<Longrightarrow> x < 256 ^ n \<Longrightarrow> le_int (to_le n x) = x"
  by (simp add: le_int_def to_le_def)

lemma to_le_le_int [simp, bytes_simps]: "to_le (length bs) (le_int bs) = bs"
  by (metis le_int_def to_le_def length_rev rev_rev_ident to_be_be_int)

lemma le_int_nonneg [simp]: "0 \<le> le_int bs"
  by (simp add: le_int_def)

lemma le_int_less: "le_int bs < 256 ^ length bs"
  by (metis be_int_less le_int_def length_rev)

section \<open>Bit masks on Python integers\<close>

lemma int_and_not_mask: "(x :: int) AND NOT (mask n) = x - x mod 2 ^ n"
proof -
  have "x AND NOT (mask n) = push_bit n (drop_bit n x)"
    by (rule bit_eqI) (auto simp: bit_simps)
  then show ?thesis
    by (simp add: push_bit_eq_mult drop_bit_eq_div minus_mod_eq_mult_div mult.commute)
qed

lemma int_and_mask: "(x :: int) AND (mask n) = x mod 2 ^ n"
  by (simp add: take_bit_eq_mask [symmetric] take_bit_eq_mod)

lemma int_and_FF [simp]: "(x :: int) AND 255 = x mod 256"
  using int_and_mask [of x 8] by (simp add: mask_eq_exp_minus_1)

lemma int_and_FFFF [simp]: "(x :: int) AND 65535 = x mod 65536"
  using int_and_mask [of x 16] by (simp add: mask_eq_exp_minus_1)

lemma int_and_not_15: "(x :: int) AND NOT 15 = 0 \<longleftrightarrow> 0 \<le> x \<and> x < 16"
proof -
  have "x AND NOT 15 = x - x mod 16"
    using int_and_not_mask [of x 4] by (simp add: mask_eq_exp_minus_1)
  also have "(x - x mod 16 = 0) \<longleftrightarrow> 0 \<le> x \<and> x < 16"
    by presburger
  finally show ?thesis .
qed

section \<open>Enumerations\<close>

text \<open>
  \<open>E(n)\<close> for a Python \<open>IntEnum\<close> class \<open>E\<close> looks the member with value \<open>n\<close> up among the members and
  raises \<open>ValueError\<close> when there is none (here \<open>None\<close>). The laws of that lookup hold for every
  class whose members have distinct values; they are stated once, in a locale, and interpreted on
  each class of the protocol registry.
\<close>

definition enum_find :: "('m \<Rightarrow> int) \<Rightarrow> 'm list \<Rightarrow> int \<Rightarrow> 'm option" where
  "enum_find val ms n = find (\<lambda>m. val m = n) ms"

locale int_enum =
  fixes val :: "'m \<Rightarrow> int"
    and ms :: "'m list"
  assumes all_members: "m \<in> set ms"
    and distinct_values: "distinct (map val ms)"
begin

lemma enum_value_inj: "val m = val m' \<Longrightarrow> m = m'"
  using distinct_values all_members by (auto simp: distinct_map inj_on_def)

lemma enum_lookup_iff: "enum_find val ms n = Some m \<longleftrightarrow> val m = n"
proof
  assume "enum_find val ms n = Some m"
  then show "val m = n" by (auto simp: enum_find_def find_Some_iff)
next
  assume n: "val m = n"
  have "enum_find val ms n \<noteq> None"
    using n all_members by (auto simp: enum_find_def find_None_iff)
  then obtain m' where m': "enum_find val ms n = Some m'" by blast
  then have "val m' = n" by (auto simp: enum_find_def find_Some_iff)
  with n m' show "enum_find val ms n = Some m" using enum_value_inj by fastforce
qed

lemma enum_lookup_value: "enum_find val ms (val m) = Some m"
  by (simp add: enum_lookup_iff)

lemma enum_lookup_None: "enum_find val ms n = None \<longleftrightarrow> n \<notin> range val"
  using all_members by (auto simp: enum_find_def find_None_iff)

end

end
