(* ===== verification/Protocol_Constants.thy ===== *)
theory Protocol_Constants
  imports Prelude
begin

text \<open>
  The protocol registry of \<open>pc_host/src/trinity_host/protocol/constants.py\<close>. Each \<open>IntEnum\<close> and
  \<open>IntFlag\<close> class is a datatype with the class's members under a prefix of its own (two classes
  may share a member name), the function \<open><class>_value\<close> that gives a member's integer, and the
  list of its members in declaration order. \<open><class>_of\<close> is the call \<open>Class(n)\<close>, \<open>None\<close> standing
  for the \<open>ValueError\<close>. Every class is an instance of the locale \<open>int_enum\<close>.
\<close>

section \<open>Sizes and magic numbers\<close>

definition PROTOCOL_VERSION :: int where
  "PROTOCOL_VERSION = 1"

definition PC_MAX_PAYLOAD :: nat where
  "PC_MAX_PAYLOAD = 256"

definition SPI_MAGIC :: int where
  "SPI_MAGIC = 0xA5"

definition SPI_HEADER_SIZE :: nat where
  "SPI_HEADER_SIZE = 8"

definition SPI_CRC_SIZE :: nat where
  "SPI_CRC_SIZE = 2"

definition SPI_MAX_POLYNOMIAL_DATA :: nat where
  "SPI_MAX_POLYNOMIAL_DATA = 64"

definition SPI_MAX_PAYLOAD :: nat where
  "SPI_MAX_PAYLOAD = 66"

definition SPI_MAX_PACKET :: nat where
  "SPI_MAX_PACKET = 76"

lemmas protocol_sizes =
  PROTOCOL_VERSION_def PC_MAX_PAYLOAD_def SPI_MAGIC_def SPI_HEADER_SIZE_def SPI_CRC_SIZE_def
  SPI_MAX_POLYNOMIAL_DATA_def SPI_MAX_PAYLOAD_def SPI_MAX_PACKET_def

section \<open>FrameFlags\<close>

datatype frame_flags =
  FF_RESPONSE | FF_ERROR | FF_MORE | FF_EVENT

primrec FrameFlags_value :: "frame_flags \<Rightarrow> int" where
  "FrameFlags_value FF_RESPONSE = 0x1"
| "FrameFlags_value FF_ERROR = 0x2"
| "FrameFlags_value FF_MORE = 0x4"
| "FrameFlags_value FF_EVENT = 0x8"

definition FrameFlags_members :: "frame_flags list" where
  "FrameFlags_members =
   [FF_RESPONSE, FF_ERROR, FF_MORE, FF_EVENT]"

definition FrameFlags_of :: "int \<Rightarrow> frame_flags option" where
  "FrameFlags_of n = enum_find FrameFlags_value FrameFlags_members n"

section \<open>ErrorCode\<close>

datatype error_code =
  EC_OK | EC_BAD_MAGIC | EC_BAD_VERSION | EC_BAD_LENGTH | EC_BAD_CRC | EC_BAD_FLAGS |
  EC_BAD_COMMAND | EC_BAD_STATE | EC_BUSY | EC_RESULT_PENDING | EC_TRANSACTION_CONFLICT |
  EC_OUTCOME_UNKNOWN_TARGET_RESET | EC_BAD_CHUNK_INDEX | EC_CHUNK_CONFLICT |
  EC_INCOMPLETE_INPUT | EC_RESULT_NOT_READY | EC_SELF_TEST_FAILED |
  EC_MLKEM_SHARED_SECRET_MISMATCH | EC_SESSION_ID_COLLISION | EC_BAD_SESSION | EC_ZEROIZED |
  EC_REPLAY | EC_STALE_SEQUENCE | EC_BAD_TAG | EC_MALFORMED_FRAME | EC_FRAME_TIMEOUT |
  EC_RESULT_PENDING_DROP | EC_AUTH_THRESHOLD | EC_COMMIT_REJECTED | EC_SESSION_COMMIT_FAILED |
  EC_HEARTBEAT_TIMEOUT | EC_FAULT_LOCKED | EC_INTERNAL_FAULT | EC_NOT_SUPPORTED

primrec ErrorCode_value :: "error_code \<Rightarrow> int" where
  "ErrorCode_value EC_OK = 0x0"
| "ErrorCode_value EC_BAD_MAGIC = 0x101"
| "ErrorCode_value EC_BAD_VERSION = 0x102"
| "ErrorCode_value EC_BAD_LENGTH = 0x103"
| "ErrorCode_value EC_BAD_CRC = 0x104"
| "ErrorCode_value EC_BAD_FLAGS = 0x105"
| "ErrorCode_value EC_BAD_COMMAND = 0x201"
| "ErrorCode_value EC_BAD_STATE = 0x202"
| "ErrorCode_value EC_BUSY = 0x203"
| "ErrorCode_value EC_RESULT_PENDING = 0x204"
| "ErrorCode_value EC_TRANSACTION_CONFLICT = 0x205"
| "ErrorCode_value EC_OUTCOME_UNKNOWN_TARGET_RESET = 0x206"
| "ErrorCode_value EC_BAD_CHUNK_INDEX = 0x301"
| "ErrorCode_value EC_CHUNK_CONFLICT = 0x302"
| "ErrorCode_value EC_INCOMPLETE_INPUT = 0x303"
| "ErrorCode_value EC_RESULT_NOT_READY = 0x304"
| "ErrorCode_value EC_SELF_TEST_FAILED = 0x305"
| "ErrorCode_value EC_MLKEM_SHARED_SECRET_MISMATCH = 0x306"
| "ErrorCode_value EC_SESSION_ID_COLLISION = 0x401"
| "ErrorCode_value EC_BAD_SESSION = 0x402"
| "ErrorCode_value EC_ZEROIZED = 0x403"
| "ErrorCode_value EC_REPLAY = 0x501"
| "ErrorCode_value EC_STALE_SEQUENCE = 0x502"
| "ErrorCode_value EC_BAD_TAG = 0x503"
| "ErrorCode_value EC_MALFORMED_FRAME = 0x504"
| "ErrorCode_value EC_FRAME_TIMEOUT = 0x505"
| "ErrorCode_value EC_RESULT_PENDING_DROP = 0x506"
| "ErrorCode_value EC_AUTH_THRESHOLD = 0x601"
| "ErrorCode_value EC_COMMIT_REJECTED = 0x602"
| "ErrorCode_value EC_SESSION_COMMIT_FAILED = 0x603"
| "ErrorCode_value EC_HEARTBEAT_TIMEOUT = 0x604"
| "ErrorCode_value EC_FAULT_LOCKED = 0x605"
| "ErrorCode_value EC_INTERNAL_FAULT = 0x701"
| "ErrorCode_value EC_NOT_SUPPORTED = 0x702"

definition ErrorCode_members :: "error_code list" where
  "ErrorCode_members =
   [EC_OK, EC_BAD_MAGIC, EC_BAD_VERSION, EC_BAD_LENGTH, EC_BAD_CRC, EC_BAD_FLAGS,
    EC_BAD_COMMAND, EC_BAD_STATE, EC_BUSY, EC_RESULT_PENDING, EC_TRANSACTION_CONFLICT,
    EC_OUTCOME_UNKNOWN_TARGET_RESET, EC_BAD_CHUNK_INDEX, EC_CHUNK_CONFLICT,
    EC_INCOMPLETE_INPUT, EC_RESULT_NOT_READY, EC_SELF_TEST_FAILED,
    EC_MLKEM_SHARED_SECRET_MISMATCH, EC_SESSION_ID_COLLISION, EC_BAD_SESSION, EC_ZEROIZED,
    EC_REPLAY, EC_STALE_SEQUENCE, EC_BAD_TAG, EC_MALFORMED_FRAME, EC_FRAME_TIMEOUT,
    EC_RESULT_PENDING_DROP, EC_AUTH_THRESHOLD, EC_COMMIT_REJECTED, EC_SESSION_COMMIT_FAILED,
    EC_HEARTBEAT_TIMEOUT, EC_FAULT_LOCKED, EC_INTERNAL_FAULT, EC_NOT_SUPPORTED]"

definition ErrorCode_of :: "int \<Rightarrow> error_code option" where
  "ErrorCode_of n = enum_find ErrorCode_value ErrorCode_members n"

section \<open>HostCommand\<close>

datatype host_command =
  HC_PING | HC_GET_SYSTEM_INFO | HC_GET_SYSTEM_STATUS | HC_GET_LAST_ERROR | HC_GET_TXN_RESULT |
  HC_RETIRE_TXN_RESULT | HC_SPI_DIAGNOSTIC | HC_GET_FIRST_SPI_FAILURE | HC_RUN_SELF_TEST |
  HC_GENERATE_KEYPAIR | HC_CREATE_SESSION | HC_CLOSE_SESSION | HC_ZEROIZE_SYSTEM |
  HC_SEND_ONE_TELEMETRY | HC_RUN_DEMO | HC_READ_LAST_RESULT | HC_RUN_NTT_TEST |
  HC_RUN_ASCON_TEST | HC_RUN_BENCHMARK | HC_RUN_TRANSPORT_STRESS | HC_INJECT_TEST_FAULT |
  HC_REQUEST_FAULT_CLEAR | HC_EVENT

primrec HostCommand_value :: "host_command \<Rightarrow> int" where
  "HostCommand_value HC_PING = 0x1"
| "HostCommand_value HC_GET_SYSTEM_INFO = 0x2"
| "HostCommand_value HC_GET_SYSTEM_STATUS = 0x3"
| "HostCommand_value HC_GET_LAST_ERROR = 0x4"
| "HostCommand_value HC_GET_TXN_RESULT = 0x5"
| "HostCommand_value HC_RETIRE_TXN_RESULT = 0x6"
| "HostCommand_value HC_SPI_DIAGNOSTIC = 0x7"
| "HostCommand_value HC_GET_FIRST_SPI_FAILURE = 0x8"
| "HostCommand_value HC_RUN_SELF_TEST = 0x10"
| "HostCommand_value HC_GENERATE_KEYPAIR = 0x11"
| "HostCommand_value HC_CREATE_SESSION = 0x12"
| "HostCommand_value HC_CLOSE_SESSION = 0x13"
| "HostCommand_value HC_ZEROIZE_SYSTEM = 0x14"
| "HostCommand_value HC_SEND_ONE_TELEMETRY = 0x20"
| "HostCommand_value HC_RUN_DEMO = 0x21"
| "HostCommand_value HC_READ_LAST_RESULT = 0x22"
| "HostCommand_value HC_RUN_NTT_TEST = 0x30"
| "HostCommand_value HC_RUN_ASCON_TEST = 0x31"
| "HostCommand_value HC_RUN_BENCHMARK = 0x32"
| "HostCommand_value HC_RUN_TRANSPORT_STRESS = 0x33"
| "HostCommand_value HC_INJECT_TEST_FAULT = 0x40"
| "HostCommand_value HC_REQUEST_FAULT_CLEAR = 0x41"
| "HostCommand_value HC_EVENT = 0xE0"

definition HostCommand_members :: "host_command list" where
  "HostCommand_members =
   [HC_PING, HC_GET_SYSTEM_INFO, HC_GET_SYSTEM_STATUS, HC_GET_LAST_ERROR, HC_GET_TXN_RESULT,
    HC_RETIRE_TXN_RESULT, HC_SPI_DIAGNOSTIC, HC_GET_FIRST_SPI_FAILURE, HC_RUN_SELF_TEST,
    HC_GENERATE_KEYPAIR, HC_CREATE_SESSION, HC_CLOSE_SESSION, HC_ZEROIZE_SYSTEM,
    HC_SEND_ONE_TELEMETRY, HC_RUN_DEMO, HC_READ_LAST_RESULT, HC_RUN_NTT_TEST,
    HC_RUN_ASCON_TEST, HC_RUN_BENCHMARK, HC_RUN_TRANSPORT_STRESS, HC_INJECT_TEST_FAULT,
    HC_REQUEST_FAULT_CLEAR, HC_EVENT]"

definition HostCommand_of :: "int \<Rightarrow> host_command option" where
  "HostCommand_of n = enum_find HostCommand_value HostCommand_members n"

section \<open>SystemState\<close>

datatype system_state =
  SYS_BOOT | SYS_SELF_TEST_REQUIRED | SYS_SELF_TEST_RUNNING | SYS_READY_NO_KEYPAIR |
  SYS_READY_NO_SESSION | SYS_SESSION_ESTABLISHING | SYS_ACTIVE | SYS_ZEROIZE_BUSY |
  SYS_FAULT_LOCKED | SYS_ERROR

primrec SystemState_value :: "system_state \<Rightarrow> int" where
  "SystemState_value SYS_BOOT = 0x0"
| "SystemState_value SYS_SELF_TEST_REQUIRED = 0x1"
| "SystemState_value SYS_SELF_TEST_RUNNING = 0x2"
| "SystemState_value SYS_READY_NO_KEYPAIR = 0x3"
| "SystemState_value SYS_READY_NO_SESSION = 0x4"
| "SystemState_value SYS_SESSION_ESTABLISHING = 0x5"
| "SystemState_value SYS_ACTIVE = 0x6"
| "SystemState_value SYS_ZEROIZE_BUSY = 0x7"
| "SystemState_value SYS_FAULT_LOCKED = 0x8"
| "SystemState_value SYS_ERROR = 0x9"

definition SystemState_members :: "system_state list" where
  "SystemState_members =
   [SYS_BOOT, SYS_SELF_TEST_REQUIRED, SYS_SELF_TEST_RUNNING, SYS_READY_NO_KEYPAIR,
    SYS_READY_NO_SESSION, SYS_SESSION_ESTABLISHING, SYS_ACTIVE, SYS_ZEROIZE_BUSY,
    SYS_FAULT_LOCKED, SYS_ERROR]"

definition SystemState_of :: "int \<Rightarrow> system_state option" where
  "SystemState_of n = enum_find SystemState_value SystemState_members n"

section \<open>Mode\<close>

datatype mode =
  MODE_KAT | MODE_DEMO_DETERMINISTIC | MODE_DEMO_SECURE

primrec Mode_value :: "mode \<Rightarrow> int" where
  "Mode_value MODE_KAT = 0x0"
| "Mode_value MODE_DEMO_DETERMINISTIC = 0x1"
| "Mode_value MODE_DEMO_SECURE = 0x2"

definition Mode_members :: "mode list" where
  "Mode_members =
   [MODE_KAT, MODE_DEMO_DETERMINISTIC, MODE_DEMO_SECURE]"

definition Mode_of :: "int \<Rightarrow> mode option" where
  "Mode_of n = enum_find Mode_value Mode_members n"

section \<open>TargetReadyMask\<close>

datatype target_ready_mask =
  READY_SN32 | READY_PRIMER1 | READY_PRIMER2 | READY_TINY1P5

primrec TargetReadyMask_value :: "target_ready_mask \<Rightarrow> int" where
  "TargetReadyMask_value READY_SN32 = 0x1"
| "TargetReadyMask_value READY_PRIMER1 = 0x2"
| "TargetReadyMask_value READY_PRIMER2 = 0x4"
| "TargetReadyMask_value READY_TINY1P5 = 0x8"

definition TargetReadyMask_members :: "target_ready_mask list" where
  "TargetReadyMask_members =
   [READY_SN32, READY_PRIMER1, READY_PRIMER2, READY_TINY1P5]"

definition TargetReadyMask_of :: "int \<Rightarrow> target_ready_mask option" where
  "TargetReadyMask_of n = enum_find TargetReadyMask_value TargetReadyMask_members n"

section \<open>FaultFlags\<close>

datatype fault_flags =
  FAULT_SN32 | FAULT_PRIMER1 | FAULT_PRIMER2 | FAULT_TINY1P5 | FAULT_COMMIT_REJECTED |
  FAULT_HEARTBEAT_TIMEOUT | FAULT_AUTH_THRESHOLD | FAULT_TRANSPORT

primrec FaultFlags_value :: "fault_flags \<Rightarrow> int" where
  "FaultFlags_value FAULT_SN32 = 0x1"
| "FaultFlags_value FAULT_PRIMER1 = 0x2"
| "FaultFlags_value FAULT_PRIMER2 = 0x4"
| "FaultFlags_value FAULT_TINY1P5 = 0x8"
| "FaultFlags_value FAULT_COMMIT_REJECTED = 0x10"
| "FaultFlags_value FAULT_HEARTBEAT_TIMEOUT = 0x20"
| "FaultFlags_value FAULT_AUTH_THRESHOLD = 0x40"
| "FaultFlags_value FAULT_TRANSPORT = 0x80"

definition FaultFlags_members :: "fault_flags list" where
  "FaultFlags_members =
   [FAULT_SN32, FAULT_PRIMER1, FAULT_PRIMER2, FAULT_TINY1P5, FAULT_COMMIT_REJECTED,
    FAULT_HEARTBEAT_TIMEOUT, FAULT_AUTH_THRESHOLD, FAULT_TRANSPORT]"

definition FaultFlags_of :: "int \<Rightarrow> fault_flags option" where
  "FaultFlags_of n = enum_find FaultFlags_value FaultFlags_members n"

section \<open>Source\<close>

datatype source =
  SRC_SN32 | SRC_PRIMER1 | SRC_PRIMER2 | SRC_TINY1P5 | SRC_HOST_PROTOCOL

primrec Source_value :: "source \<Rightarrow> int" where
  "Source_value SRC_SN32 = 0x0"
| "Source_value SRC_PRIMER1 = 0x1"
| "Source_value SRC_PRIMER2 = 0x2"
| "Source_value SRC_TINY1P5 = 0x3"
| "Source_value SRC_HOST_PROTOCOL = 0x4"

definition Source_members :: "source list" where
  "Source_members =
   [SRC_SN32, SRC_PRIMER1, SRC_PRIMER2, SRC_TINY1P5, SRC_HOST_PROTOCOL]"

definition Source_of :: "int \<Rightarrow> source option" where
  "Source_of n = enum_find Source_value Source_members n"

section \<open>EventType\<close>

datatype event_type =
  EV_PROGRESS | EV_STATUS_CHANGED | EV_RESULT_READY | EV_FAULT | EV_RECOVERY_REQUIRED |
  EV_LOG | EV_TRANSACTION_COMPLETED

primrec EventType_value :: "event_type \<Rightarrow> int" where
  "EventType_value EV_PROGRESS = 0x1"
| "EventType_value EV_STATUS_CHANGED = 0x2"
| "EventType_value EV_RESULT_READY = 0x3"
| "EventType_value EV_FAULT = 0x4"
| "EventType_value EV_RECOVERY_REQUIRED = 0x5"
| "EventType_value EV_LOG = 0x6"
| "EventType_value EV_TRANSACTION_COMPLETED = 0x7"

definition EventType_members :: "event_type list" where
  "EventType_members =
   [EV_PROGRESS, EV_STATUS_CHANGED, EV_RESULT_READY, EV_FAULT, EV_RECOVERY_REQUIRED, EV_LOG,
    EV_TRANSACTION_COMPLETED]"

definition EventType_of :: "int \<Rightarrow> event_type option" where
  "EventType_of n = enum_find EventType_value EventType_members n"

section \<open>SystemCapability\<close>

datatype system_capability =
  CAP_KAT | CAP_DEMO_DETERMINISTIC | CAP_DEMO_SECURE | CAP_MLKEM512 | CAP_PRIMER1_ACCELERATOR |
  CAP_ASCON_AEAD128 | CAP_PAYLOAD_UART | CAP_TINY_SUPERVISOR | CAP_FAULT_INJECTION |
  CAP_BENCHMARK | CAP_TRANSPORT_STRESS | CAP_TRANSACTION_RECONCILIATION

primrec SystemCapability_value :: "system_capability \<Rightarrow> int" where
  "SystemCapability_value CAP_KAT = 0x1"
| "SystemCapability_value CAP_DEMO_DETERMINISTIC = 0x2"
| "SystemCapability_value CAP_DEMO_SECURE = 0x4"
| "SystemCapability_value CAP_MLKEM512 = 0x8"
| "SystemCapability_value CAP_PRIMER1_ACCELERATOR = 0x10"
| "SystemCapability_value CAP_ASCON_AEAD128 = 0x20"
| "SystemCapability_value CAP_PAYLOAD_UART = 0x40"
| "SystemCapability_value CAP_TINY_SUPERVISOR = 0x80"
| "SystemCapability_value CAP_FAULT_INJECTION = 0x100"
| "SystemCapability_value CAP_BENCHMARK = 0x200"
| "SystemCapability_value CAP_TRANSPORT_STRESS = 0x400"
| "SystemCapability_value CAP_TRANSACTION_RECONCILIATION = 0x800"

definition SystemCapability_members :: "system_capability list" where
  "SystemCapability_members =
   [CAP_KAT, CAP_DEMO_DETERMINISTIC, CAP_DEMO_SECURE, CAP_MLKEM512, CAP_PRIMER1_ACCELERATOR,
    CAP_ASCON_AEAD128, CAP_PAYLOAD_UART, CAP_TINY_SUPERVISOR, CAP_FAULT_INJECTION,
    CAP_BENCHMARK, CAP_TRANSPORT_STRESS, CAP_TRANSACTION_RECONCILIATION]"

definition SystemCapability_of :: "int \<Rightarrow> system_capability option" where
  "SystemCapability_of n = enum_find SystemCapability_value SystemCapability_members n"

section \<open>FaultInjectionId\<close>

datatype fault_injection_id =
  FI_DROP_SN32_HEARTBEAT | FI_DROP_P1_HEARTBEAT | FI_DROP_P2_HEARTBEAT | FI_FORCE_BAD_TAG |
  FI_FORCE_REPLAY | FI_FORCE_FRAME_TIMEOUT | FI_FORCE_SPI_CRC_ERROR | FI_FORCE_TARGET_RESET |
  FI_FORCE_COMMIT_REJECTED | FI_FORCE_ZEROIZE

primrec FaultInjectionId_value :: "fault_injection_id \<Rightarrow> int" where
  "FaultInjectionId_value FI_DROP_SN32_HEARTBEAT = 0x1"
| "FaultInjectionId_value FI_DROP_P1_HEARTBEAT = 0x2"
| "FaultInjectionId_value FI_DROP_P2_HEARTBEAT = 0x3"
| "FaultInjectionId_value FI_FORCE_BAD_TAG = 0x4"
| "FaultInjectionId_value FI_FORCE_REPLAY = 0x5"
| "FaultInjectionId_value FI_FORCE_FRAME_TIMEOUT = 0x6"
| "FaultInjectionId_value FI_FORCE_SPI_CRC_ERROR = 0x7"
| "FaultInjectionId_value FI_FORCE_TARGET_RESET = 0x8"
| "FaultInjectionId_value FI_FORCE_COMMIT_REJECTED = 0x9"
| "FaultInjectionId_value FI_FORCE_ZEROIZE = 0xA"

definition FaultInjectionId_members :: "fault_injection_id list" where
  "FaultInjectionId_members =
   [FI_DROP_SN32_HEARTBEAT, FI_DROP_P1_HEARTBEAT, FI_DROP_P2_HEARTBEAT, FI_FORCE_BAD_TAG,
    FI_FORCE_REPLAY, FI_FORCE_FRAME_TIMEOUT, FI_FORCE_SPI_CRC_ERROR, FI_FORCE_TARGET_RESET,
    FI_FORCE_COMMIT_REJECTED, FI_FORCE_ZEROIZE]"

definition FaultInjectionId_of :: "int \<Rightarrow> fault_injection_id option" where
  "FaultInjectionId_of n = enum_find FaultInjectionId_value FaultInjectionId_members n"

section \<open>BenchmarkOperationMask\<close>

datatype benchmark_operation_mask =
  BENCH_NTT | BENCH_INTT | BENCH_BASEMUL | BENCH_MLKEM_KEYGEN | BENCH_MLKEM_ENCAPS |
  BENCH_MLKEM_DECAPS | BENCH_ASCON_ENCRYPT | BENCH_ASCON_DECRYPT | BENCH_SPI |
  BENCH_PAYLOAD_UART | BENCH_END_TO_END

primrec BenchmarkOperationMask_value :: "benchmark_operation_mask \<Rightarrow> int" where
  "BenchmarkOperationMask_value BENCH_NTT = 0x1"
| "BenchmarkOperationMask_value BENCH_INTT = 0x2"
| "BenchmarkOperationMask_value BENCH_BASEMUL = 0x4"
| "BenchmarkOperationMask_value BENCH_MLKEM_KEYGEN = 0x8"
| "BenchmarkOperationMask_value BENCH_MLKEM_ENCAPS = 0x10"
| "BenchmarkOperationMask_value BENCH_MLKEM_DECAPS = 0x20"
| "BenchmarkOperationMask_value BENCH_ASCON_ENCRYPT = 0x40"
| "BenchmarkOperationMask_value BENCH_ASCON_DECRYPT = 0x80"
| "BenchmarkOperationMask_value BENCH_SPI = 0x100"
| "BenchmarkOperationMask_value BENCH_PAYLOAD_UART = 0x200"
| "BenchmarkOperationMask_value BENCH_END_TO_END = 0x400"

definition BenchmarkOperationMask_members :: "benchmark_operation_mask list" where
  "BenchmarkOperationMask_members =
   [BENCH_NTT, BENCH_INTT, BENCH_BASEMUL, BENCH_MLKEM_KEYGEN, BENCH_MLKEM_ENCAPS,
    BENCH_MLKEM_DECAPS, BENCH_ASCON_ENCRYPT, BENCH_ASCON_DECRYPT, BENCH_SPI,
    BENCH_PAYLOAD_UART, BENCH_END_TO_END]"

definition BenchmarkOperationMask_of :: "int \<Rightarrow> benchmark_operation_mask option" where
  "BenchmarkOperationMask_of n = enum_find BenchmarkOperationMask_value BenchmarkOperationMask_members n"

section \<open>SpiCommand\<close>

datatype spi_command =
  SPI_GET_INFO | SPI_GET_STATUS | SPI_RUN_SELF_TEST | SPI_GET_TXN_RESULT |
  SPI_RETIRE_TXN_RESULT | SPI_ZEROIZE | SPI_STAGE_SESSION | SPI_COMMIT_SESSION |
  SPI_ABORT_SESSION | SPI_POLY_BEGIN | SPI_POLY_WRITE_CHUNK | SPI_POLY_EXECUTE |
  SPI_POLY_READ_CHUNK | SPI_POLY_RETIRE | SPI_LOAD_TELEMETRY | SPI_ENCRYPT_AND_SEND |
  SPI_GET_RX_STATUS | SPI_READ_AUTH_RESULT | SPI_ACK_AUTH_RESULT | SPI_CLEAR_DIAGNOSTIC_COUNTERS

primrec SpiCommand_value :: "spi_command \<Rightarrow> int" where
  "SpiCommand_value SPI_GET_INFO = 0x1"
| "SpiCommand_value SPI_GET_STATUS = 0x2"
| "SpiCommand_value SPI_RUN_SELF_TEST = 0x3"
| "SpiCommand_value SPI_GET_TXN_RESULT = 0x4"
| "SpiCommand_value SPI_RETIRE_TXN_RESULT = 0x5"
| "SpiCommand_value SPI_ZEROIZE = 0x6"
| "SpiCommand_value SPI_STAGE_SESSION = 0x7"
| "SpiCommand_value SPI_COMMIT_SESSION = 0x8"
| "SpiCommand_value SPI_ABORT_SESSION = 0x9"
| "SpiCommand_value SPI_POLY_BEGIN = 0x20"
| "SpiCommand_value SPI_POLY_WRITE_CHUNK = 0x21"
| "SpiCommand_value SPI_POLY_EXECUTE = 0x22"
| "SpiCommand_value SPI_POLY_READ_CHUNK = 0x23"
| "SpiCommand_value SPI_POLY_RETIRE = 0x24"
| "SpiCommand_value SPI_LOAD_TELEMETRY = 0x30"
| "SpiCommand_value SPI_ENCRYPT_AND_SEND = 0x31"
| "SpiCommand_value SPI_GET_RX_STATUS = 0x40"
| "SpiCommand_value SPI_READ_AUTH_RESULT = 0x41"
| "SpiCommand_value SPI_ACK_AUTH_RESULT = 0x42"
| "SpiCommand_value SPI_CLEAR_DIAGNOSTIC_COUNTERS = 0x43"

definition SpiCommand_members :: "spi_command list" where
  "SpiCommand_members =
   [SPI_GET_INFO, SPI_GET_STATUS, SPI_RUN_SELF_TEST, SPI_GET_TXN_RESULT, SPI_RETIRE_TXN_RESULT,
    SPI_ZEROIZE, SPI_STAGE_SESSION, SPI_COMMIT_SESSION, SPI_ABORT_SESSION, SPI_POLY_BEGIN,
    SPI_POLY_WRITE_CHUNK, SPI_POLY_EXECUTE, SPI_POLY_READ_CHUNK, SPI_POLY_RETIRE,
    SPI_LOAD_TELEMETRY, SPI_ENCRYPT_AND_SEND, SPI_GET_RX_STATUS, SPI_READ_AUTH_RESULT,
    SPI_ACK_AUTH_RESULT, SPI_CLEAR_DIAGNOSTIC_COUNTERS]"

definition SpiCommand_of :: "int \<Rightarrow> spi_command option" where
  "SpiCommand_of n = enum_find SpiCommand_value SpiCommand_members n"

section \<open>TargetId\<close>

datatype target_id =
  TGT_PRIMER1 | TGT_PRIMER2

primrec TargetId_value :: "target_id \<Rightarrow> int" where
  "TargetId_value TGT_PRIMER1 = 0x1"
| "TargetId_value TGT_PRIMER2 = 0x2"

definition TargetId_members :: "target_id list" where
  "TargetId_members =
   [TGT_PRIMER1, TGT_PRIMER2]"

definition TargetId_of :: "int \<Rightarrow> target_id option" where
  "TargetId_of n = enum_find TargetId_value TargetId_members n"

section \<open>SessionState\<close>

datatype session_state =
  SES_BOOT | SES_SELF_TEST_REQUIRED | SES_SELF_TEST_RUNNING | SES_READY_NO_SESSION |
  SES_SESSION_STAGED | SES_COMMITTED_BLOCKED | SES_ACTIVE | SES_ZEROIZE_BUSY | SES_FAULT_LOCKED

primrec SessionState_value :: "session_state \<Rightarrow> int" where
  "SessionState_value SES_BOOT = 0x0"
| "SessionState_value SES_SELF_TEST_REQUIRED = 0x1"
| "SessionState_value SES_SELF_TEST_RUNNING = 0x2"
| "SessionState_value SES_READY_NO_SESSION = 0x3"
| "SessionState_value SES_SESSION_STAGED = 0x4"
| "SessionState_value SES_COMMITTED_BLOCKED = 0x5"
| "SessionState_value SES_ACTIVE = 0x6"
| "SessionState_value SES_ZEROIZE_BUSY = 0x7"
| "SessionState_value SES_FAULT_LOCKED = 0x8"

definition SessionState_members :: "session_state list" where
  "SessionState_members =
   [SES_BOOT, SES_SELF_TEST_REQUIRED, SES_SELF_TEST_RUNNING, SES_READY_NO_SESSION,
    SES_SESSION_STAGED, SES_COMMITTED_BLOCKED, SES_ACTIVE, SES_ZEROIZE_BUSY, SES_FAULT_LOCKED]"

definition SessionState_of :: "int \<Rightarrow> session_state option" where
  "SessionState_of n = enum_find SessionState_value SessionState_members n"

section \<open>OperationState\<close>

datatype operation_state =
  OP_IDLE | OP_LOAD_INPUT | OP_READY_TO_EXECUTE | OP_EXECUTING | OP_RESULT_READY

primrec OperationState_value :: "operation_state \<Rightarrow> int" where
  "OperationState_value OP_IDLE = 0x0"
| "OperationState_value OP_LOAD_INPUT = 0x1"
| "OperationState_value OP_READY_TO_EXECUTE = 0x2"
| "OperationState_value OP_EXECUTING = 0x3"
| "OperationState_value OP_RESULT_READY = 0x4"

definition OperationState_members :: "operation_state list" where
  "OperationState_members =
   [OP_IDLE, OP_LOAD_INPUT, OP_READY_TO_EXECUTE, OP_EXECUTING, OP_RESULT_READY]"

definition OperationState_of :: "int \<Rightarrow> operation_state option" where
  "OperationState_of n = enum_find OperationState_value OperationState_members n"

section \<open>TransactionState\<close>

datatype transaction_state =
  TXN_NONE | TXN_ACCEPTED | TXN_RUNNING | TXN_SUCCEEDED | TXN_FAILED | TXN_ZEROIZED |
  TXN_OUTCOME_UNKNOWN

primrec TransactionState_value :: "transaction_state \<Rightarrow> int" where
  "TransactionState_value TXN_NONE = 0x0"
| "TransactionState_value TXN_ACCEPTED = 0x1"
| "TransactionState_value TXN_RUNNING = 0x2"
| "TransactionState_value TXN_SUCCEEDED = 0x3"
| "TransactionState_value TXN_FAILED = 0x4"
| "TransactionState_value TXN_ZEROIZED = 0x5"
| "TransactionState_value TXN_OUTCOME_UNKNOWN = 0x6"

definition TransactionState_members :: "transaction_state list" where
  "TransactionState_members =
   [TXN_NONE, TXN_ACCEPTED, TXN_RUNNING, TXN_SUCCEEDED, TXN_FAILED, TXN_ZEROIZED,
    TXN_OUTCOME_UNKNOWN]"

definition TransactionState_of :: "int \<Rightarrow> transaction_state option" where
  "TransactionState_of n = enum_find TransactionState_value TransactionState_members n"

section \<open>RxState\<close>

datatype rx_state =
  RX_HUNT_SYNC | RX_RECEIVE_BODY | RX_VALIDATE | RX_VERIFY_TAG | RX_RESULT_PENDING

primrec RxState_value :: "rx_state \<Rightarrow> int" where
  "RxState_value RX_HUNT_SYNC = 0x0"
| "RxState_value RX_RECEIVE_BODY = 0x1"
| "RxState_value RX_VALIDATE = 0x2"
| "RxState_value RX_VERIFY_TAG = 0x3"
| "RxState_value RX_RESULT_PENDING = 0x4"

definition RxState_members :: "rx_state list" where
  "RxState_members =
   [RX_HUNT_SYNC, RX_RECEIVE_BODY, RX_VALIDATE, RX_VERIFY_TAG, RX_RESULT_PENDING]"

definition RxState_of :: "int \<Rightarrow> rx_state option" where
  "RxState_of n = enum_find RxState_value RxState_members n"

section \<open>SpiCapability\<close>

datatype spi_capability =
  SCAP_SELF_TEST | SCAP_ZEROIZE | SCAP_TRANSACTION_RECONCILIATION | SCAP_SESSION_STAGE_COMMIT |
  SCAP_NTT | SCAP_INTT | SCAP_BASEMUL | SCAP_ASCON_ENCRYPT | SCAP_UART_TX |
  SCAP_ASCON_DECRYPT | SCAP_REPLAY_FILTER | SCAP_AUTH_RESULT_BUFFER | SCAP_DIAGNOSTICS

primrec SpiCapability_value :: "spi_capability \<Rightarrow> int" where
  "SpiCapability_value SCAP_SELF_TEST = 0x1"
| "SpiCapability_value SCAP_ZEROIZE = 0x2"
| "SpiCapability_value SCAP_TRANSACTION_RECONCILIATION = 0x4"
| "SpiCapability_value SCAP_SESSION_STAGE_COMMIT = 0x8"
| "SpiCapability_value SCAP_NTT = 0x10"
| "SpiCapability_value SCAP_INTT = 0x20"
| "SpiCapability_value SCAP_BASEMUL = 0x40"
| "SpiCapability_value SCAP_ASCON_ENCRYPT = 0x80"
| "SpiCapability_value SCAP_UART_TX = 0x100"
| "SpiCapability_value SCAP_ASCON_DECRYPT = 0x200"
| "SpiCapability_value SCAP_REPLAY_FILTER = 0x400"
| "SpiCapability_value SCAP_AUTH_RESULT_BUFFER = 0x800"
| "SpiCapability_value SCAP_DIAGNOSTICS = 0x1000"

definition SpiCapability_members :: "spi_capability list" where
  "SpiCapability_members =
   [SCAP_SELF_TEST, SCAP_ZEROIZE, SCAP_TRANSACTION_RECONCILIATION, SCAP_SESSION_STAGE_COMMIT,
    SCAP_NTT, SCAP_INTT, SCAP_BASEMUL, SCAP_ASCON_ENCRYPT, SCAP_UART_TX, SCAP_ASCON_DECRYPT,
    SCAP_REPLAY_FILTER, SCAP_AUTH_RESULT_BUFFER, SCAP_DIAGNOSTICS]"

definition SpiCapability_of :: "int \<Rightarrow> spi_capability option" where
  "SpiCapability_of n = enum_find SpiCapability_value SpiCapability_members n"

section \<open>PendingFlags\<close>

datatype pending_flags =
  PEND_RESPONSE_MAILBOX | PEND_SIDE_EFFECT_RESULT | PEND_AUTHENTICATED_RESULT

primrec PendingFlags_value :: "pending_flags \<Rightarrow> int" where
  "PendingFlags_value PEND_RESPONSE_MAILBOX = 0x1"
| "PendingFlags_value PEND_SIDE_EFFECT_RESULT = 0x2"
| "PendingFlags_value PEND_AUTHENTICATED_RESULT = 0x4"

definition PendingFlags_members :: "pending_flags list" where
  "PendingFlags_members =
   [PEND_RESPONSE_MAILBOX, PEND_SIDE_EFFECT_RESULT, PEND_AUTHENTICATED_RESULT]"

definition PendingFlags_of :: "int \<Rightarrow> pending_flags option" where
  "PendingFlags_of n = enum_find PendingFlags_value PendingFlags_members n"

section \<open>SecureFlags\<close>

datatype secure_flags =
  SEC_SELF_TEST_PASS | SEC_SESSION_STAGED | SEC_SECURE_ENABLE | SEC_ZEROIZE_BUSY |
  SEC_FAULT_LOCKED

primrec SecureFlags_value :: "secure_flags \<Rightarrow> int" where
  "SecureFlags_value SEC_SELF_TEST_PASS = 0x1"
| "SecureFlags_value SEC_SESSION_STAGED = 0x2"
| "SecureFlags_value SEC_SECURE_ENABLE = 0x4"
| "SecureFlags_value SEC_ZEROIZE_BUSY = 0x8"
| "SecureFlags_value SEC_FAULT_LOCKED = 0x10"

definition SecureFlags_members :: "secure_flags list" where
  "SecureFlags_members =
   [SEC_SELF_TEST_PASS, SEC_SESSION_STAGED, SEC_SECURE_ENABLE, SEC_ZEROIZE_BUSY,
    SEC_FAULT_LOCKED]"

definition SecureFlags_of :: "int \<Rightarrow> secure_flags option" where
  "SecureFlags_of n = enum_find SecureFlags_value SecureFlags_members n"

section \<open>TestProfile\<close>

datatype test_profile =
  PROFILE_QUICK | PROFILE_FULL | PROFILE_KAT | PROFILE_DIAGNOSTIC

primrec TestProfile_value :: "test_profile \<Rightarrow> int" where
  "TestProfile_value PROFILE_QUICK = 0x0"
| "TestProfile_value PROFILE_FULL = 0x1"
| "TestProfile_value PROFILE_KAT = 0x2"
| "TestProfile_value PROFILE_DIAGNOSTIC = 0x3"

definition TestProfile_members :: "test_profile list" where
  "TestProfile_members =
   [PROFILE_QUICK, PROFILE_FULL, PROFILE_KAT, PROFILE_DIAGNOSTIC]"

definition TestProfile_of :: "int \<Rightarrow> test_profile option" where
  "TestProfile_of n = enum_find TestProfile_value TestProfile_members n"

section \<open>TestMask\<close>

datatype test_mask =
  TEST_PROTOCOL | TEST_MEMORY | TEST_NTT | TEST_INTT | TEST_BASEMUL | TEST_ASCON | TEST_UART |
  TEST_SESSION | TEST_ZEROIZE | TEST_HEARTBEAT

primrec TestMask_value :: "test_mask \<Rightarrow> int" where
  "TestMask_value TEST_PROTOCOL = 0x1"
| "TestMask_value TEST_MEMORY = 0x2"
| "TestMask_value TEST_NTT = 0x4"
| "TestMask_value TEST_INTT = 0x8"
| "TestMask_value TEST_BASEMUL = 0x10"
| "TestMask_value TEST_ASCON = 0x20"
| "TestMask_value TEST_UART = 0x40"
| "TestMask_value TEST_SESSION = 0x80"
| "TestMask_value TEST_ZEROIZE = 0x100"
| "TestMask_value TEST_HEARTBEAT = 0x200"

definition TestMask_members :: "test_mask list" where
  "TestMask_members =
   [TEST_PROTOCOL, TEST_MEMORY, TEST_NTT, TEST_INTT, TEST_BASEMUL, TEST_ASCON, TEST_UART,
    TEST_SESSION, TEST_ZEROIZE, TEST_HEARTBEAT]"

definition TestMask_of :: "int \<Rightarrow> test_mask option" where
  "TestMask_of n = enum_find TestMask_value TestMask_members n"

section \<open>ZeroizeScope\<close>

datatype zeroize_scope =
  ZERO_ACTIVE_SESSION | ZERO_STAGED_SESSION | ZERO_POLYNOMIAL_BUFFERS |
  ZERO_TELEMETRY_OR_AUTH_RESULT | ZERO_TRANSACTION_STATE | ZERO_DIAGNOSTIC_TRANSIENT | ZERO_ALL

primrec ZeroizeScope_value :: "zeroize_scope \<Rightarrow> int" where
  "ZeroizeScope_value ZERO_ACTIVE_SESSION = 0x1"
| "ZeroizeScope_value ZERO_STAGED_SESSION = 0x2"
| "ZeroizeScope_value ZERO_POLYNOMIAL_BUFFERS = 0x4"
| "ZeroizeScope_value ZERO_TELEMETRY_OR_AUTH_RESULT = 0x8"
| "ZeroizeScope_value ZERO_TRANSACTION_STATE = 0x10"
| "ZeroizeScope_value ZERO_DIAGNOSTIC_TRANSIENT = 0x20"
| "ZeroizeScope_value ZERO_ALL = 0xFF"

definition ZeroizeScope_members :: "zeroize_scope list" where
  "ZeroizeScope_members =
   [ZERO_ACTIVE_SESSION, ZERO_STAGED_SESSION, ZERO_POLYNOMIAL_BUFFERS,
    ZERO_TELEMETRY_OR_AUTH_RESULT, ZERO_TRANSACTION_STATE, ZERO_DIAGNOSTIC_TRANSIENT, ZERO_ALL]"

definition ZeroizeScope_of :: "int \<Rightarrow> zeroize_scope option" where
  "ZeroizeScope_of n = enum_find ZeroizeScope_value ZeroizeScope_members n"

section \<open>DiagnosticCounterMask\<close>

datatype diagnostic_counter_mask =
  DIAG_TRANSPORT | DIAG_CRC | DIAG_BAD_COMMAND | DIAG_TRANSACTION_CONFLICT | DIAG_BAD_TAG |
  DIAG_REPLAY_OR_STALE | DIAG_FRAME_ERROR | DIAG_RESULT_PENDING_DROP |
  DIAG_HEARTBEAT_OR_FAULT | DIAG_SELF_TEST | DIAG_ALL

primrec DiagnosticCounterMask_value :: "diagnostic_counter_mask \<Rightarrow> int" where
  "DiagnosticCounterMask_value DIAG_TRANSPORT = 0x1"
| "DiagnosticCounterMask_value DIAG_CRC = 0x2"
| "DiagnosticCounterMask_value DIAG_BAD_COMMAND = 0x4"
| "DiagnosticCounterMask_value DIAG_TRANSACTION_CONFLICT = 0x8"
| "DiagnosticCounterMask_value DIAG_BAD_TAG = 0x10"
| "DiagnosticCounterMask_value DIAG_REPLAY_OR_STALE = 0x20"
| "DiagnosticCounterMask_value DIAG_FRAME_ERROR = 0x40"
| "DiagnosticCounterMask_value DIAG_RESULT_PENDING_DROP = 0x80"
| "DiagnosticCounterMask_value DIAG_HEARTBEAT_OR_FAULT = 0x100"
| "DiagnosticCounterMask_value DIAG_SELF_TEST = 0x200"
| "DiagnosticCounterMask_value DIAG_ALL = 0xFFFFFFFF"

definition DiagnosticCounterMask_members :: "diagnostic_counter_mask list" where
  "DiagnosticCounterMask_members =
   [DIAG_TRANSPORT, DIAG_CRC, DIAG_BAD_COMMAND, DIAG_TRANSACTION_CONFLICT, DIAG_BAD_TAG,
    DIAG_REPLAY_OR_STALE, DIAG_FRAME_ERROR, DIAG_RESULT_PENDING_DROP, DIAG_HEARTBEAT_OR_FAULT,
    DIAG_SELF_TEST, DIAG_ALL]"

definition DiagnosticCounterMask_of :: "int \<Rightarrow> diagnostic_counter_mask option" where
  "DiagnosticCounterMask_of n = enum_find DiagnosticCounterMask_value DiagnosticCounterMask_members n"

section \<open>The classes as instances of the enumeration laws\<close>

interpretation FrameFlags_enum: int_enum FrameFlags_value FrameFlags_members
proof
  show "m \<in> set FrameFlags_members" for m
    by (cases m) (simp_all add: FrameFlags_members_def)
  show "distinct (map FrameFlags_value FrameFlags_members)"
    by (simp add: FrameFlags_members_def)
qed

interpretation ErrorCode_enum: int_enum ErrorCode_value ErrorCode_members
proof
  show "m \<in> set ErrorCode_members" for m
    by (cases m) (simp_all add: ErrorCode_members_def)
  show "distinct (map ErrorCode_value ErrorCode_members)"
    by (simp add: ErrorCode_members_def)
qed

interpretation HostCommand_enum: int_enum HostCommand_value HostCommand_members
proof
  show "m \<in> set HostCommand_members" for m
    by (cases m) (simp_all add: HostCommand_members_def)
  show "distinct (map HostCommand_value HostCommand_members)"
    by (simp add: HostCommand_members_def)
qed

interpretation SystemState_enum: int_enum SystemState_value SystemState_members
proof
  show "m \<in> set SystemState_members" for m
    by (cases m) (simp_all add: SystemState_members_def)
  show "distinct (map SystemState_value SystemState_members)"
    by (simp add: SystemState_members_def)
qed

interpretation Mode_enum: int_enum Mode_value Mode_members
proof
  show "m \<in> set Mode_members" for m
    by (cases m) (simp_all add: Mode_members_def)
  show "distinct (map Mode_value Mode_members)"
    by (simp add: Mode_members_def)
qed

interpretation TargetReadyMask_enum: int_enum TargetReadyMask_value TargetReadyMask_members
proof
  show "m \<in> set TargetReadyMask_members" for m
    by (cases m) (simp_all add: TargetReadyMask_members_def)
  show "distinct (map TargetReadyMask_value TargetReadyMask_members)"
    by (simp add: TargetReadyMask_members_def)
qed

interpretation FaultFlags_enum: int_enum FaultFlags_value FaultFlags_members
proof
  show "m \<in> set FaultFlags_members" for m
    by (cases m) (simp_all add: FaultFlags_members_def)
  show "distinct (map FaultFlags_value FaultFlags_members)"
    by (simp add: FaultFlags_members_def)
qed

interpretation Source_enum: int_enum Source_value Source_members
proof
  show "m \<in> set Source_members" for m
    by (cases m) (simp_all add: Source_members_def)
  show "distinct (map Source_value Source_members)"
    by (simp add: Source_members_def)
qed

interpretation EventType_enum: int_enum EventType_value EventType_members
proof
  show "m \<in> set EventType_members" for m
    by (cases m) (simp_all add: EventType_members_def)
  show "distinct (map EventType_value EventType_members)"
    by (simp add: EventType_members_def)
qed

interpretation SystemCapability_enum: int_enum SystemCapability_value SystemCapability_members
proof
  show "m \<in> set SystemCapability_members" for m
    by (cases m) (simp_all add: SystemCapability_members_def)
  show "distinct (map SystemCapability_value SystemCapability_members)"
    by (simp add: SystemCapability_members_def)
qed

interpretation FaultInjectionId_enum: int_enum FaultInjectionId_value FaultInjectionId_members
proof
  show "m \<in> set FaultInjectionId_members" for m
    by (cases m) (simp_all add: FaultInjectionId_members_def)
  show "distinct (map FaultInjectionId_value FaultInjectionId_members)"
    by (simp add: FaultInjectionId_members_def)
qed

interpretation BenchmarkOperationMask_enum: int_enum BenchmarkOperationMask_value BenchmarkOperationMask_members
proof
  show "m \<in> set BenchmarkOperationMask_members" for m
    by (cases m) (simp_all add: BenchmarkOperationMask_members_def)
  show "distinct (map BenchmarkOperationMask_value BenchmarkOperationMask_members)"
    by (simp add: BenchmarkOperationMask_members_def)
qed

interpretation SpiCommand_enum: int_enum SpiCommand_value SpiCommand_members
proof
  show "m \<in> set SpiCommand_members" for m
    by (cases m) (simp_all add: SpiCommand_members_def)
  show "distinct (map SpiCommand_value SpiCommand_members)"
    by (simp add: SpiCommand_members_def)
qed

interpretation TargetId_enum: int_enum TargetId_value TargetId_members
proof
  show "m \<in> set TargetId_members" for m
    by (cases m) (simp_all add: TargetId_members_def)
  show "distinct (map TargetId_value TargetId_members)"
    by (simp add: TargetId_members_def)
qed

interpretation SessionState_enum: int_enum SessionState_value SessionState_members
proof
  show "m \<in> set SessionState_members" for m
    by (cases m) (simp_all add: SessionState_members_def)
  show "distinct (map SessionState_value SessionState_members)"
    by (simp add: SessionState_members_def)
qed

interpretation OperationState_enum: int_enum OperationState_value OperationState_members
proof
  show "m \<in> set OperationState_members" for m
    by (cases m) (simp_all add: OperationState_members_def)
  show "distinct (map OperationState_value OperationState_members)"
    by (simp add: OperationState_members_def)
qed

interpretation TransactionState_enum: int_enum TransactionState_value TransactionState_members
proof
  show "m \<in> set TransactionState_members" for m
    by (cases m) (simp_all add: TransactionState_members_def)
  show "distinct (map TransactionState_value TransactionState_members)"
    by (simp add: TransactionState_members_def)
qed

interpretation RxState_enum: int_enum RxState_value RxState_members
proof
  show "m \<in> set RxState_members" for m
    by (cases m) (simp_all add: RxState_members_def)
  show "distinct (map RxState_value RxState_members)"
    by (simp add: RxState_members_def)
qed

interpretation SpiCapability_enum: int_enum SpiCapability_value SpiCapability_members
proof
  show "m \<in> set SpiCapability_members" for m
    by (cases m) (simp_all add: SpiCapability_members_def)
  show "distinct (map SpiCapability_value SpiCapability_members)"
    by (simp add: SpiCapability_members_def)
qed

interpretation PendingFlags_enum: int_enum PendingFlags_value PendingFlags_members
proof
  show "m \<in> set PendingFlags_members" for m
    by (cases m) (simp_all add: PendingFlags_members_def)
  show "distinct (map PendingFlags_value PendingFlags_members)"
    by (simp add: PendingFlags_members_def)
qed

interpretation SecureFlags_enum: int_enum SecureFlags_value SecureFlags_members
proof
  show "m \<in> set SecureFlags_members" for m
    by (cases m) (simp_all add: SecureFlags_members_def)
  show "distinct (map SecureFlags_value SecureFlags_members)"
    by (simp add: SecureFlags_members_def)
qed

interpretation TestProfile_enum: int_enum TestProfile_value TestProfile_members
proof
  show "m \<in> set TestProfile_members" for m
    by (cases m) (simp_all add: TestProfile_members_def)
  show "distinct (map TestProfile_value TestProfile_members)"
    by (simp add: TestProfile_members_def)
qed

interpretation TestMask_enum: int_enum TestMask_value TestMask_members
proof
  show "m \<in> set TestMask_members" for m
    by (cases m) (simp_all add: TestMask_members_def)
  show "distinct (map TestMask_value TestMask_members)"
    by (simp add: TestMask_members_def)
qed

interpretation ZeroizeScope_enum: int_enum ZeroizeScope_value ZeroizeScope_members
proof
  show "m \<in> set ZeroizeScope_members" for m
    by (cases m) (simp_all add: ZeroizeScope_members_def)
  show "distinct (map ZeroizeScope_value ZeroizeScope_members)"
    by (simp add: ZeroizeScope_members_def)
qed

interpretation DiagnosticCounterMask_enum: int_enum DiagnosticCounterMask_value DiagnosticCounterMask_members
proof
  show "m \<in> set DiagnosticCounterMask_members" for m
    by (cases m) (simp_all add: DiagnosticCounterMask_members_def)
  show "distinct (map DiagnosticCounterMask_value DiagnosticCounterMask_members)"
    by (simp add: DiagnosticCounterMask_members_def)
qed

lemmas enum_of_defs =
  FrameFlags_of_def ErrorCode_of_def HostCommand_of_def
  SystemState_of_def Mode_of_def TargetReadyMask_of_def
  FaultFlags_of_def Source_of_def EventType_of_def
  SystemCapability_of_def FaultInjectionId_of_def BenchmarkOperationMask_of_def
  SpiCommand_of_def TargetId_of_def SessionState_of_def
  OperationState_of_def TransactionState_of_def RxState_of_def
  SpiCapability_of_def PendingFlags_of_def SecureFlags_of_def
  TestProfile_of_def TestMask_of_def ZeroizeScope_of_def
  DiagnosticCounterMask_of_def

lemma FrameFlags_of_iff [simp]: "FrameFlags_of n = Some m \<longleftrightarrow> FrameFlags_value m = n"
  by (simp add: FrameFlags_of_def FrameFlags_enum.enum_lookup_iff)

lemma ErrorCode_of_iff [simp]: "ErrorCode_of n = Some m \<longleftrightarrow> ErrorCode_value m = n"
  by (simp add: ErrorCode_of_def ErrorCode_enum.enum_lookup_iff)

lemma HostCommand_of_iff [simp]: "HostCommand_of n = Some m \<longleftrightarrow> HostCommand_value m = n"
  by (simp add: HostCommand_of_def HostCommand_enum.enum_lookup_iff)

lemma SystemState_of_iff [simp]: "SystemState_of n = Some m \<longleftrightarrow> SystemState_value m = n"
  by (simp add: SystemState_of_def SystemState_enum.enum_lookup_iff)

lemma Mode_of_iff [simp]: "Mode_of n = Some m \<longleftrightarrow> Mode_value m = n"
  by (simp add: Mode_of_def Mode_enum.enum_lookup_iff)

lemma TargetReadyMask_of_iff [simp]: "TargetReadyMask_of n = Some m \<longleftrightarrow> TargetReadyMask_value m = n"
  by (simp add: TargetReadyMask_of_def TargetReadyMask_enum.enum_lookup_iff)

lemma FaultFlags_of_iff [simp]: "FaultFlags_of n = Some m \<longleftrightarrow> FaultFlags_value m = n"
  by (simp add: FaultFlags_of_def FaultFlags_enum.enum_lookup_iff)

lemma Source_of_iff [simp]: "Source_of n = Some m \<longleftrightarrow> Source_value m = n"
  by (simp add: Source_of_def Source_enum.enum_lookup_iff)

lemma EventType_of_iff [simp]: "EventType_of n = Some m \<longleftrightarrow> EventType_value m = n"
  by (simp add: EventType_of_def EventType_enum.enum_lookup_iff)

lemma SystemCapability_of_iff [simp]: "SystemCapability_of n = Some m \<longleftrightarrow> SystemCapability_value m = n"
  by (simp add: SystemCapability_of_def SystemCapability_enum.enum_lookup_iff)

lemma FaultInjectionId_of_iff [simp]: "FaultInjectionId_of n = Some m \<longleftrightarrow> FaultInjectionId_value m = n"
  by (simp add: FaultInjectionId_of_def FaultInjectionId_enum.enum_lookup_iff)

lemma BenchmarkOperationMask_of_iff [simp]: "BenchmarkOperationMask_of n = Some m \<longleftrightarrow> BenchmarkOperationMask_value m = n"
  by (simp add: BenchmarkOperationMask_of_def BenchmarkOperationMask_enum.enum_lookup_iff)

lemma SpiCommand_of_iff [simp]: "SpiCommand_of n = Some m \<longleftrightarrow> SpiCommand_value m = n"
  by (simp add: SpiCommand_of_def SpiCommand_enum.enum_lookup_iff)

lemma TargetId_of_iff [simp]: "TargetId_of n = Some m \<longleftrightarrow> TargetId_value m = n"
  by (simp add: TargetId_of_def TargetId_enum.enum_lookup_iff)

lemma SessionState_of_iff [simp]: "SessionState_of n = Some m \<longleftrightarrow> SessionState_value m = n"
  by (simp add: SessionState_of_def SessionState_enum.enum_lookup_iff)

lemma OperationState_of_iff [simp]: "OperationState_of n = Some m \<longleftrightarrow> OperationState_value m = n"
  by (simp add: OperationState_of_def OperationState_enum.enum_lookup_iff)

lemma TransactionState_of_iff [simp]: "TransactionState_of n = Some m \<longleftrightarrow> TransactionState_value m = n"
  by (simp add: TransactionState_of_def TransactionState_enum.enum_lookup_iff)

lemma RxState_of_iff [simp]: "RxState_of n = Some m \<longleftrightarrow> RxState_value m = n"
  by (simp add: RxState_of_def RxState_enum.enum_lookup_iff)

lemma SpiCapability_of_iff [simp]: "SpiCapability_of n = Some m \<longleftrightarrow> SpiCapability_value m = n"
  by (simp add: SpiCapability_of_def SpiCapability_enum.enum_lookup_iff)

lemma PendingFlags_of_iff [simp]: "PendingFlags_of n = Some m \<longleftrightarrow> PendingFlags_value m = n"
  by (simp add: PendingFlags_of_def PendingFlags_enum.enum_lookup_iff)

lemma SecureFlags_of_iff [simp]: "SecureFlags_of n = Some m \<longleftrightarrow> SecureFlags_value m = n"
  by (simp add: SecureFlags_of_def SecureFlags_enum.enum_lookup_iff)

lemma TestProfile_of_iff [simp]: "TestProfile_of n = Some m \<longleftrightarrow> TestProfile_value m = n"
  by (simp add: TestProfile_of_def TestProfile_enum.enum_lookup_iff)

lemma TestMask_of_iff [simp]: "TestMask_of n = Some m \<longleftrightarrow> TestMask_value m = n"
  by (simp add: TestMask_of_def TestMask_enum.enum_lookup_iff)

lemma ZeroizeScope_of_iff [simp]: "ZeroizeScope_of n = Some m \<longleftrightarrow> ZeroizeScope_value m = n"
  by (simp add: ZeroizeScope_of_def ZeroizeScope_enum.enum_lookup_iff)

lemma DiagnosticCounterMask_of_iff [simp]: "DiagnosticCounterMask_of n = Some m \<longleftrightarrow> DiagnosticCounterMask_value m = n"
  by (simp add: DiagnosticCounterMask_of_def DiagnosticCounterMask_enum.enum_lookup_iff)

lemma FrameFlags_of_value [simp]: "FrameFlags_of (FrameFlags_value m) = Some m"
  by simp

lemma ErrorCode_of_value [simp]: "ErrorCode_of (ErrorCode_value m) = Some m"
  by simp

lemma HostCommand_of_value [simp]: "HostCommand_of (HostCommand_value m) = Some m"
  by simp

lemma SystemState_of_value [simp]: "SystemState_of (SystemState_value m) = Some m"
  by simp

lemma Mode_of_value [simp]: "Mode_of (Mode_value m) = Some m"
  by simp

lemma TargetReadyMask_of_value [simp]: "TargetReadyMask_of (TargetReadyMask_value m) = Some m"
  by simp

lemma FaultFlags_of_value [simp]: "FaultFlags_of (FaultFlags_value m) = Some m"
  by simp

lemma Source_of_value [simp]: "Source_of (Source_value m) = Some m"
  by simp

lemma EventType_of_value [simp]: "EventType_of (EventType_value m) = Some m"
  by simp

lemma SystemCapability_of_value [simp]: "SystemCapability_of (SystemCapability_value m) = Some m"
  by simp

lemma FaultInjectionId_of_value [simp]: "FaultInjectionId_of (FaultInjectionId_value m) = Some m"
  by simp

lemma BenchmarkOperationMask_of_value [simp]: "BenchmarkOperationMask_of (BenchmarkOperationMask_value m) = Some m"
  by simp

lemma SpiCommand_of_value [simp]: "SpiCommand_of (SpiCommand_value m) = Some m"
  by simp

lemma TargetId_of_value [simp]: "TargetId_of (TargetId_value m) = Some m"
  by simp

lemma SessionState_of_value [simp]: "SessionState_of (SessionState_value m) = Some m"
  by simp

lemma OperationState_of_value [simp]: "OperationState_of (OperationState_value m) = Some m"
  by simp

lemma TransactionState_of_value [simp]: "TransactionState_of (TransactionState_value m) = Some m"
  by simp

lemma RxState_of_value [simp]: "RxState_of (RxState_value m) = Some m"
  by simp

lemma SpiCapability_of_value [simp]: "SpiCapability_of (SpiCapability_value m) = Some m"
  by simp

lemma PendingFlags_of_value [simp]: "PendingFlags_of (PendingFlags_value m) = Some m"
  by simp

lemma SecureFlags_of_value [simp]: "SecureFlags_of (SecureFlags_value m) = Some m"
  by simp

lemma TestProfile_of_value [simp]: "TestProfile_of (TestProfile_value m) = Some m"
  by simp

lemma TestMask_of_value [simp]: "TestMask_of (TestMask_value m) = Some m"
  by simp

lemma ZeroizeScope_of_value [simp]: "ZeroizeScope_of (ZeroizeScope_value m) = Some m"
  by simp

lemma DiagnosticCounterMask_of_value [simp]: "DiagnosticCounterMask_of (DiagnosticCounterMask_value m) = Some m"
  by simp

section \<open>Value ranges\<close>

lemma FrameFlags_value_range [simp]: "0 \<le> FrameFlags_value m" "FrameFlags_value m < 256"
  by (cases m; simp)+

lemma ErrorCode_value_range [simp]: "0 \<le> ErrorCode_value m" "ErrorCode_value m < 65536"
  by (cases m; simp)+

lemma HostCommand_value_range [simp]: "0 \<le> HostCommand_value m" "HostCommand_value m < 256"
  by (cases m; simp)+

lemma SystemState_value_range [simp]: "0 \<le> SystemState_value m" "SystemState_value m < 256"
  by (cases m; simp)+

lemma Mode_value_range [simp]: "0 \<le> Mode_value m" "Mode_value m < 256"
  by (cases m; simp)+

lemma TargetReadyMask_value_range [simp]: "0 \<le> TargetReadyMask_value m" "TargetReadyMask_value m < 256"
  by (cases m; simp)+

lemma FaultFlags_value_range [simp]: "0 \<le> FaultFlags_value m" "FaultFlags_value m < 256"
  by (cases m; simp)+

lemma Source_value_range [simp]: "0 \<le> Source_value m" "Source_value m < 256"
  by (cases m; simp)+

lemma EventType_value_range [simp]: "0 \<le> EventType_value m" "EventType_value m < 256"
  by (cases m; simp)+

lemma SystemCapability_value_range [simp]: "0 \<le> SystemCapability_value m" "SystemCapability_value m < 65536"
  by (cases m; simp)+

lemma FaultInjectionId_value_range [simp]: "0 \<le> FaultInjectionId_value m" "FaultInjectionId_value m < 256"
  by (cases m; simp)+

lemma BenchmarkOperationMask_value_range [simp]: "0 \<le> BenchmarkOperationMask_value m" "BenchmarkOperationMask_value m < 65536"
  by (cases m; simp)+

lemma SpiCommand_value_range [simp]: "0 \<le> SpiCommand_value m" "SpiCommand_value m < 256"
  by (cases m; simp)+

lemma TargetId_value_range [simp]: "0 \<le> TargetId_value m" "TargetId_value m < 256"
  by (cases m; simp)+

lemma SessionState_value_range [simp]: "0 \<le> SessionState_value m" "SessionState_value m < 256"
  by (cases m; simp)+

lemma OperationState_value_range [simp]: "0 \<le> OperationState_value m" "OperationState_value m < 256"
  by (cases m; simp)+

lemma TransactionState_value_range [simp]: "0 \<le> TransactionState_value m" "TransactionState_value m < 256"
  by (cases m; simp)+

lemma RxState_value_range [simp]: "0 \<le> RxState_value m" "RxState_value m < 256"
  by (cases m; simp)+

lemma SpiCapability_value_range [simp]: "0 \<le> SpiCapability_value m" "SpiCapability_value m < 65536"
  by (cases m; simp)+

lemma PendingFlags_value_range [simp]: "0 \<le> PendingFlags_value m" "PendingFlags_value m < 256"
  by (cases m; simp)+

lemma SecureFlags_value_range [simp]: "0 \<le> SecureFlags_value m" "SecureFlags_value m < 256"
  by (cases m; simp)+

lemma TestProfile_value_range [simp]: "0 \<le> TestProfile_value m" "TestProfile_value m < 256"
  by (cases m; simp)+

lemma TestMask_value_range [simp]: "0 \<le> TestMask_value m" "TestMask_value m < 65536"
  by (cases m; simp)+

lemma ZeroizeScope_value_range [simp]: "0 \<le> ZeroizeScope_value m" "ZeroizeScope_value m < 256"
  by (cases m; simp)+

lemma DiagnosticCounterMask_value_range [simp]: "0 \<le> DiagnosticCounterMask_value m" "DiagnosticCounterMask_value m < 4294967296"
  by (cases m; simp)+

end
