(* ===== verification/Errors.thy ===== *)
theory Errors
  imports Protocol_Constants
begin

text \<open>
  The exceptions the host program raises, as values. A constructor is a Python exception class;
  the string is the fixed text of its message (formatted values are left out). The subclass
  relations the \<open>except\<close> clauses rely on are the predicates below: \<open>CobsDecodeError\<close> and
  \<open>ProtocolDecodeError\<close> are \<open>ValueError\<close>s, \<open>RemoteError\<close> is a \<open>HostProtocolError\<close>, which is a
  \<open>RuntimeError\<close>; \<open>struct.error\<close> is a direct subclass of \<open>Exception\<close>.
\<close>

datatype exn =
    ValueError string
  | CobsDecodeError string
  | ProtocolDecodeError error_code string
  | StructError
  | OverflowError
  | IndexError
  | HostProtocolError string
  | RemoteError error_code int int int
  | TimeoutError string
  | OSError string
  | AssertionError string
  | RuntimeError string
  | KeyError string
  | HandlerError

fun is_ValueError :: "exn \<Rightarrow> bool" where
  "is_ValueError (ValueError _) = True"
| "is_ValueError (CobsDecodeError _) = True"
| "is_ValueError (ProtocolDecodeError _ _) = True"
| "is_ValueError _ = False"

fun is_HostProtocolError :: "exn \<Rightarrow> bool" where
  "is_HostProtocolError (HostProtocolError _) = True"
| "is_HostProtocolError (RemoteError _ _ _ _) = True"
| "is_HostProtocolError _ = False"

fun is_RemoteError :: "exn \<Rightarrow> bool" where
  "is_RemoteError (RemoteError _ _ _ _) = True"
| "is_RemoteError _ = False"

fun is_TimeoutError :: "exn \<Rightarrow> bool" where
  "is_TimeoutError (TimeoutError _) = True"
| "is_TimeoutError _ = False"

fun is_OSError :: "exn \<Rightarrow> bool" where
  "is_OSError (OSError _) = True"
| "is_OSError (TimeoutError _) = True"
| "is_OSError _ = False"

text \<open>A fallible pure computation of the program.\<close>

type_synonym 'a result = "exn + 'a"

text \<open>\<open>assert c\<close> before \<open>k\<close>.\<close>

definition assert_that :: "bool \<Rightarrow> 'a result \<Rightarrow> 'a result" where
  "assert_that c k = (if c then k else Inl (AssertionError ''assert''))"

lemma assert_that_eq_Inr [simp]: "assert_that c k = Inr x \<longleftrightarrow> c \<and> k = Inr x"
  by (simp add: assert_that_def)

lemma assert_that_True [simp]: "assert_that True k = k"
  by (simp add: assert_that_def)

end
