(* ===== verification/Cobs.thy ===== *)
theory Cobs
  imports Errors
begin

text \<open>
  Consistent Overhead Byte Stuffing, \<open>pc_host/src/trinity_host/protocol/cobs.py\<close>. The encoder is
  the source's single pass over the data, with the growing output, the index of the code byte that
  is still open and the running code as its state; the decoder is the source's \<open>while\<close> loop over
  an index. A block-by-block reference encoder and decoder serve as the specification: the loops
  are proved equal to them, and the round trip, the absence of zero bytes and the length bounds
  follow.
\<close>

section \<open>The encoder and the decoder of the source\<close>

fun cobs_encode_loop :: "bytes \<Rightarrow> bytes \<Rightarrow> nat \<Rightarrow> nat \<Rightarrow> bytes \<times> nat \<times> nat" where
  "cobs_encode_loop [] out code_index code = (out, code_index, code)"
| "cobs_encode_loop (v # data) out code_index code =
     (if v = 0 then
        (let out1 = out[code_index := of_nat code]
         in cobs_encode_loop data (out1 @ [0]) (length out1) 1)
      else
        (let out1 = out @ [v]; code1 = code + 1
         in if code1 = 255 then
              (let out2 = out1[code_index := of_nat code1]
               in cobs_encode_loop data (out2 @ [0]) (length out2) 1)
            else cobs_encode_loop data out1 code_index code1))"

definition cobs_encode :: "bytes \<Rightarrow> bytes" where
  "cobs_encode data =
     (case cobs_encode_loop data [0] 0 1 of
        (out, code_index, code) \<Rightarrow> out[code_index := of_nat code])"

function cobs_decode_loop :: "bytes \<Rightarrow> nat \<Rightarrow> bytes \<Rightarrow> bytes result" where
  "cobs_decode_loop data index out =
     (if index < length data then
        (let code = data ! index in
         if code = 0 then Inl (CobsDecodeError ''zero code'')
         else
           (let index1 = index + 1; count = unat code - 1 in
            if index1 + count > length data
            then Inl (CobsDecodeError ''COBS block exceeds input'')
            else
              (let out1 = out @ slice index1 (index1 + count) data; index2 = index1 + count in
               cobs_decode_loop data index2
                 (if code \<noteq> 255 \<and> index2 < length data then out1 @ [0] else out1))))
      else Inr out)"
  by pat_completeness auto
termination
  by (relation "measure (\<lambda>(data, index, out). length data - index)") auto

declare cobs_decode_loop.simps [simp del]

definition cobs_decode :: "bytes \<Rightarrow> bytes result" where
  "cobs_decode data =
     check (data = []) (CobsDecodeError ''empty COBS frame'')
    (check (0 \<in> set data) (CobsDecodeError ''encoded COBS frame contains zero'')
    (cobs_decode_loop data 0 []))"

section \<open>Reference: one block at a time\<close>

text \<open>\<open>cobs_ref blk data\<close> is the encoding of \<open>blk @ data\<close> when the block \<open>blk\<close> is still open.\<close>

fun cobs_ref :: "bytes \<Rightarrow> bytes \<Rightarrow> bytes" where
  "cobs_ref blk [] = of_nat (length blk + 1) # blk"
| "cobs_ref blk (v # data) =
     (if v = 0 then (of_nat (length blk + 1) # blk) @ cobs_ref [] data
      else if length blk + 2 = 255 then (255 # blk @ [v]) @ cobs_ref [] data
      else cobs_ref (blk @ [v]) data)"

text \<open>One step of the reference decoder: the first block of a code list and what follows it.\<close>

function cobs_unref :: "bytes \<Rightarrow> bytes option" where
  "cobs_unref [] = Some []"
| "cobs_unref (c # rest) =
     (if c = 0 \<or> length rest < unat c - 1 then None
      else
        (let blk = take (unat c - 1) rest; rest' = drop (unat c - 1) rest in
         map_option (\<lambda>tl. blk @ (if c \<noteq> 255 \<and> rest' \<noteq> [] then [0] else []) @ tl)
           (cobs_unref rest')))"
  by pat_completeness auto
termination
  by (relation "measure length") auto

declare cobs_unref.simps(2) [simp del]

lemma cobs_ref_nonempty [simp]: "cobs_ref blk data \<noteq> []"
  by (induction blk data rule: cobs_ref.induct) auto

section \<open>The loops refine the reference\<close>

lemma cobs_encode_loop_ref:
  assumes "length blk < 254"
  shows "(case cobs_encode_loop data (pre @ x # blk) (length pre) (length blk + 1) of
            (out, ci, code) \<Rightarrow> out[ci := of_nat code]) = pre @ cobs_ref blk data"
  using assms
proof (induction blk data arbitrary: pre x rule: cobs_ref.induct)
  case (1 blk)
  then show ?case by (simp add: list_update_append)
next
  case (2 blk v data)
  consider (zero) "v = 0" | (full) "v \<noteq> 0" "length blk = 253" | (more) "v \<noteq> 0" "length blk \<noteq> 253"
    by blast
  then show ?case
  proof cases
    case zero
    have "cobs_encode_loop (v # data) (pre @ x # blk) (length pre) (length blk + 1) =
      cobs_encode_loop data ((pre @ of_nat (length blk + 1) # blk) @ 0 # [])
        (length (pre @ of_nat (length blk + 1) # blk)) (length ([] :: bytes) + 1)"
      using zero by (simp add: list_update_append)
    then show ?thesis
      using zero "2.IH"(1) [of "pre @ of_nat (length blk + 1) # blk" 0] by simp
  next
    case full
    have "cobs_encode_loop (v # data) (pre @ x # blk) (length pre) (length blk + 1) =
      cobs_encode_loop data ((pre @ 255 # blk @ [v]) @ 0 # [])
        (length (pre @ 255 # blk @ [v])) (length ([] :: bytes) + 1)"
      using full by (simp add: list_update_append)
    then show ?thesis
      using full "2.IH"(2) [of "pre @ 255 # blk @ [v]" 0] by simp
  next
    case more
    then show ?thesis
      using "2.IH"(3) [of pre x] "2.prems" by simp
  qed
qed

lemma cobs_encode_ref: "cobs_encode data = cobs_ref [] data"
  using cobs_encode_loop_ref [of "[]" data "[]" 0] by (simp add: cobs_encode_def)

lemma append_append_fun: "(@) (xs @ ys) = (\<lambda>zs. xs @ ys @ zs)"
  by (rule ext) simp

lemma cobs_decode_loop_unref:
  assumes "index \<le> length data"
  shows "(case cobs_decode_loop data index out of Inl _ \<Rightarrow> None | Inr xs \<Rightarrow> Some xs) =
    map_option (\<lambda>tl. out @ tl) (cobs_unref (drop index data))"
  using assms
proof (induction data index out rule: cobs_decode_loop.induct)
  case (1 data index out)
  show ?case
  proof (cases "index < length data")
    case False
    with "1.prems" show ?thesis by (subst cobs_decode_loop.simps) simp
  next
    case True
    define c where "c = data ! index"
    define n where "n = unat c - 1"
    have dropc: "drop index data = c # drop (index + 1) data"
      using True by (simp add: c_def Cons_nth_drop_Suc)
    show ?thesis
    proof (cases "c = 0 \<or> index + 1 + n > length data")
      case True
      then show ?thesis
        using \<open>index < length data\<close> dropc
        by (auto simp: cobs_decode_loop.simps [of data index] cobs_unref.simps c_def n_def Let_def)
    next
      case False
      define out' where
        "out' = (let out1 = out @ slice (index + 1) (index + 1 + n) data
                 in if c \<noteq> 255 \<and> index + 1 + n < length data then out1 @ [0] else out1)"
      have step: "cobs_decode_loop data index out = cobs_decode_loop data (index + 1 + n) out'"
        using False \<open>index < length data\<close>
        by (simp add: cobs_decode_loop.simps [of data index] c_def n_def out'_def Let_def)
      have IH: "(case cobs_decode_loop data (index + 1 + n) out' of Inl _ \<Rightarrow> None | Inr xs \<Rightarrow> Some xs) =
          map_option (\<lambda>tl. out' @ tl) (cobs_unref (drop (index + 1 + n) data))"
        using False \<open>index < length data\<close>
        unfolding out'_def c_def n_def Let_def
        using False \<open>index < length data\<close>
        by (intro "1.IH" [OF \<open>index < length data\<close> refl _ refl refl _ refl refl])
          (simp_all add: c_def n_def)
      have un: "cobs_unref (c # r) = (if c = 0 \<or> length r < n then None else
          map_option (\<lambda>tl. take n r @ (if c \<noteq> 255 \<and> drop n r \<noteq> [] then [0] else []) @ tl)
            (cobs_unref (drop n r)))" for r
        by (simp only: cobs_unref.simps n_def Let_def)
      have out': "out' = out @ take n (drop (index + 1) data) @
          (if c \<noteq> 255 \<and> drop n (drop (index + 1) data) \<noteq> [] then [0] else [])"
        using False by (auto simp: out'_def Let_def slice_def add.commute)
      have enough: "\<not> length (drop (index + 1) data) < n" using False by simp linarith
      show ?thesis
        unfolding step IH dropc un using False enough
        by (simp add: out' option.map_comp o_def add.commute append_append_fun)
    qed
  qed
qed

section \<open>Properties of the reference\<close>

lemma unat_code_byte: "n < 255 \<Longrightarrow> unat (of_nat (n + 1) :: byte) = n + 1"
  by (subst of_nat_inverse [OF refl]) simp_all

lemma code_byte_nonzero: "n < 255 \<Longrightarrow> (of_nat (n + 1) :: byte) \<noteq> 0"
  using unat_code_byte [of n] by (metis add_is_0 one_neq_zero unat_0)

lemma cobs_unref_block:
  "length blk \<le> 254 \<Longrightarrow> cobs_unref (of_nat (length blk + 1) # blk @ rest) =
     map_option (\<lambda>tl. blk @ (if length blk \<noteq> 254 \<and> rest \<noteq> [] then [0] else []) @ tl) (cobs_unref rest)"
proof -
  assume len: "length blk \<le> 254"
  define c :: byte where "c = of_nat (length blk + 1)"
  have uc: "unat c = length blk + 1"
    using len unat_code_byte [of "length blk"] by (simp add: c_def)
  then have c0: "c \<noteq> 0" by auto
  have c255: "c = 255 \<longleftrightarrow> length blk = 254"
    using uc len by (auto simp: word_unat_eq_iff)
  show ?thesis
    unfolding c_def [symmetric] using c0 by (simp add: cobs_unref.simps uc c255 Let_def)
qed

lemma cobs_unref_ref: "length blk < 254 \<Longrightarrow> cobs_unref (cobs_ref blk data) = Some (blk @ data)"
proof (induction blk data rule: cobs_ref.induct)
  case (1 blk)
  then show ?case using cobs_unref_block [of blk "[]"] by simp
next
  case (2 blk v data)
  show ?case
  proof (cases "v = 0")
    case True
    then show ?thesis
      using "2.prems" "2.IH"(1) cobs_unref_block [of blk "cobs_ref [] data"] by simp
  next
    case False
    then show ?thesis
      using "2.prems" "2.IH"(2,3) cobs_unref_block [of "blk @ [v]" "cobs_ref [] data"] by auto
  qed
qed

lemma cobs_ref_no_zero:
  "length blk < 254 \<Longrightarrow> 0 \<notin> set blk \<Longrightarrow> 0 \<notin> set (cobs_ref blk data)"
proof (induction blk data rule: cobs_ref.induct)
  case (1 blk)
  with code_byte_nonzero [of "length blk"] show ?case by auto
next
  case (2 blk v data)
  with code_byte_nonzero [of "length blk"] show ?case by auto
qed

lemma cobs_ref_length:
  "length (cobs_ref blk data) \<le> length blk + length data + 1 + (length blk + length data) div 254"
proof (induction blk data rule: cobs_ref.induct)
  case (1 blk)
  then show ?case by simp
next
  case (2 blk v data)
  then show ?case by auto
qed

section \<open>Correctness of the encoder and the decoder\<close>

text \<open>
  The laws a framing code owes the wire format: decoding inverts encoding, an encoding is not
  empty and never holds the delimiter \<open>0\<close>, and it is at most \<open>expand n\<close> bytes long for \<open>n\<close> bytes
  of data. The frame layer rests on these laws only.
\<close>

locale framing =
  fixes enc :: "bytes \<Rightarrow> bytes"
    and dec :: "bytes \<Rightarrow> bytes result"
    and expand :: "nat \<Rightarrow> nat"
  assumes dec_enc: "dec (enc xs) = Inr xs"
    and enc_nonempty: "enc xs \<noteq> []"
    and enc_no_zero: "0 \<notin> set (enc xs)"
    and enc_length: "length (enc xs) \<le> expand (length xs)"
begin

lemma enc_inj: "enc xs = enc ys \<Longrightarrow> xs = ys"
  by (metis dec_enc sum.inject(2))

text \<open>A stream of delimited encodings is read back frame by frame: the first zero ends the first.\<close>

lemma takeWhile_delimited: "takeWhile (\<lambda>b. b \<noteq> 0) (enc xs @ 0 # rest) = enc xs"
  using enc_no_zero [of xs] by (subst takeWhile_append2) auto

lemma delimited_inj: "enc xs @ 0 # rest = enc ys @ 0 # rest' \<Longrightarrow> xs = ys \<and> rest = rest'"
  by (metis append_same_eq enc_inj list.inject same_append_eq takeWhile_delimited)

lemma concat_delimited_inj:
  "concat (map (\<lambda>xs. enc xs @ [0]) xss) = concat (map (\<lambda>xs. enc xs @ [0]) yss) \<Longrightarrow> xss = yss"
proof (induction xss arbitrary: yss)
  case Nil
  then show ?case by (cases yss) auto
next
  case (Cons xs xss)
  then obtain ys yss' where "yss = ys # yss'" by (cases yss) auto
  with Cons.prems have "xs = ys \<and>
      concat (map (\<lambda>xs. enc xs @ [0]) xss) = concat (map (\<lambda>xs. enc xs @ [0]) yss')"
    by (intro delimited_inj) simp
  with Cons.IH \<open>yss = ys # yss'\<close> show ?case by blast
qed

end

interpretation cobs: framing cobs_encode cobs_decode "\<lambda>n. n + 1 + n div 254"
proof
  fix xs :: bytes
  have nz: "0 \<notin> set (cobs_encode xs)"
    using cobs_ref_no_zero [of "[]" xs] by (simp add: cobs_encode_ref)
  have ne: "cobs_encode xs \<noteq> []" by (simp add: cobs_encode_ref)
  have "(case cobs_decode_loop (cobs_encode xs) 0 [] of Inl _ \<Rightarrow> None | Inr ys \<Rightarrow> Some ys) = Some xs"
    using cobs_decode_loop_unref [of 0 "cobs_encode xs" "[]"] cobs_unref_ref [of "[]" xs]
    by (simp add: cobs_encode_ref)
  then show "cobs_decode (cobs_encode xs) = Inr xs"
    using nz ne by (simp add: cobs_decode_def split: sum.splits)
  show "cobs_encode xs \<noteq> []" and "0 \<notin> set (cobs_encode xs)" by (fact ne nz)+
  show "length (cobs_encode xs) \<le> length xs + 1 + length xs div 254"
    using cobs_ref_length [of "[]" xs] by (simp add: cobs_encode_ref)
qed

section \<open>What the decoder accepts\<close>

lemma cobs_decode_eq_unref:
  "cobs_decode data = Inr ys \<longleftrightarrow> data \<noteq> [] \<and> 0 \<notin> set data \<and> cobs_unref data = Some ys"
proof -
  have "(case cobs_decode_loop data 0 [] of Inl _ \<Rightarrow> None | Inr xs \<Rightarrow> Some xs) = cobs_unref data"
    using cobs_decode_loop_unref [of 0 data "[]"] by (simp add: option.map_ident)
  then show ?thesis
    by (auto simp: cobs_decode_def split: sum.splits)
qed

lemma cobs_unref_length: "cobs_unref bs = Some ys \<Longrightarrow> length ys \<le> length bs - 1"
proof (induction bs arbitrary: ys rule: cobs_unref.induct)
  case 1
  then show ?case by simp
next
  case (2 c rest)
  define n where "n = unat c - 1"
  from "2.prems" have ok: "c \<noteq> 0" "n \<le> length rest"
    by (auto simp: cobs_unref.simps n_def split: if_splits)
  obtain tl where
    tl: "cobs_unref (drop n rest) = Some tl" and
    ys: "ys = take n rest @ (if c \<noteq> 255 \<and> drop n rest \<noteq> [] then [0] else []) @ tl"
    using "2.prems" [unfolded cobs_unref.simps, folded n_def, unfolded Let_def]
    by (auto split: if_splits)
  from tl have "length tl \<le> length rest - n - 1"
    using "2.IH" [OF _ refl refl] ok by (simp add: n_def)
  then show ?case using ys ok by auto
qed

lemma cobs_decode_length: "cobs_decode data = Inr ys \<Longrightarrow> length ys < length data"
  using cobs_unref_length [of data ys] by (cases data) (auto simp: cobs_decode_eq_unref)

end
