(* ===== verification/Checksum.thy ===== *)
theory Checksum
  imports Errors
begin

text \<open>
  \<open>pc_host/src/trinity_host/protocol/crc.py\<close>: CRC-16/CCITT-FALSE (frame trailers) and CRC-32C
  (request fingerprints), with Python's unbounded integers and its explicit masks. Each bit loop
  is proved equal to a shift register on \<open>16 word\<close> and \<open>32 word\<close>. The error-detection laws are
  stated once for a byte-driven shift register (\<open>crc_register\<close>), whose two injectivity laws both
  CRCs satisfy; \<open>checksum\<close> is the contract the frame layer uses.
\<close>

section \<open>The functions of the source\<close>

definition crc16_shift :: "int \<Rightarrow> int" where
  "crc16_shift crc =
     (if crc AND 0x8000 \<noteq> 0 then (push_bit 1 crc XOR 0x1021) AND 0xFFFF
      else push_bit 1 crc AND 0xFFFF)"

definition crc16_byte :: "int \<Rightarrow> byte \<Rightarrow> int" where
  "crc16_byte crc v = (crc16_shift ^^ 8) (crc XOR push_bit 8 (uint v))"

definition crc16_ccitt_false_from :: "int \<Rightarrow> bytes \<Rightarrow> int" where
  "crc16_ccitt_false_from init data = foldl crc16_byte (init AND 0xFFFF) data"

definition crc16_ccitt_false :: "bytes \<Rightarrow> int" where
  "crc16_ccitt_false data = crc16_ccitt_false_from 0xFFFF data"

definition crc32c_shift :: "int \<Rightarrow> int" where
  "crc32c_shift crc =
     (if crc AND 1 \<noteq> 0 then drop_bit 1 crc XOR 0x82F63B78 else drop_bit 1 crc)"

definition crc32c_byte :: "int \<Rightarrow> byte \<Rightarrow> int" where
  "crc32c_byte crc v = (crc32c_shift ^^ 8) (crc XOR uint v)"

definition crc32c_from :: "int \<Rightarrow> bytes \<Rightarrow> int" where
  "crc32c_from init data = foldl crc32c_byte (init AND 0xFFFFFFFF) data XOR 0xFFFFFFFF"

definition crc32c :: "bytes \<Rightarrow> int" where
  "crc32c data = crc32c_from 0xFFFFFFFF data"

section \<open>Shift registers on machine words\<close>

definition crc16_shift_w :: "16 word \<Rightarrow> 16 word" where
  "crc16_shift_w c = push_bit 1 c XOR (if bit c 15 then 0x1021 else 0)"

definition crc16_byte_w :: "16 word \<Rightarrow> byte \<Rightarrow> 16 word" where
  "crc16_byte_w c v = (crc16_shift_w ^^ 8) (c XOR push_bit 8 (ucast v))"

definition crc32c_shift_w :: "32 word \<Rightarrow> 32 word" where
  "crc32c_shift_w c = drop_bit 1 c XOR (if bit c 0 then 0x82F63B78 else 0)"

definition crc32c_byte_w :: "32 word \<Rightarrow> byte \<Rightarrow> 32 word" where
  "crc32c_byte_w c v = (crc32c_shift_w ^^ 8) (c XOR ucast v)"

lemma int_and_8000: "(x :: int) AND 0x8000 \<noteq> 0 \<longleftrightarrow> bit x 15"
  using and_exp_eq_0_iff_not_bit [of x 15] by simp

lemma int_and_1: "(x :: int) AND 1 \<noteq> 0 \<longleftrightarrow> bit x 0"
  by (simp add: and_one_eq bit_0 odd_iff_mod_2_eq_one)

lemma crc16_shift_word: "crc16_shift (uint c) = uint (crc16_shift_w c)"
proof -
  have "crc16_shift (uint c) = take_bit 16 (push_bit 1 (uint c) XOR (if bit c 15 then 0x1021 else 0))"
    by (simp add: crc16_shift_def int_and_8000 take_bit_eq_mod bit_uint_iff)
  also have "\<dots> = uint (crc16_shift_w c)"
    by (simp add: crc16_shift_w_def unsigned_xor_eq unsigned_push_bit_eq take_bit_xor
          uint_word_arith_bintrs)
  finally show ?thesis .
qed

lemma crc32c_shift_word: "crc32c_shift (uint c) = uint (crc32c_shift_w c)"
  by (simp add: crc32c_shift_def crc32c_shift_w_def int_and_1 bit_uint_iff unsigned_xor_eq
      unsigned_drop_bit_eq bintr_uint)

lemma funpow_word:
  fixes f :: "int \<Rightarrow> int" and g :: "'a::len word \<Rightarrow> 'a word"
  shows "(\<And>c. f (uint c) = uint (g c)) \<Longrightarrow> (f ^^ n) (uint c) = uint ((g ^^ n) c)"
  by (induction n) simp_all

lemma crc16_byte_word: "crc16_byte (uint c) v = uint (crc16_byte_w c v)"
proof -
  have "push_bit 8 (uint v) = uint (push_bit 8 (ucast v :: 16 word))"
    using uint_byte_lt [of v]
    by (simp add: uint_word_arith_bintrs unsigned_ucast_eq bintr_uint take_bit_int_eq_self
        push_bit_eq_mult del: uint_byte_lt)
  then have "uint c XOR push_bit 8 (uint v) = uint (c XOR push_bit 8 (ucast v))"
    by (simp add: unsigned_xor_eq)
  then show ?thesis
    by (simp add: crc16_byte_def crc16_byte_w_def funpow_word [where f = crc16_shift and g = crc16_shift_w, OF crc16_shift_word])
qed

lemma crc32c_byte_word: "crc32c_byte (uint c) v = uint (crc32c_byte_w c v)"
proof -
  have "uint v = uint (ucast v :: 32 word)"
    by (simp add: unsigned_ucast_eq bintr_uint)
  then have "uint c XOR uint v = uint (c XOR ucast v)"
    by (simp add: unsigned_xor_eq)
  then show ?thesis
    by (simp add: crc32c_byte_def crc32c_byte_w_def funpow_word [where f = crc32c_shift and g = crc32c_shift_w, OF crc32c_shift_word])
qed

lemma foldl_word:
  fixes g :: "'a::len word \<Rightarrow> 'b \<Rightarrow> 'a word"
  shows "(\<And>c v. f (uint c) v = uint (g c v)) \<Longrightarrow> foldl f (uint c) vs = uint (foldl g c vs)"
  by (induction vs arbitrary: c) simp_all

lemma crc16_word:
  "crc16_ccitt_false_from init data = uint (foldl crc16_byte_w (word_of_int init) data)"
proof -
  have "init AND 0xFFFF = uint (word_of_int init :: 16 word)"
    by (simp add: uint_word_of_int)
  then show ?thesis
    by (simp only: crc16_ccitt_false_from_def foldl_word [where f = crc16_byte and g = crc16_byte_w, OF crc16_byte_word])
qed

lemma crc32c_word:
  "crc32c_from init data = uint (NOT (foldl crc32c_byte_w (word_of_int init) data))"
proof -
  have "init AND 0xFFFFFFFF = uint (word_of_int init :: 32 word)"
    using int_and_mask [of init 32] by (simp add: uint_word_of_int mask_eq_exp_minus_1)
  moreover have "uint w XOR 0xFFFFFFFF = uint (NOT w)" for w :: "32 word"
  proof -
    have ones: "(0xFFFFFFFF :: 32 word) = mask 32" by (simp add: mask_eq_exp_minus_1)
    have "NOT w = w XOR 0xFFFFFFFF" unfolding ones by (rule bit_word_eqI) (simp add: bit_simps)
    then show ?thesis by (simp add: unsigned_xor_eq)
  qed
  ultimately show ?thesis
    by (simp only: crc32c_from_def foldl_word [where f = crc32c_byte and g = crc32c_byte_w, OF crc32c_byte_word])
qed

section \<open>Error detection by a byte-driven register\<close>

text \<open>
  A register whose step can be undone, and whose step tells two input bytes apart, notices any
  substitution of a single byte; if two steps also tell two pairs of bytes apart, it notices any
  change confined to two neighbouring bytes (so any error burst of at most nine bits).
\<close>

locale crc_register =
  fixes step :: "'s \<Rightarrow> byte \<Rightarrow> 's"
  assumes step_inj_state: "step s b = step t b \<Longrightarrow> s = t"
    and step_inj_byte: "step s b = step s c \<Longrightarrow> b = c"
begin

lemma foldl_step_inj: "foldl step s xs = foldl step t xs \<Longrightarrow> s = t"
  by (induction xs arbitrary: s t) (auto dest: step_inj_state)

lemma single_substitution_detected:
  "b \<noteq> c \<Longrightarrow> foldl step s (xs @ b # ys) \<noteq> foldl step s (xs @ c # ys)"
  using foldl_step_inj [of "step (foldl step s xs) b" ys "step (foldl step s xs) c"]
  by (auto dest: step_inj_byte)

end

locale burst_register = crc_register +
  assumes step2_inj: "step (step s b1) b2 = step (step s c1) c2 \<Longrightarrow> b1 = c1 \<and> b2 = c2"
begin

lemma burst_detected:
  "(b1, b2) \<noteq> (c1, c2) \<Longrightarrow> foldl step s (xs @ b1 # b2 # ys) \<noteq> foldl step s (xs @ c1 # c2 # ys)"
  using foldl_step_inj [of "step (step (foldl step s xs) b1) b2" ys
      "step (step (foldl step s xs) c1) c2"]
  by (auto dest: step2_inj)

end

subsection \<open>Both CRCs are such registers\<close>

lemma crc16_shift_w_xor: "crc16_shift_w (c XOR d) = crc16_shift_w c XOR crc16_shift_w d"
  by (rule bit_eqI) (auto simp: crc16_shift_w_def bit_simps)

lemma crc32c_shift_w_xor: "crc32c_shift_w (c XOR d) = crc32c_shift_w c XOR crc32c_shift_w d"
  by (rule bit_eqI) (auto simp: crc32c_shift_w_def bit_simps)

lemma funpow_xor:
  fixes f :: "'a::len word \<Rightarrow> 'a word"
  shows "(\<And>c d. f (c XOR d) = f c XOR f d) \<Longrightarrow> (f ^^ n) (c XOR d) = (f ^^ n) c XOR (f ^^ n) d"
  by (induction n) simp_all

lemma crc16_shift_w_kernel: "crc16_shift_w c = 0 \<Longrightarrow> c = 0"
proof (rule bit_word_eqI)
  fix n
  assume z: "crc16_shift_w c = 0" and n: "n < LENGTH(16)"
  have "bit (crc16_shift_w c) 0 = bit c 15" by (simp add: crc16_shift_w_def bit_0 even_xor_iff)
  then have top: "\<not> bit c 15" using z by simp
  then have "bit (crc16_shift_w c) (Suc n) = (Suc n < 16 \<and> bit c n)"
    by (simp add: crc16_shift_w_def bit_simps del: push_bit_numeral push_bit_Suc)
  with z top n show "bit c n = bit 0 n" by (cases "n = 15") auto
qed

lemma crc32c_shift_w_kernel: "crc32c_shift_w c = 0 \<Longrightarrow> c = 0"
proof (rule bit_word_eqI)
  fix n
  assume z: "crc32c_shift_w c = 0" and n: "n < LENGTH(32)"
  have "bit (crc32c_shift_w c) 31 = bit c 0"
    using bit_imp_le_length [of c 32] by (auto simp: crc32c_shift_w_def bit_simps)
  then have low: "\<not> bit c 0" using z by simp
  then have "bit (crc32c_shift_w c) m = bit c (Suc m)" for m
    by (simp add: crc32c_shift_w_def bit_simps)
  with z low show "bit c n = bit 0 n" by (cases n) auto
qed

lemma xor_cancel_left: "(s :: 'a::len word) XOR x = s XOR y \<longleftrightarrow> x = y"
  by (metis xor.assoc xor.left_neutral xor_self_eq)

lemma xor_cancel_right: "(x :: 'a::len word) XOR s = y XOR s \<longleftrightarrow> x = y"
  by (metis xor.assoc xor.right_neutral xor_self_eq)

lemma xor_move:
  fixes a b x y :: "'a::len word"
  assumes "a XOR x = b XOR y"
  shows "a XOR b = x XOR y"
proof (rule bit_word_eqI)
  fix n
  have "bit (a XOR x) n = bit (b XOR y) n" using assms by simp
  then show "bit (a XOR b) n = bit (x XOR y) n" by (auto simp: bit_xor_iff)
qed

lemma xor_zero_eq: "(a :: 'a::len word) XOR b = 0 \<Longrightarrow> a = b"
  using xor_cancel_left [of a b a] by simp

lemma linear_inj:
  fixes f :: "'a::len word \<Rightarrow> 'a word"
  assumes "\<And>c d. f (c XOR d) = f c XOR f d" and "\<And>c. f c = 0 \<Longrightarrow> c = 0"
  shows "inj f"
proof (rule injI)
  fix c d assume "f c = f d"
  then have "f (c XOR d) = 0" by (simp add: assms(1))
  then have "c XOR d = 0" by (rule assms(2))
  then show "c = d" by (rule xor_zero_eq)
qed

lemma crc16_shift8_inj: "(crc16_shift_w ^^ 8) c = (crc16_shift_w ^^ 8) d \<longleftrightarrow> c = d"
  using inj_fn [OF linear_inj [OF crc16_shift_w_xor crc16_shift_w_kernel], of 8]
  by (auto dest: injD)

lemma crc32c_shift8_inj: "(crc32c_shift_w ^^ 8) c = (crc32c_shift_w ^^ 8) d \<longleftrightarrow> c = d"
  using inj_fn [OF linear_inj [OF crc32c_shift_w_xor crc32c_shift_w_kernel], of 8]
  by (auto dest: injD)

lemma crc16_high_byte_inj: "push_bit 8 (ucast b :: 16 word) = push_bit 8 (ucast c) \<longleftrightarrow> b = (c :: byte)"
proof
  assume "push_bit 8 (ucast b :: 16 word) = push_bit 8 (ucast c)"
  then have eq: "bit (push_bit 8 (ucast b :: 16 word)) (n + 8) = bit (push_bit 8 (ucast c :: 16 word)) (n + 8)" for n
    by simp
  show "b = c"
  proof (rule bit_word_eqI)
    fix n assume "n < LENGTH(8)"
    then show "bit b n = bit c n"
      using eq [of n] by (simp add: bit_push_bit_iff bit_ucast_iff)
  qed
qed simp

lemma crc32c_low_byte_inj: "(ucast b :: 32 word) = ucast c \<longleftrightarrow> b = (c :: byte)"
proof
  assume "(ucast b :: 32 word) = ucast c"
  then have eq: "bit (ucast b :: 32 word) n = bit (ucast c :: 32 word) n" for n by simp
  show "b = c"
  proof (rule bit_word_eqI)
    fix n assume "n < LENGTH(8)"
    then show "bit b n = bit c n" using eq [of n] by (simp add: bit_ucast_iff)
  qed
qed simp

text \<open>
  Neighbouring bytes: when the bits that the last \<open>n\<close> shifts fed back are all zero, no shift fed
  anything back, so the register is the plain shift of its start value. Hence a nonzero first
  difference leaves a difference outside the byte that the next input byte can cancel.
\<close>

lemma crc16_no_feedback:
  "n \<le> 16 \<Longrightarrow> \<forall>k<n. \<not> bit ((crc16_shift_w ^^ n) c) k \<Longrightarrow>
     (crc16_shift_w ^^ n) c = push_bit n c \<and> (\<forall>k<n. \<not> bit c (15 - k))"
proof (induction n)
  case 0
  show ?case by simp
next
  case (Suc n)
  define y where "y = (crc16_shift_w ^^ n) c"
  have "bit (crc16_shift_w y) 0 = bit y 15" by (simp add: crc16_shift_w_def bit_0 even_xor_iff)
  moreover have "\<not> bit (crc16_shift_w y) 0" using Suc.prems(2) by (auto simp: y_def)
  ultimately have top: "\<not> bit y 15" by blast
  then have shift: "crc16_shift_w y = push_bit 1 y" by (simp add: crc16_shift_w_def)
  have low: "\<not> bit y k" if "k < n" for k
  proof -
    have "\<not> bit ((crc16_shift_w ^^ Suc n) c) (Suc k)"
      using that by (intro Suc.prems(2) [rule_format]) simp
    then have "\<not> bit (push_bit 1 y) (Suc k)" using shift by (simp add: y_def)
    then show ?thesis using that Suc.prems(1) unfolding bit_push_bit_iff by simp
  qed
  then have IH: "y = push_bit n c" "\<forall>k<n. \<not> bit c (15 - k)"
    using Suc by (auto simp: y_def)
  have "\<not> bit c (15 - n)"
    using top Suc.prems(1) unfolding IH(1) bit_push_bit_iff by simp
  then have "\<forall>k<Suc n. \<not> bit c (15 - k)" using IH(2) less_Suc_eq by auto
  moreover have "(crc16_shift_w ^^ Suc n) c = push_bit (Suc n) c"
    using shift IH(1) by (simp add: y_def [symmetric] push_bit_push_bit del: push_bit_eq_mult)
  ultimately show ?case by blast
qed

lemma crc32c_no_feedback:
  "n \<le> 32 \<Longrightarrow> \<forall>k<n. \<not> bit ((crc32c_shift_w ^^ n) c) (31 - k) \<Longrightarrow>
     (crc32c_shift_w ^^ n) c = drop_bit n c \<and> (\<forall>k<n. \<not> bit c k)"
proof (induction n)
  case 0
  show ?case by simp
next
  case (Suc n)
  define y where "y = (crc32c_shift_w ^^ n) c"
  have "bit (crc32c_shift_w y) 31 = bit y 0"
    using bit_imp_le_length [of y 32] by (auto simp: crc32c_shift_w_def bit_simps)
  moreover have "\<not> bit (crc32c_shift_w y) 31" using Suc.prems(2) by (auto simp: y_def)
  ultimately have low: "\<not> bit y 0" by blast
  then have shift: "crc32c_shift_w y = drop_bit 1 y" by (simp add: crc32c_shift_w_def)
  have top: "\<not> bit y (31 - k)" if "k < n" for k
  proof -
    have "\<not> bit ((crc32c_shift_w ^^ Suc n) c) (31 - Suc k)"
      using that by (intro Suc.prems(2) [rule_format]) simp
    then have "\<not> bit (drop_bit 1 y) (31 - Suc k)" using shift by (simp add: y_def)
    moreover have "1 + (31 - Suc k) = 31 - k" using that Suc.prems(1) by simp
    ultimately show ?thesis by (simp only: bit_drop_bit_eq o_def) simp
  qed
  then have IH: "y = drop_bit n c" "\<forall>k<n. \<not> bit c k"
    using Suc by (auto simp: y_def)
  have "\<not> bit c n" using low unfolding IH(1) bit_drop_bit_eq by simp
  then have "\<forall>k<Suc n. \<not> bit c k" using IH(2) less_Suc_eq by auto
  moreover have "(crc32c_shift_w ^^ Suc n) c = drop_bit (Suc n) c"
    using shift IH(1) by (simp add: y_def [symmetric])
  ultimately show ?case by blast
qed

lemma crc16_plain_shift:
  "n \<le> 16 \<Longrightarrow> \<forall>k<n. \<not> bit c (15 - k) \<Longrightarrow> (crc16_shift_w ^^ n) c = push_bit n c"
proof (induction n)
  case 0
  show ?case by simp
next
  case (Suc n)
  then have IH: "(crc16_shift_w ^^ n) c = push_bit n c" by auto
  have "\<not> bit c (15 - n)" using Suc.prems(2) by auto
  then have "\<not> bit (push_bit n c) 15" unfolding bit_push_bit_iff by simp
  then have "crc16_shift_w (push_bit n c) = push_bit 1 (push_bit n c)"
    by (simp add: crc16_shift_w_def)
  then show ?case by (simp add: IH push_bit_push_bit)
qed

interpretation crc16: burst_register crc16_byte_w
proof
  fix s t :: "16 word" and b c b1 b2 c1 c2 :: byte
  show "crc16_byte_w s b = crc16_byte_w t b \<Longrightarrow> s = t"
    by (simp add: crc16_byte_w_def crc16_shift8_inj xor_cancel_right)
  show "crc16_byte_w s b = crc16_byte_w s c \<Longrightarrow> b = c"
    by (simp only: crc16_byte_w_def crc16_shift8_inj xor_cancel_left crc16_high_byte_inj)
  assume eq: "crc16_byte_w (crc16_byte_w s b1) b2 = crc16_byte_w (crc16_byte_w s c1) c2"
  define hi :: "byte \<Rightarrow> 16 word" where "hi = (\<lambda>b. push_bit 8 (ucast b))"
  have hi_xor: "hi (x XOR y) = hi x XOR hi y" for x y
    by (rule bit_eqI) (auto simp: hi_def bit_simps)
  let ?f = "crc16_shift_w ^^ 8"
  have f_xor: "?f (x XOR y) = ?f x XOR ?f y" for x y by (rule funpow_xor [OF crc16_shift_w_xor])
  have "?f s XOR (?f (hi b1) XOR hi b2) = ?f s XOR (?f (hi c1) XOR hi c2)"
  proof -
    have "?f (s XOR hi b1) XOR hi b2 = ?f (s XOR hi c1) XOR hi c2"
      using eq by (simp only: crc16_byte_w_def crc16_shift8_inj hi_def)
    then show ?thesis by (simp only: f_xor xor.assoc)
  qed
  then have "?f (hi b1) XOR hi b2 = ?f (hi c1) XOR hi c2" by (simp only: xor_cancel_left)
  then have diff: "?f (hi (b1 XOR c1)) = hi (b2 XOR c2)"
    unfolding hi_xor f_xor by (rule xor_move)
  have "\<forall>k<8. \<not> bit (?f (hi (b1 XOR c1))) k"
    by (simp only: diff) (simp add: hi_def bit_push_bit_iff del: push_bit_numeral)
  then have "\<forall>k<8. \<not> bit (hi (b1 XOR c1)) (15 - k)"
    using crc16_no_feedback [of 8 "hi (b1 XOR c1)"] by simp
  then have "\<not> bit (b1 XOR c1) k" if "k < 8" for k
    using that spec [where x = "7 - k", of "\<lambda>k. k < 8 \<longrightarrow> \<not> bit (hi (b1 XOR c1)) (15 - k)"]
    unfolding hi_def bit_push_bit_iff bit_ucast_iff by simp
  then have "b1 XOR c1 = 0" by (intro bit_word_eqI) simp
  then have "b1 = c1" by (rule xor_zero_eq)
  moreover have "b2 = c2"
    using eq \<open>b1 = c1\<close> by (simp only: crc16_byte_w_def crc16_shift8_inj xor_cancel_left crc16_high_byte_inj)
  ultimately show "b1 = c1 \<and> b2 = c2" by blast
qed

interpretation crc32: burst_register crc32c_byte_w
proof
  fix s t :: "32 word" and b c b1 b2 c1 c2 :: byte
  show "crc32c_byte_w s b = crc32c_byte_w t b \<Longrightarrow> s = t"
    by (simp add: crc32c_byte_w_def crc32c_shift8_inj xor_cancel_right)
  show "crc32c_byte_w s b = crc32c_byte_w s c \<Longrightarrow> b = c"
    by (simp only: crc32c_byte_w_def crc32c_shift8_inj xor_cancel_left crc32c_low_byte_inj)
  assume eq: "crc32c_byte_w (crc32c_byte_w s b1) b2 = crc32c_byte_w (crc32c_byte_w s c1) c2"
  define lo :: "byte \<Rightarrow> 32 word" where "lo = ucast"
  have lo_xor: "lo (x XOR y) = lo x XOR lo y" for x y
    by (rule bit_eqI) (auto simp: lo_def bit_simps)
  let ?f = "crc32c_shift_w ^^ 8"
  have f_xor: "?f (x XOR y) = ?f x XOR ?f y" for x y by (rule funpow_xor [OF crc32c_shift_w_xor])
  have "?f s XOR (?f (lo b1) XOR lo b2) = ?f s XOR (?f (lo c1) XOR lo c2)"
  proof -
    have "?f (s XOR lo b1) XOR lo b2 = ?f (s XOR lo c1) XOR lo c2"
      using eq by (simp only: crc32c_byte_w_def crc32c_shift8_inj lo_def)
    then show ?thesis by (simp only: f_xor xor.assoc)
  qed
  then have "?f (lo b1) XOR lo b2 = ?f (lo c1) XOR lo c2" by (simp only: xor_cancel_left)
  then have diff: "?f (lo (b1 XOR c1)) = lo (b2 XOR c2)"
    unfolding lo_xor f_xor by (rule xor_move)
  have "\<forall>k<8. \<not> bit (?f (lo (b1 XOR c1))) (31 - k)"
    by (simp only: diff) (auto simp: lo_def bit_ucast_iff dest: bit_imp_le_length)
  then have "\<forall>k<8. \<not> bit (lo (b1 XOR c1)) k"
    using crc32c_no_feedback [of 8 "lo (b1 XOR c1)"] by simp
  then have "b1 XOR c1 = 0" unfolding lo_def bit_ucast_iff by (intro bit_word_eqI) simp
  then have "b1 = c1" by (rule xor_zero_eq)
  moreover have "b2 = c2"
    using eq \<open>b1 = c1\<close> by (simp only: crc32c_byte_w_def crc32c_shift8_inj xor_cancel_left crc32c_low_byte_inj)
  ultimately show "b1 = c1 \<and> b2 = c2" by blast
qed

section \<open>The contracts the protocol layer uses\<close>

text \<open>
  \<open>sealed ck width p\<close>: the last \<open>width\<close> bytes of \<open>p\<close> are the big-endian checksum of what comes before
  them. This is the test of both frame decoders. The contract of a trailer code: sealing a body
  makes it sealed, and no sealed packet stays sealed when one byte, or two neighbouring bytes, of
  it change, wherever they are, the checksum itself included.
\<close>

definition sealed :: "(bytes \<Rightarrow> int) \<Rightarrow> nat \<Rightarrow> bytes \<Rightarrow> bool" where
  "sealed ck width p \<longleftrightarrow>
     width \<le> length p \<and> be_int (drop (length p - width) p) = ck (take (length p - width) p)"

locale trailer_code =
  fixes ck :: "bytes \<Rightarrow> int"
    and width :: nat
  assumes ck_range: "0 \<le> ck body \<and> ck body < 256 ^ width"
    and sealed_single: "sealed ck width (xs @ b # ys) \<Longrightarrow> b \<noteq> c \<Longrightarrow> \<not> sealed ck width (xs @ c # ys)"
    and sealed_burst: "sealed ck width (xs @ b1 # b2 # ys) \<Longrightarrow> (b1, b2) \<noteq> (c1, c2) \<Longrightarrow>
      \<not> sealed ck width (xs @ c1 # c2 # ys)"
begin

lemma seal_sealed: "sealed ck width (body @ to_be width (ck body))"
  using ck_range [of body] by (simp add: sealed_def)

lemma sealed_decompose:
  "sealed ck width p \<longleftrightarrow> (\<exists>body. p = body @ to_be width (ck body))"
proof
  assume s: "sealed ck width p"
  define body where "body = take (length p - width) p"
  define t where "t = drop (length p - width) p"
  have "length t = width" and "be_int t = ck body"
    using s by (auto simp: sealed_def body_def t_def)
  then have "t = to_be width (ck body)" by (metis to_be_be_int)
  then show "\<exists>body. p = body @ to_be width (ck body)"
    by (metis append_take_drop_id body_def t_def)
qed (auto simp: seal_sealed)

lemma sealed_update:
  "sealed ck width p \<Longrightarrow> i < length p \<Longrightarrow> p ! i \<noteq> c \<Longrightarrow> \<not> sealed ck width (p[i := c])"
  by (metis id_take_nth_drop sealed_single upd_conv_take_nth_drop)

end

definition crc16_residue :: "bytes \<Rightarrow> 16 word" where
  "crc16_residue p = foldl crc16_byte_w 0xFFFF p"

lemma crc16_trailer_clears:
  "foldl crc16_byte_w s (to_be 2 (uint s)) = 0"
proof -
  define h l :: byte where "h = word_of_int (uint s div 256)" and "l = word_of_int (uint s)"
  have tb: "to_be 2 (uint s) = [h, l]" by (simp add: numeral_2_eq_2 h_def l_def)
  have s: "s = push_bit 8 (ucast h) XOR ucast l"
  proof (rule bit_word_eqI)
    fix n assume "n < LENGTH(16)"
    moreover have "bit h k = bit s (k + 8)" if "k < 8" for k
      using that by (simp add: h_def bit_word_of_int_iff bit_uint_iff drop_bit_eq_div [of 8, symmetric, simplified]
          bit_drop_bit_eq add.commute)
    moreover have "bit l k = bit s k" if "k < 8" for k
      using that by (simp add: l_def bit_ucast_iff)
    ultimately show "bit s n = bit (push_bit 8 (ucast h) XOR ucast l :: 16 word) n"
      unfolding bit_xor_iff bit_push_bit_iff bit_ucast_iff
      using bit_imp_le_length [of l n] by (cases "n < 8") auto
  qed
  have plain: "(crc16_shift_w ^^ 8) (ucast l) = push_bit 8 (ucast l)"
    by (rule crc16_plain_shift) (auto simp: bit_ucast_iff dest: bit_imp_le_length)
  have "crc16_byte_w s h = push_bit 8 (ucast l)"
    unfolding crc16_byte_w_def by (subst s) (simp add: plain xor.assoc xor.commute xor.left_commute del: push_bit_numeral)
  moreover have "(crc16_shift_w ^^ 8) 0 = 0"
    using crc16_plain_shift [of 8 0] by simp
  ultimately show ?thesis by (simp add: tb crc16_byte_w_def)
qed

lemma crc16_sealed_residue:
  "sealed crc16_ccitt_false 2 p \<longleftrightarrow> 2 \<le> length p \<and> crc16_residue p = 0"
proof (cases "2 \<le> length p")
  case True
  define body t where "body = take (length p - 2) p" and "t = drop (length p - 2) p"
  have p: "p = body @ t" and t: "length t = 2" using True by (auto simp: body_def t_def)
  define s where "s = foldl crc16_byte_w 0xFFFF body"
  have ck: "crc16_ccitt_false body = uint s"
    by (simp add: crc16_ccitt_false_def crc16_word s_def)
  have "sealed crc16_ccitt_false 2 p \<longleftrightarrow> be_int t = uint s"
    using t by (simp add: sealed_def p ck)
  also have "\<dots> \<longleftrightarrow> t = to_be 2 (uint s)"
    using uint_lt2p [of s] by (intro be_int_eq_iff t) simp_all
  also have "\<dots> \<longleftrightarrow> foldl crc16_byte_w s t = 0"
  proof
    assume "foldl crc16_byte_w s t = 0"
    then have eq: "foldl crc16_byte_w s t = foldl crc16_byte_w s (to_be 2 (uint s))"
      by (simp add: crc16_trailer_clears)
    obtain a b where ab: "t = [a, b]" using t by (auto simp: numeral_2_eq_2 length_Suc_conv)
    obtain h l where hl: "to_be 2 (uint s) = [h, l]" by (simp add: numeral_2_eq_2)
    show "t = to_be 2 (uint s)" using eq crc16.step2_inj by (simp add: ab hl)
  qed (simp add: crc16_trailer_clears)
  also have "\<dots> \<longleftrightarrow> crc16_residue p = 0" by (simp add: crc16_residue_def p s_def)
  finally show ?thesis using True by simp
qed (simp add: sealed_def)

interpretation crc16_trailer: trailer_code crc16_ccitt_false 2
proof
  fix body xs ys :: bytes and b c b1 b2 c1 c2 :: byte
  show "0 \<le> crc16_ccitt_false body \<and> crc16_ccitt_false body < 256 ^ 2"
    using uint_lt2p [of "foldl crc16_byte_w 0xFFFF body"]
    by (simp add: crc16_ccitt_false_def crc16_word)
  show "sealed crc16_ccitt_false 2 (xs @ b # ys) \<Longrightarrow> b \<noteq> c \<Longrightarrow> \<not> sealed crc16_ccitt_false 2 (xs @ c # ys)"
    using crc16.single_substitution_detected [of b c "0xFFFF" xs ys]
    by (auto simp: crc16_sealed_residue crc16_residue_def)
  show "sealed crc16_ccitt_false 2 (xs @ b1 # b2 # ys) \<Longrightarrow> (b1, b2) \<noteq> (c1, c2) \<Longrightarrow>
      \<not> sealed crc16_ccitt_false 2 (xs @ c1 # c2 # ys)"
    using crc16.burst_detected [of b1 b2 c1 c2 "0xFFFF" xs ys]
    by (auto simp: crc16_sealed_residue crc16_residue_def)
qed

lemma crc32c_range: "0 \<le> crc32c data \<and> crc32c data < 2 ^ 32"
  using uint_lt2p [of "NOT (foldl crc32c_byte_w 0xFFFFFFFF data)"]
  by (simp add: crc32c_def crc32c_word)

lemma crc32c_eq_iff:
  "crc32c xs = crc32c ys \<longleftrightarrow> foldl crc32c_byte_w 0xFFFFFFFF xs = foldl crc32c_byte_w 0xFFFFFFFF ys"
proof -
  have "NOT v = NOT w \<longleftrightarrow> v = w" for v w :: "32 word" by (metis bit.double_compl)
  then show ?thesis by (simp only: crc32c_def crc32c_word word_uint_eq_iff [symmetric]) simp
qed

lemma crc32c_substitution:
  "b \<noteq> c \<Longrightarrow> crc32c (xs @ b # ys) \<noteq> crc32c (xs @ c # ys)"
  using crc32.single_substitution_detected [of b c "0xFFFFFFFF" xs ys]
  by (simp add: crc32c_eq_iff)

lemma crc32c_burst:
  "(b1, b2) \<noteq> (c1, c2) \<Longrightarrow> crc32c (xs @ b1 # b2 # ys) \<noteq> crc32c (xs @ c1 # c2 # ys)"
  using crc32.burst_detected [of b1 b2 c1 c2 "0xFFFFFFFF" xs ys]
  by (simp add: crc32c_eq_iff)

text \<open>The published check values of the two CRCs, on the ASCII digits \<open>123456789\<close>.\<close>

definition check_input :: bytes where
  "check_input = [0x31, 0x32, 0x33, 0x34, 0x35, 0x36, 0x37, 0x38, 0x39]"

lemma crc16_check_value: "crc16_ccitt_false check_input = 0x29B1"
  by code_simp

lemma crc32c_check_value: "crc32c check_input = 0xE3069283"
  by code_simp

end
