(* ===== verification/Py_Struct.thy ===== *)
theory Py_Struct
  imports Errors
begin

text \<open>
  Python's \<open>struct\<close> module as the program uses it: formats that start with \<open>>\<close> (big-endian, no
  padding) over the unsigned codes \<open>B\<close>, \<open>H\<close>, \<open>I\<close> and \<open>Q\<close>. A format is the list of the field widths
  (1, 2, 4, 8). Packing a value outside its field's range, and unpacking a buffer of the wrong
  length, raise \<open>struct.error\<close>.
\<close>

primrec pack_fields :: "nat list \<Rightarrow> int list \<Rightarrow> bytes" where
  "pack_fields [] xs = []"
| "pack_fields (w # ws) xs = to_be w (hd xs) @ pack_fields ws (tl xs)"

primrec unpack_fields :: "nat list \<Rightarrow> bytes \<Rightarrow> int list" where
  "unpack_fields [] bs = []"
| "unpack_fields (w # ws) bs = be_int (take w bs) # unpack_fields ws (drop w bs)"

definition fields_ok :: "nat list \<Rightarrow> int list \<Rightarrow> bool" where
  "fields_ok ws xs \<longleftrightarrow> list_all2 (\<lambda>w x. 0 \<le> x \<and> x < 256 ^ w) ws xs"

definition struct_pack :: "nat list \<Rightarrow> int list \<Rightarrow> bytes result" where
  "struct_pack ws xs = check (\<not> fields_ok ws xs) StructError (Inr (pack_fields ws xs))"

definition struct_unpack :: "nat list \<Rightarrow> bytes \<Rightarrow> int list result" where
  "struct_unpack ws bs = check (length bs \<noteq> sum_list ws) StructError (Inr (unpack_fields ws bs))"

definition struct_unpack_from :: "nat list \<Rightarrow> bytes \<Rightarrow> nat \<Rightarrow> int list result" where
  "struct_unpack_from ws bs offset =
     check (length bs < offset + sum_list ws) StructError (Inr (unpack_fields ws (drop offset bs)))"

lemma fields_ok_Nil [simp]: "fields_ok [] xs \<longleftrightarrow> xs = []"
  by (simp add: fields_ok_def)

lemma fields_ok_Cons [simp]:
  "fields_ok (w # ws) (x # xs) \<longleftrightarrow> 0 \<le> x \<and> x < 256 ^ w \<and> fields_ok ws xs"
  by (simp add: fields_ok_def)

lemma length_pack_fields [simp, bytes_simps]: "length (pack_fields ws xs) = sum_list ws"
  by (induction ws arbitrary: xs) auto

lemma length_unpack_fields [simp]: "length (unpack_fields ws bs) = length ws"
  by (induction ws arbitrary: bs) auto

lemma unpack_pack_fields:
  "fields_ok ws xs \<Longrightarrow> unpack_fields ws (pack_fields ws xs @ rest) = xs"
proof (induction ws arbitrary: xs)
  case Nil
  then show ?case by simp
next
  case (Cons w ws)
  then obtain y ys where "xs = y # ys" by (cases xs) (auto simp: fields_ok_def)
  with Cons show ?case by simp
qed

lemma unpack_fields_ok: "sum_list ws \<le> length bs \<Longrightarrow> fields_ok ws (unpack_fields ws bs)"
proof (induction ws arbitrary: bs)
  case Nil
  then show ?case by simp
next
  case (Cons w ws)
  then show ?case using be_int_less [of "take w bs"] by simp
qed

lemma pack_unpack_fields:
  "sum_list ws \<le> length bs \<Longrightarrow> pack_fields ws (unpack_fields ws bs) = take (sum_list ws) bs"
proof (induction ws arbitrary: bs)
  case Nil
  then show ?case by simp
next
  case (Cons w ws)
  then have "to_be w (be_int (take w bs)) = take w bs"
    using to_be_be_int [of "take w bs"] by simp
  with Cons show ?case by (simp add: take_add)
qed

lemma struct_pack_ok [simp]: "fields_ok ws xs \<Longrightarrow> struct_pack ws xs = Inr (pack_fields ws xs)"
  by (simp add: struct_pack_def)

lemma struct_pack_eq_Inr: "struct_pack ws xs = Inr bs \<longleftrightarrow> fields_ok ws xs \<and> bs = pack_fields ws xs"
  by (auto simp: struct_pack_def)

lemma struct_unpack_ok [simp]:
  "length bs = sum_list ws \<Longrightarrow> struct_unpack ws bs = Inr (unpack_fields ws bs)"
  by (simp add: struct_unpack_def)

lemma struct_unpack_from_ok [simp]:
  "offset + sum_list ws \<le> length bs \<Longrightarrow>
     struct_unpack_from ws bs offset = Inr (unpack_fields ws (drop offset bs))"
  by (simp add: struct_unpack_from_def)

text \<open>The library's two directions: what is packed is read back, what is read packs again.\<close>

lemma struct_pack_unpack: "struct_pack ws xs = Inr bs \<Longrightarrow> struct_unpack ws bs = Inr xs"
  using unpack_pack_fields [of ws xs "[]"] by (auto simp: struct_pack_eq_Inr)

lemma struct_unpack_pack: "struct_unpack ws bs = Inr xs \<Longrightarrow> struct_pack ws xs = Inr bs"
  using unpack_fields_ok [of ws bs] pack_unpack_fields [of ws bs]
  by (auto simp: struct_unpack_def struct_pack_eq_Inr)

lemma unpack_pack_fields_simps [simp]:
  "fields_ok ws xs \<Longrightarrow> unpack_fields ws (pack_fields ws xs) = xs"
  "fields_ok ws xs \<Longrightarrow> unpack_fields ws (pack_fields ws xs @ rest) = xs"
  using unpack_pack_fields [of ws xs "[]"] unpack_pack_fields [of ws xs rest] by simp_all

text \<open>What a successful read says about the buffer.\<close>

lemma fields_ok_Cons_ex:
  "fields_ok (w # ws) xs \<longleftrightarrow>
     (\<exists>x xs'. xs = x # xs' \<and> 0 \<le> x \<and> x < 256 ^ w \<and> fields_ok ws xs')"
  by (auto simp: fields_ok_def list_all2_Cons1)

lemma struct_unpack_iff:
  "struct_unpack ws bs = Inr h \<longleftrightarrow> fields_ok ws h \<and> bs = pack_fields ws h"
proof
  assume "struct_unpack ws bs = Inr h"
  then show "fields_ok ws h \<and> bs = pack_fields ws h"
    using struct_unpack_pack [of ws bs h] by (simp add: struct_pack_eq_Inr)
next
  assume "fields_ok ws h \<and> bs = pack_fields ws h"
  then show "struct_unpack ws bs = Inr h"
    using struct_pack_unpack [of ws h bs] by simp
qed

lemma struct_unpack_from_0_iff:
  "struct_unpack_from ws bs 0 = Inr h \<longleftrightarrow> fields_ok ws h \<and> (\<exists>rest. bs = pack_fields ws h @ rest)"
proof
  assume a: "struct_unpack_from ws bs 0 = Inr h"
  then have len: "sum_list ws \<le> length bs" and h: "h = unpack_fields ws bs"
    by (auto simp: struct_unpack_from_def)
  have "bs = pack_fields ws h @ drop (sum_list ws) bs"
    using pack_unpack_fields [OF len] by (simp add: h)
  then show "fields_ok ws h \<and> (\<exists>rest. bs = pack_fields ws h @ rest)"
    using unpack_fields_ok [OF len] h by blast
next
  assume "fields_ok ws h \<and> (\<exists>rest. bs = pack_fields ws h @ rest)"
  then show "struct_unpack_from ws bs 0 = Inr h"
    by (auto simp: struct_unpack_from_def)
qed

lemma struct_unpack_from_drop:
  "offset \<le> length bs \<Longrightarrow> struct_unpack_from ws bs offset = struct_unpack_from ws (drop offset bs) 0"
  by (auto simp: struct_unpack_from_def check_def)

section \<open>Bytes of an integer\<close>

text \<open>\<open>x.to_bytes(n, "big")\<close> and \<open>bytes([...])\<close>, which refuse values out of range.\<close>

definition int_to_bytes :: "nat \<Rightarrow> int \<Rightarrow> bytes result" where
  "int_to_bytes n x = (if 0 \<le> x \<and> x < 256 ^ n then Inr (to_be n x) else Inl OverflowError)"

definition bytes_of_list :: "int list \<Rightarrow> bytes result" where
  "bytes_of_list xs =
     (if list_all (\<lambda>x. 0 \<le> x \<and> x < 256) xs then Inr (List.map word_of_int xs)
      else Inl (ValueError ''bytes must be in range(0, 256)''))"

lemma int_to_bytes_eq_Inr: "int_to_bytes n x = Inr b \<longleftrightarrow> 0 \<le> x \<and> x < 256 ^ n \<and> b = to_be n x"
  by (auto simp: int_to_bytes_def)

lemma bytes_of_list_eq_Inr:
  "bytes_of_list xs = Inr b \<longleftrightarrow> (\<forall>x \<in> set xs. 0 \<le> x \<and> x < 256) \<and> b = List.map word_of_int xs"
  by (auto simp: bytes_of_list_def list_all_iff)

end
