(* ===== verification/Frames.thy ===== *)
theory Frames
  imports Cobs Checksum Py_Struct
begin

text \<open>
  \<open>pc_host/src/trinity_host/protocol/frame.py\<close>: the host frame of the PC link (raw bytes and the
  COBS-delimited wire form), the SPI packet of the control plane, and the request fingerprint.
  \<open>packet_codec\<close> is the contract both packet formats meet: the decoder accepts exactly the
  encodings of well-formed packets. The round trips, injectivity and the rejection of corrupted
  packets are proved from it and from the trailer contract.
\<close>

section \<open>Flags\<close>

abbreviation RESPONSE :: int where "RESPONSE \<equiv> FrameFlags_value FF_RESPONSE"
abbreviation ERROR :: int where "ERROR \<equiv> FrameFlags_value FF_ERROR"
abbreviation MORE :: int where "MORE \<equiv> FrameFlags_value FF_MORE"
abbreviation EVENT :: int where "EVENT \<equiv> FrameFlags_value FF_EVENT"

definition check_flags :: "int \<Rightarrow> unit result" where
  "check_flags flags =
     check (flags AND NOT (RESPONSE OR ERROR OR MORE OR EVENT) \<noteq> 0)
       (ProtocolDecodeError EC_BAD_FLAGS ''reserved flag bits set'') (Inr ())"

section \<open>Host frames\<close>

definition PC_HEADER :: "nat list" where
  "PC_HEADER = [1, 1, 1, 1, 2, 2]"

record host_frame =
  hf_command :: int
  hf_flags :: int
  hf_transaction_id :: int
  hf_payload :: bytes
  hf_version :: int

definition HostFrame :: "int \<Rightarrow> int \<Rightarrow> int \<Rightarrow> bytes \<Rightarrow> host_frame" where
  "HostFrame command flags txid payload =
     \<lparr>hf_command = command, hf_flags = flags, hf_transaction_id = txid, hf_payload = payload,
      hf_version = PROTOCOL_VERSION\<rparr>"

definition host_encode_raw :: "host_frame \<Rightarrow> bytes result" where
  "host_encode_raw f =
     check (hf_version f \<noteq> PROTOCOL_VERSION) (ValueError ''unsupported protocol version'')
    (result_bind (check_flags (hf_flags f)) (\<lambda>_.
     check (\<not> (0 \<le> hf_transaction_id f \<and> hf_transaction_id f \<le> 0xFFFF))
       (ValueError ''transaction_id out of range'')
    (check (length (hf_payload f) > PC_MAX_PAYLOAD) (ValueError ''payload exceeds 256 bytes'')
    (result_bind (struct_pack PC_HEADER
       [hf_version f, hf_command f AND 0xFF, hf_flags f AND 0xFF, 0,
        hf_transaction_id f, int (length (hf_payload f))]) (\<lambda>header.
     let body = header @ hf_payload f
     in result_bind (struct_pack [2] [crc16_ccitt_false body]) (\<lambda>crc. Inr (body @ crc)))))))"

definition host_encode_wire :: "host_frame \<Rightarrow> bytes result" where
  "host_encode_wire f = result_bind (host_encode_raw f) (\<lambda>raw. Inr (cobs_encode raw @ [0]))"

definition host_decode_raw :: "bytes \<Rightarrow> host_frame result" where
  "host_decode_raw raw =
     check (length raw < sum_list PC_HEADER + 2)
       (ProtocolDecodeError EC_BAD_LENGTH ''raw host frame too short'')
    (result_bind (struct_unpack_from PC_HEADER raw 0) (\<lambda>h.
     let version = h ! 0; command = h ! 1; flags = h ! 2; reserved = h ! 3; txid = h ! 4;
         payload_len = h ! 5
     in
     check (version \<noteq> PROTOCOL_VERSION) (ProtocolDecodeError EC_BAD_VERSION ''version'')
    (check (reserved \<noteq> 0)
       (ProtocolDecodeError EC_BAD_FLAGS ''reserved header byte is non-zero'')
    (result_bind (check_flags flags) (\<lambda>_.
     check (payload_len > int PC_MAX_PAYLOAD)
       (ProtocolDecodeError EC_BAD_LENGTH ''payload exceeds 256 bytes'')
    (check (int (length raw) \<noteq> int (sum_list PC_HEADER) + payload_len + 2)
       (ProtocolDecodeError EC_BAD_LENGTH ''expected length'')
    (result_bind (struct_unpack_from [2] raw (length raw - 2)) (\<lambda>t.
     check (t ! 0 \<noteq> crc16_ccitt_false (take (length raw - 2) raw))
       (ProtocolDecodeError EC_BAD_CRC ''host frame CRC mismatch'')
    (Inr \<lparr>hf_command = command, hf_flags = flags, hf_transaction_id = txid,
          hf_payload = slice (sum_list PC_HEADER) (length raw - 2) raw,
          hf_version = version\<rparr>)))))))))"

definition host_decode_wire :: "bytes \<Rightarrow> host_frame result" where
  "host_decode_wire wire =
     check (wire = [] \<or> last wire \<noteq> 0)
       (ProtocolDecodeError EC_MALFORMED_FRAME ''missing COBS delimiter'')
    (check (0 \<in> set (butlast wire))
       (ProtocolDecodeError EC_MALFORMED_FRAME ''multiple delimiters in one frame'')
    (case cobs_decode (butlast wire) of
       Inl _ \<Rightarrow> Inl (ProtocolDecodeError EC_MALFORMED_FRAME ''COBS'')
     | Inr raw \<Rightarrow> host_decode_raw raw))"

section \<open>SPI packets\<close>

definition SPI_HEADER :: "nat list" where
  "SPI_HEADER = [1, 1, 1, 1, 2, 2]"

record spi_packet =
  sp_command :: int
  sp_flags :: int
  sp_transaction_id :: int
  sp_payload :: bytes
  sp_version :: int

definition spi_encode :: "spi_packet \<Rightarrow> bytes result" where
  "spi_encode p =
     check (sp_version p \<noteq> PROTOCOL_VERSION) (ValueError ''unsupported protocol version'')
    (result_bind (check_flags (sp_flags p)) (\<lambda>_.
     check (\<not> (0 \<le> sp_transaction_id p \<and> sp_transaction_id p \<le> 0xFFFF))
       (ValueError ''transaction_id out of range'')
    (check (length (sp_payload p) > SPI_MAX_PAYLOAD) (ValueError ''SPI payload exceeds 66 bytes'')
    (result_bind (struct_pack SPI_HEADER
       [SPI_MAGIC, sp_version p, sp_command p AND 0xFF, sp_flags p AND 0xFF,
        sp_transaction_id p, int (length (sp_payload p))]) (\<lambda>header.
     let body = header @ sp_payload p
     in result_bind (struct_pack [2] [crc16_ccitt_false body]) (\<lambda>crc. Inr (body @ crc)))))))"

definition spi_decode :: "bytes \<Rightarrow> spi_packet result" where
  "spi_decode packet =
     check (length packet < sum_list SPI_HEADER + 2)
       (ProtocolDecodeError EC_BAD_LENGTH ''SPI packet too short'')
    (result_bind (struct_unpack_from SPI_HEADER packet 0) (\<lambda>h.
     let magic = h ! 0; version = h ! 1; command = h ! 2; flags = h ! 3; txid = h ! 4;
         payload_len = h ! 5
     in
     check (magic \<noteq> SPI_MAGIC) (ProtocolDecodeError EC_BAD_MAGIC ''magic'')
    (check (version \<noteq> PROTOCOL_VERSION) (ProtocolDecodeError EC_BAD_VERSION ''version'')
    (result_bind (check_flags flags) (\<lambda>_.
     check (payload_len > int SPI_MAX_PAYLOAD)
       (ProtocolDecodeError EC_BAD_LENGTH ''SPI payload exceeds 66 bytes'')
    (check (int (length packet) \<noteq> int (sum_list SPI_HEADER) + payload_len + 2)
       (ProtocolDecodeError EC_BAD_LENGTH ''expected length'')
    (result_bind (struct_unpack_from [2] packet (length packet - 2)) (\<lambda>t.
     check (t ! 0 \<noteq> crc16_ccitt_false (take (length packet - 2) packet))
       (ProtocolDecodeError EC_BAD_CRC ''SPI packet CRC mismatch'')
    (Inr \<lparr>sp_command = command, sp_flags = flags, sp_transaction_id = txid,
          sp_payload = slice (sum_list SPI_HEADER) (length packet - 2) packet,
          sp_version = version\<rparr>)))))))))"

section \<open>Request fingerprint\<close>

definition request_fingerprint_crc32c :: "int \<Rightarrow> int \<Rightarrow> bytes \<Rightarrow> int result" where
  "request_fingerprint_crc32c command flags payload =
     result_bind (check_flags flags) (\<lambda>_.
     check (length payload > 0xFFFF) (ValueError ''payload too large for fingerprint'')
    (Inr (crc32c ([word_of_int (command AND 0xFF), word_of_int (flags AND 0xFF)]
            @ to_be 2 (int (length payload)) @ payload))))"

section \<open>What the encoders and decoders compute\<close>

lemma check_flags_eq_Inr [simp]: "check_flags flags = Inr u \<longleftrightarrow> 0 \<le> flags \<and> flags < 16"
  using int_and_not_15 [of flags] by (simp add: check_flags_def)

lemma check_flags_ok [simp]: "0 \<le> flags \<Longrightarrow> flags < 16 \<Longrightarrow> check_flags flags = Inr ()"
  by simp

definition host_wf :: "host_frame \<Rightarrow> bool" where
  "host_wf f \<longleftrightarrow> hf_version f = PROTOCOL_VERSION \<and> 0 \<le> hf_command f \<and> hf_command f < 256 \<and>
     0 \<le> hf_flags f \<and> hf_flags f < 16 \<and>
     0 \<le> hf_transaction_id f \<and> hf_transaction_id f \<le> 0xFFFF \<and>
     length (hf_payload f) \<le> PC_MAX_PAYLOAD"

definition spi_wf :: "spi_packet \<Rightarrow> bool" where
  "spi_wf p \<longleftrightarrow> sp_version p = PROTOCOL_VERSION \<and> 0 \<le> sp_command p \<and> sp_command p < 256 \<and>
     0 \<le> sp_flags p \<and> sp_flags p < 16 \<and>
     0 \<le> sp_transaction_id p \<and> sp_transaction_id p \<le> 0xFFFF \<and>
     length (sp_payload p) \<le> SPI_MAX_PAYLOAD"

text \<open>Both headers have the same layout.\<close>

definition packet_header :: "nat list" where
  "packet_header = [1, 1, 1, 1, 2, 2]"

lemma headers: "PC_HEADER = packet_header" "SPI_HEADER = packet_header"
  by (simp_all add: PC_HEADER_def SPI_HEADER_def packet_header_def)

lemma packet_header_size [simp]: "sum_list packet_header = 8" "length packet_header = 6"
  by (simp_all add: packet_header_def)

lemma packet_header_fields_ok:
  "fields_ok packet_header [a, b, c, d, e, f] \<longleftrightarrow>
     0 \<le> a \<and> a < 256 \<and> 0 \<le> b \<and> b < 256 \<and> 0 \<le> c \<and> c < 256 \<and> 0 \<le> d \<and> d < 256 \<and>
     0 \<le> e \<and> e < 65536 \<and> 0 \<le> f \<and> f < 65536"
  by (simp add: packet_header_def)

text \<open>The bytes of a packet: six header fields, the payload and the checksum of both.\<close>

definition packet_bytes :: "int list \<Rightarrow> bytes \<Rightarrow> bytes" where
  "packet_bytes h payload =
     (let body = pack_fields packet_header h @ payload
      in body @ to_be 2 (crc16_ccitt_false body))"

lemma length_packet_bytes [simp, bytes_simps]: "length (packet_bytes h payload) = length payload + 10"
  by (simp add: packet_bytes_def Let_def)

lemma packet_bytes_sealed: "sealed crc16_ccitt_false 2 (packet_bytes h payload)"
  unfolding packet_bytes_def Let_def by (rule crc16_trailer.seal_sealed)

lemma packet_bytes_payload:
  "slice 8 (length (packet_bytes h payload) - 2) (packet_bytes h payload) = payload"
  by (simp add: packet_bytes_def slice_def Let_def)

lemma packet_bytes_fields:
  "fields_ok packet_header h \<Longrightarrow> unpack_fields packet_header (packet_bytes h payload) = h"
  unfolding packet_bytes_def Let_def append_assoc by (rule unpack_pack_fields)

text \<open>A sealed byte string of at least ten bytes is the packet of its own fields and payload.\<close>

lemma sealed_packet:
  assumes "10 \<le> length p" and "sealed crc16_ccitt_false 2 p"
  shows "p = packet_bytes (unpack_fields packet_header p) (slice 8 (length p - 2) p)"
proof -
  obtain body where p: "p = body @ to_be 2 (crc16_ccitt_false body)"
    using assms(2) unfolding crc16_trailer.sealed_decompose by blast
  have len: "8 \<le> length body" using assms(1) by (simp add: p)
  have "pack_fields packet_header (unpack_fields packet_header p) = take 8 p"
    using pack_unpack_fields [of "packet_header" p] assms(1) by (simp add: numeral_eq_Suc)
  moreover have "take 8 p @ slice 8 (length p - 2) p = body"
    using len by (simp add: p slice_def)
  ultimately show ?thesis by (simp add: packet_bytes_def Let_def flip: p)
qed

definition host_fields :: "host_frame \<Rightarrow> int list" where
  "host_fields f = [hf_version f, hf_command f mod 256, hf_flags f, 0, hf_transaction_id f,
     int (length (hf_payload f))]"

definition spi_fields :: "spi_packet \<Rightarrow> int list" where
  "spi_fields p = [SPI_MAGIC, sp_version p, sp_command p mod 256, sp_flags p, sp_transaction_id p,
     int (length (sp_payload p))]"

lemma crc16_bounds [simp]: "0 \<le> crc16_ccitt_false body" "crc16_ccitt_false body < 65536"
  using crc16_trailer.ck_range [of body] by simp_all

lemma host_encode_raw_iff:
  "host_encode_raw f = Inr bs \<longleftrightarrow>
     host_wf (f\<lparr>hf_command := hf_command f mod 256\<rparr>) \<and> bs = packet_bytes (host_fields f) (hf_payload f)"
  by (auto simp: host_encode_raw_def host_wf_def host_fields_def packet_bytes_def headers
      packet_header_fields_ok result_bind_eq_Inr struct_pack_eq_Inr Let_def protocol_sizes)

lemma spi_encode_iff:
  "spi_encode p = Inr bs \<longleftrightarrow>
     spi_wf (p\<lparr>sp_command := sp_command p mod 256\<rparr>) \<and> bs = packet_bytes (spi_fields p) (sp_payload p)"
  by (auto simp: spi_encode_def spi_wf_def spi_fields_def packet_bytes_def headers
      packet_header_fields_ok result_bind_eq_Inr struct_pack_eq_Inr Let_def protocol_sizes)

lemma six_fields: "length h = 6 \<Longrightarrow> h = [h ! 0, h ! 1, h ! 2, h ! 3, h ! 4, h ! 5]"
  by (auto simp: numeral_eq_Suc length_Suc_conv)

lemma trailer_field:
  "2 \<le> length p \<Longrightarrow> unpack_fields [2] (drop (length p - 2) p) ! 0 = be_int (drop (length p - 2) p)"
  by simp

lemma host_decode_raw_sound:
  assumes "host_decode_raw raw = Inr f"
  shows "host_wf f \<and> raw = packet_bytes (host_fields f) (hf_payload f)"
proof -
  define h where "h = unpack_fields packet_header raw"
  from assms have len: "10 \<le> length raw"
    by (auto simp: host_decode_raw_def headers)
  from assms len have
    dec: "h ! 0 = 1" "h ! 3 = 0" "0 \<le> h ! 2" "h ! 2 < 16" "h ! 5 \<le> 256"
      "int (length raw) = 10 + h ! 5" and seal: "sealed crc16_ccitt_false 2 raw" and
    f: "f = \<lparr>hf_command = h ! 1, hf_flags = h ! 2, hf_transaction_id = h ! 4,
      hf_payload = slice 8 (length raw - 2) raw, hf_version = h ! 0\<rparr>"
    by (auto simp: host_decode_raw_def headers result_bind_eq_Inr Let_def protocol_sizes
        sealed_def h_def)
  have "fields_ok packet_header h"
    using unpack_fields_ok [of "packet_header" raw] len by (simp add: h_def)
  moreover have h: "h = [h ! 0, h ! 1, h ! 2, h ! 3, h ! 4, h ! 5]"
    by (rule six_fields) (simp add: h_def)
  ultimately have ok: "fields_ok packet_header [h ! 0, h ! 1, h ! 2, h ! 3, h ! 4, h ! 5]"
    by (rule subst [rotated])
  have raw: "raw = packet_bytes h (slice 8 (length raw - 2) raw)"
    unfolding h_def by (rule sealed_packet [OF len seal])
  have hf: "host_fields f = h"
    by (rule trans [OF _ h [symmetric]])
      (use dec ok in \<open>simp add: host_fields_def f packet_header_fields_ok protocol_sizes\<close>)
  have payload: "hf_payload f = slice 8 (length raw - 2) raw" by (simp add: f)
  have "raw = packet_bytes (host_fields f) (hf_payload f)" unfolding hf payload by (rule raw)
  moreover have "host_wf f"
    using dec ok by (simp add: host_wf_def f packet_header_fields_ok protocol_sizes)
  ultimately show ?thesis by blast
qed

lemma host_fields_ok:
  "host_wf f \<Longrightarrow> fields_ok packet_header (host_fields f)"
  by (simp add: host_wf_def host_fields_def packet_header_fields_ok protocol_sizes)

lemma spi_fields_ok:
  "spi_wf p \<Longrightarrow> fields_ok packet_header (spi_fields p)"
  by (simp add: spi_wf_def spi_fields_def packet_header_fields_ok protocol_sizes)

lemma sealedD:
  "sealed crc16_ccitt_false 2 p \<Longrightarrow>
     be_int (drop (length p - 2) p) = crc16_ccitt_false (take (length p - 2) p)"
  by (simp add: sealed_def)

lemma host_decode_raw_complete:
  assumes "host_wf f"
  shows "host_decode_raw (packet_bytes (host_fields f) (hf_payload f)) = Inr f"
proof -
  define p where "p = packet_bytes (host_fields f) (hf_payload f)"
  have fs: "unpack_fields packet_header p = host_fields f"
    unfolding p_def by (rule packet_bytes_fields [OF host_fields_ok [OF assms]])
  have len: "length p = length (hf_payload f) + 10" by (simp add: p_def)
  have payload: "slice 8 (length p - 2) p = hf_payload f"
    unfolding p_def by (rule packet_bytes_payload)
  have crc: "be_int (drop (length p - 2) p) = crc16_ccitt_false (take (length p - 2) p)"
    unfolding p_def by (rule sealedD [OF packet_bytes_sealed])
  show ?thesis
    unfolding p_def [symmetric] using assms len fs payload crc
    by (simp add: host_decode_raw_def headers Let_def host_fields_def host_wf_def
        protocol_sizes)
qed

lemma spi_decode_sound:
  assumes "spi_decode raw = Inr p"
  shows "spi_wf p \<and> raw = packet_bytes (spi_fields p) (sp_payload p)"
proof -
  define h where "h = unpack_fields packet_header raw"
  from assms have len: "10 \<le> length raw"
    by (auto simp: spi_decode_def headers)
  from assms len have
    dec: "h ! 0 = SPI_MAGIC" "h ! 1 = 1" "0 \<le> h ! 3" "h ! 3 < 16" "h ! 5 \<le> 66"
      "int (length raw) = 10 + h ! 5" and seal: "sealed crc16_ccitt_false 2 raw" and
    p: "p = \<lparr>sp_command = h ! 2, sp_flags = h ! 3, sp_transaction_id = h ! 4,
      sp_payload = slice 8 (length raw - 2) raw, sp_version = h ! 1\<rparr>"
    by (auto simp: spi_decode_def headers result_bind_eq_Inr Let_def protocol_sizes
        sealed_def h_def)
  have "fields_ok packet_header h"
    using unpack_fields_ok [of "packet_header" raw] len by (simp add: h_def)
  moreover have h: "h = [h ! 0, h ! 1, h ! 2, h ! 3, h ! 4, h ! 5]"
    by (rule six_fields) (simp add: h_def)
  ultimately have ok: "fields_ok packet_header [h ! 0, h ! 1, h ! 2, h ! 3, h ! 4, h ! 5]"
    by (rule subst [rotated])
  have raw: "raw = packet_bytes h (slice 8 (length raw - 2) raw)"
    unfolding h_def by (rule sealed_packet [OF len seal])
  have sf: "spi_fields p = h"
    by (rule trans [OF _ h [symmetric]])
      (use dec ok in \<open>simp add: spi_fields_def p packet_header_fields_ok protocol_sizes\<close>)
  have payload: "sp_payload p = slice 8 (length raw - 2) raw" by (simp add: p)
  have "raw = packet_bytes (spi_fields p) (sp_payload p)" unfolding sf payload by (rule raw)
  moreover have "spi_wf p"
    using dec ok by (simp add: spi_wf_def p packet_header_fields_ok protocol_sizes)
  ultimately show ?thesis by blast
qed

lemma spi_decode_complete:
  assumes "spi_wf p"
  shows "spi_decode (packet_bytes (spi_fields p) (sp_payload p)) = Inr p"
proof -
  define raw where "raw = packet_bytes (spi_fields p) (sp_payload p)"
  have fs: "unpack_fields packet_header raw = spi_fields p"
    unfolding raw_def by (rule packet_bytes_fields [OF spi_fields_ok [OF assms]])
  have len: "length raw = length (sp_payload p) + 10" by (simp add: raw_def)
  have payload: "slice 8 (length raw - 2) raw = sp_payload p"
    unfolding raw_def by (rule packet_bytes_payload)
  have crc: "be_int (drop (length raw - 2) raw) = crc16_ccitt_false (take (length raw - 2) raw)"
    unfolding raw_def by (rule sealedD [OF packet_bytes_sealed])
  show ?thesis
    unfolding raw_def [symmetric] using assms len fs payload crc
    by (simp add: spi_decode_def headers Let_def spi_fields_def spi_wf_def
        protocol_sizes)
qed

section \<open>The contract of a packet codec\<close>

text \<open>
  The decoder accepts exactly the encodings of well-formed packets, every well-formed packet has
  an encoding, and every encoding carries its checksum.
\<close>

locale packet_codec =
  fixes enc :: "'p \<Rightarrow> bytes result"
    and dec :: "bytes \<Rightarrow> 'p result"
    and wf :: "'p \<Rightarrow> bool"
  assumes dec_iff: "dec bs = Inr p \<longleftrightarrow> wf p \<and> enc p = Inr bs"
    and enc_total: "wf p \<Longrightarrow> \<exists>bs. enc p = Inr bs"
    and enc_sealed: "enc p = Inr bs \<Longrightarrow> sealed crc16_ccitt_false 2 bs"
begin

lemma codec_roundtrip: "wf p \<Longrightarrow> result_bind (enc p) dec = Inr p"
  using enc_total [of p] dec_iff by auto

lemma codec_canonical: "dec bs = Inr p \<Longrightarrow> dec bs' = Inr p \<Longrightarrow> bs = bs'"
  using dec_iff by fastforce

lemma codec_inj: "wf p \<Longrightarrow> wf q \<Longrightarrow> enc p = enc q \<Longrightarrow> p = q"
  by (metis codec_roundtrip sum.inject(2))

lemma dec_sealed: "dec bs = Inr p \<Longrightarrow> sealed crc16_ccitt_false 2 bs"
  using dec_iff enc_sealed by blast

lemma codec_single_error:
  "dec (xs @ b # ys) = Inr p \<Longrightarrow> b \<noteq> c \<Longrightarrow> \<exists>e. dec (xs @ c # ys) = Inl e"
  using crc16_trailer.sealed_single [OF dec_sealed] dec_sealed by (metis sum.exhaust)

lemma codec_burst_error:
  "dec (xs @ b1 # b2 # ys) = Inr p \<Longrightarrow> (b1, b2) \<noteq> (c1, c2) \<Longrightarrow>
     \<exists>e. dec (xs @ c1 # c2 # ys) = Inl e"
  using crc16_trailer.sealed_burst [OF dec_sealed] dec_sealed by (metis sum.exhaust)

end

lemma host_wf_command: "host_wf f \<Longrightarrow> f\<lparr>hf_command := hf_command f mod 256\<rparr> = f"
  by (simp add: host_wf_def)

lemma spi_wf_command: "spi_wf p \<Longrightarrow> p\<lparr>sp_command := sp_command p mod 256\<rparr> = p"
  by (simp add: spi_wf_def)

interpretation host: packet_codec host_encode_raw host_decode_raw host_wf
proof
  fix bs f
  show "host_decode_raw bs = Inr f \<longleftrightarrow> host_wf f \<and> host_encode_raw f = Inr bs"
    using host_decode_raw_sound host_decode_raw_complete
    by (auto simp: host_encode_raw_iff host_wf_command)
  show "host_wf f \<Longrightarrow> \<exists>bs. host_encode_raw f = Inr bs"
    by (auto simp: host_encode_raw_iff host_wf_command)
  show "host_encode_raw f = Inr bs \<Longrightarrow> sealed crc16_ccitt_false 2 bs"
    by (auto simp: host_encode_raw_iff packet_bytes_sealed)
qed

interpretation spi: packet_codec spi_encode spi_decode spi_wf
proof
  fix bs p
  show "spi_decode bs = Inr p \<longleftrightarrow> spi_wf p \<and> spi_encode p = Inr bs"
    using spi_decode_sound spi_decode_complete
    by (auto simp: spi_encode_iff spi_wf_command)
  show "spi_wf p \<Longrightarrow> \<exists>bs. spi_encode p = Inr bs"
    by (auto simp: spi_encode_iff spi_wf_command)
  show "spi_encode p = Inr bs \<Longrightarrow> sealed crc16_ccitt_false 2 bs"
    by (auto simp: spi_encode_iff packet_bytes_sealed)
qed

section \<open>The wire form\<close>

lemma host_encode_wire_iff:
  "host_encode_wire f = Inr wire \<longleftrightarrow> (\<exists>raw. host_encode_raw f = Inr raw \<and> wire = cobs_encode raw @ [0])"
  by (auto simp: host_encode_wire_def result_bind_eq_Inr)

lemma host_decode_encode_wire:
  assumes "host_encode_wire f = Inr wire"
  shows "host_decode_wire wire = Inr (f\<lparr>hf_command := hf_command f mod 256\<rparr>)"
proof -
  obtain raw where raw: "host_encode_raw f = Inr raw" and wire: "wire = cobs_encode raw @ [0]"
    using assms by (auto simp: host_encode_wire_iff)
  have "host_wf (f\<lparr>hf_command := hf_command f mod 256\<rparr>)"
    and "host_encode_raw (f\<lparr>hf_command := hf_command f mod 256\<rparr>) = Inr raw"
    using raw by (auto simp: host_encode_raw_iff host_fields_def)
  then have "host_decode_raw raw = Inr (f\<lparr>hf_command := hf_command f mod 256\<rparr>)"
    using host.dec_iff by blast
  then show ?thesis
    by (simp add: host_decode_wire_def wire cobs.enc_no_zero cobs.dec_enc)
qed

lemma host_encode_wire_length: "host_encode_wire f = Inr wire \<Longrightarrow> length wire \<le> 269"
proof -
  assume "host_encode_wire f = Inr wire"
  then obtain raw where raw: "host_encode_raw f = Inr raw" and wire: "wire = cobs_encode raw @ [0]"
    by (auto simp: host_encode_wire_iff)
  have "length raw \<le> 266"
    using raw by (auto simp: host_encode_raw_iff host_wf_def protocol_sizes)
  moreover have "length raw div 254 \<le> 266 div 254"
    using \<open>length raw \<le> 266\<close> by (rule div_le_mono)
  ultimately show ?thesis
    using cobs.enc_length [of raw] by (simp add: wire)
qed

lemma host_encode_wire_delimited:
  "host_encode_wire f = Inr wire \<Longrightarrow> \<exists>enc. wire = enc @ [0] \<and> 0 \<notin> set enc \<and> enc \<noteq> []"
  by (auto simp: host_encode_wire_iff cobs.enc_no_zero cobs.enc_nonempty)

lemma host_decode_wire_length:
  "host_decode_wire wire = Inr f \<Longrightarrow> 12 \<le> length wire"
proof -
  assume d: "host_decode_wire wire = Inr f"
  then obtain raw where raw: "cobs_decode (butlast wire) = Inr raw" "host_decode_raw raw = Inr f"
    by (auto simp: host_decode_wire_def split: sum.splits)
  have "10 \<le> length raw" using host_decode_raw_sound [OF raw(2)] by (metis le_add2 length_packet_bytes)
  then show ?thesis using cobs_decode_length [OF raw(1)] by simp
qed

section \<open>Fingerprints\<close>

lemma fingerprint_range:
  "request_fingerprint_crc32c command flags payload = Inr fp \<Longrightarrow> 0 \<le> fp \<and> fp < 2 ^ 32"
  using crc32c_range by (auto simp: request_fingerprint_crc32c_def result_bind_eq_Inr)

lemma fingerprint_payload_byte:
  assumes "request_fingerprint_crc32c command flags (xs @ b # ys) = Inr fp" and "b \<noteq> c"
  shows "\<exists>fp'. request_fingerprint_crc32c command flags (xs @ c # ys) = Inr fp' \<and> fp' \<noteq> fp"
proof -
  define h where "h = [word_of_int (command AND 0xFF), word_of_int (flags AND 0xFF)]
      @ to_be 2 (int (length xs + length ys + 1)) @ xs"
  have ok: "0 \<le> flags" "flags < 16" "length xs + length ys + 1 \<le> 0xFFFF" and
    fp: "fp = crc32c (h @ b # ys)"
    using assms(1) by (auto simp: request_fingerprint_crc32c_def result_bind_eq_Inr h_def add_ac)
  have "request_fingerprint_crc32c command flags (xs @ c # ys) = Inr (crc32c (h @ c # ys))"
    using ok by (simp add: request_fingerprint_crc32c_def h_def add_ac)
  moreover have "crc32c (h @ c # ys) \<noteq> fp"
    using crc32c_substitution [of c b h ys] assms(2) by (simp add: fp)
  ultimately show ?thesis by blast
qed

end
