(* ===== verification/Payloads.thy ===== *)
theory Payloads
  imports Frames
begin

text \<open>
  The payload decoders: \<open>protocol/types.py\<close>, and \<open>SystemInfo\<close>, \<open>SpiDiagnosticTrace\<close>,
  \<open>LastErrorSnapshot\<close>, \<open>SessionCommitDiagnostic\<close> of the serial client. A decoder returns the record
  or the exception it raises. The SN32 firmware writes these payloads, so the repository's Python
  holds no encoder: the byte layout of each record is stated here as the specification
  (\<open><record>_layout\<close>), and each decoder is proved to read every well-formed layout back; the
  decoders that drop no bit accept nothing else.
\<close>

section \<open>System status\<close>

record system_status =
  st_system_state :: system_state
  st_mode :: mode
  st_target_ready_mask :: int
  st_fault_flags :: int
  st_session_id :: int
  st_current_sequence :: int
  st_last_error :: error_code
  st_active_host_txid :: int

definition STATUS_STRUCT :: "nat list" where
  "STATUS_STRUCT = [1, 1, 1, 1, 4, 8, 2, 2]"

definition SystemStatus_decode :: "bytes \<Rightarrow> system_status result" where
  "SystemStatus_decode payload =
     check (length payload \<noteq> sum_list STATUS_STRUCT) (ValueError ''system status must be 20 bytes'')
    (result_bind (struct_unpack STATUS_STRUCT payload) (\<lambda>v.
     result_bind (of_option (ValueError ''not a valid SystemState'') (SystemState_of (v ! 0))) (\<lambda>state.
     result_bind (of_option (ValueError ''not a valid Mode'') (Mode_of (v ! 1))) (\<lambda>mode.
     result_bind (of_option (ValueError ''not a valid ErrorCode'') (ErrorCode_of (v ! 6))) (\<lambda>error.
     Inr \<lparr>st_system_state = state, st_mode = mode, st_target_ready_mask = v ! 2,
          st_fault_flags = v ! 3, st_session_id = v ! 4, st_current_sequence = v ! 5,
          st_last_error = error, st_active_host_txid = v ! 7\<rparr>)))))"

definition SystemStatus_layout :: "system_status \<Rightarrow> bytes" where
  "SystemStatus_layout s = pack_fields STATUS_STRUCT
     [SystemState_value (st_system_state s), Mode_value (st_mode s), st_target_ready_mask s,
      st_fault_flags s, st_session_id s, st_current_sequence s, ErrorCode_value (st_last_error s),
      st_active_host_txid s]"

definition SystemStatus_wf :: "system_status \<Rightarrow> bool" where
  "SystemStatus_wf s \<longleftrightarrow>
     0 \<le> st_target_ready_mask s \<and> st_target_ready_mask s < 2 ^ 8 \<and>
     0 \<le> st_fault_flags s \<and> st_fault_flags s < 2 ^ 8 \<and>
     0 \<le> st_session_id s \<and> st_session_id s < 2 ^ 32 \<and>
     0 \<le> st_current_sequence s \<and> st_current_sequence s < 2 ^ 64 \<and>
     0 \<le> st_active_host_txid s \<and> st_active_host_txid s < 2 ^ 16"

section \<open>Retained transaction results\<close>

record transaction_result =
  tr_queried_txid :: int
  tr_state :: transaction_state
  tr_original_command :: int
  tr_result_code :: error_code
  tr_data :: bytes

definition TXN_STRUCT :: "nat list" where
  "TXN_STRUCT = [2, 1, 1, 2, 2]"

definition TransactionResult_decode :: "bytes \<Rightarrow> transaction_result result" where
  "TransactionResult_decode payload =
     check (length payload < 8) (ValueError ''transaction result too short'')
    (result_bind (struct_unpack_from TXN_STRUCT payload 0) (\<lambda>v.
     check (int (length payload) \<noteq> 8 + v ! 4) (ValueError ''transaction result length mismatch'')
    (result_bind (of_option (ValueError ''not a valid TransactionState'') (TransactionState_of (v ! 1))) (\<lambda>state.
     result_bind (of_option (ValueError ''not a valid ErrorCode'') (ErrorCode_of (v ! 3))) (\<lambda>code.
     Inr \<lparr>tr_queried_txid = v ! 0, tr_state = state, tr_original_command = v ! 2,
          tr_result_code = code, tr_data = drop 8 payload\<rparr>)))))"

definition TransactionResult_layout :: "transaction_result \<Rightarrow> bytes" where
  "TransactionResult_layout r = pack_fields TXN_STRUCT
     [tr_queried_txid r, TransactionState_value (tr_state r), tr_original_command r,
      ErrorCode_value (tr_result_code r), int (length (tr_data r))] @ tr_data r"

definition TransactionResult_wf :: "transaction_result \<Rightarrow> bool" where
  "TransactionResult_wf r \<longleftrightarrow>
     0 \<le> tr_queried_txid r \<and> tr_queried_txid r < 2 ^ 16 \<and>
     0 \<le> tr_original_command r \<and> tr_original_command r < 2 ^ 8 \<and> length (tr_data r) < 2 ^ 16"

section \<open>Authenticated results\<close>

record authenticated_result =
  ar_session_id :: int
  ar_sequence :: int
  ar_plaintext :: bytes
  ar_result_code :: error_code

definition AUTH_STRUCT :: "nat list" where
  "AUTH_STRUCT = [4, 8]"

definition AuthenticatedResult_decode :: "bytes \<Rightarrow> authenticated_result result" where
  "AuthenticatedResult_decode payload =
     check (length payload \<noteq> 38) (ValueError ''authenticated result must be 38 bytes'')
    (result_bind (struct_unpack_from AUTH_STRUCT payload 0) (\<lambda>v.
     result_bind (struct_unpack_from [2] payload 36) (\<lambda>c.
     result_bind (of_option (ValueError ''not a valid ErrorCode'') (ErrorCode_of (c ! 0))) (\<lambda>code.
     Inr \<lparr>ar_session_id = v ! 0, ar_sequence = v ! 1, ar_plaintext = slice 12 36 payload,
          ar_result_code = code\<rparr>))))"

definition AuthenticatedResult_layout :: "authenticated_result \<Rightarrow> bytes" where
  "AuthenticatedResult_layout r =
     pack_fields AUTH_STRUCT [ar_session_id r, ar_sequence r] @ ar_plaintext r
       @ to_be 2 (ErrorCode_value (ar_result_code r))"

definition AuthenticatedResult_wf :: "authenticated_result \<Rightarrow> bool" where
  "AuthenticatedResult_wf r \<longleftrightarrow>
     0 \<le> ar_session_id r \<and> ar_session_id r < 2 ^ 32 \<and>
     0 \<le> ar_sequence r \<and> ar_sequence r < 2 ^ 64 \<and> length (ar_plaintext r) = 24"

section \<open>Events\<close>

record event_envelope =
  ev_event_type :: event_type
  ev_severity :: int
  ev_source :: source
  ev_related_transaction_id :: int
  ev_progress_percent :: "int option"
  ev_data :: bytes

definition EVENT_STRUCT :: "nat list" where
  "EVENT_STRUCT = [2, 1, 1, 2, 1, 1]"

definition EventEnvelope_decode :: "bytes \<Rightarrow> event_envelope result" where
  "EventEnvelope_decode payload =
     check (length payload < 8) (ValueError ''event payload too short'')
    (result_bind (struct_unpack_from EVENT_STRUCT payload 0) (\<lambda>v.
     let progress = v ! 4 in
     check (v ! 5 \<noteq> 0) (ValueError ''event reserved byte is non-zero'')
    (check (progress \<noteq> 0xFF \<and> progress > 100) (ValueError ''invalid progress'')
    (result_bind (of_option (ValueError ''not a valid EventType'') (EventType_of (v ! 0))) (\<lambda>event_type.
     result_bind (of_option (ValueError ''not a valid Source'') (Source_of (v ! 2))) (\<lambda>source.
     Inr \<lparr>ev_event_type = event_type, ev_severity = v ! 1, ev_source = source,
          ev_related_transaction_id = v ! 3,
          ev_progress_percent = (if progress = 0xFF then None else Some progress),
          ev_data = drop 8 payload\<rparr>))))))"

definition EventEnvelope_layout :: "event_envelope \<Rightarrow> bytes" where
  "EventEnvelope_layout e =
     pack_fields EVENT_STRUCT
       [EventType_value (ev_event_type e), ev_severity e, Source_value (ev_source e),
        ev_related_transaction_id e,
        (case ev_progress_percent e of None \<Rightarrow> 0xFF | Some p \<Rightarrow> p), 0] @ ev_data e"

definition EventEnvelope_wf :: "event_envelope \<Rightarrow> bool" where
  "EventEnvelope_wf e \<longleftrightarrow>
     0 \<le> ev_severity e \<and> ev_severity e < 2 ^ 8 \<and>
     0 \<le> ev_related_transaction_id e \<and> ev_related_transaction_id e < 2 ^ 16 \<and>
     (case ev_progress_percent e of None \<Rightarrow> True | Some p \<Rightarrow> 0 \<le> p \<and> p \<le> 100)"

section \<open>System information\<close>

record system_info =
  si_protocol_version :: int
  si_architecture_major :: int
  si_architecture_minor :: int
  si_architecture_patch :: int
  si_capabilities :: int
  si_sn32_build_id :: int
  si_primer1_build_id :: int
  si_primer2_build_id :: int

definition SystemInfo_decode :: "bytes \<Rightarrow> system_info result" where
  "SystemInfo_decode payload =
     check (length payload \<noteq> 20) (HostProtocolError ''system info must be 20 bytes'')
    (result_bind (struct_unpack_from [4, 4, 4, 4] payload 4) (\<lambda>v.
     Inr \<lparr>si_protocol_version = uint (payload ! 0), si_architecture_major = uint (payload ! 1),
          si_architecture_minor = uint (payload ! 2), si_architecture_patch = uint (payload ! 3),
          si_capabilities = v ! 0, si_sn32_build_id = v ! 1, si_primer1_build_id = v ! 2,
          si_primer2_build_id = v ! 3\<rparr>))"

definition SystemInfo_layout :: "system_info \<Rightarrow> bytes" where
  "SystemInfo_layout i = pack_fields [1, 1, 1, 1, 4, 4, 4, 4]
     [si_protocol_version i, si_architecture_major i, si_architecture_minor i,
      si_architecture_patch i, si_capabilities i, si_sn32_build_id i, si_primer1_build_id i,
      si_primer2_build_id i]"

definition SystemInfo_wf :: "system_info \<Rightarrow> bool" where
  "SystemInfo_wf i \<longleftrightarrow>
     0 \<le> si_protocol_version i \<and> si_protocol_version i < 2 ^ 8 \<and>
     0 \<le> si_architecture_major i \<and> si_architecture_major i < 2 ^ 8 \<and>
     0 \<le> si_architecture_minor i \<and> si_architecture_minor i < 2 ^ 8 \<and>
     0 \<le> si_architecture_patch i \<and> si_architecture_patch i < 2 ^ 8 \<and>
     0 \<le> si_capabilities i \<and> si_capabilities i < 2 ^ 32 \<and>
     0 \<le> si_sn32_build_id i \<and> si_sn32_build_id i < 2 ^ 32 \<and>
     0 \<le> si_primer1_build_id i \<and> si_primer1_build_id i < 2 ^ 32 \<and>
     0 \<le> si_primer2_build_id i \<and> si_primer2_build_id i < 2 ^ 32"

section \<open>SPI diagnostic traces\<close>

definition SPI_DIAGNOSTIC_HEADER_SIZE :: nat where
  "SPI_DIAGNOSTIC_HEADER_SIZE = 24"

definition SPI_DIAGNOSTIC_MAX_CAPTURE :: int where
  "SPI_DIAGNOSTIC_MAX_CAPTURE = 76"

record spi_diagnostic_trace =
  sd_target_id :: int
  sd_command :: int
  sd_source :: int
  sd_result_code :: error_code
  sd_target_transaction_id :: int
  sd_request_fingerprint :: int
  sd_request_length :: int
  sd_response_capture_length :: int
  sd_response_frame_length :: int
  sd_request_crc :: int
  sd_response_crc_received :: int
  sd_response_crc_calculated :: int
  sd_irq_before_request :: bool
  sd_irq_after_request :: bool
  sd_irq_before_response :: bool
  sd_irq_after_response :: bool
  sd_request_bytes :: bytes
  sd_response_bytes :: bytes

definition TRACE_STRUCT :: "nat list" where
  "TRACE_STRUCT = [2, 2, 4, 2, 2, 2, 2, 2, 2]"

definition SpiDiagnosticTrace_decode :: "bytes \<Rightarrow> spi_diagnostic_trace result" where
  "SpiDiagnosticTrace_decode payload =
     check (length payload < SPI_DIAGNOSTIC_HEADER_SIZE)
       (HostProtocolError ''SPI diagnostic payload must be at least 24 bytes'')
    (let irq_flags = uint (payload ! 3) in
     result_bind (struct_unpack_from TRACE_STRUCT payload 4) (\<lambda>v.
     let result_code_raw = v ! 0; target_txid = v ! 1; request_fingerprint = v ! 2;
         request_length = v ! 3; response_capture_length = v ! 4; response_frame_length = v ! 5;
         request_crc = v ! 6; response_crc_received = v ! 7; response_crc_calculated = v ! 8
     in
     check (request_length > SPI_DIAGNOSTIC_MAX_CAPTURE)
       (HostProtocolError ''SPI diagnostic request capture too long'')
    (check (response_capture_length > SPI_DIAGNOSTIC_MAX_CAPTURE)
       (HostProtocolError ''SPI diagnostic response capture too long'')
    (let expected_length = int SPI_DIAGNOSTIC_HEADER_SIZE + request_length + response_capture_length in
     check (int (length payload) \<noteq> expected_length)
       (HostProtocolError ''SPI diagnostic payload length'')
    (result_bind (of_option (HostProtocolError ''unknown SPI diagnostic result'')
        (ErrorCode_of result_code_raw)) (\<lambda>result_code.
     let request_start = SPI_DIAGNOSTIC_HEADER_SIZE;
         response_start = request_start + nat request_length
     in
     Inr \<lparr>sd_target_id = uint (payload ! 0), sd_command = uint (payload ! 1),
          sd_source = uint (payload ! 2), sd_result_code = result_code,
          sd_target_transaction_id = target_txid, sd_request_fingerprint = request_fingerprint,
          sd_request_length = request_length, sd_response_capture_length = response_capture_length,
          sd_response_frame_length = response_frame_length, sd_request_crc = request_crc,
          sd_response_crc_received = response_crc_received,
          sd_response_crc_calculated = response_crc_calculated,
          sd_irq_before_request = (irq_flags AND 1 \<noteq> 0),
          sd_irq_after_request = (irq_flags AND 2 \<noteq> 0),
          sd_irq_before_response = (irq_flags AND 4 \<noteq> 0),
          sd_irq_after_response = (irq_flags AND 8 \<noteq> 0),
          sd_request_bytes = slice request_start response_start payload,
          sd_response_bytes = slice response_start (nat expected_length) payload\<rparr>))))))"

section \<open>The last error and the session-commit diagnostic\<close>

record last_error_snapshot =
  le_code :: error_code
  le_source :: int
  le_detail :: int

definition LAST_ERROR_STRUCT :: "nat list" where
  "LAST_ERROR_STRUCT = [2, 1, 1, 4]"

definition LastErrorSnapshot_decode :: "bytes \<Rightarrow> last_error_snapshot result" where
  "LastErrorSnapshot_decode payload =
     check (length payload \<noteq> 8) (HostProtocolError ''GET_LAST_ERROR response must be 8 bytes'')
    (result_bind (struct_unpack LAST_ERROR_STRUCT payload) (\<lambda>v.
     check (v ! 2 \<noteq> 0) (HostProtocolError ''GET_LAST_ERROR reserved byte is nonzero'')
    (result_bind (of_option (HostProtocolError ''unknown last-error code'') (ErrorCode_of (v ! 0))) (\<lambda>code.
     Inr \<lparr>le_code = code, le_source = v ! 1, le_detail = v ! 3\<rparr>))))"

record session_commit_diagnostic =
  sc_phase :: int
  sc_gpio_high :: bool
  sc_p1_session_state :: int
  sc_p2_session_state :: int
  sc_p1_secure_flags :: int
  sc_p2_secure_flags :: int

definition from_last_error :: "last_error_snapshot \<Rightarrow> session_commit_diagnostic option" where
  "from_last_error snapshot =
     (if le_code snapshot \<noteq> EC_SESSION_COMMIT_FAILED then None
      else
        (let detail = le_detail snapshot in
         Some \<lparr>sc_phase = drop_bit 28 detail AND 0x0F,
               sc_gpio_high = (detail AND 0x08000000 \<noteq> 0),
               sc_p1_session_state = drop_bit 20 detail AND 0x0F,
               sc_p2_session_state = drop_bit 16 detail AND 0x0F,
               sc_p1_secure_flags = drop_bit 8 detail AND 0xFF,
               sc_p2_secure_flags = detail AND 0xFF\<rparr>))"

definition LastErrorSnapshot_layout :: "last_error_snapshot \<Rightarrow> bytes" where
  "LastErrorSnapshot_layout s =
     pack_fields LAST_ERROR_STRUCT [ErrorCode_value (le_code s), le_source s, 0, le_detail s]"

definition LastErrorSnapshot_wf :: "last_error_snapshot \<Rightarrow> bool" where
  "LastErrorSnapshot_wf s \<longleftrightarrow>
     0 \<le> le_source s \<and> le_source s < 2 ^ 8 \<and> 0 \<le> le_detail s \<and> le_detail s < 2 ^ 32"

text \<open>The detail word that carries a diagnostic (bits 24 to 26 are unused).\<close>

definition commit_detail :: "session_commit_diagnostic \<Rightarrow> int" where
  "commit_detail d = sc_phase d * 2 ^ 28 + (if sc_gpio_high d then 2 ^ 27 else 0)
     + sc_p1_session_state d * 2 ^ 20 + sc_p2_session_state d * 2 ^ 16
     + sc_p1_secure_flags d * 2 ^ 8 + sc_p2_secure_flags d"

text \<open>The layout of a trace; the decoder ignores the four high bits of the flag byte.\<close>

definition SpiDiagnosticTrace_layout :: "spi_diagnostic_trace \<Rightarrow> bytes" where
  "SpiDiagnosticTrace_layout t =
     [word_of_int (sd_target_id t), word_of_int (sd_command t), word_of_int (sd_source t),
      word_of_int (of_bool (sd_irq_before_request t) + 2 * of_bool (sd_irq_after_request t)
        + 4 * of_bool (sd_irq_before_response t) + 8 * of_bool (sd_irq_after_response t))]
     @ pack_fields TRACE_STRUCT
         [ErrorCode_value (sd_result_code t), sd_target_transaction_id t, sd_request_fingerprint t,
          sd_request_length t, sd_response_capture_length t, sd_response_frame_length t,
          sd_request_crc t, sd_response_crc_received t, sd_response_crc_calculated t]
     @ sd_request_bytes t @ sd_response_bytes t"

definition SpiDiagnosticTrace_wf :: "spi_diagnostic_trace \<Rightarrow> bool" where
  "SpiDiagnosticTrace_wf t \<longleftrightarrow>
     0 \<le> sd_target_id t \<and> sd_target_id t < 2 ^ 8 \<and> 0 \<le> sd_command t \<and> sd_command t < 2 ^ 8 \<and>
     0 \<le> sd_source t \<and> sd_source t < 2 ^ 8 \<and>
     0 \<le> sd_target_transaction_id t \<and> sd_target_transaction_id t < 2 ^ 16 \<and>
     0 \<le> sd_request_fingerprint t \<and> sd_request_fingerprint t < 2 ^ 32 \<and>
     sd_request_length t = int (length (sd_request_bytes t)) \<and>
     sd_response_capture_length t = int (length (sd_response_bytes t)) \<and>
     length (sd_request_bytes t) \<le> 76 \<and> length (sd_response_bytes t) \<le> 76 \<and>
     0 \<le> sd_response_frame_length t \<and> sd_response_frame_length t < 2 ^ 16 \<and>
     0 \<le> sd_request_crc t \<and> sd_request_crc t < 2 ^ 16 \<and>
     0 \<le> sd_response_crc_received t \<and> sd_response_crc_received t < 2 ^ 16 \<and>
     0 \<le> sd_response_crc_calculated t \<and> sd_response_crc_calculated t < 2 ^ 16"

section \<open>The contract of a payload decoder\<close>

locale payload_decoder =
  fixes dec :: "bytes \<Rightarrow> 'r result"
    and layout :: "'r \<Rightarrow> bytes"
    and wf :: "'r \<Rightarrow> bool"
  assumes dec_layout: "wf r \<Longrightarrow> dec (layout r) = Inr r"
    and dec_wf: "dec bs = Inr r \<Longrightarrow> wf r"
begin

lemma layout_inj: "wf r \<Longrightarrow> wf r' \<Longrightarrow> layout r = layout r' \<Longrightarrow> r = r'"
  by (metis dec_layout sum.inject(2))

lemma dec_range: "{r. \<exists>bs. dec bs = Inr r} = Collect wf"
  using dec_layout dec_wf by auto

end

locale exact_decoder = payload_decoder +
  assumes dec_exact: "dec bs = Inr r \<Longrightarrow> bs = layout r"
begin

lemma dec_iff_layout: "dec bs = Inr r \<longleftrightarrow> wf r \<and> bs = layout r"
  using dec_exact dec_layout dec_wf by blast

lemma dec_deterministic: "dec bs = Inr r \<Longrightarrow> dec bs' = Inr r \<Longrightarrow> bs = bs'"
  using dec_exact by blast

end

lemmas decode_simps =
  result_bind_eq_Inr struct_unpack_iff struct_unpack_from_0_iff fields_ok_Cons_ex Let_def

lemma SystemStatus_fields_ok:
  "SystemStatus_wf s \<Longrightarrow> fields_ok STATUS_STRUCT
     [SystemState_value (st_system_state s), Mode_value (st_mode s), st_target_ready_mask s,
      st_fault_flags s, st_session_id s, st_current_sequence s, ErrorCode_value (st_last_error s),
      st_active_host_txid s]"
  by (simp add: SystemStatus_wf_def STATUS_STRUCT_def)

interpretation status: exact_decoder SystemStatus_decode SystemStatus_layout SystemStatus_wf
proof
  fix s bs
  show "SystemStatus_wf s \<Longrightarrow> SystemStatus_decode (SystemStatus_layout s) = Inr s"
    by (simp add: SystemStatus_decode_def SystemStatus_layout_def SystemStatus_fields_ok)
  assume "SystemStatus_decode bs = Inr s"
  then show "SystemStatus_wf s" and "bs = SystemStatus_layout s"
    by (auto simp: SystemStatus_decode_def SystemStatus_layout_def SystemStatus_wf_def
        STATUS_STRUCT_def decode_simps)
qed

lemma TransactionResult_fields_ok:
  "TransactionResult_wf r \<Longrightarrow> fields_ok TXN_STRUCT
     [tr_queried_txid r, TransactionState_value (tr_state r), tr_original_command r,
      ErrorCode_value (tr_result_code r), int (length (tr_data r))]"
  by (simp add: TransactionResult_wf_def TXN_STRUCT_def)

interpretation txn: exact_decoder TransactionResult_decode TransactionResult_layout TransactionResult_wf
proof
  fix r bs
  have size: "sum_list TXN_STRUCT = 8" by (simp add: TXN_STRUCT_def)
  show "TransactionResult_wf r \<Longrightarrow> TransactionResult_decode (TransactionResult_layout r) = Inr r"
    by (simp add: TransactionResult_decode_def TransactionResult_layout_def size
        TransactionResult_fields_ok Let_def)
  assume "TransactionResult_decode bs = Inr r"
  then show "TransactionResult_wf r" and "bs = TransactionResult_layout r"
    by (auto simp: TransactionResult_decode_def TransactionResult_layout_def TransactionResult_wf_def
        TXN_STRUCT_def decode_simps)
qed

lemma EventEnvelope_fields_ok:
  "EventEnvelope_wf e \<Longrightarrow> fields_ok EVENT_STRUCT
     [EventType_value (ev_event_type e), ev_severity e, Source_value (ev_source e),
      ev_related_transaction_id e,
      (case ev_progress_percent e of None \<Rightarrow> 0xFF | Some p \<Rightarrow> p), 0]"
  using order_less_trans [OF EventType_value_range(2) [of "ev_event_type e"], of 65536]
  by (auto simp: EventEnvelope_wf_def EVENT_STRUCT_def split: option.splits)

interpretation event: exact_decoder EventEnvelope_decode EventEnvelope_layout EventEnvelope_wf
proof
  fix e bs
  have size: "sum_list EVENT_STRUCT = 8" by (simp add: EVENT_STRUCT_def)
  show "EventEnvelope_wf e \<Longrightarrow> EventEnvelope_decode (EventEnvelope_layout e) = Inr e"
    by (simp add: EventEnvelope_decode_def EventEnvelope_layout_def size
        EventEnvelope_fields_ok Let_def)
      (auto simp: EventEnvelope_wf_def split: option.splits)
  assume "EventEnvelope_decode bs = Inr e"
  then show "EventEnvelope_wf e" and "bs = EventEnvelope_layout e"
    by (auto simp: EventEnvelope_decode_def EventEnvelope_layout_def EventEnvelope_wf_def
        EVENT_STRUCT_def decode_simps)
qed

lemma LastErrorSnapshot_fields_ok:
  "LastErrorSnapshot_wf s \<Longrightarrow>
     fields_ok LAST_ERROR_STRUCT [ErrorCode_value (le_code s), le_source s, 0, le_detail s]"
  by (simp add: LastErrorSnapshot_wf_def LAST_ERROR_STRUCT_def)

interpretation last_error: exact_decoder LastErrorSnapshot_decode LastErrorSnapshot_layout LastErrorSnapshot_wf
proof
  fix s bs
  have size: "sum_list LAST_ERROR_STRUCT = 8" by (simp add: LAST_ERROR_STRUCT_def)
  show "LastErrorSnapshot_wf s \<Longrightarrow> LastErrorSnapshot_decode (LastErrorSnapshot_layout s) = Inr s"
    by (simp add: LastErrorSnapshot_decode_def LastErrorSnapshot_layout_def size
        LastErrorSnapshot_fields_ok Let_def)
  assume "LastErrorSnapshot_decode bs = Inr s"
  then show "LastErrorSnapshot_wf s" and "bs = LastErrorSnapshot_layout s"
    by (auto simp: LastErrorSnapshot_decode_def LastErrorSnapshot_layout_def LastErrorSnapshot_wf_def
        LAST_ERROR_STRUCT_def decode_simps)
qed

lemma be_int_singleton [simp]: "be_int [b] = uint b"
  using be_int_snoc [of "[]" b] by simp

lemma word_of_int_uint_byte [simp]: "word_of_int (uint b) = (b :: byte)"
  by simp

lemma to_be_1 [simp]: "to_be 1 x = [word_of_int x]" "to_be (Suc 0) x = [word_of_int x]"
  by simp_all

lemma uint_word_of_int_byte_id [simp]: "0 \<le> x \<Longrightarrow> x < 256 \<Longrightarrow> uint (word_of_int x :: byte) = x"
  by (simp add: uint_word_of_int_byte)

lemma split_38:
  "length bs = 38 \<Longrightarrow> \<exists>a b c. bs = a @ b @ c \<and> length a = 12 \<and> length b = 24 \<and> length c = 2"
  by (rule exI [of _ "take 12 bs"], rule exI [of _ "take 24 (drop 12 bs)"],
      rule exI [of _ "drop 24 (drop 12 bs)"]) (simp add: append_take_drop_id del: drop_drop)

interpretation auth: exact_decoder AuthenticatedResult_decode AuthenticatedResult_layout AuthenticatedResult_wf
proof
  fix r bs
  have size: "sum_list AUTH_STRUCT = 12" by (simp add: AUTH_STRUCT_def)
  show "AuthenticatedResult_wf r \<Longrightarrow> AuthenticatedResult_decode (AuthenticatedResult_layout r) = Inr r"
    using ErrorCode_value_range(2) [of "ar_result_code r"]
    by (simp add: AuthenticatedResult_decode_def AuthenticatedResult_layout_def AuthenticatedResult_wf_def
        slice_def AUTH_STRUCT_def)
  assume d: "AuthenticatedResult_decode bs = Inr r"
  then have "length bs = 38" by (simp add: AuthenticatedResult_decode_def)
  then obtain a b c where bs: "bs = a @ b @ c" and len: "length a = 12" "length b = 24" "length c = 2"
    using split_38 by blast
  from d len obtain m where
    r: "r = \<lparr>ar_session_id = be_int (take 4 a), ar_sequence = be_int (drop 4 a), ar_plaintext = b,
        ar_result_code = m\<rparr>" and m: "ErrorCode_value m = be_int c"
    by (auto simp: bs AuthenticatedResult_decode_def AUTH_STRUCT_def result_bind_eq_Inr slice_def)
  have "a = to_be 4 (be_int (take 4 a)) @ to_be 8 (be_int (drop 4 a))"
    using to_be_be_int [of "take 4 a"] to_be_be_int [of "drop 4 a"] len by simp
  moreover have "c = to_be 2 (ErrorCode_value m)"
    using to_be_be_int [of c] len m by simp
  ultimately show "bs = AuthenticatedResult_layout r"
    by (simp add: bs r AuthenticatedResult_layout_def AUTH_STRUCT_def)
  show "AuthenticatedResult_wf r"
    using be_int_less [of "take 4 a"] be_int_less [of "drop 4 a"] len
    by (simp add: r AuthenticatedResult_wf_def)
qed

interpretation info: exact_decoder SystemInfo_decode SystemInfo_layout SystemInfo_wf
proof
  fix r bs
  show "SystemInfo_wf r \<Longrightarrow> SystemInfo_decode (SystemInfo_layout r) = Inr r"
    by (simp add: SystemInfo_decode_def SystemInfo_layout_def SystemInfo_wf_def)
  assume d: "SystemInfo_decode bs = Inr r"
  then have "length bs = 20" by (simp add: SystemInfo_decode_def)
  then obtain b0 b1 b2 b3 rest where bs: "bs = b0 # b1 # b2 # b3 # rest" and len: "length rest = 16"
    by (auto simp: numeral_eq_Suc length_Suc_conv)
  have struct: "struct_unpack_from [4, 4, 4, 4] bs 4 = struct_unpack_from [4, 4, 4, 4] rest 0"
    by (subst struct_unpack_from_drop) (simp_all add: bs)
  from d show "SystemInfo_wf r" and "bs = SystemInfo_layout r"
    using len unfolding SystemInfo_decode_def struct
    by (auto simp: SystemInfo_layout_def SystemInfo_wf_def bs
        result_bind_eq_Inr struct_unpack_from_0_iff fields_ok_Cons_ex simp del: struct_unpack_from_ok)
qed

lemma irq_bits:
  fixes a b c d :: bool
  defines "n \<equiv> of_bool a + 2 * of_bool b + 4 * of_bool c + 8 * of_bool d :: int"
  shows "n AND 1 \<noteq> 0 \<longleftrightarrow> a" "n AND 2 \<noteq> 0 \<longleftrightarrow> b" "n AND 4 \<noteq> 0 \<longleftrightarrow> c" "n AND 8 \<noteq> 0 \<longleftrightarrow> d"
    "0 \<le> n" "n < 256"
  by (cases a; cases b; cases c; cases d; simp add: n_def)+

lemma drop_4_Cons [simp]: "drop 4 (a # b # c # d # xs) = xs"
  by (simp add: numeral_eq_Suc)

lemma drop_24_Cons [simp]: "drop (24 + n) (a # b # c # d # xs) = drop (20 + n) xs"
proof -
  have "drop (24 + n) ys = drop (20 + n) (drop 4 ys)" for ys :: "'a list" by simp
  then show ?thesis by (simp only: drop_4_Cons)
qed

interpretation trace: payload_decoder SpiDiagnosticTrace_decode SpiDiagnosticTrace_layout SpiDiagnosticTrace_wf
proof
  fix t bs
  have size: "sum_list TRACE_STRUCT = 20" by (simp add: TRACE_STRUCT_def)
  show "SpiDiagnosticTrace_decode (SpiDiagnosticTrace_layout t) = Inr t" if wf: "SpiDiagnosticTrace_wf t"
  proof -
    define fs where "fs = [ErrorCode_value (sd_result_code t), sd_target_transaction_id t,
        sd_request_fingerprint t, sd_request_length t, sd_response_capture_length t,
        sd_response_frame_length t, sd_request_crc t, sd_response_crc_received t,
        sd_response_crc_calculated t]"
    have ok: "fields_ok TRACE_STRUCT fs"
      using wf by (simp add: fs_def TRACE_STRUCT_def SpiDiagnosticTrace_wf_def)
    define irq where "irq = of_bool (sd_irq_before_request t) + 2 * of_bool (sd_irq_after_request t)
        + 4 * of_bool (sd_irq_before_response t) + (8 :: int) * of_bool (sd_irq_after_response t)"
    have layout: "SpiDiagnosticTrace_layout t =
        word_of_int (sd_target_id t) # word_of_int (sd_command t) # word_of_int (sd_source t) #
        word_of_int irq # pack_fields TRACE_STRUCT fs @ sd_request_bytes t @ sd_response_bytes t"
      by (simp add: SpiDiagnosticTrace_layout_def fs_def irq_def)
    have unpack: "struct_unpack_from TRACE_STRUCT (SpiDiagnosticTrace_layout t) 4 = Inr fs"
      using ok by (subst struct_unpack_from_drop) (simp_all add: layout size)
    have irq: "uint (word_of_int irq :: byte) = irq" and
      bits: "irq AND 1 \<noteq> 0 \<longleftrightarrow> sd_irq_before_request t" "irq AND 2 \<noteq> 0 \<longleftrightarrow> sd_irq_after_request t"
        "irq AND 4 \<noteq> 0 \<longleftrightarrow> sd_irq_before_response t" "irq AND 8 \<noteq> 0 \<longleftrightarrow> sd_irq_after_response t"
      using irq_bits unfolding irq_def by simp_all
    show ?thesis
      using wf unfolding SpiDiagnosticTrace_decode_def unpack
      by (simp add: layout size fs_def irq bits Let_def SpiDiagnosticTrace_wf_def slice_def
          SPI_DIAGNOSTIC_HEADER_SIZE_def SPI_DIAGNOSTIC_MAX_CAPTURE_def)
  qed
  show "SpiDiagnosticTrace_wf t" if d: "SpiDiagnosticTrace_decode bs = Inr t"
  proof -
    have "24 \<le> length bs"
      using d by (simp add: SpiDiagnosticTrace_decode_def SPI_DIAGNOSTIC_HEADER_SIZE_def)
    then obtain b0 b1 b2 b3 rest where bs: "bs = b0 # b1 # b2 # b3 # rest"
      by (auto simp: numeral_eq_Suc Suc_le_length_iff)
    have struct: "struct_unpack_from TRACE_STRUCT bs 4 = struct_unpack_from TRACE_STRUCT rest 0"
      by (subst struct_unpack_from_drop) (simp_all add: bs)
    obtain v m where v: "fields_ok TRACE_STRUCT v" and
      len: "int (length bs) = 24 + v ! 3 + v ! 4" "v ! 3 \<le> 76" "v ! 4 \<le> 76" and
      t: "sd_target_id t = uint b0" "sd_command t = uint b1" "sd_source t = uint b2"
        "sd_target_transaction_id t = v ! 1" "sd_request_fingerprint t = v ! 2"
        "sd_request_length t = v ! 3" "sd_response_capture_length t = v ! 4"
        "sd_response_frame_length t = v ! 5" "sd_request_crc t = v ! 6"
        "sd_response_crc_received t = v ! 7" "sd_response_crc_calculated t = v ! 8"
        "sd_request_bytes t = slice 24 (24 + nat (v ! 3)) bs"
        "sd_response_bytes t = slice (24 + nat (v ! 3)) (nat (24 + v ! 3 + v ! 4)) bs"
      using d unfolding SpiDiagnosticTrace_decode_def struct
      by (auto simp: bs SPI_DIAGNOSTIC_HEADER_SIZE_def SPI_DIAGNOSTIC_MAX_CAPTURE_def Let_def
          result_bind_eq_Inr struct_unpack_from_0_iff simp del: struct_unpack_from_ok)
    have "0 \<le> v ! 3" "0 \<le> v ! 4" and ok: "fields_ok TRACE_STRUCT v"
      using v by (auto simp: TRACE_STRUCT_def fields_ok_Cons_ex)
    then show ?thesis
      using len v unfolding SpiDiagnosticTrace_wf_def t
      by (auto simp: TRACE_STRUCT_def fields_ok_Cons_ex)
  qed
qed

section \<open>The session-commit diagnostic\<close>

text \<open>The firmware packs six fields into the 32-bit detail word; \<open>from_last_error\<close> unpacks
  them, whatever the three unused bits hold.\<close>

definition commit_diagnostic_wf :: "session_commit_diagnostic \<Rightarrow> bool" where
  "commit_diagnostic_wf d \<longleftrightarrow>
     0 \<le> sc_phase d \<and> sc_phase d < 16 \<and>
     0 \<le> sc_p1_session_state d \<and> sc_p1_session_state d < 16 \<and>
     0 \<le> sc_p2_session_state d \<and> sc_p2_session_state d < 16 \<and>
     0 \<le> sc_p1_secure_flags d \<and> sc_p1_secure_flags d < 256 \<and>
     0 \<le> sc_p2_secure_flags d \<and> sc_p2_secure_flags d < 256"

lemma int_and_0F: "(x :: int) AND 0x0F = x mod 16"
  using take_bit_eq_mask [of 4 x] by (simp add: take_bit_eq_mod mask_eq_exp_minus_1)

lemma int_and_bit_27: "(x :: int) AND 0x08000000 \<noteq> 0 \<longleftrightarrow> odd (x div 2 ^ 27)"
  using and_exp_eq_0_iff_not_bit [of x 27] by (simp add: bit_iff_odd)

lemma digit_div_mod: "0 \<le> r \<Longrightarrow> r < m \<Longrightarrow> (q * m + r) div m = q \<and> (q * m + r) mod m = (r :: int)"
  by simp

lemma commit_detail_fields:
  assumes wf: "commit_diagnostic_wf d" and u: "0 \<le> u" "u < 8"
  defines "x \<equiv> commit_detail d + u * 2 ^ 24"
  shows "drop_bit 28 x AND 0x0F = sc_phase d"
    and "(x AND 0x08000000 \<noteq> 0) = sc_gpio_high d"
    and "drop_bit 20 x AND 0x0F = sc_p1_session_state d"
    and "drop_bit 16 x AND 0x0F = sc_p2_session_state d"
    and "drop_bit 8 x AND 0xFF = sc_p1_secure_flags d"
    and "x AND 0xFF = sc_p2_secure_flags d"
proof -
  define a where "a = sc_phase d * 2 + of_bool (sc_gpio_high d)"
  define b where "b = (a * 8 + u) * 16 + sc_p1_session_state d"
  define c where "c = b * 16 + sc_p2_session_state d"
  define e where "e = c * 256 + sc_p1_secure_flags d"
  have x: "x = e * 256 + sc_p2_secure_flags d"
    by (simp add: x_def commit_detail_def a_def b_def c_def e_def algebra_simps)
  note wf' = wf [unfolded commit_diagnostic_wf_def]
  have r: "x div 256 = e" "x mod 256 = sc_p2_secure_flags d"
    using wf' by (simp_all add: x)
  have r2: "e div 256 = c" "e mod 256 = sc_p1_secure_flags d"
    using wf' by (simp_all add: e_def)
  have r3: "c div 16 = b" "c mod 16 = sc_p2_session_state d"
    using wf' by (simp_all add: c_def)
  have r4: "b div 16 = a * 8 + u" "b mod 16 = sc_p1_session_state d"
    unfolding b_def using digit_div_mod [of "sc_p1_session_state d" 16] wf' by blast+
  have r5: "(a * 8 + u) div 8 = a" "a div 2 = sc_phase d" "odd a = sc_gpio_high d"
    "sc_phase d mod 16 = sc_phase d"
    using wf' u by (auto simp: a_def)
  have step: "x div 2 ^ (m + n) = x div 2 ^ m div 2 ^ n" for m n
    by (simp add: zdiv_zmult2_eq power_add)
  have d8: "x div 2 ^ 8 = e" using r(1) by simp
  have d16: "x div 2 ^ 16 = c" using step [of 8 8] d8 r2(1) by simp
  have d20: "x div 2 ^ 20 = b" using step [of 16 4] d16 r3(1) by simp
  have "x div 2 ^ 24 = a * 8 + u" using step [of 20 4] d20 r4(1) by simp
  then have d27: "x div 2 ^ 27 = a" using step [of 24 3] r5(1) by simp
  have d28: "x div 2 ^ 28 = sc_phase d" using step [of 27 1] d27 r5(2) by simp
  note d = d8 d16 d20 d27 d28
  show "drop_bit 28 x AND 0x0F = sc_phase d" "(x AND 0x08000000 \<noteq> 0) = sc_gpio_high d"
    "drop_bit 20 x AND 0x0F = sc_p1_session_state d"
    "drop_bit 16 x AND 0x0F = sc_p2_session_state d"
    "drop_bit 8 x AND 0xFF = sc_p1_secure_flags d" "x AND 0xFF = sc_p2_secure_flags d"
    unfolding int_and_0F int_and_bit_27 int_and_FF drop_bit_eq_div d r r2 r3 r4 r5
    by simp_all
qed

lemma from_last_error_commit_detail:
  "commit_diagnostic_wf d \<Longrightarrow> 0 \<le> u \<Longrightarrow> u < 8 \<Longrightarrow>
     from_last_error \<lparr>le_code = EC_SESSION_COMMIT_FAILED, le_source = src,
       le_detail = commit_detail d + u * 2 ^ 24\<rparr> = Some d"
  unfolding from_last_error_def Let_def last_error_snapshot.simps
  by (simp only: commit_detail_fields) simp

end
