(* ===== verification/Io.thy ===== *)
theory Io
  imports Payloads
begin

text \<open>
  The effects of the serial client, as explicit state passing. What the program reaches through
  pyserial and the clock is code outside the repository, so it is a parameter: a \<open>'w port\<close> holds one
  function per external call, over an arbitrary type \<open>'w\<close> of states of the outside world.
  A client computation maps the client's state to \<open>None\<close> (it never returns) or to an exception or a
  value with the new state. Times are integers in microseconds.

  The theory holds the combinators the client is written with (sequencing, \<open>raise\<close>,
  \<open>try\<close>/\<open>except\<close>, \<open>try\<close>/\<open>finally\<close>, \<open>for\<close> loops, and one general loop), the weakest-precondition
  rules that verify them for partial (\<open>t = True\<close>) and total (\<open>t = False\<close>) correctness, a port that
  logs what is written, and a scripted port on which witnesses run.
\<close>

section \<open>The outside world\<close>

record 'w port =
  p_read :: "'w \<Rightarrow> bytes result \<times> 'w"
  p_write :: "bytes \<Rightarrow> 'w \<Rightarrow> int result \<times> 'w"
  p_flush :: "'w \<Rightarrow> unit result \<times> 'w"
  p_clock :: "'w \<Rightarrow> int \<times> 'w"
  p_sleep :: "int \<Rightarrow> 'w \<Rightarrow> 'w"
  p_event_handler :: "(event_envelope \<Rightarrow> 'w \<Rightarrow> unit result \<times> 'w) option"

text \<open>The state of a \<open>TrinitySerialClient\<close>: its next transaction ID and its receive buffer.\<close>

record 'w client =
  next_transaction_id :: int
  rx :: bytes
  world :: 'w

type_synonym ('w, 'a) io = "'w client \<Rightarrow> ('a result \<times> 'w client) option"

section \<open>Combinators\<close>

definition io_return :: "'a \<Rightarrow> ('w, 'a) io" where
  "io_return a = (\<lambda>s. Some (Inr a, s))"

definition io_raise :: "exn \<Rightarrow> ('w, 'a) io" where
  "io_raise e = (\<lambda>s. Some (Inl e, s))"

definition io_bind :: "('w, 'a) io \<Rightarrow> ('a \<Rightarrow> ('w, 'b) io) \<Rightarrow> ('w, 'b) io" where
  "io_bind m k = (\<lambda>s. Option.bind (m s) (\<lambda>(r, s'). case r of Inl e \<Rightarrow> Some (Inl e, s') | Inr a \<Rightarrow> k a s'))"

definition io_then :: "('w, 'a) io \<Rightarrow> ('w, 'b) io \<Rightarrow> ('w, 'b) io" where
  "io_then m k = io_bind m (\<lambda>_. k)"

definition io_lift :: "'a result \<Rightarrow> ('w, 'a) io" where
  "io_lift r = (\<lambda>s. Some (r, s))"

text \<open>\<open>if bad: raise e\<close>, followed by the rest.\<close>

definition io_check :: "bool \<Rightarrow> exn \<Rightarrow> ('w, 'a) io \<Rightarrow> ('w, 'a) io" where
  "io_check bad e k = (if bad then io_raise e else k)"

text \<open>\<open>try: m except Exception as e: h e\<close>; the handler raises again what it does not catch.\<close>

definition io_try :: "('w, 'a) io \<Rightarrow> (exn \<Rightarrow> ('w, 'a) io) \<Rightarrow> ('w, 'a) io" where
  "io_try m h = (\<lambda>s. Option.bind (m s) (\<lambda>(r, s'). case r of Inl e \<Rightarrow> h e s' | Inr a \<Rightarrow> Some (Inr a, s')))"

text \<open>\<open>try: m finally: fin\<close>: an exception of \<open>fin\<close> replaces the outcome of \<open>m\<close>.\<close>

definition io_finally :: "('w, 'a) io \<Rightarrow> ('w, unit) io \<Rightarrow> ('w, 'a) io" where
  "io_finally m fin = (\<lambda>s. Option.bind (m s) (\<lambda>(r, s'). io_bind fin (\<lambda>_. io_lift r) s'))"

text \<open>\<open>for x in xs: acc = body acc x\<close>.\<close>

primrec io_for :: "'x list \<Rightarrow> ('a \<Rightarrow> 'x \<Rightarrow> ('w, 'a) io) \<Rightarrow> 'a \<Rightarrow> ('w, 'a) io" where
  "io_for [] body acc = io_return acc"
| "io_for (x # xs) body acc = io_bind (body acc x) (io_for xs body)"

text \<open>\<open>while True\<close>: the body's \<open>Inl x\<close> continues with \<open>x\<close>, its \<open>Inr b\<close> leaves the loop with \<open>b\<close>.\<close>

partial_function (option) io_loop :: "('x \<Rightarrow> ('w, 'x + 'b) io) \<Rightarrow> 'x \<Rightarrow> 'w client \<Rightarrow> ('b result \<times> 'w client) option" where
  [code]: "io_loop body x s = Option.bind (body x s) (\<lambda>(r, s').
     case r of Inl e \<Rightarrow> Some (Inl e, s')
             | Inr (Inl x') \<Rightarrow> io_loop body x' s'
             | Inr (Inr b) \<Rightarrow> Some (Inr b, s'))"

text \<open>The primitive operations: access to the client's fields, and the port's calls.\<close>

definition get_next_transaction_id :: "('w, int) io" where
  "get_next_transaction_id = (\<lambda>s. Some (Inr (next_transaction_id s), s))"

definition set_next_transaction_id :: "int \<Rightarrow> ('w, unit) io" where
  "set_next_transaction_id i = (\<lambda>s. Some (Inr (), s\<lparr>next_transaction_id := i\<rparr>))"

definition get_rx :: "('w, bytes) io" where
  "get_rx = (\<lambda>s. Some (Inr (rx s), s))"

definition set_rx :: "bytes \<Rightarrow> ('w, unit) io" where
  "set_rx bs = (\<lambda>s. Some (Inr (), s\<lparr>rx := bs\<rparr>))"

definition io_world :: "('w \<Rightarrow> 'a result \<times> 'w) \<Rightarrow> ('w, 'a) io" where
  "io_world f = (\<lambda>s. Some (fst (f (world s)), s\<lparr>world := snd (f (world s))\<rparr>))"

definition serial_read :: "'w port \<Rightarrow> ('w, bytes) io" where
  "serial_read P = io_world (p_read P)"

definition serial_write :: "'w port \<Rightarrow> bytes \<Rightarrow> ('w, int) io" where
  "serial_write P bs = io_world (p_write P bs)"

definition serial_flush :: "'w port \<Rightarrow> ('w, unit) io" where
  "serial_flush P = io_world (p_flush P)"

definition monotonic :: "'w port \<Rightarrow> ('w, int) io" where
  "monotonic P = io_world (\<lambda>w. (Inr (fst (p_clock P w)), snd (p_clock P w)))"

definition time_sleep :: "'w port \<Rightarrow> int \<Rightarrow> ('w, unit) io" where
  "time_sleep P d =
     io_check (d < 0) (ValueError ''sleep length must be non-negative'')
       (io_world (\<lambda>w. (Inr (), p_sleep P d w)))"

section \<open>Weakest preconditions\<close>

text \<open>\<open>wp t m Q E s\<close>: run from \<open>s\<close>, \<open>m\<close> returns a value in a state satisfying \<open>Q\<close> or raises an
  exception in a state satisfying \<open>E\<close>; when it does not return, the verdict is \<open>t\<close>.\<close>

definition wp :: "bool \<Rightarrow> ('w, 'a) io \<Rightarrow> ('a \<Rightarrow> 'w client \<Rightarrow> bool) \<Rightarrow> (exn \<Rightarrow> 'w client \<Rightarrow> bool)
    \<Rightarrow> 'w client \<Rightarrow> bool" where
  "wp t m Q E s = (case m s of None \<Rightarrow> t | Some (Inl e, s') \<Rightarrow> E e s' | Some (Inr a, s') \<Rightarrow> Q a s')"

named_theorems wp_simps "weakest preconditions of the combinators"

lemma wp_return [wp_simps]: "wp t (io_return a) Q E = Q a"
  by (simp add: fun_eq_iff wp_def io_return_def)

lemma wp_raise [wp_simps]: "wp t (io_raise e) Q E = E e"
  by (simp add: fun_eq_iff wp_def io_raise_def)

lemma wp_bind [wp_simps]: "wp t (io_bind m k) Q E s = wp t m (\<lambda>a. wp t (k a) Q E) E s"
  by (auto simp: wp_def io_bind_def split: option.split sum.split)

lemma wp_then [wp_simps]: "wp t (io_then m k) Q E s = wp t m (\<lambda>_. wp t k Q E) E s"
  by (simp add: io_then_def wp_bind)

lemma wp_lift [wp_simps]:
  "wp t (io_lift r) Q E s = (case r of Inl e \<Rightarrow> E e s | Inr a \<Rightarrow> Q a s)"
  by (auto simp: wp_def io_lift_def split: sum.split)

lemma wp_check [wp_simps]: "wp t (io_check b e k) Q E s = (if b then E e s else wp t k Q E s)"
  by (simp add: io_check_def wp_raise)

lemma wp_if [wp_simps]: "wp t (if b then m else k) Q E s = (if b then wp t m Q E s else wp t k Q E s)"
  by simp

lemma wp_try [wp_simps]: "wp t (io_try m h) Q E s = wp t m Q (\<lambda>e. wp t (h e) Q E) s"
  by (auto simp: wp_def io_try_def split: option.split sum.split)

lemma wp_finally [wp_simps]:
  "wp t (io_finally m fin) Q E s = wp t m (\<lambda>a. wp t fin (\<lambda>_. Q a) E) (\<lambda>e. wp t fin (\<lambda>_. E e) E) s"
  by (auto simp: wp_def io_finally_def io_bind_def io_lift_def split: option.split sum.split)

lemma wp_fields [wp_simps]:
  "wp t get_next_transaction_id Qi E s = Qi (next_transaction_id s) s"
  "wp t (set_next_transaction_id i) Qu E s = Qu () (s\<lparr>next_transaction_id := i\<rparr>)"
  "wp t get_rx Qb E s = Qb (rx s) s"
  "wp t (set_rx bs) Qu E s = Qu () (s\<lparr>rx := bs\<rparr>)"
  by (simp_all add: wp_def get_next_transaction_id_def set_next_transaction_id_def get_rx_def set_rx_def)

lemma wp_world [wp_simps]:
  "wp t (io_world f) Q E s =
     (case fst (f (world s)) of Inl e \<Rightarrow> E e (s\<lparr>world := snd (f (world s))\<rparr>)
        | Inr a \<Rightarrow> Q a (s\<lparr>world := snd (f (world s))\<rparr>))"
  by (auto simp: wp_def io_world_def split: sum.split)

lemma wp_mono:
  assumes "wp t m Q E s" and "\<And>a s. Q a s \<Longrightarrow> Q' a s" and "\<And>e s. E e s \<Longrightarrow> E' e s"
  shows "wp t m Q' E' s"
  using assms by (auto simp: wp_def split: option.splits sum.splits)

lemma wp_conj: "wp t m Q E s \<Longrightarrow> wp t m Q' E' s \<Longrightarrow>
    wp t m (\<lambda>a s. Q a s \<and> Q' a s) (\<lambda>e s. E e s \<and> E' e s) s"
  by (auto simp: wp_def split: option.splits sum.splits)

lemma wp_post:
  assumes "wp t m Q E s"
  shows "m s = Some (Inr a, s') \<Longrightarrow> Q a s'" and "m s = Some (Inl e, s') \<Longrightarrow> E e s'"
  using assms by (auto simp: wp_def)

lemma wp_total: "wp False m Q E s \<Longrightarrow> \<exists>r s'. m s = Some (r, s')"
  by (auto simp: wp_def split: option.splits)

text \<open>The rules of the two loops. The general loop takes an invariant, and for total correctness
  a well-founded measure that every iteration decreases.\<close>

lemma wp_for_partial:
  assumes "\<And>acc x s. x \<in> set xs \<Longrightarrow> I acc s \<Longrightarrow> wp t (body acc x) I E s" and "I acc s"
  shows "wp t (io_for xs body acc) I E s"
  using assms
proof (induction xs arbitrary: acc s)
  case Nil
  then show ?case by (simp add: wp_simps)
next
  case (Cons x xs)
  from Cons.prems have "wp t (body acc x) I E s" by simp
  then show ?case
    unfolding io_for.simps wp_bind by (rule wp_mono) (simp_all add: Cons)
qed


text \<open>A completed run of the loop is a finite sequence of iterations.\<close>

lemma io_loop_induct [consumes 1, case_names Raise Leave Continue]:
  assumes run: "io_loop body x s = Some y"
    and Raise: "\<And>x s e s'. body x s = Some (Inl e, s') \<Longrightarrow> R x s (Inl e, s')"
    and Leave: "\<And>x s b s'. body x s = Some (Inr (Inr b), s') \<Longrightarrow> R x s (Inr b, s')"
    and Continue: "\<And>x s x' s' y. body x s = Some (Inr (Inl x'), s') \<Longrightarrow> R x' s' y \<Longrightarrow> R x s y"
  shows "R x s y"
proof -
  have "body = body \<longrightarrow> R x s y"
  proof (rule io_loop.raw_induct [where P = "\<lambda>f x s y. f = body \<longrightarrow> R x s y" and xa = "((body, x), s)",
        unfolded prod.case])
    show "io_loop body x s = Some y" by (fact run)
    fix loop f x s y
    assume IH: "\<And>f' x' s' y'. loop f' x' s' = Some y' \<Longrightarrow> f' = body \<longrightarrow> R x' s' y'"
      and eq: "Option.bind (f x s) (\<lambda>(r, s'). case r of Inl e \<Rightarrow> Some (Inl e, s')
             | Inr (Inl x') \<Rightarrow> loop f x' s' | Inr (Inr b) \<Rightarrow> Some (Inr b, s')) = Some y"
    show "f = body \<longrightarrow> R x s y"
    proof
      assume "f = body"
      with eq obtain z s' where z: "body x s = Some (z, s')"
        and k: "(case z of Inl e \<Rightarrow> Some (Inl e, s') | Inr (Inl x') \<Rightarrow> loop f x' s'
             | Inr (Inr b) \<Rightarrow> Some (Inr b, s')) = Some y"
        by (auto simp: bind_eq_Some_conv)
      consider (1) e where "z = Inl e" | (2) b where "z = Inr (Inr b)" | (3) x' where "z = Inr (Inl x')"
        by (metis old.sum.exhaust)
      then show "R x s y"
      proof cases
        case 1
        then show ?thesis using z k Raise by auto
      next
        case 2
        then show ?thesis using z k Leave by auto
      next
        case 3
        then show ?thesis using z k Continue IH \<open>f = body\<close> by auto
      qed
    qed
  qed
  then show ?thesis by simp
qed

lemma wp_loop_partial:
  assumes step: "\<And>x s. I x s \<Longrightarrow>
      wp True (body x) (\<lambda>r s'. case r of Inl x' \<Rightarrow> I x' s' | Inr b \<Rightarrow> Q b s') E s"
    and I: "I x s"
  shows "wp True (io_loop body x) Q E s"
proof -
  have "I x s \<longrightarrow> (case fst y of Inl e \<Rightarrow> E e (snd y) | Inr b \<Rightarrow> Q b (snd y))"
    if "io_loop body x s = Some y" for y
    using that
  proof (induction rule: io_loop_induct)
    case (Raise x s e s')
    then show ?case using wp_post(2) [OF step] by fastforce
  next
    case (Leave x s b s')
    then show ?case using wp_post(1) [OF step] by fastforce
  next
    case (Continue x s x' s' y)
    then show ?case using wp_post(1) [OF step] by fastforce
  qed
  then show ?thesis using I by (auto simp: wp_def split: option.split sum.splits)
qed

lemma wp_loop_total:
  assumes wf: "wf r"
    and step: "\<And>x s. I x s \<Longrightarrow> wp False (body x)
      (\<lambda>z s'. case z of Inl x' \<Rightarrow> I x' s' \<and> ((x', s'), (x, s)) \<in> r | Inr b \<Rightarrow> Q b s') E s"
    and I: "I x s"
  shows "wp False (io_loop body x) Q E s"
  using wf I
proof (induction "(x, s)" arbitrary: x s rule: wf_induct_rule)
  case less
  have eq: "wp False (io_loop body x) Q E s =
      wp False (body x) (\<lambda>z. case z of Inl x' \<Rightarrow> wp False (io_loop body x') Q E | Inr b \<Rightarrow> Q b) E s"
    by (subst wp_def, subst io_loop.simps) (auto simp: wp_def split: option.split sum.split)
  show ?case
    unfolding eq by (rule wp_mono [OF step [OF less.prems]]) (auto simp: less.hyps split: sum.splits)
qed

text \<open>One rule for both: the measure matters for total correctness only.\<close>

lemma wp_loop:
  assumes "wf r"
    and step: "\<And>x s. I x s \<Longrightarrow> wp t (body x)
      (\<lambda>z s'. case z of Inl x' \<Rightarrow> I x' s' \<and> (t \<or> ((x', s'), (x, s)) \<in> r) | Inr b \<Rightarrow> Q b s') E s"
    and "I x s"
  shows "wp t (io_loop body x) Q E s"
proof (cases t)
  case True
  have "wp True (io_loop body x) Q E s"
  proof (rule wp_loop_partial [of I, OF _ assms(3)])
    fix x s
    assume "I x s"
    from step [OF this] True
    have "wp True (body x)
        (\<lambda>z s'. case z of Inl x' \<Rightarrow> I x' s' \<and> (t \<or> ((x', s'), x, s) \<in> r) | Inr b \<Rightarrow> Q b s') E s"
      by simp
    then show "wp True (body x) (\<lambda>r s'. case r of Inl x' \<Rightarrow> I x' s' | Inr b \<Rightarrow> Q b s') E s"
      by (rule wp_mono) (simp_all split: sum.splits)
  qed
  then show ?thesis using True by simp
next
  case False
  then have t: "t = False" by simp
  have step': "I x s \<Longrightarrow> wp False (body x)
      (\<lambda>z s'. case z of Inl x' \<Rightarrow> I x' s' \<and> ((x', s'), (x, s)) \<in> r | Inr b \<Rightarrow> Q b s') E s" for x s
    using step [of x s] unfolding t by (rule wp_mono) (simp_all split: sum.splits)
  show ?thesis
    unfolding t by (rule wp_loop_total [of r I, OF assms(1) step' assms(3)])
qed

section \<open>Ports on which time passes\<close>

text \<open>What the loops of the client rely on to end: the clock never goes back, and only finitely many
  reads complete before it ticks (pyserial's \<open>read(1)\<close> waits for its timeout when no byte is there,
  and a line has a finite rate). \<open>clk w\<close> is the clock and \<open>backlog w\<close> bounds the reads before its
  next tick.\<close>

definition clock_order :: "('w \<Rightarrow> int) \<Rightarrow> ('w \<Rightarrow> nat) \<Rightarrow> 'w \<Rightarrow> 'w \<Rightarrow> bool" where
  "clock_order clk backlog w w' \<longleftrightarrow>
     clk w < clk w' \<or> clk w = clk w' \<and> backlog w' < backlog w"

definition clock_order_eq :: "('w \<Rightarrow> int) \<Rightarrow> ('w \<Rightarrow> nat) \<Rightarrow> 'w \<Rightarrow> 'w \<Rightarrow> bool" where
  "clock_order_eq clk backlog w w' \<longleftrightarrow>
     clk w < clk w' \<or> clk w = clk w' \<and> backlog w' \<le> backlog w"

definition timely :: "'w port \<Rightarrow> ('w \<Rightarrow> int) \<Rightarrow> ('w \<Rightarrow> nat) \<Rightarrow> bool" where
  "timely P clk backlog \<longleftrightarrow>
     (\<forall>w. clock_order clk backlog w (snd (p_read P w))) \<and>
     (\<forall>w. fst (p_clock P w) = clk (snd (p_clock P w))) \<and>
     (\<forall>w. clock_order_eq clk backlog w (snd (p_clock P w))) \<and>
     (\<forall>bs w. clock_order_eq clk backlog w (snd (p_write P bs w))) \<and>
     (\<forall>w. clock_order_eq clk backlog w (snd (p_flush P w))) \<and>
     (\<forall>d w. clock_order_eq clk backlog w (p_sleep P d w)) \<and>
     (case p_event_handler P of None \<Rightarrow> True
        | Some h \<Rightarrow> \<forall>e w. clock_order_eq clk backlog w (snd (h e w)))"

lemma clock_order_trans:
  "clock_order_eq clk b w w' \<Longrightarrow> clock_order_eq clk b w' w'' \<Longrightarrow> clock_order_eq clk b w w''"
  "clock_order_eq clk b w w' \<Longrightarrow> clock_order clk b w' w'' \<Longrightarrow> clock_order clk b w w''"
  "clock_order clk b w w' \<Longrightarrow> clock_order_eq clk b w' w'' \<Longrightarrow> clock_order clk b w w''"
  by (auto simp: clock_order_def clock_order_eq_def)

lemma clock_order_imp_eq [simp]: "clock_order clk b w w' \<Longrightarrow> clock_order_eq clk b w w'"
  by (auto simp: clock_order_def clock_order_eq_def)

lemma clock_order_eq_refl [simp]: "clock_order_eq clk b w w"
  by (simp add: clock_order_eq_def)

text \<open>The measure of a loop that stops at a deadline.\<close>

definition deadline_rel :: "('w \<Rightarrow> int) \<Rightarrow> ('w \<Rightarrow> nat) \<Rightarrow> int \<Rightarrow> (('x \<times> 'w client) \<times> ('x \<times> 'w client)) set" where
  "deadline_rel clk backlog deadline =
     inv_image (less_than <*lex*> less_than)
       (\<lambda>(x, s). (nat (deadline - clk (world s)), backlog (world s)))"

lemma wf_deadline_rel: "wf (deadline_rel clk backlog deadline)"
  by (simp add: deadline_rel_def wf_lex_prod wf_less_than)

lemma deadline_relI:
  "clock_order clk b (world s) (world s') \<Longrightarrow> clk (world s) < d \<or> clk (world s') = clk (world s)
     \<Longrightarrow> ((x', s'), (x, s)) \<in> deadline_rel clk b d"
  by (auto simp: deadline_rel_def clock_order_def)

section \<open>A port that records the traffic\<close>

text \<open>Properties of what crosses the line are stated over \<open>logged P\<close>, which behaves as \<open>P\<close> and keeps
  the sequence of writes and reads: what holds of it for every \<open>P\<close> needs no assumption on the line. A write is
  recorded as \<open>Sent\<close> whether it succeeds, is short or raises: the entry is the attempt.\<close>

datatype io_event = Sent bytes | Got bytes

definition logged_step :: "('w \<Rightarrow> 'a \<times> 'w) \<Rightarrow> 'w \<times> 'l \<Rightarrow> 'a \<times> ('w \<times> 'l)" where
  "logged_step f = (\<lambda>(w, log). (fst (f w), (snd (f w), log)))"

definition logged :: "'w port \<Rightarrow> ('w \<times> io_event list) port" where
  "logged P = \<lparr>p_read = (\<lambda>(w, log). (fst (p_read P w), (snd (p_read P w),
        log @ (case fst (p_read P w) of Inl _ \<Rightarrow> [] | Inr chunk \<Rightarrow> [Got chunk])))),
     p_write = (\<lambda>bs (w, log). (fst (p_write P bs w), (snd (p_write P bs w), log @ [Sent bs]))),
     p_flush = logged_step (p_flush P),
     p_clock = logged_step (p_clock P),
     p_sleep = (\<lambda>d (w, log). (p_sleep P d w, log)),
     p_event_handler = map_option (\<lambda>h e. logged_step (h e)) (p_event_handler P)\<rparr>"

abbreviation io_log :: "('w \<times> io_event list) client \<Rightarrow> io_event list" where
  "io_log s \<equiv> snd (world s)"

text \<open>The writes of a log, and the bytes the client takes from its reads (the first of each chunk).\<close>

definition sent :: "io_event list \<Rightarrow> bytes list" where
  "sent log = concat (map (\<lambda>e. case e of Sent bs \<Rightarrow> [bs] | Got _ \<Rightarrow> []) log)"

definition received :: "io_event list \<Rightarrow> bytes" where
  "received log = concat (map (\<lambda>e. case e of Sent _ \<Rightarrow> [] | Got chunk \<Rightarrow> take 1 chunk) log)"

lemma sent_simps [simp]:
  "sent [] = []" "sent (log @ log') = sent log @ sent log'" "sent [Sent bs] = [bs]" "sent [Got ch] = []"
  by (simp_all add: sent_def)

lemma received_simps [simp]:
  "received [] = []" "received (log @ log') = received log @ received log'"
  "received [Sent bs] = []" "received [Got ch] = take 1 ch"
  by (simp_all add: received_def)

lemma logged_sel [simp]:
  "p_read (logged P) wl = (fst (p_read P (fst wl)), (snd (p_read P (fst wl)),
     snd wl @ (case fst (p_read P (fst wl)) of Inl _ \<Rightarrow> [] | Inr chunk \<Rightarrow> [Got chunk])))"
  "p_write (logged P) bs wl =
     (fst (p_write P bs (fst wl)), (snd (p_write P bs (fst wl)), snd wl @ [Sent bs]))"
  "p_flush (logged P) wl = (fst (p_flush P (fst wl)), (snd (p_flush P (fst wl)), snd wl))"
  "p_clock (logged P) wl = (fst (p_clock P (fst wl)), (snd (p_clock P (fst wl)), snd wl))"
  "p_sleep (logged P) d wl = (p_sleep P d (fst wl), snd wl)"
  "p_event_handler (logged P) = map_option (\<lambda>h e. logged_step (h e)) (p_event_handler P)"
  by (simp_all add: logged_def logged_step_def split_beta)

lemma logged_step_sel [simp]:
  "fst (logged_step f wl) = fst (f (fst wl))" "snd (logged_step f wl) = (snd (f (fst wl)), snd wl)"
  by (simp_all add: logged_step_def split_beta)

lemma timely_logged: "timely P clk b \<Longrightarrow> timely (logged P) (clk \<circ> fst) (b \<circ> fst)"
  by (auto simp: timely_def clock_order_def clock_order_eq_def split: option.splits)

section \<open>A scripted port\<close>

text \<open>A port to run examples on: each write makes the next scripted reply readable, a read returns
  one byte or waits 50 ms, a write takes 1 ms.\<close>

record script =
  pt_clock :: int
  pt_incoming :: bytes
  pt_replies :: "bytes list"
  pt_events :: "event_envelope list"

definition scripted :: "script port" where
  "scripted = \<lparr>
     p_read = (\<lambda>w. case pt_incoming w of [] \<Rightarrow> (Inr [], w\<lparr>pt_clock := pt_clock w + 50000\<rparr>)
                 | b # bs \<Rightarrow> (Inr [b], w\<lparr>pt_incoming := bs\<rparr>)),
     p_write = (\<lambda>bs w. (Inr (int (length bs)),
        w\<lparr>pt_clock := pt_clock w + 1000,
          pt_incoming := pt_incoming w @ (case pt_replies w of [] \<Rightarrow> [] | r # rs \<Rightarrow> r),
          pt_replies := tl (pt_replies w)\<rparr>)),
     p_flush = (\<lambda>w. (Inr (), w)),
     p_clock = (\<lambda>w. (pt_clock w, w)),
     p_sleep = (\<lambda>d w. w\<lparr>pt_clock := pt_clock w + max 0 d\<rparr>),
     p_event_handler = Some (\<lambda>e w. (Inr (), w\<lparr>pt_events := pt_events w @ [e]\<rparr>))\<rparr>"

definition script_start :: "bytes list \<Rightarrow> script" where
  "script_start replies = \<lparr>pt_clock = 0, pt_incoming = [], pt_replies = replies, pt_events = []\<rparr>"

lemma timely_scripted: "timely scripted pt_clock (\<lambda>w. length (pt_incoming w))"
  by (auto simp: timely_def scripted_def clock_order_def clock_order_eq_def split: list.split)

end
