(* ===== verification/Client.thy ===== *)
theory Client
  imports Io
begin

text \<open>
  The core of \<open>TrinitySerialClient\<close> (\<open>serial_client_impl.py\<close>): transaction IDs, the assembly of a
  frame from single-byte reads, EVENT frames, remote errors and the request/response exchange.
  A client state is well formed (\<open>client_ok\<close>) when the next transaction ID is in 1..65535 and the
  receive buffer holds a delimiter-free prefix of at most 272 bytes.
\<close>

section \<open>Operations\<close>

definition client_init :: "'w \<Rightarrow> 'w client" where
  "client_init w = \<lparr>next_transaction_id = 1, rx = [], world = w\<rparr>"

definition allocate_txid :: "('w, int) io" where
  "allocate_txid =
     io_bind get_next_transaction_id (\<lambda>txid.
     io_then (set_next_transaction_id ((txid + 1) AND 0xFFFF))
    (io_bind get_next_transaction_id (\<lambda>next_id.
     io_then (if next_id = 0 then set_next_transaction_id 1 else io_return ())
    (io_return txid))))"

text \<open>One iteration of the loop of \<open>_read_wire_frame\<close>.\<close>

definition read_wire_step :: "'w port \<Rightarrow> int \<Rightarrow> unit \<Rightarrow> ('w, unit + host_frame) io" where
  "read_wire_step P deadline _ =
     io_bind (monotonic P) (\<lambda>now.
     io_check (\<not> now < deadline) (TimeoutError ''timed out waiting for SN32 response'')
    (io_bind (serial_read P) (\<lambda>chunk.
     case chunk of
       [] \<Rightarrow> io_return (Inl ())
     | value # _ \<Rightarrow>
        io_bind get_rx (\<lambda>buffer.
        io_then (set_rx (buffer @ [value]))
       (io_bind get_rx (\<lambda>wire.
        if value = 0 then
          io_then (set_rx []) (io_bind (io_lift (host_decode_wire wire)) (\<lambda>frame. io_return (Inr frame)))
        else if length wire > 272 then
          io_then (set_rx [])
            (io_raise (HostProtocolError ''incoming PC frame exceeds maximum wire size''))
        else io_return (Inl ())))))))"

definition read_wire_frame :: "'w port \<Rightarrow> int \<Rightarrow> ('w, host_frame) io" where
  "read_wire_frame P deadline = io_loop (read_wire_step P deadline) ()"

definition REMOTE_ERROR_STRUCT :: "nat list" where
  "REMOTE_ERROR_STRUCT = [2, 1, 1, 2]"

definition raise_remote_error :: "host_frame \<Rightarrow> unit result" where
  "raise_remote_error frame =
     check (length (hf_payload frame) \<noteq> 6) (HostProtocolError ''malformed SN32 error payload'')
    (result_bind (struct_unpack REMOTE_ERROR_STRUCT (hf_payload frame)) (\<lambda>v.
     result_bind (of_option (HostProtocolError ''unknown remote error code'') (ErrorCode_of (v ! 0))) (\<lambda>code.
     Inl (RemoteError code (v ! 1) (v ! 2) (v ! 3)))))"

definition handle_event :: "'w port \<Rightarrow> host_frame \<Rightarrow> ('w, unit) io" where
  "handle_event P frame =
     io_check (hf_command frame \<noteq> HostCommand_value HC_EVENT)
       (HostProtocolError ''EVENT flag used with command'')
    (io_check (hf_transaction_id frame \<noteq> 0)
       (HostProtocolError ''EVENT frame transaction ID must be zero'')
    (io_check (hf_flags frame \<noteq> EVENT) (HostProtocolError ''EVENT frame has invalid flags'')
    (io_bind
       (io_try (io_lift (EventEnvelope_decode (hf_payload frame)))
          (\<lambda>e. if is_ValueError e \<or> e = StructError
               then io_raise (HostProtocolError ''malformed EVENT frame'') else io_raise e))
       (\<lambda>event.
          case p_event_handler P of
            None \<Rightarrow> io_return ()
          | Some handler \<Rightarrow> io_world (handler event)))))"

text \<open>One iteration of the receive loop of \<open>request\<close>.\<close>

definition request_step :: "'w port \<Rightarrow> int \<Rightarrow> int \<Rightarrow> int \<Rightarrow> unit \<Rightarrow> ('w, unit + host_frame) io" where
  "request_step P command txid deadline _ =
     io_bind
       (io_try (read_wire_frame P deadline)
          (\<lambda>e. if is_TimeoutError e
               then io_raise (TimeoutError ''timed out waiting for SN32 response: command, txid'')
               else io_raise e))
       (\<lambda>frame.
          if hf_flags frame AND EVENT \<noteq> 0 then
            io_then (handle_event P frame) (io_return (Inl ()))
          else
            io_check (hf_command frame \<noteq> command \<or> hf_transaction_id frame \<noteq> txid)
              (HostProtocolError ''response correlation failure'')
           (io_check (hf_flags frame AND RESPONSE = 0)
              (HostProtocolError ''SN32 frame is not marked as a response'')
           (io_check (hf_flags frame AND (MORE OR EVENT) \<noteq> 0)
              (HostProtocolError ''unexpected MORE/EVENT flag in synchronous response'')
           (if hf_flags frame AND ERROR \<noteq> 0 then
              io_then (io_lift (raise_remote_error frame)) (io_return (Inr frame))
            else io_return (Inr frame)))))"

definition request :: "'w port \<Rightarrow> int \<Rightarrow> bytes \<Rightarrow> int \<Rightarrow> ('w, host_frame) io" where
  "request P command payload timeout =
     io_bind allocate_txid (\<lambda>txid.
     io_bind (io_lift (host_encode_wire (HostFrame command 0 txid payload))) (\<lambda>encoded.
     io_bind (serial_write P encoded) (\<lambda>written_count.
     io_check (written_count \<noteq> int (length encoded)) (HostProtocolError ''short serial write'')
    (io_then (serial_flush P)
    (io_bind (monotonic P) (\<lambda>now.
     io_loop (request_step P command txid (now + timeout)) ()))))))"

section \<open>Well-formed clients\<close>

definition client_ok :: "'w client \<Rightarrow> bool" where
  "client_ok s \<longleftrightarrow> 1 \<le> next_transaction_id s \<and> next_transaction_id s \<le> 0xFFFF
     \<and> 0 \<notin> set (rx s) \<and> length (rx s) \<le> 272"

lemma client_ok_world [simp]: "client_ok (s\<lparr>world := w\<rparr>) = client_ok s"
  by (simp add: client_ok_def)

lemma client_ok_rx_Nil [simp]: "client_ok s \<Longrightarrow> client_ok (s\<lparr>rx := []\<rparr>)"
  by (simp add: client_ok_def)

lemma client_ok_init [simp]: "client_ok (client_init w)"
  by (simp add: client_ok_def client_init_def)

text \<open>The next transaction ID: the successor in the cycle 1, 2, ..., 65535.\<close>

definition next_txid :: "int \<Rightarrow> int" where
  "next_txid i = i mod 65535 + 1"

lemma next_txid_and:
  "1 \<le> i \<Longrightarrow> i \<le> 0xFFFF \<Longrightarrow>
     (if (i + 1) AND 0xFFFF = 0 then 1 else (i + 1) AND 0xFFFF) = next_txid i"
  by (cases "i = 65535") (auto simp: next_txid_def)

lemma next_txid_range [simp]: "1 \<le> next_txid i" "next_txid i \<le> 0xFFFF"
  using pos_mod_bound [of 65535 i] by (simp_all add: next_txid_def)

lemma allocate_txid_eq:
  "1 \<le> next_transaction_id s \<Longrightarrow> next_transaction_id s \<le> 0xFFFF \<Longrightarrow>
     allocate_txid s = Some (Inr (next_transaction_id s),
       s\<lparr>next_transaction_id := next_txid (next_transaction_id s)\<rparr>)"
  using next_txid_and [of "next_transaction_id s"]
  by (auto simp: allocate_txid_def io_bind_def io_then_def io_return_def
      get_next_transaction_id_def set_next_transaction_id_def split: if_splits)

lemma wp_allocate_txid [wp_simps]:
  "client_ok s \<Longrightarrow> wp t allocate_txid Q E s =
     Q (next_transaction_id s) (s\<lparr>next_transaction_id := next_txid (next_transaction_id s)\<rparr>)"
  by (simp add: wp_def allocate_txid_eq client_ok_def)

text \<open>The IDs that successive calls return.\<close>

lemma allocations:
  "io_for xs (\<lambda>ids _. io_bind allocate_txid (\<lambda>i. io_return (ids @ [i]))) ids
     (s\<lparr>next_transaction_id := int k mod 65535 + 1\<rparr>) =
   Some (Inr (ids @ map (\<lambda>j. int j mod 65535 + 1) [k..<k + length xs]),
     s\<lparr>next_transaction_id := int (k + length xs) mod 65535 + 1\<rparr>)"
proof (induction xs arbitrary: ids k)
  case (Cons x xs)
  have next_id: "next_txid (int k mod 65535 + 1) = int (Suc k) mod 65535 + 1"
    by (simp add: next_txid_def mod_simps add.commute)
  have range: "1 \<le> int k mod 65535 + 1" "int k mod 65535 + 1 \<le> 0xFFFF"
    using pos_mod_bound [of 65535 "int k"] by simp_all
  show ?case
    using Cons [of "ids @ [int k mod 65535 + 1]" "Suc k"]
    by (simp add: io_bind_def io_return_def allocate_txid_eq next_id range upt_conv_Cons del: of_nat_Suc upt_Suc)
qed (simp add: io_return_def)

text \<open>The cycle has length 65535: the IDs of 65535 consecutive requests are distinct.\<close>

lemma next_txid_power:
  "1 \<le> i \<Longrightarrow> i \<le> 0xFFFF \<Longrightarrow> (next_txid ^^ n) i = (i - 1 + int n) mod 65535 + 1"
proof (induction n)
  case 0
  then show ?case by simp
next
  case (Suc n)
  then show ?case by (simp add: next_txid_def mod_simps algebra_simps)
qed

lemma next_txid_window:
  assumes i: "1 \<le> i" "i \<le> 0xFFFF" and mn: "m < 65535" "n < 65535"
    and eq: "(next_txid ^^ m) i = (next_txid ^^ n) i"
  shows "m = n"
proof -
  have "(i - 1 + int m) mod 65535 = (i - 1 + int n) mod 65535"
    using eq by (simp add: next_txid_power i)
  then have "65535 dvd (i - 1 + int m) - (i - 1 + int n)" by (simp add: mod_eq_dvd_iff)
  then have dvd: "65535 dvd int m - int n" by simp
  have small: "\<bar>int m - int n\<bar> < 65535" using mn by linarith
  show ?thesis
  proof (rule ccontr)
    assume "m \<noteq> n"
    then have "\<bar>65535 :: int\<bar> \<le> \<bar>int m - int n\<bar>"
      using dvd by (intro dvd_imp_le_int) simp_all
    with small show False by simp
  qed
qed

section \<open>Reading one frame\<close>

lemma host_decode_wire_wf: "host_decode_wire wire = Inr f \<Longrightarrow> host_wf f"
  using host_decode_raw_sound by (auto simp: host_decode_wire_def split: sum.splits)

lemma wp_monotonic [wp_simps]:
  "wp t (monotonic P) Q E s = Q (fst (p_clock P (world s))) (s\<lparr>world := snd (p_clock P (world s))\<rparr>)"
  by (simp add: monotonic_def wp_simps)

lemma wp_serial_flush [wp_simps]:
  "wp t (serial_flush P) Q E s = (case fst (p_flush P (world s)) of
     Inl e \<Rightarrow> E e (s\<lparr>world := snd (p_flush P (world s))\<rparr>)
   | Inr a \<Rightarrow> Q a (s\<lparr>world := snd (p_flush P (world s))\<rparr>))"
  by (simp add: serial_flush_def wp_simps)

lemma wp_serial_write [wp_simps]:
  "wp t (serial_write P bs) Q E s = (case fst (p_write P bs (world s)) of
     Inl e \<Rightarrow> E e (s\<lparr>world := snd (p_write P bs (world s))\<rparr>)
   | Inr a \<Rightarrow> Q a (s\<lparr>world := snd (p_write P bs (world s))\<rparr>))"
  by (simp add: serial_write_def wp_simps)

lemma wp_time_sleep [wp_simps]:
  "wp t (time_sleep P d) Q E s =
     (if d < 0 then E (ValueError ''sleep length must be non-negative'') s
      else Q () (s\<lparr>world := p_sleep P d (world s)\<rparr>))"
  by (simp add: time_sleep_def wp_simps)

text \<open>One iteration, in terms of the world after the clock (\<open>w1\<close>) and after the read (\<open>w2\<close>).\<close>

lemma wp_read_wire_step:
  fixes P :: "'w port" and s :: "'w client"
  assumes ok: "client_ok s"
  defines "w1 \<equiv> snd (p_clock P (world s))"
  defines "w2 \<equiv> snd (p_read P w1)"
  assumes late: "\<not> fst (p_clock P (world s)) < deadline \<Longrightarrow>
      E (TimeoutError ''timed out waiting for SN32 response'') (s\<lparr>world := w1\<rparr>)"
    and fail: "\<And>e. fst (p_clock P (world s)) < deadline \<Longrightarrow> fst (p_read P w1) = Inl e \<Longrightarrow>
      E e (s\<lparr>world := w2\<rparr>)"
    and empty: "fst (p_clock P (world s)) < deadline \<Longrightarrow> fst (p_read P w1) = Inr [] \<Longrightarrow>
      Q (Inl ()) (s\<lparr>world := w2\<rparr>)"
    and byte: "\<And>b bs. fst (p_clock P (world s)) < deadline \<Longrightarrow> fst (p_read P w1) = Inr (b # bs) \<Longrightarrow>
      b \<noteq> 0 \<Longrightarrow> length (rx s) < 272 \<Longrightarrow> Q (Inl ()) (s\<lparr>world := w2, rx := rx s @ [b]\<rparr>)"
    and over: "\<And>b bs. fst (p_clock P (world s)) < deadline \<Longrightarrow> fst (p_read P w1) = Inr (b # bs) \<Longrightarrow>
      E (HostProtocolError ''incoming PC frame exceeds maximum wire size'') (s\<lparr>world := w2, rx := []\<rparr>)"
    and bad: "\<And>bs e. fst (p_clock P (world s)) < deadline \<Longrightarrow> fst (p_read P w1) = Inr (0 # bs) \<Longrightarrow>
      host_decode_wire (rx s @ [0]) = Inl e \<Longrightarrow> E e (s\<lparr>world := w2, rx := []\<rparr>)"
    and good: "\<And>bs f. fst (p_clock P (world s)) < deadline \<Longrightarrow> fst (p_read P w1) = Inr (0 # bs) \<Longrightarrow>
      host_decode_wire (rx s @ [0]) = Inr f \<Longrightarrow> Q (Inr f) (s\<lparr>world := w2, rx := []\<rparr>)"
  shows "wp t (read_wire_step P deadline u) Q E s"
proof (cases "fst (p_clock P (world s)) < deadline")
  case False
  then show ?thesis using late by (simp add: read_wire_step_def wp_simps w1_def)
next
  case True
  note read = serial_read_def wp_simps w1_def [symmetric] w2_def [symmetric] read_wire_step_def
  show ?thesis
  proof (cases "fst (p_read P w1)")
    case (Inl e)
    then show ?thesis using True fail by (simp add: read)
  next
    case (Inr chunk)
    show ?thesis
    proof (cases chunk)
      case Nil
      then show ?thesis using True Inr empty by (simp add: read)
    next
      case (Cons b bs)
      have len: "length (rx s) \<le> 272" using ok by (simp add: client_ok_def)
      consider "b = 0" | "b \<noteq> 0" "length (rx s) < 272" | "b \<noteq> 0" "\<not> length (rx s) < 272" by blast
      then show ?thesis
      proof cases
        case 1
        then show ?thesis using True Inr Cons bad good
          by (cases "host_decode_wire (rx s @ [0])") (simp_all add: read)
      next
        case 2
        then show ?thesis using True Inr Cons byte by (simp add: read)
      next
        case 3
        then show ?thesis using True Inr Cons over len by (simp add: read)
      qed
    qed
  qed
qed

lemma timelyD:
  assumes "timely P clk b"
  shows "clock_order clk b w (snd (p_read P w))"
    and "fst (p_clock P w) = clk (snd (p_clock P w))"
    and "clock_order_eq clk b w (snd (p_clock P w))"
    and "clock_order_eq clk b w (snd (p_write P bs w))"
    and "clock_order_eq clk b w (snd (p_flush P w))"
    and "clock_order_eq clk b w (p_sleep P d w)"
    and "p_event_handler P = Some h \<Longrightarrow> clock_order_eq clk b w (snd (h e w))"
  using assms by (simp_all add: timely_def)

text \<open>The read of a frame keeps the client well formed, leaves the buffer empty when it returns, and
  ends on a timely port, having read at least once when it returns.\<close>

lemma wp_read_wire_frame:
  assumes ok: "client_ok s" and live: "t \<or> timely P clk b"
  shows "wp t (read_wire_frame P deadline)
    (\<lambda>f s'. client_ok s' \<and> rx s' = [] \<and> next_transaction_id s' = next_transaction_id s \<and> host_wf f \<and>
       (timely P clk b \<longrightarrow> clock_order clk b (world s) (world s') \<and> clk (world s) < deadline))
    (\<lambda>e s'. client_ok s' \<and> next_transaction_id s' = next_transaction_id s \<and>
       (timely P clk b \<longrightarrow> clock_order_eq clk b (world s) (world s'))) s"
proof -
  define I where "I = (\<lambda>(_ :: unit) s'. client_ok s' \<and> next_transaction_id s' = next_transaction_id s \<and>
    (timely P clk b \<longrightarrow> clock_order_eq clk b (world s) (world s')))"
  note order = clock_order_trans [of clk b]
  show ?thesis
    unfolding read_wire_frame_def
  proof (rule wp_loop [where I = I and r = "deadline_rel clk b deadline"])
    show "wf (deadline_rel clk b deadline)" by (rule wf_deadline_rel)
    show "I () s" using ok by (simp add: I_def)
    fix x and u :: "'a client"
    assume I: "I x u"
    define w1 where "w1 = snd (p_clock P (world u))"
    define w2 where "w2 = snd (p_read P w1)"
    have now: "timely P clk b \<Longrightarrow> fst (p_clock P (world u)) = clk w1"
      by (simp add: w1_def timelyD)
    have w1: "timely P clk b \<Longrightarrow> clock_order_eq clk b (world s) w1"
      using I by (auto simp: I_def w1_def intro: order timelyD(3))
    have w12: "timely P clk b \<Longrightarrow> clock_order clk b w1 w2"
      by (simp add: w2_def timelyD)
    have ww: "timely P clk b \<Longrightarrow> clock_order clk b (world u) w2"
      using w12 timelyD(3) [of P clk b "world u"] order(2) by (auto simp: w1_def)
    have w2: "timely P clk b \<Longrightarrow> clock_order clk b (world s) w2"
      using w1 w12 order(2) by blast
    have dec: "timely P clk b \<Longrightarrow> fst (p_clock P (world u)) < deadline \<Longrightarrow>
        world u' = w2 \<Longrightarrow> (((), u'), (x, u)) \<in> deadline_rel clk b deadline" for u'
      using ww now timelyD(3) [of P clk b "world u"]
      by (intro deadline_relI) (auto simp: w1_def clock_order_eq_def)
    have clk: "timely P clk b \<Longrightarrow> fst (p_clock P (world u)) < deadline \<Longrightarrow> clk (world s) < deadline"
      using w1 now by (auto simp: clock_order_eq_def)
    have ok: "client_ok u" and nti: "next_transaction_id u = next_transaction_id s"
      using I by (simp_all add: I_def)
    have len: "client_ok (u\<lparr>world := w, rx := rx u @ [c]\<rparr>)" if "c \<noteq> 0" "length (rx u) < 272" for w c
      using ok that by (simp add: client_ok_def)
    show "wp t (read_wire_step P deadline x)
        (\<lambda>z s'. case z of Inl x' \<Rightarrow> I x' s' \<and> (t \<or> ((x', s'), x, u) \<in> deadline_rel clk b deadline)
           | Inr f \<Rightarrow> client_ok s' \<and> rx s' = [] \<and> next_transaction_id s' = next_transaction_id s \<and>
               host_wf f \<and>
               (timely P clk b \<longrightarrow> clock_order clk b (world s) (world s') \<and> clk (world s) < deadline))
        (\<lambda>e s'. client_ok s' \<and> next_transaction_id s' = next_transaction_id s \<and>
          (timely P clk b \<longrightarrow> clock_order_eq clk b (world s) (world s'))) u"
      by (rule wp_read_wire_step [OF ok], unfold w1_def [symmetric], unfold w2_def [symmetric])
        (use live w1 w2 ok nti dec len clk in \<open>auto simp: I_def host_decode_wire_wf\<close>)
  qed
qed

text \<open>What a read consumes: the buffer followed by the bytes read is the wire form of the frame.\<close>

lemma wp_read_wire_frame_log:
  fixes s :: "('w \<times> io_event list) client"
  assumes ok: "client_ok s"
  shows "wp True (read_wire_frame (logged P) deadline)
    (\<lambda>f s'. sent (io_log s') = sent (io_log s) \<and>
       (\<exists>bs. received (io_log s') = received (io_log s) @ bs \<and> host_decode_wire (rx s @ bs) = Inr f))
    (\<lambda>e s'. sent (io_log s') = sent (io_log s)) s"
proof -
  define I where "I = (\<lambda>(_ :: unit) (s' :: ('w \<times> io_event list) client). client_ok s' \<and> sent (io_log s') = sent (io_log s) \<and>
    (\<exists>bs. received (io_log s') = received (io_log s) @ bs \<and> rx s' = rx s @ bs))"
  show ?thesis
    unfolding read_wire_frame_def
  proof (rule wp_loop_partial [where I = I])
    show "I () s" using ok by (simp add: I_def)
    fix x and u :: "('w \<times> io_event list) client"
    assume I: "I x u"
    then have ok: "client_ok u" and sent: "sent (io_log u) = sent (io_log s)" by (simp_all add: I_def)
    from I obtain bs where got: "received (io_log u) = received (io_log s) @ bs" "rx u = rx s @ bs"
      by (auto simp: I_def)
    have len: "client_ok (u\<lparr>world := w, rx := rx u @ [c]\<rparr>)" if "c \<noteq> 0" "length (rx u) < 272" for w c
      using ok that by (simp add: client_ok_def)
    show "wp True (read_wire_step (logged P) deadline x)
        (\<lambda>z s'. case z of Inl x' \<Rightarrow> I x' s'
           | Inr f \<Rightarrow> sent (io_log s') = sent (io_log s) \<and>
               (\<exists>bs. received (io_log s') = received (io_log s) @ bs \<and> host_decode_wire (rx s @ bs) = Inr f))
        (\<lambda>e s'. sent (io_log s') = sent (io_log s)) u"
      by (rule wp_read_wire_step [OF ok]) (use len ok sent got in \<open>auto simp: I_def\<close>)
  qed
qed

section \<open>Events and remote errors\<close>

lemma raise_remote_error_Inl: "\<exists>e. raise_remote_error frame = Inl e \<and> is_HostProtocolError e"
proof (cases "length (hf_payload frame) = 6")
  case True
  then obtain v where "struct_unpack REMOTE_ERROR_STRUCT (hf_payload frame) = Inr v"
    by (simp add: REMOTE_ERROR_STRUCT_def)
  then show ?thesis
    using True by (cases "ErrorCode_of (v ! 0)")
      (auto simp: raise_remote_error_def of_option_def simp del: ErrorCode_of_iff)
next
  case False
  then show ?thesis by (simp add: raise_remote_error_def)
qed

text \<open>An event is delivered only from a frame that carries exactly the EVENT flag, the EVENT command
  and transaction ID 0, and a payload that decodes.\<close>

definition event_frame_ok :: "host_frame \<Rightarrow> event_envelope \<Rightarrow> bool" where
  "event_frame_ok f ev \<longleftrightarrow> hf_command f = HostCommand_value HC_EVENT \<and> hf_transaction_id f = 0 \<and>
     hf_flags f = EVENT \<and> EventEnvelope_decode (hf_payload f) = Inr ev"

lemma wp_handle_event:
  assumes none: "\<And>ev. event_frame_ok f ev \<Longrightarrow> p_event_handler P = None \<Longrightarrow> Q () s"
    and some: "\<And>ev h. event_frame_ok f ev \<Longrightarrow> p_event_handler P = Some h \<Longrightarrow>
        fst (h ev (world s)) = Inr () \<Longrightarrow> Q () (s\<lparr>world := snd (h ev (world s))\<rparr>)"
    and fail: "\<And>ev h e. event_frame_ok f ev \<Longrightarrow> p_event_handler P = Some h \<Longrightarrow>
        fst (h ev (world s)) = Inl e \<Longrightarrow> E e (s\<lparr>world := snd (h ev (world s))\<rparr>)"
    and bad: "\<And>e. \<not> (\<exists>ev. event_frame_ok f ev) \<Longrightarrow> E e s"
  shows "wp t (handle_event P f) Q E s"
proof (cases "\<exists>ev. event_frame_ok f ev")
  case True
  then obtain ev where ev: "event_frame_ok f ev" by blast
  then show ?thesis
    using none some fail unfolding event_frame_ok_def
    by (auto simp: handle_event_def wp_simps split: option.splits sum.splits)
next
  case False
  have "wp t (io_lift (EventEnvelope_decode (hf_payload f))) (\<lambda>_ _. False) (\<lambda>_. (=) s) s"
    if "hf_command f = HostCommand_value HC_EVENT" "hf_transaction_id f = 0" "hf_flags f = EVENT"
    using that False by (auto simp: event_frame_ok_def wp_simps split: sum.splits)
  then show ?thesis
    using bad [OF False] by (auto simp: handle_event_def wp_simps split: sum.splits)
qed

section \<open>Requests\<close>

text \<open>A response to a request: its command and transaction ID, and no flag but RESPONSE.\<close>

definition response_ok :: "int \<Rightarrow> int \<Rightarrow> host_frame \<Rightarrow> bool" where
  "response_ok command txid f \<longleftrightarrow> host_wf f \<and> hf_command f = command \<and>
     hf_transaction_id f = txid \<and> hf_flags f = RESPONSE"

lemma flags_cases:
  assumes "0 \<le> x" and "x < (16 :: int)"
  shows "x = 0 \<or> x = 1 \<or> x = 2 \<or> x = 3 \<or> x = 4 \<or> x = 5 \<or> x = 6 \<or> x = 7 \<or> x = 8 \<or> x = 9 \<or>
    x = 10 \<or> x = 11 \<or> x = 12 \<or> x = 13 \<or> x = 14 \<or> x = 15"
  using assms by presburger

lemma response_flags:
  "0 \<le> x \<Longrightarrow> x < 16 \<Longrightarrow> x AND EVENT = 0 \<Longrightarrow> x AND RESPONSE \<noteq> 0 \<Longrightarrow>
     x AND (MORE OR EVENT) = 0 \<Longrightarrow> x AND ERROR = 0 \<Longrightarrow> x = RESPONSE"
  by (drule (1) flags_cases) auto

text \<open>One iteration of the receive loop, from the contract of the frame read.\<close>

lemma wp_request_step:
  assumes read: "wp t (read_wire_frame P deadline) R
      (\<lambda>e. if is_TimeoutError e
           then E (TimeoutError ''timed out waiting for SN32 response: command, txid'') else E e) s"
    and event: "\<And>f s'. R f s' \<Longrightarrow> hf_flags f AND EVENT \<noteq> 0 \<Longrightarrow>
      wp t (handle_event P f) (\<lambda>_. Q (Inl ())) E s'"
    and reject: "\<And>f s' e. R f s' \<Longrightarrow> is_HostProtocolError e \<Longrightarrow> E e s'"
    and accept: "\<And>f s'. R f s' \<Longrightarrow> response_ok command txid f \<Longrightarrow> Q (Inr f) s'"
    and wf: "\<And>f s'. R f s' \<Longrightarrow> host_wf f"
  shows "wp t (request_step P command txid deadline u) Q E s"
proof -
  have remote: "\<exists>e. raise_remote_error f = Inl e \<and> is_HostProtocolError e" for f
    by (rule raise_remote_error_Inl)
  have ok: "response_ok command txid f"
    if "R f s'" "hf_flags f AND EVENT = 0" "hf_command f = command" "hf_transaction_id f = txid"
      "hf_flags f AND RESPONSE \<noteq> 0" "hf_flags f AND (MORE OR EVENT) = 0" "hf_flags f AND ERROR = 0" for f s'
    using that wf [of f s'] response_flags [of "hf_flags f"]
    by (simp add: response_ok_def host_wf_def)
  show ?thesis
    unfolding request_step_def wp_bind wp_try
  proof (rule wp_mono [OF read], goal_cases)
    case (1 f s')
    then show ?case
      using event [of f s'] reject [of f s'] accept [of f s'] ok [of f s'] remote [of f]
      by (auto simp: wp_simps simp del: FrameFlags_value.simps)
  next
    case (2 e s')
    then show ?case by (simp add: wp_simps split: if_splits)
  qed
qed

text \<open>The exchange: a returned frame answers this request, the transaction ID advances on every
  outcome, and on a timely port the exchange ends.\<close>

lemma wp_request_loop:
  assumes ok: "client_ok s" and live: "t \<or> timely P clk b"
  shows "wp t (io_loop (request_step P command txid deadline) ())
    (\<lambda>f s'. client_ok s' \<and> rx s' = [] \<and> next_transaction_id s' = next_transaction_id s \<and>
       response_ok command txid f \<and> (timely P clk b \<longrightarrow> clock_order clk b (world s) (world s')))
    (\<lambda>e s'. client_ok s' \<and> next_transaction_id s' = next_transaction_id s \<and>
       (timely P clk b \<longrightarrow> clock_order_eq clk b (world s) (world s'))) s"
proof -
  define I where "I = (\<lambda>(_ :: unit) s'. client_ok s' \<and> next_transaction_id s' = next_transaction_id s \<and>
    (timely P clk b \<longrightarrow> clock_order_eq clk b (world s) (world s')))"
  note order = clock_order_trans [of clk b]
  show ?thesis
  proof (rule wp_loop [where I = I and r = "deadline_rel clk b deadline"])
    show "wf (deadline_rel clk b deadline)" by (rule wf_deadline_rel)
    show "I () s" using ok by (simp add: I_def)
    fix x and u :: "'a client"
    assume I: "I x u"
    then have ok: "client_ok u" and nti: "next_transaction_id u = next_transaction_id s"
      and le: "timely P clk b \<Longrightarrow> clock_order_eq clk b (world s) (world u)"
      by (simp_all add: I_def)
    have chain: "timely P clk b \<Longrightarrow> clock_order clk b (world u) w \<Longrightarrow> clock_order clk b (world s) w"
      "timely P clk b \<Longrightarrow> clock_order_eq clk b (world u) w \<Longrightarrow> clock_order_eq clk b (world s) w" for w
      using le order(1,2) by blast+
    define R where "R = (\<lambda>f s'. client_ok s' \<and> rx s' = [] \<and>
      next_transaction_id s' = next_transaction_id u \<and> host_wf f \<and>
      (timely P clk b \<longrightarrow> clock_order clk b (world u) (world s') \<and> clk (world u) < deadline))"
    define Q where "Q = (\<lambda>z s'. case z of
        Inl x' \<Rightarrow> I x' s' \<and> (t \<or> ((x', s'), x, u) \<in> deadline_rel clk b deadline)
      | Inr f \<Rightarrow> client_ok s' \<and> rx s' = [] \<and> next_transaction_id s' = next_transaction_id s \<and>
          response_ok command txid f \<and> (timely P clk b \<longrightarrow> clock_order clk b (world s) (world s')))"
    define E where "E = (\<lambda>(_ :: exn) s'. client_ok s' \<and> next_transaction_id s' = next_transaction_id s \<and>
      (timely P clk b \<longrightarrow> clock_order_eq clk b (world s) (world s')))"
    have later: "Q (Inl ()) (s'\<lparr>world := w\<rparr>)" "E e (s'\<lparr>world := w\<rparr>)"
      if R: "R f s'" and w: "timely P clk b \<Longrightarrow> clock_order_eq clk b (world s') w" for f s' w e
    proof -
      have uw: "timely P clk b \<Longrightarrow> clock_order clk b (world u) w"
        using R w order(3) unfolding R_def by blast
      then have "t \<or> (((), s'\<lparr>world := w\<rparr>), x, u) \<in> deadline_rel clk b deadline"
        using R live by (auto simp: R_def intro: deadline_relI)
      then show "Q (Inl ()) (s'\<lparr>world := w\<rparr>)" "E e (s'\<lparr>world := w\<rparr>)"
        using R uw chain nti by (simp_all add: Q_def E_def I_def R_def)
    qed
    have now: "Q (Inl ()) s'" "E e s'" if "R f s'" for f s' e
      using later [OF that, of "world s'"] by simp_all
    show "wp t (request_step P command txid deadline x) Q E u"
    proof (rule wp_request_step)
      show "wp t (read_wire_frame P deadline) R
          (\<lambda>e. if is_TimeoutError e
             then E (TimeoutError ''timed out waiting for SN32 response: command, txid'') else E e) u"
        by (rule wp_mono [OF wp_read_wire_frame [OF ok live]])
          (use nti chain in \<open>auto simp: R_def E_def\<close>)
      show "wp t (handle_event P f) (\<lambda>_. Q (Inl ())) E s'" if "R f s'" for f s'
        by (rule wp_handle_event)
          (auto intro: later(1) [OF that] later(2) [OF that] now [OF that] timelyD(7))
      show "E e s'" if "R f s'" for f s' e
        using now that by blast
      show "Q (Inr f) s'" if "R f s'" "response_ok command txid f" for f s'
        using that chain nti by (simp add: R_def Q_def)
      show "host_wf f" if "R f s'" for f s'
        using that by (simp add: R_def)
    qed
  qed
qed

lemma wp_request:
  assumes ok: "client_ok s" and live: "t \<or> timely P clk b"
  shows "wp t (request P command payload timeout)
    (\<lambda>f s'. client_ok s' \<and> rx s' = [] \<and>
       next_transaction_id s' = next_txid (next_transaction_id s) \<and>
       response_ok command (next_transaction_id s) f \<and>
       (timely P clk b \<longrightarrow> clock_order clk b (world s) (world s')))
    (\<lambda>e s'. client_ok s' \<and> next_transaction_id s' = next_txid (next_transaction_id s) \<and>
       (timely P clk b \<longrightarrow> clock_order_eq clk b (world s) (world s'))) s"
proof -
  define u where "u = s\<lparr>next_transaction_id := next_txid (next_transaction_id s)\<rparr>"
  have u: "client_ok (u\<lparr>world := w\<rparr>)" for w
    using ok by (simp add: u_def client_ok_def)
  show ?thesis
  proof (cases "host_encode_wire (HostFrame command 0 (next_transaction_id s) payload)")
    case (Inl e)
    then show ?thesis
      using ok u [of "world u"] by (simp add: request_def wp_simps u_def)
  next
    case (Inr wire)
    define w1 where "w1 = snd (p_write P wire (world s))"
    define w2 where "w2 = snd (p_flush P w1)"
    define w3 where "w3 = snd (p_clock P w2)"
    have w: "clock_order_eq clk b (world s) w1" "clock_order_eq clk b (world s) w2"
      "clock_order_eq clk b (world s) w3" if "timely P clk b"
    proof -
      note step = timelyD [OF that]
      show w1: "clock_order_eq clk b (world s) w1" unfolding w1_def by (rule step(4))
      show w2: "clock_order_eq clk b (world s) w2"
        unfolding w2_def by (rule clock_order_trans(1) [OF w1 step(5)])
      show "clock_order_eq clk b (world s) w3"
        unfolding w3_def by (rule clock_order_trans(1) [OF w2 step(3)])
    qed
    have up: "timely P clk b \<Longrightarrow> clock_order clk b w3 w \<Longrightarrow> clock_order clk b (world s) w"
      "timely P clk b \<Longrightarrow> clock_order_eq clk b w3 w \<Longrightarrow> clock_order_eq clk b (world s) w" for w
      using w(3) clock_order_trans(1,2) [of clk b "world s" w3 w] by simp_all
    have loop: "wp t (io_loop (request_step P command (next_transaction_id s) deadline) ())
       (\<lambda>f s'. client_ok s' \<and> rx s' = [] \<and>
          next_transaction_id s' = next_txid (next_transaction_id s) \<and>
          response_ok command (next_transaction_id s) f \<and>
          (timely P clk b \<longrightarrow> clock_order clk b (world s) (world s')))
       (\<lambda>e s'. client_ok s' \<and> next_transaction_id s' = next_txid (next_transaction_id s) \<and>
          (timely P clk b \<longrightarrow> clock_order_eq clk b (world s) (world s'))) (u\<lparr>world := w3\<rparr>)" for deadline
      by (rule wp_mono [OF wp_request_loop [OF u live]])
        (use up in \<open>auto simp: u_def\<close>)
    show ?thesis
      using ok u w loop Inr
      by (auto simp: request_def wp_simps u_def w1_def w2_def w3_def split: sum.splits)
  qed
qed

section \<open>What crosses the line\<close>

text \<open>The bytes a request writes: its wire form, or nothing when it does not encode.\<close>

definition request_wire :: "int \<Rightarrow> int \<Rightarrow> bytes \<Rightarrow> bytes list" where
  "request_wire command txid payload =
     (case host_encode_wire (HostFrame command 0 txid payload) of Inl _ \<Rightarrow> [] | Inr wire \<Rightarrow> [wire])"

text \<open>\<open>exchange buffer new f\<close>: the buffered and the new bytes are the wire forms of event frames followed
  by the wire form of \<open>f\<close>.\<close>

definition event_wires :: "bytes list \<Rightarrow> bool" where
  "event_wires ws \<longleftrightarrow> (\<forall>w \<in> set ws. \<exists>f ev. host_decode_wire w = Inr f \<and> event_frame_ok f ev)"

definition exchange :: "bytes \<Rightarrow> bytes \<Rightarrow> host_frame \<Rightarrow> bool" where
  "exchange buffer new f \<longleftrightarrow>
     (\<exists>ws wire. buffer @ new = concat ws @ wire \<and> event_wires ws \<and> host_decode_wire wire = Inr f)"

lemma wp_request_loop_log:
  fixes s :: "('w \<times> io_event list) client"
  assumes ok: "client_ok s"
  shows "wp True (io_loop (request_step (logged P) command txid deadline) ())
    (\<lambda>f s'. sent (io_log s') = sent (io_log s) \<and>
       (\<exists>bs. received (io_log s') = received (io_log s) @ bs \<and> exchange (rx s) bs f))
    (\<lambda>e s'. sent (io_log s') = sent (io_log s)) s"
proof -
  define I where "I = (\<lambda>(_ :: unit) (s' :: ('w \<times> io_event list) client).
    client_ok s' \<and> sent (io_log s') = sent (io_log s) \<and>
    (\<exists>bs ws. received (io_log s') = received (io_log s) @ bs \<and> rx s @ bs = concat ws @ rx s' \<and>
       event_wires ws))"
  define E where "E = (\<lambda>(_ :: exn) (s' :: ('w \<times> io_event list) client). sent (io_log s') = sent (io_log s))"
  define G where "G = (\<lambda>f (s' :: ('w \<times> io_event list) client). sent (io_log s') = sent (io_log s) \<and>
       (\<exists>bs. received (io_log s') = received (io_log s) @ bs \<and> exchange (rx s) bs f))"
  have "wp True (io_loop (request_step (logged P) command txid deadline) ()) G E s"
  proof (rule wp_loop_partial [where I = I])
    show "I () s" using ok by (auto simp: I_def event_wires_def intro!: exI [of _ "[]"])
    fix x and u :: "('w \<times> io_event list) client"
    assume I: "I x u"
    then obtain bs ws where ok: "client_ok u" and sent: "sent (io_log u) = sent (io_log s)"
      and bs: "received (io_log u) = received (io_log s) @ bs" "rx s @ bs = concat ws @ rx u" "event_wires ws"
      by (auto simp: I_def)
    define R where "R = (\<lambda>f (s' :: ('w \<times> io_event list) client). client_ok s' \<and> rx s' = [] \<and> host_wf f \<and>
      sent (io_log s') = sent (io_log s) \<and>
      (\<exists>bs wire. received (io_log s') = received (io_log s) @ bs \<and> rx s @ bs = concat ws @ wire \<and>
         host_decode_wire wire = Inr f))"
    have go: "I () (s'\<lparr>world := (w, snd (world s'))\<rparr>)" if "R f s'" "event_frame_ok f ev" for f s' ev w
    proof -
      from that(1) obtain bs wire where "received (io_log s') = received (io_log s) @ bs"
        "rx s @ bs = concat (ws @ [wire])" "host_decode_wire wire = Inr f"
        by (auto simp: R_def)
      moreover have "event_wires (ws @ [wire])"
        using bs(3) that(2) calculation(3) by (auto simp: event_wires_def)
      ultimately have "\<exists>bs ws. received (io_log s') = received (io_log s) @ bs \<and>
          rx s @ bs = concat ws @ [] \<and> event_wires ws"
        by (metis append_Nil2)
      then show ?thesis using that(1) by (simp add: I_def R_def)
    qed
    show "wp True (request_step (logged P) command txid deadline x)
        (\<lambda>r s'. case r of Inl x' \<Rightarrow> I x' s' | Inr f \<Rightarrow> G f s') E u"
    proof (rule wp_request_step [where R = R])
      show "wp True (read_wire_frame (logged P) deadline) R
          (\<lambda>e. if is_TimeoutError e
             then E (TimeoutError ''timed out waiting for SN32 response: command, txid'') else E e) u"
      proof (rule wp_mono [OF wp_conj [OF wp_read_wire_frame
              [where clk = "\<lambda>_. 0" and b = "\<lambda>_. 0", OF ok disjI1 [OF TrueI]]
              wp_read_wire_frame_log [OF ok]]], goal_cases)
        case (1 f s')
        then obtain bs' where "received (io_log s') = received (io_log u) @ bs'"
          "host_decode_wire (rx u @ bs') = Inr f" by blast
        then have "received (io_log s') = received (io_log s) @ (bs @ bs')"
          "rx s @ (bs @ bs') = concat ws @ (rx u @ bs')" "host_decode_wire (rx u @ bs') = Inr f"
          using bs by simp_all
        then have "\<exists>bs wire. received (io_log s') = received (io_log s) @ bs \<and>
            rx s @ bs = concat ws @ wire \<and> host_decode_wire wire = Inr f" by blast
        then show ?case using 1 sent unfolding R_def by simp
      next
        case (2 e s')
        then show ?case using sent by (simp add: E_def)
      qed
      show "wp True (handle_event (logged P) f)
          (\<lambda>_. (\<lambda>r s'. case r of Inl x' \<Rightarrow> I x' s' | Inr f \<Rightarrow> G f s') (Inl ())) E s'"
        if "R f s'" for f s'
        by (rule wp_handle_event) (use that go [OF that] go [OF that, of _ "fst (world s')"] in
            \<open>auto simp: E_def R_def\<close>)
      show "E e s'" if "R f s'" for f s' e using that by (simp add: R_def E_def)
      show "(\<lambda>r s'. case r of Inl x' \<Rightarrow> I x' s' | Inr f \<Rightarrow> G f s') (Inr f) s'" if "R f s'" for f s'
        using that bs(3) by (auto simp: R_def G_def exchange_def)
      show "host_wf f" if "R f s'" for f s' using that by (simp add: R_def)
    qed
  qed
  then show ?thesis by (simp add: G_def E_def)
qed

lemma wp_request_log:
  fixes s :: "('w \<times> io_event list) client"
  assumes ok: "client_ok s"
  shows "wp True (request (logged P) command payload timeout)
    (\<lambda>f s'. sent (io_log s') = sent (io_log s) @ request_wire command (next_transaction_id s) payload \<and>
       (\<exists>bs. received (io_log s') = received (io_log s) @ bs \<and> exchange (rx s) bs f))
    (\<lambda>e s'. sent (io_log s') = sent (io_log s) @ request_wire command (next_transaction_id s) payload) s"
proof (cases "host_encode_wire (HostFrame command 0 (next_transaction_id s) payload)")
  case (Inl e)
  then show ?thesis using ok by (simp add: request_def wp_simps request_wire_def)
next
  case (Inr wire)
  define u where "u = s\<lparr>next_transaction_id := next_txid (next_transaction_id s)\<rparr>"
  have u: "client_ok (u\<lparr>world := w\<rparr>)" for w
    using ok by (simp add: u_def client_ok_def)
  have loop: "wp True (io_loop (request_step (logged P) command (next_transaction_id s) deadline) ())
     (\<lambda>f s'. sent (io_log s') = sent (io_log s) @ [wire] \<and>
       (\<exists>bs. received (io_log s') = received (io_log s) @ bs \<and> exchange (rx s) bs f))
     (\<lambda>e s'. sent (io_log s') = sent (io_log s) @ [wire]) (u\<lparr>world := (w, io_log s @ [Sent wire])\<rparr>)"
    for deadline w
    by (rule wp_mono [OF wp_request_loop_log [OF u]]) (auto simp: u_def)
  show ?thesis
    using ok Inr loop by (auto simp: request_def wp_simps request_wire_def u_def split: sum.splits)
qed

section \<open>Delivery\<close>

text \<open>On a line that carries the bytes of frames, the client returns these frames: the scripted port
  makes a reply readable at once, and a read of it takes no time.\<close>

definition arrived :: "script client \<Rightarrow> bytes \<Rightarrow> script client" where
  "arrived s bs = s\<lparr>world := (world s)\<lparr>pt_incoming := bs\<rparr>\<rparr>"

lemma arrived_sel [simp]:
  "rx (arrived s bs) = rx s" "next_transaction_id (arrived s bs) = next_transaction_id s"
  "pt_incoming (world (arrived s bs)) = bs" "pt_clock (world (arrived s bs)) = pt_clock (world s)"
  "arrived (arrived s bs) cs = arrived s cs" "client_ok (arrived s bs) = client_ok s"
  "world (arrived s bs) = (world s)\<lparr>pt_incoming := bs\<rparr>"
  by (simp_all add: arrived_def)

lemma scripted_sel [simp]:
  "p_read scripted w = (case pt_incoming w of [] \<Rightarrow> (Inr [], w\<lparr>pt_clock := pt_clock w + 50000\<rparr>)
     | b # bs \<Rightarrow> (Inr [b], w\<lparr>pt_incoming := bs\<rparr>))"
  "p_write scripted bs w = (Inr (int (length bs)),
     w\<lparr>pt_clock := pt_clock w + 1000,
       pt_incoming := pt_incoming w @ (case pt_replies w of [] \<Rightarrow> [] | r # rs \<Rightarrow> r),
       pt_replies := tl (pt_replies w)\<rparr>)"
  "p_flush scripted w = (Inr (), w)" "p_clock scripted w = (pt_clock w, w)"
  "p_sleep scripted d w = w\<lparr>pt_clock := pt_clock w + max 0 d\<rparr>"
  "p_event_handler scripted = Some (\<lambda>e w. (Inr (), w\<lparr>pt_events := pt_events w @ [e]\<rparr>))"
  by (simp_all add: scripted_def)

lemma read_wire_frame_unfold:
  "read_wire_frame P d s = Option.bind (read_wire_step P d () s) (\<lambda>(r, s').
     case r of Inl e \<Rightarrow> Some (Inl e, s') | Inr (Inl _) \<Rightarrow> read_wire_frame P d s'
       | Inr (Inr f) \<Rightarrow> Some (Inr f, s'))"
  unfolding read_wire_frame_def
  by (subst io_loop.simps, cases "read_wire_step P d () s") (auto split: sum.split)

lemmas run_simps = io_bind_def io_then_def io_return_def io_raise_def io_check_def io_lift_def io_try_def
  io_world_def monotonic_def serial_read_def serial_write_def serial_flush_def get_rx_def set_rx_def
  get_next_transaction_id_def set_next_transaction_id_def

lemma read_wire_frame_scripted:
  assumes "0 \<notin> set bs" and "length (rx s) + length bs \<le> 272" and "pt_clock (world s) < d"
    and "pt_incoming (world s) = bs @ 0 # rest" and "host_decode_wire (rx s @ bs @ [0]) = Inr f"
  shows "read_wire_frame scripted d s = Some (Inr f, (arrived s rest)\<lparr>rx := []\<rparr>)"
  using assms
proof (induction bs arbitrary: s)
  case Nil
  then show ?case
    by (subst read_wire_frame_unfold) (simp add: read_wire_step_def run_simps arrived_def)
next
  case (Cons b bs)
  define s' where "s' = (arrived s (bs @ 0 # rest))\<lparr>rx := rx s @ [b]\<rparr>"
  have "read_wire_step scripted d () s = Some (Inr (Inl ()), s')"
    using Cons.prems by (simp add: read_wire_step_def run_simps arrived_def s'_def)
  moreover have "read_wire_frame scripted d s' = Some (Inr f, (arrived s' rest)\<lparr>rx := []\<rparr>)"
    using Cons.prems by (intro Cons.IH) (simp_all add: s'_def)
  ultimately show ?case
    by (subst read_wire_frame_unfold) (simp add: s'_def arrived_def)
qed

text \<open>\<open>carries f w\<close>: the bytes \<open>w\<close> are the wire form of the well-formed frame \<open>f\<close>.\<close>

definition carries :: "host_frame \<Rightarrow> bytes \<Rightarrow> bool" where
  "carries f w \<longleftrightarrow> host_wf f \<and> host_encode_wire f = Inr w"

lemma carries_total: "host_wf f \<Longrightarrow> \<exists>w. carries f w"
  using host.enc_total [of f] by (auto simp: carries_def host_encode_wire_iff)

lemma read_wire_frame_delivers:
  assumes "carries f w" and "rx s = []" and "pt_clock (world s) < d" and "pt_incoming (world s) = w @ rest"
  shows "read_wire_frame scripted d s = Some (Inr f, arrived s rest)"
proof -
  have enc: "host_encode_wire f = Inr w" and wf: "host_wf f" using assms(1) by (simp_all add: carries_def)
  obtain bs where w: "w = bs @ [0]" and "0 \<notin> set bs" "length bs \<le> 272"
    using host_encode_wire_delimited [OF enc] host_encode_wire_length [OF enc] by auto
  moreover have "host_decode_wire w = Inr f"
    using host_decode_encode_wire [OF enc] host_wf_command [OF wf] by simp
  ultimately show ?thesis
    using assms(2-4) read_wire_frame_scripted [of bs s d rest f] by (simp add: arrived_def)
qed

lemma request_loop_unfold:
  "io_loop (request_step P c t d) () s = Option.bind (request_step P c t d () s) (\<lambda>(r, s').
     case r of Inl e \<Rightarrow> Some (Inl e, s') | Inr (Inl _) \<Rightarrow> io_loop (request_step P c t d) () s'
       | Inr (Inr f) \<Rightarrow> Some (Inr f, s'))"
  by (subst io_loop.simps, cases "request_step P c t d () s") (auto split: sum.split)

lemma request_loop_delivers:
  assumes "list_all2 (\<lambda>w ev. \<exists>f. carries f w \<and> event_frame_ok f ev) ws evs"
    and "carries f w" and "response_ok command txid f"
    and "rx s = []" and "pt_clock (world s) < d" and "pt_incoming (world s) = concat ws @ w"
  shows "io_loop (request_step scripted command txid d) () s =
    Some (Inr f, s\<lparr>world := (world s)\<lparr>pt_incoming := [], pt_events := pt_events (world s) @ evs\<rparr>\<rparr>)"
  using assms
proof (induction ws evs arbitrary: s rule: list_all2_induct)
  case Nil
  then have "read_wire_frame scripted d s = Some (Inr f, arrived s [])"
    by (intro read_wire_frame_delivers [of f w]) simp_all
  moreover have "hf_flags f = 1" using Nil.prems by (simp add: response_ok_def)
  ultimately have "request_step scripted command txid d () s = Some (Inr (Inr f), arrived s [])"
    using Nil.prems by (simp add: request_step_def run_simps response_ok_def)
  then show ?case by (subst request_loop_unfold) (simp add: arrived_def)
next
  case (Cons w1 ws ev evs)
  from Cons.hyps obtain fe where fe: "carries fe w1" "event_frame_ok fe ev" by blast
  define s' where "s' = (arrived s (concat ws @ w))
      \<lparr>world := (world (arrived s (concat ws @ w)))\<lparr>pt_events := pt_events (world s) @ [ev]\<rparr>\<rparr>"
  have "read_wire_frame scripted d s = Some (Inr fe, arrived s (concat ws @ w))"
    using Cons.prems fe by (intro read_wire_frame_delivers [of fe w1]) simp_all
  then have "request_step scripted command txid d () s = Some (Inr (Inl ()), s')"
    using fe(2) by (simp add: request_step_def handle_event_def event_frame_ok_def run_simps
        s'_def arrived_def)
  moreover have "io_loop (request_step scripted command txid d) () s' =
    Some (Inr f, s'\<lparr>world := (world s')\<lparr>pt_incoming := [], pt_events := pt_events (world s') @ evs\<rparr>\<rparr>)"
    using Cons.prems by (intro Cons.IH) (simp_all add: s'_def)
  ultimately show ?case
    by (subst request_loop_unfold) (simp add: s'_def arrived_def)
qed

lemma request_delivers:
  assumes "client_ok s" and "rx s = []" and "pt_incoming (world s) = []" and "0 < timeout"
    and "host_encode_wire (HostFrame command 0 (next_transaction_id s) payload) = Inr wire"
    and "list_all2 (\<lambda>w ev. \<exists>f. carries f w \<and> event_frame_ok f ev) ws evs"
    and "carries f w" and "response_ok command (next_transaction_id s) f"
    and "pt_replies (world s) = (concat ws @ w) # replies"
  shows "request scripted command payload timeout s = Some (Inr f,
    s\<lparr>next_transaction_id := next_txid (next_transaction_id s),
      world := (world s)\<lparr>pt_clock := pt_clock (world s) + 1000, pt_replies := replies,
        pt_events := pt_events (world s) @ evs\<rparr>\<rparr>)"
proof -
  define s' where "s' = s\<lparr>next_transaction_id := next_txid (next_transaction_id s),
      world := (world s)\<lparr>pt_clock := pt_clock (world s) + 1000, pt_incoming := concat ws @ w,
        pt_replies := replies\<rparr>\<rparr>"
  have "request scripted command payload timeout s =
      io_loop (request_step scripted command (next_transaction_id s) (pt_clock (world s) + 1000 + timeout)) () s'"
    using assms by (simp add: request_def io_bind_def allocate_txid_eq client_ok_def io_lift_def
        serial_write_def serial_flush_def monotonic_def io_world_def io_check_def io_then_def
        s'_def)
  also have "\<dots> = Some (Inr f, s'\<lparr>world := (world s')\<lparr>pt_incoming := [],
      pt_events := pt_events (world s') @ evs\<rparr>\<rparr>)"
    using assms by (intro request_loop_delivers [of ws evs f w]) (simp_all add: s'_def)
  finally show ?thesis
    using assms(3) by (simp add: s'_def)
qed

end
