(* ===== verification/Client_Commands.thy ===== *)
theory Client_Commands
  imports Client "HOL-Library.Sublist"
begin

text \<open>
  The commands of \<open>TrinitySerialClient\<close> (\<open>serial_client_impl.py\<close>, with the identity constants that
  \<open>serial_client.py\<close> substitutes): status and diagnostic queries, self tests, retained results and
  their polling, the two bring-up sequences, the check of a live SPI trace and the hardware
  qualification. The contract \<open>channel\<close> says what one request keeps of an invariant of the client's
  state; every command keeps it too, and ends when the port is timely.
\<close>

section \<open>Expected identities\<close>

definition EXPECTED_P1_BUILD_ID :: int where "EXPECTED_P1_BUILD_ID = 0x5031D003"
definition EXPECTED_P2_BUILD_ID :: int where "EXPECTED_P2_BUILD_ID = 0x50320002"
definition EXPECTED_SN32_BUILD_ID :: int where "EXPECTED_SN32_BUILD_ID = 0x0007001F"
definition EXPECTED_SN32_VERSION :: "int \<times> int \<times> int" where "EXPECTED_SN32_VERSION = (0, 7, 31)"
definition P1_KAT_TEST_MASK :: int where "P1_KAT_TEST_MASK = 0x013E"
definition P2_KAT_TEST_MASK :: int where "P2_KAT_TEST_MASK = 0x03E3"

section \<open>Queries\<close>

text \<open>\<open>except cls as exc: raise new from exc\<close> around a pure call.\<close>

definition rewrap :: "(exn \<Rightarrow> bool) \<Rightarrow> exn \<Rightarrow> 'a result \<Rightarrow> 'a result" where
  "rewrap cls new r = (case r of Inl e \<Rightarrow> Inl (if cls e then new else e) | Inr a \<Rightarrow> Inr a)"

definition ping :: "'w port \<Rightarrow> ('w, int) io" where
  "ping P =
     io_bind (request P (HostCommand_value HC_PING) [] 2000000) (\<lambda>response.
     io_check (length (hf_payload response) \<noteq> 4) (HostProtocolError ''PING response must be 4 bytes'')
    (io_bind (io_lift (struct_unpack [4] (hf_payload response))) (\<lambda>v. io_return (v ! 0))))"

definition get_system_info :: "'w port \<Rightarrow> ('w, system_info) io" where
  "get_system_info P =
     io_bind (request P (HostCommand_value HC_GET_SYSTEM_INFO) [] 2000000) (\<lambda>response.
     io_lift (SystemInfo_decode (hf_payload response)))"

definition get_system_status :: "'w port \<Rightarrow> ('w, system_status) io" where
  "get_system_status P =
     io_bind (request P (HostCommand_value HC_GET_SYSTEM_STATUS) [] 5000000) (\<lambda>response.
     io_lift (SystemStatus_decode (hf_payload response)))"

definition get_last_error :: "'w port \<Rightarrow> ('w, last_error_snapshot) io" where
  "get_last_error P =
     io_bind (request P (HostCommand_value HC_GET_LAST_ERROR) [] 2000000) (\<lambda>response.
     io_lift (LastErrorSnapshot_decode (hf_payload response)))"

definition spi_diagnostic :: "'w port \<Rightarrow> int \<Rightarrow> int \<Rightarrow> ('w, spi_diagnostic_trace) io" where
  "spi_diagnostic P target_value command_value =
     io_check (target_value \<notin> {TargetId_value TGT_PRIMER1, TargetId_value TGT_PRIMER2})
       (ValueError ''invalid SPI diagnostic target'')
    (io_check (command_value \<notin> {SpiCommand_value SPI_GET_INFO, SpiCommand_value SPI_GET_STATUS})
       (ValueError ''SPI diagnostic command is not side-effect-free'')
    (io_bind (request P (HostCommand_value HC_SPI_DIAGNOSTIC)
        [word_of_int target_value, word_of_int command_value] 2000000) (\<lambda>response.
     io_bind (io_lift (SpiDiagnosticTrace_decode (hf_payload response))) (\<lambda>trace.
     io_check (sd_target_id trace \<noteq> target_value \<or> sd_command trace \<noteq> command_value)
       (HostProtocolError ''SPI diagnostic target/command correlation mismatch'')
    (io_return trace)))))"

section \<open>Self tests and retained results\<close>

definition SELF_TEST_TARGETS :: int where
  "SELF_TEST_TARGETS = TargetReadyMask_value READY_SN32 OR TargetReadyMask_value READY_PRIMER1
     OR TargetReadyMask_value READY_PRIMER2 OR TargetReadyMask_value READY_TINY1P5"

definition start_self_test :: "'w port \<Rightarrow> int \<Rightarrow> test_profile \<Rightarrow> int \<Rightarrow> ('w, int) io" where
  "start_self_test P target_mask profile test_mask =
     io_check (target_mask = 0 \<or> target_mask AND NOT SELF_TEST_TARGETS \<noteq> 0)
       (ValueError ''invalid self-test target mask'')
    (io_bind (io_lift (struct_pack [1, 1, 2] [target_mask, TestProfile_value profile, test_mask AND 0xFFFF]))
       (\<lambda>payload.
     io_bind (request P (HostCommand_value HC_RUN_SELF_TEST) payload 10000000) (\<lambda>response.
     io_bind (io_lift (struct_pack [2] [test_mask AND 0xFFFF])) (\<lambda>mask.
     io_check (hf_payload response \<noteq> mask)
       (HostProtocolError ''RUN_SELF_TEST final response has the wrong test mask'')
    (io_return (hf_transaction_id response))))))"

definition P1_SELF_TEST_MASK :: int where
  "P1_SELF_TEST_MASK = TestMask_value TEST_MEMORY OR TestMask_value TEST_NTT OR TestMask_value TEST_INTT
     OR TestMask_value TEST_BASEMUL OR TestMask_value TEST_ASCON"

definition start_p1_self_test :: "'w port \<Rightarrow> ('w, int) io" where
  "start_p1_self_test P =
     start_self_test P (TargetReadyMask_value READY_PRIMER1) PROFILE_KAT P1_SELF_TEST_MASK"

definition get_transaction_result :: "'w port \<Rightarrow> int \<Rightarrow> ('w, transaction_result) io" where
  "get_transaction_result P host_txid =
     io_bind (io_lift (struct_pack [2] [host_txid])) (\<lambda>payload.
     io_bind (request P (HostCommand_value HC_GET_TXN_RESULT) payload 500000) (\<lambda>response.
     io_lift (TransactionResult_decode (hf_payload response))))"

definition retire_transaction_result :: "'w port \<Rightarrow> int \<Rightarrow> ('w, unit) io" where
  "retire_transaction_result P host_txid =
     io_bind (io_lift (struct_pack [2] [host_txid])) (\<lambda>payload.
     io_bind (request P (HostCommand_value HC_RETIRE_TXN_RESULT) payload 500000) (\<lambda>response.
     io_check (hf_payload response \<noteq> []) (HostProtocolError ''RETIRE_TXN_RESULT response must be empty'')
    (io_return ())))"

definition terminal :: "transaction_state \<Rightarrow> bool" where
  "terminal state \<longleftrightarrow> state \<in> {TXN_SUCCEEDED, TXN_FAILED, TXN_ZEROIZED, TXN_OUTCOME_UNKNOWN}"

definition poll_step :: "'w port \<Rightarrow> int \<Rightarrow> int \<Rightarrow> int \<Rightarrow> transaction_result option
    \<Rightarrow> ('w, transaction_result option + transaction_result option) io" where
  "poll_step P host_txid deadline poll_interval result =
     io_bind (monotonic P) (\<lambda>now.
     if now < deadline then
       io_bind (get_transaction_result P host_txid) (\<lambda>r.
       if terminal (tr_state r) then io_return (Inr (Some r))
       else io_then (time_sleep P poll_interval) (io_return (Inl (Some r))))
     else io_return (Inr result))"

definition check_retained :: "int \<Rightarrow> int \<Rightarrow> transaction_result option \<Rightarrow> transaction_result result" where
  "check_retained host_txid expected_command result =
     (case result of
        None \<Rightarrow> Inl (TimeoutError ''transaction did not finish'')
      | Some r \<Rightarrow>
          check (\<not> terminal (tr_state r)) (TimeoutError ''transaction did not finish'')
         (check (tr_queried_txid r \<noteq> host_txid) (HostProtocolError ''retained transaction ID mismatch'')
         (check (tr_original_command r \<noteq> expected_command)
            (HostProtocolError ''retained transaction command mismatch'')
         (check (tr_state r \<noteq> TXN_SUCCEEDED \<or> tr_result_code r \<noteq> EC_OK)
            (HostProtocolError ''transaction failed'')
         (Inr r)))))"

definition wait_for_transaction :: "'w port \<Rightarrow> int \<Rightarrow> int \<Rightarrow> int \<Rightarrow> int \<Rightarrow> ('w, transaction_result) io" where
  "wait_for_transaction P host_txid expected_command timeout poll_interval =
     io_bind (monotonic P) (\<lambda>now.
     io_bind (io_loop (poll_step P host_txid (now + timeout) poll_interval) None) (\<lambda>result.
     io_lift (check_retained host_txid expected_command result)))"

section \<open>Bring-up\<close>

record bringup_result =
  br_uptime_ms :: int
  br_info :: system_info
  br_status_before :: system_status
  br_transaction :: transaction_result
  br_status_after :: system_status

record dual_spi_bringup_result =
  ds_uptime_ms :: int
  ds_info :: system_info
  ds_status_before :: system_status
  ds_primer1_transaction :: transaction_result
  ds_primer2_transaction :: transaction_result
  ds_status_after :: system_status

definition P1_READY :: int where
  "P1_READY = TargetReadyMask_value READY_SN32 OR TargetReadyMask_value READY_PRIMER1"

definition ALL_READY :: int where
  "ALL_READY = TargetReadyMask_value READY_SN32 OR TargetReadyMask_value READY_PRIMER1
     OR TargetReadyMask_value READY_PRIMER2"

definition run_p1_bringup :: "'w port \<Rightarrow> int \<Rightarrow> int \<Rightarrow> ('w, bringup_result) io" where
  "run_p1_bringup P timeout poll_interval =
     io_bind (ping P) (\<lambda>uptime.
     io_bind (get_system_info P) (\<lambda>info.
     io_bind (get_system_status P) (\<lambda>status_before.
     io_check (st_target_ready_mask status_before AND P1_READY \<noteq> P1_READY)
       (HostProtocolError ''P1 is not ready on SPI'')
    (io_bind (start_p1_self_test P) (\<lambda>host_txid.
     io_bind (wait_for_transaction P host_txid (HostCommand_value HC_RUN_SELF_TEST) timeout poll_interval)
       (\<lambda>result.
     io_then (retire_transaction_result P host_txid)
    (io_bind (get_system_status P) (\<lambda>status_after.
     io_check (st_system_state status_after \<notin> {SYS_READY_NO_KEYPAIR, SYS_READY_NO_SESSION})
       (HostProtocolError ''unexpected final P1 state'')
    (io_check (st_target_ready_mask status_after AND P1_READY \<noteq> P1_READY)
       (HostProtocolError ''P1 lost readiness'')
    (io_check (st_fault_flags status_after \<noteq> 0)
       (HostProtocolError ''fault flags asserted after self-test'')
    (io_return \<lparr>br_uptime_ms = uptime, br_info = info, br_status_before = status_before,
       br_transaction = result, br_status_after = status_after\<rparr>)))))))))))"

text \<open>One endpoint's self test: start, wait for the retained result, retire it.\<close>

definition dual_self_test :: "'w port \<Rightarrow> target_ready_mask \<Rightarrow> int \<Rightarrow> int \<Rightarrow> int \<Rightarrow> ('w, transaction_result) io" where
  "dual_self_test P endpoint test_mask timeout poll_interval =
     io_bind (start_self_test P (TargetReadyMask_value endpoint) PROFILE_KAT test_mask) (\<lambda>txid.
     io_bind (wait_for_transaction P txid (HostCommand_value HC_RUN_SELF_TEST) timeout poll_interval)
       (\<lambda>result.
     io_then (retire_transaction_result P txid) (io_return result)))"

definition run_dual_spi_bringup :: "'w port \<Rightarrow> int \<Rightarrow> int \<Rightarrow> ('w, dual_spi_bringup_result) io" where
  "run_dual_spi_bringup P timeout poll_interval =
     io_bind (ping P) (\<lambda>uptime.
     io_bind (get_system_info P) (\<lambda>info.
     io_check (si_primer1_build_id info \<noteq> EXPECTED_P1_BUILD_ID) (HostProtocolError ''unexpected P1 build ID'')
    (io_check (si_primer2_build_id info \<noteq> EXPECTED_P2_BUILD_ID) (HostProtocolError ''unexpected P2 build ID'')
    (io_bind (get_system_status P) (\<lambda>status_before.
     io_check (st_target_ready_mask status_before AND ALL_READY \<noteq> ALL_READY)
       (HostProtocolError ''dual-SPI endpoints are not both ready'')
    (io_check (st_fault_flags status_before \<noteq> 0) (HostProtocolError ''fault flags before dual-SPI test'')
    (io_bind (dual_self_test P READY_PRIMER1 P1_KAT_TEST_MASK timeout poll_interval) (\<lambda>p1_result.
     io_bind (dual_self_test P READY_PRIMER2 P2_KAT_TEST_MASK timeout poll_interval) (\<lambda>p2_result.
     io_bind (get_system_status P) (\<lambda>status_after.
     io_check (st_system_state status_after \<notin> {SYS_READY_NO_KEYPAIR, SYS_READY_NO_SESSION})
       (HostProtocolError ''unexpected final dual-SPI state'')
    (io_check (st_target_ready_mask status_after AND ALL_READY \<noteq> ALL_READY)
       (HostProtocolError ''endpoint readiness lost after dual-SPI test'')
    (io_check (st_fault_flags status_after \<noteq> 0) (HostProtocolError ''fault flags after dual-SPI test'')
    (io_return \<lparr>ds_uptime_ms = uptime, ds_info = info, ds_status_before = status_before,
       ds_primer1_transaction = p1_result, ds_primer2_transaction = p2_result,
       ds_status_after = status_after\<rparr>)))))))))))))"

section \<open>Hardware qualification\<close>

fun is_ProtocolDecodeError :: "exn \<Rightarrow> bool" where
  "is_ProtocolDecodeError (ProtocolDecodeError _ _) = True"
| "is_ProtocolDecodeError _ = False"

definition expected_frame_length :: "spi_command \<Rightarrow> int" where
  "expected_frame_length command = (if command = SPI_GET_INFO then 22 else 26)"

definition expected_build :: "target_id \<Rightarrow> int" where
  "expected_build target = (if target = TGT_PRIMER1 then EXPECTED_P1_BUILD_ID else EXPECTED_P2_BUILD_ID)"

definition validate_live_spi_trace :: "spi_diagnostic_trace \<Rightarrow> target_id \<Rightarrow> spi_command \<Rightarrow> unit result" where
  "validate_live_spi_trace trace target command =
     check (sd_result_code trace \<noteq> EC_OK) (HostProtocolError ''failed'')
    (check (sd_source trace \<noteq> TargetId_value target) (HostProtocolError ''source mismatch'')
    (check (sd_request_length trace \<noteq> 10) (HostProtocolError ''request length'')
    (check (sd_response_capture_length trace \<noteq> expected_frame_length command
          \<or> sd_response_frame_length trace \<noteq> expected_frame_length command)
       (HostProtocolError ''response length'')
    (result_bind (rewrap is_ProtocolDecodeError (HostProtocolError ''raw SPI request invalid'')
       (spi_decode (sd_request_bytes trace))) (\<lambda>request.
     result_bind (rewrap is_ProtocolDecodeError (HostProtocolError ''raw SPI response invalid'')
       (spi_decode (sd_response_bytes trace))) (\<lambda>response.
     check (sp_command request \<noteq> SpiCommand_value command \<or> sp_flags request \<noteq> 0
          \<or> sp_transaction_id request \<noteq> sd_target_transaction_id trace \<or> sp_payload request \<noteq> [])
       (HostProtocolError ''request correlation mismatch'')
    (result_bind (request_fingerprint_crc32c (SpiCommand_value command) 0 []) (\<lambda>fingerprint.
     check (sd_request_fingerprint trace \<noteq> fingerprint) (HostProtocolError ''request fingerprint mismatch'')
    (let request_crc = be_int (drop (length (sd_request_bytes trace) - 2) (sd_request_bytes trace)) in
     check (sd_request_crc trace \<noteq> request_crc) (HostProtocolError ''request CRC trace mismatch'')
    (check (sp_command response \<noteq> SpiCommand_value command \<or> sp_flags response \<noteq> RESPONSE
          \<or> sp_transaction_id response \<noteq> sd_target_transaction_id trace)
       (HostProtocolError ''response correlation mismatch'')
    (let response_crc = be_int (drop (length (sd_response_bytes trace) - 2) (sd_response_bytes trace)) in
     check (sd_response_crc_received trace \<noteq> response_crc \<or> sd_response_crc_calculated trace \<noteq> response_crc)
       (HostProtocolError ''response CRC mismatch'')
    (let payload = sp_payload response in
     check (command = SPI_GET_INFO \<and>
          (length payload \<noteq> 12 \<or> uint (payload ! 0) \<noteq> TargetId_value target
           \<or> uint (payload ! 1) \<noteq> PROTOCOL_VERSION \<or> be_int (slice 6 10 payload) \<noteq> expected_build target
           \<or> drop 10 payload \<noteq> [0, 0]))
       (HostProtocolError ''GET_INFO identity payload mismatch'')
    (check (sd_irq_before_request trace) (HostProtocolError ''had a pending mailbox'')
    (check (\<not> sd_irq_before_response trace) (HostProtocolError ''did not assert IRQ'')
    (check (sd_irq_after_response trace) (HostProtocolError ''did not release IRQ'')
    (Inr ()))))))))))))))))"

record sn32_qualification_result =
  sq_live_traces :: "spi_diagnostic_trace list"
  sq_dual_spi :: dual_spi_bringup_result
  sq_liveness_iterations :: int
  sq_final_uptime_ms :: int
  sq_final_status :: system_status

definition LIVE_TRACES :: "(target_id \<times> spi_command) list" where
  "LIVE_TRACES = [(TGT_PRIMER1, SPI_GET_INFO), (TGT_PRIMER1, SPI_GET_STATUS),
     (TGT_PRIMER2, SPI_GET_INFO), (TGT_PRIMER2, SPI_GET_STATUS)]"

definition live_trace_step :: "'w port \<Rightarrow> spi_diagnostic_trace list \<Rightarrow> target_id \<times> spi_command
    \<Rightarrow> ('w, spi_diagnostic_trace list) io" where
  "live_trace_step P traces = (\<lambda>(target, command).
     io_bind (spi_diagnostic P (TargetId_value target) (SpiCommand_value command)) (\<lambda>trace.
     io_bind (io_lift (rewrap is_HostProtocolError (HostProtocolError ''live SPI trace'')
       (validate_live_spi_trace trace target command))) (\<lambda>_.
     io_return (traces @ [trace]))))"

text \<open>One pass of the liveness loop over (previous uptime, final uptime, final status).\<close>

definition liveness_step :: "'w port \<Rightarrow> int \<times> int \<times> system_status \<Rightarrow> nat \<Rightarrow> ('w, int \<times> int \<times> system_status) io" where
  "liveness_step P = (\<lambda>(previous_uptime, _, _) _.
     io_bind (get_system_status P) (\<lambda>final_status.
     io_bind (ping P) (\<lambda>final_uptime.
     io_check (final_uptime < previous_uptime) (HostProtocolError ''SN32 reset during liveness loop'')
    (io_check (st_target_ready_mask final_status AND ALL_READY \<noteq> ALL_READY)
       (HostProtocolError ''endpoint readiness lost during liveness loop'')
    (io_check (st_system_state final_status \<notin> {SYS_READY_NO_KEYPAIR, SYS_READY_NO_SESSION})
       (HostProtocolError ''system state regressed during liveness loop'')
    (io_check (st_fault_flags final_status \<noteq> 0 \<or> st_last_error final_status \<noteq> EC_OK)
       (HostProtocolError ''active fault during liveness loop'')
    (io_check (st_active_host_txid final_status \<noteq> 0)
       (HostProtocolError ''host transaction remained active during liveness loop'')
    (io_return (final_uptime, final_uptime, final_status)))))))))"

definition run_sn32_hardware_qualification ::
    "'w port \<Rightarrow> int \<Rightarrow> int \<Rightarrow> int \<Rightarrow> ('w, sn32_qualification_result) io" where
  "run_sn32_hardware_qualification P timeout poll_interval liveness_iterations =
     io_check (liveness_iterations < 1) (ValueError ''liveness_iterations must be at least one'')
    (io_bind (get_system_info P) (\<lambda>info.
     let version = (si_architecture_major info, si_architecture_minor info, si_architecture_patch info) in
     io_check (version \<noteq> EXPECTED_SN32_VERSION \<or> si_sn32_build_id info \<noteq> EXPECTED_SN32_BUILD_ID)
       (HostProtocolError ''wrong SN32 image for qualification'')
    (io_check (si_primer1_build_id info \<noteq> EXPECTED_P1_BUILD_ID \<or> si_primer2_build_id info \<noteq> EXPECTED_P2_BUILD_ID)
       (HostProtocolError ''wrong Primer image for qualification'')
    (io_bind (get_system_status P) (\<lambda>initial_status.
     io_check (st_target_ready_mask initial_status AND ALL_READY \<noteq> ALL_READY)
       (HostProtocolError ''qualification started before both endpoints were ready'')
    (io_check (st_fault_flags initial_status \<noteq> 0 \<or> st_last_error initial_status \<noteq> EC_OK
          \<or> st_active_host_txid initial_status \<noteq> 0)
       (HostProtocolError ''qualification did not start from a clean controller snapshot'')
    (io_check (st_system_state initial_status
          \<notin> {SYS_SELF_TEST_REQUIRED, SYS_READY_NO_KEYPAIR, SYS_READY_NO_SESSION})
       (HostProtocolError ''unexpected initial qualification state'')
    (io_bind (io_for LIVE_TRACES (live_trace_step P) []) (\<lambda>traces.
     io_bind (run_dual_spi_bringup P timeout poll_interval) (\<lambda>dual.
     io_bind (io_for [0..<nat liveness_iterations] (liveness_step P)
        (ds_uptime_ms dual, ds_uptime_ms dual, ds_status_after dual))
       (\<lambda>(_, final_uptime, final_status).
     io_return \<lparr>sq_live_traces = traces, sq_dual_spi = dual,
       sq_liveness_iterations = liveness_iterations, sq_final_uptime_ms = final_uptime,
       sq_final_status = final_status\<rparr>)))))))))))"

section \<open>What every command keeps\<close>

text \<open>The contract of a request channel: a request of a command in \<open>C\<close> (which has the queries and the
  self test) keeps the invariant \<open>I\<close> of the client's state on return and on an exception, and when total correctness is asked for (\<open>t = False\<close>) it ends and a
  returning one lets time pass. Reading the clock and sleeping keep the invariant as well.\<close>

definition keeps :: "bool \<Rightarrow> ('w client \<Rightarrow> bool) \<Rightarrow> ('w, 'a) io \<Rightarrow> bool" where
  "keeps t I m \<longleftrightarrow> (\<forall>s. I s \<longrightarrow> wp t m (\<lambda>_. I) (\<lambda>_. I) s)"

named_theorems keeps_intros "computations that keep an invariant"

lemma keepsD: "keeps t I m \<Longrightarrow> I s \<Longrightarrow> wp t m (\<lambda>_. I) (\<lambda>_. I) s"
  by (simp add: keeps_def)

lemma keeps_total:
  assumes "keeps False I m" and "I s"
  shows "\<exists>r s'. m s = Some (r, s') \<and> I s'"
  using keepsD [OF assms] by (auto simp: wp_def split: option.splits sum.splits)

lemma keeps_pure [keeps_intros]:
  "keeps t I (io_return a)" "keeps t I (io_raise e)" "keeps t I (io_lift r)"
  by (simp_all add: keeps_def wp_simps split: sum.split)

lemma keeps_bind [keeps_intros]:
  assumes "keeps t I m" and "\<And>a. keeps t I (k a)"
  shows "keeps t I (io_bind m k)"
  unfolding keeps_def wp_bind
proof (intro allI impI)
  fix s
  assume "I s"
  show "wp t m (\<lambda>a. wp t (k a) (\<lambda>_. I) (\<lambda>_. I)) (\<lambda>_. I) s"
    by (rule wp_mono [OF keepsD [OF assms(1) \<open>I s\<close>]]) (use assms(2) in \<open>auto simp: keeps_def\<close>)
qed

lemma keeps_then [keeps_intros]: "keeps t I m \<Longrightarrow> keeps t I k \<Longrightarrow> keeps t I (io_then m k)"
  unfolding io_then_def by (rule keeps_bind)

lemma keeps_check [keeps_intros]: "keeps t I k \<Longrightarrow> keeps t I (io_check b e k)"
  by (simp add: io_check_def keeps_pure)

lemma keeps_if [keeps_intros]: "keeps t I m \<Longrightarrow> keeps t I k \<Longrightarrow> keeps t I (if b then m else k)"
  by simp

lemma keeps_Let [keeps_intros]: "keeps t I (k x) \<Longrightarrow> keeps t I (let y = x in k y)"
  by simp

lemma keeps_split [keeps_intros]: "(\<And>x y. keeps t I (k x y)) \<Longrightarrow> keeps t I (case z of (x, y) \<Rightarrow> k x y)"
  by (cases z) simp

lemma keeps_try [keeps_intros]:
  assumes "keeps t I m" and "\<And>e. keeps t I (h e)"
  shows "keeps t I (io_try m h)"
  unfolding keeps_def wp_try
proof (intro allI impI)
  fix s
  assume "I s"
  show "wp t m (\<lambda>_. I) (\<lambda>e. wp t (h e) (\<lambda>_. I) (\<lambda>_. I)) s"
    by (rule wp_mono [OF keepsD [OF assms(1) \<open>I s\<close>]]) (use assms(2) in \<open>auto simp: keeps_def\<close>)
qed

lemma keeps_finally [keeps_intros]:
  assumes "keeps t I m" and "keeps t I fin"
  shows "keeps t I (io_finally m fin)"
  unfolding keeps_def wp_finally
proof (intro allI impI)
  fix s
  assume "I s"
  show "wp t m (\<lambda>a. wp t fin (\<lambda>_. I) (\<lambda>_. I)) (\<lambda>e. wp t fin (\<lambda>_. I) (\<lambda>_. I)) s"
    by (rule wp_mono [OF keepsD [OF assms(1) \<open>I s\<close>]]) (use assms(2) in \<open>auto simp: keeps_def\<close>)
qed

lemma keeps_for [keeps_intros]:
  "(\<And>acc x. keeps t I (body acc x)) \<Longrightarrow> keeps t I (io_for xs body acc)"
  unfolding keeps_def by (intro allI impI wp_for_partial [where I = "\<lambda>_. I"]) auto

locale channel =
  fixes t :: bool and P :: "'w port" and clk :: "'w \<Rightarrow> int" and backlog :: "'w \<Rightarrow> nat"
    and I :: "'w client \<Rightarrow> bool" and C :: "host_command \<Rightarrow> bool"
  assumes live: "t \<or> timely P clk backlog"
    and queries: "c \<in> {HC_PING, HC_GET_SYSTEM_INFO, HC_GET_SYSTEM_STATUS, HC_GET_LAST_ERROR,
        HC_GET_TXN_RESULT, HC_RETIRE_TXN_RESULT, HC_SPI_DIAGNOSTIC, HC_RUN_SELF_TEST, HC_READ_LAST_RESULT}
      \<Longrightarrow> C c"
    and request_keeps: "I s \<Longrightarrow> C c \<Longrightarrow> wp t (request P (HostCommand_value c) payload timeout)
      (\<lambda>_ s'. I s' \<and> (timely P clk backlog \<longrightarrow> clock_order clk backlog (world s) (world s'))) (\<lambda>_. I) s"
    and clock_keeps: "I s \<Longrightarrow> I (s\<lparr>world := snd (p_clock P (world s))\<rparr>)"
    and sleep_keeps: "I s \<Longrightarrow> I (s\<lparr>world := p_sleep P d (world s)\<rparr>)"
begin

lemma query_commands:
  "C HC_PING" "C HC_GET_SYSTEM_INFO" "C HC_GET_SYSTEM_STATUS" "C HC_GET_LAST_ERROR"
  "C HC_GET_TXN_RESULT" "C HC_RETIRE_TXN_RESULT" "C HC_SPI_DIAGNOSTIC" "C HC_RUN_SELF_TEST"
  "C HC_READ_LAST_RESULT"
  by (simp_all add: queries)

lemma keeps_request: "C c \<Longrightarrow> keeps t I (request P (HostCommand_value c) payload timeout)"
  unfolding keeps_def by (intro allI impI, rule wp_mono [OF request_keeps]) auto

lemma keeps_monotonic: "keeps t I (monotonic P)"
  by (simp add: keeps_def wp_simps clock_keeps)

lemma keeps_time_sleep: "keeps t I (time_sleep P d)"
  by (simp add: keeps_def wp_simps sleep_keeps)

lemmas keeps_rules = keeps_intros keeps_request keeps_monotonic keeps_time_sleep query_commands

lemma keeps_ping: "keeps t I (ping P)"
  unfolding ping_def by (intro keeps_rules)

lemma keeps_get_system_info: "keeps t I (get_system_info P)"
  unfolding get_system_info_def by (intro keeps_rules)

lemma keeps_get_system_status: "keeps t I (get_system_status P)"
  unfolding get_system_status_def by (intro keeps_rules)

lemma keeps_get_last_error: "keeps t I (get_last_error P)"
  unfolding get_last_error_def by (intro keeps_rules)

lemma keeps_spi_diagnostic: "keeps t I (spi_diagnostic P target command)"
  unfolding spi_diagnostic_def by (intro keeps_rules)

lemma keeps_start_self_test: "keeps t I (start_self_test P target_mask profile test_mask)"
  unfolding start_self_test_def by (intro keeps_rules)

lemma keeps_get_transaction_result: "keeps t I (get_transaction_result P txid)"
  unfolding get_transaction_result_def by (intro keeps_rules)

lemma keeps_retire_transaction_result: "keeps t I (retire_transaction_result P txid)"
  unfolding retire_transaction_result_def by (intro keeps_rules)

text \<open>A poll that continues has made a request before the deadline.\<close>

lemma poll_request:
  assumes "I s"
  shows "wp t (get_transaction_result P txid)
    (\<lambda>_ s'. I s' \<and> (timely P clk backlog \<longrightarrow> clock_order clk backlog (world s) (world s'))) (\<lambda>_. I) s"
proof (cases "struct_pack [2] [txid]")
  case (Inl e)
  then show ?thesis using assms by (simp add: get_transaction_result_def wp_simps)
next
  case (Inr payload)
  then show ?thesis
    unfolding get_transaction_result_def wp_bind
    by (simp add: wp_lift del: HostCommand_value.simps)
      (rule wp_mono [OF request_keeps [OF assms query_commands(5)]], auto simp: wp_lift split: sum.split)
qed

lemma keeps_poll: "keeps t I (io_loop (poll_step P txid deadline interval) r0)"
  unfolding keeps_def
proof (intro allI impI)
  fix s
  assume "I s"
  show "wp t (io_loop (poll_step P txid deadline interval) r0) (\<lambda>_. I) (\<lambda>_. I) s"
  proof (rule wp_loop [where I = "\<lambda>_. I" and r = "deadline_rel clk backlog deadline"])
    show "wf (deadline_rel clk backlog deadline)" by (rule wf_deadline_rel)
    fix x :: "transaction_result option" and s
    assume s: "I s"
    define w1 where "w1 = snd (p_clock P (world s))"
    have s1: "I (s\<lparr>world := w1\<rparr>)" using clock_keeps [OF s] by (simp add: w1_def)
    have dec: "((x', s''), (x, s)) \<in> deadline_rel clk backlog deadline"
      if "\<not> t" "timely P clk backlog \<longrightarrow> clock_order clk backlog w1 (world s')"
        "fst (p_clock P (world s)) < deadline" "world s'' = p_sleep P interval (world s')"
      for x' :: "transaction_result option" and s' s''
    proof -
      have T: "timely P clk backlog" using live that(1) by simp
      note step = timelyD [OF T]
      have "clock_order clk backlog (world s) (world s'')"
        using step(3) [of "world s"] step(6) [of "world s'" interval] that T
        by (auto simp: w1_def intro: clock_order_trans(2) clock_order_trans(3))
      moreover have "clk (world s) < deadline"
        using step(2,3) [of "world s"] that(3) by (auto simp: clock_order_eq_def)
      ultimately show ?thesis by (rule deadline_relI [OF _ disjI1])
    qed
    show "wp t (poll_step P txid deadline interval x)
        (\<lambda>z s'. case z of Inl x' \<Rightarrow> I s' \<and> (t \<or> ((x', s'), x, s) \<in> deadline_rel clk backlog deadline)
           | Inr b \<Rightarrow> I s') (\<lambda>_. I) s"
    proof (cases "fst (p_clock P (world s)) < deadline")
      case True
      then show ?thesis
        unfolding poll_step_def wp_bind wp_monotonic w1_def [symmetric]
        by (simp add: wp_bind)
          (rule wp_mono [OF poll_request [OF s1]], auto simp: wp_simps sleep_keeps intro!: dec)
    next
      case False
      then show ?thesis using s1 by (simp add: poll_step_def wp_simps w1_def)
    qed
  qed (fact \<open>I s\<close>)
qed

lemma keeps_wait_for_transaction: "keeps t I (wait_for_transaction P txid command timeout interval)"
  unfolding wait_for_transaction_def by (intro keeps_rules keeps_poll)

lemmas keeps_commands = keeps_rules keeps_ping keeps_get_system_info keeps_get_system_status
  keeps_get_last_error keeps_spi_diagnostic keeps_start_self_test keeps_get_transaction_result
  keeps_retire_transaction_result keeps_wait_for_transaction

lemma keeps_run_p1_bringup: "keeps t I (run_p1_bringup P timeout interval)"
  unfolding run_p1_bringup_def start_p1_self_test_def by (intro keeps_commands)

lemma keeps_run_dual_spi_bringup: "keeps t I (run_dual_spi_bringup P timeout interval)"
  unfolding run_dual_spi_bringup_def dual_self_test_def by (intro keeps_commands)

lemma keeps_live_trace_step: "keeps t I (live_trace_step P traces x)"
  by (cases x, simp only: live_trace_step_def prod.case) (intro keeps_commands)

lemma keeps_liveness_step: "keeps t I (liveness_step P acc x)"
  by (cases acc, simp only: liveness_step_def prod.case) (intro keeps_commands)

lemma keeps_run_sn32_hardware_qualification:
  "keeps t I (run_sn32_hardware_qualification P timeout interval n)"
  unfolding run_sn32_hardware_qualification_def
  by (intro keeps_commands keeps_run_dual_spi_bringup keeps_live_trace_step keeps_liveness_step)

end

text \<open>The contract holds of the client's own request: for well-formed clients on every port; for the
  traffic log, which only grows; for the frames sent, which are well-formed requests; and with
  termination on every timely port.\<close>

interpretation wf_client: channel True P "\<lambda>_. 0" "\<lambda>_. 0" client_ok "\<lambda>_. True" for P :: "'w port"
proof
  fix s :: "'w client" and c payload timeout
  assume "client_ok s"
  then show "wp True (request P (HostCommand_value c) payload timeout)
      (\<lambda>_ s'. client_ok s' \<and> (timely P (\<lambda>_. 0) (\<lambda>_. 0) \<longrightarrow> clock_order (\<lambda>_. 0) (\<lambda>_. 0) (world s) (world s')))
      (\<lambda>_. client_ok) s"
    by (rule wp_mono [OF wp_request [where clk = "\<lambda>_. 0" and b = "\<lambda>_. 0"]]) auto
qed simp_all

lemma channel_total: "timely P clk b \<Longrightarrow> channel False P clk b client_ok (\<lambda>_. True)"
proof
  fix s :: "'a client" and c payload timeout
  assume P: "timely P clk b" and s: "client_ok s"
  show "wp False (request P (HostCommand_value c) payload timeout)
      (\<lambda>_ s'. client_ok s' \<and> (timely P clk b \<longrightarrow> clock_order clk b (world s) (world s'))) (\<lambda>_. client_ok) s"
    by (rule wp_mono [OF wp_request [OF s disjI2 [OF P]]]) auto
qed simp_all

interpretation scripted_line: channel False scripted pt_clock "\<lambda>w. length (pt_incoming w)" client_ok "\<lambda>_. True"
  by (rule channel_total) (rule timely_scripted)

definition log_from :: "bytes list \<Rightarrow> ('w \<times> io_event list) client \<Rightarrow> bool" where
  "log_from l s \<longleftrightarrow> client_ok s \<and> prefix l (sent (io_log s))"

interpretation log_grows: channel True "logged P" "\<lambda>_. 0" "\<lambda>_. 0" "log_from l" "\<lambda>_. True"
  for P :: "'w port" and l
proof
  fix s :: "('w \<times> io_event list) client" and c payload timeout
  assume "log_from l s"
  then have ok: "client_ok s" and "prefix l (sent (io_log s))" by (simp_all add: log_from_def)
  then show "wp True (request (logged P) (HostCommand_value c) payload timeout)
      (\<lambda>_ s'. log_from l s' \<and>
        (timely (logged P) (\<lambda>_. 0) (\<lambda>_. 0) \<longrightarrow> clock_order (\<lambda>_. 0) (\<lambda>_. 0) (world s) (world s'))) (\<lambda>_. log_from l) s"
    by (intro wp_mono [OF wp_conj [OF wp_request [where clk = "\<lambda>_. 0" and b = "\<lambda>_. 0", OF ok disjI1 [OF TrueI]]
            wp_request_log [OF ok]]])
      (auto simp: log_from_def prefix_prefix)
qed (simp_all add: log_from_def)

text \<open>A frame the client sends: no flag, a transaction ID that is never 0.\<close>

definition request_frame :: "bytes \<Rightarrow> bool" where
  "request_frame w \<longleftrightarrow> (\<exists>f. host_decode_wire w = Inr f \<and> hf_flags f = 0 \<and> 1 \<le> hf_transaction_id f)"

definition sends_requests :: "('w \<times> io_event list) client \<Rightarrow> bool" where
  "sends_requests s \<longleftrightarrow> client_ok s \<and> list_all request_frame (sent (io_log s))"

lemma request_wire_frames: "1 \<le> txid \<Longrightarrow> list_all request_frame (request_wire command txid payload)"
  using host_decode_encode_wire
  by (fastforce simp: request_wire_def request_frame_def HostFrame_def split: sum.splits)

interpretation well_sent: channel True "logged P" "\<lambda>_. 0" "\<lambda>_. 0" sends_requests "\<lambda>_. True" for P :: "'w port"
proof
  fix s :: "('w \<times> io_event list) client" and c payload timeout
  assume s: "sends_requests s"
  then have ok: "client_ok s" by (simp add: sends_requests_def)
  then have "list_all request_frame (request_wire (HostCommand_value c) (next_transaction_id s) payload)"
    by (intro request_wire_frames) (simp add: client_ok_def)
  with s show "wp True (request (logged P) (HostCommand_value c) payload timeout)
      (\<lambda>_ s'. sends_requests s' \<and>
        (timely (logged P) (\<lambda>_. 0) (\<lambda>_. 0) \<longrightarrow> clock_order (\<lambda>_. 0) (\<lambda>_. 0) (world s) (world s'))) (\<lambda>_. sends_requests) s"
    by (intro wp_mono [OF wp_conj [OF wp_request [where clk = "\<lambda>_. 0" and b = "\<lambda>_. 0", OF ok disjI1 [OF TrueI]]
            wp_request_log [OF ok]]])
      (auto simp: sends_requests_def)
qed (simp_all add: sends_requests_def)

section \<open>What a returned value says\<close>

definition yields :: "('a \<Rightarrow> bool) \<Rightarrow> ('w, 'a) io \<Rightarrow> bool" where
  "yields R m \<longleftrightarrow> (\<forall>s. wp True m (\<lambda>a _. R a) (\<lambda>_ _. True) s)"

lemma yields_weaken: "yields R m \<Longrightarrow> (\<And>a. R a \<Longrightarrow> S a) \<Longrightarrow> yields S m"
  unfolding yields_def by (blast intro: wp_mono)

lemma yields_any: "yields (\<lambda>_. True) m"
  by (simp add: yields_def wp_def split: option.split sum.split)

lemma yields_bind: "yields S m \<Longrightarrow> (\<And>a. S a \<Longrightarrow> yields R (k a)) \<Longrightarrow> yields R (io_bind m k)"
  unfolding yields_def wp_bind by (blast intro: wp_mono)

lemma yields_bind_any: "(\<And>a. yields R (k a)) \<Longrightarrow> yields R (io_bind m k)"
  using yields_any by (rule yields_bind)

lemma yields_then: "yields R k \<Longrightarrow> yields R (io_then m k)"
  unfolding io_then_def by (rule yields_bind_any)

lemma yields_return: "R a \<Longrightarrow> yields R (io_return a)"
  by (simp add: yields_def wp_simps)

lemma yields_lift: "(\<And>a. r = Inr a \<Longrightarrow> R a) \<Longrightarrow> yields R (io_lift r)"
  by (simp add: yields_def wp_simps split: sum.split)

lemma yields_check: "(\<not> bad \<Longrightarrow> yields R k) \<Longrightarrow> yields R (io_check bad e k)"
  by (simp add: yields_def wp_simps)

lemma yields_loop: "(\<And>x. yields (\<lambda>z. case z of Inl _ \<Rightarrow> True | Inr b \<Rightarrow> R b) (body x)) \<Longrightarrow> yields R (io_loop body x)"
  unfolding yields_def
  by (intro allI wp_loop_partial [where I = "\<lambda>_ _. True"]) (auto elim!: wp_mono split: sum.splits)

lemma yields_raise: "yields R (io_raise e)"
  by (simp add: yields_def wp_simps)

lemma yields_try: "yields R m \<Longrightarrow> (\<And>e. yields R (h e)) \<Longrightarrow> yields R (io_try m h)"
  unfolding yields_def wp_try by (blast intro: wp_mono)

lemma yields_if: "yields R m \<Longrightarrow> yields R k \<Longrightarrow> yields R (if c then m else k)"
  by simp

lemma yields_for:
  assumes "\<And>done x acc. R done acc \<Longrightarrow> yields (R (done @ [x])) (body acc x)" and "R [] acc"
  shows "yields (R xs) (io_for xs body acc)"
proof -
  have "yields (R (done @ xs)) (io_for xs body acc)" if "R done acc" for "done"
    using that
  proof (induction xs arbitrary: "done" acc)
    case Nil
    then show ?case by (simp add: yields_return)
  next
    case (Cons x xs)
    show ?case
      unfolding io_for.simps
    proof (rule yields_bind [OF assms(1) [OF Cons.prems]])
      fix a
      assume "R (done @ [x]) a"
      from Cons.IH [OF this] show "yields (R (done @ x # xs)) (io_for xs body a)" by simp
    qed
  qed
  from this [of "[]"] assms(2) show ?thesis by simp
qed

lemma yields_post: "yields R m \<Longrightarrow> m s = Some (Inr a, s') \<Longrightarrow> R a"
  using wp_post(1) [of True m "\<lambda>a _. R a" "\<lambda>_ _. True" s a s'] by (simp add: yields_def)

lemma check_retained_iff:
  "check_retained txid command result = Inr r \<longleftrightarrow>
     result = Some r \<and> tr_state r = TXN_SUCCEEDED \<and> tr_result_code r = EC_OK \<and>
     tr_queried_txid r = txid \<and> tr_original_command r = command"
proof (cases result)
  case (Some r')
  show ?thesis
    unfolding Some check_retained_def option.case check_eq_Inr terminal_def by auto
qed (simp add: check_retained_def)

lemma wait_for_transaction_yields:
  "yields (\<lambda>r. tr_state r = TXN_SUCCEEDED \<and> tr_result_code r = EC_OK \<and> tr_queried_txid r = txid \<and>
     tr_original_command r = command) (wait_for_transaction P txid command timeout interval)"
  unfolding wait_for_transaction_def
  by (intro yields_bind_any yields_lift) (simp add: check_retained_iff)

text \<open>A self-test result: the retained RUN_SELF_TEST transaction succeeded.\<close>

definition self_test_passed :: "transaction_result \<Rightarrow> bool" where
  "self_test_passed r \<longleftrightarrow> tr_state r = TXN_SUCCEEDED \<and> tr_result_code r = EC_OK \<and>
     tr_original_command r = HostCommand_value HC_RUN_SELF_TEST"

lemma dual_self_test_yields: "yields self_test_passed (dual_self_test P endpoint test_mask timeout interval)"
  unfolding dual_self_test_def
  by (intro yields_bind_any yields_bind [OF wait_for_transaction_yields] yields_then yields_return)
    (simp add: self_test_passed_def)

definition ready_no_fault :: "int \<Rightarrow> system_status \<Rightarrow> bool" where
  "ready_no_fault required st \<longleftrightarrow> st_target_ready_mask st AND required = required \<and> st_fault_flags st = 0"

definition dual_spi_passed :: "dual_spi_bringup_result \<Rightarrow> bool" where
  "dual_spi_passed r \<longleftrightarrow>
     si_primer1_build_id (ds_info r) = EXPECTED_P1_BUILD_ID \<and>
     si_primer2_build_id (ds_info r) = EXPECTED_P2_BUILD_ID \<and>
     ready_no_fault ALL_READY (ds_status_before r) \<and>
     self_test_passed (ds_primer1_transaction r) \<and> self_test_passed (ds_primer2_transaction r) \<and>
     ready_no_fault ALL_READY (ds_status_after r) \<and>
     st_system_state (ds_status_after r) \<in> {SYS_READY_NO_KEYPAIR, SYS_READY_NO_SESSION}"

lemma run_dual_spi_bringup_yields: "yields dual_spi_passed (run_dual_spi_bringup P timeout interval)"
  unfolding run_dual_spi_bringup_def
  by (rule yields_bind_any yields_bind [OF dual_self_test_yields] yields_check yields_return)+
    (simp add: dual_spi_passed_def ready_no_fault_def)

definition p1_bringup_passed :: "bringup_result \<Rightarrow> bool" where
  "p1_bringup_passed r \<longleftrightarrow>
     st_target_ready_mask (br_status_before r) AND P1_READY = P1_READY \<and>
     self_test_passed (br_transaction r) \<and> ready_no_fault P1_READY (br_status_after r) \<and>
     st_system_state (br_status_after r) \<in> {SYS_READY_NO_KEYPAIR, SYS_READY_NO_SESSION}"

lemma run_p1_bringup_yields: "yields p1_bringup_passed (run_p1_bringup P timeout interval)"
  unfolding run_p1_bringup_def
  by (rule yields_bind [OF wait_for_transaction_yields] yields_bind_any yields_then yields_check yields_return)+
    (simp add: p1_bringup_passed_def ready_no_fault_def self_test_passed_def)

section \<open>The live traces\<close>

text \<open>What an accepted trace is: the request bytes are the encoding of the empty request, the response
  bytes that of a response with the same transaction ID and a payload of the fixed length, a GET_INFO
  payload names the endpoint, the protocol version and the expected build; the CRC and fingerprint
  fields repeat the packets' own, and the interrupt line was low, raised, and released.\<close>

definition info_payload :: "target_id \<Rightarrow> bytes \<Rightarrow> bool" where
  "info_payload target payload \<longleftrightarrow>
     uint (payload ! 0) = TargetId_value target \<and> uint (payload ! 1) = PROTOCOL_VERSION \<and>
     be_int (slice 6 10 payload) = expected_build target \<and> drop 10 payload = [0, 0]"

definition live_trace :: "spi_diagnostic_trace \<Rightarrow> target_id \<Rightarrow> spi_command \<Rightarrow> bool" where
  "live_trace trace target command \<longleftrightarrow>
     sd_result_code trace = EC_OK \<and> sd_source trace = TargetId_value target \<and>
     (\<exists>payload.
        spi_encode \<lparr>sp_command = SpiCommand_value command, sp_flags = 0,
          sp_transaction_id = sd_target_transaction_id trace, sp_payload = [],
          sp_version = PROTOCOL_VERSION\<rparr> = Inr (sd_request_bytes trace) \<and>
        spi_encode \<lparr>sp_command = SpiCommand_value command, sp_flags = RESPONSE,
          sp_transaction_id = sd_target_transaction_id trace, sp_payload = payload,
          sp_version = PROTOCOL_VERSION\<rparr> = Inr (sd_response_bytes trace) \<and>
        length payload = (if command = SPI_GET_INFO then 12 else 16) \<and>
        (command = SPI_GET_INFO \<longrightarrow> info_payload target payload)) \<and>
     sd_response_frame_length trace = expected_frame_length command \<and>
     request_fingerprint_crc32c (SpiCommand_value command) 0 [] = Inr (sd_request_fingerprint trace) \<and>
     sd_request_crc trace = be_int (drop 8 (sd_request_bytes trace)) \<and>
     sd_response_crc_received trace =
       be_int (drop (length (sd_response_bytes trace) - 2) (sd_response_bytes trace)) \<and>
     sd_response_crc_calculated trace = sd_response_crc_received trace \<and>
     \<not> sd_irq_before_request trace \<and> sd_irq_before_response trace \<and> \<not> sd_irq_after_response trace"

lemma rewrap_eq_Inr [simp]: "rewrap cls new r = Inr a \<longleftrightarrow> r = Inr a"
  by (auto simp: rewrap_def split: sum.split)

lemma fingerprint_empty: "\<exists>fp. request_fingerprint_crc32c (SpiCommand_value command) 0 [] = Inr fp"
  by (simp add: request_fingerprint_crc32c_def result_bind_def to_le_def)

lemma spi_length: "spi_encode p = Inr bs \<Longrightarrow> length bs = length (sp_payload p) + 10"
  by (auto simp: spi_encode_iff)

lemma validate_live_spi_trace_iff:
  assumes wf: "SpiDiagnosticTrace_wf trace"
  shows "validate_live_spi_trace trace target command = Inr () \<longleftrightarrow> live_trace trace target command"
proof
  assume v: "validate_live_spi_trace trace target command = Inr ()"
  then obtain request response where
    req: "spi_decode (sd_request_bytes trace) = Inr request" and
    resp: "spi_decode (sd_response_bytes trace) = Inr response"
    by (auto simp: validate_live_spi_trace_def result_bind_eq_Inr)
  have len: "length (sd_request_bytes trace) = 10"
    "int (length (sd_response_bytes trace)) = expected_frame_length command"
    using v wf by (auto simp: validate_live_spi_trace_def SpiDiagnosticTrace_wf_def)
  have enc: "spi_encode request = Inr (sd_request_bytes trace)"
    "spi_encode response = Inr (sd_response_bytes trace)" "spi_wf request" "spi_wf response"
    using req resp by (simp_all add: spi.dec_iff)
  have fields: "request = \<lparr>sp_command = SpiCommand_value command, sp_flags = 0,
      sp_transaction_id = sd_target_transaction_id trace, sp_payload = [], sp_version = PROTOCOL_VERSION\<rparr>"
    "response = \<lparr>sp_command = SpiCommand_value command, sp_flags = RESPONSE,
      sp_transaction_id = sd_target_transaction_id trace, sp_payload = sp_payload response,
      sp_version = PROTOCOL_VERSION\<rparr>"
    using v enc(3,4)
    by (auto simp: validate_live_spi_trace_def result_bind_eq_Inr req resp Let_def spi_wf_def)
  have plen: "length (sp_payload response) = (if command = SPI_GET_INFO then 12 else 16)"
    using spi_length [OF enc(2)] len(2) by (auto simp: expected_frame_length_def)
  show "live_trace trace target command"
    unfolding live_trace_def
    using v enc(1,2) fields plen len
    by (auto simp: validate_live_spi_trace_def result_bind_eq_Inr req resp Let_def info_payload_def
        intro!: exI [of _ "sp_payload response"])
next
  assume l: "live_trace trace target command"
  then obtain payload where
    enc: "spi_encode \<lparr>sp_command = SpiCommand_value command, sp_flags = 0,
          sp_transaction_id = sd_target_transaction_id trace, sp_payload = [],
          sp_version = PROTOCOL_VERSION\<rparr> = Inr (sd_request_bytes trace)"
      "spi_encode \<lparr>sp_command = SpiCommand_value command, sp_flags = RESPONSE,
          sp_transaction_id = sd_target_transaction_id trace, sp_payload = payload,
          sp_version = PROTOCOL_VERSION\<rparr> = Inr (sd_response_bytes trace)" and
    plen: "length payload = (if command = SPI_GET_INFO then 12 else 16)" and
    info: "command = SPI_GET_INFO \<longrightarrow> info_payload target payload"
    unfolding live_trace_def by blast
  have range: "0 \<le> SpiCommand_value command" "SpiCommand_value command < 256"
    using SpiCommand_value_range [of command] by simp_all
  have dec: "spi_decode (sd_request_bytes trace) = Inr \<lparr>sp_command = SpiCommand_value command, sp_flags = 0,
          sp_transaction_id = sd_target_transaction_id trace, sp_payload = [],
          sp_version = PROTOCOL_VERSION\<rparr>"
    "spi_decode (sd_response_bytes trace) = Inr \<lparr>sp_command = SpiCommand_value command, sp_flags = RESPONSE,
          sp_transaction_id = sd_target_transaction_id trace, sp_payload = payload,
          sp_version = PROTOCOL_VERSION\<rparr>"
    using enc range by (auto simp: spi.dec_iff spi_encode_iff spi_wf_def)
  show "validate_live_spi_trace trace target command = Inr ()"
    using l wf dec plen info spi_length [OF enc(1)] spi_length [OF enc(2)]
    by (simp add: validate_live_spi_trace_def live_trace_def result_bind_eq_Inr SpiDiagnosticTrace_wf_def
        info_payload_def Let_def expected_frame_length_def)
qed

text \<open>A qualification result: four accepted traces in order, a passed dual-SPI bring-up, and after the
  liveness loop a clean status and an uptime that never went back.\<close>

definition qualification_ok :: "int \<Rightarrow> sn32_qualification_result \<Rightarrow> bool" where
  "qualification_ok n q \<longleftrightarrow> 1 \<le> n \<and> sq_liveness_iterations q = n \<and>
     list_all2 (\<lambda>trace (target, command). SpiDiagnosticTrace_wf trace \<and> live_trace trace target command \<and>
       sd_target_id trace = TargetId_value target \<and> sd_command trace = SpiCommand_value command)
       (sq_live_traces q) LIVE_TRACES \<and>
     dual_spi_passed (sq_dual_spi q) \<and> ds_uptime_ms (sq_dual_spi q) \<le> sq_final_uptime_ms q \<and>
     ready_no_fault ALL_READY (sq_final_status q) \<and> st_last_error (sq_final_status q) = EC_OK \<and>
     st_active_host_txid (sq_final_status q) = 0 \<and>
     st_system_state (sq_final_status q) \<in> {SYS_READY_NO_KEYPAIR, SYS_READY_NO_SESSION}"

lemma spi_diagnostic_yields:
  "yields (\<lambda>trace. SpiDiagnosticTrace_wf trace \<and> sd_target_id trace = target \<and> sd_command trace = command)
     (spi_diagnostic P target command)"
  unfolding spi_diagnostic_def
  by (intro yields_check, rule yields_bind_any, rule yields_bind [where S = SpiDiagnosticTrace_wf])
    (auto intro!: yields_lift yields_check yields_return dest: trace.dec_wf)

lemma live_traces_yield:
  "yields (\<lambda>traces. list_all2 (\<lambda>trace (target, command). SpiDiagnosticTrace_wf trace \<and>
       live_trace trace target command \<and>
       sd_target_id trace = TargetId_value target \<and> sd_command trace = SpiCommand_value command)
       traces xs) (io_for xs (live_trace_step P) [])"
proof (rule yields_for)
  let ?ok = "\<lambda>trace (target, command). SpiDiagnosticTrace_wf trace \<and> live_trace trace target command \<and>
       sd_target_id trace = TargetId_value target \<and> sd_command trace = SpiCommand_value command"
  fix "done" and x :: "target_id \<times> spi_command" and acc
  assume acc: "list_all2 ?ok acc done"
  obtain target command where x: "x = (target, command)" by (cases x)
  show "yields (\<lambda>traces. list_all2 ?ok traces (done @ [x])) (live_trace_step P acc x)"
    unfolding live_trace_step_def x prod.case
  proof (rule yields_bind [OF spi_diagnostic_yields], rule yields_bind)
    fix trace
    assume "SpiDiagnosticTrace_wf trace \<and> sd_target_id trace = TargetId_value target \<and>
      sd_command trace = SpiCommand_value command"
    then have trace: "?ok trace (target, command)" if "live_trace trace target command"
      using that by simp
    show "yields (\<lambda>_. live_trace trace target command)
      (io_lift (rewrap is_HostProtocolError (HostProtocolError ''live SPI trace'')
         (validate_live_spi_trace trace target command)))"
      using validate_live_spi_trace_iff [of trace target command]
        \<open>SpiDiagnosticTrace_wf trace \<and> _\<close> by (intro yields_lift) simp
    show "yields (\<lambda>traces. list_all2 ?ok traces (done @ [(target, command)])) (io_return (acc @ [trace]))"
      if "live_trace trace target command"
      using trace [OF that] acc by (intro yields_return list_all2_appendI) simp_all
  qed
qed simp

definition clean_status :: "system_status \<Rightarrow> bool" where
  "clean_status st \<longleftrightarrow> ready_no_fault ALL_READY st \<and> st_last_error st = EC_OK \<and>
     st_active_host_txid st = 0 \<and> st_system_state st \<in> {SYS_READY_NO_KEYPAIR, SYS_READY_NO_SESSION}"

lemma liveness_loop_yields:
  "yields (\<lambda>(previous, final, st). u0 \<le> previous \<and> previous = final \<and> (xs \<noteq> [] \<longrightarrow> clean_status st))
     (io_for xs (liveness_step P) (u0, u0, st0))"
proof (rule yields_for)
  fix "done" :: "nat list" and x and acc :: "int \<times> int \<times> system_status"
  assume "case acc of (previous, final, st) \<Rightarrow> u0 \<le> previous \<and> previous = final \<and> (done \<noteq> [] \<longrightarrow> clean_status st)"
  then obtain previous st where acc: "acc = (previous, previous, st)" and u: "u0 \<le> previous"
    by (cases acc) auto
  show "yields (\<lambda>(previous, final, st). u0 \<le> previous \<and> previous = final \<and>
      (done @ [x] \<noteq> [] \<longrightarrow> clean_status st)) (liveness_step P acc x)"
    unfolding liveness_step_def acc prod.case
    by (rule yields_bind_any yields_check yields_return)+
      (use u in \<open>auto simp: clean_status_def ready_no_fault_def\<close>)
qed simp

lemma run_sn32_hardware_qualification_yields:
  "yields (qualification_ok n) (run_sn32_hardware_qualification P timeout interval n)"
proof -
  have final: "yields (qualification_ok n)
      (case r of (_, final_uptime, final_status) \<Rightarrow>
         io_return \<lparr>sq_live_traces = traces, sq_dual_spi = dual, sq_liveness_iterations = n,
           sq_final_uptime_ms = final_uptime, sq_final_status = final_status\<rparr>)"
    if "\<not> n < 1" and "list_all2 (\<lambda>trace (target, command). SpiDiagnosticTrace_wf trace \<and>
         live_trace trace target command \<and>
         sd_target_id trace = TargetId_value target \<and> sd_command trace = SpiCommand_value command)
         traces LIVE_TRACES" and "dual_spi_passed dual"
      and "case r of (previous, final, st) \<Rightarrow> ds_uptime_ms dual \<le> previous \<and> previous = final \<and>
         ([0..<nat n] \<noteq> [] \<longrightarrow> clean_status st)" for r traces dual
    using that by (cases r) (auto simp: qualification_ok_def clean_status_def intro!: yields_return)
  show ?thesis
    unfolding run_sn32_hardware_qualification_def Let_def
    by (rule yields_check yields_bind [OF live_traces_yield] yields_bind [OF run_dual_spi_bringup_yields]
        yields_bind [OF liveness_loop_yields] final yields_bind_any | assumption)+
qed

end
