(* ===== verification/Full_Flow.thy ===== *)
theory Full_Flow
  imports Client_Commands
begin

text \<open>
  \<open>full_flow.py\<close>: the managed commands of the secure-telemetry flow. A managed command leaves its
  result retained on the controller; \<open>retained_request\<close> checks the retained result against the
  immediate one and retires it. On top of it: key generation, session creation, telemetry, closing,
  zeroization, and the secure-telemetry qualification.
\<close>

section \<open>Constants and results\<close>

definition KEYPAIR_MODE_RANDOM :: byte where "KEYPAIR_MODE_RANDOM = 0"
definition KEYPAIR_MODE_DETERMINISTIC :: byte where "KEYPAIR_MODE_DETERMINISTIC = 1"
definition SESSION_MODE_DETERMINISTIC :: byte where "SESSION_MODE_DETERMINISTIC = 0"
definition SESSION_MODE_KAT :: byte where "SESSION_MODE_KAT = 1"

definition byte_range :: "nat \<Rightarrow> nat \<Rightarrow> bytes" where
  "byte_range a b = map (\<lambda>i. word_of_nat i) [a..<b]"

definition DEFAULT_KEYPAIR_SEED :: bytes where "DEFAULT_KEYPAIR_SEED = byte_range 0x00 0x20"
definition DEFAULT_SESSION_SEED :: bytes where "DEFAULT_SESSION_SEED = byte_range 0x20 0x40"
definition DEFAULT_TELEMETRY_HEADER :: bytes where
  "DEFAULT_TELEMETRY_HEADER = [0x02, 0x00, 0xBE, 0xEF, 0x53, 0x4E, 0x00, 0x00]"
definition DEFAULT_PLAINTEXTS :: "bytes list" where
  "DEFAULT_PLAINTEXTS = [byte_range 0x00 0x18, byte_range 0x80 0x98]"

definition REQUIRED_CAPABILITIES :: int where
  "REQUIRED_CAPABILITIES = SystemCapability_value CAP_KAT OR SystemCapability_value CAP_MLKEM512
     OR SystemCapability_value CAP_ASCON_AEAD128 OR SystemCapability_value CAP_PAYLOAD_UART
     OR SystemCapability_value CAP_TRANSACTION_RECONCILIATION"

record keypair_result =
  kp_host_txid :: int
  kp_public_key_hash :: bytes

record session_result =
  se_host_txid :: int
  se_session_id :: int
  se_initial_sequence :: int

record telemetry_result =
  te_host_txid :: int
  te_session_id :: int
  te_sequence :: int
  te_plaintext :: bytes
  te_status :: error_code

record secure_telemetry_result =
  sr_control_plane :: sn32_qualification_result
  sr_info :: system_info
  sr_status_before :: system_status
  sr_keypair :: keypair_result
  sr_session :: session_result
  sr_status_active :: system_status
  sr_telemetry :: "telemetry_result list"
  sr_last_result :: telemetry_result
  sr_status_final :: system_status

section \<open>Arguments\<close>

text \<open>Python's \<open>bytes.fromhex\<close>: pairs of hexadecimal digits, white space between pairs skipped.\<close>

definition hex_value :: "char \<Rightarrow> int option" where
  "hex_value c =
     (let n = of_char c :: int in
      if 48 \<le> n \<and> n \<le> 57 then Some (n - 48)
      else if 65 \<le> n \<and> n \<le> 70 then Some (n - 55)
      else if 97 \<le> n \<and> n \<le> 102 then Some (n - 87)
      else None)"

definition is_space :: "char \<Rightarrow> bool" where
  "is_space c = (let n = of_char c :: int in n = 32 \<or> 9 \<le> n \<and> n \<le> 13)"

fun bytes_fromhex :: "string \<Rightarrow> bytes result" where
  "bytes_fromhex [] = Inr []"
| "bytes_fromhex (c # cs) =
     (if is_space c then bytes_fromhex cs
      else (case cs of
          [] \<Rightarrow> Inl (ValueError ''non-hexadecimal number'')
        | d # ds \<Rightarrow>
            (case (hex_value c, hex_value d) of
               (Some a, Some b) \<Rightarrow> result_bind (bytes_fromhex ds) (\<lambda>r. Inr (word_of_int (16 * a + b) # r))
             | _ \<Rightarrow> Inl (ValueError ''non-hexadecimal number''))))"

definition parse_seed_hex :: "string \<Rightarrow> bytes result" where
  "parse_seed_hex text =
     result_bind (rewrap is_ValueError (ValueError ''seed must be hexadecimal'') (bytes_fromhex text)) (\<lambda>seed.
     check (length seed \<noteq> 32) (ValueError ''seed must be exactly 32 bytes'') (Inr seed))"

definition parse_plaintext_hex :: "string \<Rightarrow> bytes result" where
  "parse_plaintext_hex text =
     result_bind (rewrap is_ValueError (ValueError ''plaintext must be hexadecimal'') (bytes_fromhex text))
       (\<lambda>plaintext.
     check (length plaintext \<noteq> 24) (ValueError ''plaintext must be exactly 24 bytes'') (Inr plaintext))"

definition require_seed :: "bytes \<Rightarrow> bytes result" where
  "require_seed seed = check (length seed \<noteq> 32) (ValueError ''seed must be exactly 32 bytes'') (Inr seed)"

section \<open>Managed commands\<close>

definition retire_active_host_transaction :: "'w port \<Rightarrow> ('w, int) io" where
  "retire_active_host_transaction P =
     io_bind (get_system_status P) (\<lambda>status.
     if st_active_host_txid status = 0 then io_return 0
     else
       io_then (retire_transaction_result P (st_active_host_txid status))
         (io_return (st_active_host_txid status)))"

definition retained_request :: "'w port \<Rightarrow> host_command \<Rightarrow> bytes \<Rightarrow> int \<Rightarrow> ('w, int \<times> bytes) io" where
  "retained_request P command payload timeout =
     io_bind
       (io_try (request P (HostCommand_value command) payload timeout)
          (\<lambda>e. if is_RemoteError e then
                 io_then (io_try (retire_active_host_transaction P) (\<lambda>_. io_return 0)) (io_raise e)
               else io_raise e))
       (\<lambda>response.
        let host_txid = hf_transaction_id response in
        io_bind (get_transaction_result P host_txid) (\<lambda>retained.
        io_finally
         (io_check (tr_queried_txid retained \<noteq> host_txid)
            (HostProtocolError ''retained transaction ID mismatch'')
         (io_check (tr_state retained \<noteq> TXN_SUCCEEDED)
            (HostProtocolError ''managed command did not retain SUCCEEDED'')
         (io_check (tr_original_command retained \<noteq> HostCommand_value command)
            (HostProtocolError ''retained command mismatch'')
         (io_check (tr_result_code retained \<noteq> EC_OK) (HostProtocolError ''retained result'')
         (io_check (tr_data retained \<noteq> hf_payload response)
            (HostProtocolError ''immediate and retained managed-command results differ'')
         (io_return (host_txid, hf_payload response)))))))
         (retire_transaction_result P host_txid)))"

definition generate_keypair :: "'w port \<Rightarrow> bool \<Rightarrow> bytes \<Rightarrow> int \<Rightarrow> ('w, keypair_result) io" where
  "generate_keypair P deterministic seed timeout =
     io_bind
       (io_lift (if deterministic
          then result_bind (require_seed seed) (\<lambda>sd. Inr ([KEYPAIR_MODE_DETERMINISTIC] @ sd))
          else Inr ([KEYPAIR_MODE_RANDOM] @ replicate 32 0)))
       (\<lambda>payload.
     io_bind (retained_request P HC_GENERATE_KEYPAIR payload timeout) (\<lambda>(host_txid, data).
     io_check (length data \<noteq> 32) (HostProtocolError ''GENERATE_KEYPAIR result must be 32 bytes'')
    (io_return \<lparr>kp_host_txid = host_txid, kp_public_key_hash = data\<rparr>)))"

definition create_session :: "'w port \<Rightarrow> bool \<Rightarrow> bytes \<Rightarrow> int \<Rightarrow> ('w, session_result) io" where
  "create_session P kat seed timeout =
     io_bind
       (io_lift (if kat
          then result_bind (require_seed seed) (\<lambda>sd. Inr ([SESSION_MODE_KAT] @ sd))
          else Inr ([SESSION_MODE_DETERMINISTIC] @ replicate 32 0)))
       (\<lambda>payload.
     io_bind (retained_request P HC_CREATE_SESSION payload timeout) (\<lambda>(host_txid, data).
     io_check (length data \<noteq> 12) (HostProtocolError ''CREATE_SESSION result must be 12 bytes'')
    (io_bind (io_lift (struct_unpack AUTH_STRUCT data)) (\<lambda>v.
     io_check (v ! 0 = 0) (HostProtocolError ''CREATE_SESSION returned session_id=0'')
    (io_return \<lparr>se_host_txid = host_txid, se_session_id = v ! 0, se_initial_sequence = v ! 1\<rparr>)))))"

definition decode_telemetry_result :: "int \<Rightarrow> bytes \<Rightarrow> telemetry_result result" where
  "decode_telemetry_result host_txid payload =
     check (length payload \<noteq> 38) (HostProtocolError ''telemetry result must be 38 bytes'')
    (result_bind (struct_unpack_from AUTH_STRUCT payload 0) (\<lambda>v.
     let plaintext = slice 12 36 payload in
     result_bind (struct_unpack_from [2] payload 36) (\<lambda>c.
     result_bind (of_option (HostProtocolError ''unknown telemetry status'') (ErrorCode_of (c ! 0))) (\<lambda>status.
     Inr \<lparr>te_host_txid = host_txid, te_session_id = v ! 0, te_sequence = v ! 1,
          te_plaintext = plaintext, te_status = status\<rparr>))))"

definition send_telemetry :: "'w port \<Rightarrow> bytes \<Rightarrow> bytes \<Rightarrow> int \<Rightarrow> ('w, telemetry_result) io" where
  "send_telemetry P plaintext header timeout =
     io_check (length header \<noteq> 8) (ValueError ''telemetry header must be 8 bytes'')
    (io_check (header ! 1 \<noteq> 0 \<or> header ! 6 \<noteq> 0 \<or> header ! 7 \<noteq> 0)
       (ValueError ''telemetry reserved header bytes must be zero'')
    (io_check (length plaintext \<noteq> 24) (ValueError ''plaintext must be exactly 24 bytes'')
    (io_bind (retained_request P HC_SEND_ONE_TELEMETRY (header @ plaintext) timeout) (\<lambda>(host_txid, payload).
     io_bind (io_lift (decode_telemetry_result host_txid payload)) (\<lambda>r.
     io_check (te_status r \<noteq> EC_OK) (HostProtocolError ''telemetry returned status'')
    (io_check (te_plaintext r \<noteq> plaintext)
       (HostProtocolError ''authenticated plaintext differs byte-for-byte'')
    (io_return r)))))))"

definition read_last_result :: "'w port \<Rightarrow> int \<Rightarrow> ('w, telemetry_result) io" where
  "read_last_result P timeout =
     io_bind (request P (HostCommand_value HC_READ_LAST_RESULT) [] timeout) (\<lambda>response.
     io_lift (decode_telemetry_result (hf_transaction_id response) (hf_payload response)))"

definition close_session :: "'w port \<Rightarrow> int \<Rightarrow> ('w, int) io" where
  "close_session P timeout =
     io_bind (retained_request P HC_CLOSE_SESSION [] timeout) (\<lambda>(host_txid, payload).
     io_check (payload \<noteq> []) (HostProtocolError ''CLOSE_SESSION result must be empty'')
    (io_return host_txid))"

definition zeroize :: "'w port \<Rightarrow> zeroize_scope \<Rightarrow> int \<Rightarrow> ('w, int) io" where
  "zeroize P scope timeout =
     io_bind (retained_request P HC_ZEROIZE_SYSTEM [word_of_int (ZeroizeScope_value scope AND 0xFF)] timeout)
       (\<lambda>(host_txid, payload).
     io_check (payload \<noteq> []) (HostProtocolError ''ZEROIZE_SYSTEM result must be empty'')
    (io_return host_txid))"

definition emergency_zeroize :: "'w port \<Rightarrow> int \<Rightarrow> ('w, int) io" where
  "emergency_zeroize P timeout =
     io_then (io_try (retire_active_host_transaction P) (\<lambda>_. io_return 0))
       (zeroize P ZERO_ALL timeout)"

definition read_session_commit_diagnostic ::
    "'w port \<Rightarrow> ('w, last_error_snapshot \<times> session_commit_diagnostic option) io" where
  "read_session_commit_diagnostic P =
     io_bind (get_last_error P) (\<lambda>snapshot. io_return (snapshot, from_last_error snapshot))"

section \<open>The secure-telemetry qualification\<close>

definition validate_full_preflight :: "system_info \<Rightarrow> system_status \<Rightarrow> unit result" where
  "validate_full_preflight info status =
     (let missing = REQUIRED_CAPABILITIES AND NOT (si_capabilities info) in
     check (missing \<noteq> 0) (HostProtocolError ''SN32 is missing secure-telemetry capabilities'')
    (check (st_target_ready_mask status AND ALL_READY \<noteq> ALL_READY)
       (HostProtocolError ''P1/P2 are not ready for secure telemetry'')
    (check (st_fault_flags status \<noteq> 0 \<or> st_last_error status \<noteq> EC_OK)
       (HostProtocolError ''preflight is not clean'')
    (check (st_active_host_txid status \<noteq> 0) (HostProtocolError ''host transaction is still retained'')
    (check (st_system_state status \<noteq> SYS_READY_NO_KEYPAIR)
       (HostProtocolError ''secure telemetry qualification requires READY_NO_KEYPAIR'')
    (Inr ()))))))"

text \<open>One plaintext: the expected sequence number advances first.\<close>

definition telemetry_step :: "'w port \<Rightarrow> session_result \<Rightarrow> int \<Rightarrow> int \<times> telemetry_result list \<Rightarrow> bytes
    \<Rightarrow> ('w, int \<times> telemetry_result list) io" where
  "telemetry_step P session timeout = (\<lambda>(previous_sequence, results) plaintext.
     let expected_sequence = previous_sequence + 1 in
     io_bind (send_telemetry P plaintext DEFAULT_TELEMETRY_HEADER timeout) (\<lambda>r.
     io_check (te_session_id r \<noteq> se_session_id session) (HostProtocolError ''telemetry session ID mismatch'')
    (io_check (te_sequence r \<noteq> expected_sequence) (HostProtocolError ''telemetry sequence'')
    (io_return (expected_sequence, results @ [r])))))"

definition same_result :: "telemetry_result \<Rightarrow> telemetry_result \<Rightarrow> bool" where
  "same_result a b \<longleftrightarrow> te_session_id a = te_session_id b \<and> te_sequence a = te_sequence b \<and>
     te_plaintext a = te_plaintext b \<and> te_status a = te_status b"

definition run_secure_telemetry_qualification ::
    "'w port \<Rightarrow> bytes \<Rightarrow> bytes \<Rightarrow> bytes list \<Rightarrow> int \<Rightarrow> int \<Rightarrow> ('w, secure_telemetry_result) io" where
  "run_secure_telemetry_qualification P keypair_seed session_seed plaintexts timeout poll_interval =
     io_check (length plaintexts < 2) (ValueError ''qualification requires at least two plaintexts'')
    (io_bind (run_sn32_hardware_qualification P timeout poll_interval 2) (\<lambda>control_plane.
     let info = ds_info (sq_dual_spi control_plane) in
     io_bind (get_system_status P) (\<lambda>status_before.
     io_then (io_lift (validate_full_preflight info status_before))
    (io_bind (generate_keypair P True keypair_seed timeout) (\<lambda>keypair.
     io_bind (get_system_status P) (\<lambda>after_keypair.
     io_check (st_system_state after_keypair \<noteq> SYS_READY_NO_SESSION)
       (HostProtocolError ''keypair generation did not enter READY_NO_SESSION'')
    (io_bind (create_session P True session_seed timeout) (\<lambda>session.
     io_bind (get_system_status P) (\<lambda>status_active.
     io_check (st_system_state status_active \<noteq> SYS_ACTIVE)
       (HostProtocolError ''session activation did not enter ACTIVE'')
    (io_check (st_session_id status_active \<noteq> se_session_id session)
       (HostProtocolError ''active status session ID differs from CREATE_SESSION'')
    (io_check (st_current_sequence status_active \<noteq> se_initial_sequence session)
       (HostProtocolError ''active status sequence differs from CREATE_SESSION'')
    (io_bind
       (io_finally
          (io_bind (io_for plaintexts (telemetry_step P session timeout) (se_initial_sequence session, []))
             (\<lambda>(_, results).
           io_bind (read_last_result P 2000000) (\<lambda>last_result.
           io_check (\<not> same_result last_result (last results))
             (HostProtocolError ''READ_LAST_RESULT differs from the final telemetry result'')
          (io_return (results, last_result)))))
          (io_then (emergency_zeroize P timeout) (io_return ())))
       (\<lambda>(results, last_result).
     io_bind (get_system_status P) (\<lambda>status_final.
     io_check (st_system_state status_final \<noteq> SYS_READY_NO_KEYPAIR)
       (HostProtocolError ''full zeroize did not restore READY_NO_KEYPAIR'')
    (io_check (st_session_id status_final \<noteq> 0 \<or> st_current_sequence status_final \<noteq> 0)
       (HostProtocolError ''full zeroize retained session metadata'')
    (io_check (st_fault_flags status_final \<noteq> 0 \<or> st_last_error status_final \<noteq> EC_OK)
       (HostProtocolError ''full zeroize did not leave a clean final status'')
    (io_return \<lparr>sr_control_plane = control_plane, sr_info = info, sr_status_before = status_before,
       sr_keypair = keypair, sr_session = session, sr_status_active = status_active,
       sr_telemetry = results, sr_last_result = last_result, sr_status_final = status_final\<rparr>)))))))))))))))))"

section \<open>What the flow keeps\<close>

lemma wp_bind_keeps:
  assumes "wp t m (\<lambda>_. I) (\<lambda>_. I) s" and "\<And>a. keeps t I (k a)"
  shows "wp t (io_bind m k) (\<lambda>_. I) (\<lambda>_. I) s"
  unfolding wp_bind by (rule wp_mono [OF assms(1)]) (auto intro: keepsD assms(2))

lemma wp_try_keeps:
  assumes "wp t m (\<lambda>_. I) (\<lambda>_. I) s" and "\<And>e. keeps t I (h e)"
  shows "wp t (io_try m h) (\<lambda>_. I) (\<lambda>_. I) s"
  unfolding wp_try by (rule wp_mono [OF assms(1)]) (auto intro: keepsD assms(2))

text \<open>\<open>try: m except Exception: pass\<close>.\<close>

lemma wp_try_pass:
  assumes "keeps t I m" and "I s"
  shows "wp t (io_try m (\<lambda>_. io_return x)) (\<lambda>_. I) (\<lambda>_ _. False) s"
  unfolding wp_try wp_return by (rule wp_mono [OF keepsD [OF assms]]) auto

text \<open>Every computation of the flow keeps what one request keeps, and ends when the port is timely.\<close>

context channel begin

lemma keeps_retire_active: "keeps t I (retire_active_host_transaction P)"
  unfolding retire_active_host_transaction_def by (intro keeps_commands)

lemma keeps_retained_request: "C command \<Longrightarrow> keeps t I (retained_request P command payload timeout)"
  unfolding retained_request_def by (intro keeps_commands keeps_retire_active)

lemma retained_request_after:
  assumes "wp t (request P (HostCommand_value command) payload timeout) (\<lambda>_. I) (\<lambda>_. I) s"
  shows "wp t (retained_request P command payload timeout) (\<lambda>_. I) (\<lambda>_. I) s"
proof -
  have handler: "keeps t I (if is_RemoteError e
      then io_then (io_try (retire_active_host_transaction P) (\<lambda>_. io_return 0)) (io_raise e)
      else io_raise e :: ('w, 'b) io)" for e
    by (intro keeps_commands keeps_retire_active)
  show ?thesis
    unfolding retained_request_def Let_def
    by (rule wp_bind_keeps [OF wp_try_keeps [OF assms handler]])
      (intro keeps_commands query_commands)
qed

lemma keeps_generate_keypair: "C HC_GENERATE_KEYPAIR \<Longrightarrow> keeps t I (generate_keypair P deterministic seed timeout)"
  unfolding generate_keypair_def by (intro keeps_commands keeps_retained_request)

lemma keeps_create_session: "C HC_CREATE_SESSION \<Longrightarrow> keeps t I (create_session P kat seed timeout)"
  unfolding create_session_def by (intro keeps_commands keeps_retained_request)

lemma keeps_send_telemetry: "C HC_SEND_ONE_TELEMETRY \<Longrightarrow> keeps t I (send_telemetry P plaintext header timeout)"
  unfolding send_telemetry_def by (intro keeps_commands keeps_retained_request)

lemma keeps_read_last_result: "keeps t I (read_last_result P timeout)"
  unfolding read_last_result_def by (intro keeps_commands)

lemma keeps_close_session: "C HC_CLOSE_SESSION \<Longrightarrow> keeps t I (close_session P timeout)"
  unfolding close_session_def by (intro keeps_commands keeps_retained_request)

lemma keeps_emergency_zeroize: "C HC_ZEROIZE_SYSTEM \<Longrightarrow> keeps t I (emergency_zeroize P timeout)"
  unfolding emergency_zeroize_def zeroize_def
  by (intro keeps_commands keeps_retire_active keeps_retained_request)

lemma keeps_read_session_commit_diagnostic: "keeps t I (read_session_commit_diagnostic P)"
  unfolding read_session_commit_diagnostic_def by (intro keeps_commands)

lemmas keeps_flow = keeps_commands keeps_retained_request keeps_generate_keypair keeps_create_session
  keeps_send_telemetry keeps_read_last_result keeps_emergency_zeroize
  keeps_read_session_commit_diagnostic keeps_run_sn32_hardware_qualification

lemma keeps_telemetry_step:
  "C HC_SEND_ONE_TELEMETRY \<Longrightarrow> keeps t I (telemetry_step P session timeout acc x)"
  by (cases acc, simp only: telemetry_step_def prod.case) (intro keeps_flow)

lemma keeps_run_secure_telemetry_qualification:
  "(\<And>c. C c) \<Longrightarrow>
     keeps t I (run_secure_telemetry_qualification P kseed sseed plaintexts timeout interval)"
  unfolding run_secure_telemetry_qualification_def
  by (intro keeps_flow keeps_telemetry_step)

end

section \<open>Sessions are zeroized\<close>

text \<open>Over the sequence of frames sent, a session is pending after a CREATE_SESSION frame until a
  ZEROIZE_SYSTEM frame of scope ALL.\<close>

definition creates_session :: "bytes \<Rightarrow> bool" where
  "creates_session w = (case host_decode_wire w of Inl _ \<Rightarrow> False
     | Inr f \<Rightarrow> hf_command f = HostCommand_value HC_CREATE_SESSION)"

definition zeroizes_all :: "bytes \<Rightarrow> bool" where
  "zeroizes_all w = (case host_decode_wire w of Inl _ \<Rightarrow> False
     | Inr f \<Rightarrow> hf_command f = HostCommand_value HC_ZEROIZE_SYSTEM \<and> hf_payload f = [0xFF])"

definition session_pending :: "bytes list \<Rightarrow> bool" where
  "session_pending ws =
     foldl (\<lambda>p w. if creates_session w then True else if zeroizes_all w then False else p) False ws"

definition settled :: "bytes list \<Rightarrow> ('w \<times> io_event list) client \<Rightarrow> bool" where
  "settled l s \<longleftrightarrow> client_ok s \<and> (\<exists>news. sent (io_log s) = l @ news \<and> \<not> session_pending news)"

lemma settled_start: "client_ok s \<Longrightarrow> settled (sent (io_log s)) s"
  by (simp add: settled_def session_pending_def)

lemma settled_log_from: "settled l s \<Longrightarrow> log_from l s"
  by (auto simp: settled_def log_from_def)

lemma request_wire_decode:
  "request_wire (HostCommand_value c) txid payload = [] \<or>
     (\<exists>w. request_wire (HostCommand_value c) txid payload = [w] \<and>
        host_decode_wire w = Inr (HostFrame (HostCommand_value c) 0 txid payload))"
proof (cases "host_encode_wire (HostFrame (HostCommand_value c) 0 txid payload)")
  case (Inl e)
  then show ?thesis by (simp add: request_wire_def)
next
  case (Inr w)
  have "HostCommand_value c mod 256 = HostCommand_value c"
    using HostCommand_value_range [of c] by simp
  then show ?thesis
    using Inr host_decode_encode_wire [OF Inr] by (simp add: request_wire_def HostFrame_def)
qed

lemma command_value_inj: "HostCommand_value c = HostCommand_value d \<longleftrightarrow> c = d"
  by (metis HostCommand_of_value option.inject)

lemma session_pending_snoc:
  "\<not> session_pending ws \<Longrightarrow> c \<noteq> HC_CREATE_SESSION \<Longrightarrow>
     \<not> session_pending (ws @ request_wire (HostCommand_value c) txid payload)"
  using request_wire_decode [of c txid payload] command_value_inj [of c HC_CREATE_SESSION]
  by (auto simp: session_pending_def creates_session_def HostFrame_def simp del: HostCommand_value.simps)

lemma wp_request_sent:
  fixes s :: "('w \<times> io_event list) client"
  assumes "client_ok s"
  shows "wp True (request (logged P) command payload timeout)
    (\<lambda>_ s'. client_ok s' \<and> sent (io_log s') = sent (io_log s) @ request_wire command (next_transaction_id s) payload)
    (\<lambda>_ s'. client_ok s' \<and> sent (io_log s') = sent (io_log s) @ request_wire command (next_transaction_id s) payload) s"
  by (rule wp_mono [OF wp_conj [OF wp_request [where clk = "\<lambda>_. 0" and b = "\<lambda>_. 0", OF assms disjI1 [OF TrueI]]
          wp_request_log [OF assms]]]) auto

interpretation settles: channel True "logged P" "\<lambda>_. 0" "\<lambda>_. 0" "settled l" "\<lambda>c. c \<noteq> HC_CREATE_SESSION"
  for P :: "'w port" and l
proof
  fix s :: "('w \<times> io_event list) client" and c payload timeout
  assume s: "settled l s" and c: "c \<noteq> HC_CREATE_SESSION"
  then obtain news where ok: "client_ok s" and news: "sent (io_log s) = l @ news" "\<not> session_pending news"
    by (auto simp: settled_def)
  show "wp True (request (logged P) (HostCommand_value c) payload timeout)
      (\<lambda>_ s'. settled l s' \<and>
        (timely (logged P) (\<lambda>_. 0) (\<lambda>_. 0) \<longrightarrow> clock_order (\<lambda>_. 0) (\<lambda>_. 0) (world s) (world s')))
      (\<lambda>_. settled l) s"
    by (rule wp_mono [OF wp_conj [OF wp_request [where clk = "\<lambda>_. 0" and b = "\<lambda>_. 0", OF ok disjI1 [OF TrueI]]
            wp_request_sent [OF ok]]])
      (use news session_pending_snoc [OF news(2) c] in \<open>auto simp: settled_def\<close>)
qed (auto simp: settled_def)

text \<open>The zeroize request settles whatever came before, as soon as it is written.\<close>

lemma zeroize_wire:
  assumes "1 \<le> txid" and "txid \<le> 0xFFFF"
  shows "\<exists>w. request_wire (HostCommand_value HC_ZEROIZE_SYSTEM) txid [0xFF] = [w] \<and>
    zeroizes_all w \<and> \<not> creates_session w"
proof -
  have "host_wf (HostFrame (HostCommand_value HC_ZEROIZE_SYSTEM) 0 txid [0xFF])"
    using assms by (simp add: host_wf_def HostFrame_def protocol_sizes)
  then obtain raw where "host_encode_raw (HostFrame (HostCommand_value HC_ZEROIZE_SYSTEM) 0 txid [0xFF]) = Inr raw"
    using host.enc_total by blast
  then obtain w where "host_encode_wire (HostFrame (HostCommand_value HC_ZEROIZE_SYSTEM) 0 txid [0xFF]) = Inr w"
    by (auto simp: host_encode_wire_iff)
  then have "request_wire (HostCommand_value HC_ZEROIZE_SYSTEM) txid [0xFF] = [w]"
    by (simp add: request_wire_def)
  then show ?thesis
    using request_wire_decode [of HC_ZEROIZE_SYSTEM txid "[0xFF]"]
    by (auto simp: zeroizes_all_def creates_session_def HostFrame_def)
qed

lemma zeroize_request_settles:
  assumes "log_from l s"
  shows "wp True (request (logged P) (HostCommand_value HC_ZEROIZE_SYSTEM) [0xFF] timeout)
    (\<lambda>_. settled l) (\<lambda>_. settled l) s"
proof -
  from assms obtain news where ok: "client_ok s" and news: "sent (io_log s) = l @ news"
    by (auto simp: log_from_def prefix_def)
  obtain w where "request_wire (HostCommand_value HC_ZEROIZE_SYSTEM) (next_transaction_id s) [0xFF] = [w]"
    "zeroizes_all w" "\<not> creates_session w"
    using zeroize_wire [of "next_transaction_id s"] ok by (auto simp: client_ok_def)
  then show ?thesis
    by (intro wp_mono [OF wp_request_sent [OF ok]]) (auto simp: settled_def news session_pending_def)
qed

lemma emergency_zeroize_settles:
  assumes "log_from l s"
  shows "wp True (emergency_zeroize (logged P) timeout) (\<lambda>_. settled l) (\<lambda>_. settled l) s"
proof -
  have rest: "keeps True (settled l) (case r of (host_txid, payload) \<Rightarrow>
      io_check (payload \<noteq> []) (HostProtocolError ''ZEROIZE_SYSTEM result must be empty'') (io_return host_txid))"
    for r :: "int \<times> bytes"
    by (cases r) (simp, intro keeps_intros)
  have "wp True (zeroize (logged P) ZERO_ALL timeout) (\<lambda>_. settled l) (\<lambda>_. settled l) s'"
    if "log_from l s'" for s'
    unfolding zeroize_def
    by (rule wp_bind_keeps [OF _ rest], rule settles.retained_request_after)
      (simp add: zeroize_request_settles [OF that] del: HostCommand_value.simps)
  then show ?thesis
    unfolding emergency_zeroize_def wp_then
    by (intro wp_mono [OF wp_try_pass [OF log_grows.keeps_retire_active assms]]) auto
qed

text \<open>Stepping through a sequence of computations that keep \<open>I\<close>, up to a last one with a goal of its
  own.\<close>

lemma step_bind:
  assumes "I s" and "keeps t I m" and "\<And>a s. I s \<Longrightarrow> wp t (k a) Q (\<lambda>_. I) s"
  shows "wp t (io_bind m k) Q (\<lambda>_. I) s"
  unfolding wp_bind by (rule wp_mono [OF keepsD [OF assms(2,1)]]) (auto intro: assms(3))

lemma step_then:
  assumes "I s" and "keeps t I m" and "\<And>s. I s \<Longrightarrow> wp t k Q (\<lambda>_. I) s"
  shows "wp t (io_then m k) Q (\<lambda>_. I) s"
  unfolding io_then_def by (rule step_bind [OF assms(1,2)]) (rule assms(3))

lemma step_check:
  "I s \<Longrightarrow> wp t k Q (\<lambda>_. I) s \<Longrightarrow> wp t (io_check bad e k) Q (\<lambda>_. I) s"
  by (simp add: wp_simps)

text \<open>The secure-telemetry qualification zeroizes when it returns, and on every failure of its telemetry
  phase.\<close>

lemma telemetry_phase_settles:
  fixes s :: "('w \<times> io_event list) client" and P :: "'w port"
  assumes "keeps True (log_from l) m" and "log_from l s"
  shows "wp True (io_finally m (io_then (emergency_zeroize (logged P) timeout) (io_return ())))
    (\<lambda>_. settled l) (\<lambda>_. settled l) s"
  unfolding wp_finally wp_then wp_return
  by (rule wp_mono [OF keepsD [OF assms]]) (auto intro: emergency_zeroize_settles)

lemma secure_telemetry_settles:
  fixes s :: "('w \<times> io_event list) client" and P :: "'w port"
  assumes "log_from l s"
  shows "wp True (run_secure_telemetry_qualification (logged P) kseed sseed plaintexts timeout interval)
    (\<lambda>_. settled l) (\<lambda>_. log_from l) s"
proof -
  have final: "wp True (io_bind (io_finally m (io_then (emergency_zeroize (logged P) timeout) (io_return ()))) k)
      (\<lambda>_. settled l) (\<lambda>_. log_from l) s'"
    if "keeps True (log_from l) m" "log_from l s'" "\<And>a. keeps True (settled l) (k a)"
    for m :: "('w \<times> io_event list, 'a) io" and k :: "'a \<Rightarrow> ('w \<times> io_event list, 'b) io" and s'
    by (rule wp_mono [OF wp_bind_keeps [OF telemetry_phase_settles [OF that(1,2)] that(3)]])
      (auto dest: settled_log_from)
  show ?thesis
    unfolding run_secure_telemetry_qualification_def Let_def
    apply (rule step_check, rule assms)
    apply (rule step_bind, rule assms, intro log_grows.keeps_flow)
    apply (rule step_bind, assumption, intro log_grows.keeps_flow)
    apply (rule step_then, assumption, intro keeps_intros)
    apply (rule step_bind, assumption, intro log_grows.keeps_flow TrueI)
    apply (rule step_bind, assumption, intro log_grows.keeps_flow)
    apply (rule step_check, assumption)
    apply (rule step_bind, assumption, intro log_grows.keeps_flow TrueI)
    apply (rule step_bind, assumption, intro log_grows.keeps_flow)
    apply (rule step_check, assumption)+
    apply (rule final)
      apply (intro log_grows.keeps_flow log_grows.keeps_telemetry_step TrueI)
     apply assumption
    apply (intro settles.keeps_flow)
    done
qed

section \<open>What the flow returns\<close>

lemma yields_case_prod: "(\<And>a b. z = (a, b) \<Longrightarrow> yields R (k a b)) \<Longrightarrow> yields R (case z of (a, b) \<Rightarrow> k a b)"
  by (cases z) simp

lemma create_session_yields: "yields (\<lambda>r. se_session_id r \<noteq> 0) (create_session P kat seed timeout)"
  unfolding create_session_def
  by (rule yields_bind_any yields_case_prod yields_check yields_return)+ simp

lemma generate_keypair_yields:
  "yields (\<lambda>r. length (kp_public_key_hash r) = 32) (generate_keypair P deterministic seed timeout)"
  unfolding generate_keypair_def
  by (rule yields_bind_any yields_case_prod yields_check yields_return)+ simp

lemma send_telemetry_yields:
  "yields (\<lambda>r. te_plaintext r = plaintext \<and> te_status r = EC_OK \<and> length plaintext = 24)
     (send_telemetry P plaintext header timeout)"
  unfolding send_telemetry_def
  by (rule yields_bind_any yields_case_prod yields_check yields_return)+ simp

text \<open>The results of a telemetry run: one per plaintext, of the same session, with consecutive
  sequence numbers after the initial one, each returning its plaintext.\<close>

definition telemetry_run :: "session_result \<Rightarrow> bytes list \<Rightarrow> telemetry_result list \<Rightarrow> bool" where
  "telemetry_run session plaintexts results \<longleftrightarrow>
     map (\<lambda>r. (te_session_id r, te_sequence r, te_plaintext r, te_status r)) results =
     map (\<lambda>(i, p). (se_session_id session, se_initial_sequence session + 1 + int i, p, EC_OK))
       (enumerate 0 plaintexts)"

lemma telemetry_loop_yields:
  "yields (\<lambda>(n, results). n = se_initial_sequence session + int (length plaintexts) \<and>
      telemetry_run session plaintexts results)
     (io_for plaintexts (telemetry_step P session timeout) (se_initial_sequence session, []))"
proof (rule yields_for)
  fix "done" :: "bytes list" and x :: bytes and acc :: "int \<times> telemetry_result list"
  assume "case acc of (n, results) \<Rightarrow> n = se_initial_sequence session + int (length done) \<and>
      telemetry_run session done results"
  then obtain results where acc: "acc = (se_initial_sequence session + int (length done), results)"
    and run: "telemetry_run session done results"
    by (cases acc) auto
  show "yields (\<lambda>(n, results). n = se_initial_sequence session + int (length (done @ [x])) \<and>
      telemetry_run session (done @ [x]) results) (telemetry_step P session timeout acc x)"
    unfolding telemetry_step_def acc prod.case Let_def
    by (rule yields_bind [OF send_telemetry_yields] yields_check yields_return)+
      (use run in \<open>auto simp: telemetry_run_def enumerate_append_eq\<close>)
qed (simp add: telemetry_run_def)

text \<open>The checks before the flow begins.\<close>

definition preflight_ok :: "system_info \<Rightarrow> system_status \<Rightarrow> bool" where
  "preflight_ok info st \<longleftrightarrow> REQUIRED_CAPABILITIES AND NOT (si_capabilities info) = 0 \<and>
     ready_no_fault ALL_READY st \<and> st_last_error st = EC_OK \<and> st_active_host_txid st = 0 \<and>
     st_system_state st = SYS_READY_NO_KEYPAIR"

lemma validate_full_preflight_iff: "validate_full_preflight info st = Inr () \<longleftrightarrow> preflight_ok info st"
  by (auto simp: validate_full_preflight_def preflight_ok_def ready_no_fault_def Let_def)

definition secure_telemetry_ok :: "bytes list \<Rightarrow> secure_telemetry_result \<Rightarrow> bool" where
  "secure_telemetry_ok plaintexts r \<longleftrightarrow>
     2 \<le> length plaintexts \<and> qualification_ok 2 (sr_control_plane r) \<and>
     preflight_ok (sr_info r) (sr_status_before r) \<and>
     length (kp_public_key_hash (sr_keypair r)) = 32 \<and> se_session_id (sr_session r) \<noteq> 0 \<and>
     st_system_state (sr_status_active r) = SYS_ACTIVE \<and>
     st_session_id (sr_status_active r) = se_session_id (sr_session r) \<and>
     st_current_sequence (sr_status_active r) = se_initial_sequence (sr_session r) \<and>
     telemetry_run (sr_session r) plaintexts (sr_telemetry r) \<and>
     same_result (sr_last_result r) (last (sr_telemetry r)) \<and>
     st_system_state (sr_status_final r) = SYS_READY_NO_KEYPAIR \<and>
     st_session_id (sr_status_final r) = 0 \<and> st_current_sequence (sr_status_final r) = 0 \<and>
     st_fault_flags (sr_status_final r) = 0 \<and> st_last_error (sr_status_final r) = EC_OK"

lemma yields_finally: "yields R m \<Longrightarrow> yields R (io_finally m fin)"
  unfolding yields_def wp_finally
proof (intro allI, goal_cases)
  case (1 s)
  have "wp True fin (\<lambda>_ _. X) (\<lambda>_ _. True) s" if X for X s
    using that by (simp add: wp_def split: option.split sum.split)
  with 1 show ?case by (blast intro: wp_mono)
qed

lemma secure_telemetry_yields:
  "yields (secure_telemetry_ok plaintexts)
     (run_secure_telemetry_qualification P kseed sseed plaintexts timeout interval)"
proof -
  have body: "yields (\<lambda>(results, last_result). telemetry_run session plaintexts results \<and>
      same_result last_result (last results))
      (io_bind (io_for plaintexts (telemetry_step P session timeout) (se_initial_sequence session, []))
        (\<lambda>(_, results).
         io_bind (read_last_result P 2000000) (\<lambda>last_result.
         io_check (\<not> same_result last_result (last results))
           (HostProtocolError ''READ_LAST_RESULT differs from the final telemetry result'')
           (io_return (results, last_result)))))" for session
  proof (rule yields_bind [OF telemetry_loop_yields], goal_cases)
    case (1 a)
    then show ?case
      by (cases a) (auto intro!: yields_bind_any yields_check yields_return)
  qed
  have preflight: "yields (\<lambda>_. preflight_ok info st) (io_lift (validate_full_preflight info st))" for info st
    by (rule yields_lift) (simp add: validate_full_preflight_iff)
  show ?thesis
    unfolding run_secure_telemetry_qualification_def io_then_def Let_def
    apply (rule yields_check)
    apply (rule yields_bind [OF run_sn32_hardware_qualification_yields])
    apply (rule yields_bind_any, rule yields_bind [OF preflight])
    apply (rule yields_bind [OF generate_keypair_yields], rule yields_bind_any, rule yields_check)
    apply (rule yields_bind [OF create_session_yields], rule yields_bind_any)
    apply (rule yields_check)+
    apply (rule yields_bind [OF yields_finally [OF body]], rule yields_case_prod, rule yields_bind_any)
    apply (rule yields_check)+
    apply (rule yields_return)
    apply (simp add: secure_telemetry_ok_def)
    done
qed

section \<open>The end of a managed command\<close>

text \<open>A managed command that returns has retired its result last: the last frame written is the
  RETIRE_TXN_RESULT of the transaction ID it returns.\<close>

definition retires :: "int \<Rightarrow> bytes \<Rightarrow> bool" where
  "retires txid w \<longleftrightarrow> (\<exists>f. host_decode_wire w = Inr f \<and>
     hf_command f = HostCommand_value HC_RETIRE_TXN_RESULT \<and> hf_payload f = to_be 2 txid)"

lemma request_wire_single:
  assumes "1 \<le> txid" and "txid \<le> 0xFFFF" and "length payload \<le> PC_MAX_PAYLOAD"
  shows "\<exists>w. request_wire (HostCommand_value c) txid payload = [w] \<and>
    host_decode_wire w = Inr (HostFrame (HostCommand_value c) 0 txid payload)"
proof -
  have "host_wf (HostFrame (HostCommand_value c) 0 txid payload)"
    using assms HostCommand_value_range [of c] by (simp add: host_wf_def HostFrame_def)
  then obtain raw where "host_encode_raw (HostFrame (HostCommand_value c) 0 txid payload) = Inr raw"
    using host.enc_total by blast
  then obtain w where "host_encode_wire (HostFrame (HostCommand_value c) 0 txid payload) = Inr w"
    by (auto simp: host_encode_wire_iff)
  then have "request_wire (HostCommand_value c) txid payload = [w]"
    by (simp add: request_wire_def)
  then show ?thesis using request_wire_decode [of c txid payload] by auto
qed

lemma retire_request_last:
  fixes s :: "('w \<times> io_event list) client"
  assumes "client_ok s"
  shows "wp True (retire_transaction_result (logged P) txid)
    (\<lambda>_ s'. sent (io_log s') \<noteq> [] \<and> retires txid (last (sent (io_log s')))) (\<lambda>_ _. True) s"
proof (cases "struct_pack [2] [txid]")
  case (Inl e)
  then show ?thesis by (simp add: retire_transaction_result_def wp_simps)
next
  case (Inr payload)
  then have payload: "payload = to_be 2 txid" by (simp add: struct_pack_eq_Inr)
  obtain w where w: "request_wire (HostCommand_value HC_RETIRE_TXN_RESULT) (next_transaction_id s) payload = [w]"
    "host_decode_wire w = Inr (HostFrame (HostCommand_value HC_RETIRE_TXN_RESULT) 0 (next_transaction_id s) payload)"
    using request_wire_single [of "next_transaction_id s" payload HC_RETIRE_TXN_RESULT] assms payload
    by (auto simp: client_ok_def PC_MAX_PAYLOAD_def)
  have "retires txid w"
    using w(2) payload by (simp add: retires_def HostFrame_def)
  then show ?thesis
    unfolding retire_transaction_result_def wp_bind wp_lift Inr sum.case
    by (intro wp_mono [OF wp_request_sent [OF assms]]) (auto simp: wp_simps w(1) simp del: HostCommand_value.simps)
qed

lemma retained_request_retires:
  fixes s :: "('w \<times> io_event list) client"
  assumes "client_ok s"
  shows "wp True (retained_request (logged P) command payload timeout)
    (\<lambda>(txid, _) s'. sent (io_log s') \<noteq> [] \<and> retires txid (last (sent (io_log s')))) (\<lambda>_ _. True) s"
proof -
  have ok: "keeps True client_ok (request (logged P) (HostCommand_value command) payload timeout)"
    by (rule wf_client.keeps_request) simp
  have query: "keeps True client_ok (get_transaction_result (logged P) txid)" for txid
    by (rule wf_client.keeps_get_transaction_result)
  have handler: "wp True (if is_RemoteError e
      then io_then (io_try (retire_active_host_transaction (logged P)) (\<lambda>_. io_return 0)) (io_raise e)
      else io_raise e) Q (\<lambda>_ _. True) s'" for e Q and s' :: "('w \<times> io_event list) client"
    by (simp add: wp_simps) (simp add: wp_def split: option.split sum.split)
  have body: "wp True (io_finally (io_check b1 e1 (io_check b2 e2 (io_check b3 e3 (io_check b4 e4
        (io_check b5 e5 (io_return (txid, data))))))) (retire_transaction_result (logged P) txid))
      (\<lambda>(txid, _) s'. sent (io_log s') \<noteq> [] \<and> retires txid (last (sent (io_log s')))) (\<lambda>_ _. True) s'"
    if "client_ok s'" for b1 e1 b2 e2 b3 e3 b4 e4 b5 e5 txid data and s' :: "('w \<times> io_event list) client"
    using wp_mono [OF retire_request_last [OF that, of P txid]]
    by (auto simp: wp_simps intro!: wp_mono [OF retire_request_last [OF that, of P txid]])
  show ?thesis
    unfolding retained_request_def Let_def wp_bind wp_try
    apply (rule wp_mono [OF keepsD [OF ok assms]])
     apply (rule wp_mono [OF keepsD [OF query]], assumption, erule body, rule TrueI)
    apply (rule handler)
    done
qed

end
