(* ===== verification/Py_Text.thy ===== *)
theory Py_Text
  imports Full_Flow "HOL-Library.AList" "HOL-Library.List_Lexorder" "HOL-Library.Char_ord"
begin

text \<open>
  The text formatting of Python that the command lines use: integers in decimal and in upper-case
  hexadecimal of a minimum width (\<open>f"{n:04X}"\<close>), \<open>bytes.hex()\<close> and \<open>bytes.hex(" ")\<close>, \<open>str.join\<close>, and
  the reports they are put into: a Python \<open>dict\<close> with string keys is an association list in insertion
  order. Each form is proved to determine the value printed; \<open>bytes.fromhex\<close> reads the two forms of
  \<open>hex\<close> back.
\<close>

section \<open>Numbers\<close>

definition digit_upper :: "nat \<Rightarrow> char" where
  "digit_upper d = ''0123456789ABCDEF'' ! d"

definition digit_lower :: "nat \<Rightarrow> char" where
  "digit_lower d = ''0123456789abcdef'' ! d"

fun digits :: "nat \<Rightarrow> nat \<Rightarrow> nat list" where
  "digits b n = (if b < 2 \<or> n < b then [n] else digits b (n div b) @ [n mod b])"

declare digits.simps [simp del]

definition pad_zero :: "nat \<Rightarrow> string \<Rightarrow> string" where
  "pad_zero w s = replicate (w - length s) CHR ''0'' @ s"

text \<open>The width of a format includes the minus sign, and the padding follows it.\<close>

definition py_dec :: "int \<Rightarrow> string" where
  "py_dec n = (if n < 0 then ''-'' @ map digit_upper (digits 10 (nat (- n)))
     else map digit_upper (digits 10 (nat n)))"

definition py_hex :: "nat \<Rightarrow> int \<Rightarrow> string" where
  "py_hex w n = (if n < 0 then ''-'' @ pad_zero (w - 1) (map digit_upper (digits 16 (nat (- n))))
     else pad_zero w (map digit_upper (digits 16 (nat n))))"

text \<open>\<open>f"0x{n:0wX}"\<close>.\<close>

definition hex_field :: "nat \<Rightarrow> int \<Rightarrow> string" where
  "hex_field w n = ''0x'' @ py_hex w n"

definition read_digits :: "nat \<Rightarrow> string \<Rightarrow> int" where
  "read_digits b s = foldl (\<lambda>acc c. acc * int b + (case hex_value c of None \<Rightarrow> 0 | Some d \<Rightarrow> d)) 0 s"

lemma below_16:
  "(d :: nat) < 16 \<Longrightarrow> d = 0 \<or> d = 1 \<or> d = 2 \<or> d = 3 \<or> d = 4 \<or> d = 5 \<or> d = 6 \<or> d = 7 \<or> d = 8
     \<or> d = 9 \<or> d = 10 \<or> d = 11 \<or> d = 12 \<or> d = 13 \<or> d = 14 \<or> d = 15"
  by presburger

lemma hex_value_digit [simp]:
  assumes "d < 16"
  shows "hex_value (digit_upper d) = Some (int d)" "hex_value (digit_lower d) = Some (int d)"
    "\<not> is_space (digit_lower d)" "digit_upper d \<noteq> CHR ''-''"
  using below_16 [OF assms]
  by (elim disjE; simp add: hex_value_def digit_upper_def digit_lower_def is_space_def)+

lemma digits_bounded: "2 \<le> b \<Longrightarrow> d \<in> set (digits b n) \<Longrightarrow> d < b"
proof (induction b n rule: digits.induct)
  case (1 b n)
  show ?case
  proof (cases "n < b")
    case True
    with 1 show ?thesis by (simp add: digits.simps [of b n])
  next
    case False
    then have "d \<in> set (digits b (n div b)) \<or> d = n mod b"
      using 1(2,3) by (auto simp: digits.simps [of b n])
    then show ?thesis using 1(1) False 1(2) by auto
  qed
qed

lemma read_digits_append:
  "read_digits b (s @ [c]) = read_digits b s * int b + (case hex_value c of None \<Rightarrow> 0 | Some d \<Rightarrow> d)"
  by (simp add: read_digits_def)

lemma read_digits_of_digits:
  assumes "2 \<le> b" "b \<le> 16"
  shows "read_digits b (map digit_upper (digits b n)) = int n"
  using assms
proof (induction b n rule: digits.induct)
  case (1 b n)
  show ?case
  proof (cases "n < b")
    case True
    then show ?thesis using 1 by (simp add: digits.simps [of b n] read_digits_def)
  next
    case False
    then have "n mod b < 16" using 1(2,3) by (meson le_trans less_le_trans mod_less_divisor not_less_iff_gr_or_eq zero_less_numeral)
    then have "read_digits b (map digit_upper (digits b n)) = int (n div b) * int b + int (n mod b)"
      using False 1 by (simp add: digits.simps [of b n] read_digits_append)
    then show ?thesis by (metis div_mult_mod_eq of_nat_add of_nat_mult)
  qed
qed

lemma read_pad_zero [simp]: "read_digits b (pad_zero w s) = read_digits b s"
proof -
  have "read_digits b (replicate k CHR ''0'' @ s) = read_digits b s" for k
    by (induction k) (simp_all add: read_digits_def hex_value_def)
  then show ?thesis by (simp add: pad_zero_def)
qed

lemma read_py_hex: "0 \<le> n \<Longrightarrow> read_digits 16 (py_hex w n) = n"
  by (simp add: py_hex_def read_digits_of_digits)

lemma read_py_dec: "0 \<le> n \<Longrightarrow> read_digits 10 (py_dec n) = n"
  by (simp add: py_dec_def read_digits_of_digits)

lemma hex_field_inj: "0 \<le> m \<Longrightarrow> 0 \<le> n \<Longrightarrow> hex_field w m = hex_field w n \<longleftrightarrow> m = n"
  by (metis append_same_eq hex_field_def read_py_hex same_append_eq)

lemma py_dec_inj: "0 \<le> m \<Longrightarrow> 0 \<le> n \<Longrightarrow> py_dec m = py_dec n \<longleftrightarrow> m = n"
  by (metis read_py_dec)

text \<open>The characters of a number are digits, after the sign.\<close>

lemma decimal_digits: "c \<in> set (map digit_upper (digits 10 n)) \<Longrightarrow> hex_value c \<noteq> None"
  using digits_bounded [of 10 _ n] by fastforce

lemma py_dec_chars: "c \<in> set (py_dec n) \<Longrightarrow> c = CHR ''-'' \<or> hex_value c \<noteq> None"
  using decimal_digits [of c "nat n"] decimal_digits [of c "nat (- n)"]
  by (auto simp: py_dec_def split: if_splits)

section \<open>Byte strings\<close>

definition byte_hex :: "byte \<Rightarrow> string" where
  "byte_hex x = [digit_lower (unat x div 16), digit_lower (unat x mod 16)]"

definition bytes_hex :: "bytes \<Rightarrow> string" where
  "bytes_hex bs = concat (map byte_hex bs)"

fun str_join :: "string \<Rightarrow> string list \<Rightarrow> string" where
  "str_join sep [] = []"
| "str_join sep [x] = x"
| "str_join sep (x # y # ys) = x @ sep @ str_join sep (y # ys)"

text \<open>\<open>bs.hex(" ")\<close>.\<close>

definition bytes_hex_spaced :: "bytes \<Rightarrow> string" where
  "bytes_hex_spaced bs = str_join '' '' (map byte_hex bs)"

lemma fromhex_byte: "bytes_fromhex (byte_hex x @ s) = result_bind (bytes_fromhex s) (\<lambda>r. Inr (x # r))"
proof -
  have lt: "unat x < 256" using uint_byte_lt [of x] by (simp add: nat_less_iff flip: nat_uint_eq del: uint_byte_lt)
  have "16 * int (unat x div 16) + int (unat x mod 16) = int (unat x)"
    by (metis mult_div_mod_eq of_nat_add of_nat_mult of_nat_numeral)
  then have "(word_of_int (16 * int (unat x div 16) + int (unat x mod 16)) :: byte) = x"
    by (simp del: of_int_add of_int_mult)
  then show ?thesis
    using lt by (simp add: byte_hex_def less_mult_imp_div_less del: of_int_add of_int_mult)
qed

lemma bytes_fromhex_hex [simp]: "bytes_fromhex (bytes_hex bs) = Inr bs"
  by (induction bs) (simp_all add: bytes_hex_def fromhex_byte)

lemma bytes_fromhex_hex_spaced [simp]: "bytes_fromhex (bytes_hex_spaced bs) = Inr bs"
proof (induction bs)
  case Nil
  show ?case by (simp add: bytes_hex_spaced_def)
next
  case (Cons x bs)
  have space: "bytes_fromhex (CHR '' '' # s) = bytes_fromhex s" for s
    by (simp add: is_space_def)
  show ?case
    using Cons fromhex_byte [of x "[]"]
    by (cases bs) (simp_all add: bytes_hex_spaced_def fromhex_byte space del: bytes_fromhex.simps(2))
qed

lemma bytes_hex_inj [simp]: "bytes_hex bs = bytes_hex cs \<longleftrightarrow> bs = cs"
  by (metis bytes_fromhex_hex sum.inject(2))

lemma bytes_hex_spaced_inj [simp]: "bytes_hex_spaced bs = bytes_hex_spaced cs \<longleftrightarrow> bs = cs"
  by (metis bytes_fromhex_hex_spaced sum.inject(2))

section \<open>Reports\<close>

datatype report_value = Text string | Number int | Flag bool

type_synonym report = "(string \<times> report_value) list"

text \<open>\<open>{**d, **e}\<close> and \<open>d.update(e)\<close>: a key of \<open>d\<close> keeps its position and takes the value of \<open>e\<close>.\<close>

definition dict_update :: "report \<Rightarrow> report \<Rightarrow> report" where
  "dict_update d e = fold (\<lambda>(k, v). AList.update k v) e d"

lemma update_append_new: "k \<notin> fst ` set d \<Longrightarrow> AList.update k v d = d @ [(k, v)]"
  by (induction d) auto

lemma dict_update_disjoint:
  "distinct (map fst (d @ e)) \<Longrightarrow> dict_update d e = d @ e"
proof (induction e arbitrary: d)
  case Nil
  then show ?case by (simp add: dict_update_def)
next
  case (Cons kv e)
  obtain k v where kv: "kv = (k, v)" by (cases kv)
  with Cons.prems have "AList.update k v d = d @ [(k, v)]"
    by (intro update_append_new) auto
  then have "dict_update d (kv # e) = dict_update (d @ [(k, v)]) e"
    by (simp add: dict_update_def kv)
  also have "\<dots> = d @ kv # e" using Cons.IH [of "d @ [(k, v)]"] Cons.prems kv by simp
  finally show ?case .
qed

section \<open>What a report is printed as\<close>

definition py_bool :: "bool \<Rightarrow> string" where
  "py_bool b = (if b then ''True'' else ''False'')"

definition str_value :: "report_value \<Rightarrow> string" where
  "str_value v = (case v of Text s \<Rightarrow> s | Number n \<Rightarrow> py_dec n | Flag b \<Rightarrow> py_bool b)"

text \<open>\<open>json.dumps\<close> of such a dictionary, with sorted keys. Every string the program reports is ASCII;
  the quote, the backslash and the control characters are escaped.\<close>

definition json_char :: "char \<Rightarrow> string" where
  "json_char c =
     (let n = of_char c :: nat in
      if n = 34 then [CHR 0x5C, CHR 0x22]
      else if n = 92 then [CHR 0x5C, CHR 0x5C]
      else if n = 8 then [CHR 0x5C, CHR ''b'']
      else if n = 9 then [CHR 0x5C, CHR ''t'']
      else if n = 10 then [CHR 0x5C, CHR ''n'']
      else if n = 12 then [CHR 0x5C, CHR ''f'']
      else if n = 13 then [CHR 0x5C, CHR ''r'']
      else if n < 32 \<or> 127 \<le> n then
        [CHR 0x5C, CHR ''u'', CHR ''0'', CHR ''0'', digit_lower (n div 16), digit_lower (n mod 16)]
      else [c])"

definition json_string :: "string \<Rightarrow> string" where
  "json_string s = [CHR 0x22] @ concat (map json_char s) @ [CHR 0x22]"

definition json_value :: "report_value \<Rightarrow> string" where
  "json_value v = (case v of Text s \<Rightarrow> json_string s | Number n \<Rightarrow> py_dec n
     | Flag b \<Rightarrow> (if b then ''true'' else ''false''))"

definition json_dumps :: "report \<Rightarrow> string" where
  "json_dumps d = ''{'' @ str_join '', ''
     (map (\<lambda>(k, v). json_string k @ '': '' @ json_value v) (sort_key fst d)) @ ''}''"

text \<open>A JSON report is one line, whatever its values are.\<close>

lemma json_char_one_line: "CHR 0x0A \<notin> set (json_char c)"
proof -
  have "CHR 0x0A \<noteq> digit_lower d" if "d < 16" for d
    using below_16 [OF that] by (elim disjE; simp add: digit_lower_def)
  moreover have "(of_char c :: nat) < 256" by (metis nat_of_char_less_256)
  moreover have "c = CHR 0x0A \<Longrightarrow> (of_char c :: nat) = 10" by simp
  ultimately show ?thesis
    by (auto simp: json_char_def Let_def less_mult_imp_div_less)
qed

lemma json_string_one_line: "CHR 0x0A \<notin> set (json_string s)"
  using json_char_one_line by (auto simp: json_string_def)

lemma py_dec_one_line: "CHR 0x0A \<notin> set (py_dec n)"
  using py_dec_chars [of "CHR 0x0A" n] by (auto simp: hex_value_def)

lemma str_join_set: "set (str_join sep xs) \<subseteq> set sep \<union> \<Union> (set ` set xs)"
  by (induction sep xs rule: str_join.induct) auto

lemma json_dumps_one_line: "CHR 0x0A \<notin> set (json_dumps d)"
proof -
  have "CHR 0x0A \<notin> set (json_string k @ '': '' @ json_value v)" for k v
    using json_string_one_line [of k] json_string_one_line py_dec_one_line
    by (cases v) (auto simp: json_value_def)
  then have "CHR 0x0A \<notin> \<Union> (set ` set (map (\<lambda>(k, v). json_string k @ '': '' @ json_value v) (sort_key fst d)))"
    by auto
  with str_join_set [of "'', ''"] show ?thesis
    unfolding json_dumps_def by fastforce
qed

end
