(* ===== verification/Report.thy ===== *)
theory Report
  imports Py_Text
begin

text \<open>
  The reports of the command line (\<open>cli.py\<close>): the dictionaries built from a system status, the system
  information, a retained result and an SPI trace, the decoder of the first-SPI-failure payload, and the
  printed form of a report. The reports of well-formed records are proved to determine them, and the
  decoder to accept exactly the payloads of its two shapes and to raise \<open>HostProtocolError\<close> only.
\<close>

section \<open>Names of enumeration members\<close>

text \<open>\<open>member.name\<close>.\<close>

primrec ErrorCode_name :: "error_code \<Rightarrow> string" where
  "ErrorCode_name EC_OK = ''OK''"
| "ErrorCode_name EC_BAD_MAGIC = ''BAD_MAGIC''"
| "ErrorCode_name EC_BAD_VERSION = ''BAD_VERSION''"
| "ErrorCode_name EC_BAD_LENGTH = ''BAD_LENGTH''"
| "ErrorCode_name EC_BAD_CRC = ''BAD_CRC''"
| "ErrorCode_name EC_BAD_FLAGS = ''BAD_FLAGS''"
| "ErrorCode_name EC_BAD_COMMAND = ''BAD_COMMAND''"
| "ErrorCode_name EC_BAD_STATE = ''BAD_STATE''"
| "ErrorCode_name EC_BUSY = ''BUSY''"
| "ErrorCode_name EC_RESULT_PENDING = ''RESULT_PENDING''"
| "ErrorCode_name EC_TRANSACTION_CONFLICT = ''TRANSACTION_CONFLICT''"
| "ErrorCode_name EC_OUTCOME_UNKNOWN_TARGET_RESET = ''OUTCOME_UNKNOWN_TARGET_RESET''"
| "ErrorCode_name EC_BAD_CHUNK_INDEX = ''BAD_CHUNK_INDEX''"
| "ErrorCode_name EC_CHUNK_CONFLICT = ''CHUNK_CONFLICT''"
| "ErrorCode_name EC_INCOMPLETE_INPUT = ''INCOMPLETE_INPUT''"
| "ErrorCode_name EC_RESULT_NOT_READY = ''RESULT_NOT_READY''"
| "ErrorCode_name EC_SELF_TEST_FAILED = ''SELF_TEST_FAILED''"
| "ErrorCode_name EC_MLKEM_SHARED_SECRET_MISMATCH = ''MLKEM_SHARED_SECRET_MISMATCH''"
| "ErrorCode_name EC_SESSION_ID_COLLISION = ''SESSION_ID_COLLISION''"
| "ErrorCode_name EC_BAD_SESSION = ''BAD_SESSION''"
| "ErrorCode_name EC_ZEROIZED = ''ZEROIZED''"
| "ErrorCode_name EC_REPLAY = ''REPLAY''"
| "ErrorCode_name EC_STALE_SEQUENCE = ''STALE_SEQUENCE''"
| "ErrorCode_name EC_BAD_TAG = ''BAD_TAG''"
| "ErrorCode_name EC_MALFORMED_FRAME = ''MALFORMED_FRAME''"
| "ErrorCode_name EC_FRAME_TIMEOUT = ''FRAME_TIMEOUT''"
| "ErrorCode_name EC_RESULT_PENDING_DROP = ''RESULT_PENDING_DROP''"
| "ErrorCode_name EC_AUTH_THRESHOLD = ''AUTH_THRESHOLD''"
| "ErrorCode_name EC_COMMIT_REJECTED = ''COMMIT_REJECTED''"
| "ErrorCode_name EC_SESSION_COMMIT_FAILED = ''SESSION_COMMIT_FAILED''"
| "ErrorCode_name EC_HEARTBEAT_TIMEOUT = ''HEARTBEAT_TIMEOUT''"
| "ErrorCode_name EC_FAULT_LOCKED = ''FAULT_LOCKED''"
| "ErrorCode_name EC_INTERNAL_FAULT = ''INTERNAL_FAULT''"
| "ErrorCode_name EC_NOT_SUPPORTED = ''NOT_SUPPORTED''"

primrec SystemState_name :: "system_state \<Rightarrow> string" where
  "SystemState_name SYS_BOOT = ''BOOT''"
| "SystemState_name SYS_SELF_TEST_REQUIRED = ''SELF_TEST_REQUIRED''"
| "SystemState_name SYS_SELF_TEST_RUNNING = ''SELF_TEST_RUNNING''"
| "SystemState_name SYS_READY_NO_KEYPAIR = ''READY_NO_KEYPAIR''"
| "SystemState_name SYS_READY_NO_SESSION = ''READY_NO_SESSION''"
| "SystemState_name SYS_SESSION_ESTABLISHING = ''SESSION_ESTABLISHING''"
| "SystemState_name SYS_ACTIVE = ''ACTIVE''"
| "SystemState_name SYS_ZEROIZE_BUSY = ''ZEROIZE_BUSY''"
| "SystemState_name SYS_FAULT_LOCKED = ''FAULT_LOCKED''"
| "SystemState_name SYS_ERROR = ''ERROR''"

primrec Mode_name :: "mode \<Rightarrow> string" where
  "Mode_name MODE_KAT = ''KAT''"
| "Mode_name MODE_DEMO_DETERMINISTIC = ''DEMO_DETERMINISTIC''"
| "Mode_name MODE_DEMO_SECURE = ''DEMO_SECURE''"

primrec TransactionState_name :: "transaction_state \<Rightarrow> string" where
  "TransactionState_name TXN_NONE = ''NONE''"
| "TransactionState_name TXN_ACCEPTED = ''ACCEPTED''"
| "TransactionState_name TXN_RUNNING = ''RUNNING''"
| "TransactionState_name TXN_SUCCEEDED = ''SUCCEEDED''"
| "TransactionState_name TXN_FAILED = ''FAILED''"
| "TransactionState_name TXN_ZEROIZED = ''ZEROIZED''"
| "TransactionState_name TXN_OUTCOME_UNKNOWN = ''OUTCOME_UNKNOWN''"

text \<open>Distinct members have distinct names.\<close>

lemma inj_of_distinct: "distinct (map f ms) \<Longrightarrow> (\<And>m. m \<in> set ms) \<Longrightarrow> f x = f y \<longleftrightarrow> x = y"
  by (auto simp: distinct_map inj_on_def)

lemma ErrorCode_name_inj [simp]: "ErrorCode_name x = ErrorCode_name y \<longleftrightarrow> x = y"
  by (rule inj_of_distinct [OF _ ErrorCode_enum.all_members]) (simp add: ErrorCode_members_def)

lemma SystemState_name_inj [simp]: "SystemState_name x = SystemState_name y \<longleftrightarrow> x = y"
  by (rule inj_of_distinct [OF _ SystemState_enum.all_members]) (simp add: SystemState_members_def)

lemma Mode_name_inj [simp]: "Mode_name x = Mode_name y \<longleftrightarrow> x = y"
  by (rule inj_of_distinct [OF _ Mode_enum.all_members]) (simp add: Mode_members_def)

lemma TransactionState_name_inj [simp]: "TransactionState_name x = TransactionState_name y \<longleftrightarrow> x = y"
  by (rule inj_of_distinct [OF _ TransactionState_enum.all_members]) (simp add: TransactionState_members_def)

section \<open>Records as reports\<close>

definition status_dict :: "system_status \<Rightarrow> report" where
  "status_dict s =
     [(''system_state'', Text (SystemState_name (st_system_state s))),
      (''mode'', Text (Mode_name (st_mode s))),
      (''target_ready_mask'', Text (hex_field 2 (st_target_ready_mask s))),
      (''fault_flags'', Text (hex_field 2 (st_fault_flags s))),
      (''session_id'', Text (hex_field 8 (st_session_id s))),
      (''current_sequence'', Number (st_current_sequence s)),
      (''last_error'', Text (ErrorCode_name (st_last_error s))),
      (''active_host_txid'', Text (hex_field 4 (st_active_host_txid s)))]"

definition info_dict :: "system_info \<Rightarrow> report" where
  "info_dict i =
     [(''protocol_version'', Number (si_protocol_version i)),
      (''architecture_version'', Text (py_dec (si_architecture_major i) @ ''.''
         @ py_dec (si_architecture_minor i) @ ''.'' @ py_dec (si_architecture_patch i))),
      (''capabilities'', Text (hex_field 8 (si_capabilities i))),
      (''sn32_build_id'', Text (hex_field 8 (si_sn32_build_id i))),
      (''primer1_build_id'', Text (hex_field 8 (si_primer1_build_id i))),
      (''primer2_build_id'', Text (hex_field 8 (si_primer2_build_id i)))]"

definition transaction_dict :: "transaction_result \<Rightarrow> report" where
  "transaction_dict r =
     [(''queried_txid'', Text (hex_field 4 (tr_queried_txid r))),
      (''state'', Text (TransactionState_name (tr_state r))),
      (''original_command'', Text (hex_field 2 (tr_original_command r))),
      (''result_code'', Text (ErrorCode_name (tr_result_code r))),
      (''result_data_hex'', Text (bytes_hex (tr_data r)))]"

definition spi_trace_dict :: "spi_diagnostic_trace \<Rightarrow> report" where
  "spi_trace_dict t =
     [(''target_id'', Number (sd_target_id t)),
      (''command'', Text (hex_field 2 (sd_command t))),
      (''error_source'', Number (sd_source t)),
      (''transport_result'', Text (ErrorCode_name (sd_result_code t) @ ''(0x''
         @ py_hex 4 (ErrorCode_value (sd_result_code t)) @ '')'')),
      (''target_txid'', Text (hex_field 4 (sd_target_transaction_id t))),
      (''request_fingerprint'', Text (hex_field 8 (sd_request_fingerprint t))),
      (''request_length'', Number (sd_request_length t)),
      (''response_capture_length'', Number (sd_response_capture_length t)),
      (''response_frame_length'', Number (sd_response_frame_length t)),
      (''request_crc'', Text (hex_field 4 (sd_request_crc t))),
      (''response_crc_received'', Text (hex_field 4 (sd_response_crc_received t))),
      (''response_crc_calculated'', Text (hex_field 4 (sd_response_crc_calculated t))),
      (''response_crc_match'', Flag (sd_response_frame_length t \<noteq> 0
         \<and> sd_response_crc_received t = sd_response_crc_calculated t)),
      (''irq_before_request'', Number (of_bool (sd_irq_before_request t))),
      (''irq_after_request'', Number (of_bool (sd_irq_after_request t))),
      (''irq_before_response'', Number (of_bool (sd_irq_before_response t))),
      (''irq_after_response'', Number (of_bool (sd_irq_after_response t))),
      (''request_bytes'', Text (bytes_hex_spaced (sd_request_bytes t))),
      (''response_bytes'', Text (bytes_hex_spaced (sd_response_bytes t)))]"

definition hex_words :: "int list \<Rightarrow> string" where
  "hex_words words = str_join '' '' (map (hex_field 8) words)"

section \<open>The first SPI failure\<close>

text \<open>\<open>names.get(n, f"UNKNOWN_{n}")\<close>.\<close>

definition name_or_unknown :: "(int \<times> string) list \<Rightarrow> int \<Rightarrow> string" where
  "name_or_unknown names n = (case map_of names n of Some s \<Rightarrow> s | None \<Rightarrow> ''UNKNOWN_'' @ py_dec n)"

definition SPI_TRACE_CONTEXT_NAMES :: "(int \<times> string) list" where
  "SPI_TRACE_CONTEXT_NAMES =
     [(0, ''NONE''), (1, ''STARTUP_DRAIN_P1''), (2, ''STARTUP_DRAIN_P2''), (3, ''STARTUP_PROBE''),
      (4, ''PERIODIC_PROBE''), (5, ''HOST_DIAGNOSTIC'')]"

definition SPI_TRANSFER_STAGE_NAMES :: "(int \<times> string) list" where
  "SPI_TRANSFER_STAGE_NAMES = [(0, ''NONE''), (1, ''TX_FULL''), (2, ''BUSY''), (3, ''RX_EMPTY'')]"

definition SPI_TRANSFER_DIRECTION_NAMES :: "(int \<times> string) list" where
  "SPI_TRANSFER_DIRECTION_NAMES = [(0, ''NONE''), (1, ''REQUEST''), (2, ''RESPONSE'')]"

text \<open>The loop over the samples; the three lists grow at their ends and the offset moves by 12.\<close>

primrec read_samples :: "nat \<Rightarrow> bytes \<Rightarrow> nat \<Rightarrow> int list \<times> int list \<times> int list
    \<Rightarrow> (int list \<times> int list \<times> int list) result" where
  "read_samples 0 extension offset acc = Inr acc"
| "read_samples (Suc n) extension offset acc =
     result_bind (struct_unpack_from [4, 4, 4] extension offset) (\<lambda>v.
     case acc of (status_before, data_words, status_after) \<Rightarrow>
       read_samples n extension (offset + 12)
         (status_before @ [v ! 0], data_words @ [v ! 1], status_after @ [v ! 2]))"

definition GPIO_BACKEND :: int where
  "GPIO_BACKEND = 0x4750494F"

definition register_telemetry :: "bytes \<Rightarrow> report \<Rightarrow> report result" where
  "register_telemetry extension transfer =
     result_bind (struct_unpack_from [4, 4, 4, 4] extension 12) (\<lambda>v.
     let spi_ctrl0 = v ! 0; spi_ctrl1 = v ! 1; spi_clkdiv = v ! 2; spi_fifo_th = v ! 3;
         sample_count = unat (extension ! 28);
         expected_extension_length = 32 + sample_count * 12
     in
     check (length extension \<noteq> expected_extension_length)
       (HostProtocolError ''first SPI failure register telemetry length'')
    (result_bind (read_samples sample_count extension 32 ([], [], [])) (\<lambda>(status_before, data_words, status_after).
     let transfer = dict_update transfer
           [(''spi_ctrl0'', Text (hex_field 8 spi_ctrl0)), (''spi_ctrl1'', Text (hex_field 8 spi_ctrl1)),
            (''spi_clkdiv'', Text (hex_field 8 spi_clkdiv)), (''spi_fifo_th'', Text (hex_field 8 spi_fifo_th)),
            (''response_sample_count'', Number (int sample_count)),
            (''response_status_before_read'', Text (hex_words status_before)),
            (''response_data_words'', Text (hex_words data_words)),
            (''response_status_after_read'', Text (hex_words status_after))]
     in
     Inr (if spi_ctrl0 = GPIO_BACKEND
          then dict_update transfer
            [(''spi_backend'', Text ''GPIO_MODE0''), (''spi_max_hz'', Number spi_ctrl1),
             (''spi_half_period_cycles'', Number spi_clkdiv)]
          else transfer))))"

definition transfer_dict :: "bytes \<Rightarrow> int list \<Rightarrow> report" where
  "transfer_dict extension v =
     [(''transfer_stage'', Text (name_or_unknown SPI_TRANSFER_STAGE_NAMES (uint (extension ! 0)))),
      (''transfer_direction'', Text (name_or_unknown SPI_TRANSFER_DIRECTION_NAMES (uint (extension ! 1)))),
      (''transfer_byte_index'', Number (v ! 0)), (''transfer_length'', Number (v ! 1)),
      (''transfer_completed'', Number (v ! 2)), (''spi_status'', Text (hex_field 8 (v ! 3)))]"

definition first_spi_failure_dict :: "bytes \<Rightarrow> report result" where
  "first_spi_failure_dict payload =
     check (length payload < 2) (HostProtocolError ''first SPI failure payload must be at least 2 bytes'')
    (let latched_raw = uint (payload ! 0); context = uint (payload ! 1) in
     check (latched_raw \<notin> {0, 1}) (HostProtocolError ''invalid first SPI failure latch value'')
    (let context_name = name_or_unknown SPI_TRACE_CONTEXT_NAMES context in
     if length payload = 2 then
       check (latched_raw \<noteq> 0 \<or> context \<noteq> 0)
         (HostProtocolError ''first SPI failure metadata names a trace but no trace is present'')
      (Inr [(''latched'', Flag False), (''startup_residue'', Flag False), (''context'', Text context_name)])
     else
       check (length payload < 2 + 24 + 12)
         (HostProtocolError ''first SPI failure trace is missing byte-level transfer telemetry'')
      (let trace_payload = drop 2 payload in
       result_bind (struct_unpack_from [2] trace_payload 12) (\<lambda>request_length.
       result_bind (struct_unpack_from [2] trace_payload 14) (\<lambda>response_capture_length.
       let trace_length = nat (24 + request_length ! 0 + response_capture_length ! 0);
           extension = drop (2 + trace_length) payload
       in
       check (length extension < 12) (HostProtocolError ''first SPI failure transfer extension is truncated'')
      (result_bind (SpiDiagnosticTrace_decode (slice 2 (2 + trace_length) payload)) (\<lambda>trace.
       result_bind (struct_unpack_from [2, 2, 2, 4] extension 2) (\<lambda>v.
       result_bind
         (if length extension = 12 then Inr (transfer_dict extension v)
          else if 32 \<le> length extension then register_telemetry extension (transfer_dict extension v)
          else Inl (HostProtocolError ''unsupported first SPI failure extension length''))
         (\<lambda>transfer.
       if latched_raw = 0 then
         check (context \<notin> {1, 2, 3, 4})
           (HostProtocolError ''unlatched SPI trace must be a startup/periodic reset residue'')
        (Inr (dict_update (dict_update [(''latched'', Flag False), (''startup_residue'', Flag True),
                (''context'', Text context_name)] (spi_trace_dict trace)) transfer))
       else
         Inr (dict_update (dict_update [(''latched'', Flag True), (''startup_residue'', Flag False),
                (''context'', Text context_name)] (spi_trace_dict trace)) transfer))))))))))"

section \<open>The commit diagnostic\<close>

definition SESSION_FAILURE_PHASE_NAMES :: "(int \<times> string) list" where
  "SESSION_FAILURE_PHASE_NAMES =
     [(0, ''NONE''), (1, ''STAGE_WAIT''), (2, ''COMMIT_WAIT''), (3, ''ACTIVE_WAIT'')]"

definition SESSION_STATE_NAMES :: "(int \<times> string) list" where
  "SESSION_STATE_NAMES =
     [(0, ''BOOT''), (1, ''SELF_TEST_REQUIRED''), (2, ''SELF_TEST_RUNNING''), (3, ''READY_NO_SESSION''),
      (4, ''STAGED''), (5, ''COMMITTED_BLOCKED''), (6, ''ACTIVE''), (7, ''ZEROIZE_BUSY''),
      (8, ''FAULT_LOCKED'')]"

definition describe :: "session_commit_diagnostic \<Rightarrow> string" where
  "describe d =
     ''phase='' @ name_or_unknown SESSION_FAILURE_PHASE_NAMES (sc_phase d)
     @ '', P2.9_readback='' @ (if sc_gpio_high d then ''HIGH'' else ''LOW'')
     @ '', P1='' @ name_or_unknown SESSION_STATE_NAMES (sc_p1_session_state d)
     @ ''/secure=0x'' @ py_hex 2 (sc_p1_secure_flags d)
     @ '', P2='' @ name_or_unknown SESSION_STATE_NAMES (sc_p2_session_state d)
     @ ''/secure=0x'' @ py_hex 2 (sc_p2_secure_flags d)"

section \<open>Printing\<close>

text \<open>The lines \<open>_emit\<close> prints: one JSON object, or the step in brackets and one line per other key.
  \<open>data.pop("step", None)\<close> takes the step out.\<close>

definition emit_lines :: "report \<Rightarrow> bool \<Rightarrow> string list" where
  "emit_lines data as_json =
     (if as_json then [json_dumps data]
      else
        (case map_of data ''step'' of None \<Rightarrow> [] | Some label \<Rightarrow> [''['' @ str_value label @ '']''])
        @ map (\<lambda>(k, v). k @ ''='' @ str_value v) (filter (\<lambda>(k, v). k \<noteq> ''step'') data))"

section \<open>A report determines its record\<close>

lemma status_dict_inj:
  "SystemStatus_wf s \<Longrightarrow> SystemStatus_wf s' \<Longrightarrow> status_dict s = status_dict s' \<longleftrightarrow> s = s'"
  by (cases s; cases s') (auto simp: status_dict_def SystemStatus_wf_def hex_field_inj)

lemma split_dot:
  "CHR ''.'' \<notin> set a \<Longrightarrow> CHR ''.'' \<notin> set b \<Longrightarrow>
     a @ CHR ''.'' # x = b @ CHR ''.'' # y \<longleftrightarrow> a = b \<and> x = y"
proof (induction a arbitrary: b)
  case Nil
  then show ?case by (cases b) auto
next
  case (Cons c a)
  then show ?case by (cases b) auto
qed

lemma py_dec_no_dot [simp]: "CHR ''.'' \<notin> set (py_dec n)"
  using py_dec_chars [of "CHR ''.''" n] by (auto simp: hex_value_def)

lemma info_dict_inj:
  "SystemInfo_wf i \<Longrightarrow> SystemInfo_wf i' \<Longrightarrow> info_dict i = info_dict i' \<longleftrightarrow> i = i'"
  by (cases i; cases i') (auto simp: info_dict_def SystemInfo_wf_def hex_field_inj split_dot py_dec_inj)

lemma transaction_dict_inj:
  "TransactionResult_wf r \<Longrightarrow> TransactionResult_wf r' \<Longrightarrow>
     transaction_dict r = transaction_dict r' \<longleftrightarrow> r = r'"
  by (cases r; cases r') (auto simp: transaction_dict_def TransactionResult_wf_def hex_field_inj)

section \<open>The payloads of a first SPI failure\<close>

text \<open>What the payload says: that nothing was recorded, or a trace with the transfer that failed and, on
  newer firmware, the SPI registers with the samples taken while reading. The specification gives the
  bytes of each part; the three bytes after the sample count are reserved and may hold anything.\<close>

record spi_transfer =
  tf_stage :: int
  tf_direction :: int
  tf_byte_index :: int
  tf_length :: int
  tf_completed :: int
  tf_status :: int

record spi_registers =
  rg_ctrl0 :: int
  rg_ctrl1 :: int
  rg_clkdiv :: int
  rg_fifo_th :: int
  rg_samples :: "(int \<times> int \<times> int) list"

datatype first_failure =
    Nothing_recorded
  | Recorded bool int spi_diagnostic_trace spi_transfer "spi_registers option"

definition transfer_fields :: "spi_transfer \<Rightarrow> int list" where
  "transfer_fields t = [tf_stage t, tf_direction t, tf_byte_index t, tf_length t, tf_completed t, tf_status t]"

definition TRANSFER_STRUCT :: "nat list" where
  "TRANSFER_STRUCT = [1, 1, 2, 2, 2, 4]"

definition sample_fields :: "int \<times> int \<times> int \<Rightarrow> int list" where
  "sample_fields = (\<lambda>(before, data, after). [before, data, after])"

definition samples_layout :: "(int \<times> int \<times> int) list \<Rightarrow> bytes" where
  "samples_layout ss = concat (map (\<lambda>x. pack_fields [4, 4, 4] (sample_fields x)) ss)"

definition register_fields :: "spi_registers \<Rightarrow> int list" where
  "register_fields r = [rg_ctrl0 r, rg_ctrl1 r, rg_clkdiv r, rg_fifo_th r, int (length (rg_samples r))]"

definition REGISTER_STRUCT :: "nat list" where
  "REGISTER_STRUCT = [4, 4, 4, 4, 1]"

definition registers_shape :: "spi_registers option \<Rightarrow> bytes \<Rightarrow> bool" where
  "registers_shape regs bs \<longleftrightarrow> (case regs of
     None \<Rightarrow> bs = []
   | Some r \<Rightarrow> fields_ok REGISTER_STRUCT (register_fields r) \<and>
       (\<forall>x \<in> set (rg_samples r). fields_ok [4, 4, 4] (sample_fields x)) \<and>
       (\<exists>reserved. length reserved = 3 \<and>
          bs = pack_fields REGISTER_STRUCT (register_fields r) @ reserved @ samples_layout (rg_samples r)))"

definition first_failure_shape :: "first_failure \<Rightarrow> bytes \<Rightarrow> bool" where
  "first_failure_shape ff payload \<longleftrightarrow> (case ff of
     Nothing_recorded \<Rightarrow> payload = [0, 0]
   | Recorded latched context trace transfer regs \<Rightarrow>
       0 \<le> context \<and> context < 256 \<and> (\<not> latched \<longrightarrow> context \<in> {1, 2, 3, 4}) \<and>
       fields_ok TRANSFER_STRUCT (transfer_fields transfer) \<and>
       (\<exists>tb rb. payload = [of_bool latched, word_of_int context] @ tb
            @ pack_fields TRANSFER_STRUCT (transfer_fields transfer) @ rb \<and>
          SpiDiagnosticTrace_decode tb = Inr trace \<and> registers_shape regs rb))"

definition register_values :: "spi_registers \<Rightarrow> report" where
  "register_values r =
     [(''spi_ctrl0'', Text (hex_field 8 (rg_ctrl0 r))), (''spi_ctrl1'', Text (hex_field 8 (rg_ctrl1 r))),
      (''spi_clkdiv'', Text (hex_field 8 (rg_clkdiv r))), (''spi_fifo_th'', Text (hex_field 8 (rg_fifo_th r))),
      (''response_sample_count'', Number (int (length (rg_samples r)))),
      (''response_status_before_read'', Text (hex_words (map fst (rg_samples r)))),
      (''response_data_words'', Text (hex_words (map (fst \<circ> snd) (rg_samples r)))),
      (''response_status_after_read'', Text (hex_words (map (snd \<circ> snd) (rg_samples r))))]"

definition gpio_values :: "spi_registers \<Rightarrow> report" where
  "gpio_values r =
     [(''spi_backend'', Text ''GPIO_MODE0''), (''spi_max_hz'', Number (rg_ctrl1 r)),
      (''spi_half_period_cycles'', Number (rg_clkdiv r))]"

definition registers_report :: "spi_registers \<Rightarrow> report" where
  "registers_report r = register_values r @ (if rg_ctrl0 r = GPIO_BACKEND then gpio_values r else [])"

definition transfer_report :: "spi_transfer \<Rightarrow> report" where
  "transfer_report t =
     [(''transfer_stage'', Text (name_or_unknown SPI_TRANSFER_STAGE_NAMES (tf_stage t))),
      (''transfer_direction'', Text (name_or_unknown SPI_TRANSFER_DIRECTION_NAMES (tf_direction t))),
      (''transfer_byte_index'', Number (tf_byte_index t)), (''transfer_length'', Number (tf_length t)),
      (''transfer_completed'', Number (tf_completed t)), (''spi_status'', Text (hex_field 8 (tf_status t)))]"

definition first_failure_report :: "first_failure \<Rightarrow> report" where
  "first_failure_report ff = (case ff of
     Nothing_recorded \<Rightarrow>
       [(''latched'', Flag False), (''startup_residue'', Flag False), (''context'', Text ''NONE'')]
   | Recorded latched context trace transfer regs \<Rightarrow>
       [(''latched'', Flag latched), (''startup_residue'', Flag (\<not> latched)),
        (''context'', Text (name_or_unknown SPI_TRACE_CONTEXT_NAMES context))]
       @ spi_trace_dict trace @ transfer_report transfer
       @ (case regs of None \<Rightarrow> [] | Some r \<Rightarrow> registers_report r))"

lemma samples_layout_simps [simp]:
  "samples_layout [] = []"
  "samples_layout (x # ss) = pack_fields [4, 4, 4] (sample_fields x) @ samples_layout ss"
  "length (samples_layout ss) = 12 * length ss"
  by (induction ss) (simp_all add: samples_layout_def)

lemma read_samples_layout:
  assumes "\<forall>x \<in> set ss. fields_ok [4, 4, 4] (sample_fields x)"
  shows "read_samples (length ss) (pre @ samples_layout ss) (length pre) (a, b, c) =
    Inr (a @ map fst ss, b @ map (fst \<circ> snd) ss, c @ map (snd \<circ> snd) ss)"
  using assms
proof (induction ss arbitrary: pre a b c)
  case Nil
  show ?case by simp
next
  case (Cons x ss)
  let ?x = "pack_fields [4, 4, 4] (sample_fields x)"
  have len: "length (pre @ ?x) = length pre + 12" by simp
  have "struct_unpack_from [4, 4, 4] (pre @ samples_layout (x # ss)) (length pre) = Inr (sample_fields x)"
    using Cons.prems unpack_pack_fields_simps(2) [of "[4, 4, 4]" "sample_fields x" "samples_layout ss"]
    by (simp del: unpack_fields.simps pack_fields.simps)
  then show ?case
    using Cons.IH [of "pre @ ?x" "a @ [fst x]" "b @ [fst (snd x)]" "c @ [snd (snd x)]"] Cons.prems
    by (simp add: len sample_fields_def split_beta del: pack_fields.simps)
qed

lemma packed_ex: "length bs = sum_list ws \<Longrightarrow> \<exists>xs. fields_ok ws xs \<and> bs = pack_fields ws xs"
  by (metis pack_unpack_fields order_refl take_all unpack_fields_ok)

lemma samples_ex:
  "length bs = 12 * n \<Longrightarrow> \<exists>ss. length ss = n \<and> (\<forall>x \<in> set ss. fields_ok [4, 4, 4] (sample_fields x)) \<and>
     bs = samples_layout ss"
proof (induction n arbitrary: bs)
  case 0
  then show ?case by simp
next
  case (Suc n)
  then have "length (drop 12 bs) = 12 * n" by simp
  from Suc.IH [OF this] obtain ss where ss: "length ss = n"
    "\<forall>x \<in> set ss. fields_ok [4, 4, 4] (sample_fields x)" "drop 12 bs = samples_layout ss"
    by blast
  have "length (take 12 bs) = sum_list [4, 4, 4 :: nat]" using Suc.prems by simp
  then obtain xs where xs: "fields_ok [4, 4, 4] xs" "take 12 bs = pack_fields [4, 4, 4] xs"
    using packed_ex by blast
  from xs(1) obtain p q r where pqr: "xs = [p, q, r]" by (auto simp: fields_ok_Cons_ex)
  then have fields: "sample_fields (p, q, r) = xs" by (simp add: sample_fields_def)
  have "bs = samples_layout ((p, q, r) # ss)"
    unfolding samples_layout_simps fields by (metis append_take_drop_id ss(3) xs(2))
  moreover have "\<forall>x \<in> set ((p, q, r) # ss). fields_ok [4, 4, 4] (sample_fields x)"
    using ss(2) xs(1) fields by auto
  ultimately have "length ((p, q, r) # ss) = Suc n \<and>
      (\<forall>x \<in> set ((p, q, r) # ss). fields_ok [4, 4, 4] (sample_fields x)) \<and>
      bs = samples_layout ((p, q, r) # ss)"
    using ss(1) by simp
  then show ?case by blast
qed

lemma trace_decode_lengths:
  assumes "SpiDiagnosticTrace_decode tb = Inr t"
  shows "int (length tb) = 24 + sd_request_length t + sd_response_capture_length t"
    and "be_int (take 2 (drop 12 tb)) = sd_request_length t"
    and "be_int (take 2 (drop 14 tb)) = sd_response_capture_length t"
    and "24 \<le> length tb" "0 \<le> sd_request_length t" "0 \<le> sd_response_capture_length t"
  using assms
  by (auto simp: SpiDiagnosticTrace_decode_def SPI_DIAGNOSTIC_HEADER_SIZE_def result_bind_eq_Inr Let_def
      struct_unpack_from_def TRACE_STRUCT_def)

text \<open>The keys of a report are distinct, so that the dictionaries are merged by appending.\<close>

definition FAILURE_KEYS :: "string list" where
  "FAILURE_KEYS = [''latched'', ''startup_residue'', ''context'']"

definition TRACE_KEYS :: "string list" where
  "TRACE_KEYS = [''target_id'', ''command'', ''error_source'', ''transport_result'', ''target_txid'',
     ''request_fingerprint'', ''request_length'', ''response_capture_length'', ''response_frame_length'',
     ''request_crc'', ''response_crc_received'', ''response_crc_calculated'', ''response_crc_match'',
     ''irq_before_request'', ''irq_after_request'', ''irq_before_response'', ''irq_after_response'',
     ''request_bytes'', ''response_bytes'']"

definition TRANSFER_KEYS :: "string list" where
  "TRANSFER_KEYS = [''transfer_stage'', ''transfer_direction'', ''transfer_byte_index'', ''transfer_length'',
     ''transfer_completed'', ''spi_status'']"

definition REGISTER_KEYS :: "string list" where
  "REGISTER_KEYS = [''spi_ctrl0'', ''spi_ctrl1'', ''spi_clkdiv'', ''spi_fifo_th'', ''response_sample_count'',
     ''response_status_before_read'', ''response_data_words'', ''response_status_after_read'']"

definition GPIO_KEYS :: "string list" where
  "GPIO_KEYS = [''spi_backend'', ''spi_max_hz'', ''spi_half_period_cycles'']"

lemma all_keys_distinct:
  "distinct (FAILURE_KEYS @ TRACE_KEYS @ TRANSFER_KEYS @ REGISTER_KEYS @ GPIO_KEYS)"
  by code_simp

lemma report_keys [simp]:
  "map fst (spi_trace_dict t) = TRACE_KEYS"
  "map fst (transfer_report x) = TRANSFER_KEYS"
  "map fst (register_values r) = REGISTER_KEYS" "map fst (gpio_values r) = GPIO_KEYS"
  "map fst (registers_report r) = REGISTER_KEYS @ (if rg_ctrl0 r = GPIO_BACKEND then GPIO_KEYS else [])"
  by (simp_all add: spi_trace_dict_def transfer_report_def registers_report_def register_values_def
      gpio_values_def TRACE_KEYS_def
      TRANSFER_KEYS_def REGISTER_KEYS_def GPIO_KEYS_def)

lemma first_failure_keys: "distinct (map fst (first_failure_report ff))"
proof (cases ff)
  case Nothing_recorded
  then show ?thesis by (simp add: first_failure_report_def)
next
  case (Recorded latched ctx trace transfer regs)
  then have "map fst (first_failure_report ff) = FAILURE_KEYS @ TRACE_KEYS @ TRANSFER_KEYS
      @ (case regs of None \<Rightarrow> [] | Some r \<Rightarrow> REGISTER_KEYS @ (if rg_ctrl0 r = GPIO_BACKEND then GPIO_KEYS else []))"
    by (simp add: first_failure_report_def FAILURE_KEYS_def split: option.split)
  then show ?thesis using all_keys_distinct by (auto split: option.split)
qed

lemma merge_transfer:
  assumes "distinct (map fst (d @ t @ x))"
  shows "dict_update (dict_update d t) x = d @ t @ x"
proof -
  have "dict_update d t = d @ t" using assms by (intro dict_update_disjoint) auto
  then show ?thesis using dict_update_disjoint [of "d @ t" x] assms by simp
qed

lemma register_telemetry_layout:
  assumes "fields_ok REGISTER_STRUCT (register_fields r)" "length reserved = 3"
    and "\<forall>x \<in> set (rg_samples r). fields_ok [4, 4, 4] (sample_fields x)" and "length tb = 12"
    and keys: "map fst d = TRANSFER_KEYS"
  shows "register_telemetry (tb @ pack_fields REGISTER_STRUCT (register_fields r) @ reserved
      @ samples_layout (rg_samples r)) d = Inr (d @ registers_report r)"
proof -
  let ?head = "pack_fields REGISTER_STRUCT (register_fields r)"
  let ?ext = "tb @ ?head @ reserved @ samples_layout (rg_samples r)"
  have four: "?head = pack_fields [4, 4, 4, 4] [rg_ctrl0 r, rg_ctrl1 r, rg_clkdiv r, rg_fifo_th r]
      @ [word_of_int (int (length (rg_samples r)))]"
    by (simp add: REGISTER_STRUCT_def register_fields_def)
  have ok: "fields_ok [4, 4, 4, 4] [rg_ctrl0 r, rg_ctrl1 r, rg_clkdiv r, rg_fifo_th r]"
    and count: "length (rg_samples r) < 256"
    using assms(1) by (simp_all add: REGISTER_STRUCT_def register_fields_def)
  have regs: "struct_unpack_from [4, 4, 4, 4] ?ext 12 =
      Inr [rg_ctrl0 r, rg_ctrl1 r, rg_clkdiv r, rg_fifo_th r]"
    unfolding four using assms(4) ok by (simp del: pack_fields.simps unpack_fields.simps)
  have n: "unat (?ext ! 28) = length (rg_samples r)"
    unfolding four using assms(4) count by (simp add: nth_append unat_of_nat del: pack_fields.simps)
  have "length ?ext = 32 + length (rg_samples r) * 12"
    using assms(2,4) by (simp add: REGISTER_STRUCT_def del: pack_fields.simps)
  moreover have "read_samples (length (rg_samples r)) ?ext 32 ([], [], []) = Inr (map fst (rg_samples r),
      map (fst \<circ> snd) (rg_samples r), map (snd \<circ> snd) (rg_samples r))"
    using read_samples_layout [OF assms(3), of "tb @ ?head @ reserved" "[]" "[]" "[]"] assms(2,4)
    by (simp add: REGISTER_STRUCT_def del: pack_fields.simps)
  moreover have "dict_update d (register_values r) = d @ register_values r"
    using all_keys_distinct keys by (intro dict_update_disjoint) auto
  moreover have "dict_update (d @ register_values r) (gpio_values r) = (d @ register_values r) @ gpio_values r"
    using all_keys_distinct keys by (intro dict_update_disjoint) auto
  moreover have "register_telemetry ?ext d = Inr (if rg_ctrl0 r = GPIO_BACKEND
      then dict_update (dict_update d (register_values r)) (gpio_values r) else dict_update d (register_values r))"
    using calculation(1,2)
    by (simp add: register_telemetry_def regs n Let_def register_values_def gpio_values_def del: pack_fields.simps)
  ultimately show ?thesis by (simp add: registers_report_def)
qed

lemma latch_byte: "uint (of_bool l :: byte) = of_bool l" "uint (of_bool l :: byte) \<in> {0, 1}"
  by (cases l; simp)+

text \<open>Every payload of the two shapes is accepted, with its report.\<close>

lemma first_failure_complete:
  assumes "first_failure_shape ff payload"
  shows "first_spi_failure_dict payload = Inr (first_failure_report ff)"
proof (cases ff)
  case Nothing_recorded
  then show ?thesis
    using assms by (simp add: first_failure_shape_def first_spi_failure_dict_def first_failure_report_def
        name_or_unknown_def SPI_TRACE_CONTEXT_NAMES_def)
next
  case (Recorded latched ctx trace transfer regs)
  let ?tb = "pack_fields TRANSFER_STRUCT (transfer_fields transfer)"
  from assms Recorded obtain tb rb where
    ctx: "0 \<le> ctx" "ctx < 256" "\<not> latched \<longrightarrow> ctx \<in> {1, 2, 3, 4}" and
    ok: "fields_ok TRANSFER_STRUCT (transfer_fields transfer)" and
    payload: "payload = [of_bool latched, word_of_int ctx] @ tb @ ?tb @ rb" and
    dec: "SpiDiagnosticTrace_decode tb = Inr trace" and rb: "registers_shape regs rb"
    by (auto simp: first_failure_shape_def)
  note len = trace_decode_lengths [OF dec]
  have tb12: "length ?tb = 12" by (simp add: TRANSFER_STRUCT_def)
  have tl: "nat (24 + sd_request_length trace + sd_response_capture_length trace) = length tb"
    using len(1) by linarith
  have trace_payload: "drop 2 payload = tb @ ?tb @ rb" by (simp add: payload)
  have lens: "struct_unpack_from [2] (drop 2 payload) 12 = Inr [sd_request_length trace]"
    "struct_unpack_from [2] (drop 2 payload) 14 = Inr [sd_response_capture_length trace]"
    unfolding trace_payload using len(2-4) by simp_all
  have ext: "drop (2 + length tb) payload = ?tb @ rb" "slice 2 (2 + length tb) payload = tb"
    by (simp_all add: payload slice_def)
  have rest: "?tb = [word_of_int (tf_stage transfer), word_of_int (tf_direction transfer)]
      @ pack_fields [2, 2, 2, 4] (drop 2 (transfer_fields transfer))"
    and ok4: "fields_ok [2, 2, 2, 4] (drop 2 (transfer_fields transfer))"
    using ok by (simp_all add: TRANSFER_STRUCT_def transfer_fields_def)
  have v: "struct_unpack_from [2, 2, 2, 4] (?tb @ rb) 2 = Inr (drop 2 (transfer_fields transfer))"
    unfolding rest using ok4 by (simp del: pack_fields.simps unpack_fields.simps)
  have dict: "transfer_dict (?tb @ rb) (drop 2 (transfer_fields transfer)) = transfer_report transfer"
    using ok by (simp add: transfer_dict_def transfer_report_def TRANSFER_STRUCT_def transfer_fields_def
        uint_word_of_int_byte)
  have reg: "(if length (?tb @ rb) = 12 then Inr (transfer_report transfer)
      else if 32 \<le> length (?tb @ rb) then register_telemetry (?tb @ rb) (transfer_report transfer)
      else Inl (HostProtocolError ''unsupported first SPI failure extension length''))
     = Inr (transfer_report transfer @ (case regs of None \<Rightarrow> [] | Some r \<Rightarrow> registers_report r))"
    using rb tb12 register_telemetry_layout [OF _ _ _ tb12 report_keys(2)]
    by (cases regs) (auto simp: registers_shape_def REGISTER_STRUCT_def)
  have keys: "distinct (map fst ([(''latched'', Flag latched), (''startup_residue'', Flag (\<not> latched)),
        (''context'', Text c)] @ spi_trace_dict trace
        @ (transfer_report transfer @ (case regs of None \<Rightarrow> [] | Some r \<Rightarrow> registers_report r))))" for c
    using first_failure_keys [of "Recorded latched ctx trace transfer regs"]
    by (simp add: first_failure_report_def)
  have merged: "dict_update (dict_update [(''latched'', Flag latched), (''startup_residue'', Flag (\<not> latched)),
        (''context'', Text (name_or_unknown SPI_TRACE_CONTEXT_NAMES ctx))] (spi_trace_dict trace))
        (transfer_report transfer @ (case regs of None \<Rightarrow> [] | Some r \<Rightarrow> registers_report r))
     = first_failure_report ff"
    unfolding merge_transfer [OF keys] by (simp add: first_failure_report_def Recorded)
  have size: "\<not> length payload < 2" "length payload \<noteq> 2" "\<not> length payload < 2 + 24 + 12"
    and bytes: "uint (payload ! 0) = of_bool latched" "uint (payload ! 1) = ctx"
    using len(4) tb12 ctx by (simp_all add: payload uint_word_of_int_byte)
  define e where "e = ?tb @ rb"
  have "\<not> length e < 12" using tb12 by (simp add: e_def)
  with size bytes lens ext dec v dict reg merged tl ctx(3) show ?thesis
    unfolding e_def [symmetric] first_spi_failure_dict_def Let_def
    by (cases latched) (simp_all only: check_False result_bind_Inr if_False if_True simp_thms nth_Cons_0
        of_bool_eq insert_iff empty_iff zero_neq_one one_neq_zero)
qed

text \<open>Nothing else is accepted.\<close>

lemma accepted_parts:
  assumes "first_spi_failure_dict payload = Inr rep" and "length payload \<noteq> 2"
  obtains tl trace d x where "\<not> length (drop (2 + tl) payload) < 12"
    and "SpiDiagnosticTrace_decode (slice 2 (2 + tl) payload) = Inr trace"
    and "(if length (drop (2 + tl) payload) = 12 then Inr d
       else if 32 \<le> length (drop (2 + tl) payload) then register_telemetry (drop (2 + tl) payload) d
       else Inl (HostProtocolError ''unsupported first SPI failure extension length'')) = Inr x"
    and "uint (payload ! 0) \<in> {0, 1}" and "uint (payload ! 0) = 0 \<longrightarrow> uint (payload ! 1) \<in> {1, 2, 3, 4}"
proof -
  note eq = assms(1) [unfolded first_spi_failure_dict_def Let_def if_not_P [OF assms(2)] check_eq_Inr
      result_bind_eq_Inr]
  have last: "uint (payload ! 0) = 0 \<longrightarrow> uint (payload ! 1) \<in> {1, 2, 3, 4}"
    if "(if uint (payload ! 0) = 0 then check (uint (payload ! 1) \<notin> {1, 2, 3, 4}) e k else k') = Inr rep" for e k k'
    using that by (auto split: if_splits)
  from eq show thesis
    by (elim exE conjE) (rule that [OF _ _ _ _ last]; (assumption | simp))
qed

lemma register_telemetry_accepts:
  assumes "register_telemetry ext d = Inr x" and "32 \<le> length ext"
  obtains r where "registers_shape (Some r) (drop 12 ext)"
proof -
  let ?n = "unat (ext ! 28)" and ?rb = "drop 12 ext"
  have len: "length ?rb = 20 + 12 * ?n"
    using assms(1) by (auto simp: register_telemetry_def Let_def result_bind_eq_Inr)
  then have "length (take 17 ?rb) = sum_list REGISTER_STRUCT" by (simp add: REGISTER_STRUCT_def)
  then obtain xs where xs: "fields_ok REGISTER_STRUCT xs" "take 17 ?rb = pack_fields REGISTER_STRUCT xs"
    using packed_ex by blast
  then obtain a b c e m where fields: "xs = [a, b, c, e, m]"
    by (auto simp: REGISTER_STRUCT_def fields_ok_Cons_ex)
  have "m = unpack_fields REGISTER_STRUCT (take 17 ?rb) ! 4"
    using unpack_pack_fields_simps(1) [OF xs(1)] by (simp add: xs(2) fields)
  also have "\<dots> = uint (ext ! 28)"
    using assms(2) by (simp add: REGISTER_STRUCT_def take_Suc_conv_app_nth drop_take hd_drop_conv_nth
        take_Suc be_int_def)
  finally have m: "m = int ?n" by simp
  have "length (drop 20 ?rb) = 12 * ?n" using len by simp
  from samples_ex [OF this] obtain ss where ss: "length ss = ?n"
    "\<forall>x \<in> set ss. fields_ok [4, 4, 4] (sample_fields x)" "drop 20 ?rb = samples_layout ss"
    by blast
  let ?r = "\<lparr>rg_ctrl0 = a, rg_ctrl1 = b, rg_clkdiv = c, rg_fifo_th = e, rg_samples = ss\<rparr>"
  have fields_r: "register_fields ?r = xs" by (simp add: register_fields_def fields m ss)
  have "take 20 ?rb = take 17 ?rb @ slice 17 20 ?rb" by (rule take_eq_slice_append) simp
  then have parts: "?rb = take 17 ?rb @ slice 17 20 ?rb @ drop 20 ?rb"
    by (metis append.assoc append_take_drop_id)
  moreover have "length (slice 17 20 ?rb) = 3" using len by simp
  ultimately have "registers_shape (Some ?r) ?rb"
    unfolding registers_shape_def option.case fields_r using xs ss
    by (metis select_convs(5))
  then show thesis by (rule that)
qed

lemma first_failure_sound:
  assumes "first_spi_failure_dict payload = Inr rep"
  obtains ff where "first_failure_shape ff payload"
proof (cases "length payload = 2")
  case True
  then obtain a b where payload: "payload = [a, b]"
    by (metis (no_types) One_nat_def Suc_1 length_0_conv length_Suc_conv)
  then have "uint a = 0 \<and> uint b = 0"
    using assms by (simp add: first_spi_failure_dict_def Let_def)
  then have "first_failure_shape Nothing_recorded payload"
    by (simp add: payload first_failure_shape_def uint_0_iff)
  then show thesis by (rule that)
next
  case False
  from accepted_parts [OF assms False] obtain n trace d x where
    ext: "\<not> length (drop (2 + n) payload) < 12" and
    dec: "SpiDiagnosticTrace_decode (slice 2 (2 + n) payload) = Inr trace" and
    reg: "(if length (drop (2 + n) payload) = 12 then Inr d
       else if 32 \<le> length (drop (2 + n) payload) then register_telemetry (drop (2 + n) payload) d
       else Inl (HostProtocolError ''unsupported first SPI failure extension length'')) = Inr x" and
    latch: "uint (payload ! 0) \<in> {0, 1}" "uint (payload ! 0) = 0 \<longrightarrow> uint (payload ! 1) \<in> {1, 2, 3, 4}"
    by metis
  define tb e where "tb = slice 2 (2 + n) payload" and "e = drop (2 + n) payload"
  have "length (take 12 e) = sum_list TRANSFER_STRUCT"
    using ext by (simp add: TRANSFER_STRUCT_def e_def)
  then obtain xs where xs: "fields_ok TRANSFER_STRUCT xs" "take 12 e = pack_fields TRANSFER_STRUCT xs"
    using packed_ex by blast
  then obtain a b c f g h where fields: "xs = [a, b, c, f, g, h]"
    by (auto simp: TRANSFER_STRUCT_def fields_ok_Cons_ex)
  let ?t = "\<lparr>tf_stage = a, tf_direction = b, tf_byte_index = c, tf_length = f, tf_completed = g, tf_status = h\<rparr>"
  have fields_t: "transfer_fields ?t = xs" by (simp add: transfer_fields_def fields)
  obtain regs where regs: "registers_shape regs (drop 12 e)"
  proof (cases "length e = 12")
    case True
    then have "registers_shape None (drop 12 e)" by (simp add: registers_shape_def)
    then show thesis by (rule that)
  next
    case False
    with reg have "register_telemetry e d = Inr x" "32 \<le> length e"
      by (auto simp: e_def split: if_splits)
    then obtain r where "registers_shape (Some r) (drop 12 e)" by (rule register_telemetry_accepts)
    then show thesis by (rule that)
  qed
  have "payload = take 2 payload @ tb @ e"
    by (metis append.assoc append_take_drop_id e_def le_add1 take_eq_slice_append tb_def)
  moreover have "take 2 payload = [payload ! 0, payload ! 1]"
    using ext by (cases payload; cases "List.tl payload") auto
  moreover have "payload ! 0 = of_bool (uint (payload ! 0) = 1)"
    using latch(1) by (auto simp: word_uint_eq_iff)
  ultimately have "payload = [of_bool (uint (payload ! 0) = 1), word_of_int (uint (payload ! 1))] @ tb
      @ pack_fields TRANSFER_STRUCT (transfer_fields ?t) @ drop 12 e"
    by (metis append_take_drop_id fields_t word_of_int_uint xs(2))
  then have parts: "\<exists>tb rb. payload = [of_bool (uint (payload ! 0) = 1), word_of_int (uint (payload ! 1))] @ tb
      @ pack_fields TRANSFER_STRUCT xs @ rb \<and> SpiDiagnosticTrace_decode tb = Inr trace \<and> registers_shape regs rb"
    unfolding fields_t using dec [folded tb_def] regs by blast
  have "first_failure_shape (Recorded (uint (payload ! 0) = 1) (uint (payload ! 1)) trace ?t regs) payload"
    unfolding first_failure_shape_def first_failure.case fields_t
    by (intro conjI; (fact parts | fact xs(1) | use latch in auto))
  then show thesis by (rule that)
qed

theorem first_failure_iff:
  "first_spi_failure_dict payload = Inr rep \<longleftrightarrow>
     (\<exists>ff. first_failure_shape ff payload \<and> rep = first_failure_report ff)"
  using first_failure_complete first_failure_sound by (metis sum.inject(2))

section \<open>The exceptions of a decoder\<close>

definition raises_only :: "(exn \<Rightarrow> bool) \<Rightarrow> 'a result \<Rightarrow> bool" where
  "raises_only C r \<longleftrightarrow> (\<forall>e. r = Inl e \<longrightarrow> C e)"

named_theorems raises_intros "which exceptions a pure computation raises"

lemma raises_Inr [raises_intros]: "raises_only C (Inr x)"
  by (simp add: raises_only_def)

lemma raises_Inl [raises_intros]: "C e \<Longrightarrow> raises_only C (Inl e)"
  by (simp add: raises_only_def)

lemma raises_check [raises_intros]:
  "C e \<Longrightarrow> (\<not> bad \<Longrightarrow> raises_only C k) \<Longrightarrow> raises_only C (check bad e k)"
  by (auto simp: raises_only_def check_def)

lemma raises_bind [raises_intros]:
  "raises_only C m \<Longrightarrow> (\<And>x. m = Inr x \<Longrightarrow> raises_only C (k x)) \<Longrightarrow> raises_only C (result_bind m k)"
  by (cases m) (auto simp: raises_only_def)

lemma raises_of_option [raises_intros]: "C e \<Longrightarrow> raises_only C (of_option e m)"
  by (cases m) (auto simp: raises_only_def of_option_def)

lemma raises_if [raises_intros]:
  "(c \<Longrightarrow> raises_only C m) \<Longrightarrow> (\<not> c \<Longrightarrow> raises_only C k) \<Longrightarrow> raises_only C (if c then m else k)"
  by simp

lemma raises_unpack [raises_intros]:
  "length bs = sum_list ws \<Longrightarrow> raises_only C (struct_unpack ws bs)"
  "offset + sum_list ws \<le> length bs \<Longrightarrow> raises_only C (struct_unpack_from ws bs offset)"
  by (simp_all add: raises_only_def)

lemma raises_mono: "raises_only C r \<Longrightarrow> (\<And>e. C e \<Longrightarrow> D e) \<Longrightarrow> raises_only D r"
  by (simp add: raises_only_def)

lemma trace_decode_raises: "raises_only is_HostProtocolError (SpiDiagnosticTrace_decode bs)"
  unfolding SpiDiagnosticTrace_decode_def Let_def
  by (intro raises_intros) (simp_all add: SPI_DIAGNOSTIC_HEADER_SIZE_def TRACE_STRUCT_def)

lemma read_samples_raises:
  "offset + 12 * n \<le> length bs \<Longrightarrow> raises_only C (read_samples n bs offset acc)"
  by (induction n arbitrary: offset acc)
    (auto intro!: raises_intros simp: split_beta simp del: One_nat_def)

lemma register_telemetry_raises:
  "32 \<le> length bs \<Longrightarrow> raises_only is_HostProtocolError (register_telemetry bs d)"
  unfolding register_telemetry_def Let_def split_beta
  by (intro raises_intros read_samples_raises) simp_all

lemma first_spi_failure_dict_raises: "raises_only is_HostProtocolError (first_spi_failure_dict payload)"
  unfolding first_spi_failure_dict_def Let_def
  by (intro raises_intros trace_decode_raises register_telemetry_raises) simp_all

end
