(* ===== verification/Exceptions.thy ===== *)
theory Exceptions
  imports Report
begin

text \<open>
  Which exceptions the commands raise. \<open>fails_with C m\<close>: from a well-formed client, \<open>m\<close> raises exceptions
  of the class \<open>C\<close> only (and keeps the client well formed). When the port and the event handler raise
  only exceptions that the command lines catch, so does every command: no \<open>struct.error\<close>, no
  \<open>OverflowError\<close>, no \<open>AssertionError\<close> escapes, except for a transaction ID given on the command line
  that does not fit 16 bits.
\<close>

definition cli_caught :: "exn \<Rightarrow> bool" where
  "cli_caught e \<longleftrightarrow> is_RemoteError e \<or> is_HostProtocolError e \<or> is_TimeoutError e \<or> is_OSError e
     \<or> is_ValueError e"

lemma cli_caught_simps [simp]:
  "cli_caught (HostProtocolError m)" "cli_caught (ValueError m)" "cli_caught (TimeoutError m)"
  "cli_caught (RemoteError c a b d)" "cli_caught (ProtocolDecodeError ec m)" "cli_caught (CobsDecodeError m)"
  "cli_caught (OSError m)" "\<not> cli_caught StructError"
  by (simp_all add: cli_caught_def)

definition port_caught :: "'w port \<Rightarrow> bool" where
  "port_caught P \<longleftrightarrow>
     (\<forall>w. raises_only cli_caught (fst (p_read P w))) \<and>
     (\<forall>bs w. raises_only cli_caught (fst (p_write P bs w))) \<and>
     (\<forall>w. raises_only cli_caught (fst (p_flush P w))) \<and>
     (case p_event_handler P of None \<Rightarrow> True
        | Some h \<Rightarrow> \<forall>e w. raises_only cli_caught (fst (h e w)))"

lemma port_caught_scripted: "port_caught scripted"
  by (simp add: port_caught_def scripted_def raises_only_def split: list.split)

section \<open>Pure computations\<close>

lemma raises_struct_pack [raises_intros]: "fields_ok ws xs \<Longrightarrow> raises_only C (struct_pack ws xs)"
  by (simp add: raises_only_def)

lemma raises_rewrap [raises_intros]:
  "raises_only D r \<Longrightarrow> (\<And>e. D e \<Longrightarrow> cls e) \<Longrightarrow> C new \<Longrightarrow> raises_only C (rewrap cls new r)"
  by (auto simp: raises_only_def rewrap_def split: sum.splits)

lemma check_flags_raises [raises_intros]: "(\<And>c m. C (ProtocolDecodeError c m)) \<Longrightarrow> raises_only C (check_flags flags)"
  by (simp add: check_flags_def raises_intros)

lemma and_byte_range: "0 \<le> (x :: int) AND 255" "(x :: int) AND 255 < 256"
  by simp_all

lemma host_encode_wire_raises: "raises_only cli_caught (host_encode_wire f)"
  unfolding host_encode_wire_def host_encode_raw_def Let_def
  by (intro raises_intros) (auto simp: PC_HEADER_def PC_MAX_PAYLOAD_def PROTOCOL_VERSION_def)

lemma host_decode_wire_raises: "raises_only cli_caught (host_decode_wire wire)"
proof -
  have "raises_only cli_caught (host_decode_raw raw)" for raw
    unfolding host_decode_raw_def Let_def
    by (intro raises_intros) (auto simp: PC_HEADER_def)
  then show ?thesis
    by (auto simp: host_decode_wire_def intro!: raises_intros split: sum.split)
qed

lemma spi_decode_raises: "raises_only is_ProtocolDecodeError (spi_decode bs)"
  unfolding spi_decode_def Let_def by (intro raises_intros) (auto simp: SPI_HEADER_def)

lemma raise_remote_error_raises: "raises_only cli_caught (raise_remote_error frame)"
  unfolding raise_remote_error_def by (intro raises_intros) (auto simp: REMOTE_ERROR_STRUCT_def)

lemma decoder_raises:
  "raises_only cli_caught (SystemStatus_decode bs)" "raises_only cli_caught (SystemInfo_decode bs)"
  "raises_only cli_caught (TransactionResult_decode bs)" "raises_only cli_caught (LastErrorSnapshot_decode bs)"
  "raises_only is_ValueError (EventEnvelope_decode bs)"
  unfolding SystemStatus_decode_def SystemInfo_decode_def TransactionResult_decode_def
    LastErrorSnapshot_decode_def EventEnvelope_decode_def Let_def
  by (intro raises_intros; simp add: TXN_STRUCT_def EVENT_STRUCT_def LAST_ERROR_STRUCT_def)+

lemma is_HostProtocolError_caught: "is_HostProtocolError e \<Longrightarrow> cli_caught e"
  by (simp add: cli_caught_def)

lemma is_ValueError_caught: "is_ValueError e \<Longrightarrow> cli_caught e"
  by (simp add: cli_caught_def)

lemma validate_live_spi_trace_raises:
  "raises_only is_HostProtocolError (validate_live_spi_trace trace target command)"
proof -
  have fp: "raises_only is_HostProtocolError (request_fingerprint_crc32c c 0 [])" for c
    by (simp add: request_fingerprint_crc32c_def raises_only_def result_bind_def)
  show ?thesis
    unfolding validate_live_spi_trace_def Let_def
    by (intro raises_rewrap [OF spi_decode_raises] raises_intros fp) auto
qed

section \<open>Computations of the client\<close>

definition fails_with :: "(exn \<Rightarrow> bool) \<Rightarrow> ('w, 'a) io \<Rightarrow> bool" where
  "fails_with C m \<longleftrightarrow> (\<forall>s. client_ok s \<longrightarrow> wp True m (\<lambda>_. client_ok) (\<lambda>e s'. C e \<and> client_ok s') s)"

named_theorems fails_intros "which exceptions a computation raises"

lemma fails_pure [fails_intros]:
  "fails_with C (io_return a)" "C e \<Longrightarrow> fails_with C (io_raise e)"
  "raises_only C r \<Longrightarrow> fails_with C (io_lift r)"
  by (simp_all add: fails_with_def wp_simps raises_only_def split: sum.split)

lemma fails_bind_yields:
  assumes "fails_with C m" and "yields S m" and "\<And>a. S a \<Longrightarrow> fails_with C (k a)"
  shows "fails_with C (io_bind m k)"
  unfolding fails_with_def wp_bind
proof (intro allI impI)
  fix s :: "'a client"
  assume s: "client_ok s"
  have "wp True m (\<lambda>a s'. client_ok s' \<and> S a) (\<lambda>e s'. (C e \<and> client_ok s') \<and> True) s"
    using assms(1,2) s by (intro wp_conj) (simp_all add: fails_with_def yields_def)
  then show "wp True m (\<lambda>a. wp True (k a) (\<lambda>_. client_ok) (\<lambda>e s'. C e \<and> client_ok s'))
      (\<lambda>e s'. C e \<and> client_ok s') s"
    by (rule wp_mono) (use assms(3) in \<open>auto simp: fails_with_def\<close>)
qed

lemma fails_bind [fails_intros]:
  "fails_with C m \<Longrightarrow> (\<And>a. fails_with C (k a)) \<Longrightarrow> fails_with C (io_bind m k)"
  by (rule fails_bind_yields [OF _ yields_any])

lemma fails_bind_lift:
  "raises_only C r \<Longrightarrow> (\<And>a. r = Inr a \<Longrightarrow> fails_with C (k a)) \<Longrightarrow> fails_with C (io_bind (io_lift r) k)"
  by (rule fails_bind_yields [OF fails_pure(3) yields_lift])

lemma fails_then [fails_intros]: "fails_with C m \<Longrightarrow> fails_with C k \<Longrightarrow> fails_with C (io_then m k)"
  unfolding io_then_def by (rule fails_bind)

lemma fails_check [fails_intros]:
  "C e \<Longrightarrow> (\<not> bad \<Longrightarrow> fails_with C k) \<Longrightarrow> fails_with C (io_check bad e k)"
  by (auto simp: io_check_def fails_pure)

lemma fails_if [fails_intros]:
  "(c \<Longrightarrow> fails_with C m) \<Longrightarrow> (\<not> c \<Longrightarrow> fails_with C k) \<Longrightarrow> fails_with C (if c then m else k)"
  by simp

lemma fails_split [fails_intros]: "(\<And>x y. fails_with C (k x y)) \<Longrightarrow> fails_with C (case z of (x, y) \<Rightarrow> k x y)"
  by (cases z) simp

lemma fails_try:
  assumes "fails_with D m" and "\<And>e. D e \<Longrightarrow> fails_with C (h e)"
  shows "fails_with C (io_try m h)"
  unfolding fails_with_def wp_try
proof (intro allI impI)
  fix s :: "'a client"
  assume "client_ok s"
  with assms(1) have "wp True m (\<lambda>_. client_ok) (\<lambda>e s'. D e \<and> client_ok s') s" by (simp add: fails_with_def)
  then show "wp True m (\<lambda>_. client_ok) (\<lambda>e. wp True (h e) (\<lambda>_. client_ok) (\<lambda>e s'. C e \<and> client_ok s')) s"
    by (rule wp_mono) (use assms(2) in \<open>auto simp: fails_with_def\<close>)
qed

lemma fails_finally [fails_intros]:
  assumes "fails_with C m" and "fails_with C fin"
  shows "fails_with C (io_finally m fin)"
  unfolding fails_with_def wp_finally
proof (intro allI impI)
  fix s :: "'a client"
  assume "client_ok s"
  with assms(1) have "wp True m (\<lambda>_. client_ok) (\<lambda>e s'. C e \<and> client_ok s') s" by (simp add: fails_with_def)
  then show "wp True m (\<lambda>a. wp True fin (\<lambda>_. client_ok) (\<lambda>e s'. C e \<and> client_ok s'))
      (\<lambda>e. wp True fin (\<lambda>_ s'. C e \<and> client_ok s') (\<lambda>e s'. C e \<and> client_ok s')) s"
  proof (rule wp_mono)
    fix e and s :: "'a client"
    assume "C e \<and> client_ok s"
    with assms(2) have "wp True fin (\<lambda>_. client_ok) (\<lambda>e s'. C e \<and> client_ok s') s" and "C e"
      by (simp_all add: fails_with_def)
    then show "wp True fin (\<lambda>_ s'. C e \<and> client_ok s') (\<lambda>e s'. C e \<and> client_ok s') s"
      by (auto elim: wp_mono)
  qed (use assms(2) in \<open>simp add: fails_with_def\<close>)
qed

lemma fails_for [fails_intros]:
  "(\<And>acc x. x \<in> set xs \<Longrightarrow> fails_with C (body acc x)) \<Longrightarrow> fails_with C (io_for xs body acc)"
  unfolding fails_with_def by (intro allI impI wp_for_partial [where I = "\<lambda>_. client_ok"]) auto

lemma fails_loop [fails_intros]:
  fixes body :: "'x \<Rightarrow> ('w, 'x + 'b) io"
  shows "(\<And>x. fails_with C (body x)) \<Longrightarrow> fails_with C (io_loop body x)"
  unfolding fails_with_def
proof (intro allI impI)
  fix s :: "'w client"
  assume body: "\<And>x. \<forall>s. client_ok s \<longrightarrow> wp True (body x) (\<lambda>_. client_ok) (\<lambda>e s'. C e \<and> client_ok s') s"
    and "client_ok s"
  show "wp True (io_loop body x) (\<lambda>_. client_ok) (\<lambda>e s'. C e \<and> client_ok s') s"
    by (rule wp_loop_partial [where I = "\<lambda>_. client_ok"])
      (use body \<open>client_ok s\<close> in \<open>auto elim!: wp_mono split: sum.split\<close>)
qed

lemma fails_world [fails_intros]: "(\<And>w. raises_only C (fst (f w))) \<Longrightarrow> fails_with C (io_world f)"
  by (auto simp: fails_with_def wp_simps raises_only_def split: sum.split)

lemma fails_mono: "fails_with C m \<Longrightarrow> (\<And>e. C e \<Longrightarrow> D e) \<Longrightarrow> fails_with D m"
  unfolding fails_with_def by (blast intro: wp_mono)

section \<open>The commands\<close>

lemma read_wire_frame_yields: "yields host_wf (read_wire_frame P deadline)"
  unfolding read_wire_frame_def
proof (rule yields_loop)
  fix x
  show "yields (\<lambda>z. case z of Inl _ \<Rightarrow> True | Inr b \<Rightarrow> host_wf b) (read_wire_step P deadline x)"
    unfolding read_wire_step_def
  proof (rule yields_bind_any, rule yields_check, rule yields_bind_any)
    fix chunk :: bytes
    have frame: "yields (\<lambda>z. case z of Inl _ \<Rightarrow> True | Inr b \<Rightarrow> host_wf b)
        (io_bind (io_lift (host_decode_wire wire)) (\<lambda>frame. io_return (Inr frame)))" for wire
      by (rule yields_bind [where S = host_wf]) (auto intro!: yields_lift yields_return host_decode_wire_wf)
    show "yields (\<lambda>z. case z of Inl _ \<Rightarrow> True | Inr b \<Rightarrow> host_wf b) (case chunk of
       [] \<Rightarrow> io_return (Inl ())
     | value # _ \<Rightarrow>
        io_bind get_rx (\<lambda>buffer.
        io_then (set_rx (buffer @ [value]))
       (io_bind get_rx (\<lambda>wire.
        if value = 0 then
          io_then (set_rx []) (io_bind (io_lift (host_decode_wire wire)) (\<lambda>frame. io_return (Inr frame)))
        else if length wire > 272 then
          io_then (set_rx [])
            (io_raise (HostProtocolError ''incoming PC frame exceeds maximum wire size''))
        else io_return (Inl ())))))"
      by (cases chunk; simp only: list.case)
        (auto intro!: yields_return yields_bind_any yields_then yields_if frame yields_raise)
  qed
qed

text \<open>The transaction ID of a response fits 16 bits.\<close>

lemma request_yields: "yields host_wf (request P command payload timeout)"
proof -
  have "yields (\<lambda>z. case z of Inl _ \<Rightarrow> True | Inr b \<Rightarrow> host_wf b) (request_step P command txid deadline x)"
    for txid deadline x
    unfolding request_step_def
  proof (rule yields_bind [where S = host_wf])
    show "yields host_wf (io_try (read_wire_frame P deadline)
        (\<lambda>e. if is_TimeoutError e then io_raise (TimeoutError ''timed out waiting for SN32 response: command, txid'')
             else io_raise e))"
      by (intro yields_try read_wire_frame_yields yields_if yields_raise)
  qed (auto intro!: yields_if yields_then yields_check yields_return)
  then show ?thesis
    unfolding request_def
    by (intro yields_bind_any yields_check yields_then yields_loop)
qed

lemma fails_allocate_txid [fails_intros]: "fails_with C allocate_txid"
  by (auto simp: fails_with_def wp_simps client_ok_def)

text \<open>The contract of a port whose exceptions the command lines catch.\<close>

locale catching_port =
  fixes P :: "'w port"
  assumes port_caught: "port_caught P"
begin

lemma fails_primitives:
  "fails_with cli_caught (serial_write P bs)" "fails_with cli_caught (serial_flush P)"
  "fails_with cli_caught (monotonic P)" "fails_with cli_caught (time_sleep P d)"
  using port_caught
  by (auto simp: port_caught_def serial_write_def serial_flush_def monotonic_def time_sleep_def
      intro!: fails_intros raises_intros)

lemma fails_read_wire_step: "fails_with cli_caught (read_wire_step P deadline u)"
  unfolding fails_with_def
proof (intro allI impI)
  fix s :: "'w client"
  assume ok: "client_ok s"
  show "wp True (read_wire_step P deadline u) (\<lambda>_. client_ok) (\<lambda>e s'. cli_caught e \<and> client_ok s') s"
    by (rule wp_read_wire_step [OF ok])
      (use ok port_caught host_decode_wire_raises in
        \<open>auto simp: port_caught_def raises_only_def client_ok_def\<close>)
qed

lemma fails_read_wire_frame: "fails_with cli_caught (read_wire_frame P deadline)"
  unfolding read_wire_frame_def by (intro fails_loop fails_read_wire_step)

lemma fails_handle_event: "fails_with cli_caught (handle_event P frame)"
proof -
  have "fails_with cli_caught (case p_event_handler P of None \<Rightarrow> io_return () | Some h \<Rightarrow> io_world (h event))" for event
    using port_caught by (auto simp: port_caught_def intro!: fails_intros split: option.split)
  then show ?thesis
    unfolding handle_event_def
    by (intro fails_intros fails_try [where D = is_ValueError] decoder_raises) (auto intro: is_ValueError_caught)
qed

lemma fails_request: "fails_with cli_caught (request P command payload timeout)"
  unfolding request_def request_step_def
  by (intro fails_intros fails_primitives raise_remote_error_raises host_encode_wire_raises
      fails_handle_event fails_try [OF fails_read_wire_frame]) simp_all

lemma fails_request_then:
  "(\<And>f. host_wf f \<Longrightarrow> fails_with cli_caught (k f)) \<Longrightarrow>
     fails_with cli_caught (io_bind (request P command payload timeout) k)"
  by (rule fails_bind_yields [OF fails_request request_yields])

lemmas fails_rules = fails_intros fails_primitives fails_request decoder_raises raises_intros

lemma fails_ping: "fails_with cli_caught (ping P)"
  unfolding ping_def by (intro fails_rules) simp_all

lemma fails_get_system_info: "fails_with cli_caught (get_system_info P)"
  unfolding get_system_info_def by (intro fails_rules)

lemma fails_get_system_status: "fails_with cli_caught (get_system_status P)"
  unfolding get_system_status_def by (intro fails_rules)

lemma fails_get_last_error: "fails_with cli_caught (get_last_error P)"
  unfolding get_last_error_def by (intro fails_rules)

lemma fails_spi_diagnostic: "fails_with cli_caught (spi_diagnostic P target command)"
  unfolding spi_diagnostic_def
  by (intro fails_rules raises_mono [OF trace_decode_raises is_HostProtocolError_caught]) simp_all

lemma fails_get_transaction_result:
  "0 \<le> txid \<Longrightarrow> txid < 2 ^ 16 \<Longrightarrow> fails_with cli_caught (get_transaction_result P txid)"
  unfolding get_transaction_result_def by (intro fails_rules) simp

lemma fails_retire_transaction_result:
  "0 \<le> txid \<Longrightarrow> txid < 2 ^ 16 \<Longrightarrow> fails_with cli_caught (retire_transaction_result P txid)"
  unfolding retire_transaction_result_def by (intro fails_rules) simp_all

text \<open>A self test returns a transaction ID that the next query can pack.\<close>

lemma self_test_mask:
  fixes target_mask :: int
  assumes "\<not> (target_mask = 0 \<or> target_mask AND NOT SELF_TEST_TARGETS \<noteq> 0)"
  shows "0 \<le> target_mask" "target_mask < 16"
  using assms int_and_not_15 [of target_mask]
  by (simp_all add: SELF_TEST_TARGETS_def)

lemma fails_start_self_test: "fails_with cli_caught (start_self_test P target_mask profile test_mask)"
proof -
  have range: "TestProfile_value profile < 256" by simp
  show ?thesis
    unfolding start_self_test_def
    by (intro fails_rules) (use range self_test_mask [of target_mask] in auto)
qed

lemma start_self_test_yields:
  "yields (\<lambda>txid. 0 \<le> txid \<and> txid < 2 ^ 16) (start_self_test P target_mask profile test_mask)"
  unfolding start_self_test_def
  by (intro yields_check yields_bind_any yields_bind [OF request_yields] yields_return) (simp add: host_wf_def)

lemma fails_wait_for_transaction:
  assumes "0 \<le> txid" "txid < 2 ^ 16"
  shows "fails_with cli_caught (wait_for_transaction P txid command timeout interval)"
proof -
  have "raises_only cli_caught (check_retained txid command r)" for r
    unfolding check_retained_def by (cases r) (auto intro!: raises_intros)
  then show ?thesis
    unfolding wait_for_transaction_def poll_step_def
    using assms by (intro fails_rules fails_get_transaction_result)
qed

lemmas fails_commands = fails_intros fails_primitives fails_ping fails_get_system_info
  fails_get_system_status fails_get_last_error fails_spi_diagnostic fails_start_self_test
  fails_wait_for_transaction fails_retire_transaction_result

text \<open>A computation that continues with the ID of a self test.\<close>

lemma fails_self_test_then:
  "(\<And>txid. 0 \<le> txid \<Longrightarrow> txid < 2 ^ 16 \<Longrightarrow> fails_with cli_caught (k txid)) \<Longrightarrow>
     fails_with cli_caught (io_bind (start_self_test P targets profile tests) k)"
  by (rule fails_bind_yields [OF fails_start_self_test start_self_test_yields]) blast

lemma fails_run_p1_bringup: "fails_with cli_caught (run_p1_bringup P timeout interval)"
  unfolding run_p1_bringup_def start_p1_self_test_def
  by (intro fails_self_test_then fails_commands) simp_all

lemma fails_dual_self_test: "fails_with cli_caught (dual_self_test P endpoint tests timeout interval)"
  unfolding dual_self_test_def by (intro fails_self_test_then fails_commands)

lemma fails_run_dual_spi_bringup: "fails_with cli_caught (run_dual_spi_bringup P timeout interval)"
  unfolding run_dual_spi_bringup_def by (intro fails_commands fails_dual_self_test) simp_all

lemma fails_live_trace_step: "fails_with cli_caught (live_trace_step P traces x)"
  unfolding live_trace_step_def split_beta
  by (intro fails_commands raises_rewrap [OF validate_live_spi_trace_raises]) simp_all

lemma fails_liveness_step: "fails_with cli_caught (liveness_step P acc x)"
  unfolding liveness_step_def split_beta by (intro fails_commands) simp_all

lemma fails_run_sn32_hardware_qualification:
  "fails_with cli_caught (run_sn32_hardware_qualification P timeout interval n)"
  unfolding run_sn32_hardware_qualification_def Let_def
  by (intro fails_commands fails_live_trace_step fails_liveness_step fails_run_dual_spi_bringup) simp_all

end

section \<open>The managed commands\<close>

lemma get_system_status_yields: "yields SystemStatus_wf (get_system_status P)"
  unfolding get_system_status_def by (intro yields_bind_any yields_lift) (rule status.dec_wf)

lemma require_seed_raises: "raises_only cli_caught (require_seed seed)"
  unfolding require_seed_def by (intro raises_intros) simp

lemma bytes_fromhex_raises: "raises_only is_ValueError (bytes_fromhex cs)"
  by (induction cs rule: bytes_fromhex.induct)
    (auto simp: raises_only_def result_bind_def split: list.splits option.splits sum.splits if_splits)

lemma parse_hex_raises:
  "raises_only cli_caught (parse_seed_hex cs)" "raises_only cli_caught (parse_plaintext_hex cs)"
  unfolding parse_seed_hex_def parse_plaintext_hex_def
  by (intro raises_rewrap [OF bytes_fromhex_raises] raises_intros; simp)+

lemma decode_telemetry_result_raises: "raises_only cli_caught (decode_telemetry_result txid payload)"
  unfolding decode_telemetry_result_def Let_def by (intro raises_intros) (simp_all add: AUTH_STRUCT_def)

lemma validate_full_preflight_raises: "raises_only cli_caught (validate_full_preflight info status)"
  unfolding validate_full_preflight_def Let_def by (intro raises_intros) simp_all

context catching_port
begin

lemma fails_retire_active: "fails_with cli_caught (retire_active_host_transaction P)"
  unfolding retire_active_host_transaction_def
  by (rule fails_bind_yields [OF fails_get_system_status get_system_status_yields], intro fails_commands)
    (simp_all add: SystemStatus_wf_def)

lemma fails_retire_quietly: "fails_with C (io_try (retire_active_host_transaction P) (\<lambda>_. io_return x))"
  by (rule fails_try [OF fails_retire_active]) (rule fails_intros)

lemma fails_retained_request: "fails_with cli_caught (retained_request P command payload timeout)"
proof -
  have try_request: "fails_with cli_caught (io_try (request P (HostCommand_value command) payload timeout)
      (\<lambda>e. if is_RemoteError e then io_then (io_try (retire_active_host_transaction P) (\<lambda>_. io_return 0)) (io_raise e)
           else io_raise e))"
    by (intro fails_try [OF fails_request] fails_intros fails_retire_quietly)
  have wf: "yields host_wf (io_try (request P (HostCommand_value command) payload timeout)
      (\<lambda>e. if is_RemoteError e then io_then (io_try (retire_active_host_transaction P) (\<lambda>_. io_return 0)) (io_raise e)
           else io_raise e))"
    by (intro yields_try request_yields yields_if yields_then yields_raise)
  show ?thesis
    unfolding retained_request_def Let_def
    by (rule fails_bind_yields [OF try_request wf])
      (intro fails_commands fails_get_transaction_result, simp_all add: host_wf_def)
qed

lemma fails_generate_keypair: "fails_with cli_caught (generate_keypair P deterministic seed timeout)"
  unfolding generate_keypair_def
  by (intro fails_commands fails_retained_request raises_intros require_seed_raises) simp

lemma fails_create_session: "fails_with cli_caught (create_session P kat seed timeout)"
  unfolding create_session_def
  by (intro fails_commands fails_retained_request raises_intros require_seed_raises) (simp_all add: AUTH_STRUCT_def)

lemma fails_send_telemetry: "fails_with cli_caught (send_telemetry P plaintext header timeout)"
  unfolding send_telemetry_def
  by (intro fails_commands fails_retained_request decode_telemetry_result_raises) simp_all

lemma fails_read_last_result: "fails_with cli_caught (read_last_result P timeout)"
  unfolding read_last_result_def by (intro fails_rules decode_telemetry_result_raises)

lemma fails_close_session: "fails_with cli_caught (close_session P timeout)"
  unfolding close_session_def by (intro fails_commands fails_retained_request) simp

lemma fails_zeroize: "fails_with cli_caught (zeroize P scope timeout)"
  unfolding zeroize_def by (intro fails_commands fails_retained_request) simp

lemma fails_emergency_zeroize: "fails_with cli_caught (emergency_zeroize P timeout)"
  unfolding emergency_zeroize_def by (intro fails_commands fails_retire_quietly fails_zeroize)

lemma fails_read_session_commit_diagnostic: "fails_with cli_caught (read_session_commit_diagnostic P)"
  unfolding read_session_commit_diagnostic_def by (intro fails_commands)

lemma fails_telemetry_step: "fails_with cli_caught (telemetry_step P session timeout acc plaintext)"
  unfolding telemetry_step_def split_beta Let_def by (intro fails_commands fails_send_telemetry) simp_all

lemma fails_run_secure_telemetry_qualification:
  "fails_with cli_caught (run_secure_telemetry_qualification P kseed sseed plaintexts timeout interval)"
  unfolding run_secure_telemetry_qualification_def Let_def
  by (intro fails_commands fails_run_sn32_hardware_qualification fails_generate_keypair fails_create_session
      fails_telemetry_step fails_read_last_result fails_emergency_zeroize validate_full_preflight_raises)
    simp_all

end

interpretation scripted_line: catching_port scripted
  by unfold_locales (rule port_caught_scripted)

end
