(* ===== verification/Cli.thy ===== *)
theory Cli
  imports Exceptions
begin

text \<open>
  The command line of the bring-up client (\<open>cli.py\<close>): the commands over the client, what they print, the
  exit codes, and \<open>available_ports\<close> of \<open>serial_client_impl.py\<close>. The arguments are those that \<open>argparse\<close>
  has parsed; times are microseconds. A \<open>console\<close> holds the external calls: opening and closing the
  serial port, printing to the two output streams, listing the ports. A printing call gets the report as
  well as its lines, so that properties can speak of the report.
\<close>

section \<open>The console\<close>

record 'w console =
  c_open :: "string \<Rightarrow> int \<Rightarrow> 'w \<Rightarrow> unit result \<times> 'w"
  c_close :: "'w \<Rightarrow> unit result \<times> 'w"
  c_print :: "report \<Rightarrow> string list \<Rightarrow> 'w \<Rightarrow> unit result \<times> 'w"
  c_error :: "exn \<Rightarrow> bool \<Rightarrow> 'w \<Rightarrow> unit result \<times> 'w"
  c_comports :: "'w \<Rightarrow> (string \<times> string option \<times> string option) list result \<times> 'w"

text \<open>How \<open>main\<close> ends: with an exit code, or with an exception it does not catch
  (\<open>cli_caught\<close> is the tuple of its \<open>except\<close> clause).\<close>

datatype exit = Exit int | Escape exn

text \<open>\<open>with TrinitySerialClient(port, baudrate) as client: body\<close>.\<close>

definition with_client :: "'w console \<Rightarrow> string \<Rightarrow> int \<Rightarrow> ('w, 'a) io \<Rightarrow> 'w \<Rightarrow> ('a result \<times> 'w) option" where
  "with_client C port baud body w =
     (case c_open C port baud w of
        (Inl e, w') \<Rightarrow> Some (Inl e, w')
      | (Inr _, w') \<Rightarrow> map_option (\<lambda>(r, s). (r, world s))
          (io_finally body (io_world (c_close C)) (client_init w')))"

text \<open>\<open>try: ...; return 0 except (...) as exc: report; return 1\<close>.\<close>

definition finish :: "'w console \<Rightarrow> bool \<Rightarrow> unit result \<times> 'w \<Rightarrow> exit \<times> 'w" where
  "finish C as_json = (\<lambda>(r, w). case r of
       Inr _ \<Rightarrow> (Exit 0, w)
     | Inl e \<Rightarrow>
         if cli_caught e then
           (case c_error C e as_json w of (Inl e', w') \<Rightarrow> (Escape e', w') | (Inr _, w') \<Rightarrow> (Exit 1, w'))
         else (Escape e, w))"

definition emit_report :: "'w console \<Rightarrow> bool \<Rightarrow> report \<Rightarrow> ('w, unit) io" where
  "emit_report C as_json data = io_world (c_print C data (emit_lines data as_json))"

text \<open>\<open>{"step": s, "result": "PASS", **d}\<close> and \<open>{"step": s, **d}\<close>.\<close>

definition pass_report :: "string \<Rightarrow> report \<Rightarrow> report" where
  "pass_report s d = dict_update [(''step'', Text s), (''result'', Text ''PASS'')] d"

definition step_report :: "string \<Rightarrow> report \<Rightarrow> report" where
  "step_report s d = dict_update [(''step'', Text s)] d"

section \<open>Commands\<close>

datatype cli_command =
    Ports
  | Ping
  | System_info
  | System_status
  | Spi_diag string string
  | Spi_first_failure
  | P1_info
  | P1_status
  | P1_self_test_start
  | Txn_result int
  | Txn_retire int
  | P1_bringup int int
  | Dual_spi_bringup int int
  | Sn32_qualify int int int

record cli_args =
  a_port :: "string option"
  a_baud :: int
  a_json :: bool
  a_command :: cli_command

text \<open>The wait of \<open>sn32-qualify\<close> for the endpoints to become ready.\<close>

definition READY_MASK :: int where
  "READY_MASK = 0x07"

definition preflight_step :: "'w port \<Rightarrow> int \<Rightarrow> int \<Rightarrow> system_status \<Rightarrow> ('w, system_status + system_status) io" where
  "preflight_step P deadline poll status =
     (if st_target_ready_mask status AND READY_MASK \<noteq> READY_MASK then
        io_bind (monotonic P) (\<lambda>now.
        if now < deadline then
          io_then (time_sleep P poll) (io_bind (get_system_status P) (\<lambda>status'. io_return (Inl status')))
        else io_return (Inr status))
      else io_return (Inr status))"

definition get_first_failure :: "'w port \<Rightarrow> ('w, report) io" where
  "get_first_failure P =
     io_bind (request P (HostCommand_value HC_GET_FIRST_SPI_FAILURE) [] 2000000) (\<lambda>response.
     io_lift (first_spi_failure_dict (hf_payload response)))"

text \<open>\<open>d["latched"]\<close> as a condition.\<close>

definition latched :: "report \<Rightarrow> bool" where
  "latched d \<longleftrightarrow> map_of d ''latched'' = Some (Flag True)"

definition LIVE_LABELS :: "string list" where
  "LIVE_LABELS = [''P1_GET_INFO'', ''P1_GET_STATUS'', ''P2_GET_INFO'', ''P2_GET_STATUS'']"

definition sn32_qualify :: "'w console \<Rightarrow> 'w port \<Rightarrow> bool \<Rightarrow> int \<Rightarrow> int \<Rightarrow> int \<Rightarrow> ('w, unit) io" where
  "sn32_qualify C P as_json timeout poll liveness =
     io_bind (ping P) (\<lambda>preflight_uptime.
     io_then (emit_report C as_json
       (pass_report ''PREFLIGHT_PING'' [(''uptime_ms'', Number preflight_uptime)]))
    (io_bind (monotonic P) (\<lambda>now.
     io_bind (get_system_status P) (\<lambda>status.
     io_bind (io_loop (preflight_step P (now + timeout) poll) status) (\<lambda>preflight_status.
     io_bind (get_first_failure P) (\<lambda>first_failure.
     io_then (emit_report C as_json (step_report ''SPI_FIRST_FAILURE'' first_failure))
    (io_check (latched first_failure) (HostProtocolError ''cold boot already latched an active SPI failure'')
    (io_check (st_target_ready_mask preflight_status AND READY_MASK \<noteq> READY_MASK)
       (HostProtocolError ''startup probe did not make P1/P2 ready'')
    (io_bind (run_sn32_hardware_qualification P timeout poll liveness) (\<lambda>result.
     io_bind (get_first_failure P) (\<lambda>final_failure.
     io_then (io_for (zip (sq_live_traces result) LIVE_LABELS)
       (\<lambda>_ (trace, label). emit_report C as_json
          (pass_report (''LIVE_SPI_'' @ label) (spi_trace_dict trace))) ())
    (io_check (length (sq_live_traces result) \<noteq> length LIVE_LABELS) (ValueError ''zip() argument length'')
    (let dual = sq_dual_spi result in
     io_then (emit_report C as_json (pass_report ''SYSTEM_INFO'' (info_dict (ds_info dual))))
    (io_then (emit_report C as_json
       (pass_report ''P1_KAT_SELF_TEST'' (transaction_dict (ds_primer1_transaction dual))))
    (io_then (emit_report C as_json
       (pass_report ''P2_KAT_SELF_TEST'' (transaction_dict (ds_primer2_transaction dual))))
    (io_then (emit_report C as_json (pass_report ''FINAL_SYSTEM_STATUS'' (status_dict (sq_final_status result))))
    (io_then (emit_report C as_json (pass_report ''POST_TEST_LIVENESS''
       [(''iterations'', Number (sq_liveness_iterations result)),
        (''final_uptime_ms'', Number (sq_final_uptime_ms result))]))
    (io_then (emit_report C as_json (step_report ''FINAL_SPI_FIRST_FAILURE'' final_failure))
    (io_check (latched final_failure) (HostProtocolError ''an SPI failure was latched during qualification'')
    (emit_report C as_json (pass_report ''SN32_P1_P2_HARDWARE_QUALIFICATION'' [])))))))))))))))))))))"

definition p1_bringup :: "'w console \<Rightarrow> 'w port \<Rightarrow> bool \<Rightarrow> int \<Rightarrow> int \<Rightarrow> ('w, unit) io" where
  "p1_bringup C P as_json timeout poll =
     io_bind (run_p1_bringup P timeout poll) (\<lambda>result.
     io_then (emit_report C as_json (pass_report ''PING'' [(''uptime_ms'', Number (br_uptime_ms result))]))
    (io_then (emit_report C as_json (pass_report ''SYSTEM_INFO'' (info_dict (br_info result))))
    (io_then (emit_report C as_json (pass_report ''SYSTEM_STATUS_BEFORE'' (status_dict (br_status_before result))))
    (io_then (emit_report C as_json (pass_report ''P1_SELF_TEST'' (transaction_dict (br_transaction result))))
    (io_then (emit_report C as_json (pass_report ''SYSTEM_STATUS_AFTER'' (status_dict (br_status_after result))))
    (emit_report C as_json (pass_report ''P1_CONTROL_PLANE_SELF_TEST'' [])))))))"

definition dual_spi_bringup :: "'w console \<Rightarrow> 'w port \<Rightarrow> bool \<Rightarrow> int \<Rightarrow> int \<Rightarrow> ('w, unit) io" where
  "dual_spi_bringup C P as_json timeout poll =
     io_bind (run_dual_spi_bringup P timeout poll) (\<lambda>result.
     io_then (emit_report C as_json (pass_report ''PING'' [(''uptime_ms'', Number (ds_uptime_ms result))]))
    (io_then (emit_report C as_json (pass_report ''DUAL_SPI_GET_INFO'' (info_dict (ds_info result))))
    (io_then (emit_report C as_json
       (pass_report ''DUAL_SPI_STATUS_BEFORE'' (status_dict (ds_status_before result))))
    (io_then (emit_report C as_json
       (pass_report ''P1_KAT_SELF_TEST'' (transaction_dict (ds_primer1_transaction result))))
    (io_then (emit_report C as_json
       (pass_report ''P2_KAT_SELF_TEST'' (transaction_dict (ds_primer2_transaction result))))
    (io_then (emit_report C as_json (pass_report ''DUAL_SPI_STATUS_AFTER'' (status_dict (ds_status_after result))))
    (emit_report C as_json (pass_report ''SN32_DUAL_SPI_CONTROL_PLANE'' []))))))))"

definition cli_target :: "string \<Rightarrow> target_id" where
  "cli_target t = (if t = ''p1'' then TGT_PRIMER1 else TGT_PRIMER2)"

definition cli_spi_command :: "string \<Rightarrow> spi_command" where
  "cli_spi_command c = (if c = ''get-info'' then SPI_GET_INFO else SPI_GET_STATUS)"

definition info_command :: "'w console \<Rightarrow> 'w port \<Rightarrow> bool \<Rightarrow> ('w, unit) io" where
  "info_command C P as_json =
     io_bind (get_system_info P) (\<lambda>info. emit_report C as_json (pass_report ''SYSTEM_INFO'' (info_dict info)))"

definition status_command :: "'w console \<Rightarrow> 'w port \<Rightarrow> bool \<Rightarrow> ('w, unit) io" where
  "status_command C P as_json =
     io_bind (get_system_status P) (\<lambda>status.
     emit_report C as_json (pass_report ''SYSTEM_STATUS'' (status_dict status)))"

text \<open>The body of the \<open>with\<close> block; \<open>ports\<close> never gets there.\<close>

fun run_command :: "'w console \<Rightarrow> 'w port \<Rightarrow> bool \<Rightarrow> cli_command \<Rightarrow> ('w, unit) io" where
  "run_command C P as_json Ports = io_return ()"
| "run_command C P as_json Ping =
     io_bind (ping P) (\<lambda>uptime. emit_report C as_json (pass_report ''PING'' [(''uptime_ms'', Number uptime)]))"
| "run_command C P as_json System_info = info_command C P as_json"
| "run_command C P as_json P1_info = info_command C P as_json"
| "run_command C P as_json System_status = status_command C P as_json"
| "run_command C P as_json P1_status = status_command C P as_json"
| "run_command C P as_json (Spi_diag target spi_command) =
     io_bind (spi_diagnostic P (TargetId_value (cli_target target)) (SpiCommand_value (cli_spi_command spi_command)))
       (\<lambda>trace. emit_report C as_json (step_report ''SPI_DIAGNOSTIC'' (spi_trace_dict trace)))"
| "run_command C P as_json Spi_first_failure =
     io_bind (get_first_failure P) (\<lambda>d. emit_report C as_json (step_report ''SPI_FIRST_FAILURE'' d))"
| "run_command C P as_json P1_self_test_start =
     io_bind (start_p1_self_test P) (\<lambda>txid. emit_report C as_json
       [(''step'', Text ''P1_RUN_SELF_TEST''), (''result'', Text ''SUCCEEDED_RETAINED''),
        (''host_txid'', Text (hex_field 4 txid))])"
| "run_command C P as_json (Txn_result txid) =
     io_bind (get_transaction_result P txid) (\<lambda>result.
     emit_report C as_json (step_report ''GET_TXN_RESULT'' (transaction_dict result)))"
| "run_command C P as_json (Txn_retire txid) =
     io_then (retire_transaction_result P txid)
       (emit_report C as_json (pass_report ''RETIRE_TXN_RESULT'' [(''host_txid'', Text (hex_field 4 txid))]))"
| "run_command C P as_json (P1_bringup timeout poll) = p1_bringup C P as_json timeout poll"
| "run_command C P as_json (Dual_spi_bringup timeout poll) = dual_spi_bringup C P as_json timeout poll"
| "run_command C P as_json (Sn32_qualify timeout poll liveness) = sn32_qualify C P as_json timeout poll liveness"

section \<open>Listing the ports\<close>

definition available_ports :: "'w console \<Rightarrow> 'w \<Rightarrow> report list result \<times> 'w" where
  "available_ports C w =
     (case c_comports C w of
        (Inl e, w') \<Rightarrow> (Inl e, w')
      | (Inr items, w') \<Rightarrow> (Inr (map (\<lambda>(device, description, hwid).
          [(''device'', Text device), (''description'', Text (case description of None \<Rightarrow> '''' | Some s \<Rightarrow> s)),
           (''hwid'', Text (case hwid of None \<Rightarrow> '''' | Some s \<Rightarrow> s))]) items), w'))"

definition port_line :: "report \<Rightarrow> string" where
  "port_line item = str_join '' | '' (map (str_value \<circ> snd) item)"

primrec print_all :: "'w console \<Rightarrow> (report \<times> string) list \<Rightarrow> 'w \<Rightarrow> exit \<times> 'w" where
  "print_all C [] w = (Exit 0, w)"
| "print_all C (x # xs) w =
     (case c_print C (fst x) [snd x] w of (Inl e, w') \<Rightarrow> (Escape e, w') | (Inr _, w') \<Rightarrow> print_all C xs w')"

definition list_ports :: "'w console \<Rightarrow> bool \<Rightarrow> 'w \<Rightarrow> exit \<times> 'w" where
  "list_ports C as_json w =
     (case available_ports C w of
        (Inl e, w') \<Rightarrow> (Escape e, w')
      | (Inr ports, w') \<Rightarrow>
          if as_json then print_all C (map (\<lambda>item. (item, json_dumps item)) ports) w'
          else print_all C ((if ports = [] then [([], ''No serial ports found'')] else [])
            @ map (\<lambda>item. (item, port_line item)) ports) w')"

section \<open>The entry point\<close>

text \<open>\<open>parser.error\<close> exits with status 2.\<close>

definition legacy_main :: "'w console \<Rightarrow> 'w port \<Rightarrow> cli_args \<Rightarrow> 'w \<Rightarrow> (exit \<times> 'w) option" where
  "legacy_main C P args w =
     (if a_command args = Ports then Some (list_ports C (a_json args) w)
      else
        (case a_port args of
           None \<Rightarrow> Some (Exit 2, w)
         | Some port \<Rightarrow>
             if port = [] then Some (Exit 2, w)
             else map_option (finish C (a_json args))
               (with_client C port (a_baud args) (run_command C P (a_json args) (a_command args)) w)))"

end
