(* ===== verification/Cli_Run.thy ===== *)
theory Cli_Run
  imports Cli
begin

text \<open>
  What a run of the bring-up command line does: every command ends on a timely port
  (\<open>console_channel\<close>); what a run prints and when it prints the line that claims a passed qualification
  (\<open>says\<close>, over a console that records the reports); and which exceptions leave \<open>main\<close>.
\<close>

section \<open>Every command ends and keeps the client well formed\<close>

context channel
begin

lemma keeps_get_first_failure: "C HC_GET_FIRST_SPI_FAILURE \<Longrightarrow> keeps t I (get_first_failure P)"
  unfolding get_first_failure_def by (intro keeps_commands)

text \<open>A pass of the preflight loop that continues has made a request before the deadline.\<close>

lemma status_request:
  assumes "I s"
  shows "wp t (get_system_status P)
    (\<lambda>_ s'. I s' \<and> (timely P clk backlog \<longrightarrow> clock_order clk backlog (world s) (world s'))) (\<lambda>_. I) s"
  unfolding get_system_status_def wp_bind
  by (rule wp_mono [OF request_keeps [OF assms query_commands(3)]]) (auto simp: wp_lift split: sum.split)

lemma keeps_preflight: "keeps t I (io_loop (preflight_step P deadline poll) status)"
  unfolding keeps_def
proof (intro allI impI)
  fix s
  assume "I s"
  show "wp t (io_loop (preflight_step P deadline poll) status) (\<lambda>_. I) (\<lambda>_. I) s"
  proof (rule wp_loop [where I = "\<lambda>_. I" and r = "deadline_rel clk backlog deadline"])
    show "wf (deadline_rel clk backlog deadline)" by (rule wf_deadline_rel)
    fix x :: system_status and s
    assume s: "I s"
    define w1 where "w1 = snd (p_clock P (world s))"
    define s2 where "s2 = s\<lparr>world := p_sleep P poll w1\<rparr>"
    have s1: "I (s\<lparr>world := w1\<rparr>)" using clock_keeps [OF s] by (simp add: w1_def)
    then have s2: "I s2" using sleep_keeps [OF s1, of poll] by (simp add: s2_def)
    have dec: "((x', s''), (x, s)) \<in> deadline_rel clk backlog deadline"
      if "\<not> t" "timely P clk backlog \<longrightarrow> clock_order clk backlog (world s2) (world s'')"
        "fst (p_clock P (world s)) < deadline" for x' :: system_status and s''
    proof -
      have T: "timely P clk backlog" using live that(1) by simp
      note step = timelyD [OF T]
      have "clock_order clk backlog (world s) (world s'')"
        using step(3) [of "world s"] step(6) [of w1 poll] that T
        by (auto simp: w1_def s2_def intro: clock_order_trans(2))
      moreover have "clk (world s) < deadline"
        using step(2,3) [of "world s"] that(3) by (auto simp: clock_order_eq_def)
      ultimately show ?thesis by (rule deadline_relI [OF _ disjI1])
    qed
    show "wp t (preflight_step P deadline poll x)
        (\<lambda>z s'. case z of Inl x' \<Rightarrow> I s' \<and> (t \<or> ((x', s'), x, s) \<in> deadline_rel clk backlog deadline)
           | Inr b \<Rightarrow> I s') (\<lambda>_. I) s"
    proof (cases "st_target_ready_mask x AND READY_MASK \<noteq> READY_MASK \<and> fst (p_clock P (world s)) < deadline
        \<and> 0 \<le> poll")
      case True
      then show ?thesis
        unfolding preflight_step_def wp_bind wp_monotonic w1_def [symmetric] wp_if
        by (simp add: wp_simps s2_def [symmetric])
          (rule wp_mono [OF status_request [OF s2]], auto intro!: dec)
    next
      case False
      then show ?thesis using s s1 by (auto simp: preflight_step_def wp_simps w1_def)
    qed
  qed (fact \<open>I s\<close>)
qed

end

text \<open>The contract of the console, next to that of the channel: printing keeps the invariant.\<close>

locale console_channel = channel t P clk backlog I C
  for t :: bool and P :: "'w port" and clk :: "'w \<Rightarrow> int" and backlog :: "'w \<Rightarrow> nat"
    and I :: "'w client \<Rightarrow> bool" and C :: "host_command \<Rightarrow> bool" +
  fixes K :: "'w console"
  assumes print_keeps: "I s \<Longrightarrow> I (s\<lparr>world := snd (c_print K d ls (world s))\<rparr>)"
    and first_failure_command: "C HC_GET_FIRST_SPI_FAILURE"
begin

lemma keeps_emit_report: "keeps t I (emit_report K as_json d)"
  by (simp add: keeps_def emit_report_def wp_simps print_keeps split: sum.split)

lemmas keeps_console = keeps_commands keeps_emit_report keeps_get_first_failure [OF first_failure_command] keeps_preflight
  keeps_run_p1_bringup keeps_run_dual_spi_bringup keeps_run_sn32_hardware_qualification

lemma keeps_sn32_qualify: "keeps t I (sn32_qualify K P as_json timeout poll n)"
  unfolding sn32_qualify_def by (intro keeps_console)

lemma keeps_p1_bringup: "keeps t I (p1_bringup K P as_json timeout poll)"
  unfolding p1_bringup_def by (intro keeps_console)

lemma keeps_dual_spi_bringup: "keeps t I (dual_spi_bringup K P as_json timeout poll)"
  unfolding dual_spi_bringup_def by (intro keeps_console)

lemma keeps_run_command: "keeps t I (run_command K P as_json command)"
proof (cases command)
  case P1_self_test_start
  then show ?thesis
    by (simp only: run_command.simps start_p1_self_test_def) (intro keeps_console keeps_start_self_test)
qed (simp_all only: run_command.simps info_command_def status_command_def,
    (intro keeps_console keeps_sn32_qualify keeps_p1_bringup keeps_dual_spi_bringup)+)

end

lemma console_total: "timely P clk b \<Longrightarrow> console_channel False P clk b client_ok (\<lambda>_. True) K"
  by (simp add: console_channel_def channel_total console_channel_axioms_def)

text \<open>The whole run.\<close>

lemma with_client_total:
  assumes "keeps False client_ok body"
  shows "\<exists>y. with_client K port baud body w = Some y"
proof -
  have close: "keeps False client_ok (io_world (c_close K))"
    by (simp add: keeps_def wp_simps split: sum.split)
  have "\<exists>r s. io_finally body (io_world (c_close K)) (client_init w') = Some (r, s)" for w'
    using keeps_total [OF keeps_finally [OF assms close] client_ok_init] by blast
  then show ?thesis
    by (auto simp: with_client_def split: prod.split sum.split)
qed

lemma legacy_main_total:
  assumes "timely P clk b"
  shows "\<exists>r w'. legacy_main K P args w = Some (r, w')"
proof -
  have run: "with_client K port baud (run_command K P as_json command) w \<noteq> None"
    for port baud as_json command
    using with_client_total [OF console_channel.keeps_run_command [OF console_total [OF assms]]] by auto
  have "legacy_main K P args w \<noteq> None"
    using run by (cases "a_port args") (auto simp: legacy_main_def simp del: not_None_eq)
  then show ?thesis by auto
qed

section \<open>What is printed\<close>

text \<open>A console and a port that keep the sequence of reports printed and failures reported.\<close>

datatype cli_event = Printed report | Failed exn

definition beside :: "'w port \<Rightarrow> ('w \<times> 'l) port" where
  "beside P = \<lparr>p_read = logged_step (p_read P), p_write = (\<lambda>bs. logged_step (p_write P bs)),
     p_flush = logged_step (p_flush P), p_clock = logged_step (p_clock P),
     p_sleep = (\<lambda>d (w, log). (p_sleep P d w, log)),
     p_event_handler = map_option (\<lambda>h e. logged_step (h e)) (p_event_handler P)\<rparr>"

definition recording :: "cli_event \<Rightarrow> ('w \<Rightarrow> unit result \<times> 'w)
    \<Rightarrow> 'w \<times> cli_event list \<Rightarrow> unit result \<times> ('w \<times> cli_event list)" where
  "recording event f = (\<lambda>(w, log). (fst (f w), (snd (f w),
     log @ (case fst (f w) of Inl _ \<Rightarrow> [] | Inr _ \<Rightarrow> [event]))))"

definition recorded :: "'w console \<Rightarrow> ('w \<times> cli_event list) console" where
  "recorded K = \<lparr>c_open = (\<lambda>port baud. logged_step (c_open K port baud)), c_close = logged_step (c_close K),
     c_print = (\<lambda>d ls. recording (Printed d) (c_print K d ls)),
     c_error = (\<lambda>e as_json. recording (Failed e) (c_error K e as_json)),
     c_comports = logged_step (c_comports K)\<rparr>"

lemma beside_sel [simp]:
  "p_read (beside P) = logged_step (p_read P)" "p_write (beside P) bs = logged_step (p_write P bs)"
  "p_flush (beside P) = logged_step (p_flush P)" "p_clock (beside P) = logged_step (p_clock P)"
  "p_sleep (beside P) d wl = (p_sleep P d (fst wl), snd wl)"
  "p_event_handler (beside P) = map_option (\<lambda>h e. logged_step (h e)) (p_event_handler P)"
  by (simp_all add: beside_def split_beta)

lemma recorded_sel [simp]:
  "c_open (recorded K) port baud = logged_step (c_open K port baud)"
  "c_close (recorded K) = logged_step (c_close K)"
  "c_print (recorded K) d ls = recording (Printed d) (c_print K d ls)"
  "c_error (recorded K) e as_json = recording (Failed e) (c_error K e as_json)"
  "c_comports (recorded K) = logged_step (c_comports K)"
  by (simp_all add: recorded_def)

lemma recording_sel [simp]:
  "fst (recording event f wl) = fst (f (fst wl))"
  "snd (recording event f wl) = (snd (f (fst wl)),
     snd wl @ (case fst (f (fst wl)) of Inl _ \<Rightarrow> [] | Inr _ \<Rightarrow> [event]))"
  by (simp_all add: recording_def split_beta)

text \<open>The client's own calls print nothing.\<close>

definition printed_is :: "cli_event list \<Rightarrow> ('w \<times> cli_event list) client \<Rightarrow> bool" where
  "printed_is l s \<longleftrightarrow> snd (world s) = l"

lemma keeps_loop [keeps_intros]: "(\<And>x. keeps True I (body x)) \<Longrightarrow> keeps True I (io_loop body x)"
  unfolding keeps_def
proof (intro allI impI)
  fix s
  assume body: "\<And>x. \<forall>s. I s \<longrightarrow> wp True (body x) (\<lambda>_. I) (\<lambda>_. I) s" and "I s"
  show "wp True (io_loop body x) (\<lambda>_. I) (\<lambda>_. I) s"
    by (rule wp_loop_partial [where I = "\<lambda>_. I"])
      (use body \<open>I s\<close> in \<open>auto elim!: wp_mono split: sum.split\<close>)
qed

lemma silent_primitives [keeps_intros]:
  "keeps t (printed_is l) get_next_transaction_id" "keeps t (printed_is l) (set_next_transaction_id i)"
  "keeps t (printed_is l) get_rx" "keeps t (printed_is l) (set_rx bs)"
  "keeps t (printed_is l) (io_world (logged_step f))"
  by (simp_all add: keeps_def wp_simps printed_is_def split: sum.split)

lemma silent_port [keeps_intros]:
  "keeps t (printed_is l) (serial_read (beside P))" "keeps t (printed_is l) (serial_write (beside P) bs)"
  "keeps t (printed_is l) (serial_flush (beside P))" "keeps t (printed_is l) (monotonic (beside P))"
  by (simp_all add: serial_read_def serial_write_def serial_flush_def silent_primitives)
    (simp add: keeps_def wp_simps printed_is_def)

lemma silent_handle_event: "keeps True (printed_is l) (handle_event (beside P) frame)"
  unfolding handle_event_def
  by (intro keeps_intros) (cases "p_event_handler P"; simp; intro keeps_intros)

lemma silent_read_wire_step: "keeps True (printed_is l) (read_wire_step (beside P) deadline u)"
  unfolding read_wire_step_def
proof (intro keeps_intros)
  fix chunk :: bytes
  show "keeps True (printed_is l) (case chunk of [] \<Rightarrow> io_return (Inl ())
     | value # _ \<Rightarrow>
        io_bind get_rx (\<lambda>buffer.
        io_then (set_rx (buffer @ [value]))
       (io_bind get_rx (\<lambda>wire.
        if value = 0 then
          io_then (set_rx []) (io_bind (io_lift (host_decode_wire wire)) (\<lambda>frame. io_return (Inr frame)))
        else if length wire > 272 then
          io_then (set_rx [])
            (io_raise (HostProtocolError ''incoming PC frame exceeds maximum wire size''))
        else io_return (Inl ())))))"
    by (cases chunk; simp only: list.case; intro keeps_intros)
qed

lemma silent_request: "keeps True (printed_is l) (request (beside P) command payload timeout)"
  unfolding request_def allocate_txid_def request_step_def read_wire_frame_def
  by (intro keeps_intros silent_handle_event silent_read_wire_step)

interpretation silent: channel True "beside P" "\<lambda>_. 0" "\<lambda>_. 0" "printed_is l" "\<lambda>_. True"
  for P :: "'w port" and l
proof
  fix s :: "('w \<times> cli_event list) client" and c payload timeout
  assume "printed_is l s"
  then show "wp True (request (beside P) (HostCommand_value c) payload timeout)
      (\<lambda>_ s'. printed_is l s' \<and> (timely (beside P) (\<lambda>_. 0) (\<lambda>_. 0) \<longrightarrow>
         clock_order (\<lambda>_. 0) (\<lambda>_. 0) (world s) (world s'))) (\<lambda>_. printed_is l) s"
    by (rule wp_mono [OF keepsD [OF silent_request]]) (auto simp: timely_def clock_order_def)
qed (simp_all add: printed_is_def)

text \<open>\<open>says G l m Q\<close>: started when \<open>l\<close> has been printed, without the claim \<open>G\<close> in it, \<open>m\<close> returns a value
  and leaves a log that satisfy \<open>Q\<close>, or raises with the claim still not printed.\<close>

definition says :: "cli_event \<Rightarrow> cli_event list \<Rightarrow> ('w \<times> cli_event list, 'a) io
    \<Rightarrow> ('a \<Rightarrow> cli_event list \<Rightarrow> bool) \<Rightarrow> bool" where
  "says G l m Q \<longleftrightarrow> (\<forall>s. printed_is l s \<longrightarrow>
     wp True m (\<lambda>a s'. Q a (snd (world s'))) (\<lambda>_ s'. G \<notin> set (snd (world s'))) s)"

named_theorems says_rules "what a command prints"

lemma says_silent [says_rules]:
  fixes m :: "('w \<times> cli_event list, 'a) io"
  assumes "G \<notin> set l" "yields S m" "keeps True (printed_is l) m" "\<And>a. S a \<Longrightarrow> says G l (k a) Q"
  shows "says G l (io_bind m k) Q"
  unfolding says_def
proof (intro allI impI)
  fix s :: "('w \<times> cli_event list) client"
  assume s: "printed_is l s"
  have "wp True m (\<lambda>a s'. S a \<and> printed_is l s') (\<lambda>_ s'. True \<and> printed_is l s') s"
    using assms(2) keepsD [OF assms(3) s] by (intro wp_conj) (simp_all add: yields_def)
  then show "wp True (io_bind m k) (\<lambda>a s'. Q a (snd (world s'))) (\<lambda>_ s'. G \<notin> set (snd (world s'))) s"
    unfolding wp_bind
    by (rule wp_mono) (use assms(1,4) in \<open>auto simp: says_def printed_is_def\<close>)
qed

lemma says_silent_then [says_rules]:
  assumes "G \<notin> set l" "keeps True (printed_is l) m" "says G l k Q"
  shows "says G l (io_then m k) Q"
  unfolding io_then_def by (rule says_silent [OF assms(1) yields_any assms(2)]) (rule assms(3))

lemma says_check [says_rules]:
  "G \<notin> set l \<Longrightarrow> (\<not> bad \<Longrightarrow> says G l k Q) \<Longrightarrow> says G l (io_check bad e k) Q"
  by (auto simp: says_def wp_simps printed_is_def)

lemma says_emit:
  "G \<notin> set l \<Longrightarrow> Q () (l @ [Printed d]) \<Longrightarrow> says G l (emit_report (recorded K) as_json d) Q"
  by (auto simp: says_def emit_report_def wp_simps printed_is_def split: sum.split)

lemma says_emit_then [says_rules]:
  assumes "G \<notin> set l" "says G (l @ [Printed d]) k Q"
  shows "says G l (io_then (emit_report (recorded K) as_json d) k) Q"
  using assms by (auto simp: says_def emit_report_def wp_simps printed_is_def split: sum.split)

lemma says_for_then:
  assumes "\<And>x. x \<in> set xs \<Longrightarrow> Printed (d x) \<noteq> G" and "G \<notin> set l"
    and "says G (l @ map (Printed \<circ> d) xs) k Q"
  shows "says G l (io_then (io_for xs (\<lambda>_ x. emit_report (recorded K) as_json (d x)) ()) k) Q"
  using assms
proof (induction xs arbitrary: l)
  case Nil
  then show ?case by (simp add: says_def wp_simps)
next
  case (Cons x xs)
  have "says G (l @ [Printed (d x)])
      (io_then (io_for xs (\<lambda>_ x. emit_report (recorded K) as_json (d x)) ()) k) Q"
    using Cons.prems by (intro Cons.IH) auto
  with Cons.prems(2) show ?case
    by (auto simp: says_def emit_report_def wp_simps printed_is_def split: sum.split)
qed

text \<open>The reports of different steps differ.\<close>

definition step_of :: "report \<Rightarrow> report_value option" where
  "step_of d = map_of d ''step''"

lemma map_of_fold_update:
  "k \<notin> fst ` set e \<Longrightarrow> map_of (fold (\<lambda>(k, v). AList.update k v) e d) k = map_of d k"
  by (induction e arbitrary: d) (auto simp: update_conv')

lemma step_of_reports [simp]:
  "''step'' \<notin> fst ` set d \<Longrightarrow> step_of (pass_report s d) = Some (Text s)"
  "''step'' \<notin> fst ` set d \<Longrightarrow> step_of (step_report s d) = Some (Text s)"
  by (simp_all add: step_of_def pass_report_def step_report_def dict_update_def map_of_fold_update)

lemma differ: "step_of d \<noteq> step_of d' \<Longrightarrow> Printed d \<noteq> Printed d'"
  by auto

lemma no_step_keys [simp]:
  "''step'' \<notin> fst ` set (status_dict s)" "''step'' \<notin> fst ` set (info_dict i)"
  "''step'' \<notin> fst ` set (transaction_dict r)" "''step'' \<notin> fst ` set (spi_trace_dict t)"
  by (simp_all add: status_dict_def info_dict_def transaction_dict_def spi_trace_dict_def)

lemma first_failure_no_step: "''step'' \<notin> fst ` set (first_failure_report ff)"
proof -
  have "''step'' \<notin> set (FAILURE_KEYS @ TRACE_KEYS @ TRANSFER_KEYS @ REGISTER_KEYS @ GPIO_KEYS)"
    by code_simp
  then have "''step'' \<notin> set (map fst (first_failure_report ff))"
    by (cases ff) (auto simp: first_failure_report_def FAILURE_KEYS_def registers_report_def
        simp del: set_map split: option.split)
  then show ?thesis by simp
qed

lemma get_first_failure_yields: "yields (\<lambda>d. \<exists>ff. d = first_failure_report ff) (get_first_failure P)"
  unfolding get_first_failure_def
  by (intro yields_bind_any yields_lift) (auto simp: first_failure_iff)

section \<open>The hardware qualification\<close>

definition HARDWARE_PASS :: report where
  "HARDWARE_PASS = pass_report ''SN32_P1_P2_HARDWARE_QUALIFICATION'' []"

text \<open>The reports of a qualification that passed, in order.\<close>

definition qualification_reports :: "int \<Rightarrow> first_failure \<Rightarrow> sn32_qualification_result \<Rightarrow> first_failure \<Rightarrow> report list" where
  "qualification_reports uptime first q final =
     [pass_report ''PREFLIGHT_PING'' [(''uptime_ms'', Number uptime)],
      step_report ''SPI_FIRST_FAILURE'' (first_failure_report first)]
     @ map (\<lambda>(trace, label). pass_report (''LIVE_SPI_'' @ label) (spi_trace_dict trace))
         (zip (sq_live_traces q) LIVE_LABELS)
     @ [pass_report ''SYSTEM_INFO'' (info_dict (ds_info (sq_dual_spi q))),
        pass_report ''P1_KAT_SELF_TEST'' (transaction_dict (ds_primer1_transaction (sq_dual_spi q))),
        pass_report ''P2_KAT_SELF_TEST'' (transaction_dict (ds_primer2_transaction (sq_dual_spi q))),
        pass_report ''FINAL_SYSTEM_STATUS'' (status_dict (sq_final_status q)),
        pass_report ''POST_TEST_LIVENESS''
          [(''iterations'', Number (sq_liveness_iterations q)),
           (''final_uptime_ms'', Number (sq_final_uptime_ms q))],
        step_report ''FINAL_SPI_FIRST_FAILURE'' (first_failure_report final), HARDWARE_PASS]"

definition qualified_log :: "int \<Rightarrow> cli_event list \<Rightarrow> bool" where
  "qualified_log n log \<longleftrightarrow> (\<exists>uptime first q final. qualification_ok n q \<and>
     \<not> latched (first_failure_report first) \<and> \<not> latched (first_failure_report final) \<and>
     log = map Printed (qualification_reports uptime first q final))"

lemma not_hardware_pass [simp]:
  "''step'' \<notin> fst ` set d \<Longrightarrow> s \<noteq> ''SN32_P1_P2_HARDWARE_QUALIFICATION'' \<Longrightarrow> HARDWARE_PASS \<noteq> pass_report s d"
  "''step'' \<notin> fst ` set d \<Longrightarrow> s \<noteq> ''SN32_P1_P2_HARDWARE_QUALIFICATION'' \<Longrightarrow> HARDWARE_PASS \<noteq> step_report s d"
  using step_of_reports by (auto simp: HARDWARE_PASS_def dest!: arg_cong [of _ _ step_of])

lemmas not_hardware_pass_sym [simp] = not_hardware_pass [THEN not_sym]

lemma says_sn32_qualify:
  "says (Printed HARDWARE_PASS) [] (sn32_qualify (recorded K) (beside P) as_json timeout poll n)
     (\<lambda>_. qualified_log n)"
  unfolding sn32_qualify_def Let_def split_beta
  apply (intro says_silent [OF _ get_first_failure_yields]
    says_silent [OF _ run_sn32_hardware_qualification_yields] says_silent [OF _ yields_any]
    says_emit_then says_check says_for_then says_emit
    silent.keeps_ping silent.keeps_monotonic silent.keeps_get_system_status silent.keeps_preflight
    silent.keeps_get_first_failure silent.keeps_run_sn32_hardware_qualification)
  apply (auto simp: not_hardware_pass(2) [OF first_failure_no_step])
  subgoal for uptime status q first final
    unfolding qualified_log_def
    by (rule exI [of _ uptime], rule exI [of _ first], rule exI [of _ q], rule exI [of _ final])
      (simp add: qualification_reports_def HARDWARE_PASS_def split_beta comp_def)
  done

text \<open>From the body of the \<open>with\<close> block to the whole run: closing the port prints nothing, and a caught
  exception is reported after it. When closing the port raises, a run that has printed its claim fails.\<close>

definition close_raises :: "'w console \<Rightarrow> bool" where
  "close_raises K \<longleftrightarrow> (\<exists>w e. fst (c_close K w) = Inl e)"

definition claims :: "'w console \<Rightarrow> cli_event \<Rightarrow> (cli_event list \<Rightarrow> bool) \<Rightarrow> exit \<Rightarrow> cli_event list \<Rightarrow> bool" where
  "claims K G Q x log \<longleftrightarrow> (x = Exit 0 \<longrightarrow> G \<in> set log \<and> Q log) \<and> (G \<in> set log \<longrightarrow> x = Exit 0 \<or> close_raises K)"

lemma with_client_says:
  assumes body: "says G [] body (\<lambda>_. Q)"
    and run: "with_client (recorded K) port baud body (w, []) = Some (r, w', log)"
  shows "case r of Inl e \<Rightarrow> G \<notin> set log \<or> close_raises K | Inr _ \<Rightarrow> Q log"
proof (cases "fst (c_open K port baud w)")
  case (Inl e)
  then have "log = []" "r = Inl e"
    using run by (simp_all add: with_client_def logged_step_def)
  then show ?thesis by simp
next
  case (Inr u)
  let ?w1 = "(snd (c_open K port baud w), [])"
  obtain s where s: "io_finally body (io_world (c_close (recorded K))) (client_init ?w1) = Some (r, s)"
      "world s = (w', log)"
    using run Inr by (auto simp: with_client_def logged_step_def)
  have "wp True (io_finally body (io_world (c_close (recorded K))))
      (\<lambda>_ s'. Q (snd (world s'))) (\<lambda>_ s'. G \<notin> set (snd (world s')) \<or> close_raises K) (client_init ?w1)"
    unfolding wp_finally
    by (rule wp_mono [OF body [unfolded says_def, rule_format]])
      (auto simp: wp_simps printed_is_def client_init_def close_raises_def split: sum.split)
  from wp_post [OF this] s show ?thesis by (cases r) auto
qed

lemma finish_says:
  assumes "case r of Inl e \<Rightarrow> G \<notin> set log \<or> close_raises K | Inr _ \<Rightarrow> Q log" and "\<And>e. G \<noteq> Failed e"
    and "\<And>l. Q l \<Longrightarrow> G \<in> set l" and "finish (recorded K) as_json (r, w, log) = (x, w', log')"
  shows "claims K G Q x log'"
  using assms by (auto simp: finish_def claims_def recording_def split: sum.splits if_splits)

lemma legacy_main_says:
  assumes body: "says G [] (run_command (recorded K) (beside P) (a_json args) (a_command args)) (\<lambda>_. Q)"
    and claim: "\<And>e. G \<noteq> Failed e" "\<And>l. Q l \<Longrightarrow> G \<in> set l"
    and command: "a_command args \<noteq> Ports"
    and run: "legacy_main (recorded K) (beside P) args (w, []) = Some (x, w', log)"
  shows "claims K G Q x log"
proof (cases "a_port args = None \<or> a_port args = Some []")
  case True
  then have "x = Exit 2" "log = []" using run command by (auto simp: legacy_main_def)
  then show ?thesis by (simp add: claims_def)
next
  case False
  then obtain port where port: "a_port args = Some port" "port \<noteq> []" by auto
  with run command obtain r w1 log1 where
    r: "with_client (recorded K) port (a_baud args)
       (run_command (recorded K) (beside P) (a_json args) (a_command args)) (w, []) = Some (r, w1, log1)" and
    x: "finish (recorded K) (a_json args) (r, w1, log1) = (x, w', log)"
    by (auto simp: legacy_main_def)
  show ?thesis
    by (rule finish_says [where G = G and Q = Q, OF with_client_says [OF body r] claim x])
qed

lemma qualified_log_claim: "qualified_log n log \<Longrightarrow> Printed HARDWARE_PASS \<in> set log"
  by (auto simp: qualified_log_def qualification_reports_def)

lemma qualify_claims:
  assumes "a_command args = Sn32_qualify timeout poll n"
    and "legacy_main (recorded K) (beside P) args (w, []) = Some (x, w', log)"
  shows "claims K (Printed HARDWARE_PASS) (qualified_log n) x log"
  by (rule legacy_main_says [OF _ _ qualified_log_claim _ assms(2)])
    (simp_all add: assms(1) says_sn32_qualify)

section \<open>The exit codes\<close>

text \<open>A console whose exceptions are caught, and that always manages to report a failure.\<close>

definition console_caught :: "'w console \<Rightarrow> bool" where
  "console_caught K \<longleftrightarrow>
     (\<forall>port baud w. raises_only cli_caught (fst (c_open K port baud w))) \<and>
     (\<forall>w. raises_only cli_caught (fst (c_close K w))) \<and>
     (\<forall>d ls w. raises_only cli_caught (fst (c_print K d ls w))) \<and>
     (\<forall>e as_json w. fst (c_error K e as_json w) = Inr ())"

definition txid_fits :: "cli_command \<Rightarrow> bool" where
  "txid_fits command \<longleftrightarrow> (\<forall>txid. command = Txn_result txid \<or> command = Txn_retire txid \<longrightarrow>
     0 \<le> txid \<and> txid < 2 ^ 16)"

context catching_port
begin

lemma fails_emit_report: "console_caught K \<Longrightarrow> fails_with cli_caught (emit_report K as_json d)"
  unfolding emit_report_def by (intro fails_intros) (simp add: console_caught_def)

lemma fails_get_first_failure: "fails_with cli_caught (get_first_failure P)"
  unfolding get_first_failure_def
  by (intro fails_intros fails_request raises_mono [OF first_spi_failure_dict_raises is_HostProtocolError_caught])

lemma fails_preflight_step: "fails_with cli_caught (preflight_step P deadline poll status)"
  unfolding preflight_step_def by (intro fails_commands)

lemma fails_sn32_qualify:
  "console_caught K \<Longrightarrow> fails_with cli_caught (sn32_qualify K P as_json timeout poll n)"
  unfolding sn32_qualify_def Let_def split_beta
  by (intro fails_commands fails_emit_report fails_get_first_failure fails_preflight_step
      fails_run_sn32_hardware_qualification) simp_all

lemma fails_run_command:
  assumes "console_caught K" and "txid_fits command"
  shows "fails_with cli_caught (run_command K P as_json command)"
  using assms
  by (cases command; simp only: run_command.simps info_command_def status_command_def p1_bringup_def
      dual_spi_bringup_def start_p1_self_test_def)
    (intro fails_commands fails_emit_report fails_get_first_failure fails_sn32_qualify
      fails_run_p1_bringup fails_run_dual_spi_bringup fails_get_transaction_result;
      simp add: txid_fits_def)+

end

lemma with_client_fails:
  assumes "fails_with cli_caught body" and "console_caught K"
    and "with_client K port baud body w = Some (r, w')"
  shows "raises_only cli_caught r"
proof (cases "fst (c_open K port baud w)")
  case (Inl e)
  then have "r = Inl e"
    using assms(3) by (auto simp: with_client_def split: prod.splits)
  moreover have "raises_only cli_caught (fst (c_open K port baud w))"
    using assms(2) by (simp add: console_caught_def)
  ultimately show ?thesis using Inl by (simp add: raises_only_def)
next
  case (Inr u)
  then obtain w1 s where s: "io_finally body (io_world (c_close K)) (client_init w1) = Some (r, s)"
    using assms(3) by (auto simp: with_client_def split: prod.splits)
  have "fails_with cli_caught (io_finally body (io_world (c_close K)))"
    using assms(1,2) by (intro fails_intros) (simp_all add: console_caught_def)
  then have "wp True (io_finally body (io_world (c_close K))) (\<lambda>_. client_ok)
      (\<lambda>e s'. cli_caught e \<and> client_ok s') (client_init w1)"
    by (simp add: fails_with_def)
  from wp_post(2) [OF this] s show ?thesis by (auto simp: raises_only_def)
qed

lemma finish_exits:
  assumes "raises_only cli_caught r" and "console_caught K"
  shows "fst (finish K as_json (r, w)) \<in> {Exit 0, Exit 1}"
  using assms
  by (auto simp: finish_def raises_only_def console_caught_def split: sum.splits prod.splits)
    (metis fst_conv sum.distinct(1))+

lemma legacy_main_exits:
  assumes T: "timely P clk b" and "port_caught P" and K: "console_caught K"
    and "txid_fits (a_command args)" and "a_command args \<noteq> Ports"
  shows "\<exists>c w'. legacy_main K P args w = Some (Exit c, w') \<and> c \<in> {0, 1, 2}"
proof -
  have body: "fails_with cli_caught (run_command K P (a_json args) (a_command args))"
    by (rule catching_port.fails_run_command [OF catching_port.intro]) (fact assms)+
  from legacy_main_total [OF T, of K args w] obtain x w' where x: "legacy_main K P args w = Some (x, w')" by blast
  have "x \<in> {Exit 0, Exit 1, Exit 2}"
  proof (cases "a_port args = None \<or> a_port args = Some []")
    case True
    then show ?thesis using x assms(5) by (auto simp: legacy_main_def)
  next
    case False
    then obtain port r w1 where
      r: "with_client K port (a_baud args) (run_command K P (a_json args) (a_command args)) w = Some (r, w1)" and
      "finish K (a_json args) (r, w1) = (x, w')"
      using x assms(5) by (auto simp: legacy_main_def)
    with finish_exits [OF with_client_fails [OF body K r] K, of "a_json args" w1] show ?thesis by auto
  qed
  with x show ?thesis by auto
qed

text \<open>A transaction ID that does not fit 16 bits: \<open>struct.error\<close> is not in the \<open>except\<close> clause.\<close>

lemma txn_result_escapes:
  assumes "a_command args = Txn_result txid \<or> a_command args = Txn_retire txid" and "\<not> (0 \<le> txid \<and> txid < 2 ^ 16)"
    and "a_port args = Some port" "port \<noteq> []"
    and "\<And>w. fst (c_open K port (a_baud args) w) = Inr ()" and "\<And>w. fst (c_close K w) = Inr ()"
  shows "\<exists>w'. legacy_main K P args w = Some (Escape StructError, w')"
proof -
  have pack: "struct_pack [2] [txid] = Inl StructError"
    using assms(2) by (auto simp: struct_pack_def check_def)
  have body: "run_command K P (a_json args) (a_command args) s = Some (Inl StructError, s)" for s
    using assms(1) pack
    by (auto simp: get_transaction_result_def retire_transaction_result_def io_bind_def io_then_def io_lift_def)
  obtain w1 where w1: "c_open K port (a_baud args) w = (Inr (), w1)"
    using assms(5) by (metis prod.collapse)
  obtain w2 where w2: "c_close K w1 = (Inr (), w2)"
    using assms(6) by (metis prod.collapse)
  have "with_client K port (a_baud args) (run_command K P (a_json args) (a_command args)) w = Some (Inl StructError, w2)"
    by (simp add: with_client_def w1 io_finally_def io_bind_def io_lift_def io_world_def body client_init_def w2)
  then have "legacy_main K P args w = Some (Escape StructError, w2)"
    using assms(1,3,4) by (auto simp: legacy_main_def finish_def)
  then show ?thesis by blast
qed

text \<open>How \<open>main\<close> ends, for every command: \<open>ports\<close> runs outside the \<open>try\<close>.\<close>

lemma list_ports_ends: "\<exists>x w'. list_ports K as_json w = (x, w') \<and> (x = Exit 0 \<or> (\<exists>e. x = Escape e))"
proof -
  have all: "\<exists>x w'. print_all K xs w = (x, w') \<and> (x = Exit 0 \<or> (\<exists>e. x = Escape e))" for xs w
    by (induction xs arbitrary: w) (auto split: prod.split sum.split)
  show ?thesis using all by (auto simp: list_ports_def split: prod.split sum.split)
qed

lemma legacy_main_ends:
  assumes "timely P clk b" and "port_caught P" and "console_caught K"
  shows "if a_command args = Ports
     then \<exists>x w'. legacy_main K P args w = Some (x, w') \<and> (x = Exit 0 \<or> (\<exists>e. x = Escape e))
     else if a_port args = None \<or> a_port args = Some [] then legacy_main K P args w = Some (Exit 2, w)
     else if txid_fits (a_command args)
     then \<exists>c w'. legacy_main K P args w = Some (Exit c, w') \<and> c \<in> {0, 1}
     else (\<exists>v e. fst (c_open K (the (a_port args)) (a_baud args) v) = Inl e) \<or> close_raises K \<or>
       (\<exists>w'. legacy_main K P args w = Some (Escape StructError, w'))"
proof -
  consider (ports) "a_command args = Ports" | (none) "a_command args \<noteq> Ports" "a_port args = None \<or> a_port args = Some []"
    | (runs) port where "a_command args \<noteq> Ports" "a_port args = Some port" "port \<noteq> []" by (cases "a_port args") auto
  then show ?thesis
  proof cases
    case ports
    then show ?thesis using list_ports_ends [of K "a_json args" w] by (auto simp: legacy_main_def)
  next
    case none
    then show ?thesis by (auto simp: legacy_main_def)
  next
    case runs
    show ?thesis
    proof (cases "txid_fits (a_command args)")
      case True
      from legacy_main_exits [OF assms True runs(1), of w] obtain c w' where
        c: "legacy_main K P args w = Some (Exit c, w')" by blast
      from runs c obtain r w1 where
        r: "with_client K port (a_baud args) (run_command K P (a_json args) (a_command args)) w = Some (r, w1)" and
        x: "finish K (a_json args) (r, w1) = (Exit c, w')"
        by (auto simp: legacy_main_def)
      have "fails_with cli_caught (run_command K P (a_json args) (a_command args))"
        by (rule catching_port.fails_run_command [OF catching_port.intro]) (fact assms True)+
      from finish_exits [OF with_client_fails [OF this assms(3) r] assms(3), of "a_json args" w1] x c True runs
      show ?thesis by auto
    next
      case False
      then obtain txid where "a_command args = Txn_result txid \<or> a_command args = Txn_retire txid"
        "\<not> (0 \<le> txid \<and> txid < 2 ^ 16)" by (auto simp: txid_fits_def)
      from txn_result_escapes [OF this runs(2,3), of K P w] False runs
      show ?thesis by (auto simp: close_raises_def) (metis (full_types) old.unit.exhaust sum.exhaust)+
    qed
  qed
qed

section \<open>A console to run examples on\<close>

definition plain_console :: "'w console" where
  "plain_console = \<lparr>c_open = (\<lambda>port baud w. (Inr (), w)), c_close = (\<lambda>w. (Inr (), w)),
     c_print = (\<lambda>d ls w. (Inr (), w)), c_error = (\<lambda>e as_json w. (Inr (), w)),
     c_comports = (\<lambda>w. (Inr [], w))\<rparr>"

lemma plain_console_sel [simp]:
  "c_open plain_console port baud w = (Inr (), w)" "c_close plain_console w = (Inr (), w)"
  "c_print plain_console d ls w = (Inr (), w)" "c_error plain_console e as_json w = (Inr (), w)"
  by (simp_all add: plain_console_def)

lemma plain_console_caught: "console_caught plain_console"
  by (simp add: console_caught_def raises_only_def)

lemma timely_beside: "timely P clk b \<Longrightarrow> timely (beside P) (clk \<circ> fst) (b \<circ> fst)"
  by (auto simp: timely_def clock_order_def clock_order_eq_def split: option.splits)

text \<open>On a timely port the qualification ends, and its exit code agrees with what it printed.\<close>

lemma qualify_certified:
  assumes "timely P clk b" and "a_command args = Sn32_qualify timeout poll n"
  shows "\<exists>x w' log. legacy_main (recorded K) (beside P) args (w, []) = Some (x, w', log) \<and>
    claims K (Printed HARDWARE_PASS) (qualified_log n) x log"
  using legacy_main_total [OF timely_beside [OF assms(1)], of "recorded K" args "(w, [])"]
    qualify_claims [OF assms(2)] by (metis prod.collapse)

end
