(* ===== verification/Full_Cli.thy ===== *)
theory Full_Cli
  imports Cli_Run
begin

text \<open>
  The command line of the secure-telemetry flow (\<open>full_cli.py\<close>) and the choice between the two command
  lines (\<open>entrypoint.py\<close>, \<open>_contains_full_command\<close>). The arguments are those that \<open>argparse\<close> has
  parsed; the choices of an option are datatypes. A run that exits with 0 is proved to have printed
  exactly the reports of a verified flow, and every run to end with exit code 0 or 1.
\<close>

section \<open>Choosing the command line\<close>

definition FULL_COMMANDS :: "string list" where
  "FULL_COMMANDS = [''keypair-generate'', ''session-create'', ''session-diagnostic'', ''telemetry-send'',
     ''session-close'', ''zeroize'', ''sn32-secure-telemetry-qualify'']"

text \<open>The subcommands of the parser of \<open>cli.py\<close>, in the order it adds them.\<close>

definition LEGACY_COMMANDS :: "string list" where
  "LEGACY_COMMANDS = [''ports'', ''ping'', ''system-info'', ''system-status'', ''spi-diag'',
     ''spi-first-failure'', ''p1-info'', ''p1-status'', ''p1-self-test-start'', ''txn-result'',
     ''txn-retire'', ''p1-bringup'', ''dual-spi-bringup'', ''sn32-qualify'']"

definition contains_full_command :: "string list \<Rightarrow> bool" where
  "contains_full_command argv = list_ex (\<lambda>token. token \<in> set FULL_COMMANDS) argv"

definition all_command_names :: "string list" where
  "all_command_names = LEGACY_COMMANDS @ FULL_COMMANDS"

text \<open>Where \<open>entrypoint.main\<close> goes: the combined help, with its exit code, or one of the two parsers.\<close>

datatype route = Print_help int | Legacy_parser | Full_parser

definition entry_route :: "string list \<Rightarrow> route" where
  "entry_route argv =
     (let has_command = list_ex (\<lambda>token. token \<in> set all_command_names) argv;
          asks_for_help = ''-h'' \<in> set argv \<or> ''--help'' \<in> set argv
      in
      if asks_for_help \<and> \<not> has_command then Print_help 0
      else if argv = [] then Print_help 2
      else if contains_full_command argv then Full_parser
      else Legacy_parser)"

section \<open>Commands\<close>

datatype keypair_mode = Deterministic | Random
datatype session_mode = Kat | Session_deterministic
datatype scope_choice = All | Active | Staged | Telemetry | Transactions

primrec scope_name :: "scope_choice \<Rightarrow> string" where
  "scope_name All = ''all''"
| "scope_name Active = ''active''"
| "scope_name Staged = ''staged''"
| "scope_name Telemetry = ''telemetry''"
| "scope_name Transactions = ''transactions''"

primrec scope_of :: "scope_choice \<Rightarrow> zeroize_scope" where
  "scope_of All = ZERO_ALL"
| "scope_of Active = ZERO_ACTIVE_SESSION"
| "scope_of Staged = ZERO_STAGED_SESSION"
| "scope_of Telemetry = ZERO_TELEMETRY_OR_AUTH_RESULT"
| "scope_of Transactions = ZERO_TRANSACTION_STATE"

datatype full_command =
    Keypair_generate keypair_mode string int
  | Session_create session_mode string int
  | Session_diagnostic
  | Telemetry_send string int
  | Session_close int
  | Zeroize_command scope_choice int
  | Secure_telemetry_qualify string string "string list" int int

record full_args =
  f_port :: string
  f_baud :: int
  f_json :: bool
  f_command :: full_command

definition keypair_generate :: "'w console \<Rightarrow> 'w port \<Rightarrow> bool \<Rightarrow> keypair_mode \<Rightarrow> string \<Rightarrow> int \<Rightarrow> ('w, unit) io" where
  "keypair_generate K P as_json mode seed_hex timeout =
     io_bind (io_lift (parse_seed_hex seed_hex)) (\<lambda>seed.
     io_bind (generate_keypair P (mode = Deterministic) seed timeout) (\<lambda>result.
     emit_report K as_json
       [(''step'', Text ''MLKEM_KEYPAIR''), (''result'', Text ''PASS''),
        (''host_txid'', Text (hex_field 4 (kp_host_txid result))),
        (''public_key_hash'', Text (bytes_hex (kp_public_key_hash result)))]))"

definition session_create :: "'w console \<Rightarrow> 'w port \<Rightarrow> bool \<Rightarrow> session_mode \<Rightarrow> string \<Rightarrow> int \<Rightarrow> ('w, unit) io" where
  "session_create K P as_json mode seed_hex timeout =
     io_bind (io_lift (parse_seed_hex seed_hex)) (\<lambda>seed.
     io_bind (create_session P (mode = Kat) seed timeout) (\<lambda>result.
     emit_report K as_json
       [(''step'', Text ''SESSION_ACTIVE''), (''result'', Text ''PASS''),
        (''host_txid'', Text (hex_field 4 (se_host_txid result))),
        (''session_id'', Text (hex_field 8 (se_session_id result))),
        (''initial_sequence'', Number (se_initial_sequence result))]))"

definition session_diagnostic :: "'w console \<Rightarrow> 'w port \<Rightarrow> bool \<Rightarrow> ('w, unit) io" where
  "session_diagnostic K P as_json =
     io_bind (read_session_commit_diagnostic P) (\<lambda>(snapshot, diagnostic).
     let data = [(''step'', Text ''SESSION_COMMIT_DIAGNOSTIC''), (''result'', Text ''PASS''),
        (''last_error'', Text (ErrorCode_name (le_code snapshot))),
        (''source'', Number (le_source snapshot)), (''detail'', Text (hex_field 8 (le_detail snapshot)))]
     in
     emit_report K as_json (case diagnostic of None \<Rightarrow> data
       | Some d \<Rightarrow> dict_update data
          [(''phase'', Number (sc_phase d)),
           (''p2_9_readback'', Text (if sc_gpio_high d then ''HIGH'' else ''LOW'')),
           (''p1_session_state'', Number (sc_p1_session_state d)),
           (''p2_session_state'', Number (sc_p2_session_state d)),
           (''p1_secure_flags'', Text (hex_field 2 (sc_p1_secure_flags d))),
           (''p2_secure_flags'', Text (hex_field 2 (sc_p2_secure_flags d))),
           (''decoded'', Text (describe d))]))"

definition telemetry_send :: "'w console \<Rightarrow> 'w port \<Rightarrow> bool \<Rightarrow> string \<Rightarrow> int \<Rightarrow> ('w, unit) io" where
  "telemetry_send K P as_json plaintext_hex timeout =
     io_bind (io_lift (parse_plaintext_hex plaintext_hex)) (\<lambda>plaintext.
     io_bind (send_telemetry P plaintext DEFAULT_TELEMETRY_HEADER timeout) (\<lambda>result.
     emit_report K as_json
       [(''step'', Text ''SECURE_TELEMETRY''), (''result'', Text ''PASS''),
        (''host_txid'', Text (hex_field 4 (te_host_txid result))),
        (''session_id'', Text (hex_field 8 (te_session_id result))),
        (''sequence'', Number (te_sequence result)),
        (''plaintext_hex'', Text (bytes_hex (te_plaintext result))),
        (''auth_status'', Text (ErrorCode_name (te_status result)))]))"

definition session_close :: "'w console \<Rightarrow> 'w port \<Rightarrow> bool \<Rightarrow> int \<Rightarrow> ('w, unit) io" where
  "session_close K P as_json timeout =
     io_bind (close_session P timeout) (\<lambda>txid. emit_report K as_json
       [(''step'', Text ''SESSION_CLOSE''), (''result'', Text ''PASS''), (''host_txid'', Text (hex_field 4 txid))])"

definition zeroize_command :: "'w console \<Rightarrow> 'w port \<Rightarrow> bool \<Rightarrow> scope_choice \<Rightarrow> int \<Rightarrow> ('w, unit) io" where
  "zeroize_command K P as_json scope timeout =
     io_bind (if scope = All then emergency_zeroize P timeout else zeroize P (scope_of scope) timeout) (\<lambda>txid.
     emit_report K as_json
       [(''step'', Text ''ZEROIZE''), (''result'', Text ''PASS''), (''scope'', Text (scope_name scope)),
        (''host_txid'', Text (hex_field 4 txid))])"

primrec parse_all_plaintexts :: "string list \<Rightarrow> bytes list result" where
  "parse_all_plaintexts [] = Inr []"
| "parse_all_plaintexts (item # items) =
     result_bind (parse_plaintext_hex item) (\<lambda>p.
     result_bind (parse_all_plaintexts items) (\<lambda>ps. Inr (p # ps)))"

text \<open>\<open>tuple(...) if args.plaintext_hex else DEFAULT_PLAINTEXTS\<close>; an option that was not given is \<open>[]\<close> here.\<close>

definition qualify_plaintexts :: "string list \<Rightarrow> bytes list result" where
  "qualify_plaintexts items = (if items \<noteq> [] then parse_all_plaintexts items else Inr DEFAULT_PLAINTEXTS)"

definition packet_report :: "nat \<times> telemetry_result \<Rightarrow> report" where
  "packet_report = (\<lambda>(index, packet).
     [(''step'', Text (''SECURE_TELEMETRY_'' @ py_dec (int index))), (''result'', Text ''PASS''),
      (''session_id'', Text (hex_field 8 (te_session_id packet))), (''sequence'', Number (te_sequence packet)),
      (''plaintext_hex'', Text (bytes_hex (te_plaintext packet))),
      (''auth_status'', Text (ErrorCode_name (te_status packet)))])"

definition SECURE_TELEMETRY_PASS :: report where
  "SECURE_TELEMETRY_PASS =
     [(''step'', Text ''SN32_P1_P2_SECURE_TELEMETRY_QUALIFICATION''), (''result'', Text ''PASS''),
      (''scope'', Text ''SN32+P1+P2; Tiny/full-system not claimed'')]"

definition secure_telemetry_qualify :: "'w console \<Rightarrow> 'w port \<Rightarrow> bool \<Rightarrow> string \<Rightarrow> string \<Rightarrow> string list
    \<Rightarrow> int \<Rightarrow> int \<Rightarrow> ('w, unit) io" where
  "secure_telemetry_qualify K P as_json key_seed session_seed items timeout poll =
     io_bind (io_lift (qualify_plaintexts items)) (\<lambda>plaintexts.
     io_bind (io_lift (parse_seed_hex key_seed)) (\<lambda>kseed.
     io_bind (io_lift (parse_seed_hex session_seed)) (\<lambda>sseed.
     io_bind (run_secure_telemetry_qualification P kseed sseed plaintexts timeout poll) (\<lambda>result.
     io_then (emit_report K as_json
       [(''step'', Text ''CONTROL_PLANE_REGRESSION''), (''result'', Text ''PASS''),
        (''sn32_build_id'', Text (hex_field 8 (si_sn32_build_id (sr_info result)))),
        (''primer1_build_id'', Text (hex_field 8 (si_primer1_build_id (sr_info result)))),
        (''primer2_build_id'', Text (hex_field 8 (si_primer2_build_id (sr_info result))))])
    (io_then (emit_report K as_json
       [(''step'', Text ''MLKEM_KEYPAIR''), (''result'', Text ''PASS''),
        (''public_key_hash'', Text (bytes_hex (kp_public_key_hash (sr_keypair result))))])
    (io_then (emit_report K as_json
       [(''step'', Text ''SESSION_STAGE_COMMIT''), (''result'', Text ''PASS''),
        (''session_id'', Text (hex_field 8 (se_session_id (sr_session result)))),
        (''initial_sequence'', Number (se_initial_sequence (sr_session result))),
        (''system_state'', Text (SystemState_name (st_system_state (sr_status_active result))))])
    (io_then (io_for (enumerate 1 (sr_telemetry result)) (\<lambda>_ x. emit_report K as_json (packet_report x)) ())
    (io_then (emit_report K as_json
       [(''step'', Text ''FINAL_ZEROIZE''), (''result'', Text ''PASS''),
        (''system_state'', Text (SystemState_name (st_system_state (sr_status_final result)))),
        (''session_id'', Text (hex_field 8 (st_session_id (sr_status_final result)))),
        (''current_sequence'', Number (st_current_sequence (sr_status_final result)))])
    (emit_report K as_json SECURE_TELEMETRY_PASS)))))))))"

fun run_full_command :: "'w console \<Rightarrow> 'w port \<Rightarrow> bool \<Rightarrow> full_command \<Rightarrow> ('w, unit) io" where
  "run_full_command K P as_json (Keypair_generate mode seed timeout) = keypair_generate K P as_json mode seed timeout"
| "run_full_command K P as_json (Session_create mode seed timeout) = session_create K P as_json mode seed timeout"
| "run_full_command K P as_json Session_diagnostic = session_diagnostic K P as_json"
| "run_full_command K P as_json (Telemetry_send plaintext timeout) = telemetry_send K P as_json plaintext timeout"
| "run_full_command K P as_json (Session_close timeout) = session_close K P as_json timeout"
| "run_full_command K P as_json (Zeroize_command scope timeout) = zeroize_command K P as_json scope timeout"
| "run_full_command K P as_json (Secure_telemetry_qualify key_seed session_seed items timeout poll) =
     secure_telemetry_qualify K P as_json key_seed session_seed items timeout poll"

definition full_main :: "'w console \<Rightarrow> 'w port \<Rightarrow> full_args \<Rightarrow> 'w \<Rightarrow> (exit \<times> 'w) option" where
  "full_main K P args w =
     map_option (finish K (f_json args))
       (with_client K (f_port args) (f_baud args) (run_full_command K P (f_json args) (f_command args)) w)"

section \<open>Every run ends, with exit code 0 or 1\<close>

context console_channel
begin

lemma keeps_close: "(\<And>c. C c) \<Longrightarrow> keeps t I (close_session P timeout)"
  by (rule keeps_close_session)

lemma keeps_run_full_command:
  assumes all: "\<And>c. C c"
  shows "keeps t I (run_full_command K P as_json command)"
proof -
  have zero: "keeps t I (zeroize P scope timeout)" for scope timeout
    unfolding zeroize_def by (intro keeps_flow all)
  show ?thesis
    by (cases command; simp only: run_full_command.simps keypair_generate_def session_create_def
        session_diagnostic_def telemetry_send_def session_close_def zeroize_command_def
        secure_telemetry_qualify_def Let_def;
        intro keeps_flow keeps_emit_report keeps_close keeps_run_secure_telemetry_qualification zero all)
qed

end

lemma full_main_total:
  assumes "timely P clk b"
  shows "\<exists>r w'. full_main K P args w = Some (r, w')"
proof -
  have "with_client K (f_port args) (f_baud args) (run_full_command K P (f_json args) (f_command args)) w \<noteq> None"
    using with_client_total [OF console_channel.keeps_run_full_command [OF console_total [OF assms]]] by auto
  then have "full_main K P args w \<noteq> None" by (simp add: full_main_def del: not_None_eq)
  then show ?thesis by auto
qed

lemma parse_all_plaintexts_raises: "raises_only cli_caught (parse_all_plaintexts items)"
  by (induction items) (auto intro!: raises_intros parse_hex_raises)

context catching_port
begin

lemma fails_run_full_command:
  assumes K: "console_caught K"
  shows "fails_with cli_caught (run_full_command K P as_json command)"
proof -
  have plaintexts: "raises_only cli_caught (qualify_plaintexts items)" for items
    unfolding qualify_plaintexts_def by (intro raises_intros parse_all_plaintexts_raises)
  show ?thesis
    by (cases command; simp only: run_full_command.simps keypair_generate_def session_create_def
        session_diagnostic_def telemetry_send_def session_close_def zeroize_command_def
        secure_telemetry_qualify_def Let_def;
        intro fails_intros fails_emit_report K parse_hex_raises plaintexts fails_generate_keypair
          fails_create_session fails_read_session_commit_diagnostic fails_send_telemetry fails_close_session
          fails_zeroize fails_emergency_zeroize fails_run_secure_telemetry_qualification)
qed

end

lemma full_main_exits:
  assumes T: "timely P clk b" and "port_caught P" and K: "console_caught K"
  shows "\<exists>c w'. full_main K P args w = Some (Exit c, w') \<and> c \<in> {0, 1}"
proof -
  have body: "fails_with cli_caught (run_full_command K P (f_json args) (f_command args))"
    by (rule catching_port.fails_run_full_command [OF catching_port.intro]) (fact assms)+
  from full_main_total [OF T, of K args w] obtain x w' where x: "full_main K P args w = Some (x, w')" by blast
  then obtain r w1 where
    r: "with_client K (f_port args) (f_baud args) (run_full_command K P (f_json args) (f_command args)) w
      = Some (r, w1)" and "finish K (f_json args) (r, w1) = (x, w')"
    by (auto simp: full_main_def)
  with finish_exits [OF with_client_fails [OF body K r] K, of "f_json args" w1] x show ?thesis by auto
qed

section \<open>The secure-telemetry qualification\<close>

definition secure_telemetry_reports :: "secure_telemetry_result \<Rightarrow> report list" where
  "secure_telemetry_reports r =
     [[(''step'', Text ''CONTROL_PLANE_REGRESSION''), (''result'', Text ''PASS''),
       (''sn32_build_id'', Text (hex_field 8 (si_sn32_build_id (sr_info r)))),
       (''primer1_build_id'', Text (hex_field 8 (si_primer1_build_id (sr_info r)))),
       (''primer2_build_id'', Text (hex_field 8 (si_primer2_build_id (sr_info r))))],
      [(''step'', Text ''MLKEM_KEYPAIR''), (''result'', Text ''PASS''),
       (''public_key_hash'', Text (bytes_hex (kp_public_key_hash (sr_keypair r))))],
      [(''step'', Text ''SESSION_STAGE_COMMIT''), (''result'', Text ''PASS''),
       (''session_id'', Text (hex_field 8 (se_session_id (sr_session r)))),
       (''initial_sequence'', Number (se_initial_sequence (sr_session r))),
       (''system_state'', Text (SystemState_name (st_system_state (sr_status_active r))))]]
     @ map packet_report (enumerate 1 (sr_telemetry r))
     @ [[(''step'', Text ''FINAL_ZEROIZE''), (''result'', Text ''PASS''),
         (''system_state'', Text (SystemState_name (st_system_state (sr_status_final r)))),
         (''session_id'', Text (hex_field 8 (st_session_id (sr_status_final r)))),
         (''current_sequence'', Number (st_current_sequence (sr_status_final r)))],
        SECURE_TELEMETRY_PASS]"

definition telemetry_log :: "string list \<Rightarrow> cli_event list \<Rightarrow> bool" where
  "telemetry_log items log \<longleftrightarrow> (\<exists>plaintexts r. qualify_plaintexts items = Inr plaintexts \<and>
     secure_telemetry_ok plaintexts r \<and> log = map Printed (secure_telemetry_reports r))"

lemma says_secure_telemetry_qualify:
  "says (Printed SECURE_TELEMETRY_PASS) []
     (secure_telemetry_qualify (recorded K) (beside P) as_json key_seed session_seed items timeout poll)
     (\<lambda>_. telemetry_log items)"
proof -
  have plaintexts: "yields (\<lambda>ps. qualify_plaintexts items = Inr ps) (io_lift (qualify_plaintexts items))"
    by (rule yields_lift)
  have last: "telemetry_log items (([] @ [Printed a] @ [Printed b] @ [Printed c]
      @ map (Printed \<circ> packet_report) (enumerate 1 (sr_telemetry r))) @ [Printed d] @ [Printed SECURE_TELEMETRY_PASS])"
    if "qualify_plaintexts items = Inr ps" "secure_telemetry_ok ps r"
      "[a, b, c] @ map packet_report (enumerate 1 (sr_telemetry r)) @ [d, SECURE_TELEMETRY_PASS]
        = secure_telemetry_reports r" for a b c d r ps
    using that(1,2) unfolding telemetry_log_def
    by (intro exI [of _ ps] exI [of _ r]) (simp flip: that(3))
  show ?thesis
    unfolding secure_telemetry_qualify_def
    by (intro says_silent [OF _ plaintexts] says_silent [OF _ secure_telemetry_yields]
        says_silent [OF _ yields_any] says_emit_then says_for_then says_emit keeps_intros
        silent.keeps_run_secure_telemetry_qualification)
      (auto simp: SECURE_TELEMETRY_PASS_def packet_report_def secure_telemetry_reports_def
        dest: last)
qed

lemma telemetry_log_claim: "telemetry_log items log \<Longrightarrow> Printed SECURE_TELEMETRY_PASS \<in> set log"
  by (auto simp: telemetry_log_def secure_telemetry_reports_def)

lemma telemetry_claims:
  assumes command: "f_command args = Secure_telemetry_qualify key_seed session_seed items timeout poll"
    and run: "full_main (recorded K) (beside P) args (w, []) = Some (x, w', log)"
  shows "claims K (Printed SECURE_TELEMETRY_PASS) (telemetry_log items) x log"
proof -
  obtain r w1 log1 where
    r: "with_client (recorded K) (f_port args) (f_baud args)
       (run_full_command (recorded K) (beside P) (f_json args) (f_command args)) (w, []) = Some (r, w1, log1)" and
    x: "finish (recorded K) (f_json args) (r, w1, log1) = (x, w', log)"
    using run by (auto simp: full_main_def)
  have body: "says (Printed SECURE_TELEMETRY_PASS) []
      (run_full_command (recorded K) (beside P) (f_json args) (f_command args)) (\<lambda>_. telemetry_log items)"
    unfolding command run_full_command.simps by (rule says_secure_telemetry_qualify)
  show ?thesis
    by (rule finish_says [where G = "Printed SECURE_TELEMETRY_PASS" and Q = "telemetry_log items",
          OF with_client_says [OF body r] cli_event.distinct(1) telemetry_log_claim x])
qed

lemma telemetry_certified:
  assumes "timely P clk b" and "f_command args = Secure_telemetry_qualify key_seed session_seed items timeout poll"
  shows "\<exists>x w' log. full_main (recorded K) (beside P) args (w, []) = Some (x, w', log) \<and>
    claims K (Printed SECURE_TELEMETRY_PASS) (telemetry_log items) x log"
  using full_main_total [OF timely_beside [OF assms(1)], of "recorded K" args "(w, [])"]
    telemetry_claims [OF assms(2)] by (metis prod.collapse)

section \<open>The choice of the command line\<close>

text \<open>A call whose only command name is the subcommand itself goes to the parser that has it; a value
  of an option that is spelled as a command of the full flow goes there as well.\<close>

lemma entry_route_exact:
  assumes "filter (\<lambda>t. t \<in> set all_command_names) argv = [c]"
  shows "entry_route argv = (if c \<in> set FULL_COMMANDS then Full_parser else Legacy_parser)"
proof -
  have names: "t \<in> set argv \<and> t \<in> set all_command_names \<longleftrightarrow> t = c" for t
    using arg_cong [OF assms, of set] by auto
  then have c: "c \<in> set argv" "c \<in> set all_command_names"
    and only: "t \<in> set argv \<Longrightarrow> t \<in> set all_command_names \<Longrightarrow> t = c" for t
    by blast+
  have "contains_full_command argv \<longleftrightarrow> c \<in> set FULL_COMMANDS"
  proof -
    have "set FULL_COMMANDS \<subseteq> set all_command_names"
      unfolding all_command_names_def by simp
    then show ?thesis
      unfolding contains_full_command_def list_ex_iff using c(1) only by blast
  qed
  moreover have "list_ex (\<lambda>t. t \<in> set all_command_names) argv" "argv \<noteq> []"
    using c by (auto simp: list_ex_iff)
  ultimately show ?thesis
    by (simp add: entry_route_def)
qed

lemma entry_route_misled: "entry_route [''--port'', ''zeroize'', ''ping''] = Full_parser"
  by code_simp

end
