(* ===== verification/Py_Parse.thy ===== *)
theory Py_Parse
  imports Py_Text
begin

text \<open>
  The text parsing of Python that the command line and the scripts use, on characters below 256:
  \<open>str.strip\<close>, \<open>str.splitlines\<close>, \<open>str.partition\<close>, \<open>str.split(sep, 1)\<close>, \<open>int(text, 0)\<close>. The forms a number is
  printed in are proved to read back.
\<close>

section \<open>White space and lines\<close>

text \<open>The white space of \<open>str.strip\<close>, of \<open>str.split(None)\<close> and of \<open>\s\<close> in a pattern.\<close>

definition is_str_space :: "char \<Rightarrow> bool" where
  "is_str_space c =
     (let n = of_char c :: nat in 9 \<le> n \<and> n \<le> 13 \<or> 28 \<le> n \<and> n \<le> 32 \<or> n = 0x85 \<or> n = 0xA0)"

definition str_lstrip :: "string \<Rightarrow> string" where
  "str_lstrip s = dropWhile is_str_space s"

definition str_strip :: "string \<Rightarrow> string" where
  "str_strip s = rev (dropWhile is_str_space (rev (str_lstrip s)))"

text \<open>Line ends of \<open>str.splitlines\<close>; a carriage return and a line feed after it are one.\<close>

definition is_line_end :: "char \<Rightarrow> bool" where
  "is_line_end c = (let n = of_char c :: nat in 10 \<le> n \<and> n \<le> 13 \<or> 28 \<le> n \<and> n \<le> 30 \<or> n = 0x85)"

function splitlines :: "string \<Rightarrow> string list" where
  "splitlines s =
     (if s = [] then []
      else
        (let line = takeWhile (\<lambda>c. \<not> is_line_end c) s; rest = dropWhile (\<lambda>c. \<not> is_line_end c) s
         in line # (case rest of [] \<Rightarrow> []
              | c # cs \<Rightarrow> splitlines (if c = CHR 0x0D \<and> cs \<noteq> [] \<and> hd cs = CHR 0x0A then tl cs else cs))))"
  by pat_completeness auto
termination
proof (relation "measure length", goal_cases)
  case (2 s line rest c cs)
  have "length rest \<le> length s" unfolding 2(3) by (rule length_dropWhile_le)
  then show ?case using 2(4) by (cases cs) auto
qed simp

declare splitlines.simps [simp del]

text \<open>\<open>text.partition(sep)\<close> as the part before and, when the separator occurs, the part after it.\<close>

definition partition_at :: "char \<Rightarrow> string \<Rightarrow> string \<times> string option" where
  "partition_at sep s =
     (takeWhile (\<lambda>c. c \<noteq> sep) s,
      case dropWhile (\<lambda>c. c \<noteq> sep) s of [] \<Rightarrow> None | _ # rest \<Rightarrow> Some rest)"

fun split_on :: "char \<Rightarrow> string \<Rightarrow> string list" where
  "split_on sep [] = [[]]"
| "split_on sep (c # cs) =
     (if c = sep then [] # split_on sep cs
      else (case split_on sep cs of [] \<Rightarrow> [[c]] | p # ps \<Rightarrow> (c # p) # ps))"

lemma split_on_nonempty [simp]: "split_on sep s \<noteq> []"
  by (induction s) (auto split: list.split)

lemma str_strip_id:
  assumes "s \<noteq> []" and "\<not> is_str_space (hd s)" and "\<not> is_str_space (last s)"
  shows "str_strip s = s"
proof -
  have "str_lstrip s = s" using assms(1,2) by (cases s) (simp_all add: str_lstrip_def)
  moreover have "dropWhile is_str_space (rev s) = rev s"
    using assms(1,3) by (cases s rule: rev_cases) simp_all
  ultimately show ?thesis by (simp add: str_strip_def)
qed

section \<open>Integers\<close>

text \<open>The digits of a literal in base \<open>b\<close>: single underscores are allowed between two digits.\<close>

fun int_digits :: "int \<Rightarrow> bool \<Rightarrow> string \<Rightarrow> int list option" where
  "int_digits b after_digit [] = (if after_digit then Some [] else None)"
| "int_digits b after_digit (c # cs) =
     (if c = CHR ''_'' then (if after_digit then int_digits b False cs else None)
      else (case hex_value c of None \<Rightarrow> None
        | Some d \<Rightarrow> if d < b then map_option ((#) d) (int_digits b True cs) else None))"

definition int_of_digits :: "int \<Rightarrow> int list \<Rightarrow> int" where
  "int_of_digits b ds = foldl (\<lambda>acc d. acc * b + d) 0 ds"

text \<open>The literal without its sign: the base is that of its prefix; a decimal literal that starts with 0
  must be 0, and one of more than 4300 digits is refused. An underscore may follow the prefix.\<close>

definition int_literal :: "string \<Rightarrow> int option" where
  "int_literal s =
     (let prefixed = (\<lambda>b. map_option (int_of_digits b)
            (int_digits b False (if drop 2 s \<noteq> [] \<and> s ! 2 = CHR ''_'' then drop 3 s else drop 2 s)))
      in
      if 2 \<le> length s \<and> s ! 0 = CHR ''0'' \<and> s ! 1 \<in> set ''xX'' then prefixed 16
      else if 2 \<le> length s \<and> s ! 0 = CHR ''0'' \<and> s ! 1 \<in> set ''oO'' then prefixed 8
      else if 2 \<le> length s \<and> s ! 0 = CHR ''0'' \<and> s ! 1 \<in> set ''bB'' then prefixed 2
      else
        (case int_digits 10 False s of None \<Rightarrow> None
         | Some ds \<Rightarrow>
             if 4300 < length ds then None
             else if hd s = CHR ''0'' \<and> int_of_digits 10 ds \<noteq> 0 then None
             else Some (int_of_digits 10 ds)))"

definition parse_int0 :: "string \<Rightarrow> int option" where
  "parse_int0 text =
     (let s = str_strip text in
      if s \<noteq> [] \<and> hd s = CHR ''-'' then map_option uminus (int_literal (tl s))
      else if s \<noteq> [] \<and> hd s = CHR ''+'' then int_literal (tl s)
      else int_literal s)"

subsection \<open>Printed numbers read back\<close>

lemma digit_plain [simp]:
  assumes "d < 16"
  shows "digit_upper d \<noteq> CHR ''_''" "digit_upper d \<noteq> CHR ''+''" "\<not> is_str_space (digit_upper d)"
    "digit_upper d \<notin> set ''xXoO''" "d < 10 \<Longrightarrow> digit_upper d \<notin> set ''bB''"
    "digit_upper d = CHR ''0'' \<longleftrightarrow> d = 0"
  using below_16 [OF assms]
  by (elim disjE; simp add: digit_upper_def is_str_space_def)+

lemma digit_decimal:
  assumes "d < 10"
  shows "digit_upper d \<notin> set ''xXoObB''"
proof -
  have "d < 16" using assms by simp
  from below_16 [OF this] assms show ?thesis by (elim disjE; simp add: digit_upper_def)
qed

lemma int_digits_map:
  assumes "list_all (\<lambda>d. d < b \<and> d < 16) ds" and "ds \<noteq> [] \<or> a"
  shows "int_digits (int b) a (map digit_upper ds) = Some (map int ds)"
  using assms by (induction ds arbitrary: a) auto

lemma int_of_digits_read:
  "list_all (\<lambda>d. d < 16) ds \<Longrightarrow> int_of_digits (int b) (map int ds) = read_digits b (map digit_upper ds)"
proof -
  have "list_all (\<lambda>d. d < 16) ds \<Longrightarrow> foldl (\<lambda>acc d. acc * int b + d) a (map int ds)
      = foldl (\<lambda>acc c. acc * int b + (case hex_value c of None \<Rightarrow> 0 | Some d \<Rightarrow> d)) a (map digit_upper ds)" for a
    by (induction ds arbitrary: a) auto
  then show "list_all (\<lambda>d. d < 16) ds \<Longrightarrow> ?thesis"
    by (simp add: int_of_digits_def read_digits_def)
qed

lemma digits_nonempty [simp]: "digits b n \<noteq> []"
  by (subst digits.simps) simp

lemma digits_small: "2 \<le> b \<Longrightarrow> b \<le> 16 \<Longrightarrow> list_all (\<lambda>d. d < b \<and> d < 16) (digits b n)"
  using digits_bounded [of b _ n] by (fastforce simp: list_all_iff)

lemma pad_zero_digits: "pad_zero w (map digit_upper ds) = map digit_upper (replicate (w - length ds) 0 @ ds)"
  by (simp add: pad_zero_def digit_upper_def)

lemma parse_hex_field:
  assumes "0 \<le> n"
  shows "parse_int0 (hex_field w n) = Some n"
proof -
  define ds where "ds = replicate (w - length (digits 16 (nat n))) 0 @ digits 16 (nat n)"
  have field: "hex_field w n = ''0x'' @ map digit_upper ds"
    using assms by (simp add: hex_field_def py_hex_def pad_zero_digits ds_def)
  have small: "list_all (\<lambda>d. d < 16 \<and> d < 16) ds"
    using digits_small [of 16 "nat n"] by (auto simp: ds_def list_all_iff)
  have ne: "ds \<noteq> []" by (simp add: ds_def)
  have zero_char: "\<not> is_str_space CHR ''0''" by (simp add: is_str_space_def)
  have "last (''0x'' @ map digit_upper ds) = digit_upper (last ds)" "last ds < 16"
    using ne small by (auto simp: last_map list_all_iff)
  then have strip: "str_strip (hex_field w n) = hex_field w n"
    unfolding field by (intro str_strip_id) (simp_all add: zero_char)
  have first: "hd (map digit_upper ds) \<noteq> CHR ''_''"
    using ne small by (cases ds) auto
  have "int_of_digits 16 (map int ds) = n"
    using int_of_digits_read [of ds 16] small read_py_hex [OF assms, of w] assms
    by (simp add: list_all_iff py_hex_def pad_zero_digits ds_def)
  then show ?thesis
    using int_digits_map [OF small, of False] ne first strip
    unfolding parse_int0_def Let_def strip
    by (auto simp: field int_literal_def hd_conv_nth)
qed

lemma digits_length: "2 \<le> b \<Longrightarrow> n < b ^ k \<Longrightarrow> 0 < k \<Longrightarrow> length (digits b n) \<le> k"
proof (induction b n arbitrary: k rule: digits.induct)
  case (1 b n)
  show ?case
  proof (cases "n < b")
    case True
    then show ?thesis using 1(4) by (simp add: digits.simps [of b n])
  next
    case False
    have "k \<noteq> 1" using False 1(3) by auto
    then obtain k' where k: "k = Suc k'" "0 < k'" using 1(4) by (cases k) auto
    have "n div b < b ^ k'"
      using 1(2,3) unfolding k by (simp add: less_mult_imp_div_less mult.commute)
    then show ?thesis using 1(1) [of k'] False 1(2) k by (simp add: digits.simps [of b n])
  qed
qed

lemma digits_head: "2 \<le> b \<Longrightarrow> 0 < n \<Longrightarrow> hd (digits b n) \<noteq> 0"
proof (induction b n rule: digits.induct)
  case (1 b n)
  show ?case
  proof (cases "n < b")
    case True
    then show ?thesis using 1(2,3) by (simp add: digits.simps [of b n])
  next
    case False
    then have "0 < n div b" using 1(2) by (simp add: div_greater_zero_iff)
    then show ?thesis using 1(1) False 1(2) by (simp add: digits.simps [of b n])
  qed
qed

lemma parse_py_dec:
  assumes "0 \<le> n" and "length (digits 10 (nat n)) \<le> 4300"
  shows "parse_int0 (py_dec n) = Some n"
proof -
  define ds where "ds = digits 10 (nat n)"
  have shown: "py_dec n = map digit_upper ds" using assms by (simp add: py_dec_def ds_def)
  have small: "list_all (\<lambda>d. d < 10 \<and> d < 16) ds" unfolding ds_def by (rule digits_small) simp_all
  have small16: "list_all (\<lambda>d. d < 16) ds" using small by (simp add: list_all_iff)
  have ne: "ds \<noteq> []" by (simp add: ds_def)
  have bounds: "hd ds < 10" "last ds < 16" using ne small by (auto simp: list_all_iff)
  have ends: "hd (map digit_upper ds) = digit_upper (hd ds)" "last (map digit_upper ds) = digit_upper (last ds)"
    using ne by (simp_all add: hd_map last_map)
  have strip: "str_strip (py_dec n) = py_dec n"
    unfolding shown using ne bounds by (intro str_strip_id) (simp_all add: ends)
  have len: "length ds \<le> 4300" using assms(2) by (simp add: ds_def)
  have value_eq: "int_of_digits 10 (map int ds) = n"
    using int_of_digits_read [OF small16, of 10] read_py_dec [OF assms(1)] by (simp add: shown)
  have zero: "hd ds = 0 \<longrightarrow> n = 0"
    using digits_head [of 10 "nat n"] assms(1) by (cases "n = 0") (auto simp: ds_def)
  have no_prefix: "2 \<le> length ds \<Longrightarrow> digit_upper (ds ! 1) \<notin> set ''xXoObB''"
    by (rule digit_decimal) (use small in \<open>simp add: list_all_length\<close>)
  have "int_digits 10 False (map digit_upper ds) = Some (map int ds)"
    using int_digits_map [OF small, of False] ne by simp
  then have "int_literal (map digit_upper ds) = Some n"
    using no_prefix len value_eq zero bounds ends ne by (auto simp: int_literal_def)
  then show ?thesis
    using strip ends bounds ne by (simp add: parse_int0_def shown)
qed

lemma parse_txid:
  assumes "0 \<le> n" and "n < 2 ^ 16"
  shows "parse_int0 (py_dec n) = Some n"
proof -
  have "length (digits 10 (nat n)) \<le> 5"
    using assms by (intro digits_length) (simp_all add: nat_less_iff)
  then show ?thesis using parse_py_dec [OF assms(1)] by simp
qed

end
