(* ===== verification/Cli_Args.thy ===== *)
theory Cli_Args
  imports Full_Cli Py_Parse
begin

text \<open>
  The arguments of the two command lines: what each option is when it is not given (the \<open>default\<close>s of
  \<open>_build_parser\<close> in \<open>cli.py\<close> and \<open>full_cli.py\<close>; times are microseconds), and the reading of a transaction
  ID by \<open>int(text, 0)\<close>.
\<close>

section \<open>Defaults\<close>

definition BAUD_DEFAULT :: int where
  "BAUD_DEFAULT = 115200"

definition P1_BRINGUP_DEFAULT :: cli_command where
  "P1_BRINGUP_DEFAULT = P1_bringup 5000000 100000"

definition DUAL_SPI_BRINGUP_DEFAULT :: cli_command where
  "DUAL_SPI_BRINGUP_DEFAULT = Dual_spi_bringup 10000000 100000"

definition SN32_QUALIFY_DEFAULT :: cli_command where
  "SN32_QUALIFY_DEFAULT = Sn32_qualify 10000000 100000 10"

definition KEYPAIR_DEFAULT :: full_command where
  "KEYPAIR_DEFAULT = Keypair_generate Deterministic (bytes_hex DEFAULT_KEYPAIR_SEED) 30000000"

definition SESSION_DEFAULT :: full_command where
  "SESSION_DEFAULT = Session_create Kat (bytes_hex DEFAULT_SESSION_SEED) 30000000"

definition TELEMETRY_DEFAULT :: "string \<Rightarrow> full_command" where
  "TELEMETRY_DEFAULT plaintext_hex = Telemetry_send plaintext_hex 10000000"

definition CLOSE_DEFAULT :: full_command where
  "CLOSE_DEFAULT = Session_close 30000000"

definition ZEROIZE_DEFAULT :: full_command where
  "ZEROIZE_DEFAULT = Zeroize_command All 30000000"

definition QUALIFY_DEFAULT :: full_command where
  "QUALIFY_DEFAULT = Secure_telemetry_qualify (bytes_hex DEFAULT_KEYPAIR_SEED) (bytes_hex DEFAULT_SESSION_SEED)
     [] 30000000 50000"

lemma default_seeds_parse:
  "parse_seed_hex (bytes_hex DEFAULT_KEYPAIR_SEED) = Inr DEFAULT_KEYPAIR_SEED"
  "parse_seed_hex (bytes_hex DEFAULT_SESSION_SEED) = Inr DEFAULT_SESSION_SEED"
proof -
  have "length DEFAULT_KEYPAIR_SEED = 32" "length DEFAULT_SESSION_SEED = 32" by code_simp+
  then show "parse_seed_hex (bytes_hex DEFAULT_KEYPAIR_SEED) = Inr DEFAULT_KEYPAIR_SEED"
    "parse_seed_hex (bytes_hex DEFAULT_SESSION_SEED) = Inr DEFAULT_SESSION_SEED"
    by (simp_all add: parse_seed_hex_def rewrap_def check_def)
qed

section \<open>Transaction IDs\<close>

text \<open>The positional argument of \<open>txn-result\<close> and \<open>txn-retire\<close>; \<open>argparse\<close> exits when it is no integer.\<close>

definition txn_result_argument :: "string \<Rightarrow> cli_command option" where
  "txn_result_argument word = map_option Txn_result (parse_int0 word)"

definition txn_retire_argument :: "string \<Rightarrow> cli_command option" where
  "txn_retire_argument word = map_option Txn_retire (parse_int0 word)"

text \<open>A transaction ID that a command has printed, in hexadecimal or in decimal, is read back and fits.\<close>

lemma printed_txid_accepted:
  assumes "0 \<le> txid" and "txid < 2 ^ 16" and "word \<in> {hex_field 4 txid, py_dec txid}"
  shows "txn_result_argument word = Some (Txn_result txid)" "txn_retire_argument word = Some (Txn_retire txid)"
    "txid_fits (Txn_result txid)" "txid_fits (Txn_retire txid)"
  using assms parse_hex_field [OF assms(1), of 4] parse_txid [OF assms(1,2)]
  by (auto simp: txn_result_argument_def txn_retire_argument_def txid_fits_def)

lemma unfit_txid_accepted: "txn_result_argument ''0x10000'' = Some (Txn_result 65536)"
  "txn_result_argument ''-1'' = Some (Txn_result (- 1))" "txn_result_argument ''010'' = None"
  by code_simp+

end
