(* ===== verification/Vendor_Closure.thy ===== *)
theory Vendor_Closure
  imports Py_Parse "HOL-Library.Sublist"
begin

text \<open>
  The selection of files in \<open>ai_context/scripts/vendor_mlkem_native.py\<close>: \<open>parse_lock\<close>, the quoted includes
  of a C file (\<open>INCLUDE_RE\<close>), \<open>resolve_include\<close> and the work list of \<open>dependency_closure\<close>. A path is the list
  of its components from the root directory, resolved; a source tree is the list of its regular files with
  their texts. The importer writes no symbolic link, so resolving a path is removing its dots.
\<close>

section \<open>The lock file\<close>

definition LOCK_KEYS :: "string list" where
  "LOCK_KEYS = [''repository'', ''tag'', ''commit'', ''archive_sha256'']"

text \<open>The loop over the lines: blank lines and comments are skipped, a later value replaces an earlier one.\<close>

fun lock_lines :: "string list \<Rightarrow> (string \<times> string) list \<Rightarrow> (string \<times> string) list result" where
  "lock_lines [] lock = Inr lock"
| "lock_lines (raw # lines) lock =
     (let line = str_strip raw in
      if line = [] \<or> hd line = CHR ''#'' then lock_lines lines lock
      else (case partition_at CHR ''='' line of
          (key, None) \<Rightarrow> Inl (ValueError ''invalid lock line'')
        | (key, Some v) \<Rightarrow> lock_lines lines (AList.update (str_strip key) (str_strip v) lock)))"

definition parse_lock :: "string \<Rightarrow> (string \<times> string) list result" where
  "parse_lock contents =
     result_bind (lock_lines (splitlines contents) []) (\<lambda>lock.
     check (\<not> set LOCK_KEYS \<subseteq> set (map fst lock)) (ValueError ''missing lock keys'')
    (check (length (the (map_of lock ''commit'')) \<noteq> 40) (ValueError ''commit must be a full 40-hex SHA'')
    (Inr lock)))"

section \<open>Includes\<close>

text \<open>\<open>\s*#\s*include\s+"([^"]+)"\<close> at the start of the text: the name and the text after the match. No part of the
  pattern can match differently than greedily.\<close>

definition match_include :: "string \<Rightarrow> (string \<times> string) option" where
  "match_include s =
     (case str_lstrip s of
        [] \<Rightarrow> None
      | c # s1 \<Rightarrow>
          let s2 = str_lstrip s1; s3 = drop 7 s2; s4 = str_lstrip s3 in
          if c = CHR ''#'' \<and> prefix ''include'' s2 \<and> s4 \<noteq> s3 \<and> s4 \<noteq> [] \<and> hd s4 = CHR 0x22 then
            (case partition_at CHR 0x22 (tl s4) of
               (name, Some rest) \<Rightarrow> if name \<noteq> [] then Some (name, rest) else None
             | (name, None) \<Rightarrow> None)
          else None)"

lemma lstrip_length: "length (str_lstrip s) \<le> length s"
  by (simp add: str_lstrip_def length_dropWhile_le)

lemma match_include_shorter: "match_include s = Some (name, rest) \<Longrightarrow> length rest < length s"
proof -
  assume m: "match_include s = Some (name, rest)"
  obtain c s1 where s1: "str_lstrip s = c # s1"
    using m by (cases "str_lstrip s") (auto simp: match_include_def)
  define s4 where "s4 = str_lstrip (drop 7 (str_lstrip s1))"
  have p: "partition_at CHR 0x22 (tl s4) = (name, Some rest)"
    using m by (auto simp: match_include_def s1 Let_def s4_def split: if_splits prod.splits option.splits)
  have "length (dropWhile (\<lambda>c. c \<noteq> CHR 0x22) (tl s4)) = Suc (length rest)"
    using p by (auto simp: partition_at_def split: list.splits)
  then have "length rest < length s4"
    by (metis Suc_le_lessD length_dropWhile_le length_tl less_le_trans diff_le_self)
  also have "\<dots> \<le> length s1"
    using lstrip_length [of "drop 7 (str_lstrip s1)"] lstrip_length [of s1] by (simp add: s4_def)
  also have "\<dots> < length s"
    using lstrip_length [of s] by (simp add: s1)
  finally show ?thesis .
qed

text \<open>\<open>INCLUDE_RE.findall\<close>; the flag says whether the position is at the start of a line.\<close>

function find_includes :: "bool \<Rightarrow> string \<Rightarrow> string list" where
  "find_includes line_start [] = []"
| "find_includes line_start (c # cs) =
     (case (if line_start then match_include (c # cs) else None) of
        Some (name, rest) \<Rightarrow> name # find_includes False rest
      | None \<Rightarrow> find_includes (c = CHR 0x0A) cs)"
  by pat_completeness auto
termination
  by (relation "measure (length \<circ> snd)") (auto split: if_splits dest: match_include_shorter)

definition quoted_includes :: "string \<Rightarrow> string list" where
  "quoted_includes contents = find_includes True contents"

section \<open>Paths\<close>

type_synonym path = "string list"
type_synonym source_tree = "(path \<times> string) list"

fun resolve_from :: "path \<Rightarrow> string list \<Rightarrow> path" where
  "resolve_from p [] = p"
| "resolve_from p (c # cs) =
     (if c = [] \<or> c = ''.'' then resolve_from p cs
      else if c = ''..'' then resolve_from (butlast p) cs
      else resolve_from (p @ [c]) cs)"

text \<open>\<open>(directory / name).resolve()\<close>: an absolute name replaces the directory, and one that starts with exactly
  two slashes names another root.\<close>

definition join_path :: "path \<Rightarrow> string \<Rightarrow> path option" where
  "join_path directory name =
     (let parts = split_on CHR ''/'' name in
      if prefix ''//'' name \<and> \<not> prefix ''///'' name then None
      else if prefix ''/'' name then Some (resolve_from [] parts)
      else Some (resolve_from directory parts))"

definition is_file :: "source_tree \<Rightarrow> path \<Rightarrow> bool" where
  "is_file t p \<longleftrightarrow> map_of t p \<noteq> None"

definition include_directories :: "path \<Rightarrow> path \<Rightarrow> path list" where
  "include_directories root current =
     [butlast current, root @ [''mlkem''], root @ [''mlkem'', ''src''], root @ [''mlkem'', ''src'', ''fips202'']]"

text \<open>The loop over the candidates: the first one below the root that is a file.\<close>

fun first_candidate :: "source_tree \<Rightarrow> path \<Rightarrow> path option list \<Rightarrow> path option" where
  "first_candidate t root [] = None"
| "first_candidate t root (None # cs) = first_candidate t root cs"
| "first_candidate t root (Some c # cs) =
     (if prefix root c \<and> is_file t c then Some c else first_candidate t root cs)"

definition resolve_include :: "source_tree \<Rightarrow> path \<Rightarrow> path \<Rightarrow> string \<Rightarrow> path option" where
  "resolve_include t root current name =
     first_candidate t root (map (\<lambda>d. join_path d name) (include_directories root current))"

lemma resolve_include_file: "resolve_include t root current name = Some p \<Longrightarrow> is_file t p \<and> prefix root p"
proof -
  have "first_candidate t root cs = Some p \<Longrightarrow> is_file t p \<and> prefix root p" for cs
    by (induction t root cs rule: first_candidate.induct) (auto split: if_splits)
  then show "resolve_include t root current name = Some p \<Longrightarrow> ?thesis"
    by (simp add: resolve_include_def)
qed

section \<open>The work list\<close>

text \<open>\<open>sorted(directory.glob("*.c"))\<close>.\<close>

definition c_files :: "source_tree \<Rightarrow> path \<Rightarrow> path list" where
  "c_files t directory =
     sort (remdups (filter (\<lambda>p. p \<noteq> [] \<and> butlast p = directory \<and> suffix ''.c'' (last p)) (map fst t)))"

definition seeds :: "source_tree \<Rightarrow> path \<Rightarrow> path list" where
  "seeds t root = (root @ [''mlkem'', ''mlkem_native.h'']) # c_files t (root @ [''mlkem'', ''src''])
     @ c_files t (root @ [''mlkem'', ''src'', ''fips202''])"

text \<open>One file: the files its includes name that are not selected yet, and those that name no file.\<close>

definition found :: "source_tree \<Rightarrow> path \<Rightarrow> path list \<Rightarrow> path \<Rightarrow> string \<Rightarrow> path list" where
  "found t root selected current contents =
     filter (\<lambda>p. p \<notin> set selected) (List.map_filter (resolve_include t root current) (quoted_includes contents))"

definition not_found :: "source_tree \<Rightarrow> path \<Rightarrow> path \<Rightarrow> string \<Rightarrow> (path \<times> string) list" where
  "not_found t root current contents =
     map (Pair current) (filter (\<lambda>i. resolve_include t root current i = None) (quoted_includes contents))"

text \<open>The loop; the list \<open>pending\<close> is used from its end, which is the head here.\<close>

function closure_loop :: "source_tree \<Rightarrow> path \<Rightarrow> path list \<Rightarrow> path list \<Rightarrow> (path \<times> string) list
    \<Rightarrow> (path list \<times> (path \<times> string) list) result" where
  "closure_loop t root [] selected unresolved = Inr (selected, unresolved)"
| "closure_loop t root (current # pending) selected unresolved =
     (if current \<in> set selected then closure_loop t root pending selected unresolved
      else (case map_of t current of
          None \<Rightarrow> Inl (OSError ''file not found'')
        | Some contents \<Rightarrow>
            closure_loop t root (rev (found t root (current # selected) current contents) @ pending)
              (current # selected) (unresolved @ not_found t root current contents)))"
  by pat_completeness auto
termination
proof (relation "(\<lambda>(t, root, pending, selected, unresolved). card (fst ` set t - set selected))
    <*mlex*> measure (\<lambda>(t, root, pending, selected, unresolved). length pending)", goal_cases)
  case 1
  show ?case by (simp add: wf_mlex)
next
  case (2 t root current pending selected unresolved)
  then show ?case by (simp add: mlex_leq)
next
  case (3 t root current pending selected unresolved contents)
  then have "current \<in> fst ` set t - set selected"
    by (metis DiffI image_eqI map_of_SomeD fst_conv)
  then have "card (fst ` set t - set (current # selected)) < card (fst ` set t - set selected)"
    by (intro psubset_card_mono) auto
  then show ?case by (simp add: mlex_less)
qed

definition dependency_closure :: "source_tree \<Rightarrow> path \<Rightarrow> path list result" where
  "dependency_closure t root =
     result_bind (closure_loop t root (rev (seeds t root)) [] []) (\<lambda>(selected, unresolved).
     check (unresolved \<noteq> []) (ValueError ''unresolved quoted includes'') (Inr (sort selected)))"

section \<open>The selection is the closure\<close>

definition includes_file :: "source_tree \<Rightarrow> path \<Rightarrow> path \<Rightarrow> path \<Rightarrow> bool" where
  "includes_file t root p q \<longleftrightarrow> (\<exists>contents i. map_of t p = Some contents \<and>
     i \<in> set (quoted_includes contents) \<and> resolve_include t root p i = Some q)"

definition unresolved_include :: "source_tree \<Rightarrow> path \<Rightarrow> path \<Rightarrow> string \<Rightarrow> bool" where
  "unresolved_include t root p i \<longleftrightarrow> (\<exists>contents. map_of t p = Some contents \<and>
     i \<in> set (quoted_includes contents) \<and> resolve_include t root p i = None)"

text \<open>The least set of files that has the seeds and, with a file, the files it includes.\<close>

inductive_set needed :: "source_tree \<Rightarrow> path \<Rightarrow> path set \<Rightarrow> path set"
  for t :: source_tree and root :: path and start :: "path set" where
  seed: "p \<in> start \<Longrightarrow> p \<in> needed t root start"
| include_of: "p \<in> needed t root start \<Longrightarrow> includes_file t root p q \<Longrightarrow> q \<in> needed t root start"

lemma needed_mono: "start \<subseteq> needed t root S \<Longrightarrow> needed t root start \<subseteq> needed t root S"
proof
  fix p
  assume "start \<subseteq> needed t root S" and "p \<in> needed t root start"
  from this(2,1) show "p \<in> needed t root S"
    by (induction rule: needed.induct) (auto intro: needed.include_of)
qed

lemma set_found:
  assumes "map_of t p = Some contents"
  shows "set (found t root selected p contents) = {q. includes_file t root p q} - set selected"
  using assms by (force simp: found_def includes_file_def List.map_filter_def)

lemma set_not_found:
  assumes "map_of t p = Some contents"
  shows "set (not_found t root p contents) = {p} \<times> {i. unresolved_include t root p i}"
  using assms by (auto simp: not_found_def unresolved_include_def)

text \<open>What the loop keeps: everything selected or pending stays, nothing else than what is needed for it
  is added, and an include of a selected file is selected or pending.\<close>

definition carried :: "source_tree \<Rightarrow> path \<Rightarrow> path list \<Rightarrow> path list \<Rightarrow> bool" where
  "carried t root selected pending \<longleftrightarrow>
     (\<forall>p \<in> set selected. \<forall>q. includes_file t root p q \<longrightarrow> q \<in> set selected \<union> set pending)"

lemma closure_loop_sound:
  assumes "closure_loop t root pending selected unresolved = Inr (sel, un)" and "distinct selected"
    and "carried t root selected pending"
  shows "distinct sel \<and> set selected \<union> set pending \<subseteq> set sel \<and>
    set sel \<subseteq> set selected \<union> needed t root (set pending) \<and>
    (\<forall>p q. p \<in> set sel \<longrightarrow> includes_file t root p q \<longrightarrow> q \<in> set sel) \<and>
    set un = set unresolved \<union> {(p, i). p \<in> set sel - set selected \<and> unresolved_include t root p i}"
  using assms
proof (induction t root pending selected unresolved rule: closure_loop.induct)
  case (1 t root selected unresolved)
  then show ?case by (auto simp: carried_def)
next
  case (2 t root current pending selected unresolved)
  show ?case
  proof (cases "current \<in> set selected")
    case True
    have inv: "carried t root selected pending"
      using 2(5) True by (auto simp: carried_def)
    have run: "closure_loop t root pending selected unresolved = Inr (sel, un)"
      using 2(3) True by simp
    have "needed t root (set pending) \<subseteq> needed t root (set (current # pending))"
      by (rule needed_mono) (auto intro: needed.seed)
    with 2(1) [OF True run 2(4) inv] True show ?thesis by simp blast
  next
    case False
    with 2(3) obtain contents where c: "map_of t current = Some contents"
      by (auto split: option.splits)
    let ?pending = "rev (found t root (current # selected) current contents) @ pending"
    have run: "closure_loop t root ?pending (current # selected)
        (unresolved @ not_found t root current contents) = Inr (sel, un)"
      using 2(3) False c by simp
    have dist: "distinct (current # selected)" using 2(4) False by simp
    have inv: "carried t root (current # selected) ?pending"
      using 2(5) by (auto simp: carried_def set_found [OF c])
    note ih = 2(2) [OF False c run dist inv]
    have "set ?pending \<subseteq> needed t root (set (current # pending))"
      by (auto simp: set_found [OF c] intro: needed.seed needed.include_of)
    then have "needed t root (set ?pending) \<subseteq> needed t root (set (current # pending))"
      by (rule needed_mono)
    moreover have "current \<in> needed t root (set (current # pending))" by (simp add: needed.seed)
    ultimately show ?thesis
      using ih False by (auto simp: set_not_found [OF c])
  qed
qed

lemma closure_loop_total:
  assumes "\<And>p. p \<in> set pending \<Longrightarrow> is_file t p"
  shows "\<exists>sel un. closure_loop t root pending selected unresolved = Inr (sel, un)"
  using assms
proof (induction t root pending selected unresolved rule: closure_loop.induct)
  case (2 t root current pending selected unresolved)
  from 2(3) [of current] obtain contents where c: "map_of t current = Some contents"
    by (auto simp: is_file_def)
  have files: "is_file t p" if "p \<in> set (rev (found t root (current # selected) current contents) @ pending)" for p
    using that 2(3) resolve_include_file by (auto simp: set_found [OF c] includes_file_def)
  show ?case
    using 2(1) 2(2) [OF _ c files] 2(3) by (simp add: c)
qed simp

lemma closure_loop_missing:
  assumes "closure_loop t root pending selected unresolved = Inr (sel, un)" and "p \<in> set pending"
    and "\<And>q. q \<in> set selected \<Longrightarrow> is_file t q"
  shows "is_file t p"
  using assms
proof (induction t root pending selected unresolved rule: closure_loop.induct)
  case (2 t root current pending selected unresolved)
  show ?case
  proof (cases "current \<in> set selected")
    case True
    then show ?thesis using 2(1,3-5) by auto
  next
    case False
    with 2(3) obtain contents where c: "map_of t current = Some contents"
      by (auto split: option.splits)
    then have "is_file t current" by (simp add: is_file_def)
    then show ?thesis using 2(2) [OF False c] 2(3-5) False c by auto
  qed
qed simp

lemma seeds_files: "p \<in> set (seeds t root) \<Longrightarrow> p = root @ [''mlkem'', ''mlkem_native.h''] \<or> is_file t p"
  by (auto simp: seeds_def c_files_def is_file_def map_of_eq_None_iff)

definition closure_set :: "source_tree \<Rightarrow> path \<Rightarrow> path set" where
  "closure_set t root = needed t root (set (seeds t root))"

text \<open>The importer selects exactly the closure, sorted; it fails exactly when the public header is missing or
  a file of the closure has an include that names no file of the tree.\<close>

theorem dependency_closure_exact:
  "dependency_closure t root = Inr sel \<longleftrightarrow>
     is_file t (root @ [''mlkem'', ''mlkem_native.h'']) \<and>
     (\<forall>p \<in> closure_set t root. \<forall>i. \<not> unresolved_include t root p i) \<and>
     sel = sorted_list_of_set (closure_set t root)"
proof -
  let ?header = "root @ [''mlkem'', ''mlkem_native.h'']"
  have exact: "distinct s \<and> set s = closure_set t root \<and>
      set un = {(p, i). p \<in> closure_set t root \<and> unresolved_include t root p i}"
    if run: "closure_loop t root (rev (seeds t root)) [] [] = Inr (s, un)" for s un
  proof -
    have "carried t root [] (rev (seeds t root))" by (simp add: carried_def)
    from closure_loop_sound [OF run _ this]
    have sound: "distinct s" "set (seeds t root) \<subseteq> set s" "set s \<subseteq> needed t root (set (seeds t root))"
      "p \<in> set s \<Longrightarrow> includes_file t root p q \<Longrightarrow> q \<in> set s"
      "set un = {(p, i). p \<in> set s \<and> unresolved_include t root p i}" for p q
      by simp_all
    have "closure_set t root \<subseteq> set s"
    proof
      fix p
      assume "p \<in> closure_set t root"
      then have "p \<in> needed t root (set (seeds t root))" by (simp add: closure_set_def)
      then show "p \<in> set s"
        by (induction rule: needed.induct) (use sound in auto)
    qed
    moreover have "set s \<subseteq> closure_set t root" using sound by (auto simp: closure_set_def)
    ultimately have "set s = closure_set t root" by blast
    then show ?thesis using sound by auto
  qed
  have sorted: "distinct s \<Longrightarrow> sort s = sorted_list_of_set (set s)" for s :: "path list"
    by (metis sorted_list_of_set_sort_remdups distinct_remdups_id)
  have header: "?header \<in> set (rev (seeds t root))" by (simp add: seeds_def)
  show ?thesis
  proof
    assume "dependency_closure t root = Inr sel"
    then obtain s un where run: "closure_loop t root (rev (seeds t root)) [] [] = Inr (s, un)"
      and res: "un = []" "sel = sort s"
      by (auto simp: dependency_closure_def result_bind_eq_Inr check_eq_Inr)
    have "is_file t ?header" using closure_loop_missing [OF run header] by simp
    then show "is_file t ?header \<and> (\<forall>p \<in> closure_set t root. \<forall>i. \<not> unresolved_include t root p i) \<and>
       sel = sorted_list_of_set (closure_set t root)"
      using exact [OF run] res sorted [of s] by auto
  next
    assume ok: "is_file t ?header \<and> (\<forall>p \<in> closure_set t root. \<forall>i. \<not> unresolved_include t root p i) \<and>
       sel = sorted_list_of_set (closure_set t root)"
    then have "\<And>p. p \<in> set (rev (seeds t root)) \<Longrightarrow> is_file t p" using seeds_files by fastforce
    from closure_loop_total [OF this] obtain s un where
      run: "closure_loop t root (rev (seeds t root)) [] [] = Inr (s, un)" by blast
    have "set un = {}" using exact [OF run] ok by auto
    then have "un = []" by simp
    then show "dependency_closure t root = Inr sel"
      using exact [OF run] ok sorted [of s] \<open>un = []\<close> by (simp add: dependency_closure_def run)
  qed
qed

end
