(* ===== verification/Vendor_Import.thy ===== *)
theory Vendor_Import
  imports Vendor_Closure
begin

text \<open>
  The writing part of \<open>ai_context/scripts/vendor_mlkem_native.py\<close>: \<open>safe_extract_tar\<close>, \<open>copy_selected\<close> and
  \<open>main\<close> over a disk without symbolic links. What a run needs from outside is a parameter: the SHA-256 of a
  byte string in hexadecimal, the download, the members of an archive, the text of a file's bytes, the
  upstream test. The options of \<open>json.dumps\<close> and the fixed texts are those of the script.
\<close>

section \<open>The disk\<close>

datatype node = Directory | Regular string int

type_synonym disk = "(path \<times> node) list"
type_synonym 'a disk_op = "disk \<Rightarrow> 'a result \<times> disk"

definition disk_return :: "'a \<Rightarrow> 'a disk_op" where
  "disk_return a d = (Inr a, d)"

definition disk_raise :: "exn \<Rightarrow> 'a disk_op" where
  "disk_raise e d = (Inl e, d)"

definition disk_bind :: "'a disk_op \<Rightarrow> ('a \<Rightarrow> 'b disk_op) \<Rightarrow> 'b disk_op" where
  "disk_bind m k d = (case m d of (Inl e, d') \<Rightarrow> (Inl e, d') | (Inr a, d') \<Rightarrow> k a d')"

definition disk_then :: "unit disk_op \<Rightarrow> 'b disk_op \<Rightarrow> 'b disk_op" where
  "disk_then m k = disk_bind m (\<lambda>_. k)"

definition disk_lift :: "'a result \<Rightarrow> 'a disk_op" where
  "disk_lift r d = (r, d)"

definition disk_check :: "bool \<Rightarrow> exn \<Rightarrow> 'a disk_op \<Rightarrow> 'a disk_op" where
  "disk_check bad e k = (if bad then disk_raise e else k)"

primrec disk_for :: "'x list \<Rightarrow> ('x \<Rightarrow> unit disk_op) \<Rightarrow> unit disk_op" where
  "disk_for [] body = disk_return ()"
| "disk_for (x # xs) body = disk_then (body x) (disk_for xs body)"

text \<open>\<open>path.mkdir(parents=True, exist_ok=True)\<close>: the ancestors in turn.\<close>

definition make_dir :: "path \<Rightarrow> unit disk_op" where
  "make_dir p d = (case map_of d p of
       Some Directory \<Rightarrow> (Inr (), d)
     | Some (Regular _ _) \<Rightarrow> (Inl (OSError ''not a directory''), d)
     | None \<Rightarrow> (Inr (), AList.update p Directory d))"

definition make_dirs :: "path \<Rightarrow> unit disk_op" where
  "make_dirs p = disk_for (tl (prefixes p)) make_dir"

text \<open>Writing a whole file whose directory exists: a new file has the mode 0644, a file that exists keeps its own.
  \<open>os.chmod\<close> of a file.\<close>

definition write_file :: "path \<Rightarrow> string \<Rightarrow> unit disk_op" where
  "write_file p content d = (case map_of d p of
       Some Directory \<Rightarrow> (Inl (OSError ''is a directory''), d)
     | Some (Regular _ mode) \<Rightarrow> (Inr (), AList.update p (Regular content mode) d)
     | None \<Rightarrow> (Inr (), AList.update p (Regular content 420) d))"

definition change_mode :: "path \<Rightarrow> int \<Rightarrow> unit disk_op" where
  "change_mode p mode d = (case map_of d p of
       Some (Regular content _) \<Rightarrow> (Inr (), AList.update p (Regular content mode) d)
     | _ \<Rightarrow> (Inl (OSError ''cannot change the mode''), d))"

definition read_file :: "path \<Rightarrow> string disk_op" where
  "read_file p d = (case map_of d p of Some (Regular content _) \<Rightarrow> (Inr content, d)
     | _ \<Rightarrow> (Inl (OSError ''cannot read''), d))"

text \<open>\<open>shutil.rmtree(p, ignore_errors=True)\<close>, which leaves a regular file alone, and the renaming of a directory,
  refused when the new name is one.\<close>

definition remove_tree :: "path \<Rightarrow> unit disk_op" where
  "remove_tree p d = (Inr (), case map_of d p of
       Some (Regular _ _) \<Rightarrow> d
     | _ \<Rightarrow> filter (\<lambda>(q, _). \<not> prefix p q) d)"

definition rename_tree :: "path \<Rightarrow> path \<Rightarrow> unit disk_op" where
  "rename_tree p q d = (case map_of d q of
       Some (Regular _ _) \<Rightarrow> (Inl (OSError ''not a directory''), d)
     | _ \<Rightarrow> (Inr (), map (\<lambda>(r, n). (if prefix p r then q @ drop (length p) r else r, n)) d))"

section \<open>Extraction\<close>

datatype member_kind = Tar_directory | Tar_file | Tar_other

record tar_member =
  tm_name :: string
  tm_kind :: member_kind
  tm_mode :: int
  tm_content :: string

text \<open>\<open>PurePosixPath(name).parts\<close>.\<close>

definition posix_parts :: "string \<Rightarrow> string list" where
  "posix_parts name =
     (if prefix ''//'' name \<and> \<not> prefix ''///'' name then [''//''] else if prefix ''/'' name then [''/''] else [])
     @ filter (\<lambda>c. c \<noteq> [] \<and> c \<noteq> ''.'') (split_on CHR ''/'' name)"

text \<open>The first parts of the names that are not empty; a name such as \<open>.\<close> has none.\<close>

fun archive_roots :: "tar_member list \<Rightarrow> string list result" where
  "archive_roots [] = Inr []"
| "archive_roots (m # ms) =
     result_bind (archive_roots ms) (\<lambda>roots.
     if tm_name m = [] then Inr roots
     else (case posix_parts (tm_name m) of [] \<Rightarrow> Inl IndexError | r # _ \<Rightarrow> Inr (List.insert r roots)))"

definition extract_member :: "path \<Rightarrow> tar_member \<Rightarrow> unit disk_op" where
  "extract_member destination m =
     (let parts = posix_parts (tm_name m) in
      disk_check (prefix ''/'' (tm_name m) \<or> ''..'' \<in> set parts) (ValueError ''unsafe archive member'')
     (let target = resolve_from destination parts in
      disk_check (\<not> prefix destination target) (ValueError ''archive member escapes destination'')
     (case tm_kind m of
        Tar_directory \<Rightarrow> make_dirs target
      | Tar_other \<Rightarrow> disk_return ()
      | Tar_file \<Rightarrow>
          disk_then (make_dirs (butlast target))
         (disk_then (write_file target (tm_content m)) (change_mode target (tm_mode m AND 511))))))"

definition safe_extract_tar :: "tar_member list \<Rightarrow> path \<Rightarrow> path disk_op" where
  "safe_extract_tar members destination =
     disk_bind (disk_lift (archive_roots members)) (\<lambda>roots.
     disk_check (length roots \<noteq> 1) (ValueError ''archive must have one root'')
    (disk_then (disk_for members (extract_member destination)) (disk_return (destination @ [hd roots]))))"

section \<open>Copying the selection\<close>

record copied_file =
  cf_path :: string
  cf_size :: int
  cf_sha256 :: string

definition posix_name :: "path \<Rightarrow> string" where
  "posix_name p = str_join ''/'' p"

definition EXTRAS :: "string list" where
  "EXTRAS = [''LICENSE'', ''RELEASE.md'', ''REFERENCE.md'']"

definition copy_file :: "(string \<Rightarrow> string) \<Rightarrow> path \<Rightarrow> path \<Rightarrow> path \<Rightarrow> copied_file list \<Rightarrow> copied_file list disk_op" where
  "copy_file sha source_root staging relative copied =
     disk_then (make_dirs (butlast (staging @ relative)))
    (disk_bind (read_file (source_root @ relative)) (\<lambda>content.
     disk_then (write_file (staging @ relative) content)
       (disk_return (copied @ [\<lparr>cf_path = posix_name relative, cf_size = int (length content), cf_sha256 = sha content\<rparr>]))))"

primrec copy_files :: "(string \<Rightarrow> string) \<Rightarrow> path \<Rightarrow> path \<Rightarrow> path list \<Rightarrow> copied_file list \<Rightarrow> copied_file list disk_op" where
  "copy_files sha source_root staging [] copied = disk_return copied"
| "copy_files sha source_root staging (r # rs) copied =
     disk_bind (copy_file sha source_root staging r copied) (copy_files sha source_root staging rs)"

text \<open>The extra files that exist.\<close>

definition extras_present :: "path \<Rightarrow> path list disk_op" where
  "extras_present source_root d =
     (Inr (map (\<lambda>e. [e]) (filter (\<lambda>e. case map_of d (source_root @ [e]) of Some (Regular _ _) \<Rightarrow> True | _ \<Rightarrow> False)
        EXTRAS)), d)"

text \<open>\<open>json.dumps(manifest, indent=2)\<close> of the manifest.\<close>

definition json_field :: "nat \<Rightarrow> string \<Rightarrow> string \<Rightarrow> string" where
  "json_field indent k v = replicate indent CHR '' '' @ json_string k @ '': '' @ v"

definition json_object :: "nat \<Rightarrow> string list \<Rightarrow> string" where
  "json_object indent entries = ''{'' @ [CHR 0x0A] @ str_join ('','' @ [CHR 0x0A]) entries @ [CHR 0x0A]
     @ replicate indent CHR '' '' @ ''}''"

definition file_json :: "copied_file \<Rightarrow> string" where
  "file_json f = ''    '' @ json_object 4
     [json_field 6 ''path'' (json_string (cf_path f)), json_field 6 ''size'' (py_dec (cf_size f)),
      json_field 6 ''sha256'' (json_string (cf_sha256 f))]"

definition manifest_json :: "(string \<times> string) list \<Rightarrow> copied_file list \<Rightarrow> string" where
  "manifest_json lock files =
     (let field = (\<lambda>k. json_field 2 k (json_string (the (map_of lock k)))) in
      json_object 0
       [json_field 2 ''schema_version'' ''1'', field ''repository'', field ''tag'', field ''commit'',
        field ''archive_sha256'',
        json_field 2 ''profile'' (json_string ''ML-KEM-512 portable C plus upstream FIPS-202''),
        json_field 2 ''selection'' (json_string
          ''recursive quoted-include closure from mlkem/src/*.c, mlkem/src/fips202/*.c and mlkem_native.h''),
        json_field 2 ''files'' (if files = [] then ''[]'' else
          ''['' @ [CHR 0x0A] @ str_join ('','' @ [CHR 0x0A]) (map file_json files) @ [CHR 0x0A] @ ''  ]'')]
      @ [CHR 0x0A])"

definition vendor_notes :: "(string \<times> string) list \<Rightarrow> string" where
  "vendor_notes lock =
     ''Vendored mlkem-native subset'' @ [CHR 0x0A, CHR 0x0A]
     @ ''Pinned upstream: '' @ the (map_of lock ''tag'') @ '' / '' @ the (map_of lock ''commit'') @ ''.''
     @ [CHR 0x0A, CHR 0x0A]
     @ ''upstream/ is generated by ai_context/scripts/vendor_mlkem_native.py. ''
     @ ''Do not edit imported files. The selection contains the portable C ML-KEM ''
     @ ''translation units, upstream FIPS-202, their recursive quoted-header closure, ''
     @ ''and upstream license/reference records. Native assembly backends and unrelated ''
     @ ''repository material are not imported.'' @ [CHR 0x0A]"

definition copy_selected :: "(string \<Rightarrow> string) \<Rightarrow> (string \<Rightarrow> string) \<Rightarrow> path \<Rightarrow> path \<Rightarrow> path list \<Rightarrow> (string \<times> string) list \<Rightarrow> unit disk_op" where
  "copy_selected sha encode dest_root source_root selected lock =
     (let staging = dest_root @ [''.upstream-staging''] in
      disk_then (remove_tree staging)
     (disk_then (make_dirs staging)
     (disk_bind (copy_files sha source_root staging (map (drop (length source_root)) selected) []) (\<lambda>copied.
      disk_bind (extras_present source_root) (\<lambda>extras.
      disk_bind (copy_files sha source_root staging extras copied) (\<lambda>all_copied.
      disk_then (remove_tree (dest_root @ [''upstream'']))
     (disk_then (rename_tree staging (dest_root @ [''upstream'']))
     (disk_then (write_file (dest_root @ [''UPSTREAM_MANIFEST.json''])
         (manifest_json lock (sort_key cf_path all_copied)))
       (write_file (dest_root @ [''VENDOR_NOTES.txt'']) (encode (vendor_notes lock)))))))))))"

section \<open>The run\<close>

record outside =
  ou_sha256 :: "string \<Rightarrow> string"
  ou_download :: "string \<Rightarrow> string result"
  ou_members :: "string \<Rightarrow> tar_member list result"
  ou_text :: "string \<Rightarrow> string"
  ou_encode :: "string \<Rightarrow> string"
  ou_kat :: "path \<Rightarrow> unit disk_op"

definition PENDING :: string where
  "PENDING = ''PENDING_FIRST_IMPORT''"

text \<open>The regular files below a directory, as texts.\<close>

definition tree_of :: "(string \<Rightarrow> string) \<Rightarrow> disk \<Rightarrow> source_tree" where
  "tree_of decode d = List.map_filter
     (\<lambda>(p, n). case n of Directory \<Rightarrow> None | Regular content _ \<Rightarrow> Some (p, decode content)) (AList.clearjunk d)"

text \<open>\<open>text.replace(old, new)\<close> for an old text that is not empty.\<close>

function str_replace :: "string \<Rightarrow> string \<Rightarrow> string \<Rightarrow> string" where
  "str_replace old new s =
     (if s = [] \<or> old = [] then s
      else if prefix old s then new @ str_replace old new (drop (length old) s)
      else hd s # str_replace old new (tl s))"
  by pat_completeness auto
termination
  by (relation "measure (\<lambda>(old, new, s). length s)") auto

declare str_replace.simps [simp del]

text \<open>\<open>main\<close>, with the temporary directory at \<open>temp\<close>: it is removed at the end of the \<open>with\<close> block. The lock is
  rewritten only after a first import.\<close>

definition import_main :: "outside \<Rightarrow> path \<Rightarrow> path \<Rightarrow> bool \<Rightarrow> unit disk_op" where
  "import_main X dest_root temp verify_kat =
     (let lock_path = dest_root @ [''VENDOR.lock''] in
      disk_bind (read_file lock_path) (\<lambda>lock_bytes.
      disk_bind (disk_lift (parse_lock (ou_text X lock_bytes))) (\<lambda>lock.
      disk_bind (disk_lift (ou_download X
        (the (map_of lock ''repository'') @ ''/archive/'' @ the (map_of lock ''commit'') @ ''.tar.gz''))) (\<lambda>archive.
      let actual = ou_sha256 X archive; expected = the (map_of lock ''archive_sha256'') in
      disk_check (expected \<noteq> PENDING \<and> actual \<noteq> expected) (ValueError ''archive SHA-256 mismatch'')
     (let lock = AList.update ''archive_sha256'' actual lock;
          run = disk_then (make_dirs temp)
            (disk_bind (disk_lift (ou_members X archive)) (\<lambda>members.
             disk_bind (safe_extract_tar members temp) (\<lambda>source_root.
             disk_then (if verify_kat then ou_kat X source_root else disk_return ())
            (\<lambda>d. disk_bind (disk_lift (dependency_closure (tree_of (ou_text X) d) source_root))
               (\<lambda>selected. copy_selected (ou_sha256 X) (ou_encode X) dest_root source_root selected lock) d))))
      in
      disk_then (\<lambda>d. (case run d of (r, d') \<Rightarrow> (r, snd (remove_tree temp d'))))
     (if expected = PENDING then
        disk_bind (read_file lock_path) (\<lambda>bytes. write_file lock_path
          (ou_encode X (str_replace (''archive_sha256='' @ PENDING) (''archive_sha256='' @ actual) (ou_text X bytes))))
      else disk_return ()))))))"

section \<open>What a run can change\<close>

text \<open>\<open>confined D R m\<close>: where the paths of \<open>D\<close> are directories, \<open>m\<close> changes nothing but paths of \<open>R\<close>.\<close>

definition directories :: "path set \<Rightarrow> disk \<Rightarrow> bool" where
  "directories D d \<longleftrightarrow> (\<forall>q \<in> D. map_of d q = Some Directory)"

definition confined :: "path set \<Rightarrow> path set \<Rightarrow> 'a disk_op \<Rightarrow> bool" where
  "confined D R m \<longleftrightarrow> (\<forall>d. directories D d \<longrightarrow> (\<forall>p. p \<notin> R \<longrightarrow> map_of (snd (m d)) p = map_of d p))"

text \<open>The upstream test is a program of the archive. \<open>tested D R T m\<close>: outside the region \<open>R\<close>, \<open>m\<close> leaves either what was
  there, or what the test \<open>T\<close> left when it was started with nothing changed outside \<open>R\<close>.\<close>

definition test_outcome :: "path set \<Rightarrow> (path \<Rightarrow> unit disk_op) \<Rightarrow> disk \<Rightarrow> disk \<Rightarrow> bool" where
  "test_outcome R T d d' \<longleftrightarrow> (\<exists>root d1. (\<forall>p. p \<notin> R \<longrightarrow> map_of d1 p = map_of d p) \<and>
     (\<forall>p. p \<notin> R \<longrightarrow> map_of d' p = map_of (snd (T root d1)) p))"

definition tested :: "path set \<Rightarrow> path set \<Rightarrow> (path \<Rightarrow> unit disk_op) \<Rightarrow> 'a disk_op \<Rightarrow> bool" where
  "tested D R T m \<longleftrightarrow> (\<forall>d. directories D d \<longrightarrow> directories D (snd (m d)) \<and>
     ((\<forall>p. p \<notin> R \<longrightarrow> map_of (snd (m d)) p = map_of d p) \<or> test_outcome R T d (snd (m d))))"

text \<open>The two sets of a run: directories that exist, and a region apart from them.\<close>

locale region =
  fixes D R :: "path set"
  assumes apart: "D \<inter> R = {}"
begin

lemma confined_keeps: "confined D R m \<Longrightarrow> directories D d \<Longrightarrow> directories D (snd (m d))"
  unfolding confined_def directories_def using apart by (metis disjoint_iff)

lemma confined_simple:
  "confined D R (disk_return a)" "confined D R (disk_raise e)" "confined D R (disk_lift r)"
  by (simp_all add: confined_def disk_return_def disk_raise_def disk_lift_def)

lemma confined_bind:
  assumes m: "confined D R m" and k: "\<And>a. confined D R (k a)"
  shows "confined D R (disk_bind m k)"
  unfolding confined_def
proof (intro allI impI)
  fix d p
  assume d: "directories D d" and p: "p \<notin> R"
  have d': "directories D (snd (m d))" by (rule confined_keeps [OF m d])
  have "map_of (snd (m d)) p = map_of d p" using m d p by (simp add: confined_def)
  moreover have "map_of (snd (k a (snd (m d)))) p = map_of (snd (m d)) p" for a
    using k d' p by (simp add: confined_def)
  ultimately show "map_of (snd (disk_bind m k d)) p = map_of d p"
    by (auto simp: disk_bind_def split: prod.split sum.split)
qed

lemma confined_then: "confined D R m \<Longrightarrow> confined D R k \<Longrightarrow> confined D R (disk_then m k)"
  unfolding disk_then_def by (rule confined_bind)

lemma confined_check: "confined D R k \<Longrightarrow> confined D R (disk_check bad e k)"
  by (simp add: disk_check_def confined_simple)

lemma confined_for: "(\<And>x. x \<in> set xs \<Longrightarrow> confined D R (body x)) \<Longrightarrow> confined D R (disk_for xs body)"
  by (induction xs) (auto intro: confined_simple confined_then)

lemma confined_make_dir: "p \<in> D \<union> R \<Longrightarrow> confined D R (make_dir p)"
  by (auto simp: confined_def directories_def make_dir_def update_conv' split: option.split node.split)

lemma confined_make_dirs:
  assumes "\<And>q. q \<noteq> [] \<Longrightarrow> prefix q p \<Longrightarrow> q \<in> D \<union> R"
  shows "confined D R (make_dirs p)"
proof -
  have "q \<noteq> [] \<and> prefix q p" if "q \<in> set (tl (prefixes p))" for q
    using that by (cases p) auto
  then show ?thesis
    unfolding make_dirs_def using assms by (intro confined_for confined_make_dir) blast
qed

lemma confined_write_file: "p \<in> D \<union> R \<Longrightarrow> confined D R (write_file p content)"
  by (auto simp: confined_def directories_def write_file_def update_conv' split: option.split node.split)

lemma confined_change_mode: "p \<in> D \<union> R \<Longrightarrow> confined D R (change_mode p mode)"
  by (auto simp: confined_def directories_def change_mode_def update_conv' split: option.split node.split)

lemma confined_read_file: "confined D R (read_file p)"
  by (auto simp: confined_def read_file_def split: option.split node.split)

lemma map_of_remove: "map_of (filter (\<lambda>(q, _). \<not> prefix p q) d) q = (if prefix p q then None else map_of d q)"
  by (induction d) auto

lemma confined_remove_tree: "(\<And>q. prefix p q \<Longrightarrow> q \<in> R) \<Longrightarrow> confined D R (remove_tree p)"
  by (auto simp: confined_def remove_tree_def map_of_remove split: option.split node.split)

lemma confined_rename_tree:
  assumes "\<And>r. prefix p r \<Longrightarrow> r \<in> R" and "\<And>r. prefix q r \<Longrightarrow> r \<in> R"
  shows "confined D R (rename_tree p q)"
proof -
  have "map_of (map (\<lambda>(r, n). (if prefix p r then q @ drop (length p) r else r, n)) d) x = map_of d x"
    if "x \<notin> R" for d :: disk and x
    using that assms by (induction d) (auto intro: prefixI split: if_splits)
  then show ?thesis by (simp add: confined_def rename_tree_def split: option.split node.split)
qed

lemmas confined_intros = confined_bind confined_then confined_check confined_for
  confined_read_file confined_simple

end

subsection \<open>The extraction\<close>

text \<open>Parts without dots are appended.\<close>

lemma resolve_plain:
  "''..'' \<notin> set parts \<Longrightarrow> [] \<notin> set parts \<Longrightarrow> ''.'' \<notin> set parts \<Longrightarrow> resolve_from p parts = p @ parts"
  by (induction parts arbitrary: p) auto

lemma posix_parts_plain: "[] \<notin> set (posix_parts name)" "''.'' \<notin> set (posix_parts name)"
  by (auto simp: posix_parts_def)

context region
begin

lemma confined_extract:
  assumes "b \<noteq> []" and inside: "\<And>q x. q \<noteq> [] \<Longrightarrow> prefix q (b @ x) \<Longrightarrow> q \<in> D \<union> R"
  shows "confined D R (safe_extract_tar members b)"
proof -
  have "confined D R (extract_member b m)" for m
  proof (cases "''..'' \<in> set (posix_parts (tm_name m))")
    case True
    then show ?thesis by (simp add: extract_member_def disk_check_def confined_simple Let_def)
  next
    case False
    let ?target = "b @ posix_parts (tm_name m)"
    have target: "resolve_from b (posix_parts (tm_name m)) = ?target"
      using False posix_parts_plain by (rule resolve_plain)
    have dirs: "confined D R (make_dirs ?target)" "confined D R (make_dirs (butlast ?target))"
      using inside prefix_order.trans [OF _ prefixeq_butlast] by (intro confined_make_dirs; blast)+
    have member: "?target \<in> D \<union> R" using assms(1) inside [of ?target "posix_parts (tm_name m)"] by simp
    note writes = confined_write_file [OF member] confined_change_mode [OF member]
    show ?thesis
      unfolding extract_member_def Let_def target
      by (intro confined_check) (cases "tm_kind m"; simp add: dirs writes confined_intros)
  qed
  then show ?thesis
    unfolding safe_extract_tar_def by (intro confined_intros)
qed

lemma confined_copy_files:
  assumes "\<And>q. prefix staging q \<Longrightarrow> q \<in> R" and "\<And>q. q \<noteq> [] \<Longrightarrow> prefix q staging \<Longrightarrow> q \<in> D \<union> R"
  shows "confined D R (copy_files sha source_root staging rs copied)"
proof (induction rs arbitrary: copied)
  case Nil
  then show ?case by (simp add: confined_simple)
next
  case (Cons r rs)
  have "q \<in> D \<union> R" if "q \<noteq> []" "prefix q (butlast (staging @ r))" for q
  proof -
    have "prefix q (staging @ r)" using that(2) prefix_order.trans [OF _ prefixeq_butlast] by blast
    then show ?thesis using assms that(1) by (auto simp: prefix_append)
  qed
  then have "confined D R (make_dirs (butlast (staging @ r)))" by (rule confined_make_dirs)
  moreover have "confined D R (write_file (staging @ r) content)" for content
    using assms(1) [of "staging @ r"] by (intro confined_write_file) simp
  ultimately show ?case
    unfolding copy_files.simps copy_file_def by (intro confined_intros Cons)
qed

end

definition below :: "path \<Rightarrow> path set" where
  "below b = {p. strict_prefix b p}"

definition ancestors :: "path \<Rightarrow> path set" where
  "ancestors b = {p. p \<noteq> [] \<and> prefix p b}"

interpretation extraction: region "ancestors b" "below b" for b
  by unfold_locales (auto simp: ancestors_def below_def)

lemma extended_prefix: "q \<noteq> [] \<Longrightarrow> prefix q (b @ x) \<Longrightarrow> q \<in> ancestors b \<union> below b"
  by (auto simp: ancestors_def below_def prefix_append strict_prefix_def)

text \<open>An extraction changes nothing but what is below its destination.\<close>

lemma extract_confined: "b \<noteq> [] \<Longrightarrow> confined (ancestors b) (below b) (safe_extract_tar members b)"
  by (rule extraction.confined_extract) (use extended_prefix in blast)+

text \<open>The files below the destination are members of the archive, without the bits above 0777.\<close>

definition from_archive :: "tar_member list \<Rightarrow> path \<Rightarrow> disk \<Rightarrow> bool" where
  "from_archive members b d \<longleftrightarrow> (\<forall>p content mode. p \<in> below b \<longrightarrow> map_of d p = Some (Regular content mode) \<longrightarrow>
     (\<exists>m \<in> set members. tm_kind m = Tar_file \<and> p = b @ posix_parts (tm_name m) \<and> content = tm_content m \<and>
        mode = tm_mode m AND 511))"

definition keeps_files :: "'a disk_op \<Rightarrow> bool" where
  "keeps_files m \<longleftrightarrow> (\<forall>d p content mode. map_of (snd (m d)) p = Some (Regular content mode) \<longrightarrow>
     map_of d p = Some (Regular content mode))"

lemma keeps_files_make_dir: "keeps_files (make_dir p)"
  by (auto simp: keeps_files_def make_dir_def update_conv' split: option.splits node.splits if_splits)

lemma keeps_files_for: "(\<And>x. keeps_files (body x)) \<Longrightarrow> keeps_files (disk_for xs body)"
proof (induction xs)
  case Nil
  show ?case by (simp add: keeps_files_def disk_return_def)
next
  case (Cons x xs)
  show ?case
    unfolding keeps_files_def
  proof (intro allI impI)
    fix d p content mode
    assume kept: "map_of (snd (disk_for (x # xs) body d)) p = Some (Regular content mode)"
    obtain r d1 where d1: "body x d = (r, d1)" by fastforce
    have first: "keeps_files (body x)" by (rule Cons(2))
    have rest: "keeps_files (disk_for xs body)" by (rule Cons(1)) (rule Cons(2))
    have "map_of d1 p = Some (Regular content mode)"
      using kept rest [unfolded keeps_files_def, rule_format, of d1 p content mode]
      by (cases r) (simp_all add: disk_then_def disk_bind_def d1)
    then show "map_of d p = Some (Regular content mode)"
      using first [unfolded keeps_files_def, rule_format, of d p content mode] by (simp add: d1)
  qed
qed

lemma keeps_files_make_dirs: "keeps_files (make_dirs p)"
  unfolding make_dirs_def by (intro keeps_files_for keeps_files_make_dir)

lemma from_archive_keeps: "keeps_files m \<Longrightarrow> from_archive ms b d \<Longrightarrow> from_archive ms b (snd (m d))"
  unfolding keeps_files_def from_archive_def by blast

lemma from_archive_member:
  assumes "from_archive ms b d" and "m \<in> set ms"
  shows "from_archive ms b (snd (extract_member b m d))"
proof (cases "''..'' \<in> set (posix_parts (tm_name m)) \<or> prefix ''/'' (tm_name m)")
  case True
  then show ?thesis using assms(1) by (auto simp: extract_member_def Let_def disk_check_def disk_raise_def)
next
  case False
  let ?target = "b @ posix_parts (tm_name m)"
  have target: "resolve_from b (posix_parts (tm_name m)) = ?target"
    using False posix_parts_plain by (intro resolve_plain) auto
  have step: "extract_member b m = (case tm_kind m of
        Tar_directory \<Rightarrow> make_dirs ?target
      | Tar_other \<Rightarrow> disk_return ()
      | Tar_file \<Rightarrow> disk_then (make_dirs (butlast ?target)) 
          (disk_then (write_file ?target (tm_content m)) (change_mode ?target (tm_mode m AND 511))))"
    using False unfolding extract_member_def Let_def target disk_check_def by simp
  have written: "from_archive ms b (snd (disk_then (write_file ?target (tm_content m)) (change_mode ?target (tm_mode m AND 511)) d'))"
    if "from_archive ms b d'" "tm_kind m = Tar_file" for d'
    using that assms(2)
    by (auto simp: from_archive_def write_file_def change_mode_def disk_then_def disk_bind_def update_conv'
        split: option.splits node.splits)
  show ?thesis
  proof (cases "tm_kind m")
    case Tar_file
    obtain r d1 where d1: "make_dirs (butlast ?target) d = (r, d1)" by fastforce
    have "from_archive ms b d1"
      using from_archive_keeps [OF keeps_files_make_dirs assms(1), of "butlast ?target"] by (simp add: d1)
    then show ?thesis
      using written [of d1] Tar_file by (auto simp: step disk_then_def disk_bind_def d1 split: sum.split)
  qed (use assms(1) in \<open>simp_all add: step disk_return_def from_archive_keeps [OF keeps_files_make_dirs]\<close>)
qed

lemma from_archive_for:
  "set ms' \<subseteq> set ms \<Longrightarrow> from_archive ms b d \<Longrightarrow> from_archive ms b (snd (disk_for ms' (extract_member b) d))"
proof (induction ms' arbitrary: d)
  case Nil
  then show ?case by (simp add: disk_return_def)
next
  case (Cons m ms')
  obtain r d1 where d1: "extract_member b m d = (r, d1)" by fastforce
  have "from_archive ms b d1" using from_archive_member [OF Cons(3), of m] Cons(2) by (simp add: d1)
  then show ?case using Cons by (auto simp: disk_then_def disk_bind_def d1 split: sum.split)
qed

lemma extract_from_archive:
  assumes "\<And>p. p \<in> below b \<Longrightarrow> map_of d p = None"
  shows "from_archive members b (snd (safe_extract_tar members b d))"
proof -
  have "from_archive members b d" using assms by (simp add: from_archive_def)
  moreover have "from_archive members b (snd (disk_for members (extract_member b) d))"
    by (rule from_archive_for [OF subset_refl calculation])
  ultimately show ?thesis
    by (auto simp: safe_extract_tar_def disk_bind_def disk_lift_def disk_check_def disk_raise_def disk_then_def
        disk_return_def split: sum.split prod.split)
qed

subsection \<open>The whole import\<close>

text \<open>The directories that exist before a run, and what a run may change: the temporary directory, the staging
  directory, the imported tree, the manifest, the notes and the lock.\<close>

definition import_directories :: "path \<Rightarrow> path \<Rightarrow> path set" where
  "import_directories dest_root temp = ancestors dest_root \<union> ancestors (butlast temp)"

definition import_region :: "path \<Rightarrow> path \<Rightarrow> path set" where
  "import_region dest_root temp =
     {p. prefix temp p \<or> prefix (dest_root @ [''.upstream-staging'']) p \<or> prefix (dest_root @ [''upstream'']) p}
     \<union> {dest_root @ [''UPSTREAM_MANIFEST.json''], dest_root @ [''VENDOR_NOTES.txt''], dest_root @ [''VENDOR.lock'']}"

lemma import_apart:
  assumes "temp \<noteq> []" "\<not> prefix temp dest_root" "\<not> prefix dest_root temp"
  shows "region (import_directories dest_root temp) (import_region dest_root temp)"
proof
  have short: "\<not> prefix temp (butlast temp)"
    using assms(1) by (metis append_butlast_last_id append_self_conv not_Cons_self prefix_order.antisym prefixeq_butlast)
  have up: "prefix dest_root temp" if "prefix (dest_root @ [x]) p" "prefix p (butlast temp)" for x p
    using that by (meson append_prefixD prefix_order.trans prefixeq_butlast)
  show "import_directories dest_root temp \<inter> import_region dest_root temp = {}"
    using assms short up
    by (auto simp: import_directories_def import_region_def ancestors_def dest: append_prefixD prefix_order.trans prefix_length_le)
qed

context region
begin

lemma confined_extras: "confined D R (extras_present source_root)"
  by (simp add: confined_def extras_present_def)

lemma confined_copy_selected:
  assumes staging: "\<And>q. prefix (b @ [''.upstream-staging'']) q \<Longrightarrow> q \<in> R"
    and upstream: "\<And>q. prefix (b @ [''upstream'']) q \<Longrightarrow> q \<in> R"
    and above: "\<And>q. q \<noteq> [] \<Longrightarrow> prefix q b \<Longrightarrow> q \<in> D \<union> R"
    and files: "b @ [''UPSTREAM_MANIFEST.json''] \<in> R" "b @ [''VENDOR_NOTES.txt''] \<in> R"
  shows "confined D R (copy_selected sha encode b source_root selected lock)"
proof -
  let ?staging = "b @ [''.upstream-staging'']"
  have path: "q \<in> D \<union> R" if "q \<noteq> []" "prefix q ?staging" for q
    using that above staging [of ?staging] by (auto simp: prefix_snoc)
  have copies: "confined D R (copy_files sha source_root ?staging rs copied)" for rs copied
    by (rule confined_copy_files) (use staging path in blast)+
  have dirs: "confined D R (make_dirs ?staging)" by (rule confined_make_dirs) (rule path)
  have trees: "confined D R (remove_tree ?staging)" "confined D R (remove_tree (b @ [''upstream'']))"
      "confined D R (rename_tree ?staging (b @ [''upstream'']))"
    by (rule confined_remove_tree confined_rename_tree; erule staging upstream)+
  have writes: "confined D R (write_file (b @ [''UPSTREAM_MANIFEST.json'']) content)"
      "confined D R (write_file (b @ [''VENDOR_NOTES.txt'']) content)" for content
    using files by (intro confined_write_file; simp)+
  show ?thesis
    unfolding copy_selected_def Let_def
    by (intro confined_intros copies dirs trees writes confined_extras)
qed

text \<open>Steps that depend on the disk, and the removal at the end of a block.\<close>

lemma confined_state: "(\<And>d'. confined D R (m d')) \<Longrightarrow> confined D R (\<lambda>d. m d d)"
  by (simp add: confined_def)

lemma confined_finally:
  assumes m: "confined D R m" and clean: "confined D R clean"
  shows "confined D R (\<lambda>d. case m d of (r, d') \<Rightarrow> (r, snd (clean d')))"
  unfolding confined_def
proof (intro allI impI)
  fix d p
  assume d: "directories D d" and p: "p \<notin> R"
  have d': "directories D (snd (m d))" by (rule confined_keeps [OF m d])
  have "map_of (snd (clean (snd (m d)))) p = map_of d p"
    using m clean d d' p by (simp add: confined_def)
  then show "map_of (snd (case m d of (r, d') \<Rightarrow> (r, snd (clean d')))) p = map_of d p"
    by (simp add: case_prod_beta)
qed

text \<open>The run with the test of the archive: a confined step before it, and one after.\<close>

lemma tested_confined: "confined D R m \<Longrightarrow> tested D R T m"
  using confined_keeps unfolding tested_def confined_def by metis

lemma tested_test:
  assumes "\<And>root d. directories D d \<Longrightarrow> directories D (snd (T root d))"
  shows "tested D R T (T root)"
  using assms unfolding tested_def test_outcome_def by metis

text \<open>A confined step before, and one after.\<close>

lemma tested_before:
  assumes m: "confined D R m" and k: "\<And>a. tested D R T (k a)"
  shows "tested D R T (disk_bind m k)"
  unfolding tested_def
proof (intro allI impI)
  fix d
  assume d: "directories D d"
  have d': "directories D (snd (m d))" by (rule confined_keeps [OF m d])
  have same: "\<forall>p. p \<notin> R \<longrightarrow> map_of (snd (m d)) p = map_of d p" using m d by (simp add: confined_def)
  show "directories D (snd (disk_bind m k d)) \<and>
      ((\<forall>p. p \<notin> R \<longrightarrow> map_of (snd (disk_bind m k d)) p = map_of d p) \<or> test_outcome R T d (snd (disk_bind m k d)))"
  proof (cases "fst (m d)")
    case (Inl e)
    then have "snd (disk_bind m k d) = snd (m d)" by (auto simp: disk_bind_def split: prod.split)
    then show ?thesis using d' same by simp
  next
    case (Inr a)
    then have run: "snd (disk_bind m k d) = snd (k a (snd (m d)))" by (auto simp: disk_bind_def split: prod.split)
    have "test_outcome R T (snd (m d)) d2 \<Longrightarrow> test_outcome R T d d2" for d2
      using same unfolding test_outcome_def by metis
    then show ?thesis using k [of a] d' same unfolding tested_def run by metis
  qed
qed

lemma tested_after_state:
  assumes m: "tested D R T m" and d: "directories D d"
    and same: "directories D d2" "\<forall>p. p \<notin> R \<longrightarrow> map_of d2 p = map_of (snd (m d)) p"
  shows "directories D d2 \<and> ((\<forall>p. p \<notin> R \<longrightarrow> map_of d2 p = map_of d p) \<or> test_outcome R T d d2)"
  using assms unfolding tested_def test_outcome_def by metis

lemma tested_after:
  assumes m: "tested D R T m" and k: "\<And>a. confined D R (k a)"
  shows "tested D R T (disk_bind m k)"
  unfolding tested_def
proof (intro allI impI)
  fix d
  assume d: "directories D d"
  then have d': "directories D (snd (m d))" using m by (simp add: tested_def)
  have step: "snd (disk_bind m k d) = snd (m d) \<or> (\<exists>a. snd (disk_bind m k d) = snd (k a (snd (m d))))"
    by (auto simp: disk_bind_def split: prod.split sum.split)
  have "directories D (snd (disk_bind m k d))"
    using step d' confined_keeps [OF k d'] by metis
  moreover have "\<forall>p. p \<notin> R \<longrightarrow> map_of (snd (disk_bind m k d)) p = map_of (snd (m d)) p"
    using step k d' unfolding confined_def by metis
  ultimately show "directories D (snd (disk_bind m k d)) \<and>
      ((\<forall>p. p \<notin> R \<longrightarrow> map_of (snd (disk_bind m k d)) p = map_of d p) \<or> test_outcome R T d (snd (disk_bind m k d)))"
    by (rule tested_after_state [OF m d])
qed

lemma tested_finally:
  assumes m: "tested D R T m" and clean: "confined D R clean"
  shows "tested D R T (\<lambda>d. case m d of (r, d') \<Rightarrow> (r, snd (clean d')))"
  unfolding tested_def case_prod_beta snd_conv
proof (intro allI impI)
  fix d
  assume d: "directories D d"
  then have d': "directories D (snd (m d))" using m by (simp add: tested_def)
  have "directories D (snd (clean (snd (m d))))" by (rule confined_keeps [OF clean d'])
  moreover have "\<forall>p. p \<notin> R \<longrightarrow> map_of (snd (clean (snd (m d)))) p = map_of (snd (m d)) p"
    using clean d' by (simp add: confined_def)
  ultimately show "directories D (snd (clean (snd (m d)))) \<and>
      ((\<forall>p. p \<notin> R \<longrightarrow> map_of (snd (clean (snd (m d)))) p = map_of d p) \<or> test_outcome R T d (snd (clean (snd (m d)))))"
    by (rule tested_after_state [OF m d])
qed

lemma tested_check: "tested D R T k \<Longrightarrow> tested D R T (disk_check bad e k)"
  by (simp add: disk_check_def tested_confined confined_simple)

lemma tested_import:
  assumes temp: "\<And>q. prefix temp q \<Longrightarrow> q \<in> R" "\<And>q. q \<noteq> [] \<Longrightarrow> prefix q temp \<Longrightarrow> q \<in> D \<union> R" "temp \<noteq> []"
    and dest: "\<And>q. prefix (b @ [''.upstream-staging'']) q \<Longrightarrow> q \<in> R" "\<And>q. prefix (b @ [''upstream'']) q \<Longrightarrow> q \<in> R"
      "\<And>q. q \<noteq> [] \<Longrightarrow> prefix q b \<Longrightarrow> q \<in> D \<union> R"
    and files: "b @ [''UPSTREAM_MANIFEST.json''] \<in> R" "b @ [''VENDOR_NOTES.txt''] \<in> R" "b @ [''VENDOR.lock''] \<in> R"
    and test: "\<And>p. tested D R T (if verify_kat then ou_kat X p else disk_return ())"
  shows "tested D R T (import_main X b temp verify_kat)"
proof -
  have inside: "q \<in> D \<union> R" if "q \<noteq> []" "prefix q (temp @ x)" for q x
    using that temp by (auto simp: prefix_append)
  have dirs: "confined D R (make_dirs temp)" by (rule confined_make_dirs) (rule temp)
  have extraction: "confined D R (safe_extract_tar members temp)" for members
    by (rule confined_extract) (use temp inside in blast)+
  have removal: "confined D R (remove_tree temp)" by (rule confined_remove_tree) (rule temp)
  have copy: "confined D R (copy_selected sha encode b source_root selected lock)" for sha encode source_root selected lock
    by (rule confined_copy_selected) (fact dest files)+
  have lock: "confined D R (write_file (b @ [''VENDOR.lock'']) content)" for content
    using files by (intro confined_write_file) simp
  have rewrite: "confined D R (if e then disk_bind (read_file p) (\<lambda>bytes. write_file (b @ [''VENDOR.lock'']) (content bytes))
      else disk_return ())" for e p content
    by (cases e; simp only: if_True if_False; intro confined_bind confined_read_file lock confined_simple)
  have select: "confined D R (\<lambda>d. disk_bind (disk_lift (sel d)) (\<lambda>selected. copy_selected sha encode b source_root selected lock) d)"
    for sel sha encode source_root lock
    by (rule confined_state) (intro confined_bind confined_simple copy)
  show ?thesis
    unfolding import_main_def Let_def disk_then_def
    by (intro tested_before [OF confined_read_file] tested_before [OF confined_simple(3)] tested_check
        tested_after [OF tested_finally [OF _ removal] rewrite] tested_before [OF dirs] tested_before [OF extraction]
        tested_after [OF test select])
qed

end

lemma import_tested:
  fixes X :: outside and verify_kat :: bool
  assumes temp: "temp \<noteq> []" "\<not> prefix temp b" "\<not> prefix b temp"
    and kat: "\<And>root d. directories (import_directories b temp) d \<Longrightarrow>
      directories (import_directories b temp) (snd (ou_kat X root d))"
    and d: "directories (import_directories b temp) d"
  defines "d' \<equiv> snd (import_main X b temp verify_kat d)"
  shows "(\<forall>p. p \<notin> import_region b temp \<longrightarrow> map_of d' p = map_of d p) \<or>
    verify_kat \<and> test_outcome (import_region b temp) (ou_kat X) d d'"
proof -
  have near: "q \<in> import_directories b temp \<union> import_region b temp" if "q \<noteq> []" "prefix q temp" for q
  proof (cases "q = temp")
    case False
    then have "prefix q (butlast temp)"
      using that temp(1) by (metis append_butlast_last_id prefix_snoc)
    then show ?thesis using that by (simp add: import_directories_def ancestors_def)
  qed (simp add: import_region_def)
  have run: "tested (import_directories b temp) (import_region b temp) T (import_main X b temp verify_kat)"
    if "\<And>p. tested (import_directories b temp) (import_region b temp) T (if verify_kat then ou_kat X p else disk_return ())" for T
    by (rule region.tested_import [OF import_apart [OF temp], where T = T])
      (use temp near that in \<open>auto simp: import_directories_def import_region_def ancestors_def\<close>)
  show ?thesis
  proof (cases verify_kat)
    case True
    have "tested (import_directories b temp) (import_region b temp) (ou_kat X) (if verify_kat then ou_kat X p else disk_return ())" for p
      using True region.tested_test [OF import_apart [OF temp] kat] by simp
    from run [OF this] show ?thesis using d True unfolding tested_def d'_def by blast
  next
    case False
    have "tested (import_directories b temp) (import_region b temp) (\<lambda>_. disk_return ()) (if verify_kat then ou_kat X p else disk_return ())" for p
      using False region.tested_test [OF import_apart [OF temp], of "\<lambda>_. disk_return ()"]
      by (simp add: disk_return_def)
    from run [OF this] have "(\<forall>p. p \<notin> import_region b temp \<longrightarrow> map_of d' p = map_of d p) \<or>
        test_outcome (import_region b temp) (\<lambda>_. disk_return ()) d d'"
      using d unfolding tested_def d'_def by blast
    then show ?thesis by (auto simp: test_outcome_def disk_return_def)
  qed
qed

subsection \<open>The pinned archive\<close>

text \<open>What the download must be: an archive with the hash that the lock on the disk pins, or any archive when the
  lock pins none yet.\<close>

definition archive_accepted :: "outside \<Rightarrow> path \<Rightarrow> disk \<Rightarrow> bool" where
  "archive_accepted X dest_root d \<longleftrightarrow>
     (\<exists>bytes mode lock archive. map_of d (dest_root @ [''VENDOR.lock'']) = Some (Regular bytes mode) \<and>
        parse_lock (ou_text X bytes) = Inr lock \<and>
        ou_download X (the (map_of lock ''repository'') @ ''/archive/'' @ the (map_of lock ''commit'') @ ''.tar.gz'')
          = Inr archive \<and>
        the (map_of lock ''archive_sha256'') \<in> {PENDING, ou_sha256 X archive})"

lemma import_refused:
  assumes "\<not> archive_accepted X b d"
  shows "\<exists>e. import_main X b temp verify_kat d = (Inl e, d)"
  using assms
  by (auto simp: archive_accepted_def import_main_def Let_def disk_bind_def read_file_def disk_lift_def
      disk_check_def disk_raise_def split: option.split node.split sum.split)

end
