(* ===== verification/Core_Demo.thy ===== *)
theory Core_Demo
  imports Full_Flow
begin

text \<open>
  \<open>demo_core.py\<close>: the minimum secure-telemetry demonstration, with its recovery: once the keypair
  exists, any failure reads the session-commit diagnostic and requests an emergency zeroization
  before it is reported. The progress callback is a parameter: it returns or raises, and has no
  access to the client. Its messages are the program's own, as code points.
\<close>

record core_demo_result =
  cd_control_plane :: sn32_qualification_result
  cd_info :: system_info
  cd_status_before :: system_status
  cd_keypair :: keypair_result
  cd_session :: session_result
  cd_status_active :: system_status
  cd_telemetry :: telemetry_result
  cd_last_result :: telemetry_result
  cd_status_final :: system_status
  cd_final_uptime_ms :: int

text \<open>A text that is not ASCII is the list of its code points; \<open>uc\<close> gives those of its ASCII parts.\<close>

type_synonym utext = "int list"

definition uc :: "string \<Rightarrow> utext" where
  "uc s = map of_char s"

text \<open>The messages of the progress callback.\<close>

definition MSG_PREFLIGHT :: utext where
  "MSG_PREFLIGHT =
    uc ''Ki'' @ [0x1EC3] @ uc ''m tra SN32 v'' @ [0xE0] @ uc '' dual-SPI P1/P2''"

definition MSG_KEYGEN :: utext where
  "MSG_KEYGEN =
    uc ''Sinh c'' @ [0x1EB7] @ uc ''p kh'' @ [0xF3] @ uc ''a ML-KEM-512 low-RAM''"

definition MSG_SESSION :: utext where
  "MSG_SESSION =
    uc ''Encaps/Decaps, KDF v'' @ [0xE0] @ uc '' k'' @ [0xED] @ uc ''ch ho'' @ [0x1EA1] @
      uc ''t session''"

definition MSG_TRANSMIT :: utext where
  "MSG_TRANSMIT =
    uc ''P1 m'' @ [0xE3] @ uc '' h'' @ [0xF3] @ uc ''a v'' @ [0xE0] @ uc '' truy'' @ [0x1EC1] @
      uc ''n UART tr'' @ [0x1EF1] @ uc ''c ti'' @ [0x1EBF] @ uc ''p sang P2''"

definition MSG_VERIFY :: utext where
  "MSG_VERIFY =
    [0x110, 0x1ECD] @ uc ''c l'' @ [0x1EA1] @ uc ''i k'' @ [0x1EBF] @ uc ''t qu'' @ [0x1EA3] @
      uc '' '' @ [0x111, 0xE3] @ uc '' x'' @ [0xE1] @ uc ''c th'' @ [0x1EF1] @ uc ''c t'' @
      [0x1EEB] @ uc '' P2''"

definition MSG_ZEROIZE :: utext where
  "MSG_ZEROIZE =
    uc ''Zeroize to'' @ [0xE0] @ uc ''n h'' @ [0x1EC7] @ uc '' th'' @ [0x1ED1] @ uc ''ng demo''"

definition MSG_CLEANUP :: utext where
  "MSG_CLEANUP =
    uc ''D'' @ [0x1ECD] @ uc ''n tr'' @ [0x1EA1] @ uc ''ng th'' @ [0xE1] @ uc ''i b'' @ [0x1EB1] @
      uc ''ng emergency zeroize''"

definition MSG_PASS_SELF_TEST :: utext where
  "MSG_PASS_SELF_TEST =
    uc ''CORE DEMO PASS '' @ [0x2014] @ uc '' zeroize ho'' @ [0xE0] @ uc ''n t'' @ [0x1EA5] @
      uc ''t; c'' @ [0x1EA7] @ uc ''n self-test tr'' @ [0x1B0, 0x1EDB] @ uc ''c phi'' @ [0xEA] @
      uc ''n ti'' @ [0x1EBF] @ uc ''p theo; Tiny 1P5 kh'' @ [0xF4] @ uc ''ng thu'' @ [0x1ED9] @
      uc ''c ph'' @ [0x1EA1] @ uc ''m vi''"

definition MSG_PASS :: utext where
  "MSG_PASS =
    uc ''CORE DEMO PASS '' @ [0x2014] @ uc '' Tiny 1P5 kh'' @ [0xF4] @ uc ''ng thu'' @ [0x1ED9] @
      uc ''c ph'' @ [0x1EA1] @ uc ''m vi''"

type_synonym progress_callback = "utext \<Rightarrow> int \<Rightarrow> unit result"

definition emit :: "progress_callback option \<Rightarrow> utext \<Rightarrow> int \<Rightarrow> ('w, unit) io" where
  "emit callback message percent =
     (case callback of None \<Rightarrow> io_return () | Some f \<Rightarrow> io_lift (f message percent))"

definition require_active :: "system_status \<Rightarrow> session_result \<Rightarrow> unit result" where
  "require_active status session =
     check (st_system_state status \<noteq> SYS_ACTIVE)
       (HostProtocolError ''session activation did not enter ACTIVE'')
    (check (st_session_id status \<noteq> se_session_id session)
       (HostProtocolError ''active status session ID differs from CREATE_SESSION'')
    (check (st_current_sequence status \<noteq> se_initial_sequence session)
       (HostProtocolError ''active status sequence differs from CREATE_SESSION'')
    (check (st_fault_flags status \<noteq> 0 \<or> st_last_error status \<noteq> EC_OK)
       (HostProtocolError ''session activation left a fault'')
    (Inr ()))))"

text \<open>The body of the \<open>try\<close> block after the keypair is known: \<open>session\<close>, \<open>status_active\<close>,
  \<open>telemetry\<close> and \<open>last_result\<close> are its results.\<close>

definition demo_body :: "'w port \<Rightarrow> progress_callback option \<Rightarrow> bytes \<Rightarrow> bytes \<Rightarrow> int
    \<Rightarrow> ('w, session_result \<times> system_status \<times> telemetry_result \<times> telemetry_result) io" where
  "demo_body P on_progress plaintext session_seed timeout =
     io_bind (get_system_status P) (\<lambda>after_keypair.
     io_check (st_system_state after_keypair \<noteq> SYS_READY_NO_SESSION)
       (HostProtocolError ''keypair generation did not enter READY_NO_SESSION'')
    (io_then (emit on_progress MSG_SESSION 50)
    (io_bind (create_session P True session_seed timeout) (\<lambda>session.
     io_bind (get_system_status P) (\<lambda>status_active.
     io_then (io_lift (require_active status_active session))
    (io_then (emit on_progress MSG_TRANSMIT 72)
    (io_bind (send_telemetry P plaintext DEFAULT_TELEMETRY_HEADER (min timeout 30000000)) (\<lambda>telemetry.
     io_check (te_session_id telemetry \<noteq> se_session_id session)
       (HostProtocolError ''telemetry session ID mismatch'')
    (io_check (te_sequence telemetry \<noteq> se_initial_sequence session + 1)
       (HostProtocolError ''telemetry sequence'')
    (io_then (emit on_progress MSG_VERIFY 85)
    (io_bind (read_last_result P 5000000) (\<lambda>last_result.
     io_check (te_session_id last_result \<noteq> te_session_id telemetry
         \<or> te_sequence last_result \<noteq> te_sequence telemetry
         \<or> te_plaintext last_result \<noteq> te_plaintext telemetry \<or> te_status last_result \<noteq> EC_OK)
       (HostProtocolError ''READ_LAST_RESULT differs from authenticated telemetry'')
    (io_then (emit on_progress MSG_ZEROIZE 94)
    (io_then (emergency_zeroize P (min timeout 30000000))
    (io_return (session, status_active, telemetry, last_result))))))))))))))))"

text \<open>The \<open>except\<close> block with a keypair: the diagnostic and the cleanup are best effort, and the error
  raised wraps the original one.\<close>

definition demo_recovery :: "'w port \<Rightarrow> progress_callback option \<Rightarrow> int \<Rightarrow> exn \<Rightarrow> ('w, 'a) io" where
  "demo_recovery P on_progress timeout original_error =
     io_then (io_try (io_then (read_session_commit_diagnostic P) (io_return ())) (\<lambda>_. io_return ()))
    (io_then (emit on_progress MSG_CLEANUP 92)
    (io_then (io_try (io_then (emergency_zeroize P (min timeout 30000000)) (io_return ())) (\<lambda>_. io_return ()))
    (io_raise (HostProtocolError ''core demo failed''))))"

text \<open>An exception before the keypair is assigned leaves the \<open>try\<close> block unchanged.\<close>

definition run_core_demo :: "'w port \<Rightarrow> bytes \<Rightarrow> bytes \<Rightarrow> bytes \<Rightarrow> int \<Rightarrow> progress_callback option
    \<Rightarrow> ('w, core_demo_result) io" where
  "run_core_demo P plaintext keypair_seed session_seed timeout on_progress =
     io_check (length plaintext \<noteq> 24) (ValueError ''plaintext must be exactly 24 bytes'')
    (io_then (emit on_progress MSG_PREFLIGHT 5)
    (io_bind (run_sn32_hardware_qualification P (min timeout 30000000) 50000 2) (\<lambda>control_plane.
     let info = ds_info (sq_dual_spi control_plane) in
     io_bind (get_system_status P) (\<lambda>status_before.
     io_then (io_lift (validate_full_preflight info status_before))
    (io_then (emit on_progress MSG_KEYGEN 25)
    (io_bind (generate_keypair P True keypair_seed timeout) (\<lambda>keypair.
     io_bind
       (io_try (demo_body P on_progress plaintext session_seed timeout)
          (demo_recovery P on_progress timeout))
       (\<lambda>(session, status_active, telemetry, last_result).
     io_bind (get_system_status P) (\<lambda>status_final.
     io_check (st_system_state status_final \<notin> {SYS_READY_NO_KEYPAIR, SYS_SELF_TEST_REQUIRED})
       (HostProtocolError ''zeroize did not enter a valid clean state'')
    (io_check (st_session_id status_final \<noteq> 0 \<or> st_current_sequence status_final \<noteq> 0
         \<or> st_fault_flags status_final \<noteq> 0 \<or> st_last_error status_final \<noteq> EC_OK
         \<or> st_active_host_txid status_final \<noteq> 0)
       (HostProtocolError ''zeroize did not leave a clean final status'')
    (io_bind (ping P) (\<lambda>final_uptime_ms.
     io_then
       (if st_system_state status_final = SYS_SELF_TEST_REQUIRED
        then emit on_progress MSG_PASS_SELF_TEST 100
        else emit on_progress MSG_PASS 100)
    (io_return \<lparr>cd_control_plane = control_plane, cd_info = info, cd_status_before = status_before,
       cd_keypair = keypair, cd_session = session, cd_status_active = status_active,
       cd_telemetry = telemetry, cd_last_result = last_result, cd_status_final = status_final,
       cd_final_uptime_ms = final_uptime_ms\<rparr>)))))))))))))"

section \<open>What the demonstration keeps\<close>

lemma keeps_emit [keeps_intros]: "keeps t I (emit callback message percent)"
  by (simp add: emit_def keeps_pure split: option.split)

context channel begin

lemma keeps_demo_body:
  "(\<And>c. C c) \<Longrightarrow> keeps t I (demo_body P on_progress plaintext sseed timeout)"
  unfolding demo_body_def by (intro keeps_flow keeps_emit)

lemma keeps_demo_recovery:
  "C HC_ZEROIZE_SYSTEM \<Longrightarrow> keeps t I (demo_recovery P on_progress timeout e)"
  unfolding demo_recovery_def by (intro keeps_flow keeps_emit)

lemma keeps_run_core_demo:
  "(\<And>c. C c) \<Longrightarrow> keeps t I (run_core_demo P plaintext kseed sseed timeout on_progress)"
  unfolding run_core_demo_def
  by (intro keeps_flow keeps_emit keeps_demo_body keeps_demo_recovery)

end

section \<open>Every exit leaves the session zeroized\<close>

lemma demo_body_settles:
  fixes s :: "('w \<times> io_event list) client"
  assumes "log_from l s"
  shows "wp True (demo_body (logged P) on_progress plaintext sseed timeout)
    (\<lambda>_. settled l) (\<lambda>_. log_from l) s"
proof -
  have zeroize: "wp True (io_then (emergency_zeroize (logged P) d) (io_return x)) (\<lambda>_. settled l) (\<lambda>_. log_from l) s'"
    if "log_from l s'" for d s' and x :: "session_result \<times> system_status \<times> telemetry_result \<times> telemetry_result"
    unfolding wp_then wp_return
    by (rule wp_mono [OF emergency_zeroize_settles [OF that]]) (auto dest: settled_log_from)
  show ?thesis
    unfolding demo_body_def
    by (rule zeroize step_bind step_then step_check | assumption | rule assms
        | intro log_grows.keeps_flow keeps_emit TrueI)+
qed

text \<open>The cleanup of a failed run reports its own progress first; a callback that raises there would
  skip it.\<close>

definition quiet :: "progress_callback option \<Rightarrow> bool" where
  "quiet callback = (case callback of None \<Rightarrow> True
     | Some f \<Rightarrow> f MSG_CLEANUP 92 = Inr ())"

lemma demo_recovery_settles:
  fixes s :: "('w \<times> io_event list) client" and P :: "'w port"
  assumes "log_from l s" and "quiet on_progress"
  shows "wp True (demo_recovery (logged P) on_progress timeout e) Q (\<lambda>_. settled l) s"
proof -
  have diagnostic: "keeps True (log_from l)
      (io_then (read_session_commit_diagnostic (logged P)) (io_return ()))"
    by (intro log_grows.keeps_flow)
  have emit: "wp True (emit on_progress MSG_CLEANUP 92) (\<lambda>_. R) E s'" if "R s'"
    for R E and s' :: "('w \<times> io_event list) client"
    using that assms(2) by (auto simp: emit_def quiet_def wp_simps split: option.splits)
  have cleanup: "wp True (io_try (io_then (emergency_zeroize (logged P) d) (io_return ())) (\<lambda>_. io_return ()))
      (\<lambda>_. settled l) (\<lambda>_. settled l) s'" if "log_from l s'" for d and s' :: "('w \<times> io_event list) client"
    unfolding wp_try wp_then wp_return by (rule emergency_zeroize_settles [OF that])
  show ?thesis
    unfolding demo_recovery_def
    apply (subst wp_then)
    apply (rule wp_mono [OF wp_try_pass [OF diagnostic assms(1)]])
     apply (subst wp_then, rule emit, subst wp_then, subst wp_raise)
     apply (rule wp_mono [OF cleanup])
       apply auto
    done
qed

lemma run_core_demo_settles:
  fixes s :: "('w \<times> io_event list) client" and P :: "'w port"
  assumes "settled l s" and "quiet on_progress"
  shows "wp True (run_core_demo (logged P) plaintext kseed sseed timeout on_progress)
    (\<lambda>_. settled l) (\<lambda>_. settled l) s"
proof -
  have core: "wp True (io_try (demo_body (logged P) on_progress plaintext sseed timeout)
      (demo_recovery (logged P) on_progress timeout)) (\<lambda>_. settled l) (\<lambda>_. settled l) s'" if "settled l s'" for s'
    unfolding wp_try
    by (rule wp_mono [OF demo_body_settles [OF settled_log_from [OF that]]])
      (auto intro: demo_recovery_settles assms(2))
  show ?thesis
    unfolding run_core_demo_def Let_def
    apply (rule step_check, rule assms(1))
    apply (rule step_then, rule assms(1), intro keeps_emit)
    apply (rule step_bind, assumption, intro settles.keeps_flow)
    apply (rule step_bind, assumption, intro settles.keeps_flow)
    apply (rule step_then, assumption, intro keeps_intros)
    apply (rule step_then, assumption, intro keeps_emit)
    apply (rule step_bind, assumption, intro settles.keeps_generate_keypair, simp)
    apply (rule wp_bind_keeps, erule core)
    apply (intro settles.keeps_flow keeps_emit)
    done
qed

section \<open>What the demonstration returns\<close>

definition demo_exchange_ok :: "bytes \<Rightarrow> session_result \<Rightarrow> system_status \<Rightarrow> telemetry_result
    \<Rightarrow> telemetry_result \<Rightarrow> bool" where
  "demo_exchange_ok plaintext session status telemetry last_result \<longleftrightarrow>
     se_session_id session \<noteq> 0 \<and> st_system_state status = SYS_ACTIVE \<and>
     st_session_id status = se_session_id session \<and>
     st_current_sequence status = se_initial_sequence session \<and>
     st_fault_flags status = 0 \<and> st_last_error status = EC_OK \<and>
     te_session_id telemetry = se_session_id session \<and>
     te_sequence telemetry = se_initial_sequence session + 1 \<and>
     te_plaintext telemetry = plaintext \<and> te_status telemetry = EC_OK \<and>
     same_result last_result telemetry"

lemma require_active_iff:
  "require_active status session = Inr () \<longleftrightarrow>
     st_system_state status = SYS_ACTIVE \<and> st_session_id status = se_session_id session \<and>
     st_current_sequence status = se_initial_sequence session \<and>
     st_fault_flags status = 0 \<and> st_last_error status = EC_OK"
  by (auto simp: require_active_def)

lemma demo_body_yields:
  "yields (\<lambda>(session, status, telemetry, last_result).
     demo_exchange_ok plaintext session status telemetry last_result)
     (demo_body P on_progress plaintext sseed timeout)"
proof -
  have active: "yields (\<lambda>_. require_active st se = Inr ()) (io_lift (require_active st se))" for st se
    by (rule yields_lift) simp
  show ?thesis
    unfolding demo_body_def
    apply (rule yields_bind_any, rule yields_check, rule yields_then)
    apply (rule yields_bind [OF create_session_yields], rule yields_bind_any)
    apply (subst io_then_def, rule yields_bind [OF active], rule yields_then)
    apply (rule yields_bind [OF send_telemetry_yields])
    apply (rule yields_check)+
    apply (rule yields_then, rule yields_bind_any, rule yields_check, rule yields_then, rule yields_then)
    apply (rule yields_return)
    apply (simp add: demo_exchange_ok_def require_active_iff same_result_def)
    done
qed

definition core_demo_ok :: "bytes \<Rightarrow> core_demo_result \<Rightarrow> bool" where
  "core_demo_ok plaintext r \<longleftrightarrow> length plaintext = 24 \<and> qualification_ok 2 (cd_control_plane r) \<and>
     preflight_ok (cd_info r) (cd_status_before r) \<and> length (kp_public_key_hash (cd_keypair r)) = 32 \<and>
     demo_exchange_ok plaintext (cd_session r) (cd_status_active r) (cd_telemetry r) (cd_last_result r) \<and>
     st_system_state (cd_status_final r) \<in> {SYS_READY_NO_KEYPAIR, SYS_SELF_TEST_REQUIRED} \<and>
     st_session_id (cd_status_final r) = 0 \<and> st_current_sequence (cd_status_final r) = 0 \<and>
     st_fault_flags (cd_status_final r) = 0 \<and> st_last_error (cd_status_final r) = EC_OK \<and>
     st_active_host_txid (cd_status_final r) = 0"

lemma run_core_demo_yields:
  "yields (core_demo_ok plaintext) (run_core_demo P plaintext kseed sseed timeout on_progress)"
proof -
  have preflight: "yields (\<lambda>_. preflight_ok info st) (io_lift (validate_full_preflight info st))" for info st
    by (rule yields_lift) (simp add: validate_full_preflight_iff)
  have recovery: "yields R (demo_recovery P on_progress timeout e)" for R e
    unfolding demo_recovery_def by (intro yields_then yields_raise)
  show ?thesis
    unfolding run_core_demo_def Let_def
    apply (rule yields_check, rule yields_then)
    apply (rule yields_bind [OF run_sn32_hardware_qualification_yields], rule yields_bind_any)
    apply (subst io_then_def, rule yields_bind [OF preflight], rule yields_then)
    apply (rule yields_bind [OF generate_keypair_yields])
    apply (rule yields_bind [OF yields_try [OF demo_body_yields recovery]])
    apply (rule yields_case_prod)+
    apply (rule yields_bind_any)
    apply (rule yields_check)+
    apply (rule yields_bind_any, rule yields_then, rule yields_return)
    apply (simp add: core_demo_ok_def)
    done
qed

end
