(* ===== verification/Demo_Gui.thy ===== *)
theory Demo_Gui
  imports Core_Demo Cli_Run Py_Parse
begin

text \<open>
  The state of the demonstration's window (\<open>demo_gui_base.py\<close>, with the F5 shortcut of \<open>demo_gui.py\<close>):
  the stage table, the labels, the queue between the worker thread and the window, the buttons. The
  record \<open>gui\<close> holds the attributes of \<open>TrinityDemoApp\<close> and the values of its Tk variables; every method
  that changes them is a function on it. \<open>now\<close> is the reading of \<open>time.perf_counter\<close> of a step
  (microseconds). Widgets, colours and message boxes are left out; what the window writes out is in
  \<open>Gui_Report\<close>. The worker thread appears through what it puts into the queue, as steps of their own in \<open>gui_step\<close>.
\<close>

section \<open>Texts\<close>

definition TXT_HAVE_PORT :: utext where
  "TXT_HAVE_PORT =
    uc ''C'' @ [0xD3] @ uc '' C'' @ [0x1ED4] @ uc ''NG UART''"

definition TXT_NOT_RUN :: utext where
  "TXT_NOT_RUN =
    uc ''CH'' @ [0x1AF] @ uc ''A CH'' @ [0x1EA0] @ uc ''Y''"

definition TXT_NOT_CHECKED :: utext where
  "TXT_NOT_CHECKED =
    uc ''CH'' @ [0x1AF] @ uc ''A KI'' @ [0x1EC2] @ uc ''M TRA''"

definition TXT_READY_TO_SHOW :: utext where
  "TXT_READY_TO_SHOW =
    uc ''S'' @ [0x1EB5] @ uc ''n s'' @ [0xE0] @ uc ''ng tr'' @ [0xEC] @ uc ''nh di'' @ [0x1EC5] @
      uc ''n''"

definition TXT_EXPLAIN_START :: utext where
  "TXT_EXPLAIN_START =
    uc ''Demo ch'' @ [0x1EC9] @ uc '' PASS khi P2 tr'' @ [0x1EA3] @ uc '' '' @ [0x111, 0xFA] @
      uc ''ng plaintext '' @ [0x111, 0xE3] @ uc '' x'' @ [0xE1] @ uc ''c th'' @ [0x1EF1] @
      uc ''c byte-exact.''"

definition TXT_DASH :: utext where
  "TXT_DASH =
    [0x2014]"

definition TXT_NO_RESULT :: utext where
  "TXT_NO_RESULT =
    uc ''CH'' @ [0x1AF] @ uc ''A C'' @ [0xD3] @ uc '' K'' @ [0x1EBE] @ uc ''T QU'' @ [0x1EA2]"

definition TXT_INVALID_PAYLOAD :: utext where
  "TXT_INVALID_PAYLOAD =
    uc ''Payload ch'' @ [0x1B0] @ uc ''a h'' @ [0x1EE3] @ uc ''p l'' @ [0x1EC7] @ uc '' '' @
      [0x2014] @ uc '' c'' @ [0x1EA7] @ uc ''n '' @ [0x111, 0xFA] @ uc ''ng 24 byte / 48 hex''"

definition TXT_NO_ENDPOINT :: utext where
  "TXT_NO_ENDPOINT =
    uc ''KH'' @ [0xD4] @ uc ''NG C'' @ [0xD3] @ uc '' ENDPOINT''"

definition TXT_BULLET :: utext where
  "TXT_BULLET =
    uc '' '' @ [0x2022] @ uc '' ''"

definition TXT_RUNNING :: utext where
  "TXT_RUNNING =
    [0x110] @ uc ''ANG CH'' @ [0x1EA0] @ uc ''Y''"

definition TXT_PREFLIGHT :: utext where
  "TXT_PREFLIGHT =
    [0x110] @ uc ''ang '' @ [0x111, 0x1ECD] @ uc ''c PING, identity v'' @ [0xE0] @
      uc '' system status'' @ [0x2026]"

definition TXT_PREFLIGHT_EXPLAIN :: utext where
  "TXT_PREFLIGHT_EXPLAIN =
    uc ''Ki'' @ [0x1EC3] @ uc ''m tra nhanh ch'' @ [0x1EC9] @ uc '' x'' @ [0xE1] @ uc ''c nh'' @
      [0x1EAD] @ uc ''n PC '' @ [0x2194] @ uc '' SN32 v'' @ [0xE0] @ uc '' snapshot hi'' @
      [0x1EC7] @ uc ''n t'' @ [0x1EA1] @ uc ''i.''"

definition TXT_PREPARE :: utext where
  "TXT_PREPARE =
    [0x110] @ uc ''ang ch'' @ [0x1EA1] @ uc ''y live SPI v'' @ [0xE0] @ uc '' KAT P1/P2'' @ [0x2026]"

definition TXT_WAIT_OUTPUT :: utext where
  "TXT_WAIT_OUTPUT =
    [0x110] @ uc ''ang ch'' @ [0x1EDD] @ uc '' authenticated result t'' @ [0x1EEB] @
      uc '' Primer #2'' @ [0x2026]"

definition TXT_WAIT_MATCH :: utext where
  "TXT_WAIT_MATCH =
    [0x110] @ uc ''ANG CH'' @ [0x1EDC] @ uc '' X'' @ [0xC1] @ uc ''C TH'' @ [0x1EF0] @ uc ''C''"

definition TXT_DEMO_START :: utext where
  "TXT_DEMO_START =
    uc ''B'' @ [0x1EAF] @ uc ''t '' @ [0x111, 0x1EA7] @ uc ''u core demo''"

definition TXT_ZEROIZING :: utext where
  "TXT_ZEROIZING =
    [0x110] @ uc ''ang zeroize to'' @ [0xE0] @ uc ''n h'' @ [0x1EC7] @ uc '' th'' @ [0x1ED1] @
      uc ''ng'' @ [0x2026]"

definition TXT_CONNECTED :: utext where
  "TXT_CONNECTED =
    uc ''K'' @ [0x1EBE] @ uc ''T N'' @ [0x1ED0] @ uc ''I T'' @ [0x1ED0] @ uc ''T''"

definition TXT_PREFLIGHT_PASS :: utext where
  "TXT_PREFLIGHT_PASS =
    uc ''PREFLIGHT PASS''"

definition TXT_PREFLIGHT_DONE :: utext where
  "TXT_PREFLIGHT_DONE =
    uc ''PC '' @ [0x2194] @ uc '' SN32 ph'' @ [0x1EA3] @ uc ''n h'' @ [0x1ED3] @ uc ''i t'' @
      [0x1ED1] @ uc ''t; identity v'' @ [0xE0] @ uc '' status '' @ [0x111, 0xE3] @ uc '' '' @
      [0x111, 0x1ECD] @ uc ''c th'' @ [0xE0] @ uc ''nh c'' @ [0xF4] @ uc ''ng.''"

definition TXT_ENDPOINTS_READY :: utext where
  "TXT_ENDPOINTS_READY =
    uc ''P1/P2 S'' @ [0x1EB4] @ uc ''N S'' @ [0xC0] @ uc ''NG''"

definition TXT_SELF_TEST_PASS :: utext where
  "TXT_SELF_TEST_PASS =
    uc ''SELF-TEST PASS''"

definition TXT_PREPARE_DONE :: utext where
  "TXT_PREPARE_DONE =
    uc ''KAT P1/P2 PASS '' @ [0x2014] @ uc '' h'' @ [0x1EC7] @ uc '' th'' @ [0x1ED1] @
      uc ''ng s'' @ [0x1EB5] @ uc ''n s'' @ [0xE0] @ uc ''ng cho phi'' @ [0xEA] @ uc ''n m'' @
      [0x1EDB] @ uc ''i.''"

definition TXT_MATCH_PASS :: utext where
  "TXT_MATCH_PASS =
    uc ''KH'' @ [0x1EDA] @ uc ''P BYTE-EXACT '' @ [0x2022] @ uc '' 24/24 BYTE '' @ [0x2022] @
      uc '' TAG H'' @ [0x1EE2] @ uc ''P L'' @ [0x1EC6]"

definition TXT_STABLE :: utext where
  "TXT_STABLE =
    uc ''H'' @ [0x1EC6] @ uc '' TH'' @ [0x1ED0] @ uc ''NG '' @ [0x1ED4] @ uc ''N '' @
      [0x110, 0x1ECA] @ uc ''NH''"

definition TXT_DEMO_PASS :: utext where
  "TXT_DEMO_PASS =
    uc ''CORE DEMO PASS''"

definition TXT_DEMO_DONE_SELF_TEST :: utext where
  "TXT_DEMO_DONE_SELF_TEST =
    uc ''PASS '' @ [0x2014] @ uc '' authenticated telemetry ho'' @ [0xE0] @ uc ''n t'' @ [0x1EA5] @
      uc ''t; zeroize s'' @ [0x1EA1] @ uc ''ch; c'' @ [0x1EA7] @ uc ''n self-test cho l'' @
      [0x1B0, 0x1EE3] @ uc ''t m'' @ [0x1EDB] @ uc ''i.''"

definition TXT_DEMO_DONE :: utext where
  "TXT_DEMO_DONE =
    uc ''PASS '' @ [0x2014] @ uc '' authenticated telemetry v'' @ [0xE0] @ uc '' zeroize ho'' @
      [0xE0] @ uc ''n t'' @ [0x1EA5] @ uc ''t.''"

definition TXT_DEMO_EXPLAIN :: utext where
  "TXT_DEMO_EXPLAIN =
    uc ''P2 '' @ [0x111, 0xE3] @ uc '' x'' @ [0xE1] @ uc ''c th'' @ [0x1EF1] @
      uc ''c tag Ascon, gi'' @ [0x1EA3] @ uc ''i m'' @ [0xE3] @ uc '' th'' @ [0xE0] @ uc ''nh c'' @
      [0xF4] @ uc ''ng v'' @ [0xE0] @ uc '' tr'' @ [0x1EA3] @ uc '' '' @ [0x111, 0xFA] @
      uc ''ng plaintext ban '' @ [0x111, 0x1EA7] @ uc ''u.''"

definition TXT_ZEROIZED :: utext where
  "TXT_ZEROIZED =
    uc ''ZEROIZE HO'' @ [0xC0] @ uc ''N T'' @ [0x1EA4] @ uc ''T''"

definition TXT_ZEROIZE_PASS :: utext where
  "TXT_ZEROIZE_PASS =
    uc ''ZEROIZE PASS''"

definition TXT_ZEROIZE_DONE :: utext where
  "TXT_ZEROIZE_DONE =
    uc ''Zeroize PASS '' @ [0x2014] @ uc '' session/sequence '' @ [0x111, 0xE3] @ uc '' x'' @
      [0xF3] @ uc ''a; SN32 v'' @ [0x1EAB] @ uc ''n PING.''"

definition TXT_DEMO_FAIL :: utext where
  "TXT_DEMO_FAIL =
    uc ''DEMO FAIL''"

definition TXT_FAIL :: utext where
  "TXT_FAIL =
    uc ''THAO T'' @ [0xC1] @ uc ''C FAIL''"

definition TXT_ERROR :: utext where
  "TXT_ERROR =
    uc ''C'' @ [0xD3] @ uc '' L'' @ [0x1ED6] @ uc ''I''"

definition TXT_FAIL_EXPLAIN :: utext where
  "TXT_FAIL_EXPLAIN =
    uc ''H'' @ [0x1EC7] @ uc '' th'' @ [0x1ED1] @ uc ''ng d'' @ [0x1EEB] @
      uc ''ng fail-closed. Xem tab NH'' @ [0x1EAC] @ uc ''T K'' @ [0xDD] @ uc '' K'' @ [0x1EF8] @
      uc '' THU'' @ [0x1EAC] @ uc ''T.''"

definition EXPLAIN_PREFLIGHT :: utext where
  "EXPLAIN_PREFLIGHT =
    uc ''SN32 '' @ [0x111] @ uc ''ang ki'' @ [0x1EC3] @ uc ''m tra identity v'' @ [0xE0] @
      uc '' giao ti'' @ [0x1EBF] @ uc ''p dual-SPI v'' @ [0x1EDB] @ uc ''i c'' @ [0x1EA3] @
      uc '' hai Primer.''"

definition EXPLAIN_KEYGEN :: utext where
  "EXPLAIN_KEYGEN =
    uc ''ML-KEM-512 t'' @ [0x1EA1] @ uc ''o n'' @ [0x1EC1] @ uc ''n t'' @ [0x1EA3] @
      uc ''ng trao '' @ [0x111, 0x1ED5] @ uc ''i b'' @ [0xED] @ uc '' m'' @ [0x1EAD] @
      uc ''t an to'' @ [0xE0] @ uc ''n tr'' @ [0x1B0, 0x1EDB] @ uc ''c nguy c'' @ [0x1A1] @
      uc '' l'' @ [0x1B0, 0x1EE3] @ uc ''ng t'' @ [0x1EED] @ uc ''.''"

definition EXPLAIN_SESSION :: utext where
  "EXPLAIN_SESSION =
    uc ''SN32 th'' @ [0x1EF1] @ uc ''c hi'' @ [0x1EC7] @ uc ''n Encaps/Decaps, KDF v'' @ [0xE0] @
      uc '' k'' @ [0xED] @ uc ''ch ho'' @ [0x1EA1] @ uc ''t c'' @ [0xF9] @ uc ''ng session tr'' @
      [0xEA] @ uc ''n P1/P2.''"

definition EXPLAIN_TRANSMIT :: utext where
  "EXPLAIN_TRANSMIT =
    uc ''P1 t'' @ [0x1EA1] @ uc ''o ciphertext + authentication tag b'' @ [0x1EB1] @
      uc ''ng Ascon-AEAD128 r'' @ [0x1ED3] @ uc ''i ph'' @ [0xE1] @ uc ''t UART.''"

definition EXPLAIN_VERIFY :: utext where
  "EXPLAIN_VERIFY =
    uc ''P2 ch'' @ [0x1EC9] @ uc '' tr'' @ [0x1EA3] @ uc '' plaintext khi tag h'' @ [0x1EE3] @
      uc ''p l'' @ [0x1EC7] @ uc '', session '' @ [0x111, 0xFA] @ uc ''ng v'' @ [0xE0] @
      uc '' sequence kh'' @ [0xF4] @ uc ''ng replay.''"

definition EXPLAIN_ZEROIZE :: utext where
  "EXPLAIN_ZEROIZE =
    uc ''V'' @ [0x1EAD] @ uc ''t li'' @ [0x1EC7] @ uc ''u kh'' @ [0xF3] @ uc ''a/session '' @
      [0x111, 0x1B0, 0x1EE3] @ uc ''c x'' @ [0xF3] @ uc ''a; PING cu'' @ [0x1ED1] @ uc ''i ch'' @
      [0x1EE9] @ uc ''ng minh SN32 v'' @ [0x1EAB] @ uc ''n ho'' @ [0x1EA1] @ uc ''t '' @
      [0x111, 0x1ED9] @ uc ''ng.''"

definition PREFIX_PREFLIGHT :: utext where
  "PREFIX_PREFLIGHT =
    uc ''Ki'' @ [0x1EC3] @ uc ''m tra SN32''"

definition PREFIX_KEYGEN :: utext where
  "PREFIX_KEYGEN =
    uc ''Sinh c'' @ [0x1EB7] @ uc ''p kh'' @ [0xF3] @ uc ''a''"

definition PREFIX_SESSION :: utext where
  "PREFIX_SESSION =
    uc ''Encaps/Decaps''"

definition PREFIX_TRANSMIT :: utext where
  "PREFIX_TRANSMIT =
    uc ''P1 m'' @ [0xE3] @ uc '' h'' @ [0xF3] @ uc ''a''"

definition PREFIX_VERIFY :: utext where
  "PREFIX_VERIFY =
    [0x110, 0x1ECD] @ uc ''c l'' @ [0x1EA1] @ uc ''i k'' @ [0x1EBF] @ uc ''t qu'' @ [0x1EA3]"

definition PREFIX_ZEROIZE :: utext where
  "PREFIX_ZEROIZE =
    uc ''Zeroize''"

definition PREFIX_CLEANUP :: utext where
  "PREFIX_CLEANUP =
    uc ''D'' @ [0x1ECD] @ uc ''n tr'' @ [0x1EA1] @ uc ''ng th'' @ [0xE1] @ uc ''i''"

section \<open>Stages\<close>

datatype stage = Preflight | Keygen | Session | Transmit | Verify | Zeroize

datatype flow_node = Pc | Sn32 | P1 | Uart | P2 | Outcome

definition STAGES :: "stage list" where
  "STAGES = [Preflight, Keygen, Session, Transmit, Verify, Zeroize]"

definition FLOW :: "flow_node list" where
  "FLOW = [Pc, Sn32, P1, Uart, P2, Outcome]"

definition PROGRESS_PREFIXES :: "(utext \<times> stage) list" where
  "PROGRESS_PREFIXES =
     [(PREFIX_PREFLIGHT, Preflight), (PREFIX_KEYGEN, Keygen), (PREFIX_SESSION, Session),
      (PREFIX_TRANSMIT, Transmit), (PREFIX_VERIFY, Verify), (PREFIX_ZEROIZE, Zeroize),
      (PREFIX_CLEANUP, Zeroize)]"

fun STAGE_NODES :: "stage \<Rightarrow> flow_node list" where
  "STAGE_NODES Preflight = [Pc, Sn32, P1, P2]"
| "STAGE_NODES Keygen = [Sn32]"
| "STAGE_NODES Session = [Sn32, P1, P2]"
| "STAGE_NODES Transmit = [P1, Uart, P2]"
| "STAGE_NODES Verify = [P2, Sn32, Outcome]"
| "STAGE_NODES Zeroize = FLOW"

fun STAGE_EXPLANATIONS :: "stage \<Rightarrow> utext" where
  "STAGE_EXPLANATIONS Preflight = EXPLAIN_PREFLIGHT"
| "STAGE_EXPLANATIONS Keygen = EXPLAIN_KEYGEN"
| "STAGE_EXPLANATIONS Session = EXPLAIN_SESSION"
| "STAGE_EXPLANATIONS Transmit = EXPLAIN_TRANSMIT"
| "STAGE_EXPLANATIONS Verify = EXPLAIN_VERIFY"
| "STAGE_EXPLANATIONS Zeroize = EXPLAIN_ZEROIZE"

fun first_prefix :: "(utext \<times> stage) list \<Rightarrow> utext \<Rightarrow> stage option" where
  "first_prefix [] message = None"
| "first_prefix ((start, stage_id) # rest) message =
     (if prefix start message then Some stage_id else first_prefix rest message)"

definition stage_for_progress :: "utext \<Rightarrow> stage option" where
  "stage_for_progress message = first_prefix PROGRESS_PREFIXES message"

section \<open>Formatting\<close>

text \<open>\<open>raw[i:i+width] for i in range(0, len(raw), width)\<close>.\<close>

function chunks :: "nat \<Rightarrow> 'a list \<Rightarrow> 'a list list" where
  "chunks width raw = (if raw = [] \<or> width = 0 then [] else take width raw # chunks width (drop width raw))"
  by pat_completeness auto
termination
  by (relation "measure (\<lambda>(w, raw). length raw)") auto

declare chunks.simps [simp del]

definition bytes_hex_upper :: "bytes \<Rightarrow> string" where
  "bytes_hex_upper bs = concat (map (\<lambda>x. [digit_upper (unat x div 16), digit_upper (unat x mod 16)]) bs)"

definition grouped_hex :: "bytes \<Rightarrow> int \<Rightarrow> string" where
  "grouped_hex value group_bytes =
     (let width = nat (max 1 group_bytes * 2) in str_join '' '' (chunks width (bytes_hex_upper value)))"

fun utext_join :: "utext \<Rightarrow> utext list \<Rightarrow> utext" where
  "utext_join sep [] = []"
| "utext_join sep [x] = x"
| "utext_join sep (x # y # ys) = x @ sep @ utext_join sep (y # ys)"

definition ready_mask_text :: "int \<Rightarrow> utext" where
  "ready_mask_text m =
     (let names = map snd (filter (\<lambda>(bit, name). m AND bit \<noteq> 0)
        [(0x01, uc ''SN32''), (0x02, uc ''P1''), (0x04, uc ''P2''), (0x08, uc ''Tiny'')])
      in if names \<noteq> [] then utext_join TXT_BULLET names else TXT_NO_ENDPOINT)"

text \<open>\<open>f"{n:,}"\<close> for a number that is not negative.\<close>

definition thousands :: "int \<Rightarrow> string" where
  "thousands n = rev (str_join '','' (chunks 3 (rev (py_dec n))))"

section \<open>The window\<close>

datatype status = Waiting | Running | Passed | Failed

datatype operation = Op_preflight | Op_prepare | Op_demo bytes | Op_zeroize

datatype op_result =
    R_preflight int system_info system_status
  | R_prepare sn32_qualification_result
  | R_demo core_demo_result
  | R_zeroize int system_status int

datatype gui_event = Progress utext "int option" | Success op_result | Failure operation exn

datatype shown = Message utext | Error_text exn

record gui =
  g_queue :: "gui_event list"
  g_worker :: "(operation \<times> bool) option"
  g_busy :: bool
  g_stage_state :: "stage \<Rightarrow> status"
  g_stage_started :: "stage \<Rightarrow> int option"
  g_stage_elapsed :: "stage \<Rightarrow> int option"
  g_current_stage :: "stage option"
  g_flow_active :: "flow_node set"
  g_flow_done :: "flow_node set"
  g_operation_started :: "int option"
  g_port :: string
  g_payload :: string
  g_result :: utext
  g_connection :: utext
  g_progress :: int
  g_progress_text :: shown
  g_explanation :: utext
  g_sn32 :: utext
  g_p1 :: utext
  g_p2 :: utext
  g_state :: utext
  g_ready :: utext
  g_session :: utext
  g_sequence :: utext
  g_uptime :: utext
  g_input :: utext
  g_output :: utext
  g_match :: utext

definition gui_init :: gui where
  "gui_init =
     \<lparr>g_queue = [], g_worker = None, g_busy = False, g_stage_state = (\<lambda>_. Waiting),
      g_stage_started = (\<lambda>_. None), g_stage_elapsed = (\<lambda>_. None), g_current_stage = None,
      g_flow_active = {}, g_flow_done = {}, g_operation_started = None,
      g_port = ''COM3'', g_payload = bytes_hex_upper (hd DEFAULT_PLAINTEXTS), g_result = TXT_NOT_RUN,
      g_connection = TXT_NOT_CHECKED, g_progress = 0, g_progress_text = Message TXT_READY_TO_SHOW,
      g_explanation = TXT_EXPLAIN_START, g_sn32 = TXT_DASH, g_p1 = TXT_DASH, g_p2 = TXT_DASH,
      g_state = TXT_DASH, g_ready = TXT_DASH, g_session = TXT_DASH, g_sequence = TXT_DASH,
      g_uptime = TXT_DASH, g_input = uc (grouped_hex (hd DEFAULT_PLAINTEXTS) 4), g_output = TXT_DASH,
      g_match = TXT_NO_RESULT\<rparr>"

subsection \<open>The stage table\<close>

definition reset_stages :: "gui \<Rightarrow> gui" where
  "reset_stages g = g\<lparr>g_stage_state := (\<lambda>_. Waiting), g_stage_started := (\<lambda>_. None),
     g_stage_elapsed := (\<lambda>_. None), g_current_stage := None, g_flow_active := {}, g_flow_done := {}\<rparr>"

definition finish_stage :: "int \<Rightarrow> status \<Rightarrow> gui \<Rightarrow> gui" where
  "finish_stage now state g =
     (case g_current_stage g of
        None \<Rightarrow> g
      | Some stage_id \<Rightarrow>
          let g = (case g_stage_started g stage_id of None \<Rightarrow> g
                | Some started \<Rightarrow> g\<lparr>g_stage_elapsed := (g_stage_elapsed g)(stage_id \<mapsto> now - started)\<rparr>);
              g = g\<lparr>g_stage_state := (g_stage_state g)(stage_id := state)\<rparr>;
              g = (if state = Passed
                then g\<lparr>g_flow_done := g_flow_done g \<union> set (STAGE_NODES stage_id), g_flow_active := {}\<rparr> else g)
          in g\<lparr>g_current_stage := None\<rparr>)"

definition activate_stage :: "int \<Rightarrow> stage \<Rightarrow> gui \<Rightarrow> gui" where
  "activate_stage now stage_id g =
     (if g_current_stage g = Some stage_id then g
      else
        let g = finish_stage now Passed g;
            g = g\<lparr>g_current_stage := Some stage_id, g_stage_state := (g_stage_state g)(stage_id := Running),
                 g_stage_started := (g_stage_started g)(stage_id \<mapsto> now)\<rparr>
        in g\<lparr>g_flow_done := \<Union> ((set \<circ> STAGE_NODES) ` set (takeWhile (\<lambda>s. s \<noteq> stage_id) STAGES)),
             g_flow_active := set (STAGE_NODES stage_id)\<rparr>)"

subsection \<open>The buttons\<close>

text \<open>\<open>set_payload\<close> is a preset button; \<open>edit_payload\<close> is a key typed into the entry, with \<open>_preview_payload\<close>.\<close>

definition set_payload :: "bytes \<Rightarrow> gui \<Rightarrow> gui" where
  "set_payload payload g = g\<lparr>g_payload := bytes_hex_upper payload, g_input := uc (grouped_hex payload 4)\<rparr>"

definition preview_payload :: "gui \<Rightarrow> gui" where
  "preview_payload g =
     (case parse_plaintext_hex (g_payload g) of
        Inl _ \<Rightarrow> g\<lparr>g_input := TXT_INVALID_PAYLOAD\<rparr>
      | Inr payload \<Rightarrow> g\<lparr>g_input := uc (grouped_hex payload 4)\<rparr>)"

definition edit_payload :: "string \<Rightarrow> gui \<Rightarrow> gui" where
  "edit_payload entry g = preview_payload (g\<lparr>g_payload := entry\<rparr>)"

definition refresh_ports :: "string list \<Rightarrow> gui \<Rightarrow> gui" where
  "refresh_ports ports g =
     (let g = (if ports \<noteq> [] \<and> g_port g \<notin> set ports then g\<lparr>g_port := hd ports\<rparr> else g)
      in if ports \<noteq> [] then g\<lparr>g_connection := TXT_HAVE_PORT\<rparr> else g)"

definition set_busy :: "bool \<Rightarrow> gui \<Rightarrow> gui" where
  "set_busy busy g = g\<lparr>g_busy := busy\<rparr>"

text \<open>\<open>_start_worker\<close>: with a worker still alive it only warns.\<close>

definition start_worker :: "int \<Rightarrow> operation \<Rightarrow> gui \<Rightarrow> gui" where
  "start_worker now op g =
     (if g_worker g \<noteq> None then g
      else set_busy True (g\<lparr>g_operation_started := Some now, g_result := TXT_RUNNING\<rparr>)
        \<lparr>g_worker := Some (op, False)\<rparr>)"

definition start_preflight :: "int \<Rightarrow> gui \<Rightarrow> gui" where
  "start_preflight now g = start_worker now Op_preflight
     (g\<lparr>g_progress := 10, g_progress_text := Message TXT_PREFLIGHT, g_explanation := TXT_PREFLIGHT_EXPLAIN\<rparr>)"

definition start_prepare :: "int \<Rightarrow> gui \<Rightarrow> gui" where
  "start_prepare now g = start_worker now Op_prepare (activate_stage now Preflight
     ((reset_stages g)\<lparr>g_progress := 5, g_progress_text := Message TXT_PREPARE\<rparr>))"

definition start_demo :: "int \<Rightarrow> gui \<Rightarrow> gui" where
  "start_demo now g =
     (case parse_plaintext_hex (g_payload g) of
        Inl _ \<Rightarrow> g
      | Inr plaintext \<Rightarrow> start_worker now (Op_demo plaintext)
          ((reset_stages g)\<lparr>g_input := uc (grouped_hex plaintext 4), g_output := TXT_WAIT_OUTPUT,
             g_match := TXT_WAIT_MATCH, g_progress := 0, g_progress_text := Message TXT_DEMO_START\<rparr>))"

definition start_zeroize :: "int \<Rightarrow> gui \<Rightarrow> gui" where
  "start_zeroize now g = start_worker now Op_zeroize (activate_stage now Zeroize
     (g\<lparr>g_progress := 15, g_progress_text := Message TXT_ZEROIZING\<rparr>))"

subsection \<open>The queue\<close>

definition apply_identity :: "system_info \<Rightarrow> gui \<Rightarrow> gui" where
  "apply_identity info g = g\<lparr>
     g_sn32 := uc (''v'' @ py_dec (si_architecture_major info) @ ''.'' @ py_dec (si_architecture_minor info)
       @ ''.'' @ py_dec (si_architecture_patch info) @ '' / '' @ hex_field 8 (si_sn32_build_id info)),
     g_p1 := uc (hex_field 8 (si_primer1_build_id info)), g_p2 := uc (hex_field 8 (si_primer2_build_id info))\<rparr>"

definition apply_status :: "system_status \<Rightarrow> gui \<Rightarrow> gui" where
  "apply_status st g =
     (let g = g\<lparr>g_state := uc (SystemState_name (st_system_state st)),
            g_ready := ready_mask_text (st_target_ready_mask st), g_sequence := uc (py_dec (st_current_sequence st))\<rparr>
      in if st_session_id st \<noteq> 0 then g\<lparr>g_session := uc (hex_field 8 (st_session_id st))\<rparr>
         else if g_session g = TXT_DASH then g\<lparr>g_session := uc ''0x00000000''\<rparr> else g)"

definition uptime_text :: "int \<Rightarrow> utext" where
  "uptime_text uptime = uc (thousands uptime @ '' ms'')"

text \<open>The loop that marks the stages still waiting as passed.\<close>

definition pass_waiting :: "gui \<Rightarrow> gui" where
  "pass_waiting g = g\<lparr>g_stage_state :=
     (\<lambda>s. if s \<in> set STAGES \<and> g_stage_state g s = Waiting then Passed else g_stage_state g s)\<rparr>"

fun handle_success :: "int \<Rightarrow> op_result \<Rightarrow> gui \<Rightarrow> gui" where
  "handle_success now (R_preflight uptime info st) g =
     (apply_status st (apply_identity info g))\<lparr>g_uptime := uptime_text uptime, g_connection := TXT_CONNECTED,
        g_result := TXT_PREFLIGHT_PASS, g_progress_text := Message TXT_PREFLIGHT_DONE, g_progress := 100\<rparr>"
| "handle_success now (R_prepare q) g =
     (finish_stage now Passed
       ((apply_status (sq_final_status q) (apply_identity (ds_info (sq_dual_spi q)) g))
         \<lparr>g_uptime := uptime_text (sq_final_uptime_ms q), g_connection := TXT_ENDPOINTS_READY,
          g_result := TXT_SELF_TEST_PASS, g_progress_text := Message TXT_PREPARE_DONE\<rparr>))\<lparr>g_progress := 100\<rparr>"
| "handle_success now (R_demo demo) g =
     (pass_waiting (finish_stage now Passed
       ((apply_status (cd_status_final demo) (apply_identity (cd_info demo) g))
         \<lparr>g_session := uc (hex_field 8 (se_session_id (cd_session demo))),
          g_sequence := uc (py_dec (te_sequence (cd_telemetry demo))),
          g_uptime := uptime_text (cd_final_uptime_ms demo),
          g_output := uc (grouped_hex (te_plaintext (cd_telemetry demo)) 4), g_match := TXT_MATCH_PASS,
          g_connection := TXT_STABLE, g_result := TXT_DEMO_PASS,
          g_progress_text := Message (if st_system_state (cd_status_final demo) = SYS_SELF_TEST_REQUIRED
            then TXT_DEMO_DONE_SELF_TEST else TXT_DEMO_DONE),
          g_explanation := TXT_DEMO_EXPLAIN\<rparr>)))
       \<lparr>g_flow_done := set FLOW, g_flow_active := {}, g_progress := 100\<rparr>"
| "handle_success now (R_zeroize txid st uptime) g =
     (finish_stage now Passed
       ((apply_status st g)\<lparr>g_uptime := uptime_text uptime, g_connection := TXT_ZEROIZED,
          g_result := TXT_ZEROIZE_PASS, g_progress_text := Message TXT_ZEROIZE_DONE\<rparr>))\<lparr>g_progress := 100\<rparr>"

fun is_demo :: "operation \<Rightarrow> bool" where
  "is_demo (Op_demo _) = True"
| "is_demo _ = False"

definition handle_failure :: "int \<Rightarrow> operation \<Rightarrow> exn \<Rightarrow> gui \<Rightarrow> gui" where
  "handle_failure now op e g = (finish_stage now Failed g)
     \<lparr>g_result := (if is_demo op then TXT_DEMO_FAIL else TXT_FAIL), g_connection := TXT_ERROR,
      g_progress_text := Error_text e, g_explanation := TXT_FAIL_EXPLAIN\<rparr>"

fun handle_gui_event :: "int \<Rightarrow> gui_event \<Rightarrow> gui \<Rightarrow> gui" where
  "handle_gui_event now (Progress message percent) g =
     (let g = g\<lparr>g_progress_text := Message message\<rparr>;
          g = (case percent of None \<Rightarrow> g | Some p \<Rightarrow> g\<lparr>g_progress := p\<rparr>)
      in case stage_for_progress message of None \<Rightarrow> g
         | Some stage_id \<Rightarrow> (activate_stage now stage_id g)\<lparr>g_explanation := STAGE_EXPLANATIONS stage_id\<rparr>)"
| "handle_gui_event now (Success result) g = set_busy False (handle_success now result g)"
| "handle_gui_event now (Failure op e) g = set_busy False (handle_failure now op e g)"

definition drain_queue :: "int \<Rightarrow> gui \<Rightarrow> gui" where
  "drain_queue now g = fold (handle_gui_event now) (g_queue g) (g\<lparr>g_queue := []\<rparr>)"

section \<open>The worker thread\<close>

text \<open>What a worker runs (\<open>work\<close> of each button, under \<open>_worker_entry\<close>): it opens the port named in the window
  and runs the operation. The messages of the demonstration go into the queue of the window, which is no
  part of the client's world: here its callback does nothing.\<close>

definition open_client :: "'w console \<Rightarrow> string \<Rightarrow> ('w, 'a) io \<Rightarrow> 'w \<Rightarrow> ('a result \<times> 'w) option" where
  "open_client K entry body w =
     (let port = str_strip entry in
      if port = [] then Some (Inl (ValueError ''no UART port chosen''), w)
      else with_client K port 115200 body w)"

fun work :: "'w port \<Rightarrow> operation \<Rightarrow> ('w, op_result) io" where
  "work P Op_preflight =
     io_bind (ping P) (\<lambda>uptime.
     io_bind (get_system_info P) (\<lambda>info.
     io_bind (get_system_status P) (\<lambda>st. io_return (R_preflight uptime info st))))"
| "work P Op_prepare =
     io_bind (run_sn32_hardware_qualification P 30000000 50000 2) (\<lambda>q. io_return (R_prepare q))"
| "work P (Op_demo plaintext) =
     io_bind (run_core_demo P plaintext DEFAULT_KEYPAIR_SEED DEFAULT_SESSION_SEED 120000000
       (Some (\<lambda>_ _. Inr ()))) (\<lambda>r. io_return (R_demo r))"
| "work P Op_zeroize =
     io_bind (emergency_zeroize P 30000000) (\<lambda>txid.
     io_bind (get_system_status P) (\<lambda>st.
     io_bind (ping P) (\<lambda>uptime. io_return (R_zeroize txid st uptime))))"

text \<open>The event a worker puts into the queue at its end: every exception is caught.\<close>

definition worker_entry :: "'w console \<Rightarrow> 'w port \<Rightarrow> string \<Rightarrow> operation \<Rightarrow> 'w \<Rightarrow> (gui_event \<times> 'w) option" where
  "worker_entry K P entry op w =
     map_option (\<lambda>(r, w'). (case r of Inl e \<Rightarrow> Failure op e | Inr x \<Rightarrow> Success x, w')) (open_client K entry (work P op) w)"

text \<open>What a result certifies.\<close>

fun result_of :: "operation \<Rightarrow> op_result \<Rightarrow> bool" where
  "result_of Op_preflight (R_preflight _ _ _) = True"
| "result_of Op_prepare (R_prepare q) = qualification_ok 2 q"
| "result_of (Op_demo plaintext) (R_demo r) = core_demo_ok plaintext r"
| "result_of Op_zeroize (R_zeroize _ _ _) = True"
| "result_of _ _ = False"

lemma work_yields: "yields (result_of op) (work P op)"
proof (cases op)
  case Op_prepare
  show ?thesis
    unfolding Op_prepare work.simps
    by (rule yields_bind [OF run_sn32_hardware_qualification_yields yields_return]) simp
next
  case (Op_demo p)
  show ?thesis
    unfolding Op_demo work.simps by (rule yields_bind [OF run_core_demo_yields yields_return]) simp
qed (simp_all only: work.simps, (intro yields_bind_any yields_return; simp)+)

lemma with_client_yields:
  assumes "yields R body" and "with_client K port baud body w = Some (Inr x, w')"
  shows "R x"
proof -
  from assms(2) obtain w1 s where
    run: "io_finally body (io_world (c_close K)) (client_init w1) = Some (Inr x, s)"
    by (auto simp: with_client_def split: prod.splits sum.splits)
  from yields_post [OF yields_finally [OF assms(1)] run] show ?thesis .
qed

context channel
begin

lemma keeps_work:
  assumes all: "\<And>c. C c"
  shows "keeps t I (work P op)"
  by (cases op; simp only: work.simps; intro keeps_commands keeps_flow keeps_run_core_demo
      keeps_run_sn32_hardware_qualification keeps_emergency_zeroize all)

end

text \<open>On a timely port every worker ends with one event, and the results it reports are certified.\<close>

definition reports :: "operation \<Rightarrow> gui_event \<Rightarrow> bool" where
  "reports op ev \<longleftrightarrow> (\<exists>r. ev = Success r \<and> result_of op r) \<or> (\<exists>e. ev = Failure op e)"

lemma worker_reports:
  assumes "timely P clk b"
  shows "\<exists>ev w'. worker_entry K P entry op w = Some (ev, w') \<and> reports op ev"
proof (cases "str_strip entry = []")
  case False
  have "keeps False client_ok (work P op)"
    using channel.keeps_work [OF channel_total [OF assms]] by simp
  from with_client_total [OF this] obtain r w' where
    run: "with_client K (str_strip entry) 115200 (work P op) w = Some (r, w')" by fastforce
  show ?thesis
  proof (cases r)
    case (Inr x)
    have "result_of op x" by (rule with_client_yields [OF work_yields run [unfolded Inr]])
    then show ?thesis using run False Inr by (simp add: worker_entry_def open_client_def reports_def)
  qed (use run False in \<open>simp add: worker_entry_def open_client_def reports_def\<close>)
qed (simp add: worker_entry_def open_client_def reports_def)

section \<open>Steps\<close>

text \<open>What can happen next: a button that is enabled, a preset or a key, a refresh of the ports, the poll
  of the queue, and the worker thread: one of the progress messages of the demonstration, in any order, its
  result or exception put into the queue, its end. The result is one that \<open>worker_entry\<close> can report. \<open>f5\<close> says whether the shortcut of \<open>demo_gui.py\<close> is bound.\<close>

definition DEMO_PROGRESS :: "(utext \<times> int) list" where
  "DEMO_PROGRESS =
     [(MSG_PREFLIGHT, 5), (MSG_KEYGEN, 25), (MSG_SESSION, 50), (MSG_TRANSMIT, 72), (MSG_VERIFY, 85), (MSG_ZEROIZE, 94),
      (MSG_CLEANUP, 92), (MSG_PASS_SELF_TEST, 100), (MSG_PASS, 100)]"

inductive gui_step :: "bool \<Rightarrow> gui \<Rightarrow> gui \<Rightarrow> bool" for f5 :: bool where
  Button_preflight: "\<not> g_busy g \<Longrightarrow> gui_step f5 g (start_preflight now g)"
| Button_prepare: "\<not> g_busy g \<Longrightarrow> gui_step f5 g (start_prepare now g)"
| Button_demo: "\<not> g_busy g \<Longrightarrow> gui_step f5 g (start_demo now g)"
| Button_zeroize: "\<not> g_busy g \<Longrightarrow> gui_step f5 g (start_zeroize now g)"
| Shortcut: "f5 \<Longrightarrow> gui_step f5 g (start_demo now g)"
| Preset: "payload \<in> set DEFAULT_PLAINTEXTS \<Longrightarrow> gui_step f5 g (set_payload payload g)"
| Key: "gui_step f5 g (edit_payload entry g)"
| Refresh: "gui_step f5 g (refresh_ports ports g)"
| Poll: "gui_step f5 g (drain_queue now g)"
| Worker_progress: "g_worker g = Some (Op_demo p, False) \<Longrightarrow> (message, percent) \<in> set DEMO_PROGRESS \<Longrightarrow>
    gui_step f5 g (g\<lparr>g_queue := g_queue g @ [Progress message (Some percent)]\<rparr>)"
| Worker_success: "g_worker g = Some (op, False) \<Longrightarrow> result_of op r \<Longrightarrow>
    gui_step f5 g (g\<lparr>g_queue := g_queue g @ [Success r], g_worker := Some (op, True)\<rparr>)"
| Worker_failure: "g_worker g = Some (op, False) \<Longrightarrow>
    gui_step f5 g (g\<lparr>g_queue := g_queue g @ [Failure op e], g_worker := Some (op, True)\<rparr>)"
| Worker_exit: "g_worker g = Some (op, True) \<Longrightarrow> gui_step f5 g (g\<lparr>g_worker := None\<rparr>)"

definition gui_reachable :: "bool \<Rightarrow> gui \<Rightarrow> bool" where
  "gui_reachable f5 g \<longleftrightarrow> (gui_step f5)\<^sup>*\<^sup>* gui_init g"

lemma reachable_init: "gui_reachable f5 gui_init"
  by (simp add: gui_reachable_def)

lemma reachable_step: "gui_reachable f5 g \<Longrightarrow> gui_step f5 g g' \<Longrightarrow> gui_reachable f5 g'"
  by (simp add: gui_reachable_def)

text \<open>An invariant of every reachable state.\<close>

locale gui_invariant =
  fixes f5 :: bool and J :: "gui \<Rightarrow> bool"
  assumes start: "J gui_init" and step: "J g \<Longrightarrow> gui_step f5 g g' \<Longrightarrow> J g'"
begin

lemma reachable: "gui_reachable f5 g \<Longrightarrow> J g"
  unfolding gui_reachable_def by (induction rule: rtranclp_induct) (auto intro: start step)

end

section \<open>At most one stage runs\<close>

definition stages_ok :: "gui \<Rightarrow> bool" where
  "stages_ok g \<longleftrightarrow> (\<forall>s. g_stage_state g s = Running \<longleftrightarrow> g_current_stage g = Some s) \<and>
     (\<forall>s. g_current_stage g = Some s \<longrightarrow> g_stage_started g s \<noteq> None \<and> g_flow_active g = set (STAGE_NODES s))"

lemma finish_stage_ok: "stages_ok g \<Longrightarrow> state \<noteq> Running \<Longrightarrow> stages_ok (finish_stage now state g)"
  by (auto simp: stages_ok_def finish_stage_def Let_def split: option.splits if_splits)

lemma activate_stage_ok: "stages_ok g \<Longrightarrow> stages_ok (activate_stage now s g)"
  using finish_stage_ok [of g Passed now]
  by (auto simp: stages_ok_def activate_stage_def Let_def finish_stage_def split: option.splits if_splits)

lemma reset_stages_ok [simp]: "stages_ok (reset_stages g)"
  by (simp add: stages_ok_def reset_stages_def)

text \<open>The updates of other fields.\<close>

named_theorems gui_sel "fields an operation leaves alone"

lemma apply_sel [gui_sel]:
  "g_stage_state (apply_identity i g) = g_stage_state g" "g_stage_state (apply_status st g) = g_stage_state g"
  "g_current_stage (apply_identity i g) = g_current_stage g" "g_current_stage (apply_status st g) = g_current_stage g"
  "g_stage_started (apply_identity i g) = g_stage_started g" "g_stage_started (apply_status st g) = g_stage_started g"
  "g_flow_active (apply_identity i g) = g_flow_active g" "g_flow_active (apply_status st g) = g_flow_active g"
  "g_worker (apply_identity i g) = g_worker g" "g_worker (apply_status st g) = g_worker g"
  "g_busy (apply_identity i g) = g_busy g" "g_busy (apply_status st g) = g_busy g"
  "g_queue (apply_identity i g) = g_queue g" "g_queue (apply_status st g) = g_queue g"
  "g_result (apply_identity i g) = g_result g" "g_result (apply_status st g) = g_result g"
  "g_match (apply_identity i g) = g_match g" "g_match (apply_status st g) = g_match g"
  "g_output (apply_identity i g) = g_output g" "g_output (apply_status st g) = g_output g"
  by (simp_all add: apply_identity_def apply_status_def Let_def)

lemma stage_sel [gui_sel]:
  "g_worker (finish_stage now x g) = g_worker g" "g_worker (activate_stage now s g) = g_worker g"
  "g_busy (finish_stage now x g) = g_busy g" "g_busy (activate_stage now s g) = g_busy g"
  "g_queue (finish_stage now x g) = g_queue g" "g_queue (activate_stage now s g) = g_queue g"
  "g_result (finish_stage now x g) = g_result g" "g_result (activate_stage now s g) = g_result g"
  "g_match (finish_stage now x g) = g_match g" "g_match (activate_stage now s g) = g_match g"
  "g_output (finish_stage now x g) = g_output g" "g_output (activate_stage now s g) = g_output g"
  "g_session (finish_stage now x g) = g_session g" "g_session (activate_stage now s g) = g_session g"
  "g_sequence (finish_stage now x g) = g_sequence g" "g_sequence (activate_stage now s g) = g_sequence g"
  "g_input (finish_stage now x g) = g_input g" "g_input (activate_stage now s g) = g_input g"
  by (simp_all add: finish_stage_def activate_stage_def Let_def split: option.split)

lemma reset_sel [gui_sel]:
  "g_worker (reset_stages g) = g_worker g" "g_busy (reset_stages g) = g_busy g" "g_queue (reset_stages g) = g_queue g"
  "g_result (reset_stages g) = g_result g" "g_match (reset_stages g) = g_match g" "g_output (reset_stages g) = g_output g"
  "g_session (reset_stages g) = g_session g" "g_sequence (reset_stages g) = g_sequence g"
  by (simp_all add: reset_stages_def)

lemma pass_waiting_sel [gui_sel]:
  "g_worker (pass_waiting g) = g_worker g" "g_busy (pass_waiting g) = g_busy g" "g_queue (pass_waiting g) = g_queue g"
  "g_result (pass_waiting g) = g_result g" "g_match (pass_waiting g) = g_match g" "g_output (pass_waiting g) = g_output g"
  "g_session (pass_waiting g) = g_session g" "g_sequence (pass_waiting g) = g_sequence g"
  by (simp_all add: pass_waiting_def)

lemma payload_sel [gui_sel]:
  "g_worker (set_payload p g) = g_worker g" "g_worker (preview_payload g) = g_worker g"
  "g_busy (set_payload p g) = g_busy g" "g_busy (preview_payload g) = g_busy g"
  "g_queue (set_payload p g) = g_queue g" "g_queue (preview_payload g) = g_queue g"
  "g_result (set_payload p g) = g_result g" "g_result (preview_payload g) = g_result g"
  "g_match (set_payload p g) = g_match g" "g_match (preview_payload g) = g_match g"
  "g_output (set_payload p g) = g_output g" "g_output (preview_payload g) = g_output g"
  "g_session (set_payload p g) = g_session g" "g_session (preview_payload g) = g_session g"
  "g_sequence (set_payload p g) = g_sequence g" "g_sequence (preview_payload g) = g_sequence g"
  by (simp_all add: set_payload_def preview_payload_def split: sum.split)

lemma refresh_sel [gui_sel]:
  "g_worker (refresh_ports ps g) = g_worker g" "g_busy (refresh_ports ps g) = g_busy g"
  "g_queue (refresh_ports ps g) = g_queue g" "g_result (refresh_ports ps g) = g_result g"
  "g_match (refresh_ports ps g) = g_match g" "g_output (refresh_ports ps g) = g_output g"
  "g_session (refresh_ports ps g) = g_session g" "g_sequence (refresh_ports ps g) = g_sequence g"
  by (simp_all add: refresh_ports_def Let_def)

lemma stages_ok_other0 [simp]: "stages_ok (g\<lparr>g_queue := q\<rparr>) = stages_ok g"
  by (simp add: stages_ok_def )

lemma stages_ok_other1 [simp]: "stages_ok (g\<lparr>g_worker := w\<rparr>) = stages_ok g"
  by (simp add: stages_ok_def )

lemma stages_ok_other2 [simp]: "stages_ok (set_busy b g) = stages_ok g"
  by (simp add: stages_ok_def set_busy_def)

lemma stages_ok_other3 [simp]: "stages_ok (start_worker now op g) = stages_ok g"
  by (simp add: stages_ok_def start_worker_def set_busy_def)

lemma stages_ok_other4 [simp]: "stages_ok (set_payload p g) = stages_ok g"
  by (simp add: stages_ok_def set_payload_def)

lemma stages_ok_other5 [simp]: "stages_ok (preview_payload g) = stages_ok g"
  by (cases "parse_plaintext_hex (g_payload g)"; simp add: stages_ok_def preview_payload_def)

lemma stages_ok_other6 [simp]: "stages_ok (refresh_ports ports g) = stages_ok g"
  by (simp add: stages_ok_def refresh_ports_def Let_def)

lemma stages_ok_progress: "stages_ok (g\<lparr>g_progress := p\<rparr>) = stages_ok g"
  by (simp add: stages_ok_def)

lemma pass_waiting_ok: "stages_ok g \<Longrightarrow> g_current_stage g = None \<Longrightarrow> stages_ok (pass_waiting g)"
  by (auto simp: stages_ok_def pass_waiting_def)

lemma finish_stage_current [simp]: "g_current_stage (finish_stage now state g) = None"
  by (simp add: finish_stage_def Let_def split: option.split)

text \<open>Stages and current stage are kept by the other parts of a handler.\<close>

definition same_stages :: "gui \<Rightarrow> gui \<Rightarrow> bool" where
  "same_stages g g' \<longleftrightarrow> g_stage_state g' = g_stage_state g \<and> g_current_stage g' = g_current_stage g \<and>
     g_stage_started g' = g_stage_started g \<and> g_flow_active g' = g_flow_active g"

lemma same_stages_ok: "same_stages g g' \<Longrightarrow> stages_ok g \<Longrightarrow> stages_ok g'"
  by (simp add: stages_ok_def same_stages_def)

lemma finish_ok_of: "stages_ok g \<Longrightarrow> same_stages g g' \<Longrightarrow> state \<noteq> Running \<Longrightarrow> stages_ok (finish_stage now state g')"
  by (rule finish_stage_ok [OF same_stages_ok])

lemma handle_success_ok: "stages_ok g \<Longrightarrow> stages_ok (handle_success now r g)"
proof (cases r)
  case (R_demo demo)
  assume ok: "stages_ok g"
  let ?g = "finish_stage now Passed
       ((apply_status (cd_status_final demo) (apply_identity (cd_info demo) g))
         \<lparr>g_session := uc (hex_field 8 (se_session_id (cd_session demo))),
          g_sequence := uc (py_dec (te_sequence (cd_telemetry demo))),
          g_uptime := uptime_text (cd_final_uptime_ms demo),
          g_output := uc (grouped_hex (te_plaintext (cd_telemetry demo)) 4), g_match := TXT_MATCH_PASS,
          g_connection := TXT_STABLE, g_result := TXT_DEMO_PASS,
          g_progress_text := Message (if st_system_state (cd_status_final demo) = SYS_SELF_TEST_REQUIRED
            then TXT_DEMO_DONE_SELF_TEST else TXT_DEMO_DONE),
          g_explanation := TXT_DEMO_EXPLAIN\<rparr>)"
  have "stages_ok ?g" by (rule finish_ok_of [OF ok]) (simp_all add: gui_sel same_stages_def)
  then have "stages_ok (pass_waiting ?g)" by (rule pass_waiting_ok) simp
  then show ?thesis
    unfolding R_demo handle_success.simps by (simp add: stages_ok_def pass_waiting_def)
next
  case (R_preflight uptime info st)
  assume "stages_ok g"
  then show ?thesis
    unfolding R_preflight handle_success.simps by (rule same_stages_ok [rotated]) (simp add: gui_sel same_stages_def)
next
  case (R_prepare q)
  assume ok: "stages_ok g"
  show ?thesis
    unfolding R_prepare handle_success.simps stages_ok_progress
    by (rule finish_ok_of [OF ok]) (simp_all add: gui_sel same_stages_def)
next
  case (R_zeroize txid st uptime)
  assume ok: "stages_ok g"
  show ?thesis
    unfolding R_zeroize handle_success.simps stages_ok_progress
    by (rule finish_ok_of [OF ok]) (simp_all add: gui_sel same_stages_def)
qed

lemma handle_event_ok: "stages_ok g \<Longrightarrow> stages_ok (handle_gui_event now ev g)"
proof (cases ev)
  case (Progress message percent)
  assume ok: "stages_ok g"
  define g1 where "g1 = (case percent of None \<Rightarrow> g\<lparr>g_progress_text := Message message\<rparr>
    | Some p \<Rightarrow> g\<lparr>g_progress_text := Message message, g_progress := p\<rparr>)"
  have ok1: "stages_ok g1"
    using ok by (simp add: g1_def stages_ok_def split: option.split)
  have "handle_gui_event now ev g = (case stage_for_progress message of None \<Rightarrow> g1
      | Some stage_id \<Rightarrow> (activate_stage now stage_id g1)\<lparr>g_explanation := STAGE_EXPLANATIONS stage_id\<rparr>)"
    by (simp add: Progress g1_def Let_def split: option.split)
  moreover have "stages_ok ((activate_stage now s g1)\<lparr>g_explanation := e\<rparr>)" for s e
    using activate_stage_ok [OF ok1] by (simp add: stages_ok_def)
  ultimately show ?thesis using ok1 by (simp split: option.split)
next
  case (Failure op e)
  assume ok: "stages_ok g"
  have "stages_ok (finish_stage now Failed g)" by (rule finish_stage_ok [OF ok]) simp
  then show ?thesis by (simp add: Failure handle_failure_def stages_ok_def set_busy_def)
qed (simp add: handle_success_ok)

lemma drain_ok: "stages_ok g \<Longrightarrow> stages_ok (drain_queue now g)"
proof -
  have "stages_ok g \<Longrightarrow> stages_ok (fold (handle_gui_event now) es g)" for es and g
    by (induction es arbitrary: g) (simp_all add: handle_event_ok)
  then show "stages_ok g \<Longrightarrow> stages_ok (drain_queue now g)"
    by (simp add: drain_queue_def)
qed

lemma edit_ok: "stages_ok (edit_payload entry g) = stages_ok g"
  by (simp add: edit_payload_def) (simp add: stages_ok_def)

lemma start_ok:
  "stages_ok g \<Longrightarrow> stages_ok (start_preflight now g)" "stages_ok (start_prepare now g)"
  "stages_ok g \<Longrightarrow> stages_ok (start_demo now g)" "stages_ok g \<Longrightarrow> stages_ok (start_zeroize now g)"
proof -
  have other: "stages_ok (h\<lparr>g_progress := p, g_progress_text := t\<rparr>) = stages_ok h" for h p t
    by (simp add: stages_ok_def)
  have demo: "stages_ok (h\<lparr>g_input := a, g_output := b, g_match := c, g_progress := p, g_progress_text := t\<rparr>)
      = stages_ok h" for h a b c p t
    by (simp add: stages_ok_def)
  show "stages_ok g \<Longrightarrow> stages_ok (start_preflight now g)"
    by (simp add: start_preflight_def) (simp add: stages_ok_def)
  show "stages_ok (start_prepare now g)"
    by (simp only: start_prepare_def stages_ok_other3) (rule activate_stage_ok, simp only: other reset_stages_ok)
  show "stages_ok g \<Longrightarrow> stages_ok (start_demo now g)"
    by (simp add: start_demo_def demo split: sum.split)
  show "stages_ok g \<Longrightarrow> stages_ok (start_zeroize now g)"
    by (simp only: start_zeroize_def stages_ok_other3) (rule activate_stage_ok, simp only: other)
qed

interpretation stages: gui_invariant f5 stages_ok for f5
proof
  show "stages_ok gui_init"
    by (simp add: stages_ok_def gui_init_def)
next
  fix g g'
  assume ok: "stages_ok g" and step: "gui_step f5 g g'"
  from step ok show "stages_ok g'"
    by (cases rule: gui_step.cases) (simp_all add: start_ok edit_ok drain_ok)
qed

section \<open>The buttons follow the worker\<close>

text \<open>
  What the window still has to be told: the results in the queue, and the one a running worker will put
  there. Without the shortcut the buttons are disabled exactly while something is outstanding.
\<close>

fun ends_operation :: "gui_event \<Rightarrow> bool" where
  "ends_operation (Progress _ _) = False"
| "ends_operation _ = True"

definition unreported :: "gui \<Rightarrow> bool" where
  "unreported g \<longleftrightarrow> (\<exists>op. g_worker g = Some (op, False))"

definition outstanding :: "gui \<Rightarrow> nat" where
  "outstanding g = length (filter ends_operation (g_queue g)) + of_bool (unreported g)"

definition buttons_ok :: "gui \<Rightarrow> bool" where
  "buttons_ok g \<longleftrightarrow> outstanding g = of_bool (g_busy g)"

lemma handle_success_sel [gui_sel]:
  "g_worker (handle_success now r g) = g_worker g" "g_queue (handle_success now r g) = g_queue g"
  by (cases r; simp add: gui_sel)+

lemma handle_event_sel [gui_sel]:
  "g_worker (handle_gui_event now ev g) = g_worker g" "g_queue (handle_gui_event now ev g) = g_queue g"
  by (cases ev; simp add: gui_sel handle_failure_def set_busy_def Let_def split: option.split)+

lemma handle_event_busy:
  "g_busy (handle_gui_event now ev g) = (g_busy g \<and> \<not> ends_operation ev)"
  by (cases ev) (simp_all add: gui_sel set_busy_def Let_def split: option.split)

lemma fold_event_sel [gui_sel]:
  "g_worker (fold (handle_gui_event now) es g) = g_worker g" "g_queue (fold (handle_gui_event now) es g) = g_queue g"
  by (induction es arbitrary: g) (simp_all add: gui_sel)

lemma fold_event_busy:
  "g_busy (fold (handle_gui_event now) es g) = (g_busy g \<and> filter ends_operation es = [])"
  by (induction es arbitrary: g) (auto simp: handle_event_busy)

lemma drain_sel [gui_sel]:
  "g_worker (drain_queue now g) = g_worker g" "g_queue (drain_queue now g) = []"
  "g_busy (drain_queue now g) = (g_busy g \<and> filter ends_operation (g_queue g) = [])"
  by (simp_all add: drain_queue_def gui_sel fold_event_busy)

lemma start_sel:
  "g_queue (start_worker now op g) = g_queue g"
  "g_worker (start_worker now op g) = (if g_worker g = None then Some (op, False) else g_worker g)"
  "g_busy (start_worker now op g) = (g_busy g \<or> g_worker g = None)"
  by (cases "g_worker g"; simp add: start_worker_def set_busy_def)+

lemma buttons_start:
  assumes "buttons_ok g" "\<not> g_busy g" "g_queue g' = g_queue g" "g_worker g' = g_worker g" "g_busy g' = g_busy g"
  shows "buttons_ok (start_worker now op g')"
  using assms by (cases "g_worker g") (auto simp: buttons_ok_def outstanding_def unreported_def start_sel)

lemma buttons_same:
  assumes "buttons_ok g" "g_queue g' = g_queue g" "g_worker g' = g_worker g" "g_busy g' = g_busy g"
  shows "buttons_ok g'"
  using assms by (simp add: buttons_ok_def outstanding_def unreported_def)

lemma buttons_drain: "buttons_ok g \<Longrightarrow> buttons_ok (drain_queue now g)"
  by (cases "g_busy g"; cases "unreported g"; cases "filter ends_operation (g_queue g)")
    (auto simp: buttons_ok_def outstanding_def unreported_def gui_sel)

lemma buttons_start_button:
  assumes "buttons_ok g" "\<not> g_busy g"
  shows "buttons_ok (start_preflight now g)" "buttons_ok (start_prepare now g)" "buttons_ok (start_demo now g)"
    "buttons_ok (start_zeroize now g)"
  unfolding start_preflight_def start_prepare_def start_zeroize_def start_demo_def
  using assms(1)
  by (auto intro!: buttons_start [OF assms] simp: gui_sel split: sum.split)

interpretation buttons: gui_invariant False buttons_ok
proof
  show "buttons_ok gui_init"
    by (simp add: buttons_ok_def outstanding_def unreported_def gui_init_def)
next
  fix g g'
  assume ok: "buttons_ok g" and step: "gui_step False g g'"
  have push: "buttons_ok g'" if "g' = g\<lparr>g_queue := g_queue g @ [ev], g_worker := Some (op, True)\<rparr>"
      "g_worker g = Some (op, False)" "ends_operation ev" for ev op
    using that ok by (simp add: buttons_ok_def outstanding_def unreported_def)
  have same: "buttons_ok g'" if "filter ends_operation (g_queue g') = filter ends_operation (g_queue g)"
      "unreported g' = unreported g" "g_busy g' = g_busy g"
    using that ok by (simp add: buttons_ok_def outstanding_def)
  from step show "buttons_ok g'"
  proof (cases rule: gui_step.cases)
    case (Worker_success op r)
    show ?thesis by (rule push [where ev = "Success r" and op = op]) (simp_all add: Worker_success)
  next
    case (Worker_failure op e)
    show ?thesis by (rule push [where ev = "Failure op e" and op = op]) (simp_all add: Worker_failure)
  next
    case (Worker_progress p message percent)
    show ?thesis by (rule same) (simp_all add: Worker_progress unreported_def)
  next
    case (Worker_exit op)
    show ?thesis by (rule same) (simp_all add: Worker_exit unreported_def)
  next
    case (Preset payload)
    show ?thesis by (rule same) (simp_all add: Preset gui_sel unreported_def)
  next
    case (Key entry)
    show ?thesis by (rule same) (simp_all add: Key gui_sel edit_payload_def unreported_def)
  next
    case (Refresh ports)
    show ?thesis by (rule same) (simp_all add: Refresh gui_sel unreported_def)
  qed (use ok in \<open>simp_all add: buttons_start_button buttons_drain\<close>)
qed

section \<open>The texts of the labels\<close>

lemma label_texts:
  "TXT_WAIT_MATCH \<noteq> TXT_MATCH_PASS" "TXT_NO_RESULT \<noteq> TXT_MATCH_PASS" "TXT_NOT_RUN \<noteq> TXT_DEMO_PASS"
  "TXT_RUNNING \<noteq> TXT_DEMO_PASS" "TXT_PREFLIGHT_PASS \<noteq> TXT_DEMO_PASS" "TXT_SELF_TEST_PASS \<noteq> TXT_DEMO_PASS"
  "TXT_NOT_RUN \<noteq> TXT_SELF_TEST_PASS" "TXT_RUNNING \<noteq> TXT_SELF_TEST_PASS" "TXT_PREFLIGHT_PASS \<noteq> TXT_SELF_TEST_PASS"
  "TXT_DEMO_PASS \<noteq> TXT_SELF_TEST_PASS" "TXT_ZEROIZE_PASS \<noteq> TXT_SELF_TEST_PASS"
  "TXT_DEMO_FAIL \<noteq> TXT_SELF_TEST_PASS" "TXT_FAIL \<noteq> TXT_SELF_TEST_PASS"
  "TXT_ZEROIZE_PASS \<noteq> TXT_DEMO_PASS" "TXT_DEMO_FAIL \<noteq> TXT_DEMO_PASS" "TXT_FAIL \<noteq> TXT_DEMO_PASS"
  by code_simp+

lemma demo_plaintext: "core_demo_ok p r \<Longrightarrow> te_plaintext (cd_telemetry r) = p"
  by (simp add: core_demo_ok_def demo_exchange_ok_def)

lemma result_of_cases [simp]:
  "result_of op (R_demo r) \<longleftrightarrow> (\<exists>p. op = Op_demo p \<and> core_demo_ok p r)"
  "result_of op (R_prepare q) \<longleftrightarrow> op = Op_prepare \<and> qualification_ok 2 q"
  by (cases op; simp)+

section \<open>What is left on the screen\<close>

lemma stage_messages:
  "stage_for_progress MSG_SESSION = Some Session" "stage_for_progress MSG_CLEANUP = Some Zeroize"
  by code_simp+

text \<open>A run of a worker: the button, the worker's result, the poll, the end of the thread.\<close>

lemma step_trans: "gui_reachable f5 g \<Longrightarrow> gui_step f5 g g' \<Longrightarrow> g' = h \<Longrightarrow> gui_reachable f5 h"
  using reachable_step by blast

definition default_payload :: bytes where
  "default_payload = hd DEFAULT_PLAINTEXTS"

lemma parse_initial: "parse_plaintext_hex (g_payload gui_init) = Inr default_payload"
  by code_simp

lemma init_sel: "g_worker gui_init = None" "g_queue gui_init = []"
  by (simp_all add: gui_init_def)

lemma other_default: "default_payload \<noteq> DEFAULT_PLAINTEXTS ! 1" "DEFAULT_PLAINTEXTS ! 1 \<in> set DEFAULT_PLAINTEXTS"
  "uc (grouped_hex default_payload 4) \<noteq> uc (grouped_hex (DEFAULT_PLAINTEXTS ! 1) 4)"
  by code_simp+

text \<open>After a certified run, another preset changes the input beside the label that compares the two.\<close>

definition gui_started :: gui where
  "gui_started = start_demo 0 gui_init"

definition gui_after_demo :: "core_demo_result \<Rightarrow> gui" where
  "gui_after_demo r = drain_queue 0 (gui_started\<lparr>g_queue := [Success (R_demo r)], g_worker := Some (Op_demo default_payload, True)\<rparr>)"

definition gui_restarted :: "exn \<Rightarrow> gui" where
  "gui_restarted e = drain_queue 0 (start_demo 0
     (gui_started\<lparr>g_queue := [Failure (Op_demo default_payload) e], g_worker := None\<rparr>))"

text \<open>A demonstration that fails with its session active: its messages, the clean-up's, its exception.\<close>

definition gui_failed :: "exn \<Rightarrow> gui" where
  "gui_failed e = drain_queue 0 (gui_started\<lparr>
     g_queue := [Progress MSG_SESSION (Some 50), Progress MSG_CLEANUP (Some 92),
       Failure (Op_demo default_payload) e],
     g_worker := Some (Op_demo default_payload, True)\<rparr>)"

lemma started: "gui_reachable f5 gui_started" "g_worker gui_started = Some (Op_demo default_payload, False)"
  "g_queue gui_started = []" "g_input gui_started = uc (grouped_hex default_payload 4)"
proof -
  show "gui_reachable f5 gui_started"
    unfolding gui_started_def by (rule reachable_step [OF reachable_init Button_demo]) (simp add: gui_init_def)
  show "g_worker gui_started = Some (Op_demo default_payload, False)" "g_queue gui_started = []"
    "g_input gui_started = uc (grouped_hex default_payload 4)"
    by (simp_all add: gui_started_def start_demo_def parse_initial start_worker_def set_busy_def reset_stages_def
        init_sel)
qed

lemma after_demo:
  assumes "core_demo_ok default_payload r"
  shows "gui_reachable f5 (gui_after_demo r)" "g_match (gui_after_demo r) = TXT_MATCH_PASS"
    "g_output (gui_after_demo r) = uc (grouped_hex default_payload 4)"
proof -
  have "gui_step f5 gui_started
      (gui_started\<lparr>g_queue := [Success (R_demo r)], g_worker := Some (Op_demo default_payload, True)\<rparr>)"
    using Worker_success [OF started(2), of "R_demo r" f5] assms by (simp add: started)
  from reachable_step [OF reachable_step [OF started(1) this] Poll]
  show "gui_reachable f5 (gui_after_demo r)" unfolding gui_after_demo_def .
  show "g_match (gui_after_demo r) = TXT_MATCH_PASS"
    "g_output (gui_after_demo r) = uc (grouped_hex default_payload 4)"
    using assms by (simp_all add: gui_after_demo_def drain_queue_def gui_sel set_busy_def demo_plaintext)
qed

lemma restarted:
  "gui_reachable True (gui_restarted e)" "\<not> g_busy (gui_restarted e)" "unreported (gui_restarted e)"
proof -
  let ?op = "Op_demo default_payload"
  let ?g = "gui_started\<lparr>g_queue := [Failure ?op e], g_worker := Some (?op, True)\<rparr>"
  let ?h = "gui_started\<lparr>g_queue := [Failure ?op e], g_worker := None\<rparr>"
  have 1: "gui_reachable True ?g"
    using reachable_step [OF started(1) Worker_failure [OF started(2)]] by (simp add: started)
  have 2: "gui_reachable True ?h"
    using reachable_step [OF 1 Worker_exit [of _ ?op]] by simp
  show "gui_reachable True (gui_restarted e)"
    unfolding gui_restarted_def by (rule reachable_step [OF reachable_step [OF 2 Shortcut [OF TrueI]] Poll])
  have "g_payload ?h = g_payload gui_init"
    by (simp add: gui_started_def start_demo_def parse_initial start_worker_def set_busy_def reset_stages_def)
  then show "\<not> g_busy (gui_restarted e)" "unreported (gui_restarted e)"
    by (simp_all add: gui_restarted_def start_demo_def parse_initial gui_sel start_sel unreported_def)
qed

lemma failed:
  "gui_reachable f5 (gui_failed e)" "g_stage_state (gui_failed e) Session = Passed"
  "g_stage_state (gui_failed e) Zeroize = Failed" "g_match (gui_failed e) = TXT_WAIT_MATCH"
proof -
  let ?op = "Op_demo default_payload"
  let ?q = "[Progress MSG_SESSION (Some 50), Progress MSG_CLEANUP (Some 92)]"
  have m: "(MSG_SESSION, 50) \<in> set DEMO_PROGRESS" "(MSG_CLEANUP, 92) \<in> set DEMO_PROGRESS"
    by (simp_all add: DEMO_PROGRESS_def)
  have 1: "gui_reachable f5 (gui_started\<lparr>g_queue := [hd ?q]\<rparr>)"
    using reachable_step [OF started(1) Worker_progress [OF started(2) m(1)]] by (simp add: started)
  have 2: "gui_reachable f5 (gui_started\<lparr>g_queue := ?q\<rparr>)"
    using reachable_step [OF 1 Worker_progress [of _ default_payload, OF _ m(2)]] by (simp add: started)
  have 3: "gui_reachable f5 (gui_started\<lparr>g_queue := ?q @ [Failure ?op e], g_worker := Some (?op, True)\<rparr>)"
    using reachable_step [OF 2 Worker_failure [of _ ?op]] by (simp add: started)
  from reachable_step [OF this Poll] show "gui_reachable f5 (gui_failed e)"
    by (simp add: gui_failed_def)
  show "g_stage_state (gui_failed e) Session = Passed" "g_stage_state (gui_failed e) Zeroize = Failed"
    by (simp_all add: gui_failed_def drain_queue_def stage_messages handle_failure_def set_busy_def
      activate_stage_def finish_stage_def Let_def split: option.split)
  have "g_match gui_started = TXT_WAIT_MATCH"
    by (simp add: gui_started_def start_demo_def parse_initial start_worker_def set_busy_def reset_stages_def)
  then show "g_match (gui_failed e) = TXT_WAIT_MATCH"
    by (simp add: gui_failed_def drain_queue_def gui_sel handle_failure_def set_busy_def stage_messages)
qed

text \<open>The preset after a certified run.\<close>

lemma preset_after_demo:
  assumes "core_demo_ok default_payload r"
  defines "g \<equiv> set_payload (DEFAULT_PLAINTEXTS ! 1) (gui_after_demo r)"
  shows "gui_reachable f5 g" "g_match g = TXT_MATCH_PASS" "g_input g \<noteq> g_output g"
proof -
  show "gui_reachable f5 g"
    unfolding g_def by (rule reachable_step [OF after_demo(1) [OF assms(1)] Preset [OF other_default(2)]])
  show "g_match g = TXT_MATCH_PASS" by (simp add: g_def gui_sel after_demo [OF assms(1)])
  have "g_input g = uc (grouped_hex (DEFAULT_PLAINTEXTS ! 1) 4)" by (simp add: g_def set_payload_def)
  moreover have "g_output g = uc (grouped_hex default_payload 4)"
    by (simp add: g_def gui_sel after_demo [OF assms(1)])
  ultimately show "g_input g \<noteq> g_output g" using other_default(3) by simp
qed

lemma default_length: "length default_payload = 24"
  by code_simp

end
