(* ===== verification/Sample_Run.thy ===== *)
theory Sample_Run
  imports Core_Demo
begin

text \<open>
  Results that the certificates of the flows accept: a live trace for each of the four diagnostics, a
  passed qualification, and a certified core demonstration for every plaintext of 24 bytes. They show that
  the certificates can hold and carry the concrete instances of the properties.
\<close>

section \<open>Live traces\<close>

fun sample_payload :: "target_id \<Rightarrow> spi_command \<Rightarrow> bytes" where
  "sample_payload target SPI_GET_INFO =
     [word_of_int (TargetId_value target), 1, 0, 0, 0, 0] @ to_be 4 (expected_build target) @ [0, 0]"
| "sample_payload target command = replicate 16 0"

lemma sample_payload_ok:
  assumes "(target, command) \<in> set LIVE_TRACES"
  shows "length (sample_payload target command) = (if command = SPI_GET_INFO then 12 else 16)"
    "command = SPI_GET_INFO \<longrightarrow> info_payload target (sample_payload target command)"
proof -
  have "list_all (\<lambda>(target, command). length (sample_payload target command) =
      (if command = SPI_GET_INFO then 12 else 16)) LIVE_TRACES"
    by code_simp
  then show "length (sample_payload target command) = (if command = SPI_GET_INFO then 12 else 16)"
    using assms by (auto simp: list_all_iff)
  have "list_all (\<lambda>(target, command). command = SPI_GET_INFO \<longrightarrow>
      info_payload target (sample_payload target command)) LIVE_TRACES"
    by code_simp
  then show "command = SPI_GET_INFO \<longrightarrow> info_payload target (sample_payload target command)"
    using assms by (auto simp: list_all_iff)
qed

definition shows_exchange :: "spi_diagnostic_trace \<Rightarrow> target_id \<times> spi_command \<Rightarrow> bool" where
  "shows_exchange trace = (\<lambda>(target, command). SpiDiagnosticTrace_wf trace \<and> live_trace trace target command \<and>
     sd_target_id trace = TargetId_value target \<and> sd_command trace = SpiCommand_value command)"

lemma live_trace_exists:
  assumes "(target, command) \<in> set LIVE_TRACES"
  shows "\<exists>trace. shows_exchange trace (target, command)"
proof -
  define c where "c = SpiCommand_value command"
  define payload where "payload = sample_payload target command"
  have pair: "target \<in> {TGT_PRIMER1, TGT_PRIMER2}" "command \<in> {SPI_GET_INFO, SPI_GET_STATUS}"
    using assms by (auto simp: LIVE_TRACES_def)
  have pl: "length payload = (if command = SPI_GET_INFO then 12 else 16)"
    "command = SPI_GET_INFO \<longrightarrow> info_payload target payload"
    unfolding payload_def by (rule sample_payload_ok [OF assms])+
  obtain req where req: "spi_encode \<lparr>sp_command = c, sp_flags = 0, sp_transaction_id = 7, sp_payload = [],
      sp_version = PROTOCOL_VERSION\<rparr> = Inr req"
    using spi.enc_total pair by (fastforce simp: spi_wf_def c_def)
  obtain resp where resp: "spi_encode \<lparr>sp_command = c, sp_flags = RESPONSE, sp_transaction_id = 7,
      sp_payload = payload, sp_version = PROTOCOL_VERSION\<rparr> = Inr resp"
    using spi.enc_total pair pl(1) by (fastforce simp: spi_wf_def c_def protocol_sizes)
  obtain fp where fp: "request_fingerprint_crc32c c 0 [] = Inr fp"
    using fingerprint_empty unfolding c_def by blast
  have len: "length req = 10" "length resp = length payload + 10"
    using spi_length [OF req] spi_length [OF resp] by simp_all
  define rcrc where "rcrc = be_int (drop (length resp - 2) resp)"
  define trace where "trace = \<lparr>sd_target_id = TargetId_value target, sd_command = c, sd_source = TargetId_value target,
    sd_result_code = EC_OK, sd_target_transaction_id = 7, sd_request_fingerprint = fp, sd_request_length = 10,
    sd_response_capture_length = int (length resp), sd_response_frame_length = int (length resp),
    sd_request_crc = be_int (drop 8 req), sd_response_crc_received = rcrc, sd_response_crc_calculated = rcrc,
    sd_irq_before_request = False, sd_irq_after_request = False, sd_irq_before_response = True,
    sd_irq_after_response = False, sd_request_bytes = req, sd_response_bytes = resp\<rparr>"
  have "be_int (drop 8 req) < 2 ^ 16" "rcrc < 2 ^ 16"
    using len be_int_less [of "drop 8 req"] be_int_less [of "drop (length resp - 2) resp"]
    by (simp_all add: rcrc_def)
  then have "SpiDiagnosticTrace_wf trace"
    using fingerprint_range [OF fp] len pair pl(1)
    by (auto simp: trace_def SpiDiagnosticTrace_wf_def c_def rcrc_def)
  moreover have "live_trace trace target command"
    using req resp fp len pl pair unfolding c_def
    by (auto simp: live_trace_def trace_def expected_frame_length_def rcrc_def intro!: exI [of _ payload])
  ultimately show ?thesis
    by (auto simp: shows_exchange_def trace_def c_def)
qed

section \<open>A passed qualification\<close>

definition sample_status :: "system_state \<Rightarrow> int \<Rightarrow> int \<Rightarrow> system_status" where
  "sample_status state session sequence =
     \<lparr>st_system_state = state, st_mode = MODE_KAT, st_target_ready_mask = ALL_READY, st_fault_flags = 0,
      st_session_id = session, st_current_sequence = sequence, st_last_error = EC_OK, st_active_host_txid = 0\<rparr>"

definition sample_info :: system_info where
  "sample_info = \<lparr>si_protocol_version = 1, si_architecture_major = 1, si_architecture_minor = 0,
     si_architecture_patch = 0, si_capabilities = REQUIRED_CAPABILITIES, si_sn32_build_id = 0,
     si_primer1_build_id = EXPECTED_P1_BUILD_ID, si_primer2_build_id = EXPECTED_P2_BUILD_ID\<rparr>"

definition sample_self_test :: transaction_result where
  "sample_self_test = \<lparr>tr_queried_txid = 1, tr_state = TXN_SUCCEEDED,
     tr_original_command = HostCommand_value HC_RUN_SELF_TEST, tr_result_code = EC_OK, tr_data = []\<rparr>"

definition sample_dual :: dual_spi_bringup_result where
  "sample_dual = \<lparr>ds_uptime_ms = 10, ds_info = sample_info,
     ds_status_before = sample_status SYS_SELF_TEST_REQUIRED 0 0,
     ds_primer1_transaction = sample_self_test, ds_primer2_transaction = sample_self_test,
     ds_status_after = sample_status SYS_READY_NO_KEYPAIR 0 0\<rparr>"

definition sample_qualification :: "spi_diagnostic_trace list \<Rightarrow> sn32_qualification_result" where
  "sample_qualification traces = \<lparr>sq_live_traces = traces, sq_dual_spi = sample_dual,
     sq_liveness_iterations = 2, sq_final_uptime_ms = 20, sq_final_status = sample_status SYS_READY_NO_KEYPAIR 0 0\<rparr>"

lemma sample_qualification_ok:
  "list_all2 shows_exchange traces LIVE_TRACES \<Longrightarrow> qualification_ok 2 (sample_qualification traces)"
  by (simp add: qualification_ok_def sample_qualification_def shows_exchange_def [abs_def] dual_spi_passed_def
      ready_no_fault_def sample_dual_def sample_info_def sample_status_def sample_self_test_def self_test_passed_def)

lemma live_traces_exist: "\<exists>traces. list_all2 shows_exchange traces LIVE_TRACES"
proof -
  have "\<forall>x \<in> set LIVE_TRACES. \<exists>trace. shows_exchange trace x"
    using live_trace_exists by auto
  then obtain f where "\<forall>x \<in> set LIVE_TRACES. shows_exchange (f x) x" by metis
  then have "list_all2 shows_exchange (map f LIVE_TRACES) LIVE_TRACES"
    by (simp add: list_all2_conv_all_nth)
  then show ?thesis by blast
qed

section \<open>A certified demonstration\<close>

definition sample_telemetry :: "bytes \<Rightarrow> telemetry_result" where
  "sample_telemetry plaintext =
     \<lparr>te_host_txid = 3, te_session_id = 5, te_sequence = 1, te_plaintext = plaintext, te_status = EC_OK\<rparr>"

definition sample_demo :: "spi_diagnostic_trace list \<Rightarrow> bytes \<Rightarrow> core_demo_result" where
  "sample_demo traces plaintext =
     \<lparr>cd_control_plane = sample_qualification traces, cd_info = sample_info,
      cd_status_before = sample_status SYS_READY_NO_KEYPAIR 0 0,
      cd_keypair = \<lparr>kp_host_txid = 1, kp_public_key_hash = replicate 32 0\<rparr>,
      cd_session = \<lparr>se_host_txid = 2, se_session_id = 5, se_initial_sequence = 0\<rparr>,
      cd_status_active = sample_status SYS_ACTIVE 5 0, cd_telemetry = sample_telemetry plaintext,
      cd_last_result = sample_telemetry plaintext, cd_status_final = sample_status SYS_READY_NO_KEYPAIR 0 0,
      cd_final_uptime_ms = 30\<rparr>"

lemma core_demo_ok_exists:
  assumes "length plaintext = 24"
  shows "\<exists>r. core_demo_ok plaintext r"
proof -
  obtain traces where "list_all2 shows_exchange traces LIVE_TRACES" using live_traces_exist by blast
  then have "core_demo_ok plaintext (sample_demo traces plaintext)"
    using assms
    by (simp add: core_demo_ok_def sample_demo_def sample_qualification_ok preflight_ok_def demo_exchange_ok_def
        same_result_def ready_no_fault_def sample_status_def sample_info_def sample_telemetry_def)
  then show ?thesis by blast
qed

end
