(* ===== verification/Ascon.thy ===== *)
theory Ascon
  imports Errors
begin

text \<open>
  The two Ascon-AEAD128 references of the repository for the fixed telemetry layout (24 bytes of
  associated data, 24 bytes of plaintext): \<open>primer1/scripts/reference_checks.py\<close> (encryption, \<open>p1_\<close>)
  and \<open>primer2/scripts/reference_checks.py\<close> (encryption and decryption, \<open>p2_\<close>), both on unbounded
  integers with masks. Both are refined to the permutation on 64-bit words; from it follow that they
  agree, that decryption inverts encryption, and that a tag is accepted exactly when it is the tag of
  the plaintext returned. Failed assertions are exceptions.
\<close>

type_synonym ascon_state = "int \<times> int \<times> int \<times> int \<times> int"

definition MASK64 :: int where "MASK64 = 2 ^ 64 - 1"

definition RC :: "int list" where
  "RC = [0xF0, 0xE1, 0xD2, 0xC3, 0xB4, 0xA5, 0x96, 0x87, 0x78, 0x69, 0x5A, 0x4B]"

section \<open>Primer 1\<close>

definition ASCON_IV :: int where
  "ASCON_IV = 1 OR push_bit 16 12 OR push_bit 20 8 OR push_bit 24 128 OR push_bit 40 16"

definition p1_ror :: "int \<Rightarrow> nat \<Rightarrow> int" where
  "p1_ror x n = (drop_bit n x OR push_bit (64 - n) x) AND MASK64"

definition ascon_round :: "ascon_state \<Rightarrow> int \<Rightarrow> ascon_state" where
  "ascon_round s c = (case s of (x0, x1, x2, x3, x4) \<Rightarrow>
     let x2 = x2 XOR c; x0 = x0 XOR x4; x4 = x4 XOR x3; x2 = x2 XOR x1;
         t0 = x0 XOR (NOT x1 AND x2); t1 = x1 XOR (NOT x2 AND x3); t2 = x2 XOR (NOT x3 AND x4);
         t3 = x3 XOR (NOT x4 AND x0); t4 = x4 XOR (NOT x0 AND x1);
         t0 = t0 AND MASK64; t1 = t1 AND MASK64; t2 = t2 AND MASK64; t3 = t3 AND MASK64; t4 = t4 AND MASK64;
         t1 = t1 XOR t0; t0 = t0 XOR t4; t3 = t3 XOR t2; t2 = NOT t2 AND MASK64
     in ((t0 XOR p1_ror t0 19 XOR p1_ror t0 28) AND MASK64,
         (t1 XOR p1_ror t1 61 XOR p1_ror t1 39) AND MASK64,
         (t2 XOR p1_ror t2 1 XOR p1_ror t2 6) AND MASK64,
         (t3 XOR p1_ror t3 10 XOR p1_ror t3 17) AND MASK64,
         (t4 XOR p1_ror t4 7 XOR p1_ror t4 41) AND MASK64))"

definition perm :: "ascon_state \<Rightarrow> nat \<Rightarrow> ascon_state" where
  "perm s start = foldl ascon_round s (drop start RC)"

definition p1_ascon_encrypt :: "bytes \<Rightarrow> bytes \<Rightarrow> bytes \<Rightarrow> bytes \<Rightarrow> bytes result" where
  "p1_ascon_encrypt key nonce ad pt =
     assert_that (length key = length nonce \<and> length nonce = 16 \<and> length ad = length pt \<and> length pt = 24)
     (let k0 = le_int (take 8 key); k1 = le_int (drop 8 key);
          n0 = le_int (take 8 nonce); n1 = le_int (drop 8 nonce)
      in case perm (ASCON_IV, k0, k1, n0, n1) 0 of (x0, x1, x2, x3, x4) \<Rightarrow>
      let x3 = x3 XOR k0; x4 = x4 XOR k1; x0 = x0 XOR le_int (take 8 ad); x1 = x1 XOR le_int (slice 8 16 ad)
      in case perm (x0, x1, x2, x3, x4) 4 of (x0, x1, x2, x3, x4) \<Rightarrow>
      let x0 = x0 XOR le_int (drop 16 ad); x1 = x1 XOR 1
      in case perm (x0, x1, x2, x3, x4) 4 of (x0, x1, x2, x3, x4) \<Rightarrow>
      let x4 = x4 XOR push_bit 63 1; x0 = x0 XOR le_int (take 8 pt); x1 = x1 XOR le_int (slice 8 16 pt);
          ct = to_le 8 x0 @ to_le 8 x1
      in case perm (x0, x1, x2, x3, x4) 4 of (x0, x1, x2, x3, x4) \<Rightarrow>
      let x0 = x0 XOR le_int (drop 16 pt); ct = ct @ to_le 8 x0; x1 = x1 XOR 1;
          x2 = x2 XOR k0; x3 = x3 XOR k1
      in case perm (x0, x1, x2, x3, x4) 0 of (x0, x1, x2, x3, x4) \<Rightarrow>
      let x3 = x3 XOR k0; x4 = x4 XOR k1
      in Inr (ct @ to_le 8 x3 @ to_le 8 x4))"

section \<open>Primer 2\<close>

definition IV :: int where "IV = 0x00001000808C0001"

definition p2_ror :: "int \<Rightarrow> nat \<Rightarrow> int" where
  "p2_ror x n = (drop_bit n x OR (push_bit (64 - n) x AND MASK64)) AND MASK64"

definition round_fn :: "ascon_state \<Rightarrow> int \<Rightarrow> ascon_state" where
  "round_fn s rc = (case s of (a0, a1, a2, a3, a4) \<Rightarrow>
     let a2 = a2 XOR rc; a0 = a0 XOR a4; a4 = a4 XOR a3; a2 = a2 XOR a1;
         t0 = a0 XOR ((NOT a1 AND MASK64) AND a2); t1 = a1 XOR ((NOT a2 AND MASK64) AND a3);
         t2 = a2 XOR ((NOT a3 AND MASK64) AND a4); t3 = a3 XOR ((NOT a4 AND MASK64) AND a0);
         t4 = a4 XOR ((NOT a0 AND MASK64) AND a1);
         t1 = t1 XOR t0; t0 = t0 XOR t4; t3 = t3 XOR t2; t2 = NOT t2 AND MASK64
     in ((t0 XOR p2_ror t0 19 XOR p2_ror t0 28) AND MASK64,
         (t1 XOR p2_ror t1 61 XOR p2_ror t1 39) AND MASK64,
         (t2 XOR p2_ror t2 1 XOR p2_ror t2 6) AND MASK64,
         (t3 XOR p2_ror t3 10 XOR p2_ror t3 17) AND MASK64,
         (t4 XOR p2_ror t4 7 XOR p2_ror t4 41) AND MASK64))"

definition permute :: "ascon_state \<Rightarrow> nat \<Rightarrow> ascon_state" where
  "permute s first_round = foldl round_fn s (drop first_round RC)"

fun words_le_loop :: "bytes \<Rightarrow> nat \<Rightarrow> int list" where
  "words_le_loop data 0 = []"
| "words_le_loop data (Suc n) = le_int (slice 0 8 data) # words_le_loop (drop 8 data) n"

text \<open>The assertion of \<open>words_le\<close> holds at each of its calls, on byte strings whose sizes have been
  asserted to be 16 or 24; likewise \<open>to_bytes\<close> is applied to lanes of a masked state only, which fit
  into 64 bits (\<open>state64_permute\<close>, \<open>absorb_state64\<close>).\<close>

definition words_le :: "bytes \<Rightarrow> int list" where
  "words_le data = words_le_loop data (length data div 8)"

text \<open>The state after the key, the nonce and the associated data have been absorbed; the source repeats
  these lines in \<open>ascon_encrypt\<close> and \<open>ascon_decrypt\<close>.\<close>

definition p2_absorb :: "bytes \<Rightarrow> bytes \<Rightarrow> bytes \<Rightarrow> ascon_state" where
  "p2_absorb key nonce ad =
     (let k0 = words_le key ! 0; k1 = words_le key ! 1; n0 = words_le nonce ! 0; n1 = words_le nonce ! 1;
          a0 = words_le ad ! 0; a1 = words_le ad ! 1; a2 = words_le ad ! 2
      in case permute (IV, k0, k1, n0, n1) 0 of (x0, x1, x2, x3, x4) \<Rightarrow>
      let x3 = x3 XOR k0; x4 = x4 XOR k1; x0 = x0 XOR a0; x1 = x1 XOR a1
      in case permute (x0, x1, x2, x3, x4) 4 of (x0, x1, x2, x3, x4) \<Rightarrow>
      let x0 = x0 XOR a2; x1 = x1 XOR 1
      in case permute (x0, x1, x2, x3, x4) 4 of (x0, x1, x2, x3, x4) \<Rightarrow>
      (x0, x1, x2, x3, x4 XOR 0x8000000000000000))"

definition p2_ascon_encrypt :: "bytes \<Rightarrow> bytes \<Rightarrow> bytes \<Rightarrow> bytes \<Rightarrow> (bytes \<times> bytes) result" where
  "p2_ascon_encrypt key nonce ad plaintext =
     assert_that (length key = length nonce \<and> length nonce = 16)
    (assert_that (length ad = length plaintext \<and> length plaintext = 24)
     (let k0 = words_le key ! 0; k1 = words_le key ! 1;
          p0 = words_le plaintext ! 0; p1 = words_le plaintext ! 1; p2 = words_le plaintext ! 2
      in case p2_absorb key nonce ad of (x0, x1, x2, x3, x4) \<Rightarrow>
      let x0 = x0 XOR p0; x1 = x1 XOR p1; c0 = x0; c1 = x1
      in case permute (x0, x1, x2, x3, x4) 4 of (x0, x1, x2, x3, x4) \<Rightarrow>
      let c2 = x0 XOR p2; x0 = x0 XOR p2; x1 = x1 XOR 1; x2 = x2 XOR k0; x3 = x3 XOR k1
      in case permute (x0, x1, x2, x3, x4) 0 of (x0, x1, x2, x3, x4) \<Rightarrow>
      let tag = to_le 8 (x3 XOR k0) @ to_le 8 (x4 XOR k1);
          ciphertext = to_le 8 c0 @ to_le 8 c1 @ to_le 8 c2
      in Inr (ciphertext, tag)))"

definition p2_ascon_decrypt :: "bytes \<Rightarrow> bytes \<Rightarrow> bytes \<Rightarrow> bytes \<Rightarrow> bytes \<Rightarrow> (bytes \<times> bool) result" where
  "p2_ascon_decrypt key nonce ad ciphertext tag =
     assert_that (length key = length nonce \<and> length nonce = length tag \<and> length tag = 16)
    (assert_that (length ad = length ciphertext \<and> length ciphertext = 24)
     (let k0 = words_le key ! 0; k1 = words_le key ! 1;
          c0 = words_le ciphertext ! 0; c1 = words_le ciphertext ! 1; c2 = words_le ciphertext ! 2
      in case p2_absorb key nonce ad of (x0, x1, x2, x3, x4) \<Rightarrow>
      let p0 = x0 XOR c0; p1 = x1 XOR c1; x0 = c0; x1 = c1
      in case permute (x0, x1, x2, x3, x4) 4 of (x0, x1, x2, x3, x4) \<Rightarrow>
      let p2 = x0 XOR c2; x0 = c2; x1 = x1 XOR 1; x2 = x2 XOR k0; x3 = x3 XOR k1
      in case permute (x0, x1, x2, x3, x4) 0 of (x0, x1, x2, x3, x4) \<Rightarrow>
      let expected = to_le 8 (x3 XOR k0) @ to_le 8 (x4 XOR k1);
          plaintext = to_le 8 p0 @ to_le 8 p1 @ to_le 8 p2
      in Inr (plaintext, expected = tag)))"

section \<open>64-bit values\<close>

definition in64 :: "int \<Rightarrow> bool" where
  "in64 x \<longleftrightarrow> take_bit 64 x = x"

lemma and_MASK64: "x AND MASK64 = take_bit 64 x"
  by (simp add: MASK64_def take_bit_eq_mask mask_eq_exp_minus_1)

lemma in64_iff: "in64 x \<longleftrightarrow> 0 \<le> x \<and> x < 2 ^ 64"
  by (auto simp: in64_def take_bit_int_eq_self_iff)

lemma in64_ops [simp, intro]:
  "in64 x \<Longrightarrow> in64 y \<Longrightarrow> in64 (x XOR y)"
  "in64 y \<Longrightarrow> in64 (x AND y)" "in64 (take_bit 64 x)" "in64 (take_bit 64 x AND y)"
  by (simp_all add: in64_def take_bit_xor take_bit_and)
    (metis and.left_idem and.assoc and.commute take_bit_and take_bit_eq_mask)+

fun state64 :: "ascon_state \<Rightarrow> bool" where
  "state64 (x0, x1, x2, x3, x4) \<longleftrightarrow> in64 x0 \<and> in64 x1 \<and> in64 x2 \<and> in64 x3 \<and> in64 x4"

lemma state64_round_fn: "state64 (round_fn s rc)"
  by (cases s) (simp add: round_fn_def Let_def and_MASK64)

lemma state64_permute: "state64 s \<Longrightarrow> state64 (permute s n)"
proof -
  have "state64 s \<Longrightarrow> state64 (foldl round_fn s rcs)" for rcs
    by (induction rcs arbitrary: s) (simp_all add: state64_round_fn)
  then show "state64 s \<Longrightarrow> state64 (permute s n)" by (simp add: permute_def)
qed

section \<open>The two references agree\<close>

lemma ror_eq: "p1_ror x n = p2_ror x n"
  by (simp add: p1_ror_def p2_ror_def and_MASK64 take_bit_or)

lemma masked_not: "in64 c \<Longrightarrow> (NOT b AND MASK64) AND c = NOT b AND c"
  unfolding in64_def and_MASK64 [symmetric] by (metis and.assoc and.commute)

lemma masked_chi: "in64 a \<Longrightarrow> in64 c \<Longrightarrow> (a XOR (NOT b AND c)) AND MASK64 = a XOR (NOT b AND c)"
  using masked_not [of c b] by (simp add: and_MASK64 in64_def take_bit_xor take_bit_and)

lemma masked_or: "(b OR NOT MASK64) AND MASK64 = b AND MASK64"
  by (rule bit_eqI) (auto simp: bit_simps)

lemma RC_in64: "c \<in> set RC \<Longrightarrow> in64 c"
  by (auto simp: RC_def in64_iff)

lemma round_eq: "state64 s \<Longrightarrow> in64 c \<Longrightarrow> ascon_round s c = round_fn s c"
  by (cases s) (simp add: ascon_round_def round_fn_def Let_def masked_chi masked_not masked_or ror_eq)

lemma perm_eq: "state64 s \<Longrightarrow> perm s n = permute s n"
proof -
  have "state64 s \<Longrightarrow> set rcs \<subseteq> set RC \<Longrightarrow> foldl ascon_round s rcs = foldl round_fn s rcs" for rcs
    by (induction rcs arbitrary: s) (auto simp: round_eq RC_in64 state64_round_fn)
  moreover have "set (drop n RC) \<subseteq> set RC" by (rule set_drop_subset)
  ultimately show "state64 s \<Longrightarrow> perm s n = permute s n" by (simp add: perm_def permute_def)
qed

lemma IV_eq: "ASCON_IV = IV"
  by (simp add: ASCON_IV_def IV_def)

section \<open>Words of byte strings\<close>

lemma in64_le_int: "length bs = 8 \<Longrightarrow> in64 (le_int bs)"
  using le_int_less [of bs] by (simp add: in64_iff)

lemma le_int_word [simp]: "in64 x \<Longrightarrow> le_int (to_le 8 x) = x"
  by (simp add: in64_iff)

lemma to_le_word [simp]: "length bs = 8 \<Longrightarrow> to_le 8 (le_int bs) = bs"
  using to_le_le_int [of bs] by simp

lemma words_le_16: "length bs = 16 \<Longrightarrow> words_le bs = [le_int (take 8 bs), le_int (drop 8 bs)]"
  by (simp add: words_le_def numeral_2_eq_2 slice_def)

lemma words_le_24:
  "length bs = 24 \<Longrightarrow>
     words_le bs = [le_int (take 8 bs), le_int (take 8 (drop 8 bs)), le_int (drop 16 bs)]"
  by (simp add: words_le_def numeral_3_eq_3 slice_def)

lemma bytes_24:
  "take 8 bs @ take 8 (drop 8 bs) @ drop 16 bs = bs"
proof -
  have "drop 16 bs = drop 8 (drop 8 bs)" by simp
  then show ?thesis by (simp only: append_take_drop_id)
qed

text \<open>24 bytes are three words.\<close>

definition of_words :: "int \<times> int \<times> int \<Rightarrow> bytes" where
  "of_words w = (case w of (a, b, c) \<Rightarrow> to_le 8 a @ to_le 8 b @ to_le 8 c)"

lemma of_words_length [simp]: "length (of_words w) = 24"
  by (cases w) (simp add: of_words_def)

lemma words_le_of_words:
  "in64 a \<Longrightarrow> in64 b \<Longrightarrow> in64 c \<Longrightarrow> words_le (of_words (a, b, c)) = [a, b, c]"
  by (simp add: words_le_24 of_words_def)

lemma of_words_ex:
  assumes "length bs = 24"
  obtains a b c where "bs = of_words (a, b, c)" "in64 a" "in64 b" "in64 c"
proof
  show "bs = of_words (le_int (take 8 bs), le_int (take 8 (drop 8 bs)), le_int (drop 16 bs))"
    using bytes_24 [of bs] assms by (simp add: of_words_def)
qed (use assms in \<open>simp_all add: in64_le_int\<close>)

lemma of_words_inj:
  assumes "in64 a" "in64 b" "in64 c" "in64 a'" "in64 b'" "in64 c'"
  shows "of_words (a, b, c) = of_words (a', b', c') \<longleftrightarrow> a = a' \<and> b = b' \<and> c = c'"
proof
  assume "of_words (a, b, c) = of_words (a', b', c')"
  then have "words_le (of_words (a, b, c)) = words_le (of_words (a', b', c'))" by (rule arg_cong)
  then show "a = a' \<and> b = b' \<and> c = c'" using assms by (simp only: words_le_of_words list.inject)
qed simp

section \<open>Encryption and decryption\<close>

text \<open>Both directions, over the state \<open>A\<close> after the associated data: the third keystream word and the tag
  are functions of the ciphertext.\<close>

definition second :: "ascon_state \<Rightarrow> int \<Rightarrow> int \<Rightarrow> ascon_state" where
  "second A c0 c1 = (case A of (x0, x1, x2, x3, x4) \<Rightarrow> permute (c0, c1, x2, x3, x4) 4)"

definition tag_of :: "int \<Rightarrow> int \<Rightarrow> ascon_state \<Rightarrow> int \<Rightarrow> bytes" where
  "tag_of k0 k1 Y c2 = (case Y of (y0, y1, y2, y3, y4) \<Rightarrow>
     case permute (c2, y1 XOR 1, y2 XOR k0, y3 XOR k1, y4) 0 of (z0, z1, z2, z3, z4) \<Rightarrow>
       to_le 8 (z3 XOR k0) @ to_le 8 (z4 XOR k1))"

definition lane0 :: "ascon_state \<Rightarrow> int" where "lane0 s = fst s"
definition lane1 :: "ascon_state \<Rightarrow> int" where "lane1 s = fst (snd s)"

lemma lanes [simp]: "lane0 (a, r) = a" "lane1 (a, b, q) = b"
  by (simp_all add: lane0_def lane1_def)

lemma encrypt_words:
  assumes "length key = 16" "length nonce = 16" "length ad = 24" "in64 p0" "in64 p1" "in64 p2"
  defines "A \<equiv> p2_absorb key nonce ad"
  defines "c0 \<equiv> lane0 A XOR p0"
  defines "c1 \<equiv> lane1 A XOR p1"
  defines "Y \<equiv> second A c0 c1"
  defines "c2 \<equiv> lane0 Y XOR p2"
  shows "p2_ascon_encrypt key nonce ad (of_words (p0, p1, p2)) =
    Inr (of_words (c0, c1, c2), tag_of (words_le key ! 0) (words_le key ! 1) Y c2)"
proof (cases A)
  case (fields x0 x1 x2 x3 x4)
  obtain y0 y1 y2 y3 y4 where Y: "permute (x0 XOR p0, x1 XOR p1, x2, x3, x4) 4 = (y0, y1, y2, y3, y4)"
    by (cases "permute (x0 XOR p0, x1 XOR p1, x2, x3, x4) 4")
  have A: "p2_absorb key nonce ad = (x0, x1, x2, x3, x4)" using fields by (simp add: A_def)
  have "Y = (y0, y1, y2, y3, y4)"
    using Y fields by (simp add: Y_def second_def c0_def c1_def)
  then show ?thesis
    using assms(1-6) Y
    by (simp add: p2_ascon_encrypt_def assert_that_def A words_le_of_words Let_def
        tag_of_def c0_def c1_def c2_def fields split: prod.split)
      (simp add: of_words_def)
qed

lemma decrypt_words:
  assumes "length key = 16" "length nonce = 16" "length ad = 24" "length tag = 16"
    and "in64 c0" "in64 c1" "in64 c2"
  defines "A \<equiv> p2_absorb key nonce ad"
  defines "Y \<equiv> second A c0 c1"
  shows "p2_ascon_decrypt key nonce ad (of_words (c0, c1, c2)) tag =
    Inr (of_words (lane0 A XOR c0, lane1 A XOR c1, lane0 Y XOR c2),
      tag_of (words_le key ! 0) (words_le key ! 1) Y c2 = tag)"
proof (cases A)
  case (fields x0 x1 x2 x3 x4)
  obtain y0 y1 y2 y3 y4 where Y: "permute (c0, c1, x2, x3, x4) 4 = (y0, y1, y2, y3, y4)"
    by (cases "permute (c0, c1, x2, x3, x4) 4")
  have A: "p2_absorb key nonce ad = (x0, x1, x2, x3, x4)" using fields by (simp add: A_def)
  have "Y = (y0, y1, y2, y3, y4)"
    using Y fields by (simp add: Y_def second_def)
  then show ?thesis
    using assms(1-7) Y
    by (simp add: p2_ascon_decrypt_def assert_that_def A words_le_of_words Let_def
        tag_of_def fields split: prod.split)
      (simp add: of_words_def)
qed

lemma tag_of_length [simp]: "length (tag_of k0 k1 Y c2) = 16"
  by (simp add: tag_of_def split: prod.split)

lemma second_lane [simp]: "state64 A \<Longrightarrow> in64 c0 \<Longrightarrow> in64 c1 \<Longrightarrow> in64 (lane0 (second A c0 c1))"
proof (cases A)
  case (fields x0 x1 x2 x3 x4)
  assume "state64 A" "in64 c0" "in64 c1"
  then have "state64 (permute (c0, c1, x2, x3, x4) 4)" using fields by (intro state64_permute) simp
  then show ?thesis
    by (cases "permute (c0, c1, x2, x3, x4) 4") (simp add: second_def fields)
qed

lemma lanes_in64 [simp]: "state64 A \<Longrightarrow> in64 (lane0 A)" "state64 A \<Longrightarrow> in64 (lane1 A)"
  by (cases A, simp)+

lemma state64_permute_4: "state64 (permute s 4)"
proof -
  have "permute s 4 = foldl round_fn (round_fn s (RC ! 4)) (drop 5 RC)"
    by (simp add: permute_def RC_def)
  moreover have "state64 (foldl round_fn t rcs)" if "state64 t" for t rcs
    using that by (induction rcs arbitrary: t) (simp_all add: state64_round_fn)
  ultimately show ?thesis by (simp add: state64_round_fn)
qed

lemma state64_last: "state64 s \<Longrightarrow> (case s of (x0, x1, x2, x3, x4) \<Rightarrow>
    state64 (x0, x1, x2, x3, x4 XOR 0x8000000000000000))"
  by (cases s) (simp add: in64_iff [of "0x8000000000000000"])

lemma absorb_ex: "\<exists>s. p2_absorb key nonce ad = (case permute s 4 of (x0, x1, x2, x3, x4) \<Rightarrow>
      (x0, x1, x2, x3, x4 XOR 0x8000000000000000))"
proof -
  obtain a0 a1 a2 a3 a4 where a: "permute (IV, words_le key ! 0, words_le key ! 1, words_le nonce ! 0,
      words_le nonce ! 1) 0 = (a0, a1, a2, a3, a4)" by (rule prod_cases5)
  obtain b0 b1 b2 b3 b4 where b: "permute (a0 XOR words_le ad ! 0, a1 XOR words_le ad ! 1, a2,
      a3 XOR words_le key ! 0, a4 XOR words_le key ! 1) 4 = (b0, b1, b2, b3, b4)" by (rule prod_cases5)
  show ?thesis unfolding p2_absorb_def Let_def a b prod.case by blast
qed

lemma absorb_state64 [simp]: "state64 (p2_absorb key nonce ad)"
proof -
  obtain s where s: "p2_absorb key nonce ad = (case permute s 4 of (x0, x1, x2, x3, x4) \<Rightarrow>
      (x0, x1, x2, x3, x4 XOR 0x8000000000000000))" using absorb_ex by blast
  obtain x0 x1 x2 x3 x4 where x: "permute s 4 = (x0, x1, x2, x3, x4)" by (rule prod_cases5)
  show ?thesis using state64_last [OF state64_permute_4 [of s]] by (simp only: s x prod.case)
qed

lemma xor_cancel [simp]: "(a :: int) XOR (a XOR b) = b"
  by (simp flip: xor.assoc)

text \<open>With inputs of the right sizes, decryption returns the words that encryption takes, and compares
  the tag with the one encryption makes of them.\<close>

lemma encrypt_decrypt_words:
  assumes "length key = 16" "length nonce = 16" "length ad = 24" "length tag = 16" "length ct = 24"
  shows "\<exists>pt tag'. length pt = 24 \<and> p2_ascon_encrypt key nonce ad pt = Inr (ct, tag') \<and>
    p2_ascon_decrypt key nonce ad ct tag = Inr (pt, tag' = tag)"
proof -
  obtain c0 c1 c2 where c: "ct = of_words (c0, c1, c2)" "in64 c0" "in64 c1" "in64 c2"
    using of_words_ex [OF assms(5)] .
  let ?A = "p2_absorb key nonce ad"
  let ?Y = "second ?A c0 c1"
  let ?p = "(lane0 ?A XOR c0, lane1 ?A XOR c1, lane0 ?Y XOR c2)"
  have "p2_ascon_encrypt key nonce ad (of_words ?p) =
      Inr (ct, tag_of (words_le key ! 0) (words_le key ! 1) ?Y c2)"
    using c encrypt_words [of key nonce ad "lane0 ?A XOR c0" "lane1 ?A XOR c1" "lane0 ?Y XOR c2"] assms(1-3)
    by simp
  moreover have "p2_ascon_decrypt key nonce ad ct tag =
      Inr (of_words ?p, tag_of (words_le key ! 0) (words_le key ! 1) ?Y c2 = tag)"
    unfolding c(1) by (rule decrypt_words [OF assms(1-4) c(2-4)])
  ultimately show ?thesis using of_words_length by blast
qed

lemma encrypt_sizes:
  "p2_ascon_encrypt key nonce ad pt = Inr (ct, tag) \<Longrightarrow>
     length key = 16 \<and> length nonce = 16 \<and> length ad = 24 \<and> length pt = 24 \<and>
     length ct = 24 \<and> length tag = 16"
  by (auto simp: p2_ascon_encrypt_def Let_def split: prod.splits)

lemma decrypt_sizes:
  "p2_ascon_decrypt key nonce ad ct tag = Inr (pt, b) \<Longrightarrow>
     length key = 16 \<and> length nonce = 16 \<and> length ad = 24 \<and> length ct = 24 \<and> length tag = 16"
  by (auto simp: p2_ascon_decrypt_def Let_def split: prod.splits)

lemma decrypt_of_encrypt:
  assumes "p2_ascon_encrypt key nonce ad pt = Inr (ct, tag')" "length tag = 16"
  shows "p2_ascon_decrypt key nonce ad ct tag = Inr (pt, tag' = tag)"
proof -
  have l: "length key = 16" "length nonce = 16" "length ad = 24" "length pt = 24"
    using encrypt_sizes [OF assms(1)] by simp_all
  obtain p0 p1 p2 where p: "pt = of_words (p0, p1, p2)" "in64 p0" "in64 p1" "in64 p2"
    using of_words_ex [OF l(4)] .
  let ?A = "p2_absorb key nonce ad"
  let ?c0 = "lane0 ?A XOR p0" and ?c1 = "lane1 ?A XOR p1"
  let ?c2 = "lane0 (second ?A ?c0 ?c1) XOR p2"
  have c: "in64 ?c0" "in64 ?c1" "in64 ?c2" using p by simp_all
  have e: "ct = of_words (?c0, ?c1, ?c2)"
    "tag' = tag_of (words_le key ! 0) (words_le key ! 1) (second ?A ?c0 ?c1) ?c2"
    using assms(1) encrypt_words [OF l(1-3) p(2-4)] unfolding p(1) by simp_all
  have "p2_ascon_decrypt key nonce ad ct tag = Inr (of_words (lane0 ?A XOR ?c0, lane1 ?A XOR ?c1,
      lane0 (second ?A ?c0 ?c1) XOR ?c2), tag' = tag)"
    unfolding e by (rule decrypt_words [OF l(1-3) assms(2) c])
  then show ?thesis by (simp add: p(1))
qed

text \<open>Decryption, on all inputs: it fails exactly on sizes that encryption refuses, and otherwise returns
  the one plaintext that encrypts to the ciphertext, with the verdict on the tag.\<close>

lemma decrypt_iff:
  "p2_ascon_decrypt key nonce ad ct tag = Inr (pt, ok) \<longleftrightarrow>
     length tag = 16 \<and> (\<exists>tag'. p2_ascon_encrypt key nonce ad pt = Inr (ct, tag') \<and> ok = (tag' = tag))"
proof
  assume d: "p2_ascon_decrypt key nonce ad ct tag = Inr (pt, ok)"
  note l = decrypt_sizes [OF d]
  then show "length tag = 16 \<and> (\<exists>tag'. p2_ascon_encrypt key nonce ad pt = Inr (ct, tag') \<and> ok = (tag' = tag))"
    using encrypt_decrypt_words [of key nonce ad tag ct] d by auto
next
  assume "length tag = 16 \<and> (\<exists>tag'. p2_ascon_encrypt key nonce ad pt = Inr (ct, tag') \<and> ok = (tag' = tag))"
  then show "p2_ascon_decrypt key nonce ad ct tag = Inr (pt, ok)"
    using decrypt_of_encrypt by blast
qed

section \<open>Primer 1 agrees with primer 2\<close>

lemma slices_16:
  "length bs = 16 \<Longrightarrow> le_int (take 8 bs) = words_le bs ! 0 \<and> le_int (drop 8 bs) = words_le bs ! 1"
  by (simp add: words_le_16)

lemma slices_24:
  "length bs = 24 \<Longrightarrow> le_int (take 8 bs) = words_le bs ! 0 \<and> le_int (slice 8 16 bs) = words_le bs ! 1 \<and>
     le_int (drop 16 bs) = words_le bs ! 2"
  by (simp add: words_le_24 slice_def)

lemma words_in64_16: "length bs = 16 \<Longrightarrow> in64 (words_le bs ! 0) \<and> in64 (words_le bs ! 1)"
  by (simp add: words_le_16 in64_le_int)

lemma words_in64_24: "length bs = 24 \<Longrightarrow> in64 (words_le bs ! 0) \<and> in64 (words_le bs ! 1) \<and> in64 (words_le bs ! 2)"
  by (simp add: words_le_24 in64_le_int)

lemma in64_consts [simp]: "in64 1" "in64 0x8000000000000000" "in64 IV"
  by (simp_all add: in64_iff IV_def)

lemma permute_E:
  assumes "state64 s"
  obtains y0 y1 y2 y3 y4 where "permute s n = (y0, y1, y2, y3, y4)" "perm s n = (y0, y1, y2, y3, y4)"
    "in64 y0" "in64 y1" "in64 y2" "in64 y3" "in64 y4"
proof -
  obtain y0 y1 y2 y3 y4 where y: "permute s n = (y0, y1, y2, y3, y4)" by (rule prod_cases5)
  show thesis using that [OF y] perm_eq [OF assms, of n] state64_permute [OF assms, of n] by (simp add: y)
qed

lemma p1_sized:
  assumes "length key = 16" "length nonce = 16" "length ad = 24" "length pt = 24"
  shows "p1_ascon_encrypt key nonce ad pt =
    (case p2_ascon_encrypt key nonce ad pt of Inl e \<Rightarrow> Inl e | Inr (ct, tag) \<Rightarrow> Inr (ct @ tag))"
proof -
  let ?k0 = "words_le key ! 0" and ?k1 = "words_le key ! 1"
  let ?n0 = "words_le nonce ! 0" and ?n1 = "words_le nonce ! 1"
  let ?w0 = "words_le ad ! 0" and ?w1 = "words_le ad ! 1" and ?w2 = "words_le ad ! 2"
  let ?p0 = "words_le pt ! 0" and ?p1 = "words_le pt ! 1" and ?p2 = "words_le pt ! 2"
  note w = words_in64_16 [OF assms(1)] words_in64_16 [OF assms(2)] words_in64_24 [OF assms(3)]
    words_in64_24 [OF assms(4)]
  have "state64 (IV, ?k0, ?k1, ?n0, ?n1)" using w by simp
  from permute_E [OF this, of 0] obtain a0 a1 a2 a3 a4 where a:
    "permute (IV, ?k0, ?k1, ?n0, ?n1) 0 = (a0, a1, a2, a3, a4)"
    "perm (IV, ?k0, ?k1, ?n0, ?n1) 0 = (a0, a1, a2, a3, a4)"
    "in64 a0" "in64 a1" "in64 a2" "in64 a3" "in64 a4" .
  have "state64 (a0 XOR ?w0, a1 XOR ?w1, a2, a3 XOR ?k0, a4 XOR ?k1)" using w a by simp
  from permute_E [OF this, of 4] obtain b0 b1 b2 b3 b4 where b:
    "permute (a0 XOR ?w0, a1 XOR ?w1, a2, a3 XOR ?k0, a4 XOR ?k1) 4 = (b0, b1, b2, b3, b4)"
    "perm (a0 XOR ?w0, a1 XOR ?w1, a2, a3 XOR ?k0, a4 XOR ?k1) 4 = (b0, b1, b2, b3, b4)"
    "in64 b0" "in64 b1" "in64 b2" "in64 b3" "in64 b4" .
  have "state64 (b0 XOR ?w2, b1 XOR 1, b2, b3, b4)" using w b by simp
  from permute_E [OF this, of 4] obtain d0 d1 d2 d3 d4 where d:
    "permute (b0 XOR ?w2, b1 XOR 1, b2, b3, b4) 4 = (d0, d1, d2, d3, d4)"
    "perm (b0 XOR ?w2, b1 XOR 1, b2, b3, b4) 4 = (d0, d1, d2, d3, d4)"
    "in64 d0" "in64 d1" "in64 d2" "in64 d3" "in64 d4" .
  have "state64 (d0 XOR ?p0, d1 XOR ?p1, d2, d3, d4 XOR 0x8000000000000000)" using w d by simp
  from permute_E [OF this, of 4] obtain e0 e1 e2 e3 e4 where e:
    "permute (d0 XOR ?p0, d1 XOR ?p1, d2, d3, d4 XOR 0x8000000000000000) 4 = (e0, e1, e2, e3, e4)"
    "perm (d0 XOR ?p0, d1 XOR ?p1, d2, d3, d4 XOR 0x8000000000000000) 4 = (e0, e1, e2, e3, e4)"
    "in64 e0" "in64 e1" "in64 e2" "in64 e3" "in64 e4" .
  have "state64 (e0 XOR ?p2, e1 XOR 1, e2 XOR ?k0, e3 XOR ?k1, e4)" using w e by simp
  from permute_E [OF this, of 0] obtain f0 f1 f2 f3 f4 where f:
    "permute (e0 XOR ?p2, e1 XOR 1, e2 XOR ?k0, e3 XOR ?k1, e4) 0 = (f0, f1, f2, f3, f4)"
    "perm (e0 XOR ?p2, e1 XOR 1, e2 XOR ?k0, e3 XOR ?k1, e4) 0 = (f0, f1, f2, f3, f4)" .
  have s: "push_bit 63 (1 :: int) = 0x8000000000000000" by simp
  note l = slices_16 [OF assms(1)] slices_16 [OF assms(2)] slices_24 [OF assms(3)] slices_24 [OF assms(4)]
  have "p1_ascon_encrypt key nonce ad pt =
      Inr (((to_le 8 (d0 XOR ?p0) @ to_le 8 (d1 XOR ?p1)) @ to_le 8 (e0 XOR ?p2)) @ to_le 8 (f3 XOR ?k0) @ to_le 8 (f4 XOR ?k1))"
    unfolding p1_ascon_encrypt_def assert_that_def Let_def IV_eq s
    by (simp only: assms l a(2) b(2) d(2) e(2) f(2) prod.case simp_thms if_True)
  moreover have "p2_absorb key nonce ad = (d0, d1, d2, d3, d4 XOR 0x8000000000000000)"
    unfolding p2_absorb_def Let_def by (simp only: a(1) b(1) d(1) prod.case)
  then have "p2_ascon_encrypt key nonce ad pt =
      Inr (to_le 8 (d0 XOR ?p0) @ to_le 8 (d1 XOR ?p1) @ to_le 8 (e0 XOR ?p2), to_le 8 (f3 XOR ?k0) @ to_le 8 (f4 XOR ?k1))"
    unfolding p2_ascon_encrypt_def assert_that_def Let_def
    by (simp only: assms prod.case e(1) f(1) simp_thms if_True)
  ultimately show ?thesis by simp
qed

text \<open>On wrong sizes both fail.\<close>

lemma p1_is_p2:
  "p1_ascon_encrypt key nonce ad pt =
    (case p2_ascon_encrypt key nonce ad pt of Inl e \<Rightarrow> Inl e | Inr (ct, tag) \<Rightarrow> Inr (ct @ tag))"
proof (cases "length key = 16 \<and> length nonce = 16 \<and> length ad = 24 \<and> length pt = 24")
  case True
  then show ?thesis using p1_sized by blast
next
  case False
  then show ?thesis by (auto simp: p1_ascon_encrypt_def p2_ascon_encrypt_def assert_that_def)
qed

end
