(* ===== verification/Session_Model.thy ===== *)
theory Session_Model
  imports Errors
begin

text \<open>
  The reference model of Primer 1's session handling, \<open>SessionModel\<close> of
  \<open>primer1/scripts/reference_checks.py\<close>: a session context (identifier, key, nonce prefix) is staged,
  committed, activated by the secure-enable line, used to send telemetry and zeroized. A failed
  \<open>assert\<close> is the exception \<open>AssertionError\<close>. The step relation takes every call of an operation that
  does not raise; the invariant of the reachable states and the freshness of the sequence numbers are
  proved by rule induction.
\<close>

section \<open>State and operations\<close>

datatype model_state = READY | STAGED | BLOCKED | ACTIVE | ZEROIZE

primrec model_state_value :: "model_state \<Rightarrow> int" where
  "model_state_value READY = 3"
| "model_state_value STAGED = 4"
| "model_state_value BLOCKED = 5"
| "model_state_value ACTIVE = 6"
| "model_state_value ZEROIZE = 7"

record context_data =
  cx_sid :: int
  cx_key :: bytes
  cx_prefix :: bytes

record session_model =
  sm_state :: model_state
  sm_staged :: "context_data option"
  sm_active :: "context_data option"
  sm_sequence :: int
  sm_telemetry :: bytes

definition session_init :: session_model where
  "session_init = \<lparr>sm_state = READY, sm_staged = None, sm_active = None, sm_sequence = 1, sm_telemetry = []\<rparr>"

definition sm_stage :: "int \<Rightarrow> bytes \<Rightarrow> bytes \<Rightarrow> session_model \<Rightarrow> session_model result" where
  "sm_stage sid key pre s =
     assert_that (length key = 16 \<and> length pre = 8)
      (let ctx = \<lparr>cx_sid = sid, cx_key = key, cx_prefix = pre\<rparr> in
       case sm_staged s of
         Some staged \<Rightarrow>
           if cx_sid staged = sid then assert_that (staged = ctx) (Inr s)
           else
             assert_that (case sm_active s of None \<Rightarrow> True | Some active \<Rightarrow> cx_sid active \<noteq> sid)
               (Inr (s\<lparr>sm_staged := Some ctx, sm_state := STAGED\<rparr>))
       | None \<Rightarrow>
           assert_that (case sm_active s of None \<Rightarrow> True | Some active \<Rightarrow> cx_sid active \<noteq> sid)
             (Inr (s\<lparr>sm_staged := Some ctx, sm_state := STAGED\<rparr>)))"

definition sm_commit :: "int \<Rightarrow> session_model \<Rightarrow> session_model result" where
  "sm_commit sid s =
     assert_that (case sm_staged s of None \<Rightarrow> False | Some staged \<Rightarrow> cx_sid staged = sid)
       (Inr (s\<lparr>sm_active := sm_staged s, sm_staged := None, sm_sequence := 1, sm_state := BLOCKED\<rparr>))"

definition sm_zeroize :: "session_model \<Rightarrow> session_model" where
  "sm_zeroize s = s\<lparr>sm_state := ZEROIZE, sm_staged := None, sm_active := None, sm_telemetry := [],
     sm_sequence := 1\<rparr>"

definition sm_apply_secure_enable :: "bool \<Rightarrow> session_model \<Rightarrow> session_model" where
  "sm_apply_secure_enable enabled s =
     (if sm_state s = BLOCKED \<and> enabled then s\<lparr>sm_state := ACTIVE\<rparr>
      else if sm_state s = ACTIVE \<and> \<not> enabled then sm_zeroize s
      else s)"

definition sm_load :: "bytes \<Rightarrow> session_model \<Rightarrow> session_model result" where
  "sm_load plaintext s =
     assert_that (sm_state s = ACTIVE \<and> length plaintext = 24) (Inr (s\<lparr>sm_telemetry := plaintext\<rparr>))"

definition sm_send_complete :: "session_model \<Rightarrow> session_model result" where
  "sm_send_complete s =
     assert_that (sm_state s = ACTIVE \<and> length (sm_telemetry s) = 24)
       (Inr (s\<lparr>sm_sequence := sm_sequence s + 1, sm_telemetry := []\<rparr>))"

section \<open>Steps\<close>

datatype action =
    Stage int bytes bytes
  | Commit int
  | Secure_enable bool
  | Load bytes
  | Send_complete
  | Zeroize

fun perform :: "action \<Rightarrow> session_model \<Rightarrow> session_model result" where
  "perform (Stage sid key pre) s = sm_stage sid key pre s"
| "perform (Commit sid) s = sm_commit sid s"
| "perform (Secure_enable b) s = Inr (sm_apply_secure_enable b s)"
| "perform (Load pt) s = sm_load pt s"
| "perform Send_complete s = sm_send_complete s"
| "perform Zeroize s = Inr (sm_zeroize s)"

inductive sm_step :: "session_model \<Rightarrow> action \<Rightarrow> session_model \<Rightarrow> bool" where
  sm_stepI: "perform a s = Inr s' \<Longrightarrow> sm_step s a s'"

inductive sm_run :: "session_model \<Rightarrow> action list \<Rightarrow> session_model \<Rightarrow> bool" where
  sm_run_nil: "sm_run s [] s"
| sm_run_snoc: "sm_run s as s' \<Longrightarrow> sm_step s' a s'' \<Longrightarrow> sm_run s (as @ [a]) s''"

inductive_cases sm_step_cases: "sm_step s a s'"
inductive_simps sm_step_iff: "sm_step s a s'"

text \<open>Running a script, for concrete executions.\<close>

fun sm_exec :: "action list \<Rightarrow> session_model \<Rightarrow> session_model result" where
  "sm_exec [] s = Inr s"
| "sm_exec (a # as) s = result_bind (perform a s) (sm_exec as)"

lemma sm_run_append: "sm_run s' bs s'' \<Longrightarrow> sm_run s as s' \<Longrightarrow> sm_run s (as @ bs) s''"
proof (induction rule: sm_run.induct)
  case (sm_run_snoc s' bs s1 b s2)
  then have "sm_run s ((as @ bs) @ [b]) s2" by (intro sm_run.sm_run_snoc) auto
  then show ?case by simp
qed simp

lemma sm_run_exec: "sm_run s as s' \<longleftrightarrow> sm_exec as s = Inr s'"
proof
  have append: "sm_exec (as @ [a]) s = result_bind (sm_exec as s) (perform a)" for as a s
  proof (induction as arbitrary: s)
    case Nil
    then show ?case by (cases "perform a s") simp_all
  next
    case (Cons b bs)
    then show ?case by (cases "perform b s") simp_all
  qed
  show "sm_exec as s = Inr s'" if "sm_run s as s'"
    using that by induction (auto simp: append sm_step_iff)
  show "sm_run s as s'" if "sm_exec as s = Inr s'"
    using that
  proof (induction as arbitrary: s)
    case Nil
    then show ?case by (simp add: sm_run_nil)
  next
    case (Cons a as)
    then obtain s1 where s1: "perform a s = Inr s1" "sm_exec as s1 = Inr s'"
      by (auto simp: result_bind_eq_Inr)
    have "sm_run s ([] @ [a]) s1" by (rule sm_run_snoc [OF sm_run_nil sm_stepI [OF s1(1)]])
    then have "sm_run s ([a] @ as) s'" by (intro sm_run_append [OF Cons.IH [OF s1(2)]]) simp
    then show ?case by simp
  qed
qed

section \<open>The invariant\<close>

text \<open>Contexts are of the right size; a context is staged exactly in state STAGED; BLOCKED and ACTIVE
  have an active context; READY and ZEROIZE have none, the initial sequence number and no telemetry;
  loaded telemetry has 24 bytes.\<close>

definition context_ok :: "context_data option \<Rightarrow> bool" where
  "context_ok c = (case c of None \<Rightarrow> True | Some x \<Rightarrow> length (cx_key x) = 16 \<and> length (cx_prefix x) = 8)"

definition sm_inv :: "session_model \<Rightarrow> bool" where
  "sm_inv s \<longleftrightarrow> context_ok (sm_staged s) \<and> context_ok (sm_active s) \<and>
     (sm_staged s \<noteq> None \<longleftrightarrow> sm_state s = STAGED) \<and>
     (sm_state s \<in> {BLOCKED, ACTIVE} \<longrightarrow> sm_active s \<noteq> None) \<and>
     (sm_state s \<in> {READY, ZEROIZE} \<longrightarrow> sm_active s = None) \<and>
     (sm_active s = None \<longrightarrow> sm_sequence s = 1 \<and> sm_telemetry s = []) \<and>
     1 \<le> sm_sequence s \<and> (sm_telemetry s = [] \<or> length (sm_telemetry s) = 24)"

lemma sm_inv_init: "sm_inv session_init"
  by (simp add: sm_inv_def session_init_def context_ok_def)

lemma sm_stage_eq_Inr:
  "sm_stage sid key pre s = Inr s' \<longleftrightarrow> length key = 16 \<and> length pre = 8 \<and>
     (let ctx = \<lparr>cx_sid = sid, cx_key = key, cx_prefix = pre\<rparr> in
      (sm_staged s = Some ctx \<and> s' = s) \<or>
      ((\<forall>staged. sm_staged s = Some staged \<longrightarrow> cx_sid staged \<noteq> sid) \<and>
       (\<forall>active. sm_active s = Some active \<longrightarrow> cx_sid active \<noteq> sid) \<and>
       s' = s\<lparr>sm_staged := Some ctx, sm_state := STAGED\<rparr>))"
  by (auto simp: sm_stage_def Let_def split: option.splits)

lemma sm_step_inv: "sm_step s a s' \<Longrightarrow> sm_inv s \<Longrightarrow> sm_inv s'"
proof (erule sm_step_cases)
  assume p: "perform a s = Inr s'" and inv: "sm_inv s"
  show "sm_inv s'"
  proof (cases a)
    case (Stage sid key pre)
    then have "sm_stage sid key pre s = Inr s'" using p by simp
    then consider "s' = s"
      | "length key = 16" "length pre = 8" "s' = s\<lparr>sm_staged := Some \<lparr>cx_sid = sid, cx_key = key,
          cx_prefix = pre\<rparr>, sm_state := STAGED\<rparr>"
      unfolding sm_stage_eq_Inr Let_def by blast
    then show ?thesis
    proof cases
      case 2
      then show ?thesis using inv by (simp add: sm_inv_def context_ok_def)
    qed (simp add: inv)
  next
    case (Commit sid)
    then have s': "s' = s\<lparr>sm_active := sm_staged s, sm_staged := None, sm_sequence := 1, sm_state := BLOCKED\<rparr>"
      and "sm_staged s \<noteq> None"
      using p by (auto simp: sm_commit_def split: option.splits)
    then obtain c where staged: "sm_staged s = Some c" by blast
    show ?thesis unfolding s' using staged inv by (simp add: sm_inv_def context_ok_def)
  next
    case (Secure_enable b)
    then have s': "s' = sm_apply_secure_enable b s" using p by simp
    show ?thesis unfolding s' using inv
      by (simp add: sm_apply_secure_enable_def sm_zeroize_def sm_inv_def context_ok_def)
  next
    case (Load pt)
    then have s': "s' = s\<lparr>sm_telemetry := pt\<rparr>" and "sm_state s = ACTIVE" "length pt = 24"
      using p by (simp_all add: sm_load_def)
    then show ?thesis unfolding s' using inv by (auto simp: sm_inv_def context_ok_def)
  next
    case Send_complete
    then have s': "s' = s\<lparr>sm_sequence := sm_sequence s + 1, sm_telemetry := []\<rparr>" and "sm_state s = ACTIVE"
      using p by (simp_all add: sm_send_complete_def)
    then show ?thesis unfolding s' using inv by (auto simp: sm_inv_def context_ok_def)
  next
    case Zeroize
    then have s': "s' = sm_zeroize s" using p by simp
    show ?thesis unfolding s' by (simp add: sm_zeroize_def sm_inv_def context_ok_def)
  qed
qed

lemma sm_run_inv: "sm_run s as s' \<Longrightarrow> sm_inv s \<Longrightarrow> sm_inv s'"
  by (induction rule: sm_run.induct) (auto intro: sm_step_inv)

section \<open>Freshness of the sequence numbers\<close>

text \<open>Every completed send is made under a context and a sequence number, from which the nonce of its
  encryption is formed. Within one activation (no commit and no zeroization in between) the sequence
  numbers of the sends increase strictly.\<close>

definition sends_under :: "session_model \<Rightarrow> action \<Rightarrow> (context_data \<times> int) list" where
  "sends_under s a = (case (a, sm_active s) of (Send_complete, Some c) \<Rightarrow> [(c, sm_sequence s)] | _ \<Rightarrow> [])"

inductive sm_trace :: "session_model \<Rightarrow> action list \<Rightarrow> (context_data \<times> int) list \<Rightarrow> session_model \<Rightarrow> bool" where
  sm_trace_nil: "sm_trace s [] [] s"
| sm_trace_snoc: "sm_trace s as ns s' \<Longrightarrow> sm_step s' a s'' \<Longrightarrow>
     sm_trace s (as @ [a]) (ns @ sends_under s' a) s''"

fun keeps_activation :: "action \<Rightarrow> bool" where
  "keeps_activation (Commit _) = False"
| "keeps_activation (Secure_enable b) = b"
| "keeps_activation Zeroize = False"
| "keeps_activation _ = True"

lemma activation_step:
  assumes "sm_step s a s'" and "keeps_activation a"
  shows "sm_active s' = sm_active s \<and>
    sm_sequence s' = sm_sequence s + (if a = Send_complete then 1 else 0)"
proof -
  from assms(1) have p: "perform a s = Inr s'" by (simp add: sm_step_iff)
  show ?thesis
  proof (cases a)
    case (Stage sid key pre)
    then have "sm_stage sid key pre s = Inr s'" using p by simp
    then show ?thesis unfolding sm_stage_eq_Inr Let_def using Stage by auto
  qed (use p assms(2) in \<open>auto simp: sm_apply_secure_enable_def sm_load_def sm_send_complete_def\<close>)
qed

lemma activation_trace:
  assumes "sm_trace s as ns s'" and "list_all keeps_activation as"
  shows "sm_active s' = sm_active s \<and> sm_sequence s \<le> sm_sequence s' \<and>
    (\<forall>n \<in> set ns. Some (fst n) = sm_active s \<and> sm_sequence s \<le> snd n \<and> snd n < sm_sequence s') \<and>
    sorted_wrt (<) (map snd ns)"
  using assms
proof (induction rule: sm_trace.induct)
  case (sm_trace_nil s)
  then show ?case by simp
next
  case (sm_trace_snoc s as ns s' a s'')
  then have IH: "sm_active s' = sm_active s" "sm_sequence s \<le> sm_sequence s'"
    "\<forall>n \<in> set ns. Some (fst n) = sm_active s \<and> sm_sequence s \<le> snd n \<and> snd n < sm_sequence s'"
    "sorted_wrt (<) (map snd ns)"
    by simp_all
  have step: "sm_active s'' = sm_active s'"
    "sm_sequence s'' = sm_sequence s' + (if a = Send_complete then 1 else 0)"
    using activation_step [OF sm_trace_snoc.hyps(2)] sm_trace_snoc.prems by simp_all
  have new: "sends_under s' a = [] \<or>
      (a = Send_complete \<and> (\<exists>c. sm_active s' = Some c \<and> sends_under s' a = [(c, sm_sequence s')]))"
    by (auto simp: sends_under_def split: action.splits option.splits)
  from new show ?case
  proof
    assume "sends_under s' a = []"
    then show ?thesis using IH step by fastforce
  next
    assume "a = Send_complete \<and> (\<exists>c. sm_active s' = Some c \<and> sends_under s' a = [(c, sm_sequence s')])"
    then obtain c where "a = Send_complete" "sm_active s' = Some c" "sends_under s' a = [(c, sm_sequence s')]"
      by blast
    then show ?thesis using IH step by (fastforce simp: sorted_wrt_append)
  qed
qed

text \<open>Nothing survives a zeroization, by either way.\<close>

definition nothing_left :: "session_model \<Rightarrow> bool" where
  "nothing_left s \<longleftrightarrow> sm_state s = ZEROIZE \<and> sm_staged s = None \<and> sm_active s = None \<and>
     sm_telemetry s = [] \<and> sm_sequence s = 1"

lemma zeroized: "nothing_left (sm_zeroize s)"
  by (simp add: nothing_left_def sm_zeroize_def)

lemma secure_enable_lost: "sm_state s = ACTIVE \<Longrightarrow> nothing_left (sm_apply_secure_enable False s)"
  by (simp add: sm_apply_secure_enable_def zeroized)

section \<open>Staging over an active session\<close>

text \<open>The hardware (\<open>primer1_command_core\<close>) accepts STAGE_SESSION only without a session or in state STAGED;
  the model has no such guard. With it, an active context exists in BLOCKED and ACTIVE only and telemetry
  is loaded in ACTIVE only, so that losing the enable line clears every key in use.\<close>

definition stage_guard :: "session_model \<Rightarrow> action \<Rightarrow> bool" where
  "stage_guard s a = (case a of Stage _ _ _ \<Rightarrow> sm_state s \<in> {READY, STAGED} | _ \<Rightarrow> True)"

inductive guarded_run :: "session_model \<Rightarrow> action list \<Rightarrow> session_model \<Rightarrow> bool" where
  guarded_nil: "guarded_run s [] s"
| guarded_snoc: "guarded_run s as s' \<Longrightarrow> stage_guard s' a \<Longrightarrow> sm_step s' a s'' \<Longrightarrow> guarded_run s (as @ [a]) s''"

definition guarded_inv :: "session_model \<Rightarrow> bool" where
  "guarded_inv s \<longleftrightarrow> (sm_active s \<noteq> None \<longleftrightarrow> sm_state s \<in> {BLOCKED, ACTIVE}) \<and>
     (sm_telemetry s \<noteq> [] \<longrightarrow> sm_state s = ACTIVE) \<and> (sm_staged s \<noteq> None \<longleftrightarrow> sm_state s = STAGED)"

lemma guarded_step_inv:
  assumes "sm_step s a s'" and "stage_guard s a" and "guarded_inv s"
  shows "guarded_inv s'"
proof -
  from assms(1) have p: "perform a s = Inr s'" by (simp add: sm_step_iff)
  show ?thesis
  proof (cases a)
    case (Stage sid key pre)
    then have "sm_stage sid key pre s = Inr s'" using p by simp
    then consider "s' = s"
      | "s' = s\<lparr>sm_staged := Some \<lparr>cx_sid = sid, cx_key = key, cx_prefix = pre\<rparr>, sm_state := STAGED\<rparr>"
      unfolding sm_stage_eq_Inr Let_def by blast
    then show ?thesis
      using assms(2,3) Stage by cases (auto simp: guarded_inv_def stage_guard_def)
  next
    case (Commit sid)
    then have s': "s' = s\<lparr>sm_active := sm_staged s, sm_staged := None, sm_sequence := 1, sm_state := BLOCKED\<rparr>"
      and "sm_staged s \<noteq> None"
      using p by (auto simp: sm_commit_def split: option.splits)
    then show ?thesis unfolding s' using assms(3) by (auto simp: guarded_inv_def)
  next
    case (Secure_enable b)
    then have s': "s' = sm_apply_secure_enable b s" using p by simp
    show ?thesis unfolding s' using assms(3)
      by (auto simp: sm_apply_secure_enable_def sm_zeroize_def guarded_inv_def)
  next
    case (Load pt)
    then have s': "s' = s\<lparr>sm_telemetry := pt\<rparr>" and "sm_state s = ACTIVE"
      using p by (simp_all add: sm_load_def)
    then show ?thesis unfolding s' using assms(3) by (simp add: guarded_inv_def)
  next
    case Send_complete
    then have s': "s' = s\<lparr>sm_sequence := sm_sequence s + 1, sm_telemetry := []\<rparr>" and "sm_state s = ACTIVE"
      using p by (simp_all add: sm_send_complete_def)
    then show ?thesis unfolding s' using assms(3) by (simp add: guarded_inv_def)
  next
    case Zeroize
    then have s': "s' = sm_zeroize s" using p by simp
    show ?thesis unfolding s' by (simp add: sm_zeroize_def guarded_inv_def)
  qed
qed

lemma guarded_run_inv: "guarded_run s as s' \<Longrightarrow> guarded_inv s \<Longrightarrow> guarded_inv s'"
  by (induction rule: guarded_run.induct) (auto intro: guarded_step_inv)

lemma guarded_inv_init: "guarded_inv session_init"
  by (simp add: guarded_inv_def session_init_def)

text \<open>Without the guard, a plaintext loaded under one session is ready to be sent under the next one.\<close>

definition restaging :: "action list" where
  "restaging = [Stage 1 (replicate 16 1) (replicate 8 1), Commit 1, Secure_enable True, Load (replicate 24 7),
     Stage 2 (replicate 16 2) (replicate 8 2), Commit 2, Secure_enable True]"

lemma restaging_exec: "sm_exec restaging session_init = Inr \<lparr>sm_state = ACTIVE, sm_staged = None,
   sm_active = Some \<lparr>cx_sid = 2, cx_key = replicate 16 2, cx_prefix = replicate 8 2\<rparr>, sm_sequence = 1,
   sm_telemetry = replicate 24 7\<rparr>"
  by (simp add: restaging_def session_init_def sm_stage_def sm_commit_def sm_apply_secure_enable_def
      sm_load_def Let_def)

end
