(* ===== verification/Aead_Frame.thy ===== *)
theory Aead_Frame
  imports Ascon Session_Model Py_Struct
begin

text \<open>
  The associated data and the nonce of a telemetry frame (\<open>make_ad\<close>, \<open>make_nonce\<close> of
  \<open>primer2/scripts/reference_checks.py\<close>): which fields they determine, and, with the session model of
  primer 1, that no nonce is used twice under one activation of a key.
\<close>

section \<open>Associated data and nonce\<close>

definition make_ad :: "int \<Rightarrow> int \<Rightarrow> int \<Rightarrow> int \<Rightarrow> int \<Rightarrow> bytes result" where
  "make_ad session_id sequence message_type flags source_id =
     result_bind (bytes_of_list [1, message_type, drop_bit 8 flags AND 0xFF, flags AND 0xFF,
       drop_bit 24 session_id AND 0xFF, drop_bit 16 session_id AND 0xFF, drop_bit 8 session_id AND 0xFF,
       session_id AND 0xFF]) (\<lambda>head.
     result_bind (int_to_bytes 8 sequence) (\<lambda>seq.
     result_bind (int_to_bytes 2 source_id) (\<lambda>source.
       Inr (head @ seq @ [0x00, 0x18] @ source @ replicate 4 0))))"

definition make_nonce :: "bytes \<Rightarrow> int \<Rightarrow> bytes result" where
  "make_nonce pre sequence =
     assert_that (length pre = 8)
       (result_bind (int_to_bytes 8 sequence) (\<lambda>seq. Inr (pre @ seq)))"

text \<open>The layout: version, message type, flags and session identifier (both reduced to the width of their
  field), sequence number, payload length 24, source and four zero bytes.\<close>

definition ad_layout :: "int \<Rightarrow> int \<Rightarrow> int \<Rightarrow> int \<Rightarrow> int \<Rightarrow> bytes" where
  "ad_layout session_id sequence message_type flags source_id =
     to_be 1 1 @ to_be 1 message_type @ to_be 2 flags @ to_be 4 session_id
     @ to_be 8 sequence @ to_be 2 24 @ to_be 2 source_id @ to_be 4 0"

definition ad_fields_ok :: "int \<Rightarrow> int \<Rightarrow> int \<Rightarrow> bool" where
  "ad_fields_ok sequence message_type source_id \<longleftrightarrow>
     0 \<le> message_type \<and> message_type < 256 \<and> 0 \<le> sequence \<and> sequence < 2 ^ 64 \<and>
     0 \<le> source_id \<and> source_id < 2 ^ 16"

lemma and_FF_eq: "(x :: int) AND 0xFF = x mod 256"
  using take_bit_eq_mask [of 8 x] by (simp add: take_bit_eq_mod mask_eq_exp_minus_1)

lemma byte_of_mod [simp]: "(word_of_int (x mod 256) :: byte) = word_of_int x"
  by (simp add: word_uint_eq_iff uint_word_of_int_byte)

lemma to_be_eq_iff: "to_be n x = to_be n y \<longleftrightarrow> x mod 256 ^ n = y mod 256 ^ n"
proof
  assume "to_be n x = to_be n y"
  then show "x mod 256 ^ n = y mod 256 ^ n" by (metis be_int_to_be)
next
  have *: "to_be n z = to_be n (z mod 256 ^ n)" for z
    using to_be_be_int [of "to_be n z"] by (simp add: be_int_to_be)
  assume "x mod 256 ^ n = y mod 256 ^ n"
  then show "to_be n x = to_be n y" using * [of x] * [of y] by simp
qed

lemma to_be_2_4:
  "to_be 2 x = [word_of_int (x div 256), word_of_int x]"
  "to_be 4 x = [word_of_int (x div 16777216), word_of_int (x div 65536), word_of_int (x div 256), word_of_int x]"
  by (simp_all add: numeral_2_eq_2 numeral_eq_Suc zdiv_zmult2_eq [symmetric])

lemma make_ad_eq_Inr:
  "make_ad session_id sequence message_type flags source_id = Inr ad \<longleftrightarrow>
     ad_fields_ok sequence message_type source_id \<and>
     ad = ad_layout session_id sequence message_type flags source_id"
proof -
  have head: "List.map word_of_int [1, message_type, drop_bit 8 flags AND 0xFF, flags AND 0xFF,
       drop_bit 24 session_id AND 0xFF, drop_bit 16 session_id AND 0xFF, drop_bit 8 session_id AND 0xFF,
       session_id AND 0xFF] = to_be 1 1 @ to_be 1 message_type @ to_be 2 flags @ to_be 4 session_id"
    by (simp add: and_FF_eq drop_bit_eq_div to_be_2_4)
  have zeros: "replicate 4 (0 :: byte) = [0, 0, 0, 0]" by (simp add: numeral_eq_Suc)
  show ?thesis
    unfolding make_ad_def result_bind_eq_Inr bytes_of_list_eq_Inr int_to_bytes_eq_Inr head
    by (auto simp: ad_fields_ok_def ad_layout_def and_FF_eq to_be_2_4 zeros)
qed

text \<open>Equal associated data means equal fields, the session identifier up to its 32 bits and the flags up
  to their 16 bits.\<close>

lemma ad_layout_eq_iff:
  assumes "ad_fields_ok seq mt src" and "ad_fields_ok seq' mt' src'"
  shows "ad_layout sid seq mt fl src = ad_layout sid' seq' mt' fl' src' \<longleftrightarrow>
    sid mod 2 ^ 32 = sid' mod 2 ^ 32 \<and> seq = seq' \<and> mt = mt' \<and> fl mod 2 ^ 16 = fl' mod 2 ^ 16 \<and> src = src'"
proof -
  have r: "mt mod 256 ^ 1 = mt" "mt' mod 256 ^ 1 = mt'" "seq mod 256 ^ 8 = seq" "seq' mod 256 ^ 8 = seq'"
    "src mod 256 ^ 2 = src" "src' mod 256 ^ 2 = src'"
    using assms by (simp_all add: ad_fields_ok_def)
  have "ad_layout sid seq mt fl src = ad_layout sid' seq' mt' fl' src' \<longleftrightarrow>
      to_be 1 mt = to_be 1 mt' \<and> to_be 2 fl = to_be 2 fl' \<and> to_be 4 sid = to_be 4 sid' \<and>
      to_be 8 seq = to_be 8 seq' \<and> to_be 2 src = to_be 2 src'"
    unfolding ad_layout_def by (simp only: append_eq_append_conv length_to_be simp_thms append_assoc [symmetric] length_append) blast
  then show ?thesis unfolding to_be_eq_iff r by auto
qed

section \<open>No nonce twice\<close>

lemma make_nonce_eq_Inr:
  "make_nonce pre sequence = Inr n \<longleftrightarrow>
     length pre = 8 \<and> 0 \<le> sequence \<and> sequence < 2 ^ 64 \<and> n = pre @ to_be 8 sequence"
  by (auto simp: make_nonce_def result_bind_eq_Inr int_to_bytes_eq_Inr)

lemma make_nonce_inj:
  assumes "make_nonce pre s = Inr n" and "make_nonce pre' s' = Inr n"
  shows "pre = pre' \<and> s = s'"
  using assms to_be_inj [of 8 s s'] by (simp add: make_nonce_eq_Inr)

text \<open>The nonces of the sends of a trace.\<close>

definition nonces :: "(context_data \<times> int) list \<Rightarrow> bytes result list" where
  "nonces ns = List.map (\<lambda>(c, seq). make_nonce (cx_prefix c) seq) ns"

lemma sends_fresh:
  assumes "sm_trace s as ns s'" and "list_all keeps_activation as" and "nonces ns = List.map Inr bs"
  shows "distinct bs"
proof -
  note tr = activation_trace [OF assms(1,2)]
  show ?thesis
  proof (rule distinct_conv_nth [THEN iffD2], intro allI impI)
    fix i j assume ij: "i < length bs" "j < length bs" "i \<noteq> j"
    have len: "length ns = length bs"
      using arg_cong [OF assms(3), of length] by (simp add: nonces_def)
    have n: "make_nonce (cx_prefix (fst (ns ! k))) (snd (ns ! k)) = Inr (bs ! k)" if "k < length bs" for k
      using arg_cong [OF assms(3), of "\<lambda>l. l ! k"] that len by (simp add: nonces_def split_beta)
    have "sorted_wrt (<) (map snd ns)" using tr by blast
    then have "snd (ns ! i) \<noteq> snd (ns ! j)"
      using ij len by (metis (no_types, lifting) distinct_map length_map less_imp_neq linorder_neqE_nat nth_map sorted_wrt_nth_less)
    then show "bs ! i \<noteq> bs ! j"
      using make_nonce_inj n [OF ij(1)] n [OF ij(2)] by metis
  qed
qed

end
