(* ===== verification/Modular.thy ===== *)
theory Modular
  imports Errors
begin

text \<open>
  The modular arithmetic of \<open>primer1/scripts/reference_checks.py\<close>: 16-bit wrap-around, Montgomery and
  Barrett reduction modulo the prime 3329 of ML-KEM, and the table of roots. Everything is computed on
  unbounded integers with masks and shifts, as in the source; the lemmas give residues and bounds.
\<close>

unbundle bit_operations_syntax

section \<open>Definitions\<close>

definition Q :: int where "Q = 3329"

definition ZETAS :: "int list" where
  "ZETAS = [
   -1044, -758, -359, -1517, 1493, 1422, 287, 202, -171, 622, 1577, 182, 962, -1202, -1474, 1468, 573,
   -1325, 264, 383, -829, 1458, -1602, -130, -681, 1017, 732, 608, -1542, 411, -205, -1571, 1223, 652,
   -552, 1015, -1293, 1491, -282, -1544, 516, -8, -320, -666, -1618, -1162, 126, 1469, -853, -90, -271,
   830, 107, -1421, -247, -951, -398, 961, -1508, -725, 448, -1065, 677, -1275, -1103, 430, 555, 843,
   -1251, 871, 1550, 105, 422, 587, 177, -235, -291, -460, 1574, 1653, -246, 778, 1159, -147, -777,
   1483, -602, 1119, -1590, 644, -872, 349, 418, 329, -156, -75, 817, 1097, 603, 610, 1322, -1285,
   -1465, 384, -1215, -136, 1218, -1335, -874, 220, -1187, -1659, -1185, -1530, -1278, 794, -1510,
   -854, -870, 478, -108, -308, 996, 991, 958, -1460, 1522, 1628]"

definition i16 :: "int \<Rightarrow> int" where
  "i16 x = (let x = x AND 0xFFFF in if x AND 0x8000 \<noteq> 0 then x - 0x10000 else x)"

definition montgomery_reduce :: "int \<Rightarrow> int" where
  "montgomery_reduce a = (let t = i16 (i16 a * -3327) in i16 (drop_bit 16 (a - t * Q)))"

definition fqmul :: "int \<Rightarrow> int \<Rightarrow> int" where
  "fqmul a b = montgomery_reduce (i16 a * i16 b)"

definition barrett :: "int \<Rightarrow> int" where
  "barrett a = i16 (i16 a - drop_bit 26 (20159 * i16 a + push_bit 25 1) * Q)"

definition canon :: "int \<Rightarrow> int" where
  "canon x = x mod Q"

section \<open>Wrap-around\<close>

lemma i16_alt: "i16 x = (if x mod 65536 < 32768 then x mod 65536 else x mod 65536 - 65536)"
proof -
  have m: "x AND 0xFFFF = x mod 65536" for x :: int
    using take_bit_eq_mask [of 16 x] by (simp add: take_bit_eq_mod mask_eq_exp_minus_1)
  define y where "y = x mod 65536"
  have y: "0 \<le> y" "y < 65536" by (simp_all add: y_def)
  have "y AND 0x8000 \<noteq> 0 \<longleftrightarrow> bit y 15"
    using and_exp_eq_0_iff_not_bit [of y 15] by simp
  also have "\<dots> \<longleftrightarrow> odd (y div 32768)" by (simp add: bit_iff_odd)
  also have "\<dots> \<longleftrightarrow> 32768 \<le> y"
  proof (cases "32768 \<le> y")
    case True
    then have "y div 32768 = 1" using y True by (intro int_div_pos_eq [of y 32768 1 "y - 32768"]) auto
    then show ?thesis using True by simp
  next
    case False
    then have "y div 32768 = 0" using y by simp
    then show ?thesis using False by simp
  qed
  finally show ?thesis by (auto simp: i16_def m y_def Let_def)
qed

lemma i16_range: "-32768 \<le> i16 x" "i16 x \<le> 32767"
  using pos_mod_bound [of 65536 x] pos_mod_sign [of 65536 x] by (auto simp: i16_alt)

lemma i16_id [simp]: "-32768 \<le> x \<Longrightarrow> x \<le> 32767 \<Longrightarrow> i16 x = x"
proof (cases "0 \<le> x")
  case False
  assume "-32768 \<le> x"
  then have "(x + 65536) mod 65536 = x + 65536" using False by (intro mod_pos_pos_trivial) auto
  then show ?thesis using \<open>-32768 \<le> x\<close> False by (simp add: i16_alt)
qed (simp add: i16_alt)

lemma i16_mod: "i16 x mod 65536 = x mod 65536"
  using minus_mod_self2 [of "x mod 65536" 65536] by (simp add: i16_alt)

section \<open>Residues modulo 3329\<close>

definition eqQ :: "int \<Rightarrow> int \<Rightarrow> bool" where
  "eqQ a b \<longleftrightarrow> Q dvd a - b"

lemma eqQ_refl [simp]: "eqQ a a"
  by (simp add: eqQ_def)

lemma eqQ_sym: "eqQ a b \<Longrightarrow> eqQ b a"
  by (simp add: eqQ_def dvd_diff_commute)

lemma eqQ_trans [trans]: "eqQ a b \<Longrightarrow> eqQ b c \<Longrightarrow> eqQ a c"
  using dvd_add [of Q "a - b" "b - c"] by (simp add: eqQ_def)

lemma eqQ_eq_trans [trans]: "a = b \<Longrightarrow> eqQ b c \<Longrightarrow> eqQ a c" "eqQ a b \<Longrightarrow> b = c \<Longrightarrow> eqQ a c"
  by simp_all

lemma eqQ_add: "eqQ a b \<Longrightarrow> eqQ c d \<Longrightarrow> eqQ (a + c) (b + d)"
  using dvd_add [of Q "a - b" "c - d"] by (simp add: eqQ_def algebra_simps)

lemma eqQ_diff: "eqQ a b \<Longrightarrow> eqQ c d \<Longrightarrow> eqQ (a - c) (b - d)"
  using dvd_diff [of Q "a - b" "c - d"] by (simp add: eqQ_def algebra_simps)

lemma eqQ_minus: "eqQ a b \<Longrightarrow> eqQ (- a) (- b)"
  using eqQ_diff [of 0 0 a b] by simp

lemma eqQ_mult: "eqQ a b \<Longrightarrow> eqQ c d \<Longrightarrow> eqQ (a * c) (b * d)"
proof -
  assume "eqQ a b" "eqQ c d"
  then have "Q dvd (a - b) * c + b * (c - d)" by (simp add: eqQ_def)
  then show ?thesis by (simp add: eqQ_def algebra_simps)
qed

lemma eqQ_sum: "(\<And>i. i \<in> A \<Longrightarrow> eqQ (f i) (g i)) \<Longrightarrow> eqQ (sum f A) (sum g A)"
  unfolding eqQ_def sum_subtractf [symmetric] by (rule dvd_sum)

lemma eqQ_canon: "eqQ a b \<longleftrightarrow> canon a = canon b"
  by (simp add: eqQ_def canon_def mod_eq_dvd_iff)

text \<open>The inverse of \<open>2 ^ 16\<close> modulo 3329.\<close>

definition Rinv :: int where "Rinv = 169"

lemma Rinv: "eqQ (65536 * Rinv) 1"
  by (simp add: eqQ_def Rinv_def Q_def)

lemma eqQ_cancel_R: "eqQ (65536 * a) b \<Longrightarrow> eqQ a (b * Rinv)"
proof -
  assume "eqQ (65536 * a) b"
  then have "eqQ (65536 * Rinv * a) (b * Rinv)"
    using eqQ_mult [of "65536 * a" b Rinv Rinv] by (simp add: mult.commute mult.left_commute)
  moreover have "eqQ a (65536 * Rinv * a)"
    using eqQ_mult [OF Rinv eqQ_refl [of a]] by (simp add: eqQ_sym)
  ultimately show ?thesis by (rule eqQ_trans [rotated])
qed

section \<open>Montgomery reduction\<close>

text \<open>The quotient of the division by \<open>2 ^ 16\<close> is exact, has the residue of \<open>a * Rinv\<close>, and fits into
  16 bits for every product of two 16-bit values.\<close>

lemma montgomery_quotient:
  fixes a :: int
  defines "t \<equiv> i16 (i16 a * -3327)"
  shows "65536 * ((a - t * Q) div 65536) = a - t * Q"
proof -
  have "t mod 65536 = (a * -3327) mod 65536"
    unfolding t_def i16_mod using i16_mod [of a] by (metis mod_mult_left_eq)
  then have "(t * Q) mod 65536 = (a * -3327 * Q) mod 65536" by (metis mod_mult_left_eq)
  also have "a * -3327 * Q = a + 65536 * (a * -169)" by (simp add: Q_def)
  also have "\<dots> mod 65536 = a mod 65536" by (rule mod_mult_self2)
  finally have "65536 dvd a - t * Q" by (metis mod_eq_dvd_iff)
  then show ?thesis by simp
qed

lemma montgomery_reduce_bound:
  assumes "\<bar>a\<bar> \<le> 2 ^ 16 * B" and "B \<le> 16384"
  shows "\<bar>montgomery_reduce a\<bar> \<le> B + 1665" and "eqQ (montgomery_reduce a) (a * Rinv)"
proof -
  define t where "t = i16 (i16 a * -3327)"
  let ?m = "(a - t * Q) div 65536"
  have ex: "65536 * ?m = a - t * Q" unfolding t_def by (rule montgomery_quotient)
  have "\<bar>t\<bar> \<le> 32768" using i16_range [of "i16 a * -3327"] by (simp add: t_def)
  then have b: "\<bar>?m\<bar> \<le> B + 1665" using ex assms(1) by (simp add: Q_def)
  have "montgomery_reduce a = i16 ?m"
    unfolding montgomery_reduce_def Let_def drop_bit_eq_div t_def by simp
  then have m: "montgomery_reduce a = ?m" using b assms(2) by simp
  show "\<bar>montgomery_reduce a\<bar> \<le> B + 1665" using b m by simp
  have "eqQ (65536 * ?m) a" unfolding ex by (simp add: eqQ_def)
  then show "eqQ (montgomery_reduce a) (a * Rinv)" unfolding m by (rule eqQ_cancel_R)
qed

definition in16 :: "int \<Rightarrow> bool" where
  "in16 x \<longleftrightarrow> -32768 \<le> x \<and> x \<le> 32767"

lemma in16_i16 [simp]: "in16 (i16 x)" "in16 x \<Longrightarrow> i16 x = x"
  using i16_range [of x] by (simp_all add: in16_def)

lemma in16_abs: "\<bar>x\<bar> \<le> 32767 \<Longrightarrow> in16 x" "in16 x \<Longrightarrow> \<bar>x\<bar> \<le> 32768"
  by (auto simp: in16_def)

lemma fqmul_residue:
  assumes "in16 a" and "in16 b"
  shows "eqQ (fqmul a b) (a * b * Rinv)"
proof -
  have "\<bar>a\<bar> * \<bar>b\<bar> \<le> 32768 * 32768" using assms by (intro mult_mono) (auto dest: in16_abs(2))
  then have "\<bar>a * b\<bar> \<le> 2 ^ 16 * 16384" by (simp add: abs_mult)
  from montgomery_reduce_bound(2) [OF this] show ?thesis using assms by (simp add: fqmul_def)
qed

lemma fqmul_bound:
  assumes "in16 a" and "in16 b" and "\<bar>a\<bar> \<le> A" and "\<bar>b\<bar> \<le> C" and "A * C \<le> 65536 * B" and "B \<le> 16384"
  shows "\<bar>fqmul a b\<bar> \<le> B + 1665"
proof -
  have "\<bar>a\<bar> * \<bar>b\<bar> \<le> A * C" using assms(3,4) by (intro mult_mono) auto
  then have "\<bar>a * b\<bar> \<le> 2 ^ 16 * B" using assms(5) by (simp add: abs_mult)
  from montgomery_reduce_bound(1) [OF this assms(6)] show ?thesis using assms by (simp add: fqmul_def)
qed

section \<open>Barrett reduction\<close>

lemma barrett_exact:
  assumes "in16 a"
  shows "eqQ (barrett a) a" and "\<bar>barrett a\<bar> \<le> 1664"
proof -
  let ?d = "(20159 * a + 33554432) div 67108864"
  have "67108864 * ?d \<le> 20159 * a + 33554432" "20159 * a + 33554432 < 67108864 * ?d + 67108864" by simp_all
  moreover have "-32768 \<le> a" "a \<le> 32767" using assms by (simp_all add: in16_def)
  ultimately have b: "\<bar>a - ?d * Q\<bar> \<le> 1664" unfolding Q_def by linarith
  then have e: "barrett a = a - ?d * Q"
    using assms by (simp add: barrett_def drop_bit_eq_div)
  show "\<bar>barrett a\<bar> \<le> 1664" using b e by simp
  show "eqQ (barrett a) a" unfolding e by (simp add: eqQ_def)
qed

section \<open>The table of roots\<close>

text \<open>\<open>zeta k\<close> is the root that multiplication by \<open>ZETAS ! k\<close> in Montgomery form multiplies by. The squares
  of the roots are the roots of the level above, up to sign, and the roots of a level pair up to -1.\<close>

definition zeta :: "nat \<Rightarrow> int" where
  "zeta k = ZETAS ! k * Rinv"

lemma ZETAS_length: "length ZETAS = 128"
  by (simp add: ZETAS_def)

lemma ZETAS_all: "list_all (\<lambda>z. \<bar>z\<bar> \<le> 1659) ZETAS"
  by (simp add: ZETAS_def)

lemma ZETAS_bound: "k < 128 \<Longrightarrow> \<bar>ZETAS ! k\<bar> \<le> 1659"
  using ZETAS_all by (simp add: list_all_length ZETAS_length)

lemma zeta_1: "eqQ (zeta 1 * zeta 1) (-1)"
  by (simp add: zeta_def ZETAS_def Rinv_def eqQ_def Q_def)

definition zeta_squares :: "nat \<Rightarrow> bool" where
  "zeta_squares k \<longleftrightarrow> (zeta (2 * k) * zeta (2 * k) - zeta k) mod Q = 0 \<and>
     (zeta (2 * k + 1) * zeta (2 * k + 1) + zeta k) mod Q = 0"

lemma zeta_squares_all: "list_all zeta_squares [1..<64]"
  by code_simp

lemma zeta_square:
  assumes "1 \<le> k" and "k < 64"
  shows "eqQ (zeta (2 * k) * zeta (2 * k)) (zeta k)" and "eqQ (zeta (2 * k + 1) * zeta (2 * k + 1)) (- zeta k)"
  using zeta_squares_all assms
  by (auto simp: list_all_iff zeta_squares_def eqQ_def dvd_eq_mod_eq_0)

definition zeta_pairs :: "nat \<Rightarrow> bool" where
  "zeta_pairs n \<longleftrightarrow> list_all (\<lambda>b. (zeta (n + b) * zeta (2 * n - 1 - b) + 1) mod Q = 0) [0..<n]"

lemma zeta_pairs_all: "list_all zeta_pairs [1, 2, 4, 8, 16, 32, 64]"
  by code_simp

lemma zeta_pair:
  assumes "n \<in> {1, 2, 4, 8, 16, 32, 64}" and "b < n"
  shows "eqQ (zeta (n + b) * zeta (2 * n - 1 - b)) (-1)"
proof -
  have "zeta_pairs n" using zeta_pairs_all assms(1) by auto
  then show ?thesis using assms(2) by (auto simp: zeta_pairs_def list_all_iff eqQ_def dvd_eq_mod_eq_0)
qed

end
