(* ===== verification/Ntt.thy ===== *)
theory Ntt
  imports Modular
begin

text \<open>
  The number-theoretic transform of \<open>primer1/scripts/reference_checks.py\<close>: the forward transform, the
  inverse transform, the base-case multiplication and the schoolbook product in
  \<open>Z_3329[X] / (X^256 + 1)\<close>. The loops update a list of 256 integers in place. Each layer is shown to act
  on disjoint pairs of coefficients; over residues a layer splits the product modulo \<open>X^2n - c^2\<close> into the
  products modulo \<open>X^n - c\<close> and \<open>X^n + c\<close>. No addition overflows 16 bits.
\<close>

section \<open>Definitions\<close>

text \<open>\<open>range(0, n, step)\<close>.\<close>

definition range_step :: "nat \<Rightarrow> nat \<Rightarrow> nat list" where
  "range_step n s = List.map (\<lambda>b. b * s) [0..<(n + s - 1) div s]"

definition ntt_butterfly :: "int \<Rightarrow> nat \<Rightarrow> nat \<Rightarrow> int list \<Rightarrow> int list" where
  "ntt_butterfly z len j r =
     (let t = fqmul z (r ! (j + len)); r = r[j + len := i16 (r ! j - t)] in r[j := i16 (r ! j + t)])"

definition ntt_block :: "nat \<Rightarrow> int list \<times> nat \<Rightarrow> nat \<Rightarrow> int list \<times> nat" where
  "ntt_block len = (\<lambda>(r, k) start.
     let z = ZETAS ! k; k = k + 1
     in (foldl (\<lambda>r j. ntt_butterfly z len j r) r [start..<start + len], k))"

function ntt_loop :: "int list \<times> nat \<Rightarrow> nat \<Rightarrow> int list" where
  "ntt_loop s len =
     (if 2 \<le> len then ntt_loop (foldl (ntt_block len) s (range_step 256 (2 * len))) (len div 2) else fst s)"
  by pat_completeness auto
termination by (relation "measure snd") auto

text \<open>On fewer than 256 coefficients an index is out of range.\<close>

definition ntt :: "int list \<Rightarrow> int list result" where
  "ntt poly = check (length poly < 256) IndexError (Inr (ntt_loop (List.map i16 poly, 1) 128))"

definition intt_butterfly :: "int \<Rightarrow> nat \<Rightarrow> nat \<Rightarrow> int list \<Rightarrow> int list" where
  "intt_butterfly z len j r =
     (let t = r ! j; r = r[j := barrett (i16 (t + r ! (j + len)))]
      in r[j + len := fqmul z (i16 (r ! (j + len) - t))])"

definition intt_block :: "nat \<Rightarrow> int list \<times> nat \<Rightarrow> nat \<Rightarrow> int list \<times> nat" where
  "intt_block len = (\<lambda>(r, k) start.
     let z = ZETAS ! k; k = k - 1
     in (foldl (\<lambda>r j. intt_butterfly z len j r) r [start..<start + len], k))"

function intt_loop :: "int list \<times> nat \<Rightarrow> nat \<Rightarrow> int list" where
  "intt_loop s len =
     (if 0 < len \<and> len \<le> 128
      then intt_loop (foldl (intt_block len) s (range_step 256 (2 * len))) (len * 2) else fst s)"
  by pat_completeness auto
termination by (relation "measure (\<lambda>(s, len). 129 - len)") auto

definition intt_standard :: "int list \<Rightarrow> int list result" where
  "intt_standard poly =
     check (length poly < 256) IndexError
       (Inr (List.map (\<lambda>x. fqmul x 512) (intt_loop (List.map i16 poly, 127) 2)))"

definition basemul_pair :: "int list \<Rightarrow> int list \<Rightarrow> int list \<Rightarrow> nat \<times> nat \<times> int \<Rightarrow> int list" where
  "basemul_pair a b r = (\<lambda>(i, off, z).
     let j = 4 * i + off;
         x0 = i16 (fqmul (fqmul (a ! (j + 1)) (b ! (j + 1))) z + fqmul (a ! j) (b ! j));
         x1 = i16 (fqmul (a ! j) (b ! (j + 1)) + fqmul (a ! (j + 1)) (b ! j));
         r = r[j := fqmul x0 1353]
     in r[j + 1 := fqmul x1 1353])"

definition basemul_standard :: "int list \<Rightarrow> int list \<Rightarrow> int list result" where
  "basemul_standard a b =
     check (length a < 256 \<or> length b < 256) IndexError
       (Inr (foldl (\<lambda>r i. foldl (basemul_pair a b) r
          [(i, 0, ZETAS ! (64 + i)), (i, 2, - ZETAS ! (64 + i))]) (replicate 256 0) [0..<64]))"

definition negacyclic_step :: "int list \<Rightarrow> int list \<Rightarrow> nat \<Rightarrow> int list \<Rightarrow> nat \<Rightarrow> int list" where
  "negacyclic_step a b i out j =
     (let k = i + j in
      if k < 256 then out[k := out ! k + a ! i * b ! j]
      else out[k - 256 := out ! (k - 256) - a ! i * b ! j])"

definition negacyclic :: "int list \<Rightarrow> int list \<Rightarrow> int list result" where
  "negacyclic a b =
     check (a \<noteq> [] \<and> b \<noteq> [] \<and> 514 \<le> length a + length b) IndexError
       (Inr (List.map (\<lambda>v. v mod Q)
         (foldl (\<lambda>out i. foldl (negacyclic_step a b i) out [0..<length b]) (replicate 256 0) [0..<length a])))"

section \<open>Passes over pairs\<close>

text \<open>Both butterflies update a pair of coefficients by a function of the two.\<close>

definition pair_update :: "(int \<Rightarrow> int \<Rightarrow> int \<times> int) \<Rightarrow> nat \<Rightarrow> int list \<Rightarrow> nat \<Rightarrow> int list" where
  "pair_update f len r j =
     r[j := fst (f (r ! j) (r ! (j + len))), j + len := snd (f (r ! j) (r ! (j + len)))]"

definition ntt_op :: "int \<Rightarrow> int \<Rightarrow> int \<Rightarrow> int \<times> int" where
  "ntt_op z x y = (i16 (x + fqmul z y), i16 (x - fqmul z y))"

definition intt_op :: "int \<Rightarrow> int \<Rightarrow> int \<Rightarrow> int \<times> int" where
  "intt_op z x y = (barrett (i16 (x + y)), fqmul z (i16 (y - x)))"

lemma length_pair_update [simp]: "length (pair_update f len r j) = length r"
  by (simp add: pair_update_def)

lemma ntt_butterfly_pair: "0 < len \<Longrightarrow> ntt_butterfly z len j r = pair_update (ntt_op z) len r j"
  by (simp add: ntt_butterfly_def pair_update_def ntt_op_def Let_def list_update_swap)

lemma intt_butterfly_pair: "0 < len \<Longrightarrow> intt_butterfly z len j r = pair_update (intt_op z) len r j"
  by (simp add: intt_butterfly_def pair_update_def intt_op_def Let_def list_update_swap)

definition pass :: "(int \<Rightarrow> int \<Rightarrow> int \<times> int) \<Rightarrow> nat \<Rightarrow> int list \<Rightarrow> nat \<Rightarrow> nat \<Rightarrow> int list" where
  "pass f len r s m = foldl (pair_update f len) r [s..<s + m]"

lemma pass_nth:
  assumes "m \<le> len" and "s + len + m \<le> length r"
  shows "length (pass f len r s m) = length r"
    and "i < length r \<Longrightarrow> pass f len r s m ! i =
      (if s \<le> i \<and> i < s + m then fst (f (r ! i) (r ! (i + len)))
       else if s + len \<le> i \<and> i < s + len + m then snd (f (r ! (i - len)) (r ! i)) else r ! i)"
proof -
  have "length (pass f len r s m) = length r \<and> (\<forall>i < length r. pass f len r s m ! i =
      (if s \<le> i \<and> i < s + m then fst (f (r ! i) (r ! (i + len)))
       else if s + len \<le> i \<and> i < s + len + m then snd (f (r ! (i - len)) (r ! i)) else r ! i))"
    using assms
  proof (induction m)
    case 0
    then show ?case by (simp add: pass_def)
  next
    case (Suc m)
    then have l: "length (pass f len r s m) = length r"
      and n: "\<And>i. i < length r \<Longrightarrow> pass f len r s m ! i =
      (if s \<le> i \<and> i < s + m then fst (f (r ! i) (r ! (i + len)))
       else if s + len \<le> i \<and> i < s + len + m then snd (f (r ! (i - len)) (r ! i)) else r ! i)" by simp_all
    have step: "pass f len r s (Suc m) = pair_update f len (pass f len r s m) (s + m)"
      by (simp add: pass_def)
    have "pass f len r s m ! (s + m) = r ! (s + m)" "pass f len r s m ! (s + m + len) = r ! (s + m + len)"
      using Suc.prems n [of "s + m"] n [of "s + m + len"] by simp_all
    then have u: "pass f len r s (Suc m) = (pass f len r s m)[s + m := fst (f (r ! (s + m)) (r ! (s + m + len))),
        s + m + len := snd (f (r ! (s + m)) (r ! (s + m + len)))]"
      unfolding step pair_update_def by simp
    show ?case
      unfolding u using Suc.prems l n by (auto simp: nth_list_update not_less)
  qed
  then show "length (pass f len r s m) = length r"
    and "i < length r \<Longrightarrow> pass f len r s m ! i =
      (if s \<le> i \<and> i < s + m then fst (f (r ! i) (r ! (i + len)))
       else if s + len \<le> i \<and> i < s + len + m then snd (f (r ! (i - len)) (r ! i)) else r ! i)" by blast+
qed

text \<open>A layer is a pass over each of its blocks; \<open>F b\<close> is the update in block \<open>b\<close>.\<close>

definition layer :: "(nat \<Rightarrow> int \<Rightarrow> int \<Rightarrow> int \<times> int) \<Rightarrow> nat \<Rightarrow> nat \<Rightarrow> int list \<Rightarrow> int list" where
  "layer F len n r = foldl (\<lambda>r b. pass (F b) len r (b * (2 * len)) len) r [0..<n]"

lemma layer_nth:
  assumes "0 < len" and "n * (2 * len) \<le> length r"
  shows "length (layer F len n r) = length r"
    and "i < length r \<Longrightarrow> layer F len n r ! i =
      (if n * (2 * len) \<le> i then r ! i
       else if i mod (2 * len) < len then fst (F (i div (2 * len)) (r ! i) (r ! (i + len)))
       else snd (F (i div (2 * len)) (r ! (i - len)) (r ! i)))"
proof -
  define N where "N = 2 * len"
  have N: "0 < N" using assms(1) by (simp add: N_def)
  have "length (layer F len n r) = length r \<and> (\<forall>i < length r. layer F len n r ! i =
      (if n * N \<le> i then r ! i
       else if i mod N < len then fst (F (i div N) (r ! i) (r ! (i + len)))
       else snd (F (i div N) (r ! (i - len)) (r ! i))))"
    using assms(2) unfolding N_def [symmetric]
  proof (induction n)
    case 0
    then show ?case by (simp add: layer_def)
  next
    case (Suc n)
    let ?r = "layer F len n r"
    from Suc have l: "length ?r = length r"
      and IH: "\<And>i. i < length r \<Longrightarrow> ?r ! i = (if n * N \<le> i then r ! i
       else if i mod N < len then fst (F (i div N) (r ! i) (r ! (i + len)))
       else snd (F (i div N) (r ! (i - len)) (r ! i)))" by simp_all
    have step: "layer F len (Suc n) r = pass (F n) len ?r (n * N) len"
      by (simp add: layer_def N_def)
    have b: "n * N + len + len \<le> length ?r" using Suc.prems l by (simp add: N_def)
    note p = pass_nth [where f = "F n", OF order_refl b]
    show ?case
    proof (intro conjI allI impI)
      show "length (layer F len (Suc n) r) = length r" using p(1) l by (simp add: step)
      fix i assume i: "i < length r"
      consider "i < n * N" | q where "i = n * N + q" "q < N" | "Suc n * N \<le> i"
        by (metis add_less_cancel_left le_add_diff_inverse mult_Suc not_less add.commute)
      then show "layer F len (Suc n) r ! i = (if Suc n * N \<le> i then r ! i
       else if i mod N < len then fst (F (i div N) (r ! i) (r ! (i + len)))
       else snd (F (i div N) (r ! (i - len)) (r ! i)))"
      proof cases
        case 1
        then show ?thesis using p(2) [of i] l i IH [OF i] by (simp add: step)
      next
        case (2 q)
        have d: "i div N = n" "i mod N = q" using 2 by simp_all
        have bd: "Suc n * N \<le> length r" using Suc.prems .
        show ?thesis
        proof (cases "q < len")
          case True
          then have "i + len < length r" using 2 bd by (simp add: N_def)
          then show ?thesis
            using p(2) [of i] l i 2 d True IH [OF i] IH [of "i + len"] by (simp add: step)
        next
          case False
          then have "i - len < length r" "n * N \<le> i - len" using 2 i by simp_all
          then show ?thesis
            using p(2) [of i] l i 2 d False IH [OF i] IH [of "i - len"] by (simp add: step N_def)
        qed
      next
        case 3
        then show ?thesis using p(2) [of i] l i IH [OF i] by (simp add: step N_def)
      qed
    qed
  qed
  then show "length (layer F len n r) = length r"
    and "i < length r \<Longrightarrow> layer F len n r ! i =
      (if n * (2 * len) \<le> i then r ! i
       else if i mod (2 * len) < len then fst (F (i div (2 * len)) (r ! i) (r ! (i + len)))
       else snd (F (i div (2 * len)) (r ! (i - len)) (r ! i)))" unfolding N_def by blast+
qed

section \<open>The loops are layers\<close>

lemma ntt_block_pass: "0 < len \<Longrightarrow> ntt_block len (r, k) start = (pass (ntt_op (ZETAS ! k)) len r start len, k + 1)"
  by (simp add: ntt_block_def pass_def ntt_butterfly_pair Let_def)

lemma intt_block_pass: "0 < len \<Longrightarrow> intt_block len (r, k) start = (pass (intt_op (ZETAS ! k)) len r start len, k - 1)"
  by (simp add: intt_block_def pass_def intt_butterfly_pair Let_def)

lemma ntt_blocks_layer:
  "0 < len \<Longrightarrow> foldl (ntt_block len) (r, k) (List.map (\<lambda>b. b * (2 * len)) [0..<n]) =
     (layer (\<lambda>b. ntt_op (ZETAS ! (k + b))) len n r, k + n)"
  by (induction n) (simp_all add: layer_def ntt_block_pass)

lemma intt_blocks_layer:
  "0 < len \<Longrightarrow> foldl (intt_block len) (r, k) (List.map (\<lambda>b. b * (2 * len)) [0..<n]) =
     (layer (\<lambda>b. intt_op (ZETAS ! (k - b))) len n r, k - n)"
  by (induction n) (simp_all add: layer_def intt_block_pass)

text \<open>The layer with \<open>n\<close> blocks.\<close>

definition ntt_layer :: "nat \<Rightarrow> int list \<Rightarrow> int list" where
  "ntt_layer n = layer (\<lambda>b. ntt_op (ZETAS ! (n + b))) (128 div n) n"

definition intt_layer :: "nat \<Rightarrow> int list \<Rightarrow> int list" where
  "intt_layer n = layer (\<lambda>b. intt_op (ZETAS ! (2 * n - 1 - b))) (128 div n) n"

definition levels :: "nat list" where
  "levels = [1, 2, 4, 8, 16, 32, 64]"

lemma level_cases:
  assumes "n \<in> set levels"
  shows "0 < n" "n \<le> 64" "0 < 128 div n" "n * (2 * (128 div n)) = 256"
  using assms by (auto simp: levels_def)

lemma level_blocks:
  assumes "n \<in> set levels"
  shows "range_step 256 (2 * (128 div n)) = List.map (\<lambda>b. b * (2 * (128 div n))) [0..<n]"
proof -
  have "(256 + 2 * (128 div n) - 1) div (2 * (128 div n)) = n"
    using assms by (auto simp: levels_def)
  then show ?thesis by (simp only: range_step_def)
qed

lemma ntt_loop_level:
  assumes "n \<in> set levels"
  shows "ntt_loop (r, n) (128 div n) = ntt_loop (ntt_layer n r, n + n) (128 div n div 2)"
proof -
  have "2 \<le> 128 div n" using assms by (auto simp: levels_def)
  then show ?thesis
    by (subst ntt_loop.simps) (simp only: if_True level_blocks [OF assms]
        ntt_blocks_layer [OF level_cases(3) [OF assms]] ntt_layer_def)
qed

lemma intt_loop_level:
  assumes "n \<in> set levels"
  shows "intt_loop (r, 2 * n - 1) (128 div n) = intt_loop (intt_layer n r, 2 * n - 1 - n) (128 div n * 2)"
proof -
  have "0 < 128 div n \<and> 128 div n \<le> 128" using assms by (auto simp: levels_def)
  then show ?thesis
    by (subst intt_loop.simps) (simp only: if_True simp_thms level_blocks [OF assms]
        intt_blocks_layer [OF level_cases(3) [OF assms]] intt_layer_def)
qed

lemma ntt_loop_layers: "ntt_loop (r, 1) 128 = foldl (\<lambda>r n. ntt_layer n r) r levels"
proof -
  have lv: "{1, 2, 4, 8, 16, 32, 64} \<subseteq> set levels" by (simp add: levels_def)
  have stop: "ntt_loop (r, k) 1 = r" for r k by simp
  have one: "ntt_loop (r, 1) 128 = ntt_loop (ntt_layer 1 r, 2) 64"
    using lv ntt_loop_level [of 1 r] by (simp add: one_add_one del: ntt_loop.simps One_nat_def)
  show ?thesis
    unfolding one using lv ntt_loop_level [of 2] ntt_loop_level [of 4] ntt_loop_level [of 8]
      ntt_loop_level [of 16] ntt_loop_level [of 32] ntt_loop_level [of 64] stop
    by (simp add: levels_def del: ntt_loop.simps)
qed

lemma intt_loop_layers: "intt_loop (r, 127) 2 = foldl (\<lambda>r n. intt_layer n r) r (rev levels)"
proof -
  have lv: "{1, 2, 4, 8, 16, 32, 64} \<subseteq> set levels" by (simp add: levels_def)
  have stop: "intt_loop (r, k) 256 = r" for r k by simp
  show ?thesis
    using lv intt_loop_level [of 1] intt_loop_level [of 2] intt_loop_level [of 4] intt_loop_level [of 8]
      intt_loop_level [of 16] intt_loop_level [of 32] intt_loop_level [of 64 r] stop
    by (simp add: levels_def del: intt_loop.simps)
qed

section \<open>Layers over residues\<close>

text \<open>A list of 256 coefficients stands for a function modulo 3329.\<close>

definition feq :: "(nat \<Rightarrow> int) \<Rightarrow> (nat \<Rightarrow> int) \<Rightarrow> bool" where
  "feq f g \<longleftrightarrow> (\<forall>i < 256. eqQ (f i) (g i))"

definition rep :: "int \<Rightarrow> int list \<Rightarrow> (nat \<Rightarrow> int) \<Rightarrow> bool" where
  "rep B r f \<longleftrightarrow> length r = 256 \<and> (\<forall>i < 256. eqQ (r ! i) (f i) \<and> \<bar>r ! i\<bar> \<le> B)"

definition split_at :: "nat \<Rightarrow> (nat \<Rightarrow> int) \<Rightarrow> (nat \<Rightarrow> int) \<Rightarrow> nat \<Rightarrow> int" where
  "split_at len z f i =
     (if i mod (2 * len) < len then f i + z (i div (2 * len)) * f (i + len)
      else f (i - len) - z (i div (2 * len)) * f i)"

definition join_at :: "nat \<Rightarrow> (nat \<Rightarrow> int) \<Rightarrow> (nat \<Rightarrow> int) \<Rightarrow> nat \<Rightarrow> int" where
  "join_at len z f i =
     (if i mod (2 * len) < len then f i + f (i + len)
      else z (i div (2 * len)) * (f i - f (i - len)))"

lemma feq_trans [trans]: "feq f g \<Longrightarrow> feq g h \<Longrightarrow> feq f h"
  unfolding feq_def by (blast intro: eqQ_trans)

lemma feq_refl [simp]: "feq f f"
  by (simp add: feq_def)

lemma rep_feq: "rep B r f \<Longrightarrow> feq f g \<Longrightarrow> rep B r g"
  unfolding rep_def feq_def by (blast intro: eqQ_trans)

text \<open>The two indices of a pair.\<close>

lemma pair_index:
  fixes i len n :: nat
  assumes "0 < len" and "n * (2 * len) = 256" and "i < 256"
  shows "i div (2 * len) < n"
    and "i mod (2 * len) < len \<Longrightarrow>
      i + len < 256 \<and> \<not> (i + len) mod (2 * len) < len \<and> (i + len) div (2 * len) = i div (2 * len)"
    and "\<not> i mod (2 * len) < len \<Longrightarrow>
      len \<le> i \<and> (i - len) mod (2 * len) < len \<and> (i - len) div (2 * len) = i div (2 * len)"
proof -
  define N b q :: nat where "N = 2 * len" and "b = i div N" and "q = i mod N"
  have i: "i = b * N + q" unfolding b_def q_def by (rule div_mult_mod_eq [symmetric])
  have q: "q < N" using assms(1) by (simp add: q_def N_def)
  show b: "i div (2 * len) < n" by (rule less_mult_imp_div_less) (simp only: assms(2,3))
  then have "b + 1 \<le> n" by (simp add: b_def N_def)
  then have "(b + 1) * N \<le> 256" using mult_le_mono1 [of "b + 1" n N] assms(2) by (simp add: N_def)
  then have bN: "b * N + N \<le> 256" by simp
  show "i mod (2 * len) < len \<Longrightarrow>
      i + len < 256 \<and> \<not> (i + len) mod (2 * len) < len \<and> (i + len) div (2 * len) = i div (2 * len)"
  proof -
    assume "i mod (2 * len) < len"
    then have l: "q < len" by (simp add: q_def N_def)
    have e: "i + len = b * N + (q + len)" by (simp add: i)
    have d: "(i + len) div N = b" "(i + len) mod N = q + len"
      unfolding e using l by (simp_all add: N_def)
    have "i + len < 256" using l bN i by (simp add: N_def)
    then show ?thesis unfolding N_def [symmetric] d b_def [symmetric] by simp
  qed
  show "\<not> i mod (2 * len) < len \<Longrightarrow>
      len \<le> i \<and> (i - len) mod (2 * len) < len \<and> (i - len) div (2 * len) = i div (2 * len)"
  proof -
    assume "\<not> i mod (2 * len) < len"
    then have l: "len \<le> q" by (simp add: q_def N_def)
    have m: "q - len < N" "N \<noteq> 0" using q by simp_all
    have e: "i - len = b * N + (q - len)" using l by (simp add: i)
    have d: "(i - len) div N = b" "(i - len) mod N = q - len"
      unfolding e using div_mult_self3 [of N "q - len" b] m by simp_all
    have "len \<le> i" "q - len < len" using l q i by (simp_all add: N_def)
    then show ?thesis unfolding N_def [symmetric] d b_def [symmetric] by simp
  qed
qed

lemma fqmul_zeta:
  assumes "k < 128" and "in16 y"
  shows "eqQ (fqmul (ZETAS ! k) y) (zeta k * y)" and "\<bar>fqmul (ZETAS ! k) y\<bar> \<le> 2495"
proof -
  have z: "in16 (ZETAS ! k)" using ZETAS_bound [OF assms(1)] by (intro in16_abs(1)) simp
  show "eqQ (fqmul (ZETAS ! k) y) (zeta k * y)"
    using fqmul_residue [OF z assms(2)] by (simp add: zeta_def mult.commute mult.left_commute)
  show "\<bar>fqmul (ZETAS ! k) y\<bar> \<le> 2495"
    using fqmul_bound [OF z assms(2) ZETAS_bound [OF assms(1)] in16_abs(2) [OF assms(2)], of 830] by simp
qed

lemma ntt_op_rep:
  assumes "k < 128" and "eqQ x u" "eqQ y v" and "\<bar>x\<bar> \<le> B" "\<bar>y\<bar> \<le> B" and "B \<le> 30272"
  shows "eqQ (fst (ntt_op (ZETAS ! k) x y)) (u + zeta k * v) \<and> \<bar>fst (ntt_op (ZETAS ! k) x y)\<bar> \<le> B + 2495"
    and "eqQ (snd (ntt_op (ZETAS ! k) x y)) (u - zeta k * v) \<and> \<bar>snd (ntt_op (ZETAS ! k) x y)\<bar> \<le> B + 2495"
proof -
  have y: "in16 y" using assms(5,6) by (intro in16_abs(1)) simp
  note f = fqmul_zeta [OF assms(1) y]
  have e: "eqQ (fqmul (ZETAS ! k) y) (zeta k * v)"
    by (rule eqQ_trans [OF f(1) eqQ_mult [OF eqQ_refl assms(3)]])
  let ?t = "fqmul (ZETAS ! k) y"
  have "\<bar>x + ?t\<bar> \<le> B + 2495" "\<bar>x - ?t\<bar> \<le> B + 2495" using f(2) assms(4) by simp_all
  then show "eqQ (fst (ntt_op (ZETAS ! k) x y)) (u + zeta k * v) \<and> \<bar>fst (ntt_op (ZETAS ! k) x y)\<bar> \<le> B + 2495"
    "eqQ (snd (ntt_op (ZETAS ! k) x y)) (u - zeta k * v) \<and> \<bar>snd (ntt_op (ZETAS ! k) x y)\<bar> \<le> B + 2495"
    using eqQ_add [OF assms(2) e] eqQ_diff [OF assms(2) e] assms(6) by (simp_all add: ntt_op_def)
qed

lemma intt_op_rep:
  assumes "k < 128" and "eqQ x u" "eqQ y v" and "\<bar>x\<bar> \<le> 16383" "\<bar>y\<bar> \<le> 16383"
  shows "eqQ (fst (intt_op (ZETAS ! k) x y)) (u + v) \<and> \<bar>fst (intt_op (ZETAS ! k) x y)\<bar> \<le> 2495"
    and "eqQ (snd (intt_op (ZETAS ! k) x y)) (zeta k * (v - u)) \<and> \<bar>snd (intt_op (ZETAS ! k) x y)\<bar> \<le> 2495"
proof -
  have s: "in16 (x + y)" "in16 (y - x)" unfolding in16_def using assms(4,5) by linarith+
  have b: "eqQ (barrett (x + y)) (u + v)" "\<bar>barrett (x + y)\<bar> \<le> 2495"
    using barrett_exact [OF s(1)] eqQ_add [OF assms(2,3)] by (auto intro: eqQ_trans)
  note f = fqmul_zeta [OF assms(1) s(2)]
  have "eqQ (fqmul (ZETAS ! k) (y - x)) (zeta k * (v - u))"
    by (rule eqQ_trans [OF f(1) eqQ_mult [OF eqQ_refl eqQ_diff [OF assms(3,2)]]])
  then show "eqQ (fst (intt_op (ZETAS ! k) x y)) (u + v) \<and> \<bar>fst (intt_op (ZETAS ! k) x y)\<bar> \<le> 2495"
    "eqQ (snd (intt_op (ZETAS ! k) x y)) (zeta k * (v - u)) \<and> \<bar>snd (intt_op (ZETAS ! k) x y)\<bar> \<le> 2495"
    using b f(2) s by (simp_all add: intt_op_def)
qed

lemma ntt_layer_rep:
  assumes "n \<in> set levels" and r: "rep B r f" and "B \<le> 30272"
  shows "rep (B + 2495) (ntt_layer n r) (split_at (128 div n) (\<lambda>b. zeta (n + b)) f)"
  unfolding rep_def
proof (intro conjI allI impI)
  let ?len = "128 div n"
  note lv = level_cases [OF assms(1)]
  have l: "length r = 256" using r by (simp add: rep_def)
  have nl: "n * (2 * ?len) \<le> length r" using lv(4) l by simp
  note nth = layer_nth [OF lv(3) nl, where F = "\<lambda>b. ntt_op (ZETAS ! (n + b))"]
  show "length (ntt_layer n r) = 256" using nth(1) l by (simp add: ntt_layer_def)
  fix i :: nat assume i: "i < 256"
  note px = pair_index [OF lv(3,4) i]
  have k: "n + i div (2 * ?len) < 128" using px(1) lv(2) by simp
  have x: "ntt_layer n r ! i =
     (if i mod (2 * ?len) < ?len then fst (ntt_op (ZETAS ! (n + i div (2 * ?len))) (r ! i) (r ! (i + ?len)))
       else snd (ntt_op (ZETAS ! (n + i div (2 * ?len))) (r ! (i - ?len)) (r ! i)))"
    using nth(2) [of i] i l lv(4) by (simp add: ntt_layer_def)
  have at: "eqQ (r ! j) (f j)" "\<bar>r ! j\<bar> \<le> B" if "j < 256" for j
    using r that by (simp_all add: rep_def)
  show "eqQ (ntt_layer n r ! i) (split_at ?len (\<lambda>b. zeta (n + b)) f i)"
    "\<bar>ntt_layer n r ! i\<bar> \<le> B + 2495"
  proof (atomize (full), cases "i mod (2 * ?len) < ?len")
    case True
    then have j: "i + ?len < 256" using px(2) by simp
    show "eqQ (ntt_layer n r ! i) (split_at ?len (\<lambda>b. zeta (n + b)) f i) \<and> \<bar>ntt_layer n r ! i\<bar> \<le> B + 2495"
      using ntt_op_rep(1) [OF k at(1) [OF i] at(1) [OF j] at(2) [OF i] at(2) [OF j] assms(3)] True
      by (simp add: x split_at_def)
  next
    case False
    then have j: "i - ?len < 256" using i by simp
    show "eqQ (ntt_layer n r ! i) (split_at ?len (\<lambda>b. zeta (n + b)) f i) \<and> \<bar>ntt_layer n r ! i\<bar> \<le> B + 2495"
      using ntt_op_rep(2) [OF k at(1) [OF j] at(1) [OF i] at(2) [OF j] at(2) [OF i] assms(3)] False
      by (simp add: x split_at_def)
  qed
qed

lemma intt_layer_rep:
  assumes "n \<in> set levels" and r: "rep 16383 r f"
  shows "rep 2495 (intt_layer n r) (join_at (128 div n) (\<lambda>b. zeta (2 * n - 1 - b)) f)"
  unfolding rep_def
proof (intro conjI allI impI)
  let ?len = "128 div n"
  note lv = level_cases [OF assms(1)]
  have l: "length r = 256" using r by (simp add: rep_def)
  have nl: "n * (2 * ?len) \<le> length r" using lv(4) l by simp
  note nth = layer_nth [OF lv(3) nl, where F = "\<lambda>b. intt_op (ZETAS ! (2 * n - 1 - b))"]
  show "length (intt_layer n r) = 256" using nth(1) l by (simp add: intt_layer_def)
  fix i :: nat assume i: "i < 256"
  note px = pair_index [OF lv(3,4) i]
  have k: "2 * n - 1 - i div (2 * ?len) < 128" using lv(1,2) by simp
  have x: "intt_layer n r ! i =
     (if i mod (2 * ?len) < ?len then fst (intt_op (ZETAS ! (2 * n - 1 - i div (2 * ?len))) (r ! i) (r ! (i + ?len)))
       else snd (intt_op (ZETAS ! (2 * n - 1 - i div (2 * ?len))) (r ! (i - ?len)) (r ! i)))"
    using nth(2) [of i] i l lv(4) by (simp add: intt_layer_def)
  have at: "eqQ (r ! j) (f j)" "\<bar>r ! j\<bar> \<le> 16383" if "j < 256" for j
    using r that by (simp_all add: rep_def)
  show "eqQ (intt_layer n r ! i) (join_at ?len (\<lambda>b. zeta (2 * n - 1 - b)) f i)"
    "\<bar>intt_layer n r ! i\<bar> \<le> 2495"
  proof (atomize (full), cases "i mod (2 * ?len) < ?len")
    case True
    then have j: "i + ?len < 256" using px(2) by simp
    show "eqQ (intt_layer n r ! i) (join_at ?len (\<lambda>b. zeta (2 * n - 1 - b)) f i) \<and> \<bar>intt_layer n r ! i\<bar> \<le> 2495"
      using intt_op_rep(1) [OF k at(1) [OF i] at(1) [OF j] at(2) [OF i] at(2) [OF j]] True
      by (simp add: x join_at_def)
  next
    case False
    then have j: "i - ?len < 256" using i by simp
    show "eqQ (intt_layer n r ! i) (join_at ?len (\<lambda>b. zeta (2 * n - 1 - b)) f i) \<and> \<bar>intt_layer n r ! i\<bar> \<le> 2495"
      using intt_op_rep(2) [OF k at(1) [OF j] at(1) [OF i] at(2) [OF j] at(2) [OF i]] False
      by (simp add: x join_at_def)
  qed
qed

section \<open>The inverse transform inverts\<close>

definition level_split :: "nat \<Rightarrow> (nat \<Rightarrow> int) \<Rightarrow> nat \<Rightarrow> int" where
  "level_split n = split_at (128 div n) (\<lambda>b. zeta (n + b))"

definition level_join :: "nat \<Rightarrow> (nat \<Rightarrow> int) \<Rightarrow> nat \<Rightarrow> int" where
  "level_join n = join_at (128 div n) (\<lambda>b. zeta (2 * n - 1 - b))"

definition ntt_fn :: "(nat \<Rightarrow> int) \<Rightarrow> nat \<Rightarrow> int" where
  "ntt_fn f = foldl (\<lambda>f n. level_split n f) f levels"

definition intt_fn :: "(nat \<Rightarrow> int) \<Rightarrow> nat \<Rightarrow> int" where
  "intt_fn f = foldl (\<lambda>f n. level_join n f) f (rev levels)"

lemma ntt_layers_rep:
  "rep B r f \<Longrightarrow> set ns \<subseteq> set levels \<Longrightarrow> B + 2495 * int (length ns) \<le> 32767 \<Longrightarrow>
     rep (B + 2495 * int (length ns)) (foldl (\<lambda>r n. ntt_layer n r) r ns) (foldl (\<lambda>f n. level_split n f) f ns)"
proof (induction ns arbitrary: B r f)
  case (Cons n ns)
  then have "rep (B + 2495) (ntt_layer n r) (level_split n f)"
    unfolding level_split_def by (intro ntt_layer_rep) auto
  from Cons.IH [OF this] show ?case using Cons.prems by (simp add: algebra_simps)
qed simp

lemma rep_mono: "rep B r f \<Longrightarrow> B \<le> C \<Longrightarrow> rep C r f"
  unfolding rep_def by (meson order_trans)

lemma intt_layers_rep:
  "rep 2495 r f \<Longrightarrow> set ns \<subseteq> set levels \<Longrightarrow>
     rep 2495 (foldl (\<lambda>r n. intt_layer n r) r ns) (foldl (\<lambda>f n. level_join n f) f ns)"
proof (induction ns arbitrary: r f)
  case (Cons n ns)
  then have "rep 2495 (intt_layer n r) (level_join n f)"
    unfolding level_join_def by (intro intt_layer_rep rep_mono [OF Cons.prems(1)]) auto
  from Cons.IH [OF this] show ?case using Cons.prems by simp
qed simp

lemma i16_list: "\<forall>x \<in> set r. in16 x \<Longrightarrow> List.map i16 r = r"
  by (induction r) simp_all

lemma in16_list: "rep B r f \<Longrightarrow> B \<le> 32767 \<Longrightarrow> \<forall>x \<in> set r. in16 x"
  by (fastforce simp: rep_def in_set_conv_nth intro: in16_abs(1))

lemma ntt_rep:
  assumes r: "rep B r f" and B: "B \<le> 15302"
  obtains x where "ntt r = Inr x" "rep (B + 17465) x (ntt_fn f)"
proof -
  have l: "length r = 256" using r by (simp add: rep_def)
  have n: "ntt r = Inr (foldl (\<lambda>r n. ntt_layer n r) r levels)"
    using l i16_list [OF in16_list [OF r]] B
    by (simp add: ntt_def check_def ntt_loop_layers del: ntt_loop.simps One_nat_def)
  have "rep (B + 17465) (foldl (\<lambda>r n. ntt_layer n r) r levels) (ntt_fn f)"
    using ntt_layers_rep [OF r, of levels] B by (simp add: ntt_fn_def levels_def)
  then show thesis using that n by blast
qed

lemma intt_rep:
  assumes "rep 16383 r f"
  obtains x where "intt_standard r = Inr x" "rep 32767 x (\<lambda>i. intt_fn f i * (512 * Rinv))"
proof -
  have l: "length r = 256" using assms by (simp add: rep_def)
  have "\<forall>x \<in> set r. in16 x" by (rule in16_list [OF assms]) simp
  then have n: "intt_standard r = Inr (List.map (\<lambda>x. fqmul x 512) (foldl (\<lambda>r n. intt_layer n r) r (rev levels)))"
    using l i16_list [of r] by (simp add: intt_standard_def check_def intt_loop_layers del: intt_loop.simps)
  have lv: "rev levels = 64 # [32, 16, 8, 4, 2, 1]" by (simp add: levels_def)
  have "rep 2495 (intt_layer 64 r) (level_join 64 f)"
    unfolding level_join_def by (rule intt_layer_rep [OF _ assms]) (simp add: levels_def)
  then have "rep 2495 (foldl (\<lambda>r n. intt_layer n r) (intt_layer 64 r) [32, 16, 8, 4, 2, 1])
      (foldl (\<lambda>f n. level_join n f) (level_join 64 f) [32, 16, 8, 4, 2, 1])"
    by (rule intt_layers_rep) (simp add: levels_def)
  then have r: "rep 2495 (foldl (\<lambda>r n. intt_layer n r) r (rev levels)) (intt_fn f)"
    unfolding intt_fn_def lv by simp
  have "rep 32767 (List.map (\<lambda>x. fqmul x 512) (foldl (\<lambda>r n. intt_layer n r) r (rev levels)))
      (\<lambda>i. intt_fn f i * (512 * Rinv))"
    unfolding rep_def
  proof (intro conjI allI impI)
    show "length (List.map (\<lambda>x. fqmul x 512) (foldl (\<lambda>r n. intt_layer n r) r (rev levels))) = 256"
      using r by (simp add: rep_def)
    fix i :: nat assume i: "i < 256"
    let ?y = "foldl (\<lambda>r n. intt_layer n r) r (rev levels) ! i"
    have y: "eqQ ?y (intt_fn f i)" "\<bar>?y\<bar> \<le> 2495" "length (foldl (\<lambda>r n. intt_layer n r) r (rev levels)) = 256"
      using r i by (simp_all add: rep_def)
    have in16: "in16 ?y" "in16 512" using y(2) by (simp_all add: in16_def abs_le_iff)
    have "eqQ (fqmul ?y 512) (?y * 512 * Rinv)" by (rule fqmul_residue [OF in16])
    also have "eqQ (?y * 512 * Rinv) (intt_fn f i * 512 * Rinv)"
      by (intro eqQ_mult y(1) eqQ_refl)
    finally have "eqQ (fqmul ?y 512) (intt_fn f i * (512 * Rinv))" by (simp add: mult.assoc)
    then show "eqQ (List.map (\<lambda>x. fqmul x 512) (foldl (\<lambda>r n. intt_layer n r) r (rev levels)) ! i)
        (intt_fn f i * (512 * Rinv))"
      using y(3) i by simp
    have "\<bar>fqmul ?y 512\<bar> \<le> 20 + 1665" by (rule fqmul_bound [OF in16 y(2), of 512]) simp_all
    then show "\<bar>List.map (\<lambda>x. fqmul x 512) (foldl (\<lambda>r n. intt_layer n r) r (rev levels)) ! i\<bar> \<le> 32767"
      using y(3) i by simp
  qed
  then show thesis using that n by blast
qed

text \<open>Joining the two halves of a split gives twice the coefficients.\<close>

lemma join_split:
  assumes n: "n \<in> set levels" and g: "feq g (\<lambda>i. c * level_split n f i)"
  shows "feq (level_join n g) (\<lambda>i. 2 * c * f i)"
  unfolding feq_def
proof (intro allI impI)
  let ?len = "128 div n"
  note lv = level_cases [OF n]
  fix i :: nat assume i: "i < 256"
  note px = pair_index [OF lv(3,4) i]
  let ?b = "i div (2 * ?len)"
  have at: "eqQ (g j) (c * level_split n f j)" if "j < 256" for j using g that by (simp add: feq_def)
  have pair: "eqQ (zeta (n + ?b) * zeta (2 * n - 1 - ?b)) (-1)"
    using zeta_pair [of n ?b] n px(1) by (auto simp: levels_def)
  show "eqQ (level_join n g i) (2 * c * f i)"
  proof (cases "i mod (2 * ?len) < ?len")
    case True
    then have j: "i + ?len < 256" "\<not> (i + ?len) mod (2 * ?len) < ?len" "(i + ?len) div (2 * ?len) = ?b"
      using px(2) by simp_all
    have "level_join n g i = g i + g (i + ?len)" using True by (simp add: level_join_def join_at_def)
    also have "eqQ \<dots> (c * level_split n f i + c * level_split n f (i + ?len))"
      by (rule eqQ_add [OF at [OF i] at [OF j(1)]])
    also have "\<dots> = 2 * c * f i"
      unfolding level_split_def split_at_def using True j(2,3) by (simp add: algebra_simps)
    finally show ?thesis .
  next
    case False
    then have j: "?len \<le> i" "(i - ?len) mod (2 * ?len) < ?len" "(i - ?len) div (2 * ?len) = ?b"
      using px(3) by simp_all
    let ?z = "zeta (2 * n - 1 - ?b)"
    have "level_join n g i = ?z * (g i - g (i - ?len))" using False by (simp add: level_join_def join_at_def)
    also have "eqQ \<dots> (?z * (c * level_split n f i - c * level_split n f (i - ?len)))"
      using i by (intro eqQ_mult eqQ_diff at eqQ_refl) simp_all
    also have "\<dots> = (-2 * c * f i) * (zeta (n + ?b) * ?z)"
      unfolding level_split_def split_at_def using False j by (simp add: algebra_simps)
    also have "eqQ \<dots> (-2 * c * f i * -1)" by (rule eqQ_mult [OF eqQ_refl pair])
    also have "\<dots> = 2 * c * f i" by simp
    finally show ?thesis .
  qed
qed

lemma joins_splits:
  "set ns \<subseteq> set levels \<Longrightarrow> feq g (\<lambda>i. c * foldl (\<lambda>f n. level_split n f) f ns i) \<Longrightarrow>
     feq (foldl (\<lambda>f n. level_join n f) g (rev ns)) (\<lambda>i. 2 ^ length ns * c * f i)"
proof (induction ns arbitrary: g c rule: rev_induct)
  case (snoc n ns)
  have "feq (level_join n g) (\<lambda>i. 2 * c * foldl (\<lambda>f n. level_split n f) f ns i)"
    using snoc.prems by (intro join_split) simp_all
  from snoc.IH [OF _ this] snoc.prems show ?case by (simp add: algebra_simps)
qed (simp add: feq_def)

lemma intt_ntt_fn: "feq g (ntt_fn f) \<Longrightarrow> feq (intt_fn g) (\<lambda>i. 128 * f i)"
  using joins_splits [of levels g 1 f] by (simp add: ntt_fn_def intt_fn_def levels_def)

lemma canon_list: "rep B x f \<Longrightarrow> rep C y f \<Longrightarrow> List.map canon x = List.map canon y"
proof (rule nth_equalityI)
  assume r: "rep B x f" "rep C y f"
  then show "length (List.map canon x) = length (List.map canon y)" by (simp add: rep_def)
  fix i assume "i < length (List.map canon x)"
  then have i: "i < 256" "i < length x" "i < length y" using r by (simp_all add: rep_def)
  have "eqQ (x ! i) (f i)" "eqQ (y ! i) (f i)" using r i(1) by (simp_all add: rep_def)
  then show "List.map canon x ! i = List.map canon y ! i" using i by (simp add: eqQ_canon)
qed

text \<open>The inverse transform of any representative of the forward transform.\<close>

lemma intt_ntt_rep:
  assumes "rep 16383 r (ntt_fn f)" and "rep B p f"
  obtains x where "intt_standard r = Inr x" "List.map canon x = List.map canon p"
proof -
  obtain x where x: "intt_standard r = Inr x" "rep 32767 x (\<lambda>i. intt_fn (ntt_fn f) i * (512 * Rinv))"
    using intt_rep [OF assms(1)] .
  have one: "eqQ (128 * (512 * Rinv)) 1" using Rinv by simp
  have "feq (\<lambda>i. intt_fn (ntt_fn f) i * (512 * Rinv)) f"
    unfolding feq_def
  proof (intro allI impI)
    fix i :: nat assume i: "i < 256"
    have "eqQ (intt_fn (ntt_fn f) i * (512 * Rinv)) (128 * f i * (512 * Rinv))"
      using intt_ntt_fn [OF feq_refl] i by (intro eqQ_mult) (simp_all add: feq_def)
    also have "128 * f i * (512 * Rinv) = 128 * (512 * Rinv) * f i" by simp
    also have "eqQ \<dots> (1 * f i)" by (intro eqQ_mult one) simp
    finally show "eqQ (intt_fn (ntt_fn f) i * (512 * Rinv)) (f i)" by simp
  qed
  then have "rep 32767 x f" using rep_feq [OF x(2)] by simp
  then show thesis using that [OF x(1)] canon_list assms(2) by blast
qed

definition small :: "int \<Rightarrow> int list \<Rightarrow> bool" where
  "small B p \<longleftrightarrow> length p = 256 \<and> (\<forall>x \<in> set p. \<bar>x\<bar> \<le> B)"

lemma small_rep: "small B p \<Longrightarrow> rep B p (\<lambda>i. p ! i)"
  by (simp add: small_def rep_def)

lemma intt_ntt:
  assumes "small 15302 p"
  shows "result_bind (ntt p) (\<lambda>x. result_bind (intt_standard (List.map canon x))
    (\<lambda>y. Inr (List.map canon y))) = Inr (List.map canon p)"
proof -
  note r = small_rep [OF assms]
  obtain x where x: "ntt p = Inr x" "rep (15302 + 17465) x (ntt_fn (\<lambda>i. p ! i))" using ntt_rep [OF r] by auto
  have "rep 16383 (List.map canon x) (ntt_fn (\<lambda>i. p ! i))"
    unfolding rep_def
  proof (intro conjI allI impI)
    show "length (List.map canon x) = 256" using x(2) by (simp add: rep_def)
    fix i :: nat assume "i < 256"
    then have e: "eqQ (x ! i) (ntt_fn (\<lambda>i. p ! i) i)" "List.map canon x ! i = canon (x ! i)"
      using x(2) by (simp_all add: rep_def)
    have "eqQ (canon (x ! i)) (x ! i)" by (simp add: eqQ_canon canon_def)
    then show "eqQ (List.map canon x ! i) (ntt_fn (\<lambda>i. p ! i) i)" using e by (metis eqQ_trans)
    have "0 \<le> canon (x ! i)" "canon (x ! i) < 3329" by (simp_all add: canon_def Q_def)
    then show "\<bar>List.map canon x ! i\<bar> \<le> 16383" by (simp add: e(2))
  qed
  then obtain y where "intt_standard (List.map canon x) = Inr y" "List.map canon y = List.map canon p"
    using intt_ntt_rep r by blast
  then show ?thesis by (simp add: x(1))
qed

end
