(* ===== verification/Poly_Mul.thy ===== *)
theory Poly_Mul
  imports Ntt
begin

text \<open>
  The multiplication pipeline of \<open>primer1/scripts/reference_checks.py\<close>: the transform turns the product in
  \<open>Z_3329[X] / (X^256 + 1)\<close> into 128 products modulo quadratic polynomials, which \<open>basemul_standard\<close>
  computes, so that transform, base-case multiplication and inverse transform together compute the
  schoolbook product \<open>negacyclic\<close>.
\<close>

section \<open>Products modulo a binomial\<close>

text \<open>The coefficient of \<open>X^k\<close> in \<open>X^m\<close> modulo \<open>X^n - c\<close>, for \<open>m < 2 n\<close>.\<close>

definition monom_coeff :: "nat \<Rightarrow> int \<Rightarrow> nat \<Rightarrow> nat \<Rightarrow> int" where
  "monom_coeff n c m k = (if m = k then 1 else if m = k + n then c else 0)"

definition conv :: "nat \<Rightarrow> int \<Rightarrow> (nat \<Rightarrow> int) \<Rightarrow> (nat \<Rightarrow> int) \<Rightarrow> nat \<Rightarrow> int" where
  "conv n c f g k = (\<Sum>i<n. \<Sum>j<n. f i * g j * monom_coeff n c (i + j) k)"

lemma conv_cong:
  assumes "eqQ c c'" and "\<And>i. i < n \<Longrightarrow> eqQ (f i) (f' i)" and "\<And>i. i < n \<Longrightarrow> eqQ (g i) (g' i)"
  shows "eqQ (conv n c f g k) (conv n c' f' g' k)"
  unfolding conv_def
proof (intro eqQ_sum eqQ_mult)
  show "eqQ (monom_coeff n c (i + j) k) (monom_coeff n c' (i + j) k)" for i j
    using assms(1) by (simp add: monom_coeff_def)
qed (use assms(2,3) in simp_all)

lemma sum_halves: "(\<Sum>i<2 * (n :: nat). h i) = (\<Sum>i<n. h i + (h (i + n) :: int))"
proof -
  have "(\<Sum>i<n + n. h i) = (\<Sum>i<n. h i) + (\<Sum>i<n. h (n + i))"
    by (simp add: lessThan_atLeast0 sum.nat_ivl_Suc' sum.atLeastLessThan_concat [symmetric, of 0 n "n + n"]
        sum.shift_bounds_nat_ivl [of h 0 n n, simplified] add.commute)
  then show ?thesis by (simp add: sum.distrib add.commute mult_2)
qed

text \<open>Reducing modulo \<open>X^n - z\<close> is a homomorphism on products modulo \<open>X^2n - z^2\<close>.\<close>

lemma monom_coeff_split:
  fixes z :: int
  assumes "i < n" and "j < n" and "k < n"
  defines "M \<equiv> \<lambda>m. monom_coeff (2 * n) (z * z) m k + z * monom_coeff (2 * n) (z * z) m (k + n)"
  shows "M (i + j) = monom_coeff n z (i + j) k"
    and "M (i + (j + n)) = z * monom_coeff n z (i + j) k"
    and "M (i + n + j) = z * monom_coeff n z (i + j) k"
    and "M (i + n + (j + n)) = z * z * monom_coeff n z (i + j) k"
  using assms(1-3) unfolding M_def monom_coeff_def by (auto split: if_splits)

lemma conv_split:
  assumes k: "k < n"
  shows "conv n z (\<lambda>i. f i + z * f (i + n)) (\<lambda>i. g i + z * g (i + n)) k =
    conv (2 * n) (z * z) f g k + z * conv (2 * n) (z * z) f g (k + n)"
proof -
  let ?M = "\<lambda>m. monom_coeff (2 * n) (z * z) m k + z * monom_coeff (2 * n) (z * z) m (k + n)"
  have "conv (2 * n) (z * z) f g k + z * conv (2 * n) (z * z) f g (k + n) =
      (\<Sum>i<2 * n. \<Sum>j<2 * n. f i * g j * ?M (i + j))"
    unfolding conv_def sum_distrib_left sum.distrib [symmetric] by (simp add: algebra_simps)
  also have "\<dots> = (\<Sum>i<n. \<Sum>j<n. f i * g j * ?M (i + j) + f i * g (j + n) * ?M (i + (j + n)) +
      (f (i + n) * g j * ?M (i + n + j) + f (i + n) * g (j + n) * ?M (i + n + (j + n))))"
    unfolding sum_halves sum.distrib [symmetric] ..
  also have "\<dots> = (\<Sum>i<n. \<Sum>j<n. (f i + z * f (i + n)) * (g j + z * g (j + n)) * monom_coeff n z (i + j) k)"
  proof (intro sum.cong refl)
    fix i j assume "i \<in> {..<n}" "j \<in> {..<n}"
    then have ij: "i < n" "j < n" by simp_all
    show "f i * g j * ?M (i + j) + f i * g (j + n) * ?M (i + (j + n)) +
      (f (i + n) * g j * ?M (i + n + j) + f (i + n) * g (j + n) * ?M (i + n + (j + n))) =
      (f i + z * f (i + n)) * (g j + z * g (j + n)) * monom_coeff n z (i + j) k"
      unfolding monom_coeff_split [OF ij k] by (simp add: algebra_simps)
  qed
  also have "\<dots> = conv n z (\<lambda>i. f i + z * f (i + n)) (\<lambda>i. g i + z * g (i + n)) k" by (simp add: conv_def)
  finally show ?thesis by simp
qed

section \<open>The product by levels\<close>

text \<open>At level \<open>n\<close> a product is taken in each of \<open>n\<close> blocks, modulo \<open>X^(256/n) - modulus n b\<close> in block \<open>b\<close>.\<close>

definition modulus :: "nat \<Rightarrow> nat \<Rightarrow> int" where
  "modulus n b = (if n = 1 then -1 else if even b then zeta (n div 2 + b div 2) else - zeta (n div 2 + b div 2))"

definition level_mul :: "nat \<Rightarrow> (nat \<Rightarrow> int) \<Rightarrow> (nat \<Rightarrow> int) \<Rightarrow> nat \<Rightarrow> int" where
  "level_mul n f g i = (let s = 256 div n; b = i div s in
     conv s (modulus n b) (\<lambda>q. f (b * s + q)) (\<lambda>q. g (b * s + q)) (i mod s))"

lemma modulus_square:
  assumes "n \<in> set levels" and "b < n"
  shows "eqQ (zeta (n + b) * zeta (n + b)) (modulus n b)"
proof (cases "n = 1")
  case True
  then show ?thesis using zeta_1 assms(2) by (simp add: modulus_def)
next
  case False
  define m a where "m = n div 2" and "a = m + b div 2"
  have n: "n = 2 * m" "1 \<le> m" "m \<le> 32" using assms(1) False by (auto simp: levels_def m_def)
  have a: "1 \<le> a" "a < 64" using n assms(2) by (auto simp: a_def)
  show ?thesis
  proof (cases "even b")
    case True
    then have "n + b = 2 * a" using n(1) by (auto simp: a_def)
    then show ?thesis using zeta_square(1) [OF a] True False by (simp add: modulus_def a_def m_def)
  next
    case odd: False
    then have "n + b = 2 * a + 1" using n(1) by (auto simp: a_def elim!: oddE)
    then show ?thesis using zeta_square(2) [OF a] odd False by (simp add: modulus_def a_def m_def)
  qed
qed

lemma level_split_mul:
  assumes n: "n \<in> set levels"
  shows "feq (level_mul (2 * n) (level_split n f) (level_split n g)) (level_split n (level_mul n f g))"
  unfolding feq_def
proof (intro allI impI)
  fix i :: nat assume i: "i < 256"
  define l where "l = 128 div n"
  note lv = level_cases [OF n, folded l_def]
  have s: "256 div n = 2 * l" "256 div (2 * n) = l" using n by (auto simp: l_def levels_def)
  define b q where "b = i div (2 * l)" and "q = i mod (2 * l)"
  have b: "b < n" using pair_index(1) [OF lv(3,4) i] by (simp add: b_def)
  have iq: "i = b * (2 * l) + q" unfolding b_def q_def by (rule div_mult_mod_eq [symmetric])
  have q: "q < 2 * l" using lv(3) by (simp add: q_def)
  define F G where "F = (\<lambda>j. f (b * (2 * l) + j))" and "G = (\<lambda>j. g (b * (2 * l) + j))"
  let ?z = "zeta (n + b)"
  have lo: "level_split n h (2 * b * l + j) = h (b * (2 * l) + j) + ?z * h (b * (2 * l) + (j + l))"
    and hi: "level_split n h ((2 * b + 1) * l + j) = h (b * (2 * l) + j) - ?z * h (b * (2 * l) + (j + l))"
    if "j < l" for h j
  proof -
    have e: "2 * b * l + j = b * (2 * l) + j" "(2 * b + 1) * l + j = b * (2 * l) + (j + l)" by simp_all
    have "(b * (2 * l) + j) div (2 * l) = b" "(b * (2 * l) + j) mod (2 * l) = j"
      "(b * (2 * l) + (j + l)) div (2 * l) = b" "(b * (2 * l) + (j + l)) mod (2 * l) = j + l"
      using that by simp_all
    then show "level_split n h (2 * b * l + j) = h (b * (2 * l) + j) + ?z * h (b * (2 * l) + (j + l))"
      "level_split n h ((2 * b + 1) * l + j) = h (b * (2 * l) + j) - ?z * h (b * (2 * l) + (j + l))"
      using that unfolding level_split_def split_at_def l_def [symmetric] e by (simp_all add: algebra_simps)
  qed
  have mulAt: "level_mul n f g (b * (2 * l) + p) = conv (2 * l) (modulus n b) F G p" if "p < 2 * l" for p
    using that lv(3) by (simp add: level_mul_def s Let_def F_def G_def)
  have sq: "eqQ (conv (2 * l) (?z * ?z) F G p) (level_mul n f g (b * (2 * l) + p))" if "p < 2 * l" for p
    unfolding mulAt [OF that] by (rule conv_cong [OF modulus_square [OF n b]]) simp_all
  show "eqQ (level_mul (2 * n) (level_split n f) (level_split n g) i) (level_split n (level_mul n f g) i)"
  proof (cases "q < l")
    case True
    have i2: "i = 2 * b * l + q" using iq by simp
    have d: "i div l = 2 * b" "i mod l = q" unfolding i2 using True by simp_all
    have m: "modulus (2 * n) (2 * b) = ?z" using lv(1) by (simp add: modulus_def)
    have "level_mul (2 * n) (level_split n f) (level_split n g) i =
        conv l ?z (\<lambda>j. level_split n f (2 * b * l + j)) (\<lambda>j. level_split n g (2 * b * l + j)) q"
      by (simp add: level_mul_def s Let_def d m)
    also have "eqQ \<dots> (conv l ?z (\<lambda>j. F j + ?z * F (j + l)) (\<lambda>j. G j + ?z * G (j + l)) q)"
      by (rule conv_cong) (simp_all add: lo F_def G_def)
    also have "\<dots> = conv (2 * l) (?z * ?z) F G q + ?z * conv (2 * l) (?z * ?z) F G (q + l)"
      by (rule conv_split [OF True])
    also have "eqQ \<dots> (level_mul n f g (b * (2 * l) + q) + ?z * level_mul n f g (b * (2 * l) + (q + l)))"
      using True by (intro eqQ_add eqQ_mult sq) simp_all
    also have "\<dots> = level_split n (level_mul n f g) i"
      using lo [OF True, of "level_mul n f g"] iq by (simp add: mult.commute mult.left_commute)
    finally show ?thesis .
  next
    case False
    define p where "p = q - l"
    have p: "p < l" "q = p + l" using False q by (simp_all add: p_def)
    have i2: "i = (2 * b + 1) * l + p" using iq p(2) by simp
    have d: "i div l = 2 * b + 1" "i mod l = p"
      unfolding i2 by ((subst div_mult_self3 mod_mult_self3)?; use p(1) in simp)+
    have m: "modulus (2 * n) (2 * b + 1) = - ?z" using lv(1) by (simp add: modulus_def)
    have "level_mul (2 * n) (level_split n f) (level_split n g) i =
        conv l (- ?z) (\<lambda>j. level_split n f ((2 * b + 1) * l + j)) (\<lambda>j. level_split n g ((2 * b + 1) * l + j)) p"
      unfolding level_mul_def s Let_def d m ..
    also have "eqQ \<dots> (conv l (- ?z) (\<lambda>j. F j + - ?z * F (j + l)) (\<lambda>j. G j + - ?z * G (j + l)) p)"
      by (rule conv_cong) (simp_all only: F_def G_def hi mult_minus_left diff_conv_add_uminus eqQ_refl)
    also have "\<dots> = conv (2 * l) (- ?z * - ?z) F G p + - ?z * conv (2 * l) (- ?z * - ?z) F G (p + l)"
      by (rule conv_split [OF p(1)])
    also have "eqQ \<dots> (level_mul n f g (b * (2 * l) + p) + - ?z * level_mul n f g (b * (2 * l) + (p + l)))"
      using p(1) by (intro eqQ_add eqQ_mult) (simp_all add: sq)
    also have "\<dots> = level_split n (level_mul n f g) i"
      using hi [OF p(1), of "level_mul n f g"] by (simp only: i2 mult_minus_left diff_conv_add_uminus)
    finally show ?thesis .
  qed
qed

lemma level_split_feq:
  assumes n: "n \<in> set levels" and "feq f g"
  shows "feq (level_split n f) (level_split n g)"
  unfolding feq_def
proof (intro allI impI)
  fix i :: nat assume i: "i < 256"
  have e: "eqQ (f j) (g j)" if "j < 256" for j using assms(2) that by (simp add: feq_def)
  note px = pair_index [OF level_cases(3,4) [OF n] i]
  show "eqQ (level_split n f i) (level_split n g i)"
    using px(2,3) i unfolding level_split_def split_at_def
    by (auto intro!: eqQ_add eqQ_diff eqQ_mult e)
qed

lemma splits_feq: "feq f g \<Longrightarrow> set ns \<subseteq> set levels \<Longrightarrow>
    feq (foldl (\<lambda>f n. level_split n f) f ns) (foldl (\<lambda>f n. level_split n f) g ns)"
  by (induction ns arbitrary: f g) (simp_all add: level_split_feq)

lemma splits_mul:
  "m \<le> 7 \<Longrightarrow> feq (level_mul (2 ^ m) (foldl (\<lambda>f n. level_split n f) f (List.map (power 2) [0..<m]))
       (foldl (\<lambda>f n. level_split n f) g (List.map (power 2) [0..<m])))
     (foldl (\<lambda>f n. level_split n f) (level_mul 1 f g) (List.map (power 2) [0..<m]))"
proof (induction m)
  case (Suc m)
  have "m < 7" using Suc.prems by simp
  then have "m \<in> {0, 1, 2, 3, 4, 5, 6}" by auto
  then have n: "2 ^ m \<in> set levels" by (auto simp: levels_def)
  from level_split_feq [OF n Suc.IH] level_split_mul [OF n] Suc.prems show ?case
    by (auto intro: feq_trans)
qed simp

lemma levels_powers: "levels = List.map (power 2) [0..<7]"
  by (simp add: levels_def upt_rec)

lemma ntt_fn_mul: "feq (level_mul 128 (ntt_fn f) (ntt_fn g)) (ntt_fn (level_mul 1 f g))"
  using splits_mul [of 7 f g] by (simp add: ntt_fn_def levels_powers)

section \<open>The base-case multiplication\<close>

text \<open>The value written to position \<open>p\<close>; the products with \<open>fqmul\<close> carry factors \<open>Rinv\<close> that the last one
  cancels.\<close>

definition basemul_at :: "int list \<Rightarrow> int list \<Rightarrow> nat \<Rightarrow> int" where
  "basemul_at a b p =
     (let j = 2 * (p div 2); z = (if even (p div 2) then ZETAS ! (64 + p div 4) else - ZETAS ! (64 + p div 4))
      in if even p then fqmul (i16 (fqmul (fqmul (a ! (j + 1)) (b ! (j + 1))) z + fqmul (a ! j) (b ! j))) 1353
         else fqmul (i16 (fqmul (a ! j) (b ! (j + 1)) + fqmul (a ! (j + 1)) (b ! j))) 1353)"

definition basemul_upto :: "int list \<Rightarrow> int list \<Rightarrow> nat \<Rightarrow> int list" where
  "basemul_upto a b n = foldl (\<lambda>r i. foldl (basemul_pair a b) r
      [(i, 0, ZETAS ! (64 + i)), (i, 2, - ZETAS ! (64 + i))]) (replicate 256 0) [0..<n]"

lemma basemul_fold:
  "n \<le> 64 \<Longrightarrow> length (basemul_upto a b n) = 256 \<and> (\<forall>p < 4 * n. basemul_upto a b n ! p = basemul_at a b p)"
proof (induction n)
  case 0
  show ?case by (simp add: basemul_upto_def)
next
  case (Suc n)
  let ?r = "basemul_upto a b n"
  from Suc have l: "length ?r = 256" and IH: "\<And>p. p < 4 * n \<Longrightarrow> ?r ! p = basemul_at a b p" by simp_all
  have v: "basemul_at a b (4 * n) = fqmul (i16 (fqmul (fqmul (a ! (4 * n + 1)) (b ! (4 * n + 1))) (ZETAS ! (64 + n))
        + fqmul (a ! (4 * n)) (b ! (4 * n)))) 1353"
    "basemul_at a b (4 * n + 1) = fqmul (i16 (fqmul (a ! (4 * n)) (b ! (4 * n + 1))
        + fqmul (a ! (4 * n + 1)) (b ! (4 * n)))) 1353"
    "basemul_at a b (4 * n + 2) = fqmul (i16 (fqmul (fqmul (a ! (4 * n + 2 + 1)) (b ! (4 * n + 2 + 1)))
        (- ZETAS ! (64 + n)) + fqmul (a ! (4 * n + 2)) (b ! (4 * n + 2)))) 1353"
    "basemul_at a b (4 * n + 2 + 1) = fqmul (i16 (fqmul (a ! (4 * n + 2)) (b ! (4 * n + 2 + 1))
        + fqmul (a ! (4 * n + 2 + 1)) (b ! (4 * n + 2)))) 1353"
  proof -
    have d: "4 * n div 2 = 2 * n" "(4 * n + 1) div 2 = 2 * n" "(4 * n + 2) div 2 = 2 * n + 1"
      "(4 * n + 2 + 1) div 2 = 2 * n + 1" "4 * n div 4 = n" "(4 * n + 1) div 4 = n" "(4 * n + 2) div 4 = n"
      "(4 * n + 2 + 1) div 4 = n" "even (4 * n)" "odd (4 * n + 1)" "even (4 * n + 2)" "odd (4 * n + 2 + 1)"
      "even (2 * n)" "odd (2 * n + 1)" "2 * (2 * n) = 4 * n" "2 * (2 * n + 1) = 4 * n + 2"
      by auto
    show "basemul_at a b (4 * n) = fqmul (i16 (fqmul (fqmul (a ! (4 * n + 1)) (b ! (4 * n + 1))) (ZETAS ! (64 + n))
        + fqmul (a ! (4 * n)) (b ! (4 * n)))) 1353"
      "basemul_at a b (4 * n + 1) = fqmul (i16 (fqmul (a ! (4 * n)) (b ! (4 * n + 1))
        + fqmul (a ! (4 * n + 1)) (b ! (4 * n)))) 1353"
      "basemul_at a b (4 * n + 2) = fqmul (i16 (fqmul (fqmul (a ! (4 * n + 2 + 1)) (b ! (4 * n + 2 + 1)))
        (- ZETAS ! (64 + n)) + fqmul (a ! (4 * n + 2)) (b ! (4 * n + 2)))) 1353"
      "basemul_at a b (4 * n + 2 + 1) = fqmul (i16 (fqmul (a ! (4 * n + 2)) (b ! (4 * n + 2 + 1))
        + fqmul (a ! (4 * n + 2 + 1)) (b ! (4 * n + 2)))) 1353"
      unfolding basemul_at_def Let_def d by (simp_all only: d if_True if_False simp_thms)
  qed
  have step: "basemul_upto a b (Suc n) =
    ?r[4 * n := basemul_at a b (4 * n), 4 * n + 1 := basemul_at a b (4 * n + 1),
       4 * n + 2 := basemul_at a b (4 * n + 2), 4 * n + 2 + 1 := basemul_at a b (4 * n + 2 + 1)]"
    unfolding v by (simp add: basemul_upto_def basemul_pair_def Let_def del: replicate.simps)
  show ?case unfolding step
  proof (intro conjI allI impI)
    show "length (?r[4 * n := basemul_at a b (4 * n), 4 * n + 1 := basemul_at a b (4 * n + 1),
       4 * n + 2 := basemul_at a b (4 * n + 2), 4 * n + 2 + 1 := basemul_at a b (4 * n + 2 + 1)]) = 256"
      using l by simp
    fix p assume p: "p < 4 * Suc n"
    have bd: "4 * n + 2 + 1 < length ?r" using Suc.prems l by simp
    have "p < Suc (Suc (Suc (Suc (4 * n))))" using p by simp
    then consider "p < 4 * n" | "p = 4 * n" | "p = 4 * n + 1" | "p = 4 * n + 2" | "p = 4 * n + 2 + 1"
      unfolding less_Suc_eq by auto
    then show "?r[4 * n := basemul_at a b (4 * n), 4 * n + 1 := basemul_at a b (4 * n + 1),
       4 * n + 2 := basemul_at a b (4 * n + 2), 4 * n + 2 + 1 := basemul_at a b (4 * n + 2 + 1)] ! p =
       basemul_at a b p"
      using IH bd by cases (simp_all add: nth_list_update)
  qed
qed

text \<open>Bounds and residues of one quadratic product; inputs up to 31057 keep every sum within 16 bits.\<close>

lemma fqmul_pair:
  assumes "\<bar>x\<bar> \<le> 31057" and "\<bar>y\<bar> \<le> 31057" and "eqQ x u" and "eqQ y v"
  shows "eqQ (fqmul x y) (u * v * Rinv)" and "\<bar>fqmul x y\<bar> \<le> 16383"
proof -
  have i: "in16 x" "in16 y" using assms(1,2) by (simp_all add: in16_abs(1))
  show "eqQ (fqmul x y) (u * v * Rinv)"
    by (rule eqQ_trans [OF fqmul_residue [OF i]]) (intro eqQ_mult assms eqQ_refl)
  show "\<bar>fqmul x y\<bar> \<le> 16383"
    using fqmul_bound [OF i assms(1,2), of 14718] by simp
qed

lemma fqmul_last:
  assumes "\<bar>x\<bar> \<le> 32766" and "eqQ x (w * Rinv)"
  shows "eqQ (fqmul (i16 x) 1353) w" and "\<bar>fqmul (i16 x) 1353\<bar> \<le> 2495"
proof -
  have i: "in16 x" "in16 1353" using assms(1) by (simp_all add: in16_def abs_le_iff)
  have R: "eqQ (1353 * Rinv * Rinv) 1" by (simp add: eqQ_def Q_def Rinv_def)
  have "eqQ (fqmul x 1353) (x * 1353 * Rinv)" by (rule fqmul_residue [OF i])
  also have "eqQ \<dots> (w * Rinv * 1353 * Rinv)" by (intro eqQ_mult assms(2) eqQ_refl)
  also have "\<dots> = w * (1353 * Rinv * Rinv)" by simp
  also have "eqQ \<dots> (w * 1)" by (intro eqQ_mult R eqQ_refl)
  finally show "eqQ (fqmul (i16 x) 1353) w" using i by simp
  have "\<bar>fqmul x 1353\<bar> \<le> 830 + 1665" using fqmul_bound [OF i assms(1), of 1353 830] by simp
  then show "\<bar>fqmul (i16 x) 1353\<bar> \<le> 2495" using i by simp
qed

lemma basemul_at_rep:
  assumes a: "rep 31057 a f" and b: "rep 31057 b g" and p: "p < 256"
  shows "eqQ (basemul_at a b p) (level_mul 128 f g p)" and "\<bar>basemul_at a b p\<bar> \<le> 2495"
proof -
  define j where "j = 2 * (p div 2)"
  define k where "k = 64 + p div 4"
  define z where "z = (if even (p div 2) then ZETAS ! k else - ZETAS ! k)"
  have "p div 2 < 128" using p by (simp add: less_mult_imp_div_less)
  then have j: "j < 256" "j + 1 < 256" by (simp_all add: j_def)
  have k: "k < 128" using p by (simp add: k_def)
  have m: "modulus 128 (p div 2) = z * Rinv"
    by (simp add: modulus_def z_def k_def zeta_def div_mult2_eq [symmetric])
  have z: "\<bar>z\<bar> \<le> 1659" "in16 z" using ZETAS_bound [OF k] by (auto simp: z_def in16_def abs_le_iff)
  have at: "eqQ (a ! i) (f i)" "\<bar>a ! i\<bar> \<le> 31057" "eqQ (b ! i) (g i)" "\<bar>b ! i\<bar> \<le> 31057" if "i < 256" for i
    using a b that by (simp_all add: rep_def)
  have w: "eqQ (fqmul (a ! x) (b ! y)) (f x * g y * Rinv)" "\<bar>fqmul (a ! x) (b ! y)\<bar> \<le> 16383"
    if "x < 256" "y < 256" for x y
    using fqmul_pair [OF at(2) [OF that(1)] at(4) [OF that(2)] at(1) [OF that(1)] at(3) [OF that(2)]] by simp_all
  let ?h = "fqmul (a ! (j + 1)) (b ! (j + 1))"
  have h16: "in16 ?h" using w(2) [OF j(2) j(2)] by (intro in16_abs(1)) simp
  have hz: "eqQ (fqmul ?h z) (f (j + 1) * g (j + 1) * Rinv * z * Rinv)" "\<bar>fqmul ?h z\<bar> \<le> 2495"
  proof -
    show "eqQ (fqmul ?h z) (f (j + 1) * g (j + 1) * Rinv * z * Rinv)"
      by (rule eqQ_trans [OF fqmul_residue [OF h16 z(2)]]) (intro eqQ_mult w j eqQ_refl)
    show "\<bar>fqmul ?h z\<bar> \<le> 2495"
      using fqmul_bound [OF h16 z(2) w(2) [OF j(2) j(2)] z(1), of 830] by simp
  qed
  have x0: "eqQ (fqmul ?h z + fqmul (a ! j) (b ! j)) ((f j * g j + modulus 128 (p div 2) * (f (j + 1) * g (j + 1))) * Rinv)"
    using eqQ_add [OF hz(1) w(1) [OF j(1) j(1)]] by (simp add: m algebra_simps)
  have x1: "eqQ (fqmul (a ! j) (b ! (j + 1)) + fqmul (a ! (j + 1)) (b ! j)) ((f j * g (j + 1) + f (j + 1) * g j) * Rinv)"
    using eqQ_add [OF w(1) [OF j(1) j(2)] w(1) [OF j(2) j(1)]] by (simp add: algebra_simps)
  have b0: "\<bar>fqmul ?h z + fqmul (a ! j) (b ! j)\<bar> \<le> 32766"
    using hz(2) w(2) [OF j(1) j(1)] by linarith
  have b1: "\<bar>fqmul (a ! j) (b ! (j + 1)) + fqmul (a ! (j + 1)) (b ! j)\<bar> \<le> 32766"
    using w(2) [OF j(1) j(2)] w(2) [OF j(2) j(1)] by linarith
  have lm: "level_mul 128 f g p = conv 2 (modulus 128 (p div 2)) (\<lambda>q. f (j + q)) (\<lambda>q. g (j + q)) (p mod 2)"
    by (simp add: level_mul_def Let_def j_def mult.commute)
  have bm: "basemul_at a b p = (if even p then fqmul (i16 (fqmul ?h z + fqmul (a ! j) (b ! j))) 1353
      else fqmul (i16 (fqmul (a ! j) (b ! (j + 1)) + fqmul (a ! (j + 1)) (b ! j))) 1353)"
    by (simp only: basemul_at_def Let_def j_def k_def z_def)
  have c: "conv 2 c F G 0 = F 0 * G 0 + c * (F 1 * G 1)" "conv 2 c F G 1 = F 0 * G 1 + F 1 * G 0"
    for c :: int and F G :: "nat \<Rightarrow> int"
    by (simp_all add: conv_def monom_coeff_def numeral_2_eq_2)
  show "\<bar>basemul_at a b p\<bar> \<le> 2495" unfolding bm using fqmul_last(2) [OF b0 x0] fqmul_last(2) [OF b1 x1] by simp
  show "eqQ (basemul_at a b p) (level_mul 128 f g p)"
  proof (cases "even p")
    case True
    then have "p mod 2 = 0" by simp
    then show ?thesis using fqmul_last(1) [OF b0 x0] True unfolding bm lm by (simp add: c)
  next
    case False
    then have "p mod 2 = 1" by (simp add: odd_iff_mod_2_eq_one)
    then show ?thesis using fqmul_last(1) [OF b1 x1] False c(2) unfolding bm lm by simp
  qed
qed

lemma basemul_rep:
  assumes "rep 31057 a f" and "rep 31057 b g"
  obtains r where "basemul_standard a b = Inr r" "rep 2495 r (level_mul 128 f g)"
proof -
  have "basemul_standard a b = Inr (basemul_upto a b 64)"
    using assms by (simp add: basemul_standard_def basemul_upto_def check_def rep_def)
  moreover have "rep 2495 (basemul_upto a b 64) (level_mul 128 f g)"
    using basemul_fold [of 64 a b] basemul_at_rep [OF assms] by (simp add: rep_def)
  ultimately show thesis by (rule that)
qed

section \<open>The schoolbook product\<close>

lemma negacyclic_inner:
  assumes "length out = 256" and "i < 256" and "m \<le> 256"
  shows "length (foldl (negacyclic_step a b i) out [0..<m]) = 256 \<and>
    (\<forall>k < 256. foldl (negacyclic_step a b i) out [0..<m] ! k =
      out ! k + (\<Sum>j<m. a ! i * b ! j * monom_coeff 256 (-1) (i + j) k))"
  using assms(3)
proof (induction m)
  case (Suc m)
  let ?o = "foldl (negacyclic_step a b i) out [0..<m]"
  from Suc have l: "length ?o = 256" and IH: "\<And>k. k < 256 \<Longrightarrow>
      ?o ! k = out ! k + (\<Sum>j<m. a ! i * b ! j * monom_coeff 256 (-1) (i + j) k)" by simp_all
  have "negacyclic_step a b i ?o m ! k = ?o ! k + a ! i * b ! m * monom_coeff 256 (-1) (i + m) k"
    if "k < 256" for k
    using that l assms(2) Suc.prems by (auto simp: negacyclic_step_def Let_def monom_coeff_def nth_list_update)
  moreover have "length (negacyclic_step a b i ?o m) = 256" using l by (simp add: negacyclic_step_def Let_def)
  ultimately show ?case using IH by (simp add: algebra_simps)
qed (use assms(1) in simp)

lemma negacyclic_outer:
  assumes "length b = 256" and "m \<le> 256"
  shows "length (foldl (\<lambda>out i. foldl (negacyclic_step a b i) out [0..<length b]) (replicate 256 0) [0..<m]) = 256 \<and>
    (\<forall>k < 256. foldl (\<lambda>out i. foldl (negacyclic_step a b i) out [0..<length b]) (replicate 256 0) [0..<m] ! k =
      (\<Sum>i<m. \<Sum>j<256. a ! i * b ! j * monom_coeff 256 (-1) (i + j) k))"
  using assms(2)
proof (induction m)
  case (Suc m)
  let ?o = "foldl (\<lambda>out i. foldl (negacyclic_step a b i) out [0..<length b]) (replicate 256 0) [0..<m]"
  from Suc have l: "length ?o = 256" by simp
  show ?case using Suc negacyclic_inner [OF l, of m 256 a b] assms(1) by simp
qed simp

lemma negacyclic_eq:
  assumes "length a = 256" and "length b = 256"
  shows "negacyclic a b = Inr (List.map (\<lambda>k. canon (level_mul 1 (\<lambda>i. a ! i) (\<lambda>i. b ! i) k)) [0..<256])"
proof -
  note o = negacyclic_outer [OF assms(2), of 256 a]
  have n: "negacyclic a b = Inr (List.map (\<lambda>v. v mod Q)
      (foldl (\<lambda>out i. foldl (negacyclic_step a b i) out [0..<length b]) (replicate 256 0) [0..<256]))"
    using assms by (simp add: negacyclic_def check_def)
  have "List.map (\<lambda>v. v mod Q)
      (foldl (\<lambda>out i. foldl (negacyclic_step a b i) out [0..<length b]) (replicate 256 0) [0..<256]) =
    List.map (\<lambda>k. canon (level_mul 1 (\<lambda>i. a ! i) (\<lambda>i. b ! i) k)) [0..<256]"
  proof (rule nth_equalityI)
    show "length (List.map (\<lambda>v. v mod Q)
      (foldl (\<lambda>out i. foldl (negacyclic_step a b i) out [0..<length b]) (replicate 256 0) [0..<256])) =
      length (List.map (\<lambda>k. canon (level_mul 1 (\<lambda>i. a ! i) (\<lambda>i. b ! i) k)) [0..<256])" using o by simp
    fix k assume "k < length (List.map (\<lambda>v. v mod Q)
      (foldl (\<lambda>out i. foldl (negacyclic_step a b i) out [0..<length b]) (replicate 256 0) [0..<256]))"
    then have k: "k < 256" using o by simp
    then show "List.map (\<lambda>v. v mod Q)
      (foldl (\<lambda>out i. foldl (negacyclic_step a b i) out [0..<length b]) (replicate 256 0) [0..<256]) ! k =
      List.map (\<lambda>k. canon (level_mul 1 (\<lambda>i. a ! i) (\<lambda>i. b ! i) k)) [0..<256] ! k"
      using o by (simp add: canon_def level_mul_def conv_def modulus_def Let_def)
  qed
  then show ?thesis using n by simp
qed

lemma canon_rep: "rep 3329 (List.map (\<lambda>k. canon (h k)) [0..<256]) h"
proof -
  have "eqQ (canon x) x" "\<bar>canon x\<bar> \<le> 3329" for x
    using pos_mod_bound [of Q x] pos_mod_sign [of Q x] by (simp_all add: eqQ_canon canon_def Q_def)
  then show ?thesis by (simp add: rep_def)
qed

text \<open>The pipeline computes the product.\<close>

lemma ntt_multiplies:
  assumes a: "small 13592 a" and b: "small 13592 b"
  shows "result_bind (ntt a) (\<lambda>x. result_bind (ntt b) (\<lambda>y. result_bind (basemul_standard x y) (\<lambda>p.
    result_bind (intt_standard p) (\<lambda>r. Inr (List.map canon r))))) = negacyclic a b"
proof -
  let ?f = "\<lambda>i. a ! i" and ?g = "\<lambda>i. b ! i"
  have r: "rep 13592 a ?f" "rep 13592 b ?g" using a b by (simp_all add: small_rep)
  obtain x where x: "ntt a = Inr x" "rep (13592 + 17465) x (ntt_fn ?f)"
    by (rule ntt_rep [OF r(1)]) simp_all
  obtain y where y: "ntt b = Inr y" "rep (13592 + 17465) y (ntt_fn ?g)"
    by (rule ntt_rep [OF r(2)]) simp_all
  have "rep 31057 x (ntt_fn ?f)" "rep 31057 y (ntt_fn ?g)" using x(2) y(2) by simp_all
  then obtain p where p: "basemul_standard x y = Inr p" "rep 2495 p (level_mul 128 (ntt_fn ?f) (ntt_fn ?g))"
    by (rule basemul_rep)
  have "rep 16383 p (ntt_fn (level_mul 1 ?f ?g))"
    using rep_mono [OF rep_feq [OF p(2) ntt_fn_mul]] by simp
  moreover define h where "h = level_mul 1 ?f ?g"
  moreover have "rep 3329 (List.map (\<lambda>k. canon (h k)) [0..<256]) h"
    by (rule canon_rep)
  ultimately obtain s where s: "intt_standard p = Inr s"
    "List.map canon s = List.map canon (List.map (\<lambda>k. canon (h k)) [0..<256])"
    using intt_ntt_rep [of p h 3329] by metis
  have "List.map canon s = List.map (\<lambda>k. canon (h k)) [0..<256]" unfolding s(2) by (simp add: canon_def)
  then show ?thesis using a b by (simp add: x y p s negacyclic_eq small_def h_def)
qed

end
