(* ===== verification/Spi_Reference.thy ===== *)
theory Spi_Reference
  imports Frames
begin

text \<open>
  The packet and checksum helpers of \<open>primer1/scripts/reference_checks.py\<close>, written there a second time
  beside the host's codec. They are compared with the host: the checksums are the same functions, the
  parser accepts the same packets, and the builder makes the host's packets.
\<close>

section \<open>Checksums\<close>

definition ref_crc16_shift :: "int \<Rightarrow> int" where
  "ref_crc16_shift c =
     (if c AND 0x8000 \<noteq> 0 then (push_bit 1 c XOR 0x1021) AND 0xFFFF else push_bit 1 c AND 0xFFFF)"

definition ref_crc16 :: "bytes \<Rightarrow> int" where
  "ref_crc16 data = foldl (\<lambda>c b. (ref_crc16_shift ^^ 8) (c XOR push_bit 8 (uint b))) 0xFFFF data"

definition ref_crc32c_shift :: "int \<Rightarrow> int" where
  "ref_crc32c_shift c = (if c AND 1 \<noteq> 0 then drop_bit 1 c XOR 0x82F63B78 else drop_bit 1 c)"

definition ref_crc32c :: "bytes \<Rightarrow> int" where
  "ref_crc32c data =
     NOT (foldl (\<lambda>c b. (ref_crc32c_shift ^^ 8) (c XOR uint b)) 0xFFFFFFFF data) AND 0xFFFFFFFF"

lemma ref_crc16_eq: "ref_crc16 data = crc16_ccitt_false data"
proof -
  have "ref_crc16_shift = crc16_shift" by (rule ext) (simp add: ref_crc16_shift_def crc16_shift_def)
  then show ?thesis
    by (simp add: ref_crc16_def crc16_ccitt_false_def crc16_ccitt_false_from_def crc16_byte_def [abs_def])
qed

lemma not_and_mask:
  assumes "take_bit 32 c = c"
  shows "NOT c AND 0xFFFFFFFF = c XOR (0xFFFFFFFF :: int)"
proof (rule bit_eqI)
  fix n
  have m: "(0xFFFFFFFF :: int) = mask 32" by (simp add: mask_eq_exp_minus_1)
  have "bit c n \<Longrightarrow> n < 32" by (metis assms bit_take_bit_iff)
  then show "bit (NOT c AND 0xFFFFFFFF) n = bit (c XOR 0xFFFFFFFF) n"
    unfolding m by (auto simp: bit_simps)
qed

lemma ref_crc32c_eq: "ref_crc32c data = crc32c data"
proof -
  have s: "ref_crc32c_shift = crc32c_shift" by (rule ext) (simp add: ref_crc32c_shift_def crc32c_shift_def)
  have f: "foldl crc32c_byte (uint w) data = uint (foldl crc32c_byte_w w data)" for w
    by (induction data arbitrary: w) (simp_all add: crc32c_byte_word)
  have i: "(0xFFFFFFFF :: int) = uint (0xFFFFFFFF :: 32 word)" by simp
  have "take_bit 32 (foldl crc32c_byte 0xFFFFFFFF data) = foldl crc32c_byte 0xFFFFFFFF data"
    unfolding i f using uint_lt2p [of "foldl crc32c_byte_w 0xFFFFFFFF data"]
    by (simp add: take_bit_int_eq_self_iff)
  then show ?thesis
    unfolding ref_crc32c_def crc32c_def crc32c_from_def s crc32c_byte_def [abs_def, symmetric]
    by (simp add: not_and_mask)
qed

section \<open>Packets\<close>

definition ref_spi_packet :: "int \<Rightarrow> int \<Rightarrow> bytes \<Rightarrow> int \<Rightarrow> bytes result" where
  "ref_spi_packet command txid payload flags =
     assert_that (length payload \<le> 66)
    (result_bind (bytes_of_list [0xA5, 0x01, command, flags]) (\<lambda>head.
     result_bind (int_to_bytes 2 txid) (\<lambda>id.
     result_bind (int_to_bytes 2 (int (length payload))) (\<lambda>len.
     let body = (head @ id @ len) @ payload
     in result_bind (int_to_bytes 2 (ref_crc16 body)) (\<lambda>crc. Inr (body @ crc))))))"

definition parse_spi :: "bytes \<Rightarrow> (int \<times> int \<times> bytes) result" where
  "parse_spi packet =
     assert_that (10 \<le> length packet \<and> length packet \<le> 76)
    (assert_that (take 2 packet = [0xA5, 0x01])
    (assert_that (uint (packet ! 3) AND 0xF0 = 0)
    (let len = be_int (slice 6 8 packet) in
     assert_that (int (length packet) = 10 + len)
    (assert_that (ref_crc16 (take (length packet - 2) packet) = be_int (drop (length packet - 2) packet))
    (Inr (uint (packet ! 2), be_int (slice 4 6 packet), slice 8 (length packet - 2) packet))))))"

text \<open>The header fields of a packet, by position.\<close>

lemma header_by_position:
  assumes "8 \<le> length p"
  shows "unpack_fields packet_header p =
    [uint (p ! 0), uint (p ! 1), uint (p ! 2), uint (p ! 3), be_int (slice 4 6 p), be_int (slice 6 8 p)]"
proof -
  have "take (Suc 0) (drop n p) = [p ! n]" if "n < 8" for n
    using that assms by (simp add: take_Suc_conv_app_nth hd_drop_conv_nth take_Suc)
  then have one: "be_int (take (Suc 0) (drop n p)) = uint (p ! n)" if "n < 8" for n
    using that be_int_snoc [of "[]" "p ! n"] by simp
  from one [of 0] one [of 1] one [of 2] one [of 3] show ?thesis
    by (simp add: packet_header_def slice_def numeral_eq_Suc)
qed

lemma low_nibble:
  fixes x :: byte
  shows "uint x AND 0xF0 = 0 \<longleftrightarrow> uint x < 16"
proof -
  have "uint x = uint x mod 16 + 16 * (uint x div 16)" by simp
  have "uint x AND 0xF0 = push_bit 4 (drop_bit 4 (uint x))"
  proof (rule bit_eqI)
    fix n
    have "bit (0xF0 :: int) n \<longleftrightarrow> 4 \<le> n \<and> n < 8"
    proof -
      have m: "(0xF0 :: int) = push_bit 4 (mask 4)" by (simp add: mask_eq_exp_minus_1 push_bit_eq_mult)
      show ?thesis unfolding m by (auto simp: bit_simps)
    qed
    then show "bit (uint x AND 0xF0) n = bit (push_bit 4 (drop_bit 4 (uint x))) n"
      by (auto simp: bit_simps dest: bit_imp_le_length)
  qed
  also have "\<dots> = 0 \<longleftrightarrow> uint x div 16 = 0" by (simp add: push_bit_eq_mult drop_bit_eq_div)
  also have "\<dots> \<longleftrightarrow> uint x < 16" by (auto simp: div_eq_0_iff not_le dest: order_trans)
  finally show ?thesis .
qed

lemma parse_spi_is_decode:
  "parse_spi p = Inr (command, txid, payload) \<longleftrightarrow>
     (\<exists>sp. spi_decode p = Inr sp \<and> sp_command sp = command \<and> sp_transaction_id sp = txid \<and>
        sp_payload sp = payload)"
proof (cases "10 \<le> length p")
  case True
  let ?h = "[uint (p ! 0), uint (p ! 1), uint (p ! 2), uint (p ! 3), be_int (slice 4 6 p), be_int (slice 6 8 p)]"
  have h: "unpack_fields packet_header p = ?h" using header_by_position True by simp
  have magic: "take 2 p = [0xA5, 0x01] \<longleftrightarrow> uint (p ! 0) = SPI_MAGIC \<and> uint (p ! 1) = PROTOCOL_VERSION"
  proof -
    obtain a b q where "p = a # b # q"
      using True by (cases p; cases "tl p") auto
    then have "take 2 p = [p ! 0, p ! 1]" by simp
    then show ?thesis by (simp add: protocol_sizes word_uint_eq_iff)
  qed
  show ?thesis
    using True by (auto simp: parse_spi_def spi_decode_def headers h magic low_nibble ref_crc16_eq Let_def
        result_bind_eq_Inr protocol_sizes)
next
  case False
  then show ?thesis by (simp add: parse_spi_def spi_decode_def headers)
qed

text \<open>The builder makes the host's packets; it also takes the reserved flag bits, which the parser then
  refuses, and does not reduce the command.\<close>

lemma ref_spi_packet_iff:
  "ref_spi_packet command txid payload flags = Inr w \<longleftrightarrow>
     length payload \<le> 66 \<and> 0 \<le> command \<and> command < 256 \<and> 0 \<le> flags \<and> flags < 256 \<and>
     0 \<le> txid \<and> txid < 65536 \<and>
     w = packet_bytes [0xA5, 1, command, flags, txid, int (length payload)] payload"
proof -
  have crc: "int_to_bytes 2 (ref_crc16 body) = Inr (to_be 2 (crc16_ccitt_false body))" for body
    using crc16_bounds [of body] by (simp add: int_to_bytes_def ref_crc16_eq)
  have b: "pack_fields packet_header [0xA5, 1, command, flags, txid, int (length payload)] =
      (List.map word_of_int [0xA5, 0x01, command, flags] @ to_be 2 txid) @ to_be 2 (int (length payload))"
    by (simp add: packet_header_def)
  show ?thesis
    unfolding ref_spi_packet_def packet_bytes_def b Let_def
    by (auto simp: result_bind_eq_Inr bytes_of_list_eq_Inr int_to_bytes_eq_Inr crc)
qed

lemma ref_spi_packet_encode:
  assumes "0 \<le> command" and "command < 256" and "0 \<le> flags" and "flags < 16"
  shows "ref_spi_packet command txid payload flags = Inr w \<longleftrightarrow>
    spi_encode \<lparr>sp_command = command, sp_flags = flags, sp_transaction_id = txid, sp_payload = payload,
      sp_version = PROTOCOL_VERSION\<rparr> = Inr w"
  using assms by (auto simp: ref_spi_packet_iff spi_encode_iff spi_wf_def spi_fields_def protocol_sizes)

text \<open>Parsing what the builder made.\<close>

lemma parse_built:
  assumes "ref_spi_packet command txid payload flags = Inr w"
  shows "parse_spi w = (if flags < 16 then Inr (command, txid, payload) else Inl (AssertionError ''assert''))"
proof -
  note b = assms [unfolded ref_spi_packet_iff]
  show ?thesis
  proof (cases "flags < 16")
    case True
    let ?p = "\<lparr>sp_command = command, sp_flags = flags, sp_transaction_id = txid, sp_payload = payload,
      sp_version = PROTOCOL_VERSION\<rparr>"
    have "spi_encode ?p = Inr w" using assms b True by (simp add: ref_spi_packet_encode)
    moreover have "spi_wf ?p" using b True by (simp add: spi_wf_def protocol_sizes)
    ultimately have "spi_decode w = Inr ?p" using spi.dec_iff by blast
    then have "parse_spi w = Inr (command, txid, payload)" unfolding parse_spi_is_decode by simp
    then show ?thesis using True by simp
  next
    case False
    have "10 \<le> length w" using b by simp
    then have "unpack_fields packet_header w = [uint (w ! 0), uint (w ! 1), uint (w ! 2), uint (w ! 3),
        be_int (slice 4 6 w), be_int (slice 6 8 w)]" by (intro header_by_position) simp
    moreover have "unpack_fields packet_header w = [0xA5, 1, command, flags, txid, int (length payload)]"
      using b by (simp add: packet_bytes_fields packet_header_fields_ok)
    ultimately have "uint (w ! 3) = flags" by simp
    then have "uint (w ! 3) AND 0xF0 \<noteq> 0" using False low_nibble [of "w ! 3"] by simp
    then show ?thesis using False by (auto simp: parse_spi_def assert_that_def)
  qed
qed

end
