(* ===== verification/Py_Regex.thy ===== *)
theory Py_Regex
  imports Py_Parse "HOL-Library.Sublist"
begin

text \<open>
  The part of Python's \<open>re\<close> that the scripts use, on characters below 256: a pattern is a value of \<open>regex\<close>, and
  \<open>matches\<close> lists every way it can match from a position, in the order the backtracking engine tries them. The
  first of them is what \<open>match\<close> returns; \<open>search\<close>, \<open>fullmatch\<close>, \<open>findall\<close> and \<open>sub\<close> are built on it. In all
  patterns here a repeated part takes at least one character.
\<close>

section \<open>Patterns and their matches\<close>

text \<open>A position in a text: the characters before it, the nearest first, and those after it. A state of the
  engine has the texts of the groups beside the position.\<close>

type_synonym position = "string \<times> string"
type_synonym groups = "(nat \<times> string) list"
type_synonym state = "position \<times> groups"

datatype regex =
    R_char "char \<Rightarrow> bool"
  | R_empty
  | R_seq regex regex
  | R_alt regex regex
  | R_star bool regex
  | R_group nat regex
  | R_boundary
  | R_start bool
  | R_finish bool
  | R_ahead regex

definition is_word_char :: "char \<Rightarrow> bool" where
  "is_word_char c =
     (let n = of_char c :: nat in 48 \<le> n \<and> n \<le> 57 \<or> 65 \<le> n \<and> n \<le> 90 \<or> n = 95 \<or> 97 \<le> n \<and> n \<le> 122 \<or>
        n \<in> {170, 178, 179, 181, 185, 186, 188, 189, 190} \<or> 192 \<le> n \<and> n \<noteq> 215 \<and> n \<noteq> 247)"

text \<open>\<open>[A-Za-z0-9_]\<close>.\<close>

definition is_identifier_char :: "char \<Rightarrow> bool" where
  "is_identifier_char c =
     (let n = of_char c :: nat in 48 \<le> n \<and> n \<le> 57 \<or> 65 \<le> n \<and> n \<le> 90 \<or> n = 95 \<or> 97 \<le> n \<and> n \<le> 122)"

fun word_before :: "position \<Rightarrow> bool" where
  "word_before (before, after) = (before \<noteq> [] \<and> is_word_char (hd before))"

fun word_after :: "position \<Rightarrow> bool" where
  "word_after (before, after) = (after \<noteq> [] \<and> is_word_char (hd after))"

text \<open>The text between two positions, the second one behind the first.\<close>

definition between :: "position \<Rightarrow> position \<Rightarrow> string" where
  "between p q = take (length (snd p) - length (snd q)) (snd p)"

definition shorter :: "state \<Rightarrow> state \<Rightarrow> bool" where
  "shorter m' m \<longleftrightarrow> length (snd (fst m')) < length (snd (fst m))"

text \<open>A repetition: one round more, or the end; the greedy one tries a round more first.\<close>

function star_matches :: "(state \<Rightarrow> state list) \<Rightarrow> bool \<Rightarrow> state \<Rightarrow> state list" where
  "star_matches f greedy m =
     (let more = concat (map (star_matches f greedy) (filter (\<lambda>m'. shorter m' m) (f m)))
      in if greedy then more @ [m] else m # more)"
  by pat_completeness auto
termination
  by (relation "measure (\<lambda>(f, greedy, m). length (snd (fst m)))") (auto simp: shorter_def)

declare star_matches.simps [simp del]

primrec matches :: "regex \<Rightarrow> state \<Rightarrow> state list" where
  "matches (R_char P) m =
     (case m of ((before, after), gs) \<Rightarrow>
        (case after of [] \<Rightarrow> [] | c # cs \<Rightarrow> if P c then [((c # before, cs), gs)] else []))"
| "matches R_empty m = [m]"
| "matches (R_seq r1 r2) m = concat (map (matches r2) (matches r1 m))"
| "matches (R_alt r1 r2) m = matches r1 m @ matches r2 m"
| "matches (R_star greedy r) m = star_matches (matches r) greedy m"
| "matches (R_group n r) m =
     map (\<lambda>(q, gs). (q, AList.update n (between (fst m) q) gs)) (matches r m)"
| "matches R_boundary m = (if word_before (fst m) \<noteq> word_after (fst m) then [m] else [])"
| "matches (R_start multiline) m =
     (case fst (fst m) of [] \<Rightarrow> [m] | c # _ \<Rightarrow> if multiline \<and> c = CHR 0x0A then [m] else [])"
| "matches (R_finish multiline) m =
     (case snd (fst m) of [] \<Rightarrow> [m]
      | c # cs \<Rightarrow> if c = CHR 0x0A \<and> (multiline \<or> cs = []) then [m] else [])"
| "matches (R_ahead r) m = (case matches r m of [] \<Rightarrow> [] | (_, gs) # _ \<Rightarrow> [(fst m, gs)])"

text \<open>Patterns in use: a literal text, a class, \<open>\s*\<close>, \<open>\s+\<close>, repetitions, optional alternatives.\<close>

primrec R_lit :: "string \<Rightarrow> regex" where
  "R_lit [] = R_empty"
| "R_lit (c # cs) = R_seq (R_char (\<lambda>x. x = c)) (R_lit cs)"

primrec R_all :: "regex list \<Rightarrow> regex" where
  "R_all [] = R_empty"
| "R_all (r # rs) = R_seq r (R_all rs)"

definition R_plus :: "regex \<Rightarrow> regex" where
  "R_plus r = R_seq r (R_star True r)"

abbreviation R_spaces :: regex where
  "R_spaces \<equiv> R_star True (R_char is_str_space)"

abbreviation R_spaces1 :: regex where
  "R_spaces1 \<equiv> R_plus (R_char is_str_space)"

fun R_any :: "regex list \<Rightarrow> regex" where
  "R_any [] = R_char (\<lambda>_. False)"
| "R_any [r] = r"
| "R_any (r # rs) = R_alt r (R_any rs)"

section \<open>Searching\<close>

definition re_fullmatch :: "regex \<Rightarrow> string \<Rightarrow> groups option" where
  "re_fullmatch r s = map_option snd (List.find (\<lambda>m. snd (fst m) = []) (matches r (([], s), [])))"

text \<open>\<open>search\<close> from a position: the position of the match, and the state behind it.\<close>

function search_from :: "regex \<Rightarrow> string \<Rightarrow> string \<Rightarrow> (position \<times> state) option" where
  "search_from r before after =
     (case matches r ((before, after), []) of
        m # _ \<Rightarrow> Some ((before, after), m)
      | [] \<Rightarrow> (case after of [] \<Rightarrow> None | c # cs \<Rightarrow> search_from r (c # before) cs))"
  by pat_completeness auto
termination by (relation "measure (\<lambda>(r, before, after). length after)") auto

declare search_from.simps [simp del]

definition re_search :: "regex \<Rightarrow> string \<Rightarrow> groups option" where
  "re_search r s = map_option (\<lambda>(_, _, gs). gs) (search_from r [] s)"

definition re_found :: "regex \<Rightarrow> string \<Rightarrow> bool" where
  "re_found r s = (search_from r [] s \<noteq> None)"

text \<open>The matches of \<open>finditer\<close>, each with its start; the next search starts behind the match.\<close>

function find_from :: "regex \<Rightarrow> string \<Rightarrow> string \<Rightarrow> (position \<times> state) list" where
  "find_from r before after =
     (case search_from r before after of
        None \<Rightarrow> []
      | Some (p, (q, gs)) \<Rightarrow>
          (p, (q, gs)) #
          (if length (snd q) < length after then find_from r (fst q) (snd q) else []))"
  by pat_completeness auto
termination by (relation "measure (\<lambda>(r, before, after). length after)") auto

declare find_from.simps [simp del]

text \<open>\<open>findall\<close> of a pattern without groups, with one group, and with several.\<close>

definition re_findall :: "regex \<Rightarrow> string \<Rightarrow> string list" where
  "re_findall r s = map (\<lambda>(p, q, gs). between p q) (find_from r [] s)"

definition group_text :: "groups \<Rightarrow> nat \<Rightarrow> string" where
  "group_text gs n = (case map_of gs n of None \<Rightarrow> [] | Some t \<Rightarrow> t)"

definition re_findall_groups :: "regex \<Rightarrow> nat list \<Rightarrow> string \<Rightarrow> string list list" where
  "re_findall_groups r ns s = map (\<lambda>(p, q, gs). map (group_text gs) ns) (find_from r [] s)"

text \<open>\<open>sub\<close>: the parts between the matches, and what replaces each match.\<close>

function sub_from :: "regex \<Rightarrow> (state \<Rightarrow> string) \<Rightarrow> string \<Rightarrow> string \<Rightarrow> string" where
  "sub_from r repl before after =
     (case search_from r before after of
        None \<Rightarrow> after
      | Some (p, (q, gs)) \<Rightarrow>
          between (before, after) p @ repl (q, gs) @
          (if length (snd q) < length after then sub_from r repl (fst q) (snd q) else snd q))"
  by pat_completeness auto
termination by (relation "measure (\<lambda>(r, repl, before, after). length after)") auto

declare sub_from.simps [simp del]

definition re_sub :: "regex \<Rightarrow> string \<Rightarrow> string \<Rightarrow> string" where
  "re_sub r new s = sub_from r (\<lambda>_. new) [] s"

section \<open>What the patterns match\<close>

text \<open>A greedy or lazy repetition reaches what steps that take characters reach.\<close>

inductive star_reach :: "(state \<Rightarrow> state list) \<Rightarrow> state \<Rightarrow> state \<Rightarrow> bool" for f :: "state \<Rightarrow> state list" where
  star_stop: "star_reach f m m"
| star_round: "m1 \<in> set (f m) \<Longrightarrow> shorter m1 m \<Longrightarrow> star_reach f m1 m' \<Longrightarrow> star_reach f m m'"

lemma star_matches_set:
  "set (star_matches f greedy m) =
     insert m (\<Union>m1 \<in> {m1 \<in> set (f m). shorter m1 m}. set (star_matches f greedy m1))"
  by (subst star_matches.simps) (simp add: Let_def)

lemma set_star_matches: "m' \<in> set (star_matches f greedy m) \<longleftrightarrow> star_reach f m m'"
proof
  show "m' \<in> set (star_matches f greedy m) \<Longrightarrow> star_reach f m m'"
  proof (induction f greedy m rule: star_matches.induct)
    case (1 f greedy m)
    show ?case
    proof (cases "m' = m")
      case False
      then obtain m1 where m1: "m1 \<in> set (f m)" "shorter m1 m" "m' \<in> set (star_matches f greedy m1)"
        using 1(2) star_matches_set [of f greedy m] by blast
      then have "star_reach f m1 m'" using 1(1) [OF _ m1(3)] by simp
      then show ?thesis using m1 by (blast intro: star_reach.star_round)
    qed (simp add: star_reach.star_stop)
  qed
  show "star_reach f m m' \<Longrightarrow> m' \<in> set (star_matches f greedy m)"
    by (induction rule: star_reach.induct) (subst star_matches_set, blast)+
qed

text \<open>Positions move forward over a text: \<open>m'\<close> is \<open>m\<close> after the characters \<open>w\<close>.\<close>

definition after_text :: "state \<Rightarrow> string \<Rightarrow> state \<Rightarrow> bool" where
  "after_text m w m' \<longleftrightarrow> (\<exists>b a gs. m = ((b, w @ a), gs) \<and> m' = ((rev w @ b, a), gs))"

lemma after_text_simps [simp]:
  "after_text ((b, a), gs) w ((b', a'), gs') \<longleftrightarrow> a = w @ a' \<and> b' = rev w @ b \<and> gs' = gs"
  by (auto simp: after_text_def)

lemma after_text_Nil [simp]: "after_text m [] m' \<longleftrightarrow> m' = m"
  by (cases m; cases "fst m") (auto simp: after_text_def)

lemma after_text_append: "after_text m (u @ v) m' \<longleftrightarrow> (\<exists>m1. after_text m u m1 \<and> after_text m1 v m')"
proof
  assume "after_text m (u @ v) m'"
  then obtain b a gs where m: "m = ((b, u @ v @ a), gs)" "m' = ((rev v @ rev u @ b, a), gs)"
    by (auto simp: after_text_def)
  show "\<exists>m1. after_text m u m1 \<and> after_text m1 v m'"
    by (rule exI [of _ "((rev u @ b, v @ a), gs)"]) (simp add: m)
next
  assume "\<exists>m1. after_text m u m1 \<and> after_text m1 v m'"
  then obtain b a gs m1 where "m = ((b, u @ a), gs)" "m1 = ((rev u @ b, a), gs)" "after_text m1 v m'"
    unfolding after_text_def by blast
  then show "after_text m (u @ v) m'" by (cases m'; cases "fst m'") simp
qed

text \<open>\<open>takes r L\<close>: the pattern \<open>r\<close> has no group and matches exactly the texts of \<open>L\<close>.\<close>

definition takes :: "regex \<Rightarrow> (string \<Rightarrow> bool) \<Rightarrow> bool" where
  "takes r L \<longleftrightarrow> (\<forall>m m'. m' \<in> set (matches r m) \<longleftrightarrow> (\<exists>w. L w \<and> after_text m w m'))"

lemma takes_iff: "takes r L \<Longrightarrow> m' \<in> set (matches r m) \<longleftrightarrow> (\<exists>w. L w \<and> after_text m w m')"
  unfolding takes_def by blast

lemma takes_char: "takes (R_char P) (\<lambda>w. \<exists>c. w = [c] \<and> P c)"
  unfolding takes_def by (fastforce simp: after_text_def split: prod.split list.split)

lemma takes_empty: "takes R_empty (\<lambda>w. w = [])"
  by (simp add: takes_def)

lemma takes_seq:
  assumes "takes r1 L1" and "takes r2 L2"
  shows "takes (R_seq r1 r2) (\<lambda>w. \<exists>u v. w = u @ v \<and> L1 u \<and> L2 v)"
  unfolding takes_def
proof (intro allI)
  fix m m'
  have "m' \<in> set (matches (R_seq r1 r2) m) \<longleftrightarrow> (\<exists>m1. m1 \<in> set (matches r1 m) \<and> m' \<in> set (matches r2 m1))"
    by auto
  also have "\<dots> \<longleftrightarrow> (\<exists>u v. L1 u \<and> L2 v \<and> after_text m (u @ v) m')"
    unfolding takes_iff [OF assms(1)] takes_iff [OF assms(2)] after_text_append by blast
  finally show "m' \<in> set (matches (R_seq r1 r2) m) \<longleftrightarrow>
      (\<exists>w. (\<exists>u v. w = u @ v \<and> L1 u \<and> L2 v) \<and> after_text m w m')"
    by blast
qed

lemma takes_alt:
  assumes "takes r1 L1" and "takes r2 L2"
  shows "takes (R_alt r1 r2) (\<lambda>w. L1 w \<or> L2 w)"
  using assms unfolding takes_def by auto

lemma takes_lit: "takes (R_lit s) (\<lambda>w. w = s)"
proof (induction s)
  case (Cons c s)
  have "(\<lambda>w. \<exists>u v. w = u @ v \<and> (\<exists>x. u = [x] \<and> x = c) \<and> v = s) = (\<lambda>w. w = c # s)" by auto
  with takes_seq [OF takes_char [of "\<lambda>x. x = c"] Cons] show ?case by simp
qed (simp add: takes_empty)

lemma takes_chars:
  "takes (R_star greedy (R_char P)) (\<lambda>w. list_all P w)"
  unfolding takes_def
proof (intro allI iffI)
  fix m m'
  show "m' \<in> set (matches (R_star greedy (R_char P)) m) \<Longrightarrow> \<exists>w. list_all P w \<and> after_text m w m'"
  proof (simp add: set_star_matches, induction rule: star_reach.induct)
    case (star_stop m)
    show ?case by (rule exI [of _ "[]"]) simp
  next
    case (star_round m1 m m')
    from star_round(1) obtain c where "P c" "after_text m [c] m1"
      using takes_char [of P] unfolding takes_def by blast
    moreover from star_round(4) obtain w where "list_all P w" "after_text m1 w m'" by blast
    ultimately show ?case
      using after_text_append [of m "[c]" w m'] by (intro exI [of _ "c # w"]) (auto simp del: split_paired_Ex)
  qed
  show "\<exists>w. list_all P w \<and> after_text m w m' \<Longrightarrow> m' \<in> set (matches (R_star greedy (R_char P)) m)"
  proof (elim exE conjE)
    fix w
    assume "list_all P w" and "after_text m w m'"
    then have "star_reach (matches (R_char P)) m m'"
    proof (induction w arbitrary: m)
      case Nil
      then show ?case by (simp add: star_reach.star_stop)
    next
      case (Cons c w)
      then obtain m1 where m1: "after_text m [c] m1" "after_text m1 w m'"
        using after_text_append [of m "[c]" w m'] by auto
      have "m1 \<in> set (matches (R_char P) m)" unfolding takes_iff [OF takes_char] using Cons(2) m1(1) by auto
      moreover have "shorter m1 m" using m1(1) by (auto simp: after_text_def shorter_def)
      ultimately show ?case using Cons m1(2) by (auto intro: star_reach.star_round)
    qed
    then show ?thesis by (simp add: set_star_matches)
  qed
qed

lemma takes_chars1: "takes (R_plus (R_char P)) (\<lambda>w. w \<noteq> [] \<and> list_all P w)"
proof -
  have "(\<lambda>w. \<exists>u v. w = u @ v \<and> (\<exists>c. u = [c] \<and> P c) \<and> list_all P v) = (\<lambda>w. w \<noteq> [] \<and> list_all P w)"
  proof
    fix w :: string
    show "(\<exists>u v. w = u @ v \<and> (\<exists>c. u = [c] \<and> P c) \<and> list_all P v) = (w \<noteq> [] \<and> list_all P w)"
    proof
      assume "w \<noteq> [] \<and> list_all P w"
      then show "\<exists>u v. w = u @ v \<and> (\<exists>c. u = [c] \<and> P c) \<and> list_all P v"
        by (intro exI [of _ "[hd w]"] exI [of _ "tl w"]) (cases w; simp)
    qed auto
  qed
  with takes_seq [OF takes_char takes_chars, of P True P] show ?thesis by (simp add: R_plus_def)
qed

text \<open>A pattern without groups as the whole text.\<close>

lemma fullmatch_takes: "takes r L \<Longrightarrow> re_fullmatch r s \<noteq> None \<longleftrightarrow> L s"
  unfolding takes_def re_fullmatch_def by (auto simp: find_None_iff2 after_text_def find_None_iff) 

text \<open>A search finds a match exactly when the pattern matches at some position.\<close>

lemma search_from_None:
  "search_from r before after = None \<longleftrightarrow> (\<forall>u v. after = u @ v \<longrightarrow> matches r ((rev u @ before, v), []) = [])"
proof (induction r before after rule: search_from.induct)
  case (1 r before after)
  show ?case
  proof (cases "matches r ((before, after), [])")
    case Nil
    show ?thesis
    proof (cases after)
      case (Cons c cs)
      have "(\<forall>u v. c # cs = u @ v \<longrightarrow> matches r ((rev u @ before, v), []) = []) \<longleftrightarrow>
          (\<forall>u v. cs = u @ v \<longrightarrow> matches r ((rev u @ c # before, v), []) = [])" (is "?A \<longleftrightarrow> ?B")
      proof
        show ?B if ?A using that [rule_format, of "c # _"] by simp
        show ?A if ?B using that Nil Cons by (auto simp: Cons_eq_append_conv)
      qed
      then show ?thesis
        using 1 [OF Nil Cons] Nil Cons by (subst search_from.simps) simp
    qed (use Nil in \<open>subst search_from.simps; simp\<close>)
  next
    case (Cons m ms)
    then show ?thesis by (subst search_from.simps) (force intro: exI [of _ "[]"])
  qed
qed

lemma re_found_iff: "re_found r s \<longleftrightarrow> (\<exists>u v. s = u @ v \<and> matches r ((rev u, v), []) \<noteq> [])"
  unfolding re_found_def search_from_None by auto

lemma re_found_takes: "takes r L \<Longrightarrow> re_found r s \<longleftrightarrow> (\<exists>w. L w \<and> sublist w s)"
proof -
  assume r: "takes r L"
  have "matches r ((rev u, v), []) \<noteq> [] \<longleftrightarrow> (\<exists>w a. L w \<and> v = w @ a)" for u v
  proof -
    have "matches r ((rev u, v), []) \<noteq> [] \<longleftrightarrow> (\<exists>m'. m' \<in> set (matches r ((rev u, v), [])))"
      by (metis list.set_intros(1) neq_Nil_conv empty_iff list.set(1))
    also have "\<dots> \<longleftrightarrow> (\<exists>w a. L w \<and> v = w @ a)"
      using r unfolding takes_def by (auto simp: split_paired_Ex)
    finally show ?thesis .
  qed
  then show ?thesis unfolding re_found_iff sublist_def by auto
qed

section \<open>Searching texts\<close>

text \<open>\<open>old in text\<close>, and \<open>text.count(old)\<close>: the occurrences that do not overlap, for an old text that is not empty.\<close>

abbreviation contains :: "string \<Rightarrow> string \<Rightarrow> bool" where
  "contains old s \<equiv> sublist old s"

function str_count :: "string \<Rightarrow> string \<Rightarrow> nat" where
  "str_count old s =
     (if s = [] \<or> old = [] then 0
      else if prefix old s then Suc (str_count old (drop (length old) s))
      else str_count old (tl s))"
  by pat_completeness auto
termination by (relation "measure (\<lambda>(old, s). length s)") auto

declare str_count.simps [simp del]

lemma str_count_char: "str_count [c] s = count_list s c"
proof (induction s)
  case (Cons x s)
  then show ?case by (subst str_count.simps) auto
qed (simp add: str_count.simps)

text \<open>\<open>line.split(None, 1)[0]\<close> of a line that does not start with white space.\<close>

definition first_word :: "string \<Rightarrow> string" where
  "first_word line = takeWhile (\<lambda>c. \<not> is_str_space c) line"

definition str_rstrip :: "string \<Rightarrow> string" where
  "str_rstrip s = rev (dropWhile is_str_space (rev s))"

text \<open>\<open>text.find(old)\<close>: the first position.\<close>

fun str_find :: "string \<Rightarrow> string \<Rightarrow> nat option" where
  "str_find old [] = (if old = [] then Some 0 else None)"
| "str_find old (c # cs) = (if prefix old (c # cs) then Some 0 else map_option Suc (str_find old cs))"

text \<open>\<open>text.index(old)\<close>.\<close>

definition str_index :: "string \<Rightarrow> string \<Rightarrow> nat result" where
  "str_index old s = of_option (ValueError ''substring not found'') (str_find old s)"

text \<open>\<open>text.lower()\<close>, on characters below 256.\<close>

definition char_lower :: "char \<Rightarrow> char" where
  "char_lower c =
     (let n = of_char c :: nat in
      if 65 \<le> n \<and> n \<le> 90 \<or> 192 \<le> n \<and> n \<le> 222 \<and> n \<noteq> 215 then char_of (n + 32) else c)"

definition str_lower :: "string \<Rightarrow> string" where
  "str_lower s = map char_lower s"

text \<open>\<open>re.sub(r"\s+", "", text)\<close>: the runs of white space are taken out.\<close>

definition compact :: "string \<Rightarrow> string" where
  "compact s = re_sub R_spaces1 [] s"

lemma str_find_None: "str_find old s = None \<longleftrightarrow> \<not> sublist old s"
  by (induction old s rule: str_find.induct) (auto simp: sublist_Cons_right)

text \<open>A line that ends with a line feed.\<close>

lemma splitlines_line: "list_all (\<lambda>c. \<not> is_line_end c) l \<Longrightarrow> splitlines (l @ CHR 0x0A # s) = l # splitlines s"
proof -
  assume l: "list_all (\<lambda>c. \<not> is_line_end c) l"
  have stop: "is_line_end CHR 0x0A" by code_simp
  have "takeWhile (\<lambda>c. \<not> is_line_end c) (l @ CHR 0x0A # s) = l"
    "dropWhile (\<lambda>c. \<not> is_line_end c) (l @ CHR 0x0A # s) = CHR 0x0A # s"
    using l stop by (induction l) simp_all
  then show ?thesis by (subst splitlines.simps) (simp add: Let_def)
qed

text \<open>The results of a list of computations, in order, or the first exception.\<close>

fun result_list :: "('a \<Rightarrow> 'b result) \<Rightarrow> 'a list \<Rightarrow> 'b list result" where
  "result_list f [] = Inr []"
| "result_list f (x # xs) = result_bind (f x) (\<lambda>y. result_bind (result_list f xs) (\<lambda>ys. Inr (y # ys)))"

lemma result_list_cong [fundef_cong]:
  "xs = ys \<Longrightarrow> (\<And>x. x \<in> set ys \<Longrightarrow> f x = g x) \<Longrightarrow> result_list f xs = result_list g ys"
  by (induction xs arbitrary: ys) auto

lemma result_list_Inr: "result_list f xs = Inr ys \<longleftrightarrow> list_all2 (\<lambda>x y. f x = Inr y) xs ys"
  by (induction xs arbitrary: ys) (auto simp: result_bind_eq_Inr list_all2_Cons1)

end
