(* ===== verification/Sdc_Check.thy ===== *)
theory Sdc_Check
  imports Py_Regex
begin

text \<open>
  \<open>primer1/scripts/check_sdc.py\<close>: the guard of the timing constraints of Primer 1. \<open>validate_sdc\<close> reads the text of
  the constraint file; what it accepts is stated line by line.
\<close>

section \<open>The guard\<close>

definition EXPECTED_FALSE_PATHS :: "(string \<times> string) list" where
  "EXPECTED_FALSE_PATHS =
     [(''spi_sck_i'', ''sck_meta''), (''spi_mosi_i'', ''mosi_meta''), (''spi_cs_ni'', ''cs_meta''),
      (''fatal_latched_i'', ''fatal_meta''), (''secure_enable_i'', ''secure_meta''), (''zeroize_ni'', ''zeroize_meta'')]"

definition CLOCK_RE :: regex where
  "CLOCK_RE = R_all
     [R_start False, R_lit ''create_clock'', R_spaces1, R_lit ''-name'', R_spaces1, R_lit ''sys_clk_27m'', R_spaces1,
      R_lit ''-period'', R_spaces1, R_lit ''37.037'', R_spaces1, R_lit ''[get_ports'', R_spaces1,
      R_lit ''{sys_clk_i}]'', R_finish False]"

definition FALSE_PATH_RE :: regex where
  "FALSE_PATH_RE = R_all
     [R_start False, R_lit ''set_false_path'', R_spaces1, R_lit ''-from'', R_spaces1, R_lit ''[get_ports'', R_spaces1,
      R_lit ''{'', R_group 1 (R_plus (R_char is_identifier_char)), R_lit ''}]'', R_spaces1, R_lit ''-to'', R_spaces1,
      R_lit ''[get_regs'', R_spaces1, R_lit ''{*'', R_group 2 (R_plus (R_char is_identifier_char)), R_lit ''*}]'',
      R_finish False]"

definition SDC_COMMANDS :: "string list" where
  "SDC_COMMANDS = [''create_clock'', ''set_false_path'']"

definition sdc_line :: "string \<Rightarrow> string" where
  "sdc_line raw = str_strip (fst (partition_at CHR ''#'' raw))"

primrec sdc_commands :: "string list \<Rightarrow> string list result" where
  "sdc_commands [] = Inr []"
| "sdc_commands (raw # rest) =
     (let line = sdc_line raw in
      if line = [] then sdc_commands rest
      else assert_that (first_word line \<in> set SDC_COMMANDS)
        (result_bind (sdc_commands rest) (\<lambda>commands. Inr (line # commands))))"

primrec observe_paths :: "string list \<Rightarrow> (string \<times> string) list \<Rightarrow> (string \<times> string) list result" where
  "observe_paths [] observed = Inr observed"
| "observe_paths (line # lines) observed =
     assert_that (\<not> contains ''all_inputs'' line \<and> \<not> contains ''all_outputs'' line \<and> \<not> contains ''all_clocks'' line)
       (case re_fullmatch FALSE_PATH_RE line of
          None \<Rightarrow> Inl (AssertionError ''unsupported set_false_path'')
        | Some gs \<Rightarrow>
            let source = group_text gs 1; target = group_text gs 2 in
            assert_that (source \<notin> fst ` set observed) (observe_paths lines (observed @ [(source, target)])))"

definition validate_sdc :: "string \<Rightarrow> unit result" where
  "validate_sdc s =
     assert_that (str_count ''['' s = str_count '']'' s)
    (assert_that (str_count ''{'' s = str_count ''}'' s)
    (assert_that (\<not> contains ''all_registers'' s)
    (result_bind (sdc_commands (splitlines s)) (\<lambda>commands.
     let clock_lines = filter (prefix ''create_clock '') commands;
         false_path_lines = filter (prefix ''set_false_path '') commands in
     assert_that (length clock_lines = 1)
    (assert_that (re_fullmatch CLOCK_RE (hd clock_lines) \<noteq> None)
    (assert_that (length false_path_lines = length EXPECTED_FALSE_PATHS)
    (result_bind (observe_paths false_path_lines []) (\<lambda>observed.
     assert_that (set observed = set EXPECTED_FALSE_PATHS) (Inr ())))))))))"

section \<open>The lines accepted\<close>

definition blank :: "string \<Rightarrow> bool" where
  "blank w \<longleftrightarrow> w \<noteq> [] \<and> list_all is_str_space w"

definition clock_form :: "string \<Rightarrow> bool" where
  "clock_form line \<longleftrightarrow> (\<exists>w1 w2 w3 w4 w5 w6.
     line = ''create_clock'' @ w1 @ ''-name'' @ w2 @ ''sys_clk_27m'' @ w3 @ ''-period'' @ w4 @ ''37.037'' @ w5
       @ ''[get_ports'' @ w6 @ ''{sys_clk_i}]'' \<and> list_all blank [w1, w2, w3, w4, w5, w6])"

definition path_form :: "string \<Rightarrow> string \<times> string \<Rightarrow> bool" where
  "path_form line st \<longleftrightarrow> (\<exists>w1 w2 w3 w4 w5 w6 source target. st = (source, target) \<and>
     line = ''set_false_path'' @ w1 @ ''-from'' @ w2 @ ''[get_ports'' @ w3 @ ''{'' @ source @ ''}]'' @ w4 @ ''-to'' @ w5
       @ ''[get_regs'' @ w6 @ ''{*'' @ target @ ''*}]'' \<and>
     list_all blank [w1, w2, w3, w4, w5, w6] \<and> source \<noteq> [] \<and> target \<noteq> [] \<and>
     list_all is_identifier_char source \<and> list_all is_identifier_char target)"

text \<open>A pattern that matches to the end of the text, from any position before it.\<close>

definition runs :: "regex \<Rightarrow> string \<Rightarrow> string \<Rightarrow> groups \<Rightarrow> groups \<Rightarrow> bool" where
  "runs r b a gs gs' \<longleftrightarrow> (\<exists>b'. ((b', []), gs') \<in> set (matches r ((b, a), gs)))"

lemma set_matches_seq:
  "m' \<in> set (matches (R_seq r q) m) \<longleftrightarrow> (\<exists>m1. m1 \<in> set (matches r m) \<and> m' \<in> set (matches q m1))"
  by auto

lemma after_text_from: "after_text ((b, a), gs) w m' \<longleftrightarrow> (\<exists>a'. a = w @ a' \<and> m' = ((rev w @ b, a'), gs))"
  by (auto simp: after_text_def)

lemma runs_takes:
  assumes "takes r L"
  shows "runs (R_seq r q) b a gs gs' \<longleftrightarrow> (\<exists>w a'. a = w @ a' \<and> L w \<and> runs q (rev w @ b) a' gs gs')"
  unfolding runs_def set_matches_seq takes_iff [OF assms] after_text_from by blast

lemma group_matches:
  assumes "takes r L"
  shows "m1 \<in> set (matches (R_group n r) ((b, a), gs)) \<longleftrightarrow>
    (\<exists>w a'. L w \<and> a = w @ a' \<and> m1 = ((rev w @ b, a'), AList.update n w gs))"
proof -
  have "m1 \<in> set (matches (R_group n r) ((b, a), gs)) \<longleftrightarrow>
      (\<exists>m. m \<in> set (matches r ((b, a), gs)) \<and> m1 = (fst m, AList.update n (between (b, a) (fst m)) (snd m)))"
    by (simp add: image_iff case_prod_beta Bex_def del: split_paired_Ex)
  also have "\<dots> \<longleftrightarrow> (\<exists>w a'. L w \<and> a = w @ a' \<and> m1 = ((rev w @ b, a'), AList.update n w gs))"
  proof
    assume "\<exists>w a'. L w \<and> a = w @ a' \<and> m1 = ((rev w @ b, a'), AList.update n w gs)"
    then obtain w a' where w: "L w" "a = w @ a'" "m1 = ((rev w @ b, a'), AList.update n w gs)" by blast
    then have "((rev w @ b, a'), gs) \<in> set (matches r ((b, a), gs))"
      unfolding takes_iff [OF assms] after_text_from by blast
    then show "\<exists>m. m \<in> set (matches r ((b, a), gs)) \<and>
        m1 = (fst m, AList.update n (between (b, a) (fst m)) (snd m))"
      using w by (intro exI [of _ "((rev w @ b, a'), gs)"]) (simp add: between_def)
  next
    assume "\<exists>m. m \<in> set (matches r ((b, a), gs)) \<and>
        m1 = (fst m, AList.update n (between (b, a) (fst m)) (snd m))"
    then show "\<exists>w a'. L w \<and> a = w @ a' \<and> m1 = ((rev w @ b, a'), AList.update n w gs)"
      unfolding takes_iff [OF assms] after_text_from by (elim exE conjE) (simp add: between_def)
  qed
  finally show ?thesis .
qed

lemma runs_group:
  assumes "takes r L"
  shows "runs (R_seq (R_group n r) q) b a gs gs' \<longleftrightarrow>
    (\<exists>w a'. a = w @ a' \<and> L w \<and> runs q (rev w @ b) a' (AList.update n w gs) gs')"
  using group_matches [OF assms, of _ n b a gs] unfolding runs_def set_matches_seq by (simp only:) metis

lemma runs_lit: "runs (R_seq (R_lit s) q) b a gs gs' \<longleftrightarrow> (\<exists>a'. a = s @ a' \<and> runs q (rev s @ b) a' gs gs')"
  unfolding runs_takes [OF takes_lit] by blast

lemma runs_start: "runs (R_seq (R_start False) q) [] a gs gs' \<longleftrightarrow> runs q [] a gs gs'"
  by (simp add: runs_def)

lemma runs_last: "runs (R_seq (R_lit s) (R_seq (R_finish False) R_empty)) b a gs gs' \<longleftrightarrow> a = s \<and> gs' = gs"
proof -
  have "runs (R_seq (R_finish False) R_empty) b a gs gs' \<longleftrightarrow> a = [] \<and> gs' = gs" for b a
    by (auto simp: runs_def split: list.split)
  then show ?thesis unfolding runs_lit by auto
qed

lemma takes_blank: "takes R_spaces1 blank"
  using takes_chars1 [of is_str_space] unfolding blank_def [abs_def] .

lemmas runs_simps = runs_start runs_lit [where q = "R_seq r (R_seq q q')" for r q q'] runs_takes [OF takes_blank] runs_group [OF takes_chars1] runs_last

lemma fullmatch_Some: "re_fullmatch r s = Some gs \<Longrightarrow> runs r [] s [] gs"
proof -
  assume "re_fullmatch r s = Some gs"
  then obtain m where "List.find (\<lambda>m. snd (fst m) = []) (matches r (([], s), [])) = Some m" and gs: "gs = snd m"
    by (auto simp: re_fullmatch_def)
  then obtain i where "i < length (matches r (([], s), []))" "snd (fst m) = []" "m = matches r (([], s), []) ! i"
    unfolding find_Some_iff by blast
  then have "m \<in> set (matches r (([], s), []))" "snd (fst m) = []" by simp_all
  then have "((fst (fst m), []), gs) \<in> set (matches r (([], s), []))" using gs by (metis prod.collapse)
  then show ?thesis unfolding runs_def by blast
qed

lemma fullmatch_ex:
  assumes "runs r [] s [] gs"
  shows "\<exists>gs'. re_fullmatch r s = Some gs'"
proof (cases "List.find (\<lambda>m. snd (fst m) = []) (matches r (([], s), []))")
  case None
  from assms obtain b where m: "((b, []), gs) \<in> set (matches r (([], s), []))" by (auto simp: runs_def)
  have "\<forall>x. x \<in> set (matches r (([], s), [])) \<longrightarrow> snd (fst x) \<noteq> []"
    using None unfolding find_None_iff by blast
  from spec [OF this, of "((b, []), gs)"] m show ?thesis by simp
qed (simp add: re_fullmatch_def)

lemma list_all_blank: "list_all blank [] \<longleftrightarrow> True" "list_all blank (w # ws) \<longleftrightarrow> blank w \<and> list_all blank ws"
  by simp_all

lemma clock_re: "re_fullmatch CLOCK_RE line \<noteq> None \<longleftrightarrow> clock_form line"
proof
  assume "re_fullmatch CLOCK_RE line \<noteq> None"
  then obtain gs where "runs CLOCK_RE [] line [] gs" using fullmatch_Some by blast
  then show "clock_form line"
    unfolding CLOCK_RE_def R_all.simps runs_simps clock_form_def list_all_blank
    by clarify ((rule exI conjI refl TrueI | assumption)+)
next
  assume "clock_form line"
  then have "runs CLOCK_RE [] line [] []"
    unfolding CLOCK_RE_def R_all.simps runs_simps clock_form_def list_all_blank
    by clarify ((rule exI conjI refl TrueI | assumption)+)
  then show "re_fullmatch CLOCK_RE line \<noteq> None" using fullmatch_ex by blast
qed

lemma path_re_sound:
  assumes "re_fullmatch FALSE_PATH_RE line = Some gs"
  shows "path_form line (group_text gs 1, group_text gs 2)"
proof -
  from fullmatch_Some [OF assms] have "\<exists>source target. gs = AList.update 2 target (AList.update 1 source []) \<and>
      path_form line (source, target)"
    unfolding FALSE_PATH_RE_def R_all.simps runs_simps path_form_def list_all_blank
    by clarify ((rule exI conjI refl TrueI | assumption)+)
  then show ?thesis by (auto simp: group_text_def update_conv')
qed

lemma path_re_complete:
  assumes "path_form line st"
  shows "\<exists>gs. re_fullmatch FALSE_PATH_RE line = Some gs"
proof -
  obtain source target where st: "st = (source, target)" by fastforce
  from assms have "runs FALSE_PATH_RE [] line [] (AList.update 2 target (AList.update 1 source []))"
    unfolding FALSE_PATH_RE_def R_all.simps runs_simps path_form_def list_all_blank st prod.inject
    by clarify ((rule exI conjI refl TrueI | assumption)+)
  then show ?thesis by (rule fullmatch_ex)
qed

section \<open>What the guard accepts\<close>

text \<open>A run of characters of one class before a character that is not of the class is determined.\<close>

lemma span_eq:
  assumes "list_all P a" "list_all P b" "\<not> P x" "\<not> P y"
  shows "a @ x # u = b @ y # v \<longleftrightarrow> a = b \<and> x = y \<and> u = v"
proof
  assume eq: "a @ x # u = b @ y # v"
  have "takeWhile P (c @ z # w) = c" if "list_all P c" "\<not> P z" for c z w
    using that by (induction c) simp_all
  then have "a = b" using eq assms by metis
  then show "a = b \<and> x = y \<and> u = v" using eq by simp
qed simp

lemma space_literals [simp]:
  "\<not> is_str_space CHR ''-''" "\<not> is_str_space CHR ''[''" "\<not> is_str_space CHR ''{''"
  "\<not> is_identifier_char CHR ''}''" "\<not> is_identifier_char CHR ''*''"
  by code_simp+

lemma blank_span:
  assumes "blank a" "blank b" "\<not> is_str_space x" "\<not> is_str_space y"
  shows "a @ x # u = b @ y # v \<longleftrightarrow> a = b \<and> x = y \<and> u = v"
  using assms unfolding blank_def by (intro span_eq [where P = is_str_space]) simp_all

lemma path_form_unique:
  assumes "path_form line st" and "path_form line st'"
  shows "st = st'"
  using assms unfolding path_form_def list_all_blank
  by (elim exE conjE) (simp add: blank_span span_eq [where P = is_identifier_char])

text \<open>The lines without comments and blank ends that are not empty.\<close>

definition constraint_lines :: "string \<Rightarrow> string list" where
  "constraint_lines s = filter (\<lambda>l. l \<noteq> []) (map sdc_line (splitlines s))"

lemma sdc_commands_iff:
  "sdc_commands raws = Inr commands \<longleftrightarrow>
     commands = filter (\<lambda>l. l \<noteq> []) (map sdc_line raws) \<and>
     (\<forall>l \<in> set commands. first_word l \<in> set SDC_COMMANDS)"
proof (induction raws arbitrary: commands)
  case (Cons raw raws)
  show ?case
  proof (cases "sdc_line raw = []")
    case False
    then have "sdc_commands (raw # raws) = Inr commands \<longleftrightarrow>
        first_word (sdc_line raw) \<in> set SDC_COMMANDS \<and>
        (\<exists>cs. sdc_commands raws = Inr cs \<and> commands = sdc_line raw # cs)"
      by (auto simp: Let_def result_bind_eq_Inr)
    then show ?thesis unfolding Cons using False by (auto)
  qed (simp add: Cons)
qed auto

definition narrow :: "string \<Rightarrow> bool" where
  "narrow line \<longleftrightarrow>
     \<not> contains ''all_inputs'' line \<and> \<not> contains ''all_outputs'' line \<and> \<not> contains ''all_clocks'' line"

lemma observe_paths_iff:
  "observe_paths lines observed = Inr all \<longleftrightarrow>
     (\<exists>paths. all = observed @ paths \<and> list_all2 path_form lines paths \<and> list_all narrow lines \<and>
        distinct (map fst paths) \<and> fst ` set observed \<inter> fst ` set paths = {})"
proof (induction lines arbitrary: observed)
  case (Cons line lines)
  show ?case
  proof (cases "re_fullmatch FALSE_PATH_RE line")
    case None
    then have "\<not> path_form line st" for st using path_re_complete by fastforce
    then show ?thesis using None by (simp add: list_all2_Cons1)
  next
    case (Some gs)
    define st where "st = (group_text gs 1, group_text gs 2)"
    have form: "path_form line st' \<longleftrightarrow> st' = st" for st'
      using path_re_sound [OF Some] path_form_unique unfolding st_def by blast
    have "observe_paths (line # lines) observed = Inr all \<longleftrightarrow>
        narrow line \<and> fst st \<notin> fst ` set observed \<and> observe_paths lines (observed @ [st]) = Inr all"
      by (simp add: Some narrow_def Let_def st_def)
    also have "\<dots> \<longleftrightarrow> (\<exists>paths. all = observed @ paths \<and> list_all2 path_form (line # lines) paths \<and>
        list_all narrow (line # lines) \<and> distinct (map fst paths) \<and> fst ` set observed \<inter> fst ` set paths = {})"
      unfolding Cons by (cases st) (auto simp: list_all2_Cons1 form image_iff)
    finally show ?thesis .
  qed
qed auto

text \<open>What the guard accepts: balanced brackets, no \<open>all_registers\<close>, only the two commands, one clock of 27 MHz, and
  as false paths exactly the six from an asynchronous input to its first register.\<close>

definition sdc_accepted :: "string \<Rightarrow> bool" where
  "sdc_accepted s \<longleftrightarrow>
     count_list s CHR ''['' = count_list s CHR '']'' \<and> count_list s CHR ''{'' = count_list s CHR ''}'' \<and>
     \<not> contains ''all_registers'' s \<and>
     (\<forall>l \<in> set (constraint_lines s). first_word l \<in> set SDC_COMMANDS) \<and>
     (\<exists>c. filter (prefix ''create_clock '') (constraint_lines s) = [c] \<and> clock_form c) \<and>
     (\<exists>paths. list_all2 path_form (filter (prefix ''set_false_path '') (constraint_lines s)) paths \<and>
        list_all narrow (filter (prefix ''set_false_path '') (constraint_lines s)) \<and>
        distinct (map fst paths) \<and> set paths = set EXPECTED_FALSE_PATHS)"

lemma expected_length: "distinct (map fst paths) \<Longrightarrow> set paths = set EXPECTED_FALSE_PATHS \<Longrightarrow> length paths = 6"
proof -
  assume "distinct (map fst paths)" and paths: "set paths = set EXPECTED_FALSE_PATHS"
  then have "length paths = card (set paths)" by (metis distinct_card distinct_map)
  also have "\<dots> = 6" unfolding paths by (simp add: EXPECTED_FALSE_PATHS_def)
  finally show ?thesis .
qed

lemma validate_sdc_iff: "validate_sdc s = Inr () \<longleftrightarrow> sdc_accepted s"
proof -
  let ?lines = "constraint_lines s"
  have one: "length xs = 1 \<and> P (hd xs) \<longleftrightarrow> (\<exists>x. xs = [x] \<and> P x)" for xs and P :: "string \<Rightarrow> bool"
    by (cases xs) auto
  have six: "length lines = length EXPECTED_FALSE_PATHS"
    if "list_all2 path_form lines paths" "distinct (map fst paths)" "set paths = set EXPECTED_FALSE_PATHS" for lines paths
    using that expected_length [OF that(2,3)] by (simp add: list_all2_lengthD EXPECTED_FALSE_PATHS_def)
  have paths: "(\<exists>observed. observe_paths lines [] = Inr observed \<and> set observed = set EXPECTED_FALSE_PATHS) \<and>
        length lines = length EXPECTED_FALSE_PATHS \<longleftrightarrow>
      (\<exists>paths. list_all2 path_form lines paths \<and> list_all narrow lines \<and> distinct (map fst paths) \<and>
        set paths = set EXPECTED_FALSE_PATHS)" for lines
    using six by (auto simp: observe_paths_iff)
  have "validate_sdc s = Inr () \<longleftrightarrow>
      count_list s CHR ''['' = count_list s CHR '']'' \<and> count_list s CHR ''{'' = count_list s CHR ''}'' \<and>
      \<not> contains ''all_registers'' s \<and> (\<forall>l \<in> set ?lines. first_word l \<in> set SDC_COMMANDS) \<and>
      (length (filter (prefix ''create_clock '') ?lines) = 1 \<and>
       re_fullmatch CLOCK_RE (hd (filter (prefix ''create_clock '') ?lines)) \<noteq> None) \<and>
      (\<exists>observed. observe_paths (filter (prefix ''set_false_path '') ?lines) [] = Inr observed \<and>
         set observed = set EXPECTED_FALSE_PATHS) \<and>
      length (filter (prefix ''set_false_path '') ?lines) = length EXPECTED_FALSE_PATHS"
    unfolding validate_sdc_def Let_def assert_that_eq_Inr result_bind_eq_Inr sdc_commands_iff
      str_count_char constraint_lines_def [symmetric]
    by (simp only: conj_assoc ex_simps simp_thms) blast
  then show ?thesis
    unfolding sdc_accepted_def clock_re one [symmetric] paths [symmetric] by (simp only: conj_assoc)
qed

section \<open>Lines the guard does not look at\<close>

definition unseen_line :: string where
  "unseen_line = ''set_false_path'' @ [CHR 0x09] @ ''-from [all_inputs] -to [all_clocks]''"

text \<open>Lines that are read as they stand.\<close>

definition plain_line :: "string \<Rightarrow> bool" where
  "plain_line l \<longleftrightarrow> sdc_line l = l \<and> l \<noteq> [] \<and> list_all (\<lambda>c. \<not> is_line_end c) l"

lemma constraint_lines_plain:
  "list_all plain_line ls \<Longrightarrow> constraint_lines (concat (map (\<lambda>l. l @ [CHR 0x0A]) ls)) = ls"
proof (induction ls)
  case Nil
  show ?case by (simp add: constraint_lines_def splitlines.simps)
next
  case (Cons l ls)
  then have "splitlines (concat (map (\<lambda>l. l @ [CHR 0x0A]) (l # ls))) = l # splitlines (concat (map (\<lambda>l. l @ [CHR 0x0A]) ls))"
    using splitlines_line [of l] by (simp add: plain_line_def)
  then show ?case using Cons by (simp add: constraint_lines_def plain_line_def)
qed

definition canonical_lines :: "string list" where
  "canonical_lines =
     ''create_clock -name sys_clk_27m -period 37.037 [get_ports {sys_clk_i}]'' #
      map (\<lambda>(source, target). ''set_false_path -from [get_ports {'' @ source @ ''}] -to [get_regs {*'' @ target @ ''*}]'')
        EXPECTED_FALSE_PATHS"

definition sdc_text :: "string list \<Rightarrow> string" where
  "sdc_text ls = concat (map (\<lambda>l. l @ [CHR 0x0A]) ls)"

lemma canonical_plain: "list_all plain_line (canonical_lines @ [unseen_line])"
  by code_simp

lemma canonical_forms:
  "clock_form (hd canonical_lines)" "list_all2 path_form (tl canonical_lines) EXPECTED_FALSE_PATHS"
proof -
  have "blank '' ''" by code_simp
  then show "clock_form (hd canonical_lines)"
    unfolding clock_form_def canonical_lines_def list.sel by (intro exI [of _ "'' ''"]) simp
  have "path_form (''set_false_path -from [get_ports {'' @ fst st @ ''}] -to [get_regs {*'' @ snd st @ ''*}]'') st"
    if "st \<in> set EXPECTED_FALSE_PATHS" for st
  proof -
    have "list_all (\<lambda>st. fst st \<noteq> [] \<and> snd st \<noteq> [] \<and> list_all is_identifier_char (fst st) \<and>
        list_all is_identifier_char (snd st)) EXPECTED_FALSE_PATHS"
      by code_simp
    then have "fst st \<noteq> [] \<and> snd st \<noteq> [] \<and> list_all is_identifier_char (fst st) \<and>
        list_all is_identifier_char (snd st)"
      using that by (auto simp: list_all_iff)
    then show ?thesis
      unfolding path_form_def using \<open>blank '' ''\<close>
      by (intro exI [of _ "'' ''"] exI [of _ "fst st"] exI [of _ "snd st"]) simp
  qed
  then show "list_all2 path_form (tl canonical_lines) EXPECTED_FALSE_PATHS"
    by (auto simp: canonical_lines_def list_all2_conv_all_nth case_prod_beta)
qed

lemma accepted_lines:
  assumes "list_all plain_line ls" and "list_all (\<lambda>l. first_word l \<in> set SDC_COMMANDS) ls"
    and "count_list (sdc_text ls) CHR ''['' = count_list (sdc_text ls) CHR '']''"
    and "count_list (sdc_text ls) CHR ''{'' = count_list (sdc_text ls) CHR ''}''"
    and "\<not> contains ''all_registers'' (sdc_text ls)"
    and "filter (prefix ''create_clock '') ls = [hd canonical_lines]"
    and "filter (prefix ''set_false_path '') ls = tl canonical_lines"
  shows "validate_sdc (sdc_text ls) = Inr ()"
proof -
  have lines: "constraint_lines (sdc_text ls) = ls"
    unfolding sdc_text_def by (rule constraint_lines_plain [OF assms(1)])
  have "list_all narrow (tl canonical_lines)" "distinct (map fst EXPECTED_FALSE_PATHS)" by code_simp+
  then show ?thesis
    using assms(2-) canonical_forms unfolding validate_sdc_iff sdc_accepted_def lines assms(6,7) list_all_iff
    by (intro conjI exI [of _ "hd canonical_lines"] exI [of _ EXPECTED_FALSE_PATHS]) (assumption | rule refl)+
qed

text \<open>The guard accepts the committed constraints, and it still does with a further line that cuts the timing of
  every input: a tab in place of the space after the command hides the line from the two lists.\<close>

lemma canonical_accepted: "validate_sdc (sdc_text canonical_lines) = Inr ()"
proof (rule accepted_lines)
  show "list_all plain_line canonical_lines" using canonical_plain by simp
qed code_simp+

lemma unseen_accepted: "validate_sdc (sdc_text (canonical_lines @ [unseen_line])) = Inr ()"
proof (rule accepted_lines)
  show "list_all plain_line (canonical_lines @ [unseen_line])" by (rule canonical_plain)
qed code_simp+

end
