(* ===== verification/Rtl_Check.thy ===== *)
theory Rtl_Check
  imports Py_Regex Vendor_Closure
begin

text \<open>
  \<open>primer2/scripts/static_rtl_checks.py\<close>: the expansion of includes, the removal of comments and strings, the
  nesting of delimiters and of block keywords, and the policy of \<open>main\<close> over the texts of the source tree. A
  fault is an entry of the list \<open>errors\<close>: its fixed text, and the values that tell faults apart.
\<close>

section \<open>Includes\<close>

definition INCLUDE_RE :: regex where
  "INCLUDE_RE = R_all
     [R_start True, R_spaces, R_lit ''`include'', R_spaces1, R_lit [CHR 0x22],
      R_group 1 (R_plus (R_char (\<lambda>c. c \<noteq> CHR 0x22))), R_lit [CHR 0x22], R_spaces, R_finish True]"

text \<open>\<open>sub\<close> with the text for each match already known.\<close>

fun splice :: "string \<Rightarrow> (position \<times> state) list \<Rightarrow> string list \<Rightarrow> string" where
  "splice after ((p, (q, gs)) # ms) (r # rs) =
     take (length after - length (snd p)) after @ r @ splice (snd q) ms rs"
| "splice after _ _ = after"

definition file_text :: "source_tree \<Rightarrow> path \<Rightarrow> string result" where
  "file_text t p = of_option (OSError ''file not found'') (map_of t p)"

function read_expanded :: "source_tree \<Rightarrow> path list \<Rightarrow> path \<Rightarrow> string result" where
  "read_expanded t seen p =
     (if p \<in> set seen then Inl (RuntimeError ''cyclic include'')
      else (case map_of t p of
          None \<Rightarrow> Inl (OSError ''file not found'')
        | Some contents \<Rightarrow>
            let ms = find_from INCLUDE_RE [] contents in
            result_bind (result_list
                (\<lambda>(_, _, gs). case join_path (butlast p) (group_text gs 1) of
                   None \<Rightarrow> Inl (OSError ''file not found'')
                 | Some included \<Rightarrow> read_expanded t (seen @ [p]) included) ms)
              (\<lambda>rs. Inr (splice contents ms rs))))"
  by pat_completeness auto
termination
proof (relation "measure (\<lambda>(t, seen, p). card (fst ` set t - set seen))", goal_cases)
  case (2 t seen p contents ms m q gs included)
  then have "p \<in> fst ` set t - set seen"
    by (metis DiffI image_eqI map_of_SomeD fst_conv)
  then have "card (fst ` set t - set (seen @ [p])) < card (fst ` set t - set seen)"
    by (intro psubset_card_mono) auto
  then show ?case by simp
qed simp

declare read_expanded.simps [simp del]

section \<open>Comments and strings\<close>

definition BLOCK_COMMENT :: regex where
  "BLOCK_COMMENT = R_all [R_lit ''/*'', R_star False (R_char (\<lambda>_. True)), R_lit ''*/'']"

definition LINE_COMMENT :: regex where
  "LINE_COMMENT = R_all [R_lit ''//'', R_star True (R_char (\<lambda>c. c \<noteq> CHR 0x0A))]"

definition STRING_LITERAL :: regex where
  "STRING_LITERAL = R_all
     [R_lit [CHR 0x22],
      R_star True (R_alt (R_all [R_lit [CHR 0x5C], R_char (\<lambda>c. c \<noteq> CHR 0x0A)])
        (R_char (\<lambda>c. c \<noteq> CHR 0x22 \<and> c \<noteq> CHR 0x5C))),
      R_lit [CHR 0x22]]"

definition strip_source :: "string \<Rightarrow> string" where
  "strip_source s = re_sub STRING_LITERAL [CHR 0x22, CHR 0x22] (re_sub LINE_COMMENT '' '' (re_sub BLOCK_COMMENT '' '' s))"

section \<open>Nesting\<close>

datatype fault =
    Unmatched_delimiter char nat
  | Unclosed_delimiters
  | Unmatched_block string
  | Unclosed_blocks
  | Tab_character
  | Trailing_space nat
  | Forbidden_marker string
  | Missing_fragment string
  | Unexpected_clock path string
  | Policy string

text \<open>The delimiters: a closing one that does not fit is reported and leaves the stack as it is.\<close>

definition opens_delimiter :: "char \<Rightarrow> char option" where
  "opens_delimiter c =
     (if c = CHR ''('' then Some CHR '')'' else if c = CHR ''['' then Some CHR '']''
      else if c = CHR ''{'' then Some CHR ''}'' else None)"

fun delimiters :: "nat \<Rightarrow> string \<Rightarrow> (char \<times> nat) list \<Rightarrow> fault list" where
  "delimiters n [] stack = (if stack = [] then [] else [Unclosed_delimiters])"
| "delimiters n (c # cs) stack =
     (if c \<in> {CHR ''('', CHR ''['', CHR ''{''} then delimiters (Suc n) cs ((c, n) # stack)
      else if c \<in> {CHR '')'', CHR '']'', CHR ''}''} then
        (case stack of
           [] \<Rightarrow> Unmatched_delimiter c n # delimiters (Suc n) cs stack
         | (top_char, _) # rest \<Rightarrow>
             if opens_delimiter top_char \<noteq> Some c then Unmatched_delimiter c n # delimiters (Suc n) cs stack
             else delimiters (Suc n) cs rest)
      else delimiters (Suc n) cs stack)"

definition PAIR :: "(string \<times> string) list" where
  "PAIR = [(''begin'', ''end''), (''case'', ''endcase''), (''module'', ''endmodule''), (''function'', ''endfunction''),
     (''task'', ''endtask''), (''package'', ''endpackage''), (''generate'', ''endgenerate'')]"

definition CLOSERS :: "string list" where
  "CLOSERS = map snd PAIR"

definition BLOCK_WORDS :: "string list" where
  "BLOCK_WORDS = [''module'', ''endmodule'', ''package'', ''endpackage'', ''function'', ''endfunction'', ''task'',
     ''endtask'', ''generate'', ''endgenerate'', ''case'', ''casez'', ''casex'', ''endcase'', ''begin'', ''end'',
     ''fork'', ''join'', ''join_any'', ''join_none'']"

definition BLOCK_RE :: regex where
  "BLOCK_RE = R_all [R_boundary, R_any (map R_lit BLOCK_WORDS), R_boundary]"

definition plain_case :: "string \<Rightarrow> string" where
  "plain_case tok = (if tok = ''casez'' \<or> tok = ''casex'' then ''case'' else tok)"

fun blocks :: "string list \<Rightarrow> string list \<Rightarrow> fault list" where
  "blocks [] stack = (if stack = [] then [] else [Unclosed_blocks])"
| "blocks (word # toks) stack =
     (let tok = plain_case word in
      if tok = ''fork'' then blocks toks (''join'' # stack)
      else if tok \<in> {''join'', ''join_any'', ''join_none''} then
        (if stack = [] \<or> hd stack \<noteq> ''join'' then Unmatched_block tok # blocks toks stack
         else blocks toks (tl stack))
      else (case map_of PAIR tok of
          Some closer \<Rightarrow> blocks toks (closer # stack)
        | None \<Rightarrow>
            if tok \<in> set CLOSERS then
              (if stack = [] \<or> hd stack \<noteq> tok then Unmatched_block tok # blocks toks stack
               else blocks toks (tl stack))
            else blocks toks stack))"

fun trailing :: "nat \<Rightarrow> string list \<Rightarrow> fault list" where
  "trailing n [] = []"
| "trailing n (line # lines) =
     (if str_rstrip line \<noteq> line then [Trailing_space n] else []) @ trailing (Suc n) lines"

definition text_faults :: "string \<Rightarrow> fault list" where
  "text_faults s =
     (let clean = strip_source s in
      delimiters 0 clean [] @ blocks (re_findall BLOCK_RE clean) []
      @ (if contains [CHR 0x09] s then [Tab_character] else []) @ trailing 1 (splitlines s))"

definition check_file :: "source_tree \<Rightarrow> path \<Rightarrow> fault list result" where
  "check_file t p = result_bind (read_expanded t [] p) (\<lambda>s. Inr (text_faults s))"

section \<open>What it means to be nested\<close>

text \<open>Words over symbols that open a block (with the kind that closes it), that close one, and others.\<close>

inductive nested :: "('a \<Rightarrow> 'k option) \<Rightarrow> ('a \<Rightarrow> 'k option) \<Rightarrow> 'a list \<Rightarrow> bool"
  for opens closes :: "'a \<Rightarrow> 'k option" where
  nested_Nil: "nested opens closes []"
| nested_other: "opens x = None \<Longrightarrow> closes x = None \<Longrightarrow> nested opens closes w \<Longrightarrow> nested opens closes (x # w)"
| nested_block: "opens x = Some k \<Longrightarrow> nested opens closes u \<Longrightarrow> opens y = None \<Longrightarrow> closes y = Some k \<Longrightarrow>
    nested opens closes v \<Longrightarrow> nested opens closes (x # u @ y # v)"

text \<open>The same with a stack of the kinds that are still open.\<close>

primrec balanced :: "('a \<Rightarrow> 'k option) \<Rightarrow> ('a \<Rightarrow> 'k option) \<Rightarrow> 'a list \<Rightarrow> 'k list \<Rightarrow> bool" where
  "balanced opens closes [] stack = (stack = [])"
| "balanced opens closes (x # xs) stack =
     (case opens x of
        Some k \<Rightarrow> balanced opens closes xs (k # stack)
      | None \<Rightarrow> (case closes x of
            None \<Rightarrow> balanced opens closes xs stack
          | Some k \<Rightarrow> stack \<noteq> [] \<and> hd stack = k \<and> balanced opens closes xs (tl stack)))"

lemma balanced_nested: "nested opens closes w \<Longrightarrow> balanced opens closes (w @ v) stack \<longleftrightarrow> balanced opens closes v stack"
  by (induction w arbitrary: v stack rule: nested.induct) simp_all

lemma nested_append: "nested opens closes u \<Longrightarrow> nested opens closes v \<Longrightarrow> nested opens closes (u @ v)"
  by (induction u rule: nested.induct) (auto intro: nested.intros)

primrec closing :: "('a \<Rightarrow> 'k option) \<Rightarrow> ('a \<Rightarrow> 'k option) \<Rightarrow> 'k list \<Rightarrow> 'a list \<Rightarrow> bool" where
  "closing opens closes [] w = nested opens closes w"
| "closing opens closes (k # stack) w =
     (\<exists>u y v. w = u @ y # v \<and> nested opens closes u \<and> opens y = None \<and> closes y = Some k \<and>
        closing opens closes stack v)"

lemma closing_append: "nested opens closes u \<Longrightarrow> closing opens closes stack v \<Longrightarrow> closing opens closes stack (u @ v)"
proof (cases stack)
  case (Cons k rest)
  assume "nested opens closes u" and "closing opens closes stack v"
  then obtain u' y v' where "v = u' @ y # v'" "nested opens closes (u @ u')" "opens y = None" "closes y = Some k"
      "closing opens closes rest v'"
    using Cons nested_append by fastforce
  then show ?thesis using Cons by (auto intro!: exI [of _ "u @ u'"])
qed (simp add: nested_append)

lemma balanced_closing: "balanced opens closes w stack \<Longrightarrow> closing opens closes stack w"
proof (induction w arbitrary: stack)
  case Nil
  then show ?case by (simp add: nested.nested_Nil)
next
  case (Cons x w)
  show ?case
  proof (cases "opens x")
    case None
    show ?thesis
    proof (cases "closes x")
      case other: None
      have "nested opens closes [x]" using None other by (intro nested.intros)
      moreover have "closing opens closes stack w" using Cons None other by simp
      ultimately show ?thesis using closing_append by fastforce
    next
      case (Some k)
      then obtain rest where "stack = k # rest" "balanced opens closes w rest"
        using Cons(2) None by (cases stack) auto
      then show ?thesis using Cons(1) None Some by (auto intro!: exI [of _ "[]"] nested.nested_Nil)
    qed
  next
    case (Some k)
    then have "closing opens closes (k # stack) w" using Cons by (simp del: closing.simps)
    then obtain u y v where w: "w = u @ y # v" "nested opens closes u" "opens y = None" "closes y = Some k"
        "closing opens closes stack v"
      unfolding closing.simps by blast
    have "nested opens closes (x # u @ y # [])"
      using Some w by (intro nested.nested_block [OF _ _ _ _ nested.nested_Nil]) auto
    from closing_append [OF this w(5)] show ?thesis by (simp add: w(1))
  qed
qed

lemma balanced_iff_nested: "balanced opens closes w [] \<longleftrightarrow> nested opens closes w"
  using balanced_closing [of opens closes w "[]"] balanced_nested [of opens closes w "[]" "[]"] by auto

section \<open>No fault means nested\<close>

definition closes_delimiter :: "char \<Rightarrow> char option" where
  "closes_delimiter c = (if c \<in> {CHR '')'', CHR '']'', CHR ''}''} then Some c else None)"

lemma delimiter_kinds:
  "c \<in> {CHR ''('', CHR ''['', CHR ''{''} \<longleftrightarrow> (\<exists>k. opens_delimiter c = Some k)"
  "c \<in> {CHR '')'', CHR '']'', CHR ''}''} \<longleftrightarrow> closes_delimiter c = Some c"
  by (auto simp: opens_delimiter_def closes_delimiter_def)

lemma delimiter_apart:
  "opens_delimiter c = Some k \<Longrightarrow> closes_delimiter c = None"
  "closes_delimiter c = Some k \<Longrightarrow> opens_delimiter c = None \<and> k = c"
  by (auto simp: opens_delimiter_def closes_delimiter_def split: if_splits)

lemma delimiters_balanced:
  "list_all (\<lambda>(c, n). opens_delimiter c \<noteq> None) stack \<Longrightarrow>
   delimiters n s stack = [] \<longleftrightarrow>
     balanced opens_delimiter closes_delimiter s (map (\<lambda>(c, n). the (opens_delimiter c)) stack)"
proof (induction s arbitrary: n stack)
  case (Cons c cs)
  consider k where "opens_delimiter c = Some k" | "opens_delimiter c = None" "closes_delimiter c = None"
    | "opens_delimiter c = None" "closes_delimiter c = Some c"
    using delimiter_apart(2) by (cases "opens_delimiter c"; cases "closes_delimiter c") auto
  then show ?case
  proof cases
    case 1
    then show ?thesis using Cons by (simp add: delimiter_kinds del: insert_iff)
  next
    case 2
    then show ?thesis using Cons by (simp add: delimiter_kinds del: insert_iff)
  next
    case 3
    show ?thesis
    proof (cases stack)
      case Nil
      then show ?thesis using 3 by (simp add: delimiter_kinds del: insert_iff)
    next
      case (Cons top_entry rest)
      obtain d m where "top_entry = (d, m)" by fastforce
      then show ?thesis
        using 3 Cons Cons.prems Cons.IH [of rest] by (auto simp: delimiter_kinds simp del: insert_iff)
    qed
  qed
qed simp

definition opens_block :: "string \<Rightarrow> string option" where
  "opens_block word = (if word = ''fork'' then Some ''join'' else map_of PAIR (plain_case word))"

definition closes_block :: "string \<Rightarrow> string option" where
  "closes_block word =
     (if word \<in> {''join'', ''join_any'', ''join_none''} then Some ''join''
      else if word \<in> set CLOSERS then Some word else None)"

lemma block_words:
  assumes "word \<in> {''join'', ''join_any'', ''join_none''} \<or> word \<in> set CLOSERS"
  shows "plain_case word = word" "word \<noteq> ''fork''" "map_of PAIR word = None"
proof -
  have "list_all (\<lambda>w. plain_case w = w \<and> w \<noteq> ''fork'' \<and> map_of PAIR w = None)
      ([''join'', ''join_any'', ''join_none''] @ CLOSERS)"
    by code_simp
  then show "plain_case word = word" "word \<noteq> ''fork''" "map_of PAIR word = None"
    using assms by (auto simp: list_all_iff)
qed

lemma plain_case_other: "plain_case word = word \<or> plain_case word = ''case'' \<and> word \<in> {''casez'', ''casex''}"
  by (simp add: plain_case_def)

lemma other_words:
  assumes "word \<noteq> ''fork''" "word \<notin> {''join'', ''join_any'', ''join_none''}" "word \<notin> set CLOSERS"
  shows "plain_case word \<noteq> ''fork''" "plain_case word \<notin> {''join'', ''join_any'', ''join_none''}"
    "plain_case word \<notin> set CLOSERS"
proof -
  have "''case'' \<noteq> ''fork'' \<and> ''case'' \<notin> set [''join'', ''join_any'', ''join_none''] \<and> ''case'' \<notin> set CLOSERS"
    by code_simp
  then show "plain_case word \<noteq> ''fork''" "plain_case word \<notin> {''join'', ''join_any'', ''join_none''}"
    "plain_case word \<notin> set CLOSERS"
    using assms plain_case_other [of word] by (metis list.set(1) list.simps(15))+
qed

lemma blocks_balanced: "blocks toks stack = [] \<longleftrightarrow> balanced opens_block closes_block toks stack"
proof (induction toks arbitrary: stack)
  case (Cons word toks)
  define joins where "joins = {''join'', ''join_any'', ''join_none''}"
  consider "word = ''fork''" | "word \<in> joins" | "word \<in> set CLOSERS" "word \<notin> joins"
    | "word \<notin> set CLOSERS" "word \<notin> joins" "word \<noteq> ''fork''"
    by blast
  then show ?case
  proof cases
    case 1
    then show ?thesis by (simp add: Cons plain_case_def opens_block_def)
  next
    case 2
    then show ?thesis
      using block_words [of word]
      by (simp add: Cons opens_block_def closes_block_def joins_def [symmetric] Let_def)
  next
    case 3
    then show ?thesis
      using block_words [of word]
      by (simp add: Cons opens_block_def closes_block_def joins_def [symmetric] Let_def)
  next
    case 4
    then show ?thesis
      using other_words [of word]
      by (simp add: Cons opens_block_def closes_block_def joins_def [symmetric] Let_def split: option.split)
  qed
qed simp

text \<open>A text has no fault exactly when its delimiters and its block keywords are nested, and it has neither tabs nor
  white space at line ends.\<close>

lemma contains_char: "contains [c] s \<longleftrightarrow> c \<in> set s"
  by (auto simp: sublist_def in_set_conv_decomp)

lemma trailing_Nil: "trailing n lines = [] \<longleftrightarrow> (\<forall>line \<in> set lines. str_rstrip line = line)"
  by (induction lines arbitrary: n) auto

lemma text_faults_Nil:
  "text_faults s = [] \<longleftrightarrow>
     nested opens_delimiter closes_delimiter (strip_source s) \<and>
     nested opens_block closes_block (re_findall BLOCK_RE (strip_source s)) \<and>
     CHR 0x09 \<notin> set s \<and> (\<forall>line \<in> set (splitlines s). str_rstrip line = line)"
  using delimiters_balanced [of "[]" 0 "strip_source s"]
  by (simp add: text_faults_def Let_def trailing_Nil blocks_balanced balanced_iff_nested contains_char)

text \<open>Comments go before strings: what stands between two strings that hold a comment's ends is not looked at.\<close>

definition hidden_text :: string where
  "hidden_text = [CHR 0x22] @ ''/*'' @ [CHR 0x22] @ '' ( '' @ [CHR 0x22] @ ''*/'' @ [CHR 0x22]"

lemma hidden_between_strings: "text_faults hidden_text = []"
  by code_simp

section \<open>The policy of the deployment sources\<close>

definition is_identifier_start :: "char \<Rightarrow> bool" where
  "is_identifier_start c = (is_identifier_char c \<and> \<not> (let n = of_char c :: nat in 48 \<le> n \<and> n \<le> 57))"

definition POSEDGE_RE :: regex where
  "POSEDGE_RE = R_all
     [R_boundary, R_lit ''posedge'', R_spaces1,
      R_group 1 (R_seq (R_char is_identifier_start)
        (R_star True (R_char is_identifier_char)))]"

definition RX_ASSIGNMENT_RE :: regex where
  "RX_ASSIGNMENT_RE = R_all
     [R_lit ''rx_accept_enable_o'', R_spaces, R_lit ''='', R_spaces, R_group 1 (R_star False (R_char (\<lambda>_. True))),
      R_lit '';'']"

definition ALLOWED_CLOCKS :: "string list" where
  "ALLOWED_CLOCKS = [''clk_i'', ''sys_clk_i'']"

definition FORBIDDEN_MARKERS :: "string list" where
  "FORBIDDEN_MARKERS = [''placeholder'', ''bypass tag'', ''todo'', ''fixme'']"

definition REQUIRED_CORE :: "string list" where
  "REQUIRED_CORE =
     [''fbyte(candidate_frame,1) != 8'' @ [CHR 0x27] @ ''h02'',
      ''last_accepted_sequence <= candidate_sequence'',
      ''candidate_sequence != last_accepted_sequence + 1'' @ [CHR 0x27] @ ''b1'',
      ''auth_result_plaintext <= decrypt_plaintext'',
      ''decrypt_abort <= 1'' @ [CHR 0x27] @ ''b1'',
      ''fault_o = fault_latched | (session_state == SESSION_FAULT_LOCKED)'',
      ''!(fault_latched | (session_state == SESSION_FAULT_LOCKED))'']"

definition ASCON_SECRETS :: "string list" where
  "ASCON_SECRETS = map (\<lambda>r. r @ '' <= '' @ [CHR 0x27] @ ''0'') [''k0'', ''k1'', ''ad_reg'', ''ct_reg'', ''tag_reg'', ''plaintext_o'']"

definition REQUIRED_TCL :: "string list" where
  "REQUIRED_TCL = [''if {[file exists impl]}'', ''file delete -force impl'',
     ''set_device -name GW2A-18C GW2A-LV18PG256C8/I7'', ''set_option -top_module primer2_top'',
     ''set_option -verilog_std sysv2017'', ''set_option -include_path {../rtl/core}'',
     ''set_option -output_base_name trinity_primer2'', ''run all'']"

definition REQUIRED_PROJECT :: "string list" where
  "REQUIRED_PROJECT = [''name='' @ [CHR 0x22] @ ''GW2A-18C'' @ [CHR 0x22],
     ''pn='' @ [CHR 0x22] @ ''GW2A-LV18PG256C8/I7'' @ [CHR 0x22], ''>gw2a18c-011</Device>'', ''primer2_top.sv'',
     ''primer2.cst'', ''primer2.sdc'']"

definition missing :: "string list \<Rightarrow> string \<Rightarrow> fault list" where
  "missing fragments s = map Missing_fragment (filter (\<lambda>f. \<not> contains f s) fragments)"

definition check_policy :: "bool \<Rightarrow> string \<Rightarrow> fault list" where
  "check_policy bad message = (if bad then [Policy message] else [])"

text \<open>The clocks of one file that are not allowed.\<close>

definition clock_faults :: "path \<Rightarrow> string \<Rightarrow> fault list" where
  "clock_faults p expanded =
     map (Unexpected_clock p) (filter (\<lambda>c. c \<notin> set ALLOWED_CLOCKS)
       (map hd (re_findall_groups POSEDGE_RE [1] (strip_source expanded))))"

definition rx_faults :: "string \<Rightarrow> fault list" where
  "rx_faults core =
     (case re_search RX_ASSIGNMENT_RE core of
        None \<Rightarrow> [Policy ''rx_accept_enable_o assignment not found'']
      | Some gs \<Rightarrow> check_policy (contains ''fault_o'' (group_text gs 1))
            ''rx_accept_enable_o must not read combinational output fault_o'')"

text \<open>\<open>core.find(a) > core.find(b)\<close>, where a text that does not occur is at -1.\<close>

definition found_after :: "string \<Rightarrow> string \<Rightarrow> string \<Rightarrow> bool" where
  "found_after a b s =
     (case str_find a s of
        None \<Rightarrow> False
      | Some m \<Rightarrow> (case str_find b s of None \<Rightarrow> True | Some n \<Rightarrow> n < m))"

definition core_faults :: "string \<Rightarrow> fault list" where
  "core_faults core =
     missing REQUIRED_CORE core @ rx_faults core
     @ check_policy
         (found_after ''fault_o = fault_latched | (session_state == SESSION_FAULT_LOCKED)'' ''rx_accept_enable_o ='' core)
         ''fault_o must be assigned before receive-enable derivation''"

definition decrypt_faults :: "string \<Rightarrow> fault list" where
  "decrypt_faults decrypt =
     map Missing_fragment (filter (\<lambda>secret. str_count secret decrypt < 2) ASCON_SECRETS)
     @ check_policy (\<not> contains ''((x3 ^ k0) == tag_reg[63:0])'' decrypt \<or>
           \<not> contains ''((x4 ^ k1) == tag_reg[127:64])'' decrypt)
         ''full 128-bit Ascon tag comparison not found''"

definition CST_PORTS :: "string list" where
  "CST_PORTS = [''sys_clk_i'', ''rst_ni'', ''spi_sck_i'', ''spi_mosi_i'', ''spi_miso_o'', ''spi_cs_ni'', ''irq_no'',
     ''uart_rx_i'', ''fault_o'', ''fatal_latched_i'', ''secure_enable_i'', ''zeroize_ni'', ''heartbeat_o'']"

text \<open>\<open>main\<close>, with the files of \<open>SV\<close> in the order of the directory listing: the faults it prints.\<close>

definition rtl_main :: "source_tree \<Rightarrow> path \<Rightarrow> path list \<Rightarrow> fault list result" where
  "rtl_main t root sv =
     (let file = (\<lambda>parts. file_text t (root @ parts)) in
      result_bind (result_list (check_file t) sv) (\<lambda>file_faults.
      result_bind (result_list (read_expanded t []) sv) (\<lambda>expanded.
      let joined = str_join [CHR 0x0A] (map str_lower expanded) in
      result_bind (file [''rtl'', ''primer2_top.sv'']) (\<lambda>top_text.
      result_bind (read_expanded t [] (root @ [''rtl'', ''core'', ''primer2_command_core.sv''])) (\<lambda>core.
      result_bind (file [''rtl'', ''crypto'', ''ascon_aead128_decrypt.sv'']) (\<lambda>decrypt.
      result_bind (file [''rtl'', ''io'', ''uart_frame_receiver.sv'']) (\<lambda>receiver.
      result_bind (file [''gowin'', ''run.tcl'']) (\<lambda>tcl.
      result_bind (file [''gowin'', ''trinity_primer2.gprj'']) (\<lambda>project.
      result_bind (file [''constraints'', ''primer2.sdc'']) (\<lambda>sdc.
      result_bind (file [''constraints'', ''primer2.cst'']) (\<lambda>cst.
      Inr (concat file_faults
        @ map Forbidden_marker (filter (\<lambda>bad. contains bad joined) FORBIDDEN_MARKERS)
        @ missing [''heartbeat_o'', ''fault_o'', ''irq_no'', ''secure_enable_i'', ''zeroize_ni'', ''fatal_latched_i'',
            ''uart_rx_i''] top_text
        @ concat (map2 clock_faults sv expanded)
        @ core_faults core
        @ decrypt_faults decrypt
        @ check_policy (\<not> contains ''RX_HUNT_SYNC'' receiver \<or> \<not> contains ''RX_RECEIVE_BODY'' receiver)
            ''UART receiver sync/body separation not found''
        @ missing REQUIRED_TCL tcl
        @ missing REQUIRED_PROJECT project
        @ check_policy (\<not> contains ''create_clock -name sys_clk_27m -period 37.037'' sdc)
            ''27 MHz primary clock constraint missing''
        @ missing (map (\<lambda>port. ''IO_LOC '' @ [CHR 0x22] @ port @ [CHR 0x22]) CST_PORTS) cst))))))))))))"

definition rtl_exit :: "source_tree \<Rightarrow> path \<Rightarrow> path list \<Rightarrow> int result" where
  "rtl_exit t root sv = result_bind (rtl_main t root sv) (\<lambda>faults. Inr (if faults = [] then 0 else 1))"

text \<open>What a passed check says of a source file, its includes expanded.\<close>

definition source_ok :: "path \<Rightarrow> string \<Rightarrow> bool" where
  "source_ok p s \<longleftrightarrow>
     nested opens_delimiter closes_delimiter (strip_source s) \<and>
     nested opens_block closes_block (re_findall BLOCK_RE (strip_source s)) \<and>
     CHR 0x09 \<notin> set s \<and> (\<forall>line \<in> set (splitlines s). str_rstrip line = line) \<and>
     (\<forall>gs \<in> set (re_findall_groups POSEDGE_RE [1] (strip_source s)). hd gs \<in> set ALLOWED_CLOCKS) \<and>
     (\<forall>bad \<in> set FORBIDDEN_MARKERS. \<not> contains bad (str_lower s))"

lemma sublist_join: "x \<in> set xs \<Longrightarrow> sublist x (str_join sep xs)"
proof (induction sep xs rule: str_join.induct)
  case (3 sep y z zs)
  show ?case
  proof (cases "x = y")
    case False
    then have "sublist x (str_join sep (z # zs))" using 3 by auto
    then show ?thesis by (auto simp: sublist_def) (metis append.assoc)
  qed (simp add: sublist_appendI [of "[]", simplified])
qed simp_all

lemma rtl_main_sources:
  assumes "rtl_main t root_dir sv = Inr []" and p: "p \<in> set sv"
  shows "\<exists>s. read_expanded t [] p = Inr s \<and> source_ok p s"
proof -
  from assms(1) obtain file_faults expanded where
    ff: "result_list (check_file t) sv = Inr file_faults" and ex: "result_list (read_expanded t []) sv = Inr expanded"
    and faults: "concat file_faults = []" "concat (map2 clock_faults sv expanded) = []"
      "map Forbidden_marker (filter (\<lambda>bad. contains bad (str_join [CHR 0x0A] (map str_lower expanded))) FORBIDDEN_MARKERS) = []"
    unfolding rtl_main_def Let_def result_bind_eq_Inr sum.inject append_is_Nil_conv by blast
  have markers: "\<not> contains bad (str_join [CHR 0x0A] (map str_lower expanded))" if "bad \<in> set FORBIDDEN_MARKERS" for bad
    using faults(3) that by (simp add: filter_empty_conv)
  from p obtain i where i: "i < length sv" "sv ! i = p" by (auto simp: in_set_conv_nth)
  have len: "length file_faults = length sv" "length expanded = length sv"
    using ff ex by (auto simp: result_list_Inr dest: list_all2_lengthD)
  let ?s = "expanded ! i"
  have s: "read_expanded t [] p = Inr ?s"
    using ex i by (auto simp: result_list_Inr list_all2_conv_all_nth)
  have "check_file t p = Inr (file_faults ! i)"
    using ff i by (auto simp: result_list_Inr list_all2_conv_all_nth)
  moreover have "file_faults ! i = []" using faults(1) i len by simp
  ultimately have "text_faults ?s = []" by (simp add: check_file_def s)
  moreover have "clock_faults p ?s = []"
    using faults(2) i len by (auto simp: in_set_conv_nth set_zip)
  moreover have "\<not> contains bad (str_lower ?s)" if "bad \<in> set FORBIDDEN_MARKERS" for bad
  proof -
    have "str_lower ?s \<in> set (map str_lower expanded)" using i len by simp
    then have "sublist (str_lower ?s) (str_join [CHR 0x0A] (map str_lower expanded))" by (rule sublist_join)
    then show ?thesis using markers [OF that] sublist_order.order.trans by blast
  qed
  ultimately show ?thesis
    using s by (auto simp: source_ok_def text_faults_Nil clock_faults_def filter_empty_conv)
qed

text \<open>A project that passes, with one source searched.\<close>

definition sample_source :: string where
  "sample_source = ''module a; always @(posedge clk_i) x <= 0; endmodule''"

definition sample_core :: string where
  "sample_core = str_join [CHR 0x0A] (REQUIRED_CORE @ [''rx_accept_enable_o = ready;''])"

definition sample_decrypt :: string where
  "sample_decrypt = str_join [CHR 0x0A] (ASCON_SECRETS @ ASCON_SECRETS
     @ [''((x3 ^ k0) == tag_reg[63:0])'', ''((x4 ^ k1) == tag_reg[127:64])''])"

definition sample_cst :: string where
  "sample_cst = str_join [CHR 0x0A] (map (\<lambda>port. ''IO_LOC '' @ [CHR 0x22] @ port @ [CHR 0x22]) CST_PORTS)"

definition sample_texts :: "(string list \<times> string) list" where
  "sample_texts =
     [([''rtl'', ''a.sv''], sample_source),
      ([''rtl'', ''primer2_top.sv''], ''heartbeat_o fault_o irq_no secure_enable_i zeroize_ni fatal_latched_i uart_rx_i''),
      ([''rtl'', ''core'', ''primer2_command_core.sv''], sample_core),
      ([''rtl'', ''crypto'', ''ascon_aead128_decrypt.sv''], sample_decrypt),
      ([''rtl'', ''io'', ''uart_frame_receiver.sv''], ''RX_HUNT_SYNC RX_RECEIVE_BODY''),
      ([''gowin'', ''run.tcl''], str_join [CHR 0x0A] REQUIRED_TCL),
      ([''gowin'', ''trinity_primer2.gprj''], str_join [CHR 0x0A] REQUIRED_PROJECT),
      ([''constraints'', ''primer2.sdc''], ''create_clock -name sys_clk_27m -period 37.037''),
      ([''constraints'', ''primer2.cst''], sample_cst)]"

lemma sample_stripped: "strip_source sample_source = sample_source"
  by code_simp

lemma sample_source_faults: "text_faults sample_source = []"
proof -
  have "delimiters 0 sample_source [] = []" "re_findall BLOCK_RE sample_source = [''module'', ''endmodule'']"
    "trailing 1 (splitlines sample_source) = []" "\<not> contains [CHR 0x09] sample_source"
    by code_simp+
  moreover have "blocks [''module'', ''endmodule''] [] = []" by code_simp
  ultimately show ?thesis by (simp add: text_faults_def sample_stripped Let_def)
qed

lemma sample_source_clocks: "clock_faults p sample_source = []"
proof -
  have "re_findall_groups POSEDGE_RE [1] sample_source = [[''clk_i'']]" by code_simp
  then show ?thesis by (simp add: clock_faults_def sample_stripped ALLOWED_CLOCKS_def)
qed

lemma sample_core_faults: "core_faults sample_core = []"
proof -
  have "missing REQUIRED_CORE sample_core = []" "rx_faults sample_core = []"
    "\<not> found_after ''fault_o = fault_latched | (session_state == SESSION_FAULT_LOCKED)'' ''rx_accept_enable_o ='' sample_core"
    by code_simp+
  then show ?thesis by (simp add: core_faults_def check_policy_def)
qed

lemma sample_includes: "find_from INCLUDE_RE [] sample_source = []" "find_from INCLUDE_RE [] sample_core = []"
  by code_simp+

lemma sample_expanded:
  "read_expanded sample_texts [] [''rtl'', ''a.sv''] = Inr sample_source"
  "read_expanded sample_texts [] [''rtl'', ''core'', ''primer2_command_core.sv''] = Inr sample_core"
  by (simp_all add: read_expanded.simps sample_texts_def sample_includes)

lemma sample_fragments:
  "missing [''heartbeat_o'', ''fault_o'', ''irq_no'', ''secure_enable_i'', ''zeroize_ni'', ''fatal_latched_i'', ''uart_rx_i'']
     ''heartbeat_o fault_o irq_no secure_enable_i zeroize_ni fatal_latched_i uart_rx_i'' = []"
  "decrypt_faults sample_decrypt = []"
  "contains ''RX_HUNT_SYNC'' ''RX_HUNT_SYNC RX_RECEIVE_BODY''" "contains ''RX_RECEIVE_BODY'' ''RX_HUNT_SYNC RX_RECEIVE_BODY''"
  "missing REQUIRED_TCL (str_join [CHR 0x0A] REQUIRED_TCL) = []"
  "missing REQUIRED_PROJECT (str_join [CHR 0x0A] REQUIRED_PROJECT) = []"
  "missing (map (\<lambda>port. ''IO_LOC '' @ [CHR 0x22] @ port @ [CHR 0x22]) CST_PORTS) sample_cst = []"
  "contains ''create_clock -name sys_clk_27m -period 37.037'' ''create_clock -name sys_clk_27m -period 37.037''"
  "filter (\<lambda>bad. contains bad (str_join [CHR 0x0A] (map str_lower [sample_source]))) FORBIDDEN_MARKERS = []"
  by code_simp+

lemma sample_files:
  "file_text sample_texts ([] @ [''rtl'', ''primer2_top.sv'']) =
     Inr ''heartbeat_o fault_o irq_no secure_enable_i zeroize_ni fatal_latched_i uart_rx_i''"
  "file_text sample_texts ([] @ [''rtl'', ''crypto'', ''ascon_aead128_decrypt.sv'']) = Inr sample_decrypt"
  "file_text sample_texts ([] @ [''rtl'', ''io'', ''uart_frame_receiver.sv'']) = Inr ''RX_HUNT_SYNC RX_RECEIVE_BODY''"
  "file_text sample_texts ([] @ [''gowin'', ''run.tcl'']) = Inr (str_join [CHR 0x0A] REQUIRED_TCL)"
  "file_text sample_texts ([] @ [''gowin'', ''trinity_primer2.gprj'']) = Inr (str_join [CHR 0x0A] REQUIRED_PROJECT)"
  "file_text sample_texts ([] @ [''constraints'', ''primer2.sdc'']) = Inr ''create_clock -name sys_clk_27m -period 37.037''"
  "file_text sample_texts ([] @ [''constraints'', ''primer2.cst'']) = Inr sample_cst"
  "read_expanded sample_texts [] ([] @ [''rtl'', ''core'', ''primer2_command_core.sv'']) = Inr sample_core"
  by (simp_all add: file_text_def sample_expanded) (simp_all add: sample_texts_def)

lemma sample_lists:
  "result_list (check_file sample_texts) [[''rtl'', ''a.sv'']] = Inr [[]]"
  "result_list (read_expanded sample_texts []) [[''rtl'', ''a.sv'']] = Inr [sample_source]"
  by (simp_all add: check_file_def sample_expanded sample_source_faults)

lemma sample_texts_pass: "rtl_main sample_texts [] [[''rtl'', ''a.sv'']] = Inr []"
  unfolding rtl_main_def Let_def sample_lists sample_files result_bind_Inr
    sample_fragments sample_core_faults check_policy_def
  by (simp only: sample_fragments simp_thms if_False list.map list.case zip.simps prod.case sample_source_clocks
      concat.simps append.simps)

end
