(* ===== verification/Sim_Run.thy ===== *)
theory Sim_Run
  imports Py_Regex Vendor_Import Poly_Mul
begin

text \<open>
  The runners of the RTL testbenches, \<open>primer1/tb/run.py\<close> and \<open>primer2/tb/run.py\<close>: the vectors that the first one
  writes from the reference transforms, and the compilation and simulation of every testbench. The external
  programs are a parameter: what a command returns and prints.
\<close>

section \<open>Vectors\<close>

text \<open>\<open>write_hex\<close>: the low 16 bits of every number, in four hexadecimal digits, one to a line.\<close>

definition hex4 :: "int \<Rightarrow> string" where
  "hex4 v = pad_zero 4 (map digit_lower (digits 16 (nat (v AND 0xFFFF))))"

definition hex_lines :: "int list \<Rightarrow> string" where
  "hex_lines vals = concat (map (\<lambda>v. hex4 v @ [CHR 0x0A]) vals)"

definition vector_a :: "int list" where
  "vector_a = map (\<lambda>i. (17 * int i * int i + 31 * int i + 7) mod Q) [0..<256]"

definition vector_b :: "int list" where
  "vector_b = map (\<lambda>i. (29 * int i * int i + 11 * int i + 19) mod Q) [0..<256]"

definition write_hex :: "path \<Rightarrow> int list \<Rightarrow> unit disk_op" where
  "write_hex p vals = write_file p (hex_lines vals)"

definition generate_vectors :: "path \<Rightarrow> unit disk_op" where
  "generate_vectors root_dir =
     (let generated = root_dir @ [''tb'', ''generated''] in
      disk_then (make_dirs generated)
     (disk_bind (disk_lift (ntt vector_a)) (\<lambda>ntt_a.
      disk_bind (disk_lift (ntt vector_b)) (\<lambda>ntt_b.
      disk_then (write_hex (generated @ [''ntt_input.hex'']) vector_a)
     (disk_then (write_hex (generated @ [''ntt_expected.hex'']) ntt_a)
     (disk_then (write_hex (generated @ [''intt_input.hex'']) ntt_a)
     (disk_bind (disk_lift (intt_standard ntt_a)) (\<lambda>intt_a.
      disk_then (write_hex (generated @ [''intt_expected.hex'']) intt_a)
     (disk_then (write_hex (generated @ [''basemul_a.hex'']) ntt_a)
     (disk_then (write_hex (generated @ [''basemul_b.hex'']) ntt_b)
     (disk_bind (disk_lift (basemul_standard ntt_a ntt_b)) (\<lambda>product_ab.
      write_hex (generated @ [''basemul_expected.hex'']) product_ab))))))))))))"

section \<open>Running the testbenches\<close>

text \<open>The programs: whether one is found, what a command does (its exit status, what it prints), and the two output
  streams.\<close>

record 'w shell =
  sh_which :: "string \<Rightarrow> bool"
  sh_run :: "string list \<Rightarrow> 'w \<Rightarrow> (int \<times> string \<times> string) \<times> 'w"
  sh_out :: "string \<Rightarrow> 'w \<Rightarrow> 'w"
  sh_err :: "string \<Rightarrow> 'w \<Rightarrow> 'w"

text \<open>\<open>subprocess.run\<close> with its output captured, then printed when there is some.\<close>

definition run_printed :: "'w shell \<Rightarrow> string list \<Rightarrow> 'w \<Rightarrow> int \<times> 'w" where
  "run_printed S cmd w =
     (let ((code, stdout, stderr), w1) = sh_run S cmd w;
          w2 = (if stdout \<noteq> [] then sh_out S stdout w1 else w1);
          w3 = (if stderr \<noteq> [] then sh_err S stderr w2 else w2)
      in (code, w3))"

text \<open>\<open>str(root / line)\<close> for a relative line: empty parts and single dots are dropped.\<close>

definition path_text :: "path \<Rightarrow> string" where
  "path_text p = ''/'' @ str_join ''/'' p"

definition manifest_sources :: "path \<Rightarrow> string \<Rightarrow> path list" where
  "manifest_sources root_dir contents =
     map (\<lambda>line. root_dir @ filter (\<lambda>c. c \<noteq> [] \<and> c \<noteq> ''.'') (split_on CHR ''/'' (str_strip line)))
       (filter (\<lambda>line. str_strip line \<noteq> []) (splitlines contents))"

definition compile_command :: "path \<Rightarrow> path list \<Rightarrow> path \<Rightarrow> string \<Rightarrow> string list" where
  "compile_command root_dir sources output top_name =
     [''iverilog'', ''-g2012'', ''-Wall'', ''-Wno-timescale'', ''-I'', path_text (root_dir @ [''rtl'', ''core'']), ''-s'',
      top_name, ''-o'', path_text output]
     @ map path_text sources @ [path_text (root_dir @ [''tb'', top_name @ ''.sv''])]"

definition simulate_command :: "path \<Rightarrow> string list" where
  "simulate_command output = [''vvp'', path_text output]"

text \<open>The loop over the testbenches, with the failures so far.\<close>

primrec run_tops :: "'w shell \<Rightarrow> path \<Rightarrow> path list \<Rightarrow> path \<Rightarrow> string list \<Rightarrow> string list \<Rightarrow> 'w \<Rightarrow> string list \<times> 'w" where
  "run_tops S root_dir sources temp [] failures w = (failures, w)"
| "run_tops S root_dir sources temp (top_name # tops) failures w =
     (let output = temp @ [top_name @ ''.vvp''];
          w1 = sh_out S ([CHR 0x0A] @ ''=== COMPILE '' @ top_name @ '' ==='' @ [CHR 0x0A]) w;
          (compiled, w2) = run_printed S (compile_command root_dir sources output top_name) w1
      in if compiled \<noteq> 0 then run_tops S root_dir sources temp tops (failures @ [top_name @ '': compile'']) w2
         else
          (let w3 = sh_out S (''=== RUN '' @ top_name @ '' ==='' @ [CHR 0x0A]) w2;
               (simulated, w4) = run_printed S (simulate_command output) w3
           in run_tops S root_dir sources temp tops
                (failures @ (if simulated \<noteq> 0 then [top_name @ '': simulation''] else [])) w4))"

definition P1_TOPS :: "string list" where
  "P1_TOPS = [''tb_mlkem_poly_accel'', ''tb_ascon_aead128_encrypt'', ''tb_spi_packet_endpoint'', ''tb_uart_tx_byte'',
     ''tb_uart_frame_tx'', ''tb_primer1_command_core'', ''tb_primer1_top'']"

definition P2_TOPS :: "string list" where
  "P2_TOPS = [''tb_ascon_aead128_decrypt'', ''tb_uart_rx_byte'', ''tb_uart_frame_receiver'', ''tb_spi_packet_endpoint'',
     ''tb_primer2_command_core'', ''tb_bad_tag_threshold'', ''tb_fault_output'', ''tb_reset_states'', ''tb_primer2_top'']"

text \<open>The report after the loop, and the exit status.\<close>

definition finish_runs :: "'w shell \<Rightarrow> string \<Rightarrow> string list \<Rightarrow> 'w \<Rightarrow> int \<times> 'w" where
  "finish_runs S title failures w =
     (if failures \<noteq> [] then
        (1, fold (\<lambda>failure. sh_out S (''FAIL '' @ failure @ [CHR 0x0A])) failures
              (sh_out S ([CHR 0x0A] @ title @ '' FAIL'' @ [CHR 0x0A]) w))
      else (0, sh_out S ([CHR 0x0A] @ title @ '' PASS'' @ [CHR 0x0A]) w))"

text \<open>\<open>main\<close> of the Primer 1 runner, after the vectors; the list of sources is the text of \<open>sources.f\<close>.\<close>

definition tools_missing :: "'w shell \<Rightarrow> bool" where
  "tools_missing S \<longleftrightarrow> \<not> sh_which S ''iverilog'' \<or> \<not> sh_which S ''vvp''"

definition no_tools :: "'w shell \<Rightarrow> 'w \<Rightarrow> int \<times> 'w" where
  "no_tools S w = (2, sh_err S (''ERROR: iverilog and vvp are required'' @ [CHR 0x0A]) w)"

definition p1_run :: "'w shell \<Rightarrow> path \<Rightarrow> string \<Rightarrow> path \<Rightarrow> 'w \<Rightarrow> int \<times> 'w" where
  "p1_run S root_dir manifest temp w =
     (if tools_missing S then no_tools S w
      else (let (failures, w1) = run_tops S root_dir (manifest_sources root_dir manifest) temp P1_TOPS [] w
            in finish_runs S ''RTL VERIFICATION'' failures w1))"

text \<open>The Primer 2 runner: the static checks and the reference checks first, each of which ends the run with its
  status when that is not 0.\<close>

definition p2_run :: "'w shell \<Rightarrow> string \<Rightarrow> path \<Rightarrow> string \<Rightarrow> path \<Rightarrow> 'w \<Rightarrow> int \<times> 'w" where
  "p2_run S python root_dir manifest temp w =
     (let (static_code, w1) = run_printed S [python, path_text (root_dir @ [''scripts'', ''static_rtl_checks.py''])] w
      in if static_code \<noteq> 0 then (static_code, w1)
      else (let (reference_code, w2) = run_printed S [python, path_text (root_dir @ [''scripts'', ''reference_checks.py''])] w1
      in if reference_code \<noteq> 0 then (reference_code, w2)
      else if tools_missing S then no_tools S w2
      else (let (failures, w3) = run_tops S root_dir (manifest_sources root_dir manifest) temp P2_TOPS [] w2
            in finish_runs S ''PRIMER2 RTL REGRESSION'' failures w3)))"

text \<open>\<open>main\<close> of the Primer 1 runner: the vectors and the list of sources are on the disk.\<close>

definition p1_main :: "'w shell \<Rightarrow> (string \<Rightarrow> string) \<Rightarrow> path \<Rightarrow> path \<Rightarrow> 'w \<Rightarrow> disk \<Rightarrow> (int \<times> 'w) result \<times> disk" where
  "p1_main S decode root_dir temp w d =
     (if tools_missing S then (Inr (no_tools S w), d)
      else disk_then (generate_vectors root_dir)
        (disk_bind (read_file (root_dir @ [''sources.f''])) (\<lambda>manifest.
           disk_return (p1_run S root_dir (decode manifest) temp w))) d)"

section \<open>What a passed run has done\<close>

text \<open>The commands with their exit statuses, recorded beside the world.\<close>

definition noted :: "'w shell \<Rightarrow> ('w \<times> (string list \<times> int) list) shell" where
  "noted S = \<lparr>sh_which = sh_which S,
     sh_run = (\<lambda>cmd (w, log). let (r, w') = sh_run S cmd w in (r, (w', log @ [(cmd, fst r)]))),
     sh_out = (\<lambda>s (w, log). (sh_out S s w, log)), sh_err = (\<lambda>s (w, log). (sh_err S s w, log))\<rparr>"

lemma noted_sel [simp]: "sh_which (noted S) = sh_which S"
  "sh_out (noted S) s (w, log) = (sh_out S s w, log)" "sh_err (noted S) s (w, log) = (sh_err S s w, log)"
  by (simp_all add: noted_def)

lemma run_printed_noted:
  "run_printed (noted S) cmd (w, log) = (c, w1, log1) \<Longrightarrow> log1 = log @ [(cmd, c)]"
  by (auto simp: run_printed_def noted_def Let_def split: prod.splits if_splits)

text \<open>The commands of a testbench that compiles and simulates without failure.\<close>

definition passed_top :: "path \<Rightarrow> path list \<Rightarrow> path \<Rightarrow> string \<Rightarrow> (string list \<times> int) list" where
  "passed_top root_dir sources temp top_name =
     [(compile_command root_dir sources (temp @ [top_name @ ''.vvp'']) top_name, 0),
      (simulate_command (temp @ [top_name @ ''.vvp'']), 0)]"

lemma run_tops_noted:
  "run_tops (noted S) root_dir sources temp tops failures (w, log) = (failures', w', log') \<Longrightarrow>
     \<exists>more news. failures' = failures @ more \<and> log' = log @ news \<and>
       (more = [] \<longleftrightarrow> news = concat (map (passed_top root_dir sources temp) tops)) \<and>
       (\<forall>top_name \<in> set tops. \<exists>c. (compile_command root_dir sources (temp @ [top_name @ ''.vvp'']) top_name, c) \<in> set news)"
proof (induction tops arbitrary: failures w log)
  case Nil
  then show ?case by auto
next
  case (Cons top_name tops)
  let ?compile = "compile_command root_dir sources (temp @ [top_name @ ''.vvp'']) top_name"
  let ?simulate = "simulate_command (temp @ [top_name @ ''.vvp''])"
  obtain c w2 log2 where c: "run_printed (noted S) ?compile
      (sh_out S ([CHR 0x0A] @ ''=== COMPILE '' @ top_name @ '' ==='' @ [CHR 0x0A]) w, log) = (c, w2, log2)"
    by (metis prod_cases3)
  have log2: "log2 = log @ [(?compile, c)]" by (rule run_printed_noted [OF c])
  show ?case
  proof (cases "c = 0")
    case False
    then have "run_tops (noted S) root_dir sources temp tops (failures @ [top_name @ '': compile'']) (w2, log2) =
        (failures', w', log')"
      using Cons.prems c by (simp add: Let_def)
    from Cons.IH [OF this] obtain more news where rest: "failures' = (failures @ [top_name @ '': compile'']) @ more"
        "log' = log2 @ news"
        "\<forall>t \<in> set tops. \<exists>c. (compile_command root_dir sources (temp @ [t @ ''.vvp'']) t, c) \<in> set news"
      by blast
    have "(?compile, c) # news \<noteq> concat (map (passed_top root_dir sources temp) (top_name # tops))"
      using False by (simp add: passed_top_def)
    then show ?thesis
      using rest log2 by (intro exI [of _ "(top_name @ '': compile'') # more"] exI [of _ "(?compile, c) # news"]) auto
  next
    case True
    obtain m w4 log4 where m: "run_printed (noted S) ?simulate
        (sh_out S (''=== RUN '' @ top_name @ '' ==='' @ [CHR 0x0A]) w2, log2) = (m, w4, log4)"
      by (metis prod_cases3)
    have log4: "log4 = log @ [(?compile, 0), (?simulate, m)]"
      using run_printed_noted [OF m] log2 True by simp
    let ?new = "if m \<noteq> 0 then [top_name @ '': simulation''] else []"
    have "run_tops (noted S) root_dir sources temp tops (failures @ ?new) (w4, log4) = (failures', w', log')"
      using Cons.prems c True m by (simp add: Let_def)
    from Cons.IH [OF this] obtain more news where rest: "failures' = (failures @ ?new) @ more" "log' = log4 @ news"
        "more = [] \<longleftrightarrow> news = concat (map (passed_top root_dir sources temp) tops)"
        "\<forall>t \<in> set tops. \<exists>c. (compile_command root_dir sources (temp @ [t @ ''.vvp'']) t, c) \<in> set news"
      by blast
    have "?new @ more = [] \<longleftrightarrow>
        [(?compile, 0), (?simulate, m)] @ news = concat (map (passed_top root_dir sources temp) (top_name # tops))"
      using rest(3) by (simp add: passed_top_def)
    then show ?thesis
      using rest log4 by (intro exI [of _ "?new @ more"] exI [of _ "[(?compile, 0), (?simulate, m)] @ news"]) auto
  qed
qed

lemma finish_runs_noted:
  "finish_runs (noted S) title failures (w, log) = (c, w', log') \<Longrightarrow> log' = log \<and> (c = 0 \<longleftrightarrow> failures = []) \<and> c \<in> {0, 1}"
proof -
  have "snd (fold (\<lambda>failure. sh_out (noted S) (f failure)) failures (v, log)) = log" for f v
    by (induction failures arbitrary: v) simp_all
  then have "snd (fold (\<lambda>failure. sh_out (noted S) (f failure)) failures x) = log" if "snd x = log" for f x
    using that by (cases x) simp
  then show "finish_runs (noted S) title failures (w, log) = (c, w', log') \<Longrightarrow> ?thesis"
    by (auto simp: finish_runs_def split: if_splits) (metis snd_conv)
qed

text \<open>The runner of Primer 1 ends with 0 exactly when both tools are there and every testbench was compiled and
  simulated with status 0; when they are there, every testbench is tried.\<close>

lemma p1_run_noted:
  assumes "p1_run (noted S) root_dir manifest temp (w, []) = (c, w', log)"
  shows "(c = 0 \<longleftrightarrow> \<not> tools_missing S \<and>
      log = concat (map (passed_top root_dir (manifest_sources root_dir manifest) temp) P1_TOPS)) \<and>
    (tools_missing S \<or> (\<forall>top_name \<in> set P1_TOPS. \<exists>k.
      (compile_command root_dir (manifest_sources root_dir manifest) (temp @ [top_name @ ''.vvp'']) top_name, k) \<in> set log))"
proof (cases "tools_missing S")
  case True
  then have "c = 2" using assms by (simp add: p1_run_def tools_missing_def no_tools_def)
  then show ?thesis using True by simp
next
  case False
  obtain failures w1 log1 where run: "run_tops (noted S) root_dir (manifest_sources root_dir manifest) temp P1_TOPS [] (w, [])
      = (failures, w1, log1)"
    by (metis prod_cases3)
  then have fin: "finish_runs (noted S) ''RTL VERIFICATION'' failures (w1, log1) = (c, w', log)"
    using assms False by (simp add: p1_run_def tools_missing_def)
  show ?thesis
    using run_tops_noted [OF run] finish_runs_noted [OF fin] False by auto
qed

text \<open>The same for Primer 2, whose runner checks the sources and the reference model first.\<close>

definition p2_checks :: "string \<Rightarrow> path \<Rightarrow> (string list \<times> int) list" where
  "p2_checks python root_dir =
     [([python, path_text (root_dir @ [''scripts'', ''static_rtl_checks.py''])], 0),
      ([python, path_text (root_dir @ [''scripts'', ''reference_checks.py''])], 0)]"

lemma p2_run_noted:
  assumes "p2_run (noted S) python root_dir manifest temp (w, []) = (c, w', log)"
  shows "c = 0 \<longleftrightarrow> \<not> tools_missing S \<and> log = p2_checks python root_dir @
      concat (map (passed_top root_dir (manifest_sources root_dir manifest) temp) P2_TOPS)"
proof -
  let ?static = "[python, path_text (root_dir @ [''scripts'', ''static_rtl_checks.py''])]"
  let ?reference = "[python, path_text (root_dir @ [''scripts'', ''reference_checks.py''])]"
  obtain k1 w1 log1 where k1: "run_printed (noted S) ?static (w, []) = (k1, w1, log1)" by (metis prod_cases3)
  obtain k2 w2 log2 where k2: "run_printed (noted S) ?reference (w1, log1) = (k2, w2, log2)" by (metis prod_cases3)
  have logs: "log1 = [(?static, k1)]" "log2 = [(?static, k1), (?reference, k2)]"
    using run_printed_noted [OF k1] run_printed_noted [OF k2] by simp_all
  obtain failures w3 log3 where run: "run_tops (noted S) root_dir (manifest_sources root_dir manifest) temp P2_TOPS []
      (w2, log2) = (failures, w3, log3)"
    by (metis prod_cases3)
  consider "k1 \<noteq> 0" | "k1 = 0" "k2 \<noteq> 0" | "k1 = 0" "k2 = 0" "tools_missing S" | "k1 = 0" "k2 = 0" "\<not> tools_missing S"
    by blast
  then show ?thesis
  proof cases
    case 1
    then show ?thesis using assms k1 logs by (auto simp: p2_run_def p2_checks_def)
  next
    case 2
    then show ?thesis using assms k1 k2 logs by (auto simp: p2_run_def p2_checks_def)
  next
    case 3
    then show ?thesis using assms k1 k2 by (auto simp: p2_run_def no_tools_def tools_missing_def)
  next
    case 4
    then have fin: "finish_runs (noted S) ''PRIMER2 RTL REGRESSION'' failures (w3, log3) = (c, w', log)"
      using assms k1 k2 run by (simp add: p2_run_def tools_missing_def)
    show ?thesis
      using run_tops_noted [OF run] finish_runs_noted [OF fin] 4 logs by (auto simp: p2_checks_def)
  qed
qed

section \<open>The vectors are consistent\<close>

lemma read_digits_cong:
  "(\<And>d. d \<in> set ds \<Longrightarrow> hex_value (f d) = hex_value (g d)) \<Longrightarrow> read_digits b (map f ds) = read_digits b (map g ds)"
  by (induction ds rule: rev_induct) (simp_all add: read_digits_append) 

lemma read_hex4: "read_digits 16 (hex4 v) = v mod 65536"
proof -
  have "read_digits 16 (map digit_lower (digits 16 n)) = read_digits 16 (map digit_upper (digits 16 n))" for n
    by (rule read_digits_cong) (simp add: digits_bounded)
  then have "read_digits 16 (hex4 v) = v AND 0xFFFF"
    by (simp add: hex4_def read_digits_of_digits)
  then show ?thesis by (simp add: int_and_FFFF)
qed

lemma i16_read_hex4: "in16 v \<Longrightarrow> i16 (read_digits 16 (hex4 v)) = v"
  unfolding read_hex4 using in16_i16(2) [of v] by (simp add: i16_alt split: if_splits)

lemma hex4_chars: "list_all (\<lambda>c. \<not> is_line_end c) (hex4 v)"
proof -
  have "\<not> is_line_end (digit_lower d)" if "d < 16" for d
    using below_16 [OF that] by (elim disjE; simp add: digit_lower_def; code_simp)
  moreover have "\<not> is_line_end CHR ''0''" by code_simp
  ultimately show ?thesis
    by (auto simp: hex4_def pad_zero_def list_all_iff digits_bounded)
qed

definition numbers :: "disk \<Rightarrow> path \<Rightarrow> int list" where
  "numbers d p = (case map_of d p of
       Some (Regular contents _) \<Rightarrow> map (\<lambda>line. i16 (read_digits 16 line)) (splitlines contents)
     | _ \<Rightarrow> [])"

lemma splitlines_hex_lines: "splitlines (hex_lines vals) = map hex4 vals"
proof (induction vals)
  case Nil
  then show ?case by (simp add: hex_lines_def splitlines.simps)
next
  case (Cons v vs)
  then show ?case using splitlines_line [OF hex4_chars] by (simp add: hex_lines_def)
qed

lemma numbers_hex_lines:
  "\<forall>v \<in> set vals. in16 v \<Longrightarrow> map_of d p = Some (Regular (hex_lines vals) m) \<Longrightarrow> numbers d p = vals"
  by (simp add: numbers_def splitlines_hex_lines i16_read_hex4 map_idI)

text \<open>Writing to a disk that has room: no file where a directory is needed, no directory where a file is written.\<close>

lemma make_dir_fresh:
  assumes "\<And>c m. map_of d p \<noteq> Some (Regular c m)"
  shows "\<exists>d'. make_dir p d = (Inr (), d') \<and> map_of d' = (map_of d)(p \<mapsto> Directory)"
  using assms by (auto simp: make_dir_def update_conv' split: option.split node.split)

lemma make_dirs_loop:
  assumes "\<And>q c m. q \<in> set ps \<Longrightarrow> map_of d q \<noteq> Some (Regular c m)"
  shows "\<exists>d'. disk_for ps make_dir d = (Inr (), d') \<and> (\<forall>q. map_of d' q = (if q \<in> set ps then Some Directory else map_of d q))"
  using assms
proof (induction ps arbitrary: d)
  case Nil
  then show ?case by (simp add: disk_return_def)
next
  case (Cons p ps)
  from Cons.prems obtain d1 where d1: "make_dir p d = (Inr (), d1)" "map_of d1 = (map_of d)(p \<mapsto> Directory)"
    using make_dir_fresh [of d p] by auto
  have "map_of d1 q \<noteq> Some (Regular c m)" if "q \<in> set ps" for q c m
    using Cons.prems that by (simp add: d1(2))
  from Cons.IH [OF this] obtain d' where
    "disk_for ps make_dir d1 = (Inr (), d')" "\<forall>q. map_of d' q = (if q \<in> set ps then Some Directory else map_of d1 q)"
    by blast
  then show ?case by (auto simp: disk_then_def disk_bind_def d1)
qed

lemma write_file_fresh:
  assumes "map_of d p \<noteq> Some Directory"
  shows "\<exists>m d'. write_file p c d = (Inr (), d') \<and> map_of d' = (map_of d)(p \<mapsto> Regular c m)"
  using assms by (auto simp: write_file_def update_conv' split: option.split node.split)

text \<open>One file after another.\<close>

lemma write_hex_then:
  assumes "map_of d p \<noteq> Some Directory"
    and "\<And>m d'. map_of d' = (map_of d)(p \<mapsto> Regular (hex_lines vals) m) \<Longrightarrow> \<exists>d''. k d' = (Inr (), d'') \<and> R d''"
  shows "\<exists>d''. disk_then (write_hex p vals) k d = (Inr (), d'') \<and> R d''"
proof -
  obtain m d' where "write_file p (hex_lines vals) d = (Inr (), d')" "map_of d' = (map_of d)(p \<mapsto> Regular (hex_lines vals) m)"
    using write_file_fresh [OF assms(1)] by blast
  then show ?thesis using assms(2) by (auto simp: disk_then_def disk_bind_def write_hex_def)
qed

lemma write_hex_last:
  assumes "map_of d p \<noteq> Some Directory"
    and "\<And>m d'. map_of d' = (map_of d)(p \<mapsto> Regular (hex_lines vals) m) \<Longrightarrow> R d'"
  shows "\<exists>d''. write_hex p vals d = (Inr (), d'') \<and> R d''"
  unfolding write_hex_def using write_file_fresh [OF assms(1), of "hex_lines vals"] assms(2) by blast

definition room :: "path \<Rightarrow> disk \<Rightarrow> bool" where
  "room p d \<longleftrightarrow> (\<forall>q c m. prefix q p \<longrightarrow> map_of d q \<noteq> Some (Regular c m)) \<and> (\<forall>x. map_of d (p @ [x]) \<noteq> Some Directory)"

definition vector_files :: "path \<Rightarrow> (string \<times> int list) list \<Rightarrow> disk \<Rightarrow> bool" where
  "vector_files p files d \<longleftrightarrow> (\<forall>(x, vals) \<in> set files. \<exists>m. map_of d (p @ [x]) = Some (Regular (hex_lines vals) m))"

lemma generate_vectors_files:
  assumes room: "room (root_dir @ [''tb'', ''generated'']) d"
    and runs: "ntt vector_a = Inr na" "ntt vector_b = Inr nb" "intt_standard na = Inr ia" "basemul_standard na nb = Inr ab"
  shows "\<exists>d'. generate_vectors root_dir d = (Inr (), d') \<and> vector_files (root_dir @ [''tb'', ''generated''])
    [(''ntt_input.hex'', vector_a), (''ntt_expected.hex'', na), (''intt_input.hex'', na), (''intt_expected.hex'', ia),
     (''basemul_a.hex'', na), (''basemul_b.hex'', nb), (''basemul_expected.hex'', ab)] d'"
proof -
  let ?p = "root_dir @ [''tb'', ''generated'']"
  have dirs: "q \<in> set (tl (prefixes ?p)) \<Longrightarrow> prefix q ?p" for q
    by (metis in_set_prefixes list.set_sel(2) prefixes_not_Nil)
  obtain d1 where d1: "make_dirs ?p d = (Inr (), d1)"
    "\<forall>q. map_of d1 q = (if q \<in> set (tl (prefixes ?p)) then Some Directory else map_of d q)"
    unfolding make_dirs_def using make_dirs_loop [of "tl (prefixes ?p)" d] room dirs unfolding room_def by metis
  have free: "map_of d1 (?p @ [x]) \<noteq> Some Directory" for x
    using d1(2) room dirs [of "?p @ [x]"] by (auto simp: room_def)
  show ?thesis
    unfolding generate_vectors_def Let_def disk_then_def [of "make_dirs ?p"] disk_bind_def d1(1) prod.case sum.case
      disk_lift_def runs
    by ((rule write_hex_then write_hex_last, simp add: free free [simplified])+) (simp add: vector_files_def)
qed

lemma vectors_small: "small 3328 vector_a" "small 3328 vector_b"
proof -
  have "\<bar>x mod Q\<bar> \<le> 3328" for x :: int
    using pos_mod_bound [of Q x] pos_mod_sign [of Q x] by (simp add: Q_def)
  then show "small 3328 vector_a" "small 3328 vector_b"
    by (auto simp: small_def vector_a_def vector_b_def)
qed

lemma small_in16: "small 3328 p \<Longrightarrow> \<forall>v \<in> set p. in16 v"
  by (fastforce simp: small_def in16_def)

lemma ntt_vector:
  assumes "small 3328 p"
  obtains x where "ntt p = Inr x" "\<forall>v \<in> set x. in16 v" "length x = 256" "rep 31057 x (ntt_fn (\<lambda>i. p ! i))"
proof -
  from ntt_rep [OF small_rep [OF assms]] obtain x where x: "ntt p = Inr x" "rep (3328 + 17465) x (ntt_fn (\<lambda>i. p ! i))"
    by auto
  have "\<forall>v \<in> set x. in16 v" by (rule in16_list [OF x(2)]) simp
  moreover have "rep 31057 x (ntt_fn (\<lambda>i. p ! i))" using x(2) by (auto simp: rep_def)
  ultimately show thesis using that x by (auto simp: rep_def)
qed

lemma intt_defined:
  assumes "length x = 256" and "\<forall>v \<in> set x. in16 v"
  obtains y where "intt_standard x = Inr y" "\<forall>v \<in> set y. in16 v"
proof -
  have "intt_standard x = Inr (List.map (\<lambda>x. fqmul x 512) (foldl (\<lambda>r n. intt_layer n r) x (rev levels)))"
    using assms i16_list [of x] by (simp add: intt_standard_def check_def intt_loop_layers del: intt_loop.simps)
  moreover have "in16 (fqmul v 512)" for v by (simp add: fqmul_def montgomery_reduce_def Let_def)
  ultimately show thesis using that by auto
qed

text \<open>The numbers in a generated file; the files hold what the transforms make of each other's contents, and the
  expected product is the product of the two inputs in the ring.\<close>

definition vector_file :: "path \<Rightarrow> disk \<Rightarrow> string \<Rightarrow> int list" where
  "vector_file root_dir d x = numbers d (root_dir @ [''tb'', ''generated'', x])"

definition vectors_agree :: "(string \<Rightarrow> int list) \<Rightarrow> bool" where
  "vectors_agree f \<longleftrightarrow>
     f ''ntt_input.hex'' = vector_a \<and>
     ntt (f ''ntt_input.hex'') = Inr (f ''ntt_expected.hex'') \<and>
     intt_standard (f ''intt_input.hex'') = Inr (f ''intt_expected.hex'') \<and>
     ntt vector_a = Inr (f ''basemul_a.hex'') \<and> ntt vector_b = Inr (f ''basemul_b.hex'') \<and>
     basemul_standard (f ''basemul_a.hex'') (f ''basemul_b.hex'') = Inr (f ''basemul_expected.hex'') \<and>
     result_bind (intt_standard (f ''basemul_expected.hex'')) (\<lambda>r. Inr (List.map canon r)) =
       negacyclic vector_a vector_b"

lemma vectors_consistent:
  assumes "room (root_dir @ [''tb'', ''generated'']) d"
  shows "\<exists>d'. generate_vectors root_dir d = (Inr (), d') \<and> vectors_agree (vector_file root_dir d')"
proof -
  obtain na where na: "ntt vector_a = Inr na" "\<forall>v \<in> set na. in16 v" "length na = 256"
      "rep 31057 na (ntt_fn (\<lambda>i. vector_a ! i))"
    by (rule ntt_vector [OF vectors_small(1)])
  obtain nb where nb: "ntt vector_b = Inr nb" "\<forall>v \<in> set nb. in16 v" "length nb = 256"
      "rep 31057 nb (ntt_fn (\<lambda>i. vector_b ! i))"
    by (rule ntt_vector [OF vectors_small(2)])
  obtain ia where ia: "intt_standard na = Inr ia" "\<forall>v \<in> set ia. in16 v"
    by (rule intt_defined [OF na(3,2)])
  obtain ab where ab: "basemul_standard na nb = Inr ab" "rep 2495 ab (level_mul 128 (ntt_fn (\<lambda>i. vector_a ! i)) (ntt_fn (\<lambda>i. vector_b ! i)))"
    by (rule basemul_rep [OF na(4) nb(4)])
  have ab16: "\<forall>v \<in> set ab. in16 v" by (rule in16_list [OF ab(2)]) simp
  have prod: "result_bind (intt_standard ab) (\<lambda>r. Inr (List.map canon r)) = negacyclic vector_a vector_b"
  proof -
    have "small 13592 vector_a" "small 13592 vector_b" using vectors_small by (auto simp: small_def)
    from ntt_multiplies [OF this] show ?thesis by (simp add: na nb ab)
  qed
  from generate_vectors_files [OF assms na(1) nb(1) ia(1) ab(1)] obtain d' where
    d': "generate_vectors root_dir d = (Inr (), d')" and files: "vector_files (root_dir @ [''tb'', ''generated''])
      [(''ntt_input.hex'', vector_a), (''ntt_expected.hex'', na), (''intt_input.hex'', na), (''intt_expected.hex'', ia),
       (''basemul_a.hex'', na), (''basemul_b.hex'', nb), (''basemul_expected.hex'', ab)] d'"
    by blast
  have nums: "numbers d' (root_dir @ [''tb'', ''generated'', x]) = vals"
    if "(x, vals) \<in> set [(''ntt_input.hex'', vector_a), (''ntt_expected.hex'', na), (''intt_input.hex'', na), (''intt_expected.hex'', ia),
       (''basemul_a.hex'', na), (''basemul_b.hex'', nb), (''basemul_expected.hex'', ab)]" "\<forall>v \<in> set vals. in16 v" for x vals
  proof -
    from files that(1) obtain m where "map_of d' (root_dir @ [''tb'', ''generated'', x]) = Some (Regular (hex_lines vals) m)"
      unfolding vector_files_def by fastforce
    then show ?thesis by (rule numbers_hex_lines [OF that(2)])
  qed
  have in16_a: "\<forall>v \<in> set vector_a. in16 v" by (rule small_in16 [OF vectors_small(1)])
  note n = nums [of "''ntt_input.hex''", OF _ in16_a, simplified] nums [of "''ntt_expected.hex''", OF _ na(2), simplified]
    nums [of "''intt_input.hex''", OF _ na(2), simplified] nums [of "''intt_expected.hex''", OF _ ia(2), simplified]
    nums [of "''basemul_a.hex''", OF _ na(2), simplified] nums [of "''basemul_b.hex''", OF _ nb(2), simplified]
    nums [of "''basemul_expected.hex''", OF _ ab16, simplified]
  show ?thesis
    by (intro exI [of _ d']) (simp add: vectors_agree_def vector_file_def d' n na nb ia ab prod)
qed

end
