(* ===== verification/Repo_Check.thy ===== *)
theory Repo_Check
  imports Py_Regex Vendor_Closure
begin

text \<open>
  The checks of the repository under \<open>ai_context/scripts\<close>, but for the layout: each reads files and
  collects faults, and passes exactly when there is none. SHA-256, TOML and the decoding of bytes are parameters. A
  fault is a constructor with the name it is about.
\<close>

section \<open>Candidate hashes\<close>

text \<open>\<open>check_candidate_hashes.py\<close>: the lines of the manifest are a hash, white space and a path.\<close>

datatype hash_fault = Hash_missing string | Hash_mismatch string | Hash_count nat

definition split_once :: "string \<Rightarrow> (string \<times> string) result" where
  "split_once line =
     (let rest = str_lstrip (dropWhile (\<lambda>c. \<not> is_str_space c) line) in
      if rest = [] then Inl (ValueError ''not enough values to unpack'') else Inr (first_word line, rest))"

definition entry_lines :: "string \<Rightarrow> string list" where
  "entry_lines s = filter (\<lambda>l. l \<noteq> [] \<and> hd l \<noteq> CHR ''#'') (map str_strip (splitlines s))"

definition check_entry :: "(string \<Rightarrow> string) \<Rightarrow> source_tree \<Rightarrow> path \<Rightarrow> string \<Rightarrow> hash_fault list result" where
  "check_entry sha t root_dir line =
     result_bind (split_once line) (\<lambda>(expected, relative).
     Inr (case Option.bind (join_path root_dir relative) (map_of t) of
            None \<Rightarrow> [Hash_missing relative]
          | Some contents \<Rightarrow> if sha contents \<noteq> expected then [Hash_mismatch relative] else []))"

definition candidate_faults :: "(string \<Rightarrow> string) \<Rightarrow> source_tree \<Rightarrow> path \<Rightarrow> string \<Rightarrow> hash_fault list result" where
  "candidate_faults sha t root_dir manifest =
     (let entries = entry_lines manifest in
      result_bind (result_list (check_entry sha t root_dir) entries) (\<lambda>faults.
      Inr (concat faults @ (if length entries \<noteq> 29 then [Hash_count (length entries)] else []))))"

text \<open>The check passes exactly when the manifest has 29 entries and each names a file with the hash it gives.\<close>

lemma candidate_faults_Nil:
  "candidate_faults sha t root_dir manifest = Inr [] \<longleftrightarrow>
     length (entry_lines manifest) = 29 \<and>
     (\<forall>line \<in> set (entry_lines manifest). \<exists>expected relative p contents. split_once line = Inr (expected, relative) \<and>
        join_path root_dir relative = Some p \<and> map_of t p = Some contents \<and> sha contents = expected)"
proof -
  have entry: "check_entry sha t root_dir line = Inr [] \<longleftrightarrow>
      (\<exists>expected relative p contents. split_once line = Inr (expected, relative) \<and>
        join_path root_dir relative = Some p \<and> map_of t p = Some contents \<and> sha contents = expected)" for line
    by (cases "split_once line") (auto simp: check_entry_def bind_eq_Some_conv split: option.splits Option.bind_splits if_splits)
  have "candidate_faults sha t root_dir manifest = Inr [] \<longleftrightarrow> length (entry_lines manifest) = 29 \<and>
      (\<exists>faults. list_all2 (\<lambda>l f. check_entry sha t root_dir l = Inr f) (entry_lines manifest) faults \<and> (\<forall>f \<in> set faults. f = []))"
    by (auto simp: candidate_faults_def Let_def result_bind_eq_Inr result_list_Inr)
  also have "\<dots> \<longleftrightarrow> length (entry_lines manifest) = 29 \<and>
      (\<forall>l \<in> set (entry_lines manifest). check_entry sha t root_dir l = Inr [])"
  proof -
    have "(\<exists>faults. list_all2 (\<lambda>l f. check_entry sha t root_dir l = Inr f) ls faults \<and> (\<forall>f \<in> set faults. f = [])) \<longleftrightarrow>
        (\<forall>l \<in> set ls. check_entry sha t root_dir l = Inr [])" for ls
    proof
      assume "\<forall>l \<in> set ls. check_entry sha t root_dir l = Inr []"
      then show "\<exists>faults. list_all2 (\<lambda>l f. check_entry sha t root_dir l = Inr f) ls faults \<and> (\<forall>f \<in> set faults. f = [])"
        by (intro exI [of _ "map (\<lambda>_. []) ls"]) (auto simp: list_all2_conv_all_nth)
    qed (force simp: list_all2_conv_all_nth in_set_conv_nth)
    then show ?thesis by blast
  qed
  finally show ?thesis unfolding entry .
qed

section \<open>Project memory\<close>

text \<open>\<open>check_project_memory_detail.py\<close>.\<close>

definition MEMORY_REQUIRED :: "string list" where
  "MEMORY_REQUIRED =
     [''ai_context/interfaces/README.md'',
      ''ai_context/interfaces/SPI_CONTROL_PLANE_PAYLOAD_DETAIL_v0.1.md'',
      ''ai_context/interfaces/PC_SN32_PROTOCOL_PAYLOAD_DETAIL_v0.1.md'',
      ''ai_context/interfaces/MLKEM_BACKEND_API_DETAIL_v0.1.md'',
      ''ai_context/baseline_detail/README.md'',
      ''ai_context/baseline_detail/FPGA_MCU_TRINITY_SYSTEM_REQUIREMENTS_DETAIL_v0.4.md'',
      ''ai_context/baseline_detail/FPGA_MCU_TRINITY_DECISION_DETAIL_v0.4.md'']"

definition MEMORY_INDEXES :: "string list" where
  "MEMORY_INDEXES = [''ai_context/interfaces/README.md'', ''ai_context/baseline_detail/README.md'']"

datatype memory_fault = Memory_missing string | Memory_unreferenced string | Memory_note string

definition text_at :: "source_tree \<Rightarrow> path \<Rightarrow> string \<Rightarrow> string result" where
  "text_at t root_dir name = of_option (OSError ''file not found'') (map_of t (root_dir @ split_on CHR ''/'' name))"

definition memory_faults :: "source_tree \<Rightarrow> path \<Rightarrow> memory_fault list result" where
  "memory_faults t root_dir =
     (let absent = filter (\<lambda>p. map_of t (root_dir @ split_on CHR ''/'' p) = None) MEMORY_REQUIRED in
      result_bind (text_at t root_dir ''ai_context/README_AI.md'') (\<lambda>handoff.
      result_bind (result_list (text_at t root_dir) MEMORY_INDEXES) (\<lambda>texts.
      Inr (map Memory_missing absent
        @ map Memory_unreferenced (filter (\<lambda>p. \<not> contains p handoff) MEMORY_REQUIRED)
        @ map (\<lambda>(index, s). Memory_note index)
            (filter (\<lambda>(index, s). \<not> contains ''supersed'' (str_lower s) \<or> \<not> contains ''status'' (str_lower s))
              (zip MEMORY_INDEXES texts))))))"

section \<open>Protocol registry\<close>

text \<open>\<open>check_protocol_registry.py\<close>: the registry as its five tables of names and values.\<close>

record registry =
  rg_error_codes :: "(string \<times> int) list"
  rg_spi_commands :: "(string \<times> int) list"
  rg_pc_commands :: "(string \<times> int) list"
  rg_target_id :: "(string \<times> int) list"
  rg_session_state :: "(string \<times> int) list"

record registry_texts =
  rt_python :: string
  rt_common :: string
  rt_spi :: string
  rt_pc :: string
  rt_sv1 :: string
  rt_sv2 :: string

datatype registry_fault = Packages_differ | Mismatched string string

definition python_line :: "string \<times> int \<Rightarrow> regex" where
  "python_line = (\<lambda>(name, value). R_all
     [R_start True, R_spaces, R_lit name, R_spaces, R_lit ''='', R_spaces, R_lit (''0x'' @ py_hex 1 value), R_spaces,
      R_finish True])"

definition assignment :: "string \<Rightarrow> string \<Rightarrow> regex" where
  "assignment name value = R_all [R_lit name, R_spaces, R_lit ''='', R_spaces, R_lit value]"

definition require_text :: "string \<Rightarrow> regex \<Rightarrow> string \<Rightarrow> string \<Rightarrow> registry_fault list" where
  "require_text s pat kind name = (if re_found pat s then [] else [Mismatched kind name])"

definition sv_literal :: "string \<Rightarrow> string \<Rightarrow> string" where
  "sv_literal width value = width @ [CHR 0x27] @ value"

definition error_faults :: "registry_texts \<Rightarrow> string \<times> int \<Rightarrow> registry_fault list" where
  "error_faults T = (\<lambda>(name, value).
     require_text (rt_python T) (python_line (name, value)) ''Python error'' name
     @ require_text (rt_common T) (assignment (''TRINITY_'' @ name) (''0x'' @ py_hex 4 value)) ''C error'' name
     @ require_text (rt_sv1 T) (assignment (''ERR_'' @ name) (sv_literal ''16'' (''h'' @ py_hex 4 value))) ''SV error'' name)"

definition spi_faults :: "registry_texts \<Rightarrow> string \<times> int \<Rightarrow> registry_fault list" where
  "spi_faults T = (\<lambda>(name, value).
     require_text (rt_python T) (python_line (name, value)) ''Python SPI command'' name
     @ require_text (rt_spi T) (assignment (''TRINITY_SPI_'' @ name) (''0x'' @ py_hex 2 value)) ''C SPI command'' name
     @ require_text (rt_sv1 T) (assignment (''CMD_'' @ name) (sv_literal ''8'' (''h'' @ py_hex 2 value))) ''SV SPI command'' name)"

definition pc_faults :: "registry_texts \<Rightarrow> string \<times> int \<Rightarrow> registry_fault list" where
  "pc_faults T = (\<lambda>(name, value).
     require_text (rt_python T) (python_line (name, value)) ''Python PC command'' name
     @ require_text (rt_pc T) (assignment (''TRINITY_PC_'' @ name) (''0x'' @ py_hex 2 value)) ''C PC command'' name)"

definition target_faults :: "registry_texts \<Rightarrow> string \<times> int \<Rightarrow> registry_fault list" where
  "target_faults T = (\<lambda>(name, value).
     require_text (rt_python T) (python_line (name, value)) ''Python target'' name
     @ require_text (rt_spi T) (assignment (''TRINITY_TARGET_'' @ name) (py_dec value)) ''C target'' name
     @ require_text (rt_sv1 T) (assignment (''TARGET_'' @ name) (sv_literal ''8'' (''h'' @ py_hex 2 value))) ''SV target'' name)"

definition session_suffix :: "string \<Rightarrow> string" where
  "session_suffix name = (if prefix ''SESSION_'' name then drop (length ''SESSION_'') name else name)"

definition session_faults :: "registry_texts \<Rightarrow> string \<times> int \<Rightarrow> registry_fault list" where
  "session_faults T = (\<lambda>(name, value).
     require_text (rt_python T) (python_line (name, value)) ''Python session state'' name
     @ require_text (rt_spi T) (assignment (''TRINITY_SESSION_'' @ session_suffix name) (py_dec value)) ''C session state'' name
     @ require_text (rt_sv1 T) (assignment (''SESSION_'' @ session_suffix name) (sv_literal ''4'' (''d'' @ py_dec value)))
         ''SV session state'' name)"

definition registry_faults :: "registry \<Rightarrow> registry_texts \<Rightarrow> registry_fault list" where
  "registry_faults R T =
     (if rt_sv1 T \<noteq> rt_sv2 T then [Packages_differ] else [])
     @ concat (map (error_faults T) (rg_error_codes R))
     @ concat (map (spi_faults T) (rg_spi_commands R))
     @ concat (map (pc_faults T) (rg_pc_commands R))
     @ concat (map (target_faults T) (rg_target_id R))
     @ concat (map (session_faults T) (rg_session_state R))"

text \<open>A line of the usual form is found wherever it stands in the Python text; the class it stands in plays no part.\<close>

lemma seq_step:
  "takes r L \<Longrightarrow> L w \<Longrightarrow> m' \<in> set (matches q ((rev w @ b, a), gs)) \<Longrightarrow>
     m' \<in> set (matches (R_seq r q) ((b, w @ a), gs))"
  unfolding takes_def by (force simp: after_text_def)

lemma python_line_found:
  assumes "before = [] \<or> last before = CHR 0x0A" and "after = [] \<or> hd after = CHR 0x0A" and "list_all is_str_space indent"
  shows "re_found (python_line (name, value)) (before @ indent @ name @ '' = 0x'' @ py_hex 1 value @ after)"
proof -
  let ?hex = "''0x'' @ py_hex 1 value"
  let ?line = "indent @ name @ '' '' @ ''='' @ '' '' @ ?hex @ [] @ after"
  have space: "list_all is_str_space '' ''" by code_simp
  have start: "matches (R_seq (R_start True) q) ((rev before, x), []) = matches q ((rev before, x), [])" for q x
    using assms(1) by (cases before rule: rev_cases) auto
  let ?goal = "((rev ?hex @ rev '' '' @ rev ''='' @ rev '' '' @ rev name @ rev indent @ rev before, after), [])"
  have "?goal \<in> set (matches (R_seq (R_finish True) R_empty) ?goal)"
    using assms(2) by (cases after) auto
  then have "?goal \<in> set (matches (R_all [R_spaces, R_lit name, R_spaces, R_lit ''='', R_spaces, R_lit ?hex, R_spaces, R_finish True])
      ((rev before, ?line), []))"
    unfolding R_all.simps
    by (intro seq_step [OF takes_chars assms(3)] seq_step [OF takes_lit refl] seq_step [OF takes_chars space]
        seq_step [OF takes_chars, where w = "[]"]) simp_all
  then have "?goal \<in> set (matches (python_line (name, value)) ((rev before, ?line), []))"
    unfolding python_line_def prod.case R_all.simps(2) [of "R_start True"] start .
  then have "re_found (python_line (name, value)) (before @ ?line)"
    unfolding re_found_iff by (metis empty_iff empty_set)
  then show ?thesis by simp
qed

definition has_line :: "string \<Rightarrow> string \<times> int \<Rightarrow> bool" where
  "has_line s = (\<lambda>(name, value). \<exists>before indent after. s = before @ indent @ name @ '' = 0x'' @ py_hex 1 value @ after \<and>
     (before = [] \<or> last before = CHR 0x0A) \<and> (after = [] \<or> hd after = CHR 0x0A) \<and> list_all is_str_space indent)"

lemma has_line_found: "has_line s e \<Longrightarrow> re_found (python_line e) s"
  unfolding has_line_def by (cases e) (simp only: prod.case, elim exE conjE, simp only: python_line_found)

lemma python_lines_suffice: "list_all (has_line s) entries \<Longrightarrow> list_all (\<lambda>e. re_found (python_line e) s) entries"
  by (erule list.pred_mono_strong) (rule has_line_found)

text \<open>Two command sets that exchange the values of a shared name pass.\<close>

definition exchanged_commands :: string where
  "exchanged_commands = ''class HostCommand(IntEnum):'' @ [CHR 0x0A] @ ''    GET_TXN_RESULT = 0x4'' @ [CHR 0x0A]
     @ ''class SpiCommand(IntEnum):'' @ [CHR 0x0A] @ ''    GET_TXN_RESULT = 0x5'' @ [CHR 0x0A]"

lemma exchanged_pass:
  "list_all (\<lambda>e. re_found (python_line e) exchanged_commands) [(''GET_TXN_RESULT'', 5), (''GET_TXN_RESULT'', 4)]"
  by code_simp

text \<open>The values in the C headers are not followed to their end: 12 passes for 1.\<close>

lemma longer_value_passes:
  "require_text ''TRINITY_TARGET_P1 = 12,'' (assignment (''TRINITY_TARGET_'' @ ''P1'') (py_dec 1)) ''C target'' ''P1'' = []"
  by code_simp

end
