(* ===== verification/P1_Guard.thy ===== *)
theory P1_Guard
  imports Sdc_Check Repo_Check "HOL-Library.List_Lexorder" "HOL-Library.Char_ord"
begin

text \<open>
  The checks of Primer 1's hardware sources: \<open>check_command_arch.py\<close>, \<open>check_timing_arch.py\<close> and \<open>static_check.py\<close>
  search a tree of texts for fragments that must and must not be there, and stop at the first assertion that fails;
  \<open>classify_pa1001.py\<close> counts the warnings of the synthesis log by module and category. The parsing of JSON is a
  parameter.
\<close>

section \<open>Searching\<close>

definition all_in :: "string list \<Rightarrow> string \<Rightarrow> bool" where
  "all_in fragments s = list_all (\<lambda>f. contains f s) fragments"

definition none_in :: "string list \<Rightarrow> string \<Rightarrow> bool" where
  "none_in fragments s = list_all (\<lambda>f. \<not> contains f s) fragments"

definition result_then :: "unit result \<Rightarrow> 'a result \<Rightarrow> 'a result" where
  "result_then r q = result_bind r (\<lambda>_. q)"

definition assert_all :: "bool \<Rightarrow> unit result" where
  "assert_all b = assert_that b (Inr ())"

text \<open>\<open>assert text.index(a) < text.index(b)\<close>.\<close>

definition assert_before :: "string \<Rightarrow> string \<Rightarrow> string \<Rightarrow> unit result" where
  "assert_before a b s =
     result_bind (str_index a s) (\<lambda>i. result_bind (str_index b s) (\<lambda>j. assert_all (i < j)))"

text \<open>The parts of the command core, one after the other.\<close>

definition part_name :: "nat \<Rightarrow> string" where
  "part_name i = ''primer1_command_core_part_'' @ py_dec (int i) @ ''.svh''"

definition core_parts :: "string list" where
  "core_parts = map (\<lambda>i. ''rtl/core/'' @ part_name i) [0..<6]"

definition core_of :: "source_tree \<Rightarrow> path \<Rightarrow> string result" where
  "core_of t root_dir =
     result_bind (result_list (text_at t root_dir) core_parts) (\<lambda>texts. Inr (str_join [CHR 0x0A] texts))"

section \<open>The command core\<close>

text \<open>\<open>check_command_arch.py\<close>.\<close>

definition label_re :: "string \<Rightarrow> regex list" where
  "label_re command = [R_lit command, R_spaces, R_lit '':'', R_spaces, R_lit ''begin'']"

definition command_re :: "string \<Rightarrow> string \<Rightarrow> regex" where
  "command_re command next_command = R_all
     (label_re command @ [R_group 1 (R_star False (R_char (\<lambda>_. True))), R_ahead (R_all (label_re next_command))])"

definition command_body :: "string \<Rightarrow> string \<Rightarrow> string \<Rightarrow> string result" where
  "command_body core command next_command =
     (case re_search (command_re command next_command) core of
        None \<Rightarrow> Inl (AssertionError ''cannot isolate the body'')
      | Some gs \<Rightarrow> Inr (group_text gs 1))"

definition compact_body :: "string \<Rightarrow> string \<Rightarrow> string \<Rightarrow> string result" where
  "compact_body core command next_command =
     result_bind (command_body core command next_command) (\<lambda>body. Inr (compact body))"


text \<open>The self test keeps the requested mask.\<close>

definition check_selftest :: "string \<Rightarrow> unit result" where
  "check_selftest core =
     result_bind (compact_body core ''CMD_RUN_SELF_TEST'' ''CMD_GET_TXN_RESULT'') (\<lambda>run_self_test.
     assert_all
       (all_in
        [''SELFTEST_SUPPORTED_MASK'', ''selftest_requested_mask''] core \<and>
        all_in
        [''ERR_NOT_SUPPORTED'', ''&~SELFTEST_SUPPORTED_MASK'',
         ''selftest_requested_mask<={pbyte(request_payload_i,0),pbyte(request_payload_i,1)};''] run_self_test \<and>
        contains ''finish_selftest_success'' core \<and>
        all_in
        [''selftest_data[7:0]=selftest_requested_mask[15:8];'',
         ''selftest_data[15:8]=selftest_requested_mask[7:0];'']
          (compact core) \<and>
        none_in
        [''retained_data[7:0]<=8'' @ [CHR 0x27] @ ''h01'', ''retained_data[15:8]<=8'' @ [CHR 0x27] @ ''h3E'']
          (compact core)))"

text \<open>Only the zeroization of everything is accepted.\<close>

definition check_zeroize :: "string \<Rightarrow> unit result" where
  "check_zeroize core =
     result_bind (compact_body core ''CMD_ZEROIZE'' ''CMD_STAGE_SESSION'') (\<lambda>zeroize_body.
     result_then (assert_all (all_in
        [''pbyte(request_payload_i,0)!=ZEROIZE_ALL'', ''ERR_NOT_SUPPORTED''] zeroize_body))
       (assert_before ''ERR_NOT_SUPPORTED'' ''begin_retained'' zeroize_body))"

text \<open>An abort with another session ID changes nothing.\<close>

definition check_abort :: "string \<Rightarrow> unit result" where
  "check_abort core =
     result_bind (compact_body core ''CMD_ABORT_SESSION'' ''CMD_POLY_BEGIN'') (\<lambda>abort_body.
     result_then (assert_all (all_in
        [''ERR_BAD_SESSION'', ''staged_valid&&staged_session_id=='', ''active_valid&&active_session_id==''] abort_body))
       (assert_before ''ERR_BAD_SESSION'' ''staged_key<=0'' abort_body))"

text \<open>While an operation runs, the status and the retained result are served.\<close>

definition check_busy :: "string \<Rightarrow> unit result" where
  "check_busy core =
     (let normalized = compact core in
      result_bind (str_index ''if((core_state==C_WAIT_POLY'' normalized) (\<lambda>busy_dispatch.
      result_bind (str_index ''case(core_state)'' normalized) (\<lambda>state_dispatch.
      assert_all
        (busy_dispatch < state_dispatch \<and>
         all_in
         [''CMD_GET_STATUS'', ''emit_status_response'', ''CMD_GET_TXN_RESULT'', ''emit_txn_result_response'',
          ''ERR_BUSY'']
           (take (state_dispatch - busy_dispatch) (drop busy_dispatch normalized))))))"

text \<open>A result that waits is not overwritten.\<close>

definition check_poly_begin :: "string \<Rightarrow> unit result" where
  "check_poly_begin core =
     result_bind (compact_body core ''CMD_POLY_BEGIN'' ''CMD_POLY_WRITE_CHUNK'') (\<lambda>poly_begin.
     result_then (assert_all (all_in [''operation_state==OP_RESULT_READY'', ''ERR_RESULT_PENDING''] poly_begin))
       (assert_before ''ERR_RESULT_PENDING'' ''operation_state<=OP_LOAD_INPUT'' poly_begin))"

definition validate_command :: "source_tree \<Rightarrow> path \<Rightarrow> unit result" where
  "validate_command t root_dir =
     result_bind (core_of t root_dir) (\<lambda>core.
     result_then (check_selftest core)
    (result_then (check_zeroize core)
    (result_then (check_abort core)
    (result_then (check_busy core) (check_poly_begin core)))))"

section \<open>The timing of the retained result\<close>

text \<open>\<open>check_timing_arch.py\<close>.\<close>

definition TASK_RE :: regex where
  "TASK_RE = R_all
     [R_lit ''task'', R_spaces1, R_lit ''automatic'', R_spaces1, R_lit ''complete_retained'', R_boundary,
      R_group 1 (R_star False (R_char (\<lambda>_. True))), R_lit ''endtask'']"


definition TASK_SETS :: "string list" where
  "TASK_SETS =
      [''retained_commit_pending <= 1'' @ [CHR 0x27] @ ''b1;'', ''retained_completion_kind <='']"

definition TASK_LEAVES :: "string list" where
  "TASK_LEAVES =
      [''retained_data <='', ''retained_state <='', ''active_transaction_id <='']"

definition COMMIT_TEXTS :: "string list" where
  "COMMIT_TEXTS =
      [''if (retained_commit_pending) begin'', ''retained_commit_pending <= 1'' @ [CHR 0x27] @ ''b0;'',
       ''retained_state <= TXN_SUCCEEDED;'', ''retained_code <= ERR_OK;'', ''retained_data_length <= 0;'',
       ''retained_data <= '' @ [CHR 0x27] @ ''0;'', ''active_transaction_id <= 0;'']"

text \<open>The commit, the dispatch of the state and the request stand in this order, with no transport error between the
  first two.\<close>

definition check_commit_order :: "string \<Rightarrow> unit result" where
  "check_commit_order core =
     result_bind (str_index ''if (retained_commit_pending) begin'' core) (\<lambda>commit_pos.
     result_bind (str_index ''case (core_state)'' core) (\<lambda>state_case_pos.
     result_bind (str_index ''else if (request_valid_i && response_ready_i) begin'' core) (\<lambda>request_pos.
     assert_all
       (commit_pos < state_case_pos \<and> state_case_pos < request_pos \<and>
        \<not> contains ''end else if (transport_error_valid_i''
             (take (state_case_pos - commit_pos) (drop commit_pos core)) \<and>
        contains (''C_IDLE: begin'' @ [CHR 0x0A] @ ''if (transport_error_valid_i'') core))))"

definition SAMPLE_TEXTS :: "string list" where
  "SAMPLE_TEXTS =
      [''poly_read_sample<=poly_read_data;'', ''poly_read_sample!=16'' @ [CHR 0x27] @ ''d0'']"

definition SAMPLE_RETIRED :: "string list" where
  "SAMPLE_RETIRED =
      [''poly_read_data!=0'', ''poly_read_data!=16'' @ [CHR 0x27] @ ''d0'']"

definition PIPELINE_TEXTS :: "string list" where
  "PIPELINE_TEXTS =
      [''C_ST_NTT_SCAN:begin core_state<=C_ST_INTT_SCAN;end'',
       ''C_ST_INTT_SCAN:begin poly_read_sample<=poly_read_data;core_state<=C_ST_BM_SCAN;end'',
       ''poly_read_addr<=selftest_index+1'' @ [CHR 0x27] @ ''b1;core_state<=C_ST_NTT_SCAN;'']"

definition check_pipeline :: "string \<Rightarrow> unit result" where
  "check_pipeline core_compact =
     assert_all
       (all_in SAMPLE_TEXTS core_compact \<and> none_in SAMPLE_RETIRED core_compact \<and>
        all_in (map compact PIPELINE_TEXTS) core_compact \<and>
        contains
          (''C_READ_CHUNK:begin//RegisterthecanonicalDPBoutputbeforethevariable-indexresponsewrite.''
             @ ''poly_read_sample<=poly_read_data;core_state<=C_READ_RESP;end'') core_compact \<and>
        contains ''read_response_data[8*(2+2*read_word_index)+:8]<=poly_read_sample[7:0];'' core_compact \<and>
        \<not> contains ''read_response_data[8*(2+2*read_word_index)+:8]<=poly_read_data[7:0];'' core_compact \<and>
        contains (''read_response_emit_pending<=1'' @ [CHR 0x27] @ ''b1;core_state<=C_READ_RESP;'') core_compact)"

text \<open>The guard: the task, the commit, the pipeline, the completion, and no timing exception.\<close>

definition validate_timing :: "source_tree \<Rightarrow> path \<Rightarrow> unit result" where
  "validate_timing t root_dir =
     result_bind (core_of t root_dir) (\<lambda>core.
     case re_search TASK_RE core of
       None \<Rightarrow> Inl (AssertionError ''complete_retained task missing'')
     | Some gs \<Rightarrow>
         let task_body = group_text gs 1 in
         result_then (assert_all (all_in TASK_SETS task_body \<and> none_in TASK_LEAVES task_body \<and> all_in COMMIT_TEXTS core))
        (result_then (check_commit_order core)
        (result_then (check_pipeline (compact core))
        (result_then
           (assert_all
             (all_in [''retained_completion_data <= data;'', ''if (length == 16'' @ [CHR 0x27] @ ''d14)''] task_body \<and>
              all_in [''RETAIN_COMMIT_UART_SUCCESS'', ''retained_data <= retained_completion_data;''] core))
        (result_bind (text_at t root_dir ''constraints/primer1.sdc'') (\<lambda>sdc.
         assert_all (none_in [''set_multicycle_path'', ''retained_data'', ''poly_a'', ''poly_b''] sdc)))))))"


section \<open>The sources\<close>

text \<open>\<open>static_check.py\<close>. Absolute paths: a drive letter, or the homes of Linux and macOS.\<close>

definition is_letter :: "char \<Rightarrow> bool" where
  "is_letter c = (let n = of_char c :: nat in 65 \<le> n \<and> n \<le> 90 \<or> 97 \<le> n \<and> n \<le> 122)"

definition DRIVE_RE :: regex where
  "DRIVE_RE = R_all [R_char is_letter, R_lit '':'', R_char (\<lambda>c. c = CHR 0x5C \<or> c = CHR 0x2F)]"

definition ABSOLUTE_RE :: regex where
  "ABSOLUTE_RE = R_any [DRIVE_RE, R_lit ''/home/'', R_lit ''/Users/'']"

definition word_re :: "string \<Rightarrow> regex" where
  "word_re word = R_all [R_boundary, R_lit word, R_boundary]"

definition module_re :: "string \<Rightarrow> regex" where
  "module_re name = R_all [R_boundary, R_lit ''module'', R_spaces1, R_lit name, R_boundary]"

definition assign_re :: "string \<Rightarrow> string \<Rightarrow> regex" where
  "assign_re target source =
     R_all [R_boundary, R_lit target, R_spaces, R_lit ''<='', R_spaces, R_lit source, R_spaces, R_lit '';'']"

definition REQUIRED_MODULES :: "string list" where
  "REQUIRED_MODULES =
      [''primer1_top'', ''spi_packet_endpoint'', ''mlkem_poly_accel'', ''ascon_aead128_encrypt'',
       ''uart_frame_tx'', ''uart_tx_byte'', ''primer1_command_core'']"

definition REQUIRED_TOKENS :: "string list" where
  "REQUIRED_TOKENS =
      [''CMD_POLY_EXECUTE'', ''CMD_ENCRYPT_AND_SEND'', ''SESSION_COMMITTED_BLOCKED'', ''secure_enable_i'',
       ''zeroize_ni'', ''uart_tx_o'', ''retained_fingerprint'', ''heartbeat_o'', ''fault_o'']"

definition SYNCHRONIZERS :: "(string \<times> string \<times> string) list" where
  "SYNCHRONIZERS =
      [(''secure_enable_i'', ''secure_meta'', ''secure_sync''),
       (''zeroize_ni'', ''zeroize_meta'', ''zeroize_sync''),
       (''fatal_latched_i'', ''fatal_meta'', ''fatal_sync''),
       (''spi_sck_i'', ''sck_meta'', ''sck_sync''),
       (''spi_mosi_i'', ''mosi_meta'', ''mosi_sync''),
       (''spi_cs_ni'', ''cs_meta'', ''cs_sync'')]"

definition CORE_FILE :: string where
  "CORE_FILE = ''rtl/core/primer1_command_core.sv''"

text \<open>The lines of \<open>sources.f\<close>, and the text of a source, which for the command core is its parts.\<close>

definition source_list :: "string \<Rightarrow> string list" where
  "source_list manifest = filter (\<lambda>l. l \<noteq> []) (map str_strip (splitlines manifest))"

definition manifest_file :: "source_tree \<Rightarrow> path \<Rightarrow> string \<Rightarrow> string option" where
  "manifest_file t root_dir rel = Option.bind (join_path root_dir rel) (map_of t)"

definition check_tracked :: "source_tree \<Rightarrow> path \<Rightarrow> string \<Rightarrow> unit result" where
  "check_tracked t root_dir rel =
     (case manifest_file t root_dir rel of
        None \<Rightarrow> Inl (AssertionError ''missing source'')
      | Some contents \<Rightarrow> assert_all (\<not> re_found ABSOLUTE_RE contents))"

definition source_text :: "source_tree \<Rightarrow> path \<Rightarrow> string \<Rightarrow> string \<Rightarrow> string result" where
  "source_text t root_dir core_text rel =
     (if rel = CORE_FILE then Inr core_text
      else of_option (OSError ''file not found'') (manifest_file t root_dir rel))"

definition check_counts :: "string \<Rightarrow> unit result" where
  "check_counts s =
     assert_all (length (re_findall (word_re ''module'') s) = length (re_findall (word_re ''endmodule'') s) \<and>
       length (re_findall (word_re ''endcase'') s) \<le> length (re_findall (word_re ''begin'') s))"

text \<open>The manifest, the includes of the command core, the modules and tokens, and the balance of every source.\<close>

definition check_sources :: "source_tree \<Rightarrow> path \<Rightarrow> string list result" where
  "check_sources t root_dir =
     result_bind (text_at t root_dir ''sources.f'') (\<lambda>manifest.
     let required = source_list manifest in
     result_bind (result_list (check_tracked t root_dir) (required @ core_parts)) (\<lambda>_.
     result_bind (text_at t root_dir CORE_FILE) (\<lambda>core_main.
     result_then (assert_all (all_in (map (\<lambda>i. ''`include '' @ [CHR 0x22] @ part_name i @ [CHR 0x22]) [0..<6]) core_main))
    (result_bind (core_of t root_dir) (\<lambda>core_text.
     result_bind (result_list (source_text t root_dir core_text) required) (\<lambda>texts.
     let all_text = str_join [CHR 0x0A] texts in
     result_then (assert_all (list_all (\<lambda>name. re_found (module_re name) all_text) REQUIRED_MODULES \<and>
         all_in REQUIRED_TOKENS all_text))
    (result_bind (result_list check_counts texts) (\<lambda>_. Inr required))))))))"


text \<open>The project file names the device and every source, with relative paths.\<close>

definition DEVICE_LINE :: string where
  "DEVICE_LINE =
     ''<Device name='' @ [CHR 0x22] @ ''GW2A-18C'' @ [CHR 0x22] @ '' pn='' @ [CHR 0x22] @ ''GW2A-LV18PG256C8/I7'' @ [CHR 0x22] @ ''>gw2a18c-011</Device>''"

definition path_entry :: "string \<Rightarrow> string" where
  "path_entry rel = ''path='' @ [CHR 0x22] @ ''../'' @ rel @ [CHR 0x22]"

definition check_project :: "string list \<Rightarrow> string \<Rightarrow> unit result" where
  "check_project required gprj =
     assert_all (contains DEVICE_LINE gprj \<and> \<not> re_found DRIVE_RE gprj \<and>
       all_in (map path_entry (required @ [''constraints/primer1.cst'', ''constraints/primer1.sdc''])) gprj)"

text \<open>Each asynchronous input goes through its two synchronizer stages.\<close>

definition check_synchronizers :: "string \<Rightarrow> string \<Rightarrow> unit result" where
  "check_synchronizers top_text spi_text =
     assert_all (list_all (\<lambda>((source, first_stage, second_stage), owner_text).
         re_found (assign_re first_stage source) owner_text \<and>
         re_found (assign_re second_stage first_stage) owner_text)
       (zip SYNCHRONIZERS [top_text, top_text, top_text, spi_text, spi_text, spi_text]))"

text \<open>The two process configurations; \<open>json.loads\<close> is the parameter: the values of the keys that are read, of which
  an absent one is \<open>None\<close>.\<close>

record process_config =
  pc_top_module :: "string option"
  pc_verilog_standard :: "string option"
  pc_include_path :: "string list option"
  pc_resource_sharing :: "bool option"
  pc_replicate_resources :: "bool option"

definition config_value :: "'a option \<Rightarrow> 'a \<Rightarrow> unit result" where
  "config_value entry expected =
     (case entry of None \<Rightarrow> Inl (KeyError ''process configuration'') | Some x \<Rightarrow> assert_all (x = expected))"

definition check_config :: "(string \<Rightarrow> process_config result) \<Rightarrow> string \<Rightarrow> unit result" where
  "check_config loads contents =
     result_bind (loads contents) (\<lambda>config.
     result_then (config_value (pc_top_module config) ''primer1_top'')
    (result_then (config_value (pc_verilog_standard config) ''Vlg_Std_Sysv2017'')
    (result_then (config_value (pc_include_path config) [''../rtl/core''])
    (result_then (config_value (pc_resource_sharing config) True)
                 (config_value (pc_replicate_resources config) False)))))"


section \<open>The accelerators and the serial ports\<close>

text \<open>The memory ports keep their output while they write.\<close>

definition dpb_re :: "string \<times> string \<times> string \<times> string \<Rightarrow> regex" where
  "dpb_re = (\<lambda>(write_enable, memory, address, output). R_all
     [R_lit ''if'', R_spaces, R_lit (''('' @ write_enable @ '')''), R_spaces,
      R_lit (memory @ ''['' @ address @ '']''), R_spaces, R_lit ''<='', R_spaces,
      R_plus (R_char (\<lambda>c. c \<noteq> CHR 0x3B)), R_lit '';'', R_spaces,
      R_lit ''else'', R_spaces, R_lit output, R_spaces, R_lit ''<='', R_spaces,
      R_lit (memory @ ''['' @ address @ ''];'')])"

definition DPB_PORTS :: "(string \<times> string \<times> string \<times> string) list" where
  "DPB_PORTS =
      [(''a_we0'', ''poly_a'', ''a_addr0'', ''a_q0''),
       (''a_we1'', ''poly_a'', ''a_addr1'', ''a_q1''),
       (''b_we0'', ''poly_b'', ''b_addr0'', ''b_q0''),
       (''b_we1'', ''poly_b'', ''b_addr1'', ''b_q1'')]"

definition RAM_PHASES :: "string list" where
  "RAM_PHASES =
      [''P_NTT_READ'', ''P_NTT_WRITE'', ''P_INTT_READ'', ''P_INTT_WRITE'', ''P_SCALE_READ'', ''P_SCALE_WRITE'',
       ''P_BM0_READ'', ''P_BM0_WRITE'', ''P_BM1_READ'', ''P_BM1_WRITE'']"

definition check_accel :: "string \<Rightarrow> unit result" where
  "check_accel accel =
     assert_all
       (str_count ''mul_result = montgomery_reduce'' accel = 1 \<and>
        all_in [''P_NTT_MUL'', ''P_INTT_MUL'', ''P_BM0_M6''] accel \<and>
        str_count ''poly_a [0:255]'' accel = 1 \<and> str_count ''poly_b [0:255]'' accel = 1 \<and>
        contains (''ram_style = '' @ [CHR 0x22] @ ''block'' @ [CHR 0x22]) accel \<and>
        \<not> contains ''function automatic logic signed [15:0] fqmul'' accel \<and>
        list_all (\<lambda>port. re_found (dpb_re port) accel) DPB_PORTS \<and>
        \<not> contains ''read_start_hold'' accel \<and> all_in RAM_PHASES accel)"

definition check_ascon :: "string \<Rightarrow> unit result" where
  "check_ascon ascon =
     assert_all (contains ''round_index'' ascon \<and> contains ''ascon_round(x0, x1, x2, x3, x4'' ascon \<and>
       str_count ''ascon_round('' ascon = 2)"

definition SLICE_TEXTS :: "string list" where
  "SLICE_TEXTS =
      [''saved_chunk_slot<=request_payload_i[0]'', ''saved_chunk_index<=request_payload_i[10:8]'',
       ''saved_read_slot<=request_payload_i[0]'', ''saved_read_chunk<=request_payload_i[10:8]'',
       ''poly_read_slot<=request_payload_i[0]'']"

definition check_spi_core :: "string \<Rightarrow> string \<Rightarrow> unit result" where
  "check_spi_core spi core =
     (let packed = filter (\<lambda>c. c \<noteq> CHR 0x20 \<and> c \<noteq> CHR 0x0A) core in
      assert_all
        (contains ''crc32c_update_byte'' spi \<and> contains ''request_fingerprint_o'' spi \<and>
         contains ''build_payload_shift[7:0]'' spi \<and> \<not> contains ''build_payload[8*(index-8) +: 8]'' spi \<and>
         \<not> contains ''function automatic logic [31:0] request_fingerprint'' core \<and>
         contains ''request_fingerprint_i'' core \<and> \<not> contains ''chunk_coefficients_valid'' core \<and>
         contains (''saved_chunk_data<={16'' @ [CHR 0x27] @ ''d0,saved_chunk_data[511:16]}'') packed \<and>
         all_in SLICE_TEXTS packed))"

definition check_uart_frame :: "string \<Rightarrow> unit result" where
  "check_uart_frame uart_frame =
     assert_all (contains ''byte_data <= frame_shift[7:0]'' uart_frame \<and>
       \<not> contains ''frame_reg[8*byte_index +: 8]'' uart_frame)"

definition check_uart_byte :: "string \<Rightarrow> unit result" where
  "check_uart_byte uart_byte = assert_all (all_in [''logic [31:0] baud_acc'', ''CLOCK_HZ_U - BAUD_U''] uart_byte)"

definition check_run_tcl :: "string \<Rightarrow> unit result" where
  "check_run_tcl run_tcl =
     assert_all
       (all_in
        [''set_device -name GW2A-18C GW2A-LV18PG256C8/I7'', ''set_option -verilog_std sysv2017'',
         ''set_option -include_path {../rtl/core}''] run_tcl \<and>
        \<not> re_found DRIVE_RE run_tcl)"

definition check_target :: "string \<Rightarrow> unit result" where
  "check_target target =
     assert_all (all_in
        [''device_database_name = '' @ [CHR 0x22] @ ''GW2A-18C'' @ [CHR 0x22],
         ''device_database_id = '' @ [CHR 0x22] @ ''gw2a18c-011'' @ [CHR 0x22]] target)"

text \<open>A check of one text, read from the tree.\<close>

definition on_file :: "source_tree \<Rightarrow> path \<Rightarrow> string \<Rightarrow> (string \<Rightarrow> 'a result) \<Rightarrow> 'a result" where
  "on_file t root_dir name k = result_bind (text_at t root_dir name) k"

definition static_check :: "(string \<Rightarrow> process_config result) \<Rightarrow> source_tree \<Rightarrow> path \<Rightarrow> unit result" where
  "static_check loads t root_dir =
     result_bind (check_sources t root_dir) (\<lambda>required.
     result_then (on_file t root_dir ''gowin/trinity_primer1.gprj'' (check_project required))
    (result_then (on_file t root_dir ''constraints/primer1.sdc'' validate_sdc)
    (result_then (validate_timing t root_dir)
    (on_file t root_dir ''rtl/primer1_top.sv'' (\<lambda>top_text.
     on_file t root_dir ''rtl/io/spi_packet_endpoint.sv'' (\<lambda>spi_text.
     result_then (check_synchronizers top_text spi_text)
    (result_then (on_file t root_dir ''gowin/impl/project_process_config.json'' (check_config loads))
    (result_then (on_file t root_dir ''gowin/impl/trinity_primer1_process_config.json'' (check_config loads))
    (result_then (on_file t root_dir ''gowin/run.tcl'' check_run_tcl)
    (result_then (on_file t root_dir ''target.toml'' check_target)
    (result_then (on_file t root_dir ''rtl/crypto/mlkem_poly_accel.sv'' check_accel)
    (result_then (on_file t root_dir ''rtl/crypto/ascon_aead128_encrypt.sv'' check_ascon)
    (result_bind (core_of t root_dir) (\<lambda>core.
     result_then (check_spi_core spi_text core)
    (on_file t root_dir ''rtl/io/uart_frame_tx.sv'' (\<lambda>uart_frame.
     result_then (check_uart_frame uart_frame)
    (on_file t root_dir ''rtl/io/uart_tx_byte.sv'' check_uart_byte)))))))))))))))))"

section \<open>The warnings of the synthesis\<close>

text \<open>\<open>classify_pa1001.py\<close>: the net, its source and the module of every warning.\<close>

definition R_quoted :: "nat \<Rightarrow> regex" where
  "R_quoted n = R_seq (R_lit [CHR 0x27]) (R_seq (R_group n (R_plus (R_char (\<lambda>c. c \<noteq> CHR 0x27)))) (R_lit [CHR 0x27]))"

definition PA1001_RE :: regex where
  "PA1001_RE = R_all
     [R_lit ''WARN'', R_spaces1, R_lit ''(PA1001)'', R_spaces, R_lit '':'', R_spaces, R_lit ''Dangling net '', R_quoted 1,
      R_lit ''(source:'', R_quoted 2, R_lit '') in module '', R_quoted 3, R_lit '' has no destination'']"

definition is_decimal :: "char \<Rightarrow> bool" where
  "is_decimal c = (let n = of_char c :: nat in 48 \<le> n \<and> n \<le> 57)"

definition TAIL_RE :: regex where
  "TAIL_RE = R_all
     [R_lit ''n'', R_any (map R_lit [''299'', ''300'', ''301'', ''302'', ''303'', ''304'', ''305'', ''306'']), R_lit ''_'',
      R_plus (R_char is_decimal), R_lit ''_SUM'']"

definition SUM_RE :: regex where
  "SUM_RE = R_all
     [R_lit ''n'', R_plus (R_char is_decimal), R_lit ''_'', R_plus (R_char is_decimal), R_lit ''_SUM'']"

definition category :: "string \<Rightarrow> string \<Rightarrow> string" where
  "category net module_name =
     (if module_name = ''mlkem_poly_accel'' then
        (if list_ex (\<lambda>p. prefix p net) [''SOA['', ''SOB['', ''DOUT[''] then ''DSP_OPTIONAL_OUTPUT''
         else if prefix ''add_'' net \<or> re_fullmatch TAIL_RE net \<noteq> None then ''EXPLICITLY_TRUNCATED_ARITHMETIC_TAIL''
         else ''UNKNOWN_MLKEM'')
      else if module_name \<in> {''spi_packet_endpoint'', ''primer1_command_core''} then
        (if re_fullmatch SUM_RE net \<noteq> None then ''SYNTHESIZED_FIXED_WIDTH_SUM_TAIL'' else ''UNKNOWN_CONTROL'')
      else ''UNKNOWN_MODULE'')"

text \<open>\<open>sorted(Counter(names).items())\<close>: each name once, with its number.\<close>

definition counter_items :: "string list \<Rightarrow> (string \<times> nat) list" where
  "counter_items names = map (\<lambda>x. (x, count_list names x)) (sort (remdups names))"

definition pa1001_warnings :: "string \<Rightarrow> string list list" where
  "pa1001_warnings log = re_findall_groups PA1001_RE [1, 2, 3] log"

definition warning_module :: "string list \<Rightarrow> string" where
  "warning_module w = w ! 2"

definition warning_category :: "string list \<Rightarrow> string" where
  "warning_category w = category (w ! 0) (w ! 2)"

definition unknown_count :: "(string \<times> nat) list \<Rightarrow> nat" where
  "unknown_count items = sum_list (map snd (filter (\<lambda>(name, _). prefix ''UNKNOWN'' name) items))"

text \<open>\<open>main\<close>: the lines it prints, and the exit status.\<close>

definition classify :: "bool \<Rightarrow> string \<Rightarrow> string list \<times> int" where
  "classify require_known log =
     (let warnings = pa1001_warnings log;
          by_module = counter_items (map warning_module warnings);
          by_category = counter_items (map warning_category warnings);
          unknown = unknown_count by_category
      in ([''PA1001 total: '' @ py_dec (int (length warnings))]
          @ map (\<lambda>(name, n). ''module '' @ name @ '': '' @ py_dec (int n)) by_module
          @ map (\<lambda>(name, n). ''category '' @ name @ '': '' @ py_dec (int n)) by_category
          @ [''unknown: '' @ py_dec (int unknown)],
          if require_known \<and> unknown \<noteq> 0 then 1 else 0))"

text \<open>The counts of some names add up to the number of their occurrences.\<close>

lemma counter_items_filter:
  "sum_list (map snd (filter (\<lambda>(x, _). P x) (counter_items names))) = length (filter P names)"
proof -
  let ?keys = "filter P (sort (remdups names))"
  have "filter (\<lambda>(x, _). P x) (counter_items names) = map (\<lambda>x. (x, count_list names x)) ?keys"
    by (simp add: counter_items_def filter_map comp_def)
  then have "sum_list (map snd (filter (\<lambda>(x, _). P x) (counter_items names))) = (\<Sum>x \<leftarrow> ?keys. count_list names x)"
    by (simp add: comp_def)
  also have "\<dots> = (\<Sum>x \<in> set ?keys. count_list names x)"
    by (rule sum_list_distinct_conv_sum_set) simp
  also have "\<dots> = (\<Sum>x \<in> set (filter P names). count_list (filter P names) x)"
  proof (rule sum.cong)
    show "set ?keys = set (filter P names)" by auto
    have "count_list (filter P names) x = count_list names x" if "P x" for x
      using that by (induction names) auto
    then show "x \<in> set (filter P names) \<Longrightarrow> count_list names x = count_list (filter P names) x" for x by simp
  qed
  also have "\<dots> = length (filter P names)" by (rule sum_count_set) simp_all
  finally show ?thesis .
qed

section \<open>White space and the body of a command\<close>

text \<open>Compacting takes out exactly the white space.\<close>

lemma star_chars_first:
  "\<exists>ms. star_matches (matches (R_char P)) True ((b, a), gs) =
     ((rev (takeWhile P a) @ b, dropWhile P a), gs) # ms"
proof (induction a arbitrary: b)
  case Nil
  show ?case by (subst star_matches.simps) simp
next
  case (Cons c a)
  then obtain ms where "star_matches (matches (R_char P)) True ((c # b, a), gs) =
      ((rev (takeWhile P a) @ c # b, dropWhile P a), gs) # ms"
    by blast
  then show ?case by (subst star_matches.simps) (simp add: shorter_def Let_def)
qed

lemma plus_chars_first:
  "\<not> P c \<Longrightarrow> matches (R_plus (R_char P)) ((b, c # a), gs) = []"
  "P c \<Longrightarrow> \<exists>ms. matches (R_plus (R_char P)) ((b, c # a), gs) =
     ((rev (takeWhile P a) @ c # b, dropWhile P a), gs) # ms"
  using star_chars_first [of P "c # b" a gs] by (auto simp: R_plus_def)

lemma spaces_search:
  "search_from R_spaces1 b a =
     (let u = takeWhile (\<lambda>c. \<not> is_str_space c) a; rest = dropWhile (\<lambda>c. \<not> is_str_space c) a in
      if rest = [] then None
      else Some ((rev u @ b, rest),
        ((rev (takeWhile is_str_space rest) @ rev u @ b, dropWhile is_str_space rest), [])))"
proof (induction a arbitrary: b)
  case Nil
  show ?case by (subst search_from.simps) (simp add: R_plus_def)
next
  case (Cons c a)
  show ?case
  proof (cases "is_str_space c")
    case True
    from plus_chars_first(2) [of is_str_space c b a "[]", OF True] True show ?thesis
      by (subst search_from.simps) (auto simp: Let_def simp del: R_plus_def)
  next
    case False
    from plus_chars_first(1) [of is_str_space c b a "[]", OF False] False Cons [of "c # b"] show ?thesis
      by (subst search_from.simps) (auto simp: Let_def)
  qed
qed

lemma compact_filter: "compact s = filter (\<lambda>c. \<not> is_str_space c) s"
proof -
  have "sub_from R_spaces1 (\<lambda>_. []) b a = filter (\<lambda>c. \<not> is_str_space c) a" for b a
  proof (induction "length a" arbitrary: b a rule: less_induct)
    case less
    let ?u = "takeWhile (\<lambda>c. \<not> is_str_space c) a" and ?rest = "dropWhile (\<lambda>c. \<not> is_str_space c) a"
    let ?after = "dropWhile is_str_space ?rest"
    have a: "filter (\<lambda>c. \<not> is_str_space c) a = ?u @ filter (\<lambda>c. \<not> is_str_space c) ?after"
    proof -
      have "filter (\<lambda>c. \<not> is_str_space c) xs = filter (\<lambda>c. \<not> is_str_space c) (dropWhile is_str_space xs)" for xs
        by (induction xs) auto
      moreover have "filter (\<lambda>c. \<not> is_str_space c) xs = takeWhile (\<lambda>c. \<not> is_str_space c) xs @
          filter (\<lambda>c. \<not> is_str_space c) (dropWhile (\<lambda>c. \<not> is_str_space c) xs)" for xs
        by (induction xs) auto
      ultimately show ?thesis by metis
    qed
    show ?case
    proof (cases "?rest = []")
      case True
      then have "\<forall>c \<in> set a. \<not> is_str_space c" by (simp add: dropWhile_eq_Nil_conv)
      with True show ?thesis
        by (subst sub_from.simps) (simp add: spaces_search Let_def)
    next
      case False
      then have "is_str_space (hd ?rest)" by (meson hd_dropWhile)
      then have shorter: "length ?after < length a"
        using False by (metis dropWhile.simps(2) length_dropWhile_le le_imp_less_Suc length_Cons less_le_trans list.collapse)
      have len: "length a = length ?u + length ?rest" by (metis length_append takeWhile_dropWhile_id)
      have "between (b, a) (rev ?u @ b, ?rest) = ?u"
        using len by (simp add: between_def) (metis add_diff_cancel_right' append_eq_conv_conj takeWhile_dropWhile_id)
      with False shorter less [OF shorter] a show ?thesis
        by (subst sub_from.simps) (auto simp: spaces_search Let_def)
    qed
  qed
  then show ?thesis by (simp add: compact_def re_sub_def)
qed

text \<open>The body of a command stands between its label and the following one.\<close>

lemma search_from_Some:
  "search_from r b a = Some (p, m) \<Longrightarrow> \<exists>u v. a = u @ v \<and> m \<in> set (matches r ((rev u @ b, v), []))"
proof (induction r b a rule: search_from.induct)
  case (1 r b a)
  show ?case
  proof (cases "matches r ((b, a), [])")
    case Nil
    with 1(2) obtain c cs where a: "a = c # cs" and s: "search_from r (c # b) cs = Some (p, m)"
      by (subst (asm) search_from.simps) (auto split: list.splits)
    from 1(1) [OF Nil a s] obtain u v where "cs = u @ v" "m \<in> set (matches r ((rev u @ c # b, v), []))" by blast
    then show ?thesis unfolding a by (intro exI [of _ "c # u"] exI [of _ v]) simp
  next
    case (Cons m1 ms)
    with 1(2) have "m = m1" by (subst (asm) search_from.simps) simp
    with Cons show ?thesis by (intro exI [of _ "[]"] exI [of _ a]) simp
  qed
qed

lemma seq_takesE:
  assumes "m' \<in> set (matches (R_seq r q) ((b, a), gs))" and "takes r L"
  obtains w a' where "a = w @ a'" "L w" "m' \<in> set (matches q ((rev w @ b, a'), gs))"
  using assms(1) that unfolding set_matches_seq takes_iff [OF assms(2)] after_text_from by blast

text \<open>The text of a label: its name and \<open>: begin\<close>, with white space around the colon.\<close>

definition label_form :: "string \<Rightarrow> string \<Rightarrow> bool" where
  "label_form command w \<longleftrightarrow>
     (\<exists>u v. w = command @ u @ '':'' @ v @ ''begin'' \<and> list_all is_str_space u \<and> list_all is_str_space v)"

lemma label_taken:
  assumes "m' \<in> set (matches (R_all (label_re command @ rs)) ((b, a), gs))"
  shows "\<exists>w a'. a = w @ a' \<and> label_form command w \<and> m' \<in> set (matches (R_all rs) ((rev w @ b, a'), gs))"
proof -
  let ?q4 = "R_seq (R_lit ''begin'') (R_all rs)"
  let ?q3 = "R_seq R_spaces ?q4"
  let ?q2 = "R_seq (R_lit '':'') ?q3"
  let ?q1 = "R_seq R_spaces ?q2"
  from assms have m: "m' \<in> set (matches (R_seq (R_lit command) ?q1) ((b, a), gs))"
    by (simp only: label_re_def append.simps R_all.simps)
  obtain w1 a1 where 1: "a = w1 @ a1" "w1 = command" "m' \<in> set (matches ?q1 ((rev w1 @ b, a1), gs))"
    by (rule seq_takesE [OF m takes_lit])
  obtain w2 a2 where 2: "a1 = w2 @ a2" "list_all is_str_space w2" "m' \<in> set (matches ?q2 ((rev w2 @ rev w1 @ b, a2), gs))"
    by (rule seq_takesE [OF 1(3) takes_chars])
  obtain w3 a3 where 3: "a2 = w3 @ a3" "w3 = '':''" "m' \<in> set (matches ?q3 ((rev w3 @ rev w2 @ rev w1 @ b, a3), gs))"
    by (rule seq_takesE [OF 2(3) takes_lit])
  obtain w4 a4 where 4: "a3 = w4 @ a4" "list_all is_str_space w4"
      "m' \<in> set (matches ?q4 ((rev w4 @ rev w3 @ rev w2 @ rev w1 @ b, a4), gs))"
    by (rule seq_takesE [OF 3(3) takes_chars])
  obtain w5 a5 where 5: "a4 = w5 @ a5" "w5 = ''begin''"
      "m' \<in> set (matches (R_all rs) ((rev w5 @ rev w4 @ rev w3 @ rev w2 @ rev w1 @ b, a5), gs))"
    by (rule seq_takesE [OF 4(3) takes_lit])
  let ?w = "w1 @ w2 @ w3 @ w4 @ w5"
  have "label_form command ?w" unfolding label_form_def using 1(2) 2(2) 3(2) 4(2) 5(2) by blast
  moreover have "a = ?w @ a5" using 1(1) 2(1) 3(1) 4(1) 5(1) by simp
  moreover have "m' \<in> set (matches (R_all rs) ((rev ?w @ b, a5), gs))" using 5(3) by simp
  ultimately show ?thesis by blast
qed

lemma ahead_taken: "m' \<in> set (matches (R_all [R_ahead r]) m) \<Longrightarrow> \<exists>q ms. matches r m = (q, snd m') # ms"
  by (cases "matches r m") auto

lemma command_body_sound:
  assumes "command_body core command next_command = Inr body"
  shows "\<exists>u label following v. core = u @ label @ body @ following @ v \<and> label_form command label \<and> label_form next_command following"
proof -
  let ?body = "R_star False (R_char (\<lambda>_. True))" and ?ahead = "R_all (label_re next_command)"
  from assms obtain gs where "re_search (command_re command next_command) core = Some gs" and body: "body = group_text gs 1"
    by (auto simp: command_body_def split: option.splits)
  then obtain p q where "search_from (command_re command next_command) [] core = Some (p, (q, gs))"
    by (auto simp: re_search_def)
  from search_from_Some [OF this] obtain u a where core: "core = u @ a"
    and "(q, gs) \<in> set (matches (R_all (label_re command @ [R_group 1 ?body, R_ahead ?ahead])) ((rev u, a), []))"
    by (auto simp: command_re_def)
  from label_taken [OF this(2)] obtain label a1 where a: "a = label @ a1" "label_form command label"
    and "(q, gs) \<in> set (matches (R_all [R_group 1 ?body, R_ahead ?ahead]) ((rev label @ rev u, a1), []))"
    by blast
  then obtain m1 where m1: "m1 \<in> set (matches (R_group 1 ?body) ((rev label @ rev u, a1), []))"
    and "(q, gs) \<in> set (matches (R_all [R_ahead ?ahead]) m1)"
    unfolding R_all.simps set_matches_seq by blast
  from ahead_taken [OF this(2)] obtain q' ms where ahead: "matches ?ahead m1 = (q', gs) # ms" by auto
  from m1 obtain w a2 where w: "a1 = w @ a2" "m1 = ((rev w @ rev label @ rev u, a2), [(1, w)])"
    unfolding group_matches [OF takes_chars] by auto
  from ahead have "(q', gs) \<in> set (matches (R_all (label_re next_command @ [])) m1)" by simp
  then have "(q', gs) \<in> set (matches (R_all (label_re next_command @ [])) ((rev w @ rev label @ rev u, a2), [(1, w)]))"
    unfolding w(2) .
  from label_taken [OF this] obtain following v where n: "a2 = following @ v" "label_form next_command following"
    and "(q', gs) \<in> set (matches (R_all []) ((rev following @ rev w @ rev label @ rev u, v), [(1, w)]))"
    by blast
  then have "gs = [(1, w)]" by simp
  then have "body = w" using body by (simp add: group_text_def)
  then show ?thesis using core a w(1) n by auto
qed

end
