(* ===== verification/Warning_Log.thy ===== *)
theory Warning_Log
  imports P1_Guard
begin

text \<open>
  What \<open>classify_pa1001.py\<close> reads out of a synthesis log: a log is a list of lines, each a dangling-net warning or
  something else, and the pattern finds exactly the warnings, with their fields.
\<close>

section \<open>Matching a text of known shape\<close>

lemma matches_lit:
  "matches (R_lit s) ((b, t), gs) = (if prefix s t then [((rev s @ b, drop (length s) t), gs)] else [])"
proof (induction s arbitrary: b t)
  case (Cons c s)
  then show ?case by (cases t) auto
qed simp

lemma lit_then [simp]: "matches (R_seq (R_lit s) r) ((b, s @ a), gs) = matches r ((rev s @ b, a), gs)"
  by (simp add: matches_lit)

lemma lit_stuck: "\<not> prefix s t \<Longrightarrow> matches (R_seq (R_lit s) r) ((b, t), gs) = []"
  by (simp add: matches_lit)

text \<open>A class by its first character, so that the pattern stays folded.\<close>

declare matches.simps(1) [simp del] R_lit.simps [simp del]

lemma class_at [simp]: "matches (R_char P) ((b, c # t), gs) = (if P c then [((c # b, t), gs)] else [])"
  by (simp add: matches.simps(1))

text \<open>A greedy class that stops at a character outside it, before something that no character of the class can
  start: of its matches only the longest goes on.\<close>

lemma star_class:
  "P x \<Longrightarrow> star_matches (matches (R_char P)) True ((b, x # t), gs) =
     star_matches (matches (R_char P)) True ((x # b, t), gs) @ [((b, x # t), gs)]"
  "\<not> P x \<Longrightarrow> star_matches (matches (R_char P)) True ((b, x # t), gs) = [((b, x # t), gs)]"
  by (subst star_matches.simps, simp add: Let_def shorter_def)+

lemma star_then:
  assumes "list_all P u" and "\<not> P c" and f: "\<And>b x t. P x \<Longrightarrow> f ((b, x # t), gs) = []"
  shows "concat (map f (star_matches (matches (R_char P)) True ((b, u @ c # a), gs))) = f ((rev u @ b, c # a), gs)"
  using assms(1)
proof (induction u arbitrary: b)
  case Nil
  then show ?case using assms(2) by (simp add: star_class)
next
  case (Cons x u)
  then show ?case using f by (simp add: star_class)
qed

lemma plus_then:
  assumes "u \<noteq> []" and "list_all P u" and "\<not> P c" and "\<And>b x t. P x \<Longrightarrow> f ((b, x # t), gs) = []"
  shows "concat (map f (matches (R_plus (R_char P)) ((b, u @ c # a), gs))) = f ((rev u @ b, c # a), gs)"
proof -
  from assms(1) obtain x v where "u = x # v" by (cases u) auto
  with assms(2) star_then [of P v c f gs "x # b" a] assms(3,4) show ?thesis by (simp add: R_plus_def)
qed

lemma spaces_then:
  assumes "list_all P u" and "s \<noteq> []" "\<not> P (hd s)"
  shows "matches (R_seq (R_star True (R_char P)) (R_seq (R_lit s) r)) ((b, u @ s @ a), gs) =
    matches r ((rev s @ rev u @ b, a), gs)"
proof -
  from assms(2) obtain c v where s: "s = c # v" by (cases s) auto
  have "matches (R_seq (R_star True (R_char P)) (R_seq (R_lit s) r)) ((b, u @ c # v @ a), gs) =
      matches (R_seq (R_lit s) r) ((rev u @ b, c # v @ a), gs)"
    unfolding matches.simps(3) [of "R_star True (R_char P)"] matches.simps(5)
    by (rule star_then [OF assms(1)]) (use assms s in \<open>auto simp: matches_lit\<close>)
  then show ?thesis using lit_then [of s r "rev u @ b" a gs] s by simp
qed

lemma spaces1_then:
  assumes "u \<noteq> []" and "list_all P u" and "s \<noteq> []" "\<not> P (hd s)"
  shows "matches (R_seq (R_plus (R_char P)) (R_seq (R_lit s) r)) ((b, u @ s @ a), gs) =
    matches r ((rev s @ rev u @ b, a), gs)"
proof -
  from assms(3) obtain c v where s: "s = c # v" by (cases s) auto
  have "matches (R_seq (R_plus (R_char P)) (R_seq (R_lit s) r)) ((b, u @ c # v @ a), gs) =
      matches (R_seq (R_lit s) r) ((rev u @ b, c # v @ a), gs)"
    unfolding matches.simps(3) [of "R_plus (R_char P)"]
    by (rule plus_then [OF assms(1,2)]) (use assms s in \<open>auto simp: matches_lit\<close>)
  then show ?thesis using lit_then [of s r "rev u @ b" a gs] s by simp
qed

definition in_quotes :: "string \<Rightarrow> string" where
  "in_quotes u = [CHR 0x27] @ u @ [CHR 0x27]"

lemma quoted_then:
  assumes "u \<noteq> []" and "CHR 0x27 \<notin> set u"
  shows "matches (R_seq (R_quoted n) r) ((b, in_quotes u @ a), gs) =
    matches r ((rev (in_quotes u) @ b, a), AList.update n u gs)"
proof -
  let ?q = "CHR 0x27" and ?P = "\<lambda>c. c \<noteq> CHR 0x27"
  let ?start = "(?q # b, u @ ?q # a)"
  let ?close = "\<lambda>(q, gs). matches (R_lit [?q]) (q, AList.update n (between ?start q) gs)"
  have all: "list_all ?P u" using assms(2) by (auto simp: list_all_iff)
  have "concat (map ?close (matches (R_plus (R_char ?P)) (?start, gs))) = ?close ((rev u @ ?q # b, ?q # a), gs)"
    by (rule plus_then [OF assms(1) all]) (simp_all add: matches_lit)
  also have "\<dots> = [((?q # rev u @ ?q # b, a), AList.update n u gs)]"
    by (simp add: matches_lit between_def)
  finally have group: "concat (map ?close (matches (R_plus (R_char ?P)) (?start, gs))) =
      [((?q # rev u @ ?q # b, a), AList.update n u gs)]" .
  have "matches (R_quoted n) ((b, in_quotes u @ a), gs) = concat (map ?close (matches (R_plus (R_char ?P)) (?start, gs)))"
    by (simp add: R_quoted_def in_quotes_def matches_lit comp_def case_prod_unfold)
  with group show ?thesis by (simp add: in_quotes_def)
qed

section \<open>Searching\<close>

lemma matches_length: "m' \<in> set (matches r m) \<Longrightarrow> length (snd (fst m')) \<le> length (snd (fst m))"
proof (induction r arbitrary: m m')
  case (R_char P)
  obtain b t gs where m: "m = ((b, t), gs)" by (metis prod.collapse)
  with R_char show ?case by (cases t) (auto simp: matches.simps(1) split: if_splits)
next
  case (R_seq r1 r2)
  then obtain m1 where "m1 \<in> set (matches r1 m)" "m' \<in> set (matches r2 m1)" by auto
  with R_seq(1,2) show ?case by (meson le_trans)
next
  case (R_star greedy r)
  then have "star_reach (matches r) m m'" by (simp add: set_star_matches)
  then show ?case by (induction rule: star_reach.induct) (auto simp: shorter_def)
next
  case (R_group n r)
  from R_group(2) obtain x where "x \<in> set (matches r m)" "fst m' = fst x" by (auto simp: case_prod_unfold)
  with R_group(1) show ?case by metis
next
  case (R_ahead r)
  then show ?case by (auto split: list.splits prod.splits)
qed (auto split: list.splits if_splits)

lemma lit_shorter:
  assumes "m' \<in> set (matches (R_seq (R_lit s) r) ((b, t), gs))" and "s \<noteq> []"
  shows "length (snd (fst m')) < length t"
proof -
  from assms(1) have s: "prefix s t" and "m' \<in> set (matches r ((rev s @ b, drop (length s) t), gs))"
    by (simp_all add: matches_lit split: if_splits)
  from matches_length [OF this(2)] have "length (snd (fst m')) \<le> length t - length s" by simp
  moreover have "length s \<le> length t" using s by (rule prefix_length_le)
  moreover have "0 < length s" using assms(2) by simp
  ultimately show ?thesis by linarith
qed

lemma search_matches:
  "search_from r b t = Some (p, m) \<Longrightarrow> \<exists>b' t'. length t' \<le> length t \<and> m \<in> set (matches r ((b', t'), []))"
proof (induction r b t rule: search_from.induct)
  case (1 r b t)
  show ?case
  proof (cases "matches r ((b, t), [])")
    case (Cons x xs)
    then have "m = x" using 1(2) by (subst (asm) search_from.simps) simp
    then show ?thesis using Cons by (intro exI [of _ b] exI [of _ t]) simp
  next
    case Nil
    then obtain c cs where t: "t = c # cs" using 1(2) by (subst (asm) search_from.simps) (auto split: list.splits)
    then have "search_from r (c # b) cs = Some (p, m)" using 1(2) Nil by (subst (asm) search_from.simps) simp
    from 1(1) [OF Nil t this] t show ?thesis by (metis le_SucI length_Cons)
  qed
qed

lemma search_skip:
  assumes "\<And>v x w. u = v @ x # w \<Longrightarrow> matches r ((rev v @ b, x # w @ t), []) = []"
  shows "search_from r b (u @ t) = search_from r (rev u @ b) t"
  using assms
proof (induction u arbitrary: b)
  case (Cons c u)
  have "search_from r b ((c # u) @ t) = search_from r (c # b) (u @ t)"
    using Cons.prems [of "[]" c u] by (subst search_from.simps) simp
  also have "\<dots> = search_from r (rev u @ c # b) t"
  proof (rule Cons.IH)
    fix v x w
    assume "u = v @ x # w"
    then show "matches r ((rev v @ c # b, x # w @ t), []) = []" using Cons.prems [of "c # v" x w] by simp
  qed
  finally show ?case by simp
qed simp

lemma find_skip:
  assumes "s \<noteq> []" and "\<And>v x w. u = v @ x # w \<Longrightarrow> \<not> prefix s (x # w @ t)"
  shows "find_from (R_seq (R_lit s) r) b (u @ t) = find_from (R_seq (R_lit s) r) (rev u @ b) t"
proof -
  have skip: "search_from (R_seq (R_lit s) r) b (u @ t) = search_from (R_seq (R_lit s) r) (rev u @ b) t"
    using assms(2) by (intro search_skip lit_stuck) auto
  show ?thesis
  proof (cases "search_from (R_seq (R_lit s) r) (rev u @ b) t")
    case None
    then show ?thesis by (subst (1 2) find_from.simps) (simp add: skip)
  next
    case (Some x)
    obtain p q gs where x: "x = (p, (q, gs))" by (metis prod.collapse)
    from search_matches [OF Some [unfolded x]] obtain b' t' where
      "length t' \<le> length t" "(q, gs) \<in> set (matches (R_seq (R_lit s) r) ((b', t'), []))" by blast
    with lit_shorter [OF this(2) assms(1)] have "length (snd q) < length t" by simp
    then show ?thesis by (subst (1 2) find_from.simps) (simp add: skip Some x)
  qed
qed

lemma find_match:
  assumes "matches r ((b, w @ t), []) = [((rev w @ b, t), gs)]" and "w \<noteq> []"
  shows "find_from r b (w @ t) = ((b, w @ t), ((rev w @ b, t), gs)) # find_from r (rev w @ b) t"
proof -
  have "search_from r b (w @ t) = Some ((b, w @ t), ((rev w @ b, t), gs))"
    by (subst search_from.simps) (simp add: assms(1))
  then show ?thesis using assms(2) by (subst find_from.simps) simp
qed

section \<open>Logs\<close>

text \<open>A line of the log: a warning, with its white space, its net, its source and its module, or another text.\<close>

datatype log_item = Dangling string string string string string string | Other string

fun item_text :: "log_item \<Rightarrow> string" where
  "item_text (Dangling s1 s2 s3 net source module) =
     ''WARN'' @ s1 @ ''(PA1001)'' @ s2 @ '':'' @ s3 @ ''Dangling net '' @ in_quotes net @ ''(source:'' @ in_quotes source
     @ '') in module '' @ in_quotes module @ '' has no destination''"
| "item_text (Other t) = t"

fun item_ok :: "log_item \<Rightarrow> bool" where
  "item_ok (Dangling s1 s2 s3 net source module) \<longleftrightarrow>
     s1 \<noteq> [] \<and> list_all (list_all is_str_space) [s1, s2, s3] \<and>
     list_all (\<lambda>field. field \<noteq> [] \<and> CHR 0x27 \<notin> set field) [net, source, module]"
| "item_ok (Other t) \<longleftrightarrow> \<not> sublist ''WARN'' t"

fun item_warning :: "log_item \<Rightarrow> string list list" where
  "item_warning (Dangling s1 s2 s3 net source module) = [[net, source, module]]"
| "item_warning (Other t) = []"

definition log_text :: "log_item list \<Rightarrow> string" where
  "log_text items = concat (map (\<lambda>i. item_text i @ [CHR 0x0A]) items)"

definition log_warnings :: "log_item list \<Rightarrow> string list list" where
  "log_warnings items = concat (map item_warning items)"

lemma not_spaces: "\<not> is_str_space CHR ''(''" "\<not> is_str_space CHR '':''" "\<not> is_str_space CHR ''D''"
  by code_simp+

lemma warning_match:
  assumes "item_ok (Dangling s1 s2 s3 net source module)"
  shows "matches PA1001_RE ((b, item_text (Dangling s1 s2 s3 net source module) @ t), []) =
    [((rev (item_text (Dangling s1 s2 s3 net source module)) @ b, t), [(1, net), (2, source), (3, module)])]"
proof -
  have space: "s1 \<noteq> []" "list_all is_str_space s1" "list_all is_str_space s2" "list_all is_str_space s3"
    and fields: "net \<noteq> []" "CHR 0x27 \<notin> set net" "source \<noteq> []" "CHR 0x27 \<notin> set source" "module \<noteq> []" "CHR 0x27 \<notin> set module"
    using assms by auto
  note spaces = spaces1_then [OF space(1,2)] spaces_then [OF space(3)] spaces_then [OF space(4)]
  note quoted = quoted_then [OF fields(1,2)] quoted_then [OF fields(3,4)] quoted_then [OF fields(5,6)]
  have update: "AList.update 3 module (AList.update 2 source (AList.update (1 :: nat) net [])) = [(1, net), (2, source), (3, module)]"
    by simp
  show ?thesis
    unfolding PA1001_RE_def R_all.simps item_text.simps append_assoc rev_append
    by (simp only: lit_then spaces quoted not_spaces list.sel list.distinct not_False_eq_True simp_thms matches.simps(2) update)
qed

lemma prefix_line: "prefix s (a @ c # t) \<Longrightarrow> c \<notin> set s \<Longrightarrow> prefix s a"
  by (auto simp: prefix_append prefix_Cons)

lemma find_warning:
  assumes "item_ok i"
  shows "map (\<lambda>(p, q, gs). map (group_text gs) [1, 2, 3]) (find_from PA1001_RE b (item_text i @ CHR 0x0A # t)) =
    item_warning i @ map (\<lambda>(p, q, gs). map (group_text gs) [1, 2, 3])
      (find_from PA1001_RE (CHR 0x0A # rev (item_text i) @ b) t)"
proof -
  have line: "find_from PA1001_RE b (CHR 0x0A # t) = find_from PA1001_RE (CHR 0x0A # b) t" for b
    using find_skip [of "''WARN''" "[CHR 0x0A]" t _ b] by (simp add: PA1001_RE_def Cons_eq_append_conv)
  show ?thesis
  proof (cases i)
    case (Dangling s1 s2 s3 net source module)
    have "find_from PA1001_RE b (item_text i @ CHR 0x0A # t) = ((b, item_text i @ CHR 0x0A # t),
        ((rev (item_text i) @ b, CHR 0x0A # t), [(1, net), (2, source), (3, module)]))
      # find_from PA1001_RE (rev (item_text i) @ b) (CHR 0x0A # t)"
      unfolding Dangling by (rule find_match [OF warning_match [OF assms [unfolded Dangling]]]) simp
    then show ?thesis by (simp add: line Dangling group_text_def)
  next
    case (Other u)
    have "\<not> prefix ''WARN'' (x # w @ CHR 0x0A # t)" if "u = v @ x # w" for v x w
    proof
      assume p: "prefix ''WARN'' (x # w @ CHR 0x0A # t)"
      then have "prefix ''WARN'' (x # w)" using prefix_line [of "''WARN''" "x # w" "CHR 0x0A" t] by auto
      then have "sublist ''WARN'' u" unfolding that prefix_def sublist_def by metis
      then show False using assms Other by simp
    qed
    then have "find_from PA1001_RE b (u @ CHR 0x0A # t) = find_from PA1001_RE (rev u @ b) (CHR 0x0A # t)"
      unfolding PA1001_RE_def R_all.simps by (intro find_skip) simp_all
    then show ?thesis by (simp add: line Other)
  qed
qed

text \<open>The pattern reads exactly the warnings of a log, in order, with their fields.\<close>

lemma find_nothing: "find_from PA1001_RE b [] = []"
proof -
  have "matches PA1001_RE ((b, []), []) = []" unfolding PA1001_RE_def R_all.simps by (rule lit_stuck) simp
  then show ?thesis by (subst find_from.simps, subst search_from.simps) simp
qed

lemma warnings_found:
  assumes "list_all item_ok items"
  shows "pa1001_warnings (log_text items) = log_warnings items"
proof -
  have "map (\<lambda>(p, q, gs). map (group_text gs) [1, 2, 3]) (find_from PA1001_RE b (log_text items)) = log_warnings items" for b
    using assms
  proof (induction items arbitrary: b)
    case (Cons i items)
    then show ?case using find_warning [of i b "log_text items"] by (simp add: log_text_def log_warnings_def)
  qed (simp add: log_text_def log_warnings_def find_nothing)
  then show ?thesis by (simp add: pa1001_warnings_def re_findall_groups_def)
qed

section \<open>The lines printed\<close>

text \<open>\<open>tally title f ws\<close>: a line for every value of \<open>f\<close>, in order, with the number of warnings that have it.\<close>

definition tally :: "string \<Rightarrow> (string list \<Rightarrow> string) \<Rightarrow> string list list \<Rightarrow> string list \<Rightarrow> bool" where
  "tally title f ws ls \<longleftrightarrow> (\<exists>names. sorted names \<and> distinct names \<and> set names = f ` set ws \<and>
     ls = map (\<lambda>x. title @ '' '' @ x @ '': '' @ py_dec (int (length (filter (\<lambda>w. f w = x) ws)))) names)"

lemma count_filter: "count_list (map f ws) x = length (filter (\<lambda>w. f w = x) ws)"
  by (induction ws) auto

lemma tally_items:
  "tally title f ws (map (\<lambda>(name, n). title @ '' '' @ name @ '': '' @ py_dec (int n)) (counter_items (map f ws)))"
  unfolding tally_def counter_items_def
  by (rule exI [of _ "sort (remdups (map f ws))"]) (simp add: comp_def count_filter)

lemma unknown_items:
  "unknown_count (counter_items (map f ws)) = length (filter (\<lambda>w. prefix ''UNKNOWN'' (f w)) ws)"
  by (simp add: unknown_count_def counter_items_filter filter_map comp_def)

lemma fields: "warning_module = (\<lambda>w. w ! 2)" "warning_category = (\<lambda>w. category (w ! 0) (w ! 2))"
  by (simp_all add: fun_eq_iff warning_module_def warning_category_def)

lemma classify_log:
  assumes "list_all item_ok items"
  shows "\<exists>modules categories.
    tally ''module'' (\<lambda>w. w ! 2) (log_warnings items) modules \<and>
    tally ''category'' (\<lambda>w. category (w ! 0) (w ! 2)) (log_warnings items) categories \<and>
    classify require_known (log_text items) =
      ([''PA1001 total: '' @ py_dec (int (length (log_warnings items)))] @ modules @ categories @
       [''unknown: '' @ py_dec (int (length
          (filter (\<lambda>w. prefix ''UNKNOWN'' (category (w ! 0) (w ! 2))) (log_warnings items))))],
       if require_known \<and> list_ex (\<lambda>w. prefix ''UNKNOWN'' (category (w ! 0) (w ! 2))) (log_warnings items) then 1 else 0)"
  using tally_items [of "''module''" "\<lambda>w. w ! 2" "log_warnings items"]
    tally_items [of "''category''" "\<lambda>w. category (w ! 0) (w ! 2)" "log_warnings items"]
  by (intro exI [of _ "map (\<lambda>(name, n). ''module'' @ '' '' @ name @ '': '' @ py_dec (int n))
        (counter_items (map (\<lambda>w. w ! 2) (log_warnings items)))"]
      exI [of _ "map (\<lambda>(name, n). ''category'' @ '' '' @ name @ '': '' @ py_dec (int n))
        (counter_items (map (\<lambda>w. category (w ! 0) (w ! 2)) (log_warnings items)))"])
    (simp add: classify_def Let_def warnings_found [OF assms] unknown_items list_ex_iff filter_empty_conv fields)

text \<open>A log with a warning of each kind.\<close>

definition sample_log :: "log_item list" where
  "sample_log =
     [Other ''Running synthesis'',
      Dangling '' '' [] [] ''SOA[3]'' ''src/mlkem.v'' ''mlkem_poly_accel'',
      Dangling ''  '' '' '' '' '' ''n12_34_SUM'' ''src/core.v'' ''primer1_command_core'',
      Dangling '' '' [] '' '' ''spare'' ''src/top.v'' ''top'',
      Other ''done'']"

lemma sample_log_ok: "list_all item_ok sample_log"
  by code_simp

end
