(* ===== verification/Layout_Check.thy ===== *)
theory Layout_Check
  imports Repo_Check "HOL-Library.List_Lexorder" "HOL-Library.Char_ord"
begin

text \<open>
  \<open>check_repository_layout.py\<close>: what may stand at the root, in the GitHub folder and in the five targets, and which
  files must be there. The repository is a list of entries by path, in the order of the directory listings; a
  symbolic link is an entry that says what it leads to, and has no entries below it. A text is what \<open>read_text\<close>
  returns; the parsing of TOML is a parameter.
\<close>

section \<open>The file system\<close>

datatype entry = Folder | File string | Link "string option" bool

text \<open>A link to a file with a text, to a folder (\<open>True\<close>), or to nothing.\<close>

type_synonym entries = "(path \<times> entry) list"

fun entry_text :: "entry \<Rightarrow> string option" where
  "entry_text Folder = None"
| "entry_text (File s) = Some s"
| "entry_text (Link followed folder) = followed"

fun entry_exists :: "entry \<Rightarrow> bool" where
  "entry_exists (Link followed folder) = (followed \<noteq> None \<or> folder)"
| "entry_exists _ = True"

fun is_link :: "entry \<Rightarrow> bool" where
  "is_link (Link _ _) = True"
| "is_link _ = False"

text \<open>\<open>exists\<close>, \<open>is_file\<close> with the text, \<open>iterdir\<close> and \<open>rglob("*")\<close>.\<close>

definition path_exists :: "entries \<Rightarrow> path \<Rightarrow> bool" where
  "path_exists r p = (case map_of r p of None \<Rightarrow> False | Some e \<Rightarrow> entry_exists e)"

definition file_at :: "entries \<Rightarrow> path \<Rightarrow> string option" where
  "file_at r p = Option.bind (map_of r p) entry_text"

definition names_in :: "entries \<Rightarrow> path \<Rightarrow> string list" where
  "names_in r p = remdups (map last (filter (\<lambda>q. q \<noteq> [] \<and> butlast q = p) (map fst r)))"

definition entries_below :: "entries \<Rightarrow> path \<Rightarrow> (path \<times> entry) list" where
  "entries_below r p = filter (\<lambda>(q, _). strict_prefix p q) r"

text \<open>\<open>Path.suffix\<close>: from the last dot, which is neither the first nor the last character.\<close>

definition path_suffix :: "string \<Rightarrow> string" where
  "path_suffix name =
     (let ext = takeWhile (\<lambda>c. c \<noteq> CHR ''.'') (rev name); stem_length = length name - Suc (length ext) in
      if length ext < length name \<and> 0 < stem_length \<and> ext \<noteq> [] then CHR ''.'' # rev ext else [])"

definition to_path :: "string \<Rightarrow> path" where
  "to_path name = split_on CHR ''/'' name"

section \<open>The policy\<close>

definition TARGETS :: "string list" where
  "TARGETS =
      [''pc_host'', ''sn32'', ''primer1'', ''primer2'', ''tiny1p5'']"

definition ALLOWED_ROOT :: "string list" where
  "ALLOWED_ROOT =
      [''.git'', ''.github'', ''.gitignore'', ''.gitmodules'', ''LICENSE'', ''README.md'',
       ''IMPLEMENTATION_STATUS.md'', ''ai_context''] @ TARGETS"

definition FORBIDDEN_ROOT :: "string list" where
  "FORBIDDEN_ROOT =
      [''boards'', ''constraints'', ''docs'', ''rtl'', ''scripts'', ''software'', ''targets'', ''tb'',
       ''tools'']"

definition FORBIDDEN_TARGET_NAMES :: "string list" where
  "FORBIDDEN_TARGET_NAMES =
      [''README.md'', ''README'', ''CONTRIBUTING.md'']"

definition FORBIDDEN_SUFFIXES :: "string list" where
  "FORBIDDEN_SUFFIXES =
      [''.axf'', ''.bin'', ''.bit'', ''.fs'', ''.hex'', ''.log'', ''.rpt'', ''.zip'']"

definition OPAQUE_SUBMODULE_ROOTS :: "path list" where
  "OPAQUE_SUBMODULE_ROOTS = map to_path
      [''sn32/third_party/mlkem-native/upstream'']"

definition ALLOWED_TARGET_DOCS :: "path list" where
  "ALLOWED_TARGET_DOCS = map to_path
      [''pc_host/README.md'', ''primer1/tb/README.md'', ''primer1/hwtest/esp32c3/README.md'',
       ''primer2/README.md'', ''primer2/hardware/esp32c3_standalone_qualification/README.md'']"

definition ALLOWED_TARGET_ARTIFACTS :: "path list" where
  "ALLOWED_TARGET_ARTIFACTS = map to_path
      [''primer1/hwtest/esp32c3/primer1_hardware_test_evidence.zip'']"

definition REQUIRED_CONTEXT :: "string list" where
  "REQUIRED_CONTEXT =
      [''ai_context/README_AI.md'', ''ai_context/architecture/FPGA_MCU_TRINITY_SYSTEM_SPEC_v0.4.md'',
       ''ai_context/decisions/FPGA_MCU_TRINITY_DECISION_REGISTER_v0.4.md'',
       ''ai_context/decisions/PROJECT_STRUCTURE_POLICY.md'',
       ''ai_context/interfaces/SPI_CONTROL_PLANE_ICD_v0.1.md'',
       ''ai_context/interfaces/PC_SN32_PROTOCOL_ICD_v0.1.md'',
       ''ai_context/interfaces/MLKEM_BACKEND_SPEC_v0.1.md'',
       ''ai_context/interfaces/PROTOCOL_REGISTRY_v0.1.json'', ''ai_context/status/OPEN_ITEMS.md'',
       ''ai_context/status/IMPLEMENTATION_STATUS.md'', ''ai_context/toolchains/TOOLCHAIN_LOCK.md'']"

definition FORBIDDEN_ACTIVE_LEGACY :: "string list" where
  "FORBIDDEN_ACTIVE_LEGACY =
      [''ai_context/architecture/ARCHITECTURE_BASELINE_v1.8.md'',
       ''ai_context/architecture/tiny1p5-supervisor-profile-v1.1.md'',
       ''ai_context/decisions/FPST-v1.1-implementation-decisions.md'',
       ''ai_context/hardware/FPST-PRE-HARDWARE-SIGNOFF-v1.0.md'',
       ''ai_context/hardware/FPST-WIRING-GUIDE-v1.1.md'']"

definition REQUIRED_TINY :: "string list" where
  "REQUIRED_TINY =
      [''sources.f'', ''rtl/fpst_sync_bit.sv'', ''rtl/fpst_sync_rise_pulse.sv'', ''rtl/fpst_ms_tick.sv'',
       ''rtl/fpst_debounce_active_low.sv'', ''rtl/fpst_heartbeat_watchdog.sv'',
       ''rtl/fpst_supervisor_core.sv'', ''rtl/supervisor_top.sv'', ''constraints/kiwi_tiny1p5_fpst.cst'',
       ''constraints/kiwi_tiny1p5_fpst.sdc'']"

definition REQUIRED_SN32_GUARD :: "string list" where
  "REQUIRED_SN32_GUARD =
      [''firmware/platform/sn32f407/board_profile.h'', ''firmware/platform/sn32f407/fpst_sn32f407_main.c'',
       ''firmware/platform/sn32f407/fpst_sn32f407_dual_main.c'',
       ''firmware/platform/sn32f407/fpst_sn32f407_p010_guard.c'',
       ''firmware/platform/sn32f407/fpst_sn32f407_p010_guard.h'',
       ''firmware/platform/sn32f407/fpst_sn32f407_port.c'',
       ''firmware/platform/sn32f407/fpst_sn32f407_port.h'']"

definition REQUIRED_PROTOCOL :: "string list" where
  "REQUIRED_PROTOCOL =
      [''pc_host/src/trinity_host/protocol/constants.py'', ''pc_host/src/trinity_host/protocol/frame.py'',
       ''sn32/include/trinity_protocol_common.h'', ''sn32/include/trinity_pc_protocol.h'',
       ''sn32/include/trinity_spi_protocol.h'', ''primer1/rtl/common/trinity_spi_pkg.sv'',
       ''primer2/rtl/common/trinity_spi_pkg.sv'']"

text \<open>A fault is the message without its fixed text.\<close>

datatype layout_fault =
    Unexpected_root string
  | Legacy_root string
  | Unexpected_github string
  | Not_a_workflow path
  | Missing_root string
  | Missing_context string
  | Active_legacy string
  | Unreferenced_context string
  | Missing_manifest string
  | Wrong_identity string
  | Symlink path
  | Target_document path
  | Generated_artifact path
  | Context_dependency path
  | Missing_tiny string
  | Escaping_source string
  | Missing_source string
  | Missing_sn32 string
  | Missing_protocol string

section \<open>The root\<close>

definition root_faults :: "entries \<Rightarrow> path \<Rightarrow> layout_fault list" where
  "root_faults r root_dir =
     (let names = names_in r root_dir in
      map Unexpected_root (sort (filter (\<lambda>n. n \<notin> set ALLOWED_ROOT) names))
      @ map Legacy_root (sort (filter (\<lambda>n. n \<in> set names) FORBIDDEN_ROOT)))"

text \<open>\<open>iterdir\<close> of something that is not a folder raises; what a link to a folder leads to is not in the list.\<close>

definition github_faults :: "entries \<Rightarrow> path \<Rightarrow> layout_fault list result" where
  "github_faults r root_dir =
     (let github = root_dir @ [''.github'']; workflows = github @ [''workflows''] in
      if \<not> path_exists r github then Inr []
      else if file_at r github \<noteq> None then Inl (OSError ''not a directory'')
      else Inr
        (map Unexpected_github (sort (filter (\<lambda>n. n \<noteq> ''workflows'') (names_in r github)))
         @ (if path_exists r workflows then
              map (\<lambda>(p, _). Not_a_workflow (drop (length root_dir) p))
                (filter (\<lambda>(p, e). entry_text e \<noteq> None \<and> path_suffix (last p) \<notin> {''.yml'', ''.yaml''})
                  (entries_below r workflows))
            else [])))"

definition required_faults :: "entries \<Rightarrow> path \<Rightarrow> layout_fault list" where
  "required_faults r root_dir =
     map Missing_root (filter (\<lambda>n. \<not> path_exists r (root_dir @ [n]))
       ([''README.md'', ''.gitignore'', ''LICENSE'', ''ai_context''] @ TARGETS))
     @ map Missing_context (filter (\<lambda>n. file_at r (root_dir @ to_path n) = None) REQUIRED_CONTEXT)
     @ map Active_legacy (filter (\<lambda>n. path_exists r (root_dir @ to_path n)) FORBIDDEN_ACTIVE_LEGACY)
     @ (case file_at r (root_dir @ to_path ''ai_context/README_AI.md'') of
          None \<Rightarrow> []
        | Some handoff \<Rightarrow> map Unreferenced_context (filter (\<lambda>n. \<not> contains n handoff) (tl REQUIRED_CONTEXT)))"

section \<open>The targets\<close>

definition under_opaque_submodule :: "path \<Rightarrow> bool" where
  "under_opaque_submodule relative = list_ex (\<lambda>opaque. prefix opaque relative) OPAQUE_SUBMODULE_ROOTS"

text \<open>One entry of a target, by its path below the root.\<close>

definition entry_faults :: "path \<Rightarrow> entry \<Rightarrow> layout_fault list" where
  "entry_faults relative e =
     (if under_opaque_submodule relative then []
      else (if is_link e then [Symlink relative] else [])
        @ (case entry_text e of
             None \<Rightarrow> []
           | Some contents \<Rightarrow>
               (if last relative \<in> set FORBIDDEN_TARGET_NAMES \<and> relative \<notin> set ALLOWED_TARGET_DOCS
                then [Target_document relative] else [])
               @ (if str_lower (path_suffix (last relative)) \<in> set FORBIDDEN_SUFFIXES \<and>
                     relative \<notin> set ALLOWED_TARGET_ARTIFACTS
                  then [Generated_artifact relative] else [])
               @ (if contains ''../ai_context'' contents \<or> contains (''..'' @ [CHR 0x5C] @ ''ai_context'') contents
                  then [Context_dependency relative] else [])))"

text \<open>A target: the parameter is \<open>tomllib.loads(text).get("target")\<close>, \<open>None\<close> for a value that is no string.\<close>

definition target_policy :: "(string \<Rightarrow> string option result) \<Rightarrow> entries \<Rightarrow> path \<Rightarrow> string \<Rightarrow> layout_fault list result" where
  "target_policy identity r root_dir target =
     (case file_at r (root_dir @ [target, ''target.toml'']) of
        None \<Rightarrow> Inr [Missing_manifest target]
      | Some manifest \<Rightarrow>
          result_bind (identity manifest) (\<lambda>found_target.
          Inr ((if found_target \<noteq> Some target then [Wrong_identity target] else [])
            @ concat (map (\<lambda>(p, e). entry_faults (drop (length root_dir) p) e) (entries_below r (root_dir @ [target]))))))"

section \<open>The files that must be there\<close>

definition missing_files :: "entries \<Rightarrow> path \<Rightarrow> (string \<Rightarrow> layout_fault) \<Rightarrow> string list \<Rightarrow> layout_fault list" where
  "missing_files r directory fault names = map fault (filter (\<lambda>n. file_at r (directory @ to_path n) = None) names)"

text \<open>The lines of \<open>sources.f\<close> that are no comments, and the path each names.\<close>

definition source_lines :: "string \<Rightarrow> string list" where
  "source_lines s =
     map str_strip (filter (\<lambda>l. str_strip l \<noteq> [] \<and> \<not> prefix ''#'' (str_lstrip l)) (splitlines s))"

definition resolved :: "path \<Rightarrow> string \<Rightarrow> path" where
  "resolved directory name = resolve_from (if prefix ''/'' name then [] else directory) (to_path name)"

text \<open>A name with exactly two leading slashes keeps them and is below nothing.\<close>

definition source_faults :: "entries \<Rightarrow> path \<Rightarrow> string \<Rightarrow> layout_fault list" where
  "source_faults r tiny name =
     (if \<not> prefix tiny (resolved tiny name) \<or> prefix ''//'' name \<and> \<not> prefix ''///'' name
      then [Escaping_source name] else [])
     @ (if file_at r (resolved tiny name) = None then [Missing_source name] else [])"

definition tiny_faults :: "entries \<Rightarrow> path \<Rightarrow> layout_fault list result" where
  "tiny_faults r root_dir =
     (let tiny = root_dir @ [''tiny1p5''] in
      result_bind (of_option (OSError ''file not found'') (file_at r (tiny @ [''sources.f'']))) (\<lambda>manifest.
      Inr (missing_files r tiny Missing_tiny REQUIRED_TINY
        @ concat (map (source_faults r tiny) (source_lines manifest)))))"

definition layout_faults :: "(string \<Rightarrow> string option result) \<Rightarrow> entries \<Rightarrow> path \<Rightarrow> layout_fault list result" where
  "layout_faults identity r root_dir =
     result_bind (github_faults r root_dir) (\<lambda>github.
     result_bind (result_list (target_policy identity r root_dir) TARGETS) (\<lambda>targets.
     result_bind (tiny_faults r root_dir) (\<lambda>tiny.
     Inr (root_faults r root_dir @ github @ required_faults r root_dir @ concat targets @ tiny
       @ missing_files r (root_dir @ [''sn32'']) Missing_sn32 REQUIRED_SN32_GUARD
       @ missing_files r root_dir Missing_protocol REQUIRED_PROTOCOL))))"

section \<open>What a passed check guarantees\<close>

definition entry_ok :: "path \<Rightarrow> entry \<Rightarrow> bool" where
  "entry_ok relative e \<longleftrightarrow>
     under_opaque_submodule relative \<or>
     e = Folder \<or>
     (\<exists>contents. e = File contents \<and>
        (last relative \<in> set FORBIDDEN_TARGET_NAMES \<longrightarrow> relative \<in> set ALLOWED_TARGET_DOCS) \<and>
        (str_lower (path_suffix (last relative)) \<in> set FORBIDDEN_SUFFIXES \<longrightarrow>
           relative \<in> set ALLOWED_TARGET_ARTIFACTS) \<and>
        \<not> contains ''../ai_context'' contents \<and> \<not> contains (''..'' @ [CHR 0x5C] @ ''ai_context'') contents)"

lemma entry_faults_Nil: "entry_faults relative e = [] \<longleftrightarrow> entry_ok relative e"
  by (cases e) (auto simp: entry_faults_def entry_ok_def split: option.splits)

text \<open>A source of the Tiny target lies in its directory, resolved, and is a file there.\<close>

definition source_inside :: "entries \<Rightarrow> path \<Rightarrow> string \<Rightarrow> bool" where
  "source_inside r tiny name \<longleftrightarrow> (\<exists>rest contents. resolved tiny name = tiny @ rest \<and> file_at r (tiny @ rest) = Some contents)"

lemma source_faults_Nil: "source_faults r tiny name = [] \<Longrightarrow> source_inside r tiny name"
  by (auto simp: source_faults_def source_inside_def prefix_def split: if_splits)

definition root_allowed :: "entries \<Rightarrow> path \<Rightarrow> bool" where
  "root_allowed r root_dir \<longleftrightarrow> (\<forall>p e. (p, e) \<in> set r \<longrightarrow> p \<noteq> [] \<longrightarrow> butlast p = root_dir \<longrightarrow> last p \<in> set ALLOWED_ROOT)"

definition targets_clean :: "entries \<Rightarrow> path \<Rightarrow> bool" where
  "targets_clean r root_dir \<longleftrightarrow>
     (\<forall>target \<in> set TARGETS. \<forall>p e. (root_dir @ target # p, e) \<in> set r \<longrightarrow> p \<noteq> [] \<longrightarrow> entry_ok (target # p) e)"

definition sources_inside :: "entries \<Rightarrow> path \<Rightarrow> bool" where
  "sources_inside r root_dir \<longleftrightarrow>
     (\<exists>manifest. file_at r (root_dir @ [''tiny1p5'', ''sources.f'']) = Some manifest \<and>
        (\<forall>name \<in> set (source_lines manifest). source_inside r (root_dir @ [''tiny1p5'']) name))"

lemma layout_faults_Nil:
  assumes "layout_faults identity r root_dir = Inr []"
  shows "root_allowed r root_dir \<and> targets_clean r root_dir \<and> sources_inside r root_dir"
proof -
  from assms obtain github targets tiny where
    ts: "result_list (target_policy identity r root_dir) TARGETS = Inr targets" and ti: "tiny_faults r root_dir = Inr tiny"
    and faults: "root_faults r root_dir = []" "concat targets = []" "tiny = []"
    unfolding layout_faults_def result_bind_eq_Inr sum.inject append_is_Nil_conv by blast
  have "root_allowed r root_dir"
    unfolding root_allowed_def
  proof (intro allI impI)
    fix p e
    assume "(p, e) \<in> set r" "p \<noteq> []" "butlast p = root_dir"
    then have "last p \<in> set (names_in r root_dir)" by (force simp: names_in_def)
    moreover have "xs = []" if "sort xs = []" for xs :: "string list"
      using that by (metis set_empty set_sort)
    ultimately show "last p \<in> set ALLOWED_ROOT"
      using faults(1) by (fastforce simp: root_faults_def Let_def filter_empty_conv)
  qed
  moreover have "targets_clean r root_dir"
    unfolding targets_clean_def
  proof (intro ballI allI impI)
    fix target p e
    assume target: "target \<in> set TARGETS" and p: "(root_dir @ target # p, e) \<in> set r" "p \<noteq> []"
    from ts target faults(2) have "target_policy identity r root_dir target = Inr []"
      by (fastforce simp: result_list_Inr list_all2_conv_all_nth in_set_conv_nth)
    moreover have "(root_dir @ target # p, e) \<in> set (entries_below r (root_dir @ [target]))"
      using p by (simp add: entries_below_def strict_prefix_def)
    ultimately have "entry_faults (target # p) e = []"
      by (fastforce simp: target_policy_def result_bind_eq_Inr split: option.splits)
    then show "entry_ok (target # p) e" by (simp add: entry_faults_Nil)
  qed
  moreover have "sources_inside r root_dir"
    using ti faults(3) source_faults_Nil
    by (auto simp: sources_inside_def tiny_faults_def Let_def result_bind_eq_Inr of_option_eq_Inr)
  ultimately show ?thesis by blast
qed

text \<open>A repository that passes: the required files, empty but for the handoff, the manifests and one source.\<close>

definition sample_handoff :: string where
  "sample_handoff = str_join [CHR 0x0A] (tl REQUIRED_CONTEXT)"

definition sample_repository :: entries where
  "sample_repository =
     map (\<lambda>n. ([n], File [])) [''README.md'', ''.gitignore'', ''LICENSE'']
     @ map (\<lambda>n. ([n], Folder)) (''ai_context'' # TARGETS)
     @ map (\<lambda>n. ([n, ''target.toml''], File n)) TARGETS
     @ [([''ai_context'', ''README_AI.md''], File sample_handoff), ([''tiny1p5'', ''sources.f''], File ''rtl/supervisor_top.sv'')]
     @ map (\<lambda>n. (to_path n, File [])) (tl REQUIRED_CONTEXT)
     @ map (\<lambda>n. (''tiny1p5'' # to_path n, File [])) (tl REQUIRED_TINY)
     @ map (\<lambda>n. (''sn32'' # to_path n, File [])) REQUIRED_SN32_GUARD
     @ map (\<lambda>n. (to_path n, File [])) REQUIRED_PROTOCOL"

lemma sample_root: "root_faults sample_repository [] = []" "github_faults sample_repository [] = Inr []"
  by code_simp+

lemma sample_required: "required_faults sample_repository [] = []"
  by code_simp

lemma sample_targets:
  "list_all (\<lambda>target. target_policy (\<lambda>s. Inr (Some s)) sample_repository [] target = Inr []) TARGETS"
  by code_simp

lemma sample_tiny: "tiny_faults sample_repository [] = Inr []"
  by code_simp

lemma sample_present:
  "missing_files sample_repository ([] @ [''sn32'']) Missing_sn32 REQUIRED_SN32_GUARD = []"
  "missing_files sample_repository [] Missing_protocol REQUIRED_PROTOCOL = []"
  by code_simp+

lemma sample_repository_passes: "layout_faults (\<lambda>s. Inr (Some s)) sample_repository [] = Inr []"
proof -
  have "result_list (target_policy (\<lambda>s. Inr (Some s)) sample_repository []) TARGETS = Inr (map (\<lambda>_. []) TARGETS)"
    using sample_targets by (auto simp: result_list_Inr list_all2_conv_all_nth list_all_iff)
  then show ?thesis
    unfolding layout_faults_def by (simp add: sample_root sample_required sample_tiny sample_present [simplified])
qed

end
