(* ===== verification/Open_Drain.thy ===== *)
theory Open_Drain
  imports Repo_Check
begin

text \<open>
  The open-drain gate of the Tiny target, \<open>check_j1_9_open_drain.py\<close>: the fault line has one driver, which pulls it
  low or leaves it floating, and its pin is constrained as open drain without a pull. The gate ends at the first
  check that fails, with its message.
\<close>

definition R_quote :: regex where
  "R_quote = R_lit [CHR 0x22]"

definition upto_semicolon :: regex where
  "upto_semicolon = R_seq (R_group 1 (R_plus (R_char (\<lambda>c. c \<noteq> CHR 0x3B)))) (R_lit '';'')"

definition DRIVER_RE :: regex where
  "DRIVER_RE = R_all
     [R_boundary, R_lit ''assign'', R_spaces1, R_lit ''tiny_fault_no'', R_spaces, R_lit ''='', R_spaces, upto_semicolon]"

definition HIGH_RE :: regex where
  "HIGH_RE = R_all
     [R_boundary, R_lit ''tiny_fault_no'', R_spaces, R_any [R_lit ''<='', R_lit ''=''], R_spaces,
      R_lit (''1'' @ [CHR 0x27] @ ''b1'')]"

definition PIN_RE :: regex where
  "PIN_RE = R_all
     [R_start True, R_lit ''IO_LOC'', R_spaces1, R_quote, R_group 1 (R_plus (R_char (\<lambda>c. c \<noteq> CHR 0x22))), R_quote,
      R_spaces1, R_lit ''12'', R_spaces, R_lit '';'']"

definition PORT_RE :: regex where
  "PORT_RE = R_all
     [R_start True, R_lit ''IO_PORT'', R_spaces1, R_quote, R_lit ''tiny_fault_no'', R_quote, R_spaces1, upto_semicolon]"

definition open_driver :: string where
  "open_driver = ''tiny_fault_drive_low_w ? 1'' @ [CHR 0x27] @ ''b0 : 1'' @ [CHR 0x27] @ ''bz''"

definition RETIRED :: "string list" where
  "RETIRED = [''system_reset_no'', ''RESET_PULSE_MS'', ''RESET_ON_FATAL'']"

definition PIN_ATTRIBUTES :: "string list" where
  "PIN_ATTRIBUTES = [''IO_TYPE=LVCMOS33'', ''OPEN_DRAIN=ON'', ''PULL_MODE=NONE'']"

text \<open>The checks in order: the condition that must hold, and the message when it does not.\<close>

definition driver_checks :: "string \<Rightarrow> string \<Rightarrow> (bool \<times> string) list" where
  "driver_checks top_text core =
     [(concat (re_findall_groups DRIVER_RE [1] top_text) = [open_driver], ''expected one exact 0/Z driver''),
      (\<not> re_found HIGH_RE top_text, ''RTL contains a direct HIGH drive for tiny_fault_no'')]
     @ map (\<lambda>name. (\<not> contains name top_text \<and> \<not> contains name core,
         ''retired Tiny reset symbol remains in active RTL: '' @ name)) RETIRED"

definition pin_checks :: "string \<Rightarrow> (bool \<times> string) list" where
  "pin_checks cst =
     (let port_lines = concat (re_findall_groups PORT_RE [1] cst); attributes = hd port_lines in
      [(concat (re_findall_groups PIN_RE [1] cst) = [''tiny_fault_no''], ''FPGA pin 12 must bind only tiny_fault_no''),
       (length port_lines = 1, ''expected one Tiny_FAULT_N IO_PORT constraint'')]
      @ map (\<lambda>name. (contains name attributes, ''Tiny_FAULT_N constraint is missing '' @ name)) PIN_ATTRIBUTES
      @ [(\<not> contains ''DRIVE='' attributes \<and> \<not> contains ''PULL_MODE=UP'' attributes,
          ''Tiny_FAULT_N constraint enables a forbidden drive/pull attribute'')])"

text \<open>The message of the first check that fails; \<open>None\<close> is a pass.\<close>

fun first_failed :: "(bool \<times> string) list \<Rightarrow> string option" where
  "first_failed [] = None"
| "first_failed ((ok, message) # checks) = (if ok then first_failed checks else Some message)"

definition open_drain_gate :: "source_tree \<Rightarrow> path \<Rightarrow> string option result" where
  "open_drain_gate t root_dir =
     result_bind (text_at t root_dir ''targets/tiny1p5/rtl/supervisor_top.sv'') (\<lambda>top_text.
     result_bind (text_at t root_dir ''rtl/supervisor/fpst_supervisor_core.sv'') (\<lambda>core.
     result_bind (text_at t root_dir ''targets/tiny1p5/constraints/kiwi_tiny1p5_fpst.cst'') (\<lambda>cst.
     Inr (first_failed (driver_checks top_text core @ pin_checks cst)))))"

lemma first_failed_None: "first_failed checks = None \<longleftrightarrow> list_all fst checks"
  by (induction checks rule: first_failed.induct) auto

text \<open>A passed gate has seen one driver and one constraint, with the attributes of an open drain.\<close>

lemma open_drain_passed:
  assumes "open_drain_gate t root_dir = Inr None"
  obtains top_text cst attributes where
    "text_at t root_dir ''targets/tiny1p5/rtl/supervisor_top.sv'' = Inr top_text"
    "re_findall_groups DRIVER_RE [1] top_text = [[open_driver]]" "\<not> re_found HIGH_RE top_text"
    "text_at t root_dir ''targets/tiny1p5/constraints/kiwi_tiny1p5_fpst.cst'' = Inr cst"
    "re_findall_groups PORT_RE [1] cst = [[attributes]]"
    "list_all (\<lambda>name. contains name attributes) PIN_ATTRIBUTES" "\<not> contains ''DRIVE='' attributes"
proof -
  have one: "concat xs = [y] \<Longrightarrow> list_all (\<lambda>x. length x = 1) xs \<Longrightarrow> xs = [[y]]" for xs and y :: string
    by (cases xs; cases "tl xs") (auto simp: length_Suc_conv)
  have single: "list_all (\<lambda>x. length x = 1) (re_findall_groups r [1] s)" for r s
    by (auto simp: re_findall_groups_def list_all_iff)
  from assms obtain top_text core cst where
    texts: "text_at t root_dir ''targets/tiny1p5/rtl/supervisor_top.sv'' = Inr top_text"
      "text_at t root_dir ''targets/tiny1p5/constraints/kiwi_tiny1p5_fpst.cst'' = Inr cst"
    and checks: "list_all fst (driver_checks top_text core)" "list_all fst (pin_checks cst)"
    by (auto simp: open_drain_gate_def result_bind_eq_Inr first_failed_None)
  let ?ports = "concat (re_findall_groups PORT_RE [1] cst)"
  from checks(2) have "length ?ports = 1" "list_all (\<lambda>name. contains name (hd ?ports)) PIN_ATTRIBUTES"
    "\<not> contains ''DRIVE='' (hd ?ports)"
    by (simp_all add: pin_checks_def Let_def list_all_iff)
  moreover have "length xs = 1 \<Longrightarrow> xs = [hd xs]" for xs :: "string list" by (cases xs) auto
  then have "?ports = [hd ?ports]" using calculation(1) .
  moreover have "concat (re_findall_groups DRIVER_RE [1] top_text) = [open_driver]" "\<not> re_found HIGH_RE top_text"
    using checks(1) by (simp_all add: driver_checks_def)
  ultimately show thesis using that texts one [OF _ single] by blast
qed

end
