(* ===== verification/Gui_Report.thy ===== *)
theory Gui_Report
  imports Demo_Gui "HOL-Library.Sublist"
begin

text \<open>
  What the window of \<open>demo_gui_base.py\<close> writes out: the rows of the stage table, the look of the flow diagram, the
  log, the copied result and the exported report, as functions of the state. The formatting of a time to two decimals
  and the reading of the wall clock are parameters.
\<close>

section \<open>Texts\<close>

fun stage_title :: "stage \<Rightarrow> utext" where
  "stage_title Preflight =
     uc ''1. Ki'' @ [0x1EC3] @ uc ''m tra h'' @ [0x1EC7] @ uc '' th'' @ [0x1ED1] @ uc ''ng''"
| "stage_title Keygen =
     uc ''2. Sinh kh'' @ [0xF3] @ uc ''a h'' @ [0x1EAD] @ uc ''u l'' @ [0x1B0, 0x1EE3] @ uc ''ng t'' @
       [0x1EED]"
| "stage_title Session =
     uc ''3. Thi'' @ [0x1EBF] @ uc ''t l'' @ [0x1EAD] @ uc ''p kh'' @ [0xF3] @ uc ''a phi'' @ [0xEA] @
       uc ''n''"
| "stage_title Transmit =
     uc ''4. M'' @ [0xE3] @ uc '' h'' @ [0xF3] @ uc ''a v'' @ [0xE0] @ uc '' truy'' @ [0x1EC1] @ uc ''n''"
| "stage_title Verify =
     uc ''5. X'' @ [0xE1] @ uc ''c th'' @ [0x1EF1] @ uc ''c t'' @ [0x1EA1] @ uc ''i P2''"
| "stage_title Zeroize =
     uc ''6. Zeroize v'' @ [0xE0] @ uc '' liveness''"

fun stage_detail :: "stage \<Rightarrow> utext" where
  "stage_detail Preflight =
     uc ''Nh'' @ [0x1EAD] @ uc ''n d'' @ [0x1EA1] @ uc ''ng SN32, P1, P2 v'' @ [0xE0] @ uc '' x'' @
       [0xE1] @ uc ''c nh'' @ [0x1EAD] @ uc ''n dual-SPI.''"
| "stage_detail Keygen =
     uc ''SN32 sinh c'' @ [0x1EB7] @ uc ''p kh'' @ [0xF3] @ uc ''a ML-KEM-512 low-RAM.''"
| "stage_detail Session =
     uc ''Encaps/Decaps, KDF v'' @ [0xE0] @ uc '' '' @ [0x111, 0x1ED3] @ uc ''ng b'' @ [0x1ED9] @
       uc '' session P1/P2.''"
| "stage_detail Transmit =
     uc ''P1 m'' @ [0xE3] @ uc '' h'' @ [0xF3] @ uc ''a Ascon-AEAD128 r'' @ [0x1ED3] @ uc ''i ph'' @
       [0xE1] @ uc ''t frame UART.''"
| "stage_detail Verify =
     uc ''P2 ki'' @ [0x1EC3] @ uc ''m tra tag, gi'' @ [0x1EA3] @ uc ''i m'' @ [0xE3] @ uc '' v'' @ [0xE0] @
       uc '' tr'' @ [0x1EA3] @ uc '' plaintext x'' @ [0xE1] @ uc ''c th'' @ [0x1EF1] @ uc ''c.''"
| "stage_detail Zeroize =
     uc ''X'' @ [0xF3] @ uc ''a kh'' @ [0xF3] @ uc ''a/session v'' @ [0xE0] @ uc '' ki'' @ [0x1EC3] @
       uc ''m tra PING cu'' @ [0x1ED1] @ uc ''i.''"

definition REPORT_TITLE :: utext where
  "REPORT_TITLE =
     uc ''TRINITY '' @ [0x2014] @ uc '' FPGA/PQC SECURE TELEMETRY DEMO REPORT''"

definition SCOPE_TEXT :: utext where
  "SCOPE_TEXT =
     uc ''CORE DEMO '' @ [0x2022] @ uc '' Tiny 1P5 ch'' @ [0x1B0] @ uc ''a thu'' @ [0x1ED9] @ uc ''c ph'' @
       [0x1EA1] @ uc ''m vi''"

definition REPORT_TIME :: utext where
  "REPORT_TIME =
     uc ''Th'' @ [0x1EDD] @ uc ''i gian: ''"

definition REPORT_SCOPE :: utext where
  "REPORT_SCOPE =
     uc ''Ph'' @ [0x1EA1] @ uc ''m vi: ''"

definition REPORT_RESULT :: utext where
  "REPORT_RESULT =
     uc ''K'' @ [0x1EBE] @ uc ''T LU'' @ [0x1EAC] @ uc ''N: ''"

definition REPORT_MATCH :: utext where
  "REPORT_MATCH =
     uc ''So s'' @ [0xE1] @ uc ''nh: ''"

definition REPORT_STEPS :: utext where
  "REPORT_STEPS =
     uc ''C'' @ [0xC1] @ uc ''C B'' @ [0x1AF, 0x1EDA] @ uc ''C''"

definition REPORT_CLAIM :: utext where
  "REPORT_CLAIM =
     uc ''TUY'' @ [0xCA] @ uc ''N B'' @ [0x1ED0] @ uc '' PH'' @ [0x1EA0] @ uc ''M VI''"

definition REPORT_PASS :: utext where
  "REPORT_PASS =
     uc ''PASS ch'' @ [0x1EE9] @ uc ''ng minh core path PC '' @ [0x2192] @ uc '' SN32 '' @ [0x2192] @
       uc '' P1 '' @ [0x2192] @ uc '' UART '' @ [0x2192] @ uc '' P2 '' @ [0x2192] @ uc '' SN32 '' @
       [0x2192] @ uc '' PC.''"

definition REPORT_TINY :: utext where
  "REPORT_TINY =
     uc ''Tiny 1P5 ch'' @ [0x1B0] @ uc ''a tham gia n'' @ [0xEA] @ uc ''n ch'' @ [0x1B0] @ uc ''a ph'' @
       [0x1EA3] @ uc ''i full-system qualification.''"

definition REPORT_LOG :: utext where
  "REPORT_LOG =
     uc ''NH'' @ [0x1EAC] @ uc ''T K'' @ [0xDD] @ uc '' K'' @ [0x1EF8] @ uc '' THU'' @ [0x1EAC] @
       uc ''T''"

definition LOG_CLEARED :: utext where
  "LOG_CLEARED =
     [0x110, 0xE3] @ uc '' x'' @ [0xF3] @ uc ''a nh'' @ [0x1EAD] @ uc ''t k'' @ [0xFD] @ uc '' tr'' @
       [0xEA] @ uc ''n m'' @ [0xE0] @ uc ''n h'' @ [0xEC] @ uc ''nh''"

definition LOG_COPIED :: utext where
  "LOG_COPIED =
     [0x110, 0xE3] @ uc '' sao ch'' @ [0xE9] @ uc ''p authenticated plaintext''"

definition LOG_EXPORTED :: utext where
  "LOG_EXPORTED =
     [0x110, 0xE3] @ uc '' xu'' @ [0x1EA5] @ uc ''t b'' @ [0xE1] @ uc ''o c'' @ [0xE1] @ uc ''o: ''"

definition COPY_WAITING :: utext where
  "COPY_WAITING =
     [0x110] @ uc ''ang ch'' @ [0x1EDD]"

definition STATUS_WAITING :: utext where
  "STATUS_WAITING =
     uc ''CH'' @ [0x1EDC]"

definition STATUS_RUNNING :: utext where
  "STATUS_RUNNING =
     [0x110] @ uc ''ANG CH'' @ [0x1EA0] @ uc ''Y''"

definition DURATION :: utext where
  "DURATION =
     uc ''T'' @ [0x1ED5] @ uc ''ng: ''"

section \<open>The stage table and the flow diagram\<close>

fun status_text :: "status \<Rightarrow> utext" where
  "status_text Waiting = STATUS_WAITING"
| "status_text Running = STATUS_RUNNING"
| "status_text Passed = uc ''PASS''"
| "status_text Failed = uc ''FAIL''"

text \<open>\<open>_paint_stage\<close>: the row of a stage; a time of zero is left out. \<open>fmt\<close> is the format with two decimals.\<close>

definition paint_stage :: "(int \<Rightarrow> string) \<Rightarrow> gui \<Rightarrow> stage \<Rightarrow> utext list" where
  "paint_stage fmt g s =
     [status_text (g_stage_state g s), stage_title s, stage_detail s,
      case g_stage_elapsed g s of
        None \<Rightarrow> []
      | Some elapsed \<Rightarrow> if elapsed \<noteq> 0 then uc (fmt elapsed) @ uc ''s'' else []]"

datatype look = Current_node | Done_node | Plain_node

text \<open>\<open>_draw_flow\<close>: how each node of the diagram is drawn.\<close>

definition flow_look :: "gui \<Rightarrow> flow_node \<Rightarrow> look" where
  "flow_look g n =
     (if n \<in> g_flow_active g then Current_node else if n \<in> g_flow_done g then Done_node else Plain_node)"

text \<open>\<open>_update_duration\<close>: the new label, if an operation has started.\<close>

definition update_duration :: "(int \<Rightarrow> string) \<Rightarrow> int \<Rightarrow> gui \<Rightarrow> utext option" where
  "update_duration fmt now g =
     map_option (\<lambda>t. DURATION @ uc (fmt (now - t)) @ uc '' s'') (g_operation_started g)"

section \<open>The log\<close>

text \<open>\<open>_log\<close>: the time of day is the first argument.\<close>

definition add_log :: "string \<Rightarrow> utext \<Rightarrow> utext list \<Rightarrow> utext list" where
  "add_log clock message log = log @ [uc (''['' @ clock @ ''] '') @ message]"

definition clear_log :: "string \<Rightarrow> utext list \<Rightarrow> utext list" where
  "clear_log clock log = add_log clock LOG_CLEARED []"

text \<open>\<open>copy_result\<close>: the clipboard (\<open>None\<close> when it is left alone, and a box is shown) and the log. The spaces are
  taken out before the text is looked at.\<close>

definition copy_result :: "string \<Rightarrow> gui \<Rightarrow> utext list \<Rightarrow> utext option \<times> utext list" where
  "copy_result clock g log =
     (let copied = filter (\<lambda>c. c \<noteq> 0x20) (g_output g) in
      if copied = TXT_DASH \<or> sublist COPY_WAITING copied then (None, log)
      else (Some copied, add_log clock LOG_COPIED log))"

section \<open>The report\<close>

fun state_name :: "status \<Rightarrow> utext" where
  "state_name Waiting = uc ''WAITING''"
| "state_name Running = uc ''RUNNING''"
| "state_name Passed = uc ''PASS''"
| "state_name Failed = uc ''FAIL''"

definition stage_lines :: "(int \<Rightarrow> string) \<Rightarrow> gui \<Rightarrow> stage \<Rightarrow> utext list" where
  "stage_lines fmt g s =
     (let note = (case g_stage_elapsed g s of None \<Rightarrow> [] | Some elapsed \<Rightarrow> uc '' ('' @ uc (fmt elapsed) @ uc ''s)'')
      in [uc ''['' @ state_name (g_stage_state g s) @ uc '']'' @ note @ uc '' '' @ stage_title s,
          uc ''  '' @ stage_detail s])"

definition report_lines :: "(int \<Rightarrow> string) \<Rightarrow> string \<Rightarrow> gui \<Rightarrow> utext list \<Rightarrow> utext list" where
  "report_lines fmt stamp g log =
     [REPORT_TITLE, uc (replicate 64 CHR ''=''), REPORT_TIME @ uc stamp, REPORT_SCOPE @ SCOPE_TEXT,
      uc ''UART: '' @ uc (str_strip (g_port g)), [],
      REPORT_RESULT @ g_result g, uc ''SN32: '' @ g_sn32 g, uc ''Primer #1: '' @ g_p1 g, uc ''Primer #2: '' @ g_p2 g,
      uc ''Final state: '' @ g_state g, uc ''Endpoint ready: '' @ g_ready g, uc ''Session ID: '' @ g_session g,
      uc ''Sequence: '' @ g_sequence g, uc ''Input plaintext: '' @ g_input g,
      uc ''Authenticated plaintext: '' @ g_output g, REPORT_MATCH @ g_match g, [],
      REPORT_STEPS, uc (replicate 64 CHR ''-'')]
     @ concat (map (stage_lines fmt g) STAGES)
     @ [[], REPORT_CLAIM, uc (replicate 64 CHR ''-''), REPORT_PASS, REPORT_TINY, [], REPORT_LOG,
        uc (replicate 64 CHR ''-'')]
     @ log @ [[]]"

definition report_text :: "(int \<Rightarrow> string) \<Rightarrow> string \<Rightarrow> gui \<Rightarrow> utext list \<Rightarrow> utext" where
  "report_text fmt stamp g log = utext_join [0x0A] (report_lines fmt stamp g log)"

text \<open>\<open>export_report\<close>, given the name chosen in the dialog (empty when it is cancelled): the file written, and the
  log.\<close>

definition export_report ::
  "(int \<Rightarrow> string) \<Rightarrow> string \<Rightarrow> string \<Rightarrow> utext \<Rightarrow> gui \<Rightarrow> utext list \<Rightarrow> (utext \<times> utext) option \<times> utext list" where
  "export_report fmt stamp clock filename g log =
     (if filename = [] then (None, log)
      else (Some (filename, report_text fmt stamp g log), add_log clock (LOG_EXPORTED @ filename) log))"

section \<open>What is copied\<close>

text \<open>The groups of hexadecimal digits, without the spaces between them.\<close>

lemma join_chunks:
  assumes "\<forall>c \<in> set s. P c" and "\<not> P x" and "0 < w"
  shows "filter P (str_join [x] (chunks w s)) = s"
  using assms(1)
proof (induction "length s" arbitrary: s rule: less_induct)
  case less
  show ?case
  proof (cases "s = []")
    case True
    then show ?thesis by (simp add: chunks.simps)
  next
    case False
    have "filter P (str_join [x] (chunks w (drop w s))) = drop w s"
      using less False assms(3) by (intro less.hyps) (auto dest: in_set_dropD)
    moreover have "filter P (take w s) = take w s" using less.prems by (auto simp: filter_id_conv dest: in_set_takeD)
    moreover have "chunks w s = take w s # chunks w (drop w s)" using False assms(3) by (subst chunks.simps) simp
    ultimately have rest: "filter P (str_join [x] (chunks w (drop w s))) = drop w s"
      and first: "filter P (take w s) = take w s" and all: "chunks w s = take w s # chunks w (drop w s)"
      by blast+
    show ?thesis
    proof (cases "chunks w (drop w s)")
      case Nil
      then have "drop w s = []" using rest by simp
      then have "take w s = s" by simp
      then show ?thesis using Nil all first by simp
    next
      case (Cons y ys)
      then have "str_join [x] (chunks w s) = take w s @ [x] @ str_join [x] (chunks w (drop w s))" using all by simp
      then have "filter P (str_join [x] (chunks w s)) = take w s @ drop w s" using first rest assms(2) by simp
      then show ?thesis by simp
    qed
  qed
qed

lemma hex_digits: "c \<in> set (bytes_hex_upper bs) \<Longrightarrow> c \<noteq> CHR '' ''"
proof -
  have "digit_upper n \<noteq> CHR '' ''" if "n < 16" for n
    using that by (auto simp: digit_upper_def numeral_eq_Suc less_Suc_eq)
  moreover have "unat x div 16 < 16" "unat x mod 16 < 16" for x :: "8 word"
    using unsigned_less [of x, where 'a = nat] by (simp_all add: less_mult_imp_div_less)
  ultimately have "digit_upper (unat x div 16) \<noteq> CHR '' ''" "digit_upper (unat x mod 16) \<noteq> CHR '' ''" for x :: "8 word"
    by blast+
  then show "c \<in> set (bytes_hex_upper bs) \<Longrightarrow> c \<noteq> CHR '' ''"
    by (force simp: bytes_hex_upper_def)
qed

lemma copied_hex: "filter (\<lambda>c. c \<noteq> 0x20) (uc (grouped_hex p n)) = uc (bytes_hex_upper p)"
proof -
  have space: "(of_char c :: int) = 32 \<longleftrightarrow> c = CHR '' ''" for c
  proof -
    have "(of_char (CHR '' '') :: int) = 32" by simp
    then show ?thesis by (metis of_char_eq_iff)
  qed
  have "filter (\<lambda>c. c \<noteq> 0x20) (uc s) = uc (filter (\<lambda>c. c \<noteq> CHR '' '') s)" for s
    by (induction s) (simp_all add: uc_def space)
  moreover have "filter (\<lambda>c. c \<noteq> CHR '' '') (grouped_hex p n) = bytes_hex_upper p"
    unfolding grouped_hex_def Let_def by (rule join_chunks) (auto dest: hex_digits)
  ultimately show ?thesis by simp
qed

lemma hex_small: "c \<in> set (uc s) \<Longrightarrow> c < 256"
proof -
  have "(of_char c :: int) < 256" for c
    by (metis of_char_mod_256 pos_mod_bound zero_less_numeral)
  then show "c \<in> set (uc s) \<Longrightarrow> c < 256" by (auto simp: uc_def)
qed

text \<open>An authenticated plaintext is copied as its digits.\<close>

lemma copy_plaintext:
  assumes "g_output g = uc (grouped_hex p 4)"
  shows "copy_result clock g log = (Some (uc (bytes_hex_upper p)), add_log clock LOG_COPIED log)"
proof -
  have "uc (bytes_hex_upper p) \<noteq> TXT_DASH" using hex_small [of "0x2014" "bytes_hex_upper p"] by (auto simp: TXT_DASH_def)
  moreover have "\<not> sublist COPY_WAITING (uc (bytes_hex_upper p))"
  proof
    assume "sublist COPY_WAITING (uc (bytes_hex_upper p))"
    then have "set COPY_WAITING \<subseteq> set (uc (bytes_hex_upper p))" by (rule set_mono_sublist)
    then show False using hex_small [of "0x110" "bytes_hex_upper p"] by (auto simp: COPY_WAITING_def)
  qed
  ultimately show ?thesis by (simp add: copy_result_def assms copied_hex Let_def)
qed

text \<open>While the result is awaited, the text that says so is copied: the spaces are gone when it is looked for.\<close>

lemma copy_waiting:
  assumes "g_output g = TXT_WAIT_OUTPUT"
  shows "copy_result clock g log = (Some (filter (\<lambda>c. c \<noteq> 0x20) TXT_WAIT_OUTPUT), add_log clock LOG_COPIED log)"
proof -
  have "0x20 \<in> set COPY_WAITING" by code_simp
  then have "\<not> sublist COPY_WAITING (filter (\<lambda>c. c \<noteq> 0x20) s)" for s using set_mono_sublist by fastforce
  moreover have "filter (\<lambda>c. c \<noteq> 0x20) TXT_WAIT_OUTPUT \<noteq> TXT_DASH" by code_simp
  ultimately show ?thesis by (simp add: copy_result_def assms Let_def)
qed

lemma started_waiting: "g_output gui_started = TXT_WAIT_OUTPUT"
  by (simp add: gui_started_def start_demo_def parse_initial start_worker_def set_busy_def reset_stages_def init_sel)

end
