(* ===== verification/Gui_History.thy ===== *)
theory Gui_History
  imports Gui_Report
begin

text \<open>
  What the labels of the window certify about its past. A history lists what the workers have reported so far, each
  report with its operation, the oldest first; it is a ghost of the steps and no part of the window. The part of it
  that the window has taken from its queue is \<open>handled\<close>.
\<close>

section \<open>Histories\<close>

text \<open>The report a step adds: a worker that was running has put its result or its exception into the queue.\<close>

definition reported :: "gui \<Rightarrow> gui \<Rightarrow> (operation \<times> gui_event) list" where
  "reported g g' = (case (g_worker g, g_worker g') of
       (Some (op, False), Some (_, True)) \<Rightarrow> [(op, last (g_queue g'))]
     | _ \<Rightarrow> [])"

inductive gui_history :: "bool \<Rightarrow> (operation \<times> gui_event) list \<Rightarrow> gui \<Rightarrow> bool" for f5 :: bool where
  history_start: "gui_history f5 [] gui_init"
| history_step: "gui_history f5 h g \<Longrightarrow> gui_step f5 g g' \<Longrightarrow> gui_history f5 (h @ reported g g') g'"

lemma reachable_history: "gui_reachable f5 g \<longleftrightarrow> (\<exists>h. gui_history f5 h g)"
proof
  show "gui_reachable f5 g \<Longrightarrow> \<exists>h. gui_history f5 h g"
    unfolding gui_reachable_def
    by (induction rule: rtranclp_induct) (blast intro: history_start history_step)+
  show "\<exists>h. gui_history f5 h g \<Longrightarrow> gui_reachable f5 g"
  proof (erule exE)
    fix h
    show "gui_history f5 h g \<Longrightarrow> gui_reachable f5 g"
      by (induction rule: gui_history.induct) (auto intro: reachable_init reachable_step)
  qed
qed

text \<open>The reports still in the queue are the last ones.\<close>

definition handled :: "(operation \<times> gui_event) list \<Rightarrow> gui \<Rightarrow> (operation \<times> gui_event) list" where
  "handled h g = take (length h - length (filter ends_operation (g_queue g))) h"

text \<open>The latest demonstration that succeeded.\<close>

fun demo_of :: "operation \<times> gui_event \<Rightarrow> (bytes \<times> core_demo_result) option" where
  "demo_of (Op_demo p, Success (R_demo r)) = Some (p, r)"
| "demo_of _ = None"

definition latest_demo :: "(operation \<times> gui_event) list \<Rightarrow> (bytes \<times> core_demo_result) option" where
  "latest_demo h = fold (\<lambda>x latest. case demo_of x of None \<Rightarrow> latest | Some d \<Rightarrow> Some d) h None"

lemma latest_demo_snoc: "latest_demo (h @ [x]) = (case demo_of x of None \<Rightarrow> latest_demo h | Some d \<Rightarrow> Some d)"
  by (simp add: latest_demo_def split: option.split)

lemma latest_demo_in: "latest_demo h = Some (p, r) \<Longrightarrow> (Op_demo p, Success (R_demo r)) \<in> set h"
proof (induction h rule: rev_induct)
  case (snoc x h)
  then show ?case by (cases x rule: demo_of.cases) (auto simp: latest_demo_snoc)
qed (simp add: latest_demo_def)

section \<open>The labels tell the history\<close>

definition labels_tell :: "(operation \<times> gui_event) list \<Rightarrow> gui \<Rightarrow> bool" where
  "labels_tell h g \<longleftrightarrow>
     (g_match g = TXT_MATCH_PASS \<longrightarrow> (\<exists>p r. latest_demo h = Some (p, r) \<and> g_output g = uc (grouped_hex p 4))) \<and>
     (g_result g = TXT_DEMO_PASS \<longrightarrow> (\<exists>h' p r. h = h' @ [(Op_demo p, Success (R_demo r))]))"

lemma labels_same:
  assumes "labels_tell h g" "g_match g' = g_match g" "g_output g' = g_output g" "g_result g' = g_result g"
  shows "labels_tell h g'"
  using assms by (simp add: labels_tell_def)

lemma labels_worker: "labels_tell h (start_worker now op g)" if "labels_tell h g"
  using that by (cases "g_worker g") (simp_all add: start_worker_def set_busy_def labels_tell_def label_texts)

lemma labels_start:
  assumes "labels_tell h g"
  shows "labels_tell h (start_preflight now g)" "labels_tell h (start_prepare now g)" "labels_tell h (start_demo now g)"
    "labels_tell h (start_zeroize now g)"
proof -
  show "labels_tell h (start_preflight now g)" "labels_tell h (start_prepare now g)" "labels_tell h (start_zeroize now g)"
    unfolding start_preflight_def start_prepare_def start_zeroize_def
    by (rule labels_worker, rule labels_same [OF assms]; simp add: gui_sel)+
  show "labels_tell h (start_demo now g)"
  proof (cases "parse_plaintext_hex (g_payload g)")
    case (Inr plaintext)
    let ?g = "(reset_stages g)\<lparr>g_input := uc (grouped_hex plaintext 4), g_output := TXT_WAIT_OUTPUT,
             g_match := TXT_WAIT_MATCH, g_progress := 0, g_progress_text := Message TXT_DEMO_START\<rparr>"
    have "labels_tell h ?g"
      using assms by (simp add: labels_tell_def label_texts gui_sel)
    from labels_worker [OF this] show ?thesis
      by (simp add: start_demo_def Inr)
  qed (simp add: start_demo_def assms)
qed

text \<open>A progress message leaves the labels alone; a report of a worker is added to what was handled.\<close>

lemma labels_progress: "labels_tell h g \<Longrightarrow> labels_tell h (handle_gui_event now (Progress message percent) g)"
  by (erule labels_same) (simp_all add: gui_sel Let_def split: option.split)

lemma labels_event:
  assumes ok: "labels_tell h g" and ev: "reports op ev"
  shows "labels_tell (h @ [(op, ev)]) (handle_gui_event now ev g)"
proof -
  from ev consider r where "ev = Success r" "result_of op r" | e where "ev = Failure op e"
    unfolding reports_def by blast
  then show ?thesis
  proof cases
    case 1
    show ?thesis
    proof (cases r)
      case (R_demo demo)
      with 1 obtain p where p: "op = Op_demo p" "core_demo_ok p demo" by auto
      then show ?thesis
        by (simp add: labels_tell_def latest_demo_snoc 1 R_demo gui_sel set_busy_def demo_plaintext)
    qed (use ok 1 in \<open>simp add: labels_tell_def latest_demo_snoc gui_sel set_busy_def label_texts\<close>)+
  next
    case 2
    then show ?thesis
      using ok by (simp add: labels_tell_def latest_demo_snoc gui_sel handle_failure_def set_busy_def label_texts)
  qed
qed

lemma labels_events:
  assumes "labels_tell h g" and "list_all (\<lambda>(op, ev). reports op ev) pending"
    and "map snd pending = filter ends_operation es"
  shows "labels_tell (h @ pending) (fold (handle_gui_event now) es g)"
  using assms
proof (induction es arbitrary: h g pending)
  case (Cons ev es)
  show ?case
  proof (cases "ends_operation ev")
    case True
    with Cons.prems(3) obtain op rest where "pending = (op, ev) # rest" "map snd rest = filter ends_operation es"
      by (auto simp: map_eq_Cons_conv)
    then show ?thesis
      using Cons.IH [OF labels_event [OF Cons.prems(1), of op ev now], of rest] Cons.prems(2) by simp
  next
    case False
    then obtain message percent where "ev = Progress message percent" by (cases ev) auto
    then show ?thesis
      using Cons.IH [OF labels_progress [OF Cons.prems(1)]] Cons.prems(2,3) by simp
  qed
qed simp

section \<open>Every history\<close>

definition history_ok :: "(operation \<times> gui_event) list \<Rightarrow> gui \<Rightarrow> bool" where
  "history_ok h g \<longleftrightarrow> list_all (\<lambda>(op, ev). reports op ev) h \<and>
     (\<exists>seen pending. h = seen @ pending \<and> map snd pending = filter ends_operation (g_queue g) \<and> labels_tell seen g)"

lemma history_handled: "history_ok h g \<Longrightarrow> labels_tell (handled h g) g"
proof -
  assume "history_ok h g"
  then obtain seen pending where h: "h = seen @ pending" "map snd pending = filter ends_operation (g_queue g)"
    "labels_tell seen g" by (auto simp: history_ok_def)
  from h(2) have "length (filter ends_operation (g_queue g)) = length pending" by (metis length_map)
  then show ?thesis using h(1,3) by (simp add: handled_def)
qed

lemma history_quiet:
  assumes "history_ok h g" "g_worker g' = g_worker g \<or> g_worker g = None \<or> g_worker g' = None"
    "filter ends_operation (g_queue g') = filter ends_operation (g_queue g)" "\<And>h. labels_tell h g \<Longrightarrow> labels_tell h g'"
  shows "history_ok (h @ reported g g') g'"
proof -
  have "reported g g' = []" using assms(2) by (auto simp: reported_def split: option.split prod.split bool.split)
  then show ?thesis using assms(1,3,4) by (auto simp: history_ok_def)
qed

lemma history_push:
  assumes "history_ok h g" "g_worker g = Some (op, False)" "reports op ev" "ends_operation ev"
    and g': "g' = g\<lparr>g_queue := g_queue g @ [ev], g_worker := Some (op, True)\<rparr>"
  shows "history_ok (h @ reported g g') g'"
proof -
  from assms(1) obtain seen pending where h: "h = seen @ pending" "map snd pending = filter ends_operation (g_queue g)"
    "labels_tell seen g" and all: "list_all (\<lambda>(op, ev). reports op ev) h" by (auto simp: history_ok_def)
  have "reported g g' = [(op, ev)]" using assms(2) by (simp add: reported_def g')
  moreover have "labels_tell seen g'" by (rule labels_same [OF h(3)]) (simp_all add: g')
  ultimately show ?thesis using all assms(3,4) h(1,2)
    unfolding history_ok_def by (intro conjI exI [of _ seen] exI [of _ "pending @ [(op, ev)]"]) (simp_all add: g')
qed

lemma history_drain:
  assumes "history_ok h g"
  shows "history_ok (h @ reported g (drain_queue now g)) (drain_queue now g)"
proof -
  from assms obtain seen pending where h: "h = seen @ pending" "map snd pending = filter ends_operation (g_queue g)"
    "labels_tell seen g" and all: "list_all (\<lambda>(op, ev). reports op ev) h" by (auto simp: history_ok_def)
  have "labels_tell seen (g\<lparr>g_queue := []\<rparr>)" by (rule labels_same [OF h(3)]) simp_all
  then have "labels_tell (seen @ pending) (drain_queue now g)"
    unfolding drain_queue_def using all h(1,2) by (intro labels_events) simp_all
  moreover have "reported g (drain_queue now g) = []"
    by (auto simp: reported_def gui_sel split: option.split prod.split bool.split)
  ultimately show ?thesis using all h(1)
    unfolding history_ok_def by (intro conjI exI [of _ "seen @ pending"] exI [of _ "[]"]) (simp_all add: gui_sel)
qed

lemma start_quiet:
  "g_queue (start_preflight now g) = g_queue g" "g_queue (start_prepare now g) = g_queue g"
  "g_queue (start_demo now g) = g_queue g" "g_queue (start_zeroize now g) = g_queue g"
  "g_worker (start_preflight now g) = g_worker g \<or> g_worker g = None"
  "g_worker (start_prepare now g) = g_worker g \<or> g_worker g = None"
  "g_worker (start_demo now g) = g_worker g \<or> g_worker g = None"
  "g_worker (start_zeroize now g) = g_worker g \<or> g_worker g = None"
  by (auto simp: start_preflight_def start_prepare_def start_demo_def start_zeroize_def start_sel gui_sel split: sum.split)

lemma history_invariant: "gui_history f5 h g \<Longrightarrow> history_ok h g"
proof (induction rule: gui_history.induct)
  case history_start
  have "labels_tell [] gui_init" by (simp add: labels_tell_def gui_init_def label_texts)
  then show ?case by (simp add: history_ok_def init_sel)
next
  case (history_step h g g')
  note ok = history_step(3)
  from history_step(2) show ?case
  proof (cases rule: gui_step.cases)
    case (Worker_success op r)
    then show ?thesis using history_push [OF ok, of op "Success r"] by (simp add: reports_def)
  next
    case (Worker_failure op e)
    then show ?thesis using history_push [OF ok, of op "Failure op e"] by (simp add: reports_def)
  next
    case (Poll now)
    then show ?thesis using history_drain [OF ok] by simp
  next
    case (Worker_progress p message percent)
    then show ?thesis by (intro history_quiet [OF ok]) (auto intro: labels_same)
  next
    case (Worker_exit op)
    then show ?thesis by (intro history_quiet [OF ok]) (auto intro: labels_same)
  next
    case (Preset payload)
    then show ?thesis by (intro history_quiet [OF ok]) (auto simp: gui_sel intro: labels_same)
  next
    case (Key entry)
    then show ?thesis by (intro history_quiet [OF ok]) (auto simp: gui_sel edit_payload_def intro: labels_same)
  next
    case (Refresh ports)
    then show ?thesis by (intro history_quiet [OF ok]) (auto simp: gui_sel intro: labels_same)
  qed (use start_quiet [of _ g] in \<open>intro history_quiet [OF ok]; fastforce intro: labels_start\<close>)+
qed

text \<open>What the labels certify, over the handled part of a history.\<close>

lemma labels_certify:
  assumes "gui_history f5 h g"
  shows "g_match g = TXT_MATCH_PASS \<Longrightarrow> \<exists>p r. latest_demo (handled h g) = Some (p, r) \<and> core_demo_ok p r \<and>
      g_output g = uc (grouped_hex p 4)"
    and "g_result g = TXT_DEMO_PASS \<Longrightarrow> \<exists>h' p r. handled h g = h' @ [(Op_demo p, Success (R_demo r))] \<and> core_demo_ok p r"
proof -
  note ok = history_invariant [OF assms]
  have sound: "core_demo_ok p r" if "(Op_demo p, Success (R_demo r)) \<in> set (handled h g)" for p r
  proof -
    have "(Op_demo p, Success (R_demo r)) \<in> set h" using that unfolding handled_def by (rule in_set_takeD)
    then show ?thesis using ok by (auto simp: history_ok_def list_all_iff reports_def)
  qed
  note tell = history_handled [OF ok, unfolded labels_tell_def]
  show "g_match g = TXT_MATCH_PASS \<Longrightarrow> \<exists>p r. latest_demo (handled h g) = Some (p, r) \<and> core_demo_ok p r \<and>
      g_output g = uc (grouped_hex p 4)"
    using tell sound latest_demo_in by blast
  show "g_result g = TXT_DEMO_PASS \<Longrightarrow> \<exists>h' p r. handled h g = h' @ [(Op_demo p, Success (R_demo r))] \<and> core_demo_ok p r"
    using tell sound by (metis in_set_conv_decomp)
qed

end
