(* ===== verification/Ref_Checks.thy ===== *)
theory Ref_Checks
  imports Aead_Frame Session_Model Spi_Reference Poly_Mul
begin

text \<open>
  The self tests of the reference models: \<open>checks\<close> of \<open>primer1/scripts/reference_checks.py\<close> and \<open>self_test\<close> of
  \<open>primer2/scripts/reference_checks.py\<close>, with their fixed inputs; the random polynomials of the first are parameters.
  The first passes for all of them, which follows from what is proved of each part; the known answers are evaluated.
  The second passes exactly when none of the fifty altered messages it tries is accepted. The lines the tests print
  are left out.
\<close>

section \<open>The checks\<close>

text \<open>\<open>bytes(range(a, b))\<close>.\<close>

definition byte_seq :: "nat \<Rightarrow> nat \<Rightarrow> bytes" where
  "byte_seq a b = map word_of_nat [a..<b]"

definition then_check :: "unit result \<Rightarrow> 'a result \<Rightarrow> 'a result" where
  "then_check r q = result_bind r (\<lambda>_. q)"

definition expect :: "bool \<Rightarrow> unit result" where
  "expect b = assert_that b (Inr ())"

definition check_crc16 :: "unit result" where
  "check_crc16 =
     then_check (expect (ref_crc16 [0x31, 0x32, 0x33, 0x34, 0x35, 0x36, 0x37, 0x38, 0x39] = 0x29B1))
       (expect (ref_crc16 [0xA5, 0x01, 0x01, 0x00, 0x00, 0x01, 0x00, 0x00] = 0x3598))"

text \<open>\<open>try: parse(packet); raise AssertionError ... except AssertionError: pass\<close>.\<close>

definition corrupt_refused :: "(bytes \<Rightarrow> (int \<times> int \<times> bytes) result) \<Rightarrow> bytes \<Rightarrow> unit result" where
  "corrupt_refused parse packet =
     (case result_bind (parse packet) (\<lambda>_. Inl (AssertionError ''corrupt SPI CRC accepted'')) of
        Inl (AssertionError _) \<Rightarrow> Inr ()
      | Inl e \<Rightarrow> Inl e
      | Inr x \<Rightarrow> Inr x)"

definition check_packet :: "(bytes \<Rightarrow> (int \<times> int \<times> bytes) result) \<Rightarrow> unit result" where
  "check_packet parse =
     result_bind (ref_spi_packet 0x21 0x1234 (byte_seq 0 66) 0) (\<lambda>wire.
     then_check (expect (length wire = 76))
    (result_bind (parse wire) (\<lambda>(command, txid, payload).
     then_check (expect (command = 0x21 \<and> txid = 0x1234 \<and> payload = byte_seq 0 66))
       (corrupt_refused parse (wire[10 := (wire ! 10) XOR 1])))))"

definition check_fingerprint :: "unit result" where
  "check_fingerprint = expect (ref_crc32c ([0x21, 0x00, 0x00, 0x42] @ byte_seq 0 66) = 0xFA65660B)"

definition KAT_817 :: bytes where
  "KAT_817 =
     [0x9D, 0x29, 0xF9, 0xD5, 0x2A, 0xDF, 0x94, 0x70, 0xAF, 0x4C, 0xBC, 0xE0, 0xA4, 0x48, 0x1A, 0xC7,
      0xFC, 0xB1, 0xB3, 0x29, 0x76, 0x46, 0x98, 0x92, 0xDF, 0xEB, 0xAF, 0x44, 0x52, 0x05, 0xEC, 0x9B,
      0x01, 0x9D, 0x02, 0x2C, 0x70, 0x42, 0xAE, 0x59]"

definition check_ascon_kat :: "unit result" where
  "check_ascon_kat =
     result_bind (p1_ascon_encrypt (byte_seq 0x00 0x10) (byte_seq 0x10 0x20) (byte_seq 0x30 0x48) (byte_seq 0x20 0x38))
       (\<lambda>kat. expect (kat = KAT_817))"

definition directed :: "int list list" where
  "directed = [replicate 256 0, replicate 256 1, map (\<lambda>i. int i mod Q) [0..<256], replicate 256 3328]"

definition check_ntt :: "int list \<Rightarrow> unit result" where
  "check_ntt a =
     result_bind (ntt a) (\<lambda>x. result_bind (intt_standard (map canon x)) (\<lambda>y. expect (map canon y = a)))"

definition check_product :: "int list \<times> int list \<Rightarrow> unit result" where
  "check_product = (\<lambda>(a, b).
     result_bind (ntt a) (\<lambda>x. result_bind (ntt b) (\<lambda>y. result_bind (basemul_standard x y) (\<lambda>p.
     result_bind (intt_standard p) (\<lambda>r. result_bind (negacyclic a b) (\<lambda>n. expect (map canon r = n)))))))"

primrec for_each :: "('a \<Rightarrow> unit result) \<Rightarrow> 'a list \<Rightarrow> unit result" where
  "for_each f [] = Inr ()"
| "for_each f (x # xs) = then_check (f x) (for_each f xs)"

definition check_frame :: "unit result" where
  "check_frame =
     (let ad = [0x01, 0x02, 0x00, 0x03] @ [0x01, 0x02, 0x03, 0x04] @ [0, 0, 0, 0, 0, 0, 0, 1] @ [0x00, 0x18, 0x00, 0x07] @ replicate 4 0;
          frame = [0xA5, 0x5A] @ ad @ replicate 24 0 @ replicate 16 0 :: bytes
      in expect (length frame = 66 \<and> take 2 frame = [0xA5, 0x5A]))"

definition check_session :: "unit result" where
  "check_session =
     (let key = byte_seq 0 16; pre = byte_seq 0 8; sid = 0x01020304 in
      result_bind (sm_stage sid key pre session_init) (\<lambda>s.
      result_bind (sm_stage sid key pre s) (\<lambda>s.
      result_bind (sm_commit sid s) (\<lambda>s.
      then_check (expect (sm_state s = BLOCKED \<and> sm_sequence s = 1))
     (result_bind (sm_load (replicate 24 0) (sm_apply_secure_enable True s)) (\<lambda>s.
      result_bind (sm_send_complete s) (\<lambda>s.
      then_check (expect (sm_state s = ACTIVE \<and> sm_sequence s = 2 \<and> sm_telemetry s = []))
        (let s = sm_apply_secure_enable False s in
         expect (sm_state s = ZEROIZE \<and> sm_active s = None \<and> sm_staged s = None \<and> sm_sequence s = 1)))))))))"

text \<open>The whole test; \<open>polys\<close> and \<open>pairs\<close> are the random polynomials.\<close>

definition reference_checks :: "int list list \<Rightarrow> (int list \<times> int list) list \<Rightarrow> unit result" where
  "reference_checks polys pairs =
     then_check check_crc16
    (then_check (check_packet parse_spi)
    (then_check check_fingerprint
    (then_check check_ascon_kat
    (then_check (for_each check_ntt (directed @ polys))
    (then_check (for_each check_product pairs)
    (then_check check_frame check_session))))))"

section \<open>Every check passes\<close>

lemma then_check_Inr [simp]: "then_check (Inr ()) q = q"
  by (simp add: then_check_def)

lemma expect_True [simp]: "expect True = Inr ()" "b \<Longrightarrow> expect b = Inr ()"
  by (simp_all add: expect_def assert_that_def)

text \<open>The checksums are evaluated on numerals, a shift at a time.\<close>

lemma eight_times: "(f ^^ 8) x = f (f (f (f (f (f (f (f x)))))))"
  by (simp add: numeral_eq_Suc)

lemma crc32c_shift_numeral:
  "ref_crc32c_shift 0 = 0" "ref_crc32c_shift 1 = 0x82F63B78"
  "ref_crc32c_shift (numeral (num.Bit0 n)) = numeral n"
  "ref_crc32c_shift (numeral (num.Bit1 n)) = numeral n XOR 0x82F63B78"
  by (simp_all add: ref_crc32c_shift_def drop_bit_Suc numeral_eq_Suc)

lemma crc16_shift_numeral:
  "ref_crc16_shift 0 = 0"
  "ref_crc16_shift (numeral n) =
     (if numeral n AND 0x8000 \<noteq> (0 :: int) then (push_bit 1 (numeral n) XOR 0x1021) AND 0xFFFF
      else push_bit 1 (numeral n) AND 0xFFFF)"
  by (simp add: ref_crc16_shift_def) (rule ref_crc16_shift_def)

lemma check_crc16_passes: "check_crc16 = Inr ()"
  unfolding check_crc16_def ref_crc16_def eight_times by (simp add: crc16_shift_numeral)

lemma check_fingerprint_passes: "check_fingerprint = Inr ()"
proof -
  have bytes: "byte_seq 0 66 = [0, 1, 2, 3, 4, 5, 6, 7, 8, 9, 10, 11, 12, 13, 14, 15, 16, 17, 18, 19, 20, 21, 22, 23,
      24, 25, 26, 27, 28, 29, 30, 31, 32, 33, 34, 35, 36, 37, 38, 39, 40, 41, 42, 43, 44, 45, 46, 47, 48, 49, 50, 51,
      52, 53, 54, 55, 56, 57, 58, 59, 60, 61, 62, 63, 64, 65]"
    by (simp add: byte_seq_def upt_conv_Cons)
  have "ref_crc32c ([0x21, 0x00, 0x00, 0x42] @ byte_seq 0 66) = 0xFA65660B"
    unfolding ref_crc32c_def bytes append.simps eight_times by (simp add: crc32c_shift_numeral)
  then show ?thesis by (simp add: check_fingerprint_def)
qed

text \<open>A parser that raises nothing but assertions passes the test of the corrupted packet, whatever it accepts.\<close>

lemma corrupt_never_fails:
  assumes "\<And>e. parse packet = Inl e \<Longrightarrow> \<exists>m. e = AssertionError m"
  shows "corrupt_refused parse packet = Inr ()"
proof (cases "parse packet")
  case (Inl e)
  with assms obtain m where "e = AssertionError m" by blast
  with Inl show ?thesis by (simp add: corrupt_refused_def)
qed (simp add: corrupt_refused_def)

lemma parse_spi_asserts: "parse_spi p = Inl e \<Longrightarrow> \<exists>m. e = AssertionError m"
  by (auto simp: parse_spi_def assert_that_def Let_def split: if_splits)

lemma check_packet_passes: "check_packet parse_spi = Inr ()"
proof -
  obtain wire where wire: "ref_spi_packet 0x21 0x1234 (byte_seq 0 66) 0 = Inr wire"
    unfolding ref_spi_packet_iff by (auto simp: byte_seq_def)
  from parse_built [OF wire] have parse: "parse_spi wire = Inr (0x21, 0x1234, byte_seq 0 66)" "length wire = 76"
    using wire by (auto simp: ref_spi_packet_iff byte_seq_def)
  show ?thesis
    using corrupt_never_fails [of parse_spi, OF parse_spi_asserts] by (simp add: check_packet_def wire parse)
qed

text \<open>A round in stages, each of which uses its arguments more than once: so they are evaluated once.\<close>

definition diffuse :: "int \<Rightarrow> int \<Rightarrow> int \<Rightarrow> int \<Rightarrow> int \<Rightarrow> ascon_state" where
  "diffuse t0 t1 t2 t3 t4 =
     ((t0 XOR p1_ror t0 19 XOR p1_ror t0 28) AND MASK64, (t1 XOR p1_ror t1 61 XOR p1_ror t1 39) AND MASK64,
      (t2 XOR p1_ror t2 1 XOR p1_ror t2 6) AND MASK64, (t3 XOR p1_ror t3 10 XOR p1_ror t3 17) AND MASK64,
      (t4 XOR p1_ror t4 7 XOR p1_ror t4 41) AND MASK64)"

definition mix :: "int \<Rightarrow> int \<Rightarrow> int \<Rightarrow> int \<Rightarrow> int \<Rightarrow> ascon_state" where
  "mix t0 t1 t2 t3 t4 = diffuse (t0 XOR t4) (t1 XOR t0) (NOT t2 AND MASK64) (t3 XOR t2) t4"

definition substitute :: "int \<Rightarrow> int \<Rightarrow> int \<Rightarrow> int \<Rightarrow> int \<Rightarrow> ascon_state" where
  "substitute x0 x1 x2 x3 x4 =
     mix ((x0 XOR (NOT x1 AND x2)) AND MASK64) ((x1 XOR (NOT x2 AND x3)) AND MASK64)
       ((x2 XOR (NOT x3 AND x4)) AND MASK64) ((x3 XOR (NOT x4 AND x0)) AND MASK64) ((x4 XOR (NOT x0 AND x1)) AND MASK64)"

lemma ascon_round_stages:
  "ascon_round (x0, x1, x2, x3, x4) c = substitute (x0 XOR x4) x1 ((x2 XOR c) XOR x1) x3 (x4 XOR x3)"
  by (simp only: ascon_round_def substitute_def mix_def diffuse_def Let_def prod.case)

lemma mask64: "MASK64 = 0xFFFFFFFFFFFFFFFF"
  by (simp add: MASK64_def)

lemmas perm_simps = perm_def RC_def ascon_round_stages substitute_def mix_def diffuse_def p1_ror_def mask64

lemma kat_perm1: "perm (0x00001000808C0001, 0x0706050403020100, 0x0F0E0D0C0B0A0908, 0x1716151413121110, 0x1F1E1D1C1B1A1918) 0 =
    (0xCDE34900CDFCE2C8, 0x948CBA141A58C1CB, 0x1FEC9B5DAE69B43A, 0x620599FCD928DBAC, 0x3D3290A90ED3B02F)"
  by (simp add: perm_simps)

lemma kat_perm2: "perm (0xFAD57C34FECED3F8, 0xABB287282162F8F3, 0x1FEC9B5DAE69B43A, 0x65039CF8DA2ADAAC, 0x323C9DA505D9B927) 4 =
    (0x0C9214D5DCA0BA77, 0xDC543BBD287D58F6, 0xA3FDA970C0CE9EC0, 0xC11C9B9E9B31F936, 0xC1A75DE00B87CD01)"
  by (simp add: perm_simps)

lemma kat_perm3: "perm (0x4BD451919FE2FB37, 0xDC543BBD287D58F7, 0xA3FDA970C0CE9EC0, 0xC11C9B9E9B31F936, 0xC1A75DE00B87CD01) 4 =
    (0x57B2FA0EF6DB08BD, 0xE8346588CB966587, 0xAC748A611736B8EF, 0xC0FF58DBF68622CF, 0xFA1019E0F7940C65)"
  by (simp add: perm_simps)

lemma kat_perm4: "perm (0x7094DF2AD5F9299D, 0xC71A48A4E0BC4CAF, 0xAC748A611736B8EF, 0xC0FF58DBF68622CF, 0x7A1019E0F7940C65) 4 =
    (0xA5AE73421A8180CC, 0xCAA94490B7AB85ED, 0x26BE1E9536B9FF43, 0x2328597A6356AA7B, 0xB8986E0FF94C1824)"
  by (simp add: perm_simps)

lemma kat_perm5: "perm (0x9298467629B3B1FC, 0xCAA94490B7AB85EC, 0x21B81B9135BBFE43, 0x2C265476685CA373, 0xB8986E0FF94C1824) 0 =
    (0x5B244AB9C53AC0A4, 0x34A0CC9710AF28BC, 0x9B75E2D25638F237, 0x9CEA005647ADEADF, 0x56A04F7C27089409)"
  by (simp add: perm_simps)

lemma known_answer:
  "p1_ascon_encrypt (byte_seq 0x00 0x10) (byte_seq 0x10 0x20) (byte_seq 0x30 0x48) (byte_seq 0x20 0x38) = Inr KAT_817"
proof -
  let ?k = "byte_seq 0x00 0x10" and ?n = "byte_seq 0x10 0x20" and ?a = "byte_seq 0x30 0x48" and ?p = "byte_seq 0x20 0x38"
  have le: "le_int (take 8 ?k) = 0x0706050403020100" "le_int (drop 8 ?k) = 0x0F0E0D0C0B0A0908"
    "le_int (take 8 ?n) = 0x1716151413121110" "le_int (drop 8 ?n) = 0x1F1E1D1C1B1A1918"
    "le_int (take 8 ?a) = 0x3736353433323130" "le_int (slice 8 16 ?a) = 0x3F3E3D3C3B3A3938"
    "le_int (drop 16 ?a) = 0x4746454443424140" "le_int (take 8 ?p) = 0x2726252423222120"
    "le_int (slice 8 16 ?p) = 0x2F2E2D2C2B2A2928" "le_int (drop 16 ?p) = 0x3736353433323130"
    by (simp_all add: byte_seq_def upt_conv_Cons le_int_def be_int_def slice_def)
  have len: "length ?k = 16" "length ?n = 16" "length ?a = 24" "length ?p = 24" by (simp_all add: byte_seq_def)
  have iv: "ASCON_IV = 0x00001000808C0001" by code_simp
  show ?thesis
    unfolding p1_ascon_encrypt_def le len iv assert_that_def
    by (simp add: kat_perm1 kat_perm2 kat_perm3 kat_perm4 kat_perm5 KAT_817_def) code_simp
qed

lemma check_ascon_kat_passes: "check_ascon_kat = Inr ()"
  by (simp add: check_ascon_kat_def known_answer)

lemma small_canonical: "length p = 256 \<Longrightarrow> list_all (\<lambda>x. 0 \<le> x \<and> x < Q) p \<Longrightarrow> small 13592 p"
  by (auto simp: small_def list_all_iff Q_def)

lemma canon_canonical: "list_all (\<lambda>x. 0 \<le> x \<and> x < Q) p \<Longrightarrow> map canon p = p"
  by (induction p) (simp_all add: canon_def)

definition canonical :: "int list \<Rightarrow> bool" where
  "canonical p \<longleftrightarrow> length p = 256 \<and> list_all (\<lambda>x. 0 \<le> x \<and> x < Q) p"

lemma check_ntt_passes: "canonical p \<Longrightarrow> check_ntt p = Inr ()"
proof -
  assume p: "canonical p"
  then have "small 15302 p" "map canon p = p"
    by (auto simp: canonical_def small_def list_all_iff Q_def canon_canonical)
  with intt_ntt [of p] obtain x y where "ntt p = Inr x" "intt_standard (map canon x) = Inr y" "map canon y = p"
    by (auto simp: result_bind_eq_Inr)
  then show ?thesis by (simp add: check_ntt_def)
qed

lemma negacyclic_total: "canonical a \<Longrightarrow> canonical b \<Longrightarrow> \<exists>n. negacyclic a b = Inr n"
  by (auto simp: canonical_def negacyclic_def)

lemma check_product_passes: "canonical a \<Longrightarrow> canonical b \<Longrightarrow> check_product (a, b) = Inr ()"
proof -
  assume ab: "canonical a" "canonical b"
  then have "small 13592 a" "small 13592 b" by (auto simp: canonical_def small_canonical)
  moreover obtain n where "negacyclic a b = Inr n" using negacyclic_total [OF ab] by blast
  ultimately obtain x y p r where "ntt a = Inr x" "ntt b = Inr y" "basemul_standard x y = Inr p" "intt_standard p = Inr r"
    "map canon r = n" "negacyclic a b = Inr n"
    using ntt_multiplies [of a b] by (auto simp: result_bind_eq_Inr)
  then show ?thesis by (simp add: check_product_def)
qed

lemma for_each_passes: "list_all (\<lambda>x. f x = Inr ()) xs \<Longrightarrow> for_each f xs = Inr ()"
  by (induction xs) simp_all

lemma directed_canonical: "list_all canonical directed"
  by (simp add: directed_def canonical_def list_all_iff Q_def)

lemma check_frame_passes: "check_frame = Inr ()"
  by (simp add: check_frame_def Let_def)

lemma check_session_passes: "check_session = Inr ()"
  by (simp add: check_session_def Let_def byte_seq_def sm_stage_def session_init_def sm_commit_def
      sm_apply_secure_enable_def sm_load_def sm_send_complete_def sm_zeroize_def assert_that_def)

lemma checks_pass:
  assumes "list_all canonical polys" and "list_all (\<lambda>(a, b). canonical a \<and> canonical b) pairs"
  shows "reference_checks polys pairs = Inr ()"
proof -
  have "for_each check_ntt (directed @ polys) = Inr ()"
    using assms(1) directed_canonical by (intro for_each_passes) (auto simp: list_all_iff check_ntt_passes)
  moreover have "for_each check_product pairs = Inr ()"
    using assms(2) by (intro for_each_passes) (auto simp: list_all_iff check_product_passes)
  ultimately show ?thesis
    by (simp add: reference_checks_def check_crc16_passes check_packet_passes check_fingerprint_passes
        check_ascon_kat_passes check_frame_passes check_session_passes)
qed

section \<open>The self test of the second controller\<close>

text \<open>\<open>corrupt[index] ^= 1\<close>.\<close>

definition corrupted :: "nat \<Rightarrow> bytes \<Rightarrow> bytes" where
  "corrupted i bs = bs[i := (bs ! i) XOR 1]"

definition recovers :: "bytes \<Rightarrow> bytes \<Rightarrow> bytes \<Rightarrow> bytes \<Rightarrow> bytes \<Rightarrow> bytes \<Rightarrow> unit result" where
  "recovers plaintext key nonce ad ct tag =
     result_bind (p2_ascon_decrypt key nonce ad ct tag) (\<lambda>(plain, ok). expect (ok \<and> plain = plaintext))"

definition refuses :: "bytes \<Rightarrow> bytes \<Rightarrow> bytes \<Rightarrow> bytes \<Rightarrow> bytes \<Rightarrow> unit result" where
  "refuses key nonce ad ct tag =
     result_bind (p2_ascon_decrypt key nonce ad ct tag) (\<lambda>(_, accepted). expect (\<not> accepted))"

definition TEST_KEY :: bytes where
  "TEST_KEY = [0x00, 0x11, 0x22, 0x33, 0x44, 0x55, 0x66, 0x77, 0x88, 0x99, 0xAA, 0xBB, 0xCC, 0xDD, 0xEE, 0xFF]"

definition TEST_PREFIX :: bytes where
  "TEST_PREFIX = [0x10, 0x21, 0x32, 0x43, 0x54, 0x65, 0x76, 0x87]"

definition TEST_PLAINTEXT :: bytes where
  "TEST_PLAINTEXT =
     [0x01, 0x02, 0x03, 0x04, 0x05, 0x06, 0x07, 0x08, 0x09, 0x0A, 0x0B, 0x0C, 0x0D, 0x0E, 0x0F, 0x10,
      0x11, 0x12, 0x13, 0x14, 0x15, 0x16, 0x17, 0x00]"

definition check_zero :: "unit result" where
  "check_zero =
     result_bind (p2_ascon_encrypt (replicate 16 0) (replicate 16 0) (replicate 24 0) (replicate 24 0)) (\<lambda>(ct, tag).
       recovers (replicate 24 0) (replicate 16 0) (replicate 16 0) (replicate 24 0) ct tag)"

definition check_flips :: "bytes \<Rightarrow> bytes \<Rightarrow> bytes \<Rightarrow> bytes \<Rightarrow> unit result" where
  "check_flips nonce ad ct tag =
     then_check (for_each (\<lambda>i. refuses TEST_KEY nonce (corrupted i ad) ct tag) [0..<length ad])
    (then_check (for_each (\<lambda>i. refuses TEST_KEY nonce ad (corrupted i ct) tag) [0..<length ct])
       (for_each (\<lambda>i. refuses TEST_KEY nonce ad ct (corrupted i tag)) [0..<length tag]))"

definition check_layout :: "bytes \<Rightarrow> bytes \<Rightarrow> bytes \<Rightarrow> unit result" where
  "check_layout ad ct tag =
     (let body = ad @ ct @ tag in
      then_check (expect (length body = 64 \<and> length ([0xA5, 0x5A] @ body) = 66))
     (then_check (expect (be_int (slice 4 8 ad) = 0x11223344))
     (then_check (expect (be_int (slice 8 16 ad) = 1))
        (expect (slice 16 18 ad = [0x00, 0x18] \<and> slice 20 24 ad = replicate 4 0)))))"

definition p2_self_test :: "unit result" where
  "p2_self_test =
     then_check check_zero
    (result_bind (make_ad 0x11223344 1 2 0x1234 0x3344) (\<lambda>ad.
     result_bind (make_nonce TEST_PREFIX 1) (\<lambda>nonce.
     result_bind (p2_ascon_encrypt TEST_KEY nonce ad TEST_PLAINTEXT) (\<lambda>(ct, tag).
     then_check (recovers TEST_PLAINTEXT TEST_KEY nonce ad ct tag)
    (then_check (check_flips nonce ad ct tag)
    (then_check (refuses (replicate 16 0) nonce ad ct tag)
    (then_check (refuses TEST_KEY (replicate 16 0) ad ct tag)
    (result_bind (p2_ascon_encrypt (byte_seq 0x00 0x10) (byte_seq 0x10 0x20) (byte_seq 0x30 0x48) (byte_seq 0x20 0x38))
       (\<lambda>(official_ct, official_tag).
     then_check (expect (official_ct @ official_tag = KAT_817)) (check_layout ad ct tag))))))))))"

text \<open>The altered messages that are not refused by construction: a byte of the associated data or of the
ciphertext flipped, another key, another nonce.\<close>

definition forgeries :: "bytes \<Rightarrow> bytes \<Rightarrow> bytes \<Rightarrow> bytes \<Rightarrow> (bytes \<times> bytes \<times> bytes \<times> bytes \<times> bytes) list" where
  "forgeries nonce ad ct tag =
     map (\<lambda>i. (TEST_KEY, nonce, corrupted i ad, ct, tag)) [0..<24] @
     map (\<lambda>i. (TEST_KEY, nonce, ad, corrupted i ct, tag)) [0..<24] @
     [(replicate 16 0, nonce, ad, ct, tag), (TEST_KEY, replicate 16 0, ad, ct, tag)]"

lemma then_check_eq: "then_check r q = Inr x \<longleftrightarrow> r = Inr () \<and> q = Inr x"
  by (auto simp: then_check_def result_bind_eq_Inr)

lemma expect_eq: "expect b = Inr () \<longleftrightarrow> b"
  by (simp add: expect_def assert_that_def)

lemma for_each_eq: "for_each f xs = Inr () \<longleftrightarrow> list_all (\<lambda>x. f x = Inr ()) xs"
  by (induction xs) (simp_all add: then_check_eq)

lemma refuses_eq: "refuses k n a c t = Inr () \<longleftrightarrow> (\<exists>p. p2_ascon_decrypt k n a c t = Inr (p, False))"
  by (auto simp: refuses_def result_bind_eq_Inr expect_eq)

lemma corrupted_length [simp]: "length (corrupted i bs) = length bs"
  by (simp add: corrupted_def)

lemma corrupted_neq: "i < length bs \<Longrightarrow> corrupted i bs \<noteq> bs"
proof
  assume i: "i < length bs" and "corrupted i bs = bs"
  then have "(bs ! i) XOR 1 = bs ! i" by (metis corrupted_def nth_list_update_eq)
  then have "(bs ! i) XOR ((bs ! i) XOR 1) = (bs ! i) XOR (bs ! i)" by simp
  then show False by (simp flip: xor.assoc)
qed

lemma encrypt_total:
  assumes "length key = 16" "length nonce = 16" "length ad = 24" "length pt = 24"
  obtains ct tag where "p2_ascon_encrypt key nonce ad pt = Inr (ct, tag)"
proof -
  have "\<exists>r. p2_ascon_encrypt key nonce ad pt = Inr r"
    using assms by (simp add: p2_ascon_encrypt_def assert_that_def Let_def split: prod.split)
  then show thesis using that by auto
qed

lemma recovers_encrypted: "p2_ascon_encrypt key nonce ad pt = Inr (ct, tag) \<Longrightarrow> recovers pt key nonce ad ct tag = Inr ()"
  using encrypt_sizes [of key nonce ad pt ct tag] by (simp add: recovers_def decrypt_of_encrypt)

lemma tag_flips_refused:
  assumes "p2_ascon_encrypt key nonce ad pt = Inr (ct, tag)" and "i < 16"
  shows "refuses key nonce ad ct (corrupted i tag) = Inr ()"
  using assms encrypt_sizes [OF assms(1)] corrupted_neq [of i tag]
  by (simp add: refuses_def decrypt_of_encrypt)

lemma check_zero_passes: "check_zero = Inr ()"
proof -
  obtain ct tag where "p2_ascon_encrypt (replicate 16 0) (replicate 16 0) (replicate 24 0) (replicate 24 0) = Inr (ct, tag)"
    by (rule encrypt_total [of "replicate 16 0" "replicate 16 0" "replicate 24 0" "replicate 24 0"]) simp_all
  then show ?thesis by (simp add: check_zero_def recovers_encrypted)
qed

lemma official_answer:
  "\<exists>ct tag. p2_ascon_encrypt (byte_seq 0x00 0x10) (byte_seq 0x10 0x20) (byte_seq 0x30 0x48) (byte_seq 0x20 0x38) =
     Inr (ct, tag) \<and> ct @ tag = KAT_817"
  using known_answer by (auto simp: p1_is_p2 split: sum.splits prod.splits)

lemma test_ad:
  obtains ad where "make_ad 0x11223344 1 2 0x1234 0x3344 = Inr ad" "length ad = 24"
    "\<And>ct tag. length ct = 24 \<Longrightarrow> length tag = 16 \<Longrightarrow> check_layout ad ct tag = Inr ()"
proof -
  let ?ad = "ad_layout 0x11223344 1 2 0x1234 0x3344"
  have ad: "make_ad 0x11223344 1 2 0x1234 0x3344 = Inr ?ad"
    by (simp add: make_ad_eq_Inr ad_fields_ok_def)
  have layout: "?ad = [1, 2, 0x12, 0x34, 0x11, 0x22, 0x33, 0x44, 0, 0, 0, 0, 0, 0, 0, 1, 0, 0x18, 0x33, 0x44, 0, 0, 0, 0]"
    by code_simp
  have zeros: "replicate 4 (0 :: byte) = [0, 0, 0, 0]"
    by (simp add: numeral_eq_Suc)
  show thesis
    by (rule that [OF ad]) (simp_all add: layout zeros check_layout_def slice_def be_int_def Let_def)
qed

lemma self_test_iff:
  "\<exists>ad nonce ct tag. make_ad 0x11223344 1 2 0x1234 0x3344 = Inr ad \<and> make_nonce TEST_PREFIX 1 = Inr nonce \<and>
     p2_ascon_encrypt TEST_KEY nonce ad TEST_PLAINTEXT = Inr (ct, tag) \<and>
     (p2_self_test = Inr () \<longleftrightarrow>
        list_all (\<lambda>(k, n, a, c, t). \<exists>p. p2_ascon_decrypt k n a c t = Inr (p, False)) (forgeries nonce ad ct tag))"
proof -
  obtain ad where ad: "make_ad 0x11223344 1 2 0x1234 0x3344 = Inr ad" "length ad = 24"
    and layout: "\<And>ct tag. length ct = 24 \<Longrightarrow> length tag = 16 \<Longrightarrow> check_layout ad ct tag = Inr ()"
    by (rule test_ad) blast
  obtain nonce where nonce: "make_nonce TEST_PREFIX 1 = Inr nonce" "length nonce = 16"
    by (simp add: make_nonce_eq_Inr TEST_PREFIX_def)
  obtain ct tag where enc: "p2_ascon_encrypt TEST_KEY nonce ad TEST_PLAINTEXT = Inr (ct, tag)"
    by (rule encrypt_total [of TEST_KEY nonce ad TEST_PLAINTEXT]) (simp_all add: ad nonce TEST_KEY_def TEST_PLAINTEXT_def)
  note sizes = encrypt_sizes [OF enc]
  obtain oc ot where official: "p2_ascon_encrypt (byte_seq 0x00 0x10) (byte_seq 0x10 0x20) (byte_seq 0x30 0x48) (byte_seq 0x20 0x38) =
     Inr (oc, ot)" "oc @ ot = KAT_817" using official_answer by blast
  have tags: "list_all (\<lambda>i. refuses TEST_KEY nonce ad ct (corrupted i tag) = Inr ()) [0..<16]"
    using tag_flips_refused [OF enc] by (simp add: list_all_iff)
  note passed = check_zero_passes ad nonce enc recovers_encrypted [OF enc] official tags
  have "p2_self_test = Inr () \<longleftrightarrow>
      list_all (\<lambda>(k, n, a, c, t). refuses k n a c t = Inr ()) (forgeries nonce ad ct tag)"
    using sizes layout [of ct tag]
    unfolding p2_self_test_def check_flips_def forgeries_def
    by (simp add: passed then_check_eq for_each_eq list.pred_map o_def del: upt_Suc)
  with ad nonce enc show ?thesis by (auto simp: refuses_eq)
qed

end
