(* ===== verification/Spec2Isabelle.thy ===== *)
theory Spec2Isabelle
  imports Cli_Args Vendor_Import Demo_Gui Sample_Run Aead_Frame Poly_Mul Spi_Reference
    Sdc_Check Rtl_Check Sim_Run Repo_Check Warning_Log Layout_Check Open_Drain Gui_History Ref_Checks
begin

text \<open>
  A model of the PC host of the Trinity board (Python, \<open>pc_host/src/trinity_host\<close>), which drives an
  SN32 controller and, through it, two FPGA endpoints (Primer 1 and Primer 2) over a serial line.

  The program in layers, and the theory of each:

  \<^item> \<open>Prelude\<close>: bytes, big-endian integers, slices, error sums, enumeration lookup.
  \<^item> \<open>Protocol_Constants\<close>: \<open>protocol/constants.py\<close>, one datatype per enumeration with its values, its
    member list and the lookup by value that the Python constructor call does.
  \<^item> \<open>Errors\<close>: the exception classes as a datatype, and the subclass tests of the \<open>except\<close> clauses.
  \<^item> \<open>Cobs\<close>, \<open>Checksum\<close>, \<open>Py_Struct\<close>: \<open>protocol/cobs.py\<close>, \<open>protocol/crc.py\<close>, and the part of Python's
    \<open>struct\<close> that the codecs use.
  \<^item> \<open>Frames\<close>: \<open>protocol/frame.py\<close>, the host frame, the SPI packet and the request fingerprint.
  \<^item> \<open>Payloads\<close>: the payload decoders of \<open>protocol/types.py\<close>, \<open>serial_client_impl.py\<close> and
    \<open>serial_client.py\<close>.
  \<^item> \<open>Io\<close>: the effects of the client: a port record stands for pyserial, the clock and the event handler;
    a computation returns \<open>None\<close> (never ends) or an exception or a value with the client's new state.
  \<^item> \<open>Client\<close>: the core of \<open>TrinitySerialClient\<close>: transaction IDs, frame assembly, events, remote
    errors, the request/response exchange.
  \<^item> \<open>Client_Commands\<close>: its commands, the retained-result polling, the bring-up sequences, the live-trace
    check and the hardware qualification.
  \<^item> \<open>Full_Flow\<close>: \<open>full_flow.py\<close>, the managed commands and the secure-telemetry qualification.
  \<^item> \<open>Core_Demo\<close>: \<open>demo_core.py\<close>, the demonstration with its recovery; \<open>Sample_Run\<close>: results that
    the certificates of the flows accept.
  \<^item> \<open>Py_Text\<close>, \<open>Report\<close>: the texts of Python's formats, JSON, and the dictionaries of \<open>cli.py\<close>, with
    the decoder of the first SPI failure and \<open>describe\<close> of \<open>serial_client.py\<close>.
  \<^item> \<open>Exceptions\<close>, \<open>Cli\<close>, \<open>Cli_Run\<close>: \<open>cli.py\<close>, its commands over a console, which exceptions can leave
    them, that every run ends, and what a run has printed when it ends with 0.
  \<^item> \<open>Py_Parse\<close>, \<open>Cli_Args\<close>: \<open>strip\<close>, \<open>splitlines\<close>, \<open>int(text, 0)\<close>, and the defaults of the command lines.
  \<^item> \<open>Full_Cli\<close>: \<open>full_cli.py\<close> and the choice between the two command lines in \<open>entrypoint.py\<close>.
  \<^item> \<open>Demo_Gui\<close>: the state of the window of \<open>demo_gui_base.py\<close> and \<open>demo_gui.py\<close>, its worker thread and
    queue as a step relation; \<open>Gui_Report\<close>: what it writes out, the stage table, the log, the copied result and
    the exported report; \<open>Gui_History\<close>: what the labels say about the reports of the workers so far.
  \<^item> \<open>Vendor_Closure\<close>, \<open>Vendor_Import\<close>: \<open>ai_context/scripts/vendor_mlkem_native.py\<close>: the lock, the include
    closure of the imported sources, and the extraction and the copy as operations on a disk.
  \<^item> \<open>Py_Regex\<close>: the part of Python's \<open>re\<close> that the scripts use, as the list of matches in the order of the
    engine, with the languages of its patterns.
  \<^item> \<open>Sdc_Check\<close>, \<open>Rtl_Check\<close>: the checks of the hardware sources, \<open>primer1/scripts/check_sdc.py\<close> and
    \<open>primer2/scripts/static_rtl_checks.py\<close>.
  \<^item> \<open>P1_Guard\<close>: \<open>static_check.py\<close>, \<open>check_command_arch.py\<close>, \<open>check_timing_arch.py\<close> and
    \<open>classify_pa1001.py\<close> under \<open>primer1/scripts\<close>; \<open>Warning_Log\<close>: logs, and what the last one reads out of them;
    \<open>Open_Drain\<close>: \<open>check_j1_9_open_drain.py\<close> of the Tiny target.
  \<^item> \<open>Sim_Run\<close>: the runners of the testbenches, \<open>primer1/tb/run.py\<close> and \<open>primer2/tb/run.py\<close>, with the test
    vectors they write.
  \<^item> \<open>Repo_Check\<close>: \<open>check_candidate_hashes.py\<close>, \<open>check_project_memory_detail.py\<close> and
    \<open>check_protocol_registry.py\<close> under \<open>ai_context/scripts\<close>; \<open>Layout_Check\<close>: \<open>check_repository_layout.py\<close>.
  \<^item> \<open>Session_Model\<close>, \<open>Ascon\<close>, \<open>Aead_Frame\<close>, \<open>Modular\<close>, \<open>Ntt\<close>, \<open>Poly_Mul\<close>, \<open>Spi_Reference\<close>: the reference
    models of \<open>primer1/scripts/reference_checks.py\<close> and \<open>primer2/scripts/reference_checks.py\<close>: the
    session state machine, Ascon-AEAD128, the associated data and nonce, the arithmetic modulo 3329,
    the number-theoretic transform and its products, the packet parser. \<open>Ref_Checks\<close>: their self tests.

  How state and operations correspond: the attributes \<open>_next_transaction_id\<close> and \<open>_rx\<close> of the client
  are the fields of the record \<open>client\<close>, with the state of the outside world beside them; a method is a
  definition of the same name over the port. \<open>raise\<close>, early returns, \<open>try\<close>/\<open>except\<close> and
  \<open>try\<close>/\<open>finally\<close> are the combinators of \<open>Io\<close>. Times are microseconds. Exception messages keep their
  fixed text; the values formatted into them are left out. The two \<open>while\<close> loops of the client, and the
  polling loop, are instances of \<open>io_loop\<close>, which need not end: that they end is proved for every port that
  is \<open>timely\<close> (its clock does not go back, and only finitely many reads complete between two ticks).
  No fuel is used anywhere; the work list of the importer ends because each round selects a new file or
  shortens the list.

  What the lemmas show: \<open>framing\<close>, \<open>packet_codec\<close>, \<open>trailer_code\<close>, \<open>crc_register\<close>, \<open>burst_register\<close>,
  \<open>payload_decoder\<close>, \<open>exact_decoder\<close>, \<open>int_enum\<close> and \<open>channel\<close> are the contracts between the layers,
  each interpreted on the model's own definitions. \<open>wp\<close> gives weakest preconditions, \<open>keeps\<close> carries an
  invariant through every command (well-formed clients, logs that only grow, frames that are requests, no
  session left pending), \<open>yields\<close> says what a returned value certifies. Properties of the traffic are
  stated over \<open>logged P\<close>, which behaves as the port \<open>P\<close> and records its reads and its writes (those that raise or
  are short as well: an entry is an attempt), for every \<open>P\<close>.

  The window is a relation between states: a step is a button, a key, the poll of the queue, or the worker
  putting a message, a result or an exception into the queue. \<open>gui_invariant\<close> carries an invariant to every
  reachable state, and a history lists what the workers reported on the way to it. The command lines run over a \<open>console\<close> (opening the port, printing); \<open>recorded\<close> keeps the
  reports printed, and \<open>says\<close> relates a result to the reports before it.

  The importer works on a disk, a list of directories and regular files by path, without symbolic links; the
  download, the members of an archive, SHA-256 and the upstream test are the record \<open>outside\<close>. \<open>confined\<close> says
  what an operation leaves alone, \<open>tested\<close> what the upstream test may add to that; the locale \<open>region\<close> carries both
  through the combinators of the disk.

  A source check is a function from a tree of texts to the faults it reports. \<open>takes r L\<close> says that the pattern
  \<open>r\<close> matches exactly the words of \<open>L\<close>; the constraints that the guard accepts are stated over such languages.
  \<open>nested\<close> is the grammar of nested pairs, and the two stack machines of the source check accept exactly its
  words. The runners take the external programs as a record \<open>shell\<close>; \<open>noted\<close> records every command with its
  status beside the world.

  Not modelled: \<open>argparse\<close> (the command lines start from parsed arguments), the widgets, colours and message
  boxes of the window, the text of exceptions, \<open>KeyboardInterrupt\<close>, and the floating-point
  rounding of times and the overflow of \<open>time.sleep\<close>; text that cannot be decoded, folders named like a C file, and
  symbolic links on the disk of the importer; a target folder that is itself a link; the firmware and the hardware descriptions themselves, and what the
  scripts print on the way.
\<close>

text \<open>
  C1. The core demonstration cleans up: over the frames it hands to the port (a write that raises or is short
  counts as well, so these are attempts), no CREATE_SESSION is left without a later ZEROIZE_SYSTEM of scope ALL,
  whether it returns or raises and whatever the port does, provided the progress callback does not raise on the
  clean-up message, which is sent outside the \<open>try\<close> (\<open>quiet\<close>). When it returns, the last status the controller
  sent shows a clean state without a session. The secure-telemetry qualification never returns a result with a
  session pending.
\<close>

theorem core_demo_zeroizes:
  fixes s :: "('w \<times> io_event list) client" and P :: "'w port"
  assumes "client_ok s" and "quiet on_progress"
  shows "wp True (run_core_demo (logged P) plaintext kseed sseed timeout on_progress)
    (\<lambda>r s'. (\<exists>news. sent (io_log s') = sent (io_log s) @ news \<and> \<not> session_pending news) \<and>
       st_session_id (cd_status_final r) = 0 \<and>
       st_system_state (cd_status_final r) \<in> {SYS_READY_NO_KEYPAIR, SYS_SELF_TEST_REQUIRED})
    (\<lambda>_ s'. \<exists>news. sent (io_log s') = sent (io_log s) @ news \<and> \<not> session_pending news) s \<and>
   wp True (run_secure_telemetry_qualification (logged P) kseed sseed plaintexts timeout interval)
    (\<lambda>_ s'. \<exists>news. sent (io_log s') = sent (io_log s) @ news \<and> \<not> session_pending news) (\<lambda>_ _. True) s"
  by (intro conjI wp_mono [OF wp_conj [OF run_core_demo_settles [OF settled_start [OF assms(1)] assms(2)]
        run_core_demo_yields [unfolded yields_def, rule_format]]]
      wp_mono [OF secure_telemetry_settles [OF settled_log_from [OF settled_start [OF assms(1)]]]])
    (auto simp: settled_def core_demo_ok_def)

theorem core_demo_zeroizes_witness:
  "wp True (run_core_demo (logged scripted) (byte_range 0 24) DEFAULT_KEYPAIR_SEED DEFAULT_SESSION_SEED
      120000000 (Some (\<lambda>_ _. Inr ())))
    (\<lambda>r s'. (\<exists>news. sent (io_log s') = [] @ news \<and> \<not> session_pending news) \<and> st_session_id (cd_status_final r) = 0 \<and>
       st_system_state (cd_status_final r) \<in> {SYS_READY_NO_KEYPAIR, SYS_SELF_TEST_REQUIRED})
    (\<lambda>_ s'. \<exists>news. sent (io_log s') = [] @ news \<and> \<not> session_pending news)
    (client_init (script_start [[1, 2, 0]], []))"
  using core_demo_zeroizes [where s = "client_init (script_start [[1, 2, 0]], [])" and P = scripted
      and on_progress = "Some (\<lambda>_ _. Inr ())"]
  by (simp add: quiet_def client_init_def client_ok_def)

text \<open>
  C2. A request and the whole core demonstration end on every port on which time passes: an endless stream of
  events, of noise or of partial frames meets the deadline; they return or raise after finitely many reads and
  writes, and the client is well formed then.
\<close>

theorem exchanges_terminate:
  assumes "timely P clk backlog" and "client_ok s"
  shows "(\<exists>r s'. request P command payload timeout s = Some (r, s') \<and> client_ok s') \<and>
    (\<exists>r s'. run_core_demo P plaintext kseed sseed demo_timeout on_progress s = Some (r, s') \<and> client_ok s')"
proof
  have "wp False (request P command payload timeout) (\<lambda>_. client_ok) (\<lambda>_. client_ok) s"
    by (rule wp_mono [OF wp_request [OF assms(2) disjI2 [OF assms(1)]]]) auto
  then show "\<exists>r s'. request P command payload timeout s = Some (r, s') \<and> client_ok s'"
    by (auto simp: wp_def split: option.splits sum.splits)
  show "\<exists>r s'. run_core_demo P plaintext kseed sseed demo_timeout on_progress s = Some (r, s') \<and> client_ok s'"
    by (rule keeps_total [OF channel.keeps_run_core_demo [OF channel_total [OF assms(1)]] assms(2)]) simp
qed

theorem exchanges_terminate_witness:
  "(\<exists>r s'. request scripted 1 [] 2000000 (client_init (script_start [[1, 2, 0]])) = Some (r, s') \<and> client_ok s') \<and>
   (\<exists>r s'. run_core_demo scripted (byte_range 0 24) DEFAULT_KEYPAIR_SEED DEFAULT_SESSION_SEED 120000000 None
     (client_init (script_start [[1, 2, 0]])) = Some (r, s') \<and> client_ok s')"
  by (rule exchanges_terminate [OF timely_scripted client_ok_init])

text \<open>
  C3. What a result of the core demonstration certifies: a passed qualification and preflight, a 32-byte
  key hash, an active session whose status matches it, telemetry of that session with the next sequence
  number that returns the plaintext and is read back unchanged, and a clean zeroized final status. What a result
  of the secure-telemetry qualification certifies: one telemetry result per plaintext, all of the created
  session, numbered consecutively from the initial sequence, each with its own plaintext, the last one read back,
  and a final status without session, sequence, fault or error. What a hardware qualification certifies: the four
  live traces are accepted in order, both endpoints have the expected builds and passed their self tests, the
  uptime did not go back, and the last status of the liveness loop is ready, fault-free and idle.
\<close>

theorem telemetry_results_certified:
  "wp True (run_core_demo P plaintext kseed sseed timeout on_progress)
     (\<lambda>r _. core_demo_ok plaintext r) (\<lambda>_ _. True) s \<and>
   wp True (run_secure_telemetry_qualification P kseed sseed plaintexts timeout interval)
     (\<lambda>r _. secure_telemetry_ok plaintexts r) (\<lambda>_ _. True) s \<and>
   wp True (run_sn32_hardware_qualification P timeout interval n) (\<lambda>q _. qualification_ok n q) (\<lambda>_ _. True) s"
  using run_core_demo_yields [of plaintext P kseed sseed timeout on_progress]
    secure_telemetry_yields [of plaintexts P kseed sseed timeout interval]
    run_sn32_hardware_qualification_yields [of n P timeout interval] by (simp add: yields_def)

text \<open>
  C4. A returned frame answers the request: it carries its command, the transaction ID that was allocated
  for it and exactly the RESPONSE flag; the receive buffer is empty then. On every outcome the next
  transaction ID has advanced and the client is well formed.
\<close>

theorem request_correlated:
  assumes "client_ok s"
  shows "wp True (request P command payload timeout)
    (\<lambda>f s'. hf_command f = command \<and> hf_transaction_id f = next_transaction_id s \<and> hf_flags f = RESPONSE \<and>
       rx s' = [] \<and> client_ok s' \<and> next_transaction_id s' = next_txid (next_transaction_id s))
    (\<lambda>_ s'. client_ok s' \<and> next_transaction_id s' = next_txid (next_transaction_id s)) s"
  by (rule wp_mono [OF wp_request [where clk = "\<lambda>_. 0" and b = "\<lambda>_. 0", OF assms disjI1 [OF TrueI]]])
    (auto simp: response_ok_def)

theorem request_correlated_witness:
  "wp True (request scripted 1 [] 2000000)
    (\<lambda>f s'. hf_command f = 1 \<and> hf_transaction_id f = 1 \<and> hf_flags f = RESPONSE \<and>
       rx s' = [] \<and> client_ok s' \<and> next_transaction_id s' = next_txid 1)
    (\<lambda>_ s'. client_ok s' \<and> next_transaction_id s' = next_txid 1) (client_init (script_start [[3, 1, 2, 0]]))"
  using request_correlated [of "client_init (script_start [[3, 1, 2, 0]])" scripted 1 "[]" 2000000]
  by (simp add: client_init_def client_ok_def)

text \<open>
  C5. On a line that answers with event frames and then the response, the request returns exactly that
  response, every event has been handed to the handler in order, and nothing is left unread.
\<close>

theorem request_delivers_response:
  assumes "client_ok s" and "rx s = []" and "pt_incoming (world s) = []" and "0 < timeout"
    and "host_wf (HostFrame command 0 (next_transaction_id s) payload)"
    and "list_all2 (\<lambda>w ev. \<exists>f. carries f w \<and> event_frame_ok f ev) ws evs"
    and "carries f w" and "response_ok command (next_transaction_id s) f"
    and "pt_replies (world s) = (concat ws @ w) # replies"
  shows "request scripted command payload timeout s = Some (Inr f,
    s\<lparr>next_transaction_id := next_txid (next_transaction_id s),
      world := (world s)\<lparr>pt_clock := pt_clock (world s) + 1000, pt_replies := replies,
        pt_events := pt_events (world s) @ evs\<rparr>\<rparr>)"
proof -
  obtain wire where "host_encode_wire (HostFrame command 0 (next_transaction_id s) payload) = Inr wire"
    using carries_total [OF assms(5)] by (auto simp: carries_def)
  then show ?thesis by (rule request_delivers [OF assms(1-4) _ assms(6-9)])
qed

theorem request_delivers_response_witness:
  "\<exists>we w. request scripted 1 [] 2000000 (client_init (script_start [we @ w])) =
     Some (Inr (HostFrame 1 RESPONSE 1 [0, 0, 0, 5]),
       (client_init (script_start [we @ w]))\<lparr>next_transaction_id := 2,
         world := \<lparr>pt_clock = 1000, pt_incoming = [], pt_replies = [],
           pt_events = [\<lparr>ev_event_type = EV_PROGRESS, ev_severity = 0, ev_source = SRC_SN32,
             ev_related_transaction_id = 0, ev_progress_percent = Some 50, ev_data = []\<rparr>]\<rparr>\<rparr>)"
proof -
  define ev where "ev = \<lparr>ev_event_type = EV_PROGRESS, ev_severity = 0, ev_source = SRC_SN32,
    ev_related_transaction_id = 0, ev_progress_percent = Some 50, ev_data = []\<rparr>"
  define fe where "fe = HostFrame (HostCommand_value HC_EVENT) EVENT 0 (EventEnvelope_layout ev)"
  define f where "f = HostFrame 1 RESPONSE 1 [0, 0, 0, 5]"
  have "EventEnvelope_decode (EventEnvelope_layout ev) = Inr ev"
    by (rule event.dec_layout) (simp add: ev_def EventEnvelope_wf_def)
  moreover have "length (EventEnvelope_layout ev) = 8"
    by (simp add: EventEnvelope_layout_def EVENT_STRUCT_def ev_def)
  ultimately have fe: "host_wf fe" "event_frame_ok fe ev"
    by (simp_all add: fe_def HostFrame_def host_wf_def event_frame_ok_def protocol_sizes)
  have f: "host_wf f" "response_ok 1 1 f"
    by (simp_all add: f_def HostFrame_def host_wf_def response_ok_def protocol_sizes)
  obtain we w where "carries fe we" "carries f w"
    using carries_total fe(1) f(1) by blast
  then have "request scripted 1 [] 2000000 (client_init (script_start [concat [we] @ w])) =
     Some (Inr f, (client_init (script_start [concat [we] @ w]))\<lparr>next_transaction_id := next_txid 1,
         world := (script_start [concat [we] @ w])\<lparr>pt_clock := 1000, pt_replies := [], pt_events := [ev]\<rparr>\<rparr>)"
    using request_delivers_response [of "client_init (script_start [concat [we] @ w])" 2000000 1 "[]" "[we]" "[ev]" f w "[]"]
      fe(2) f(2) by (auto simp: client_init_def client_ok_def script_start_def HostFrame_def host_wf_def protocol_sizes)
  then show ?thesis
    by (intro exI [of _ we] exI [of _ w]) (simp add: f_def ev_def next_txid_def script_start_def)
qed

text \<open>
  C6. The traffic of a request: it writes its own wire form once and nothing else (nothing when it does not
  encode), and when it returns, the bytes consumed are event frames followed by the returned frame.
\<close>

theorem request_traffic:
  fixes s :: "('w \<times> io_event list) client"
  assumes "client_ok s"
  shows "wp True (request (logged P) command payload timeout)
    (\<lambda>f s'. sent (io_log s') = sent (io_log s) @ request_wire command (next_transaction_id s) payload \<and>
       (\<exists>bs. received (io_log s') = received (io_log s) @ bs \<and> exchange (rx s) bs f))
    (\<lambda>e s'. sent (io_log s') = sent (io_log s) @ request_wire command (next_transaction_id s) payload) s"
  by (rule wp_request_log [OF assms])

theorem request_traffic_witness:
  "wp True (request (logged scripted) 1 [] 2000000)
    (\<lambda>f s'. sent (io_log s') = [] @ request_wire 1 1 [] \<and>
       (\<exists>bs. received (io_log s') = [] @ bs \<and> exchange [] bs f))
    (\<lambda>e s'. sent (io_log s') = [] @ request_wire 1 1 []) (client_init (script_start [], []))"
  using request_traffic [of "client_init (script_start [], [])" scripted 1 "[]" 2000000]
  by (simp add: client_init_def client_ok_def)

text \<open>
  C7. Every frame the demonstration writes is a well-formed request: it decodes, has no flag set and a
  transaction ID that is not 0, on every outcome.
\<close>

theorem demo_sends_requests:
  fixes s :: "('w \<times> io_event list) client" and P :: "'w port"
  assumes "client_ok s" and "list_all request_frame (sent (io_log s))"
  shows "wp True (run_core_demo (logged P) plaintext kseed sseed timeout on_progress)
    (\<lambda>_ s'. client_ok s' \<and> list_all request_frame (sent (io_log s')))
    (\<lambda>_ s'. client_ok s' \<and> list_all request_frame (sent (io_log s'))) s"
  using keepsD [OF well_sent.keeps_run_core_demo, of s] assms
  by (simp add: sends_requests_def [abs_def])

theorem demo_sends_requests_witness:
  "wp True (run_core_demo (logged scripted) (byte_range 0 24) DEFAULT_KEYPAIR_SEED DEFAULT_SESSION_SEED 120000000 None)
    (\<lambda>_ s'. client_ok s' \<and> list_all request_frame (sent (io_log s')))
    (\<lambda>_ s'. client_ok s' \<and> list_all request_frame (sent (io_log s'))) (client_init (script_start [], []))"
  by (rule demo_sends_requests) (simp_all add: client_init_def client_ok_def)

text \<open>
  C8. The two qualification commands end on every port on which time passes. An exit code 0 means that the report
  that claims the qualification was printed, and that the reports printed are, in order, those of one run whose
  result passed every check of the flow, with no SPI failure latched before or after it. Conversely, once the
  claim is printed the exit code is 0, unless closing the serial port raises afterwards.
\<close>

theorem cli_claims_certified:
  assumes "timely P clk b"
    and "a_command args = Sn32_qualify timeout poll n"
    and "f_command args' = Secure_telemetry_qualify key_seed session_seed items timeout' poll'"
  shows "(\<exists>x w' log. legacy_main (recorded K) (beside P) args (w, []) = Some (x, w', log) \<and>
      (x = Exit 0 \<longrightarrow> Printed HARDWARE_PASS \<in> set log \<and> qualified_log n log) \<and>
      (Printed HARDWARE_PASS \<in> set log \<longrightarrow> x = Exit 0 \<or> (\<exists>v e. fst (c_close K v) = Inl e))) \<and>
    (\<exists>x w' log. full_main (recorded K) (beside P) args' (w, []) = Some (x, w', log) \<and>
      (x = Exit 0 \<longrightarrow> Printed SECURE_TELEMETRY_PASS \<in> set log \<and> telemetry_log items log) \<and>
      (Printed SECURE_TELEMETRY_PASS \<in> set log \<longrightarrow> x = Exit 0 \<or> (\<exists>v e. fst (c_close K v) = Inl e)))"
  using qualify_certified [where K = K, OF assms(1,2)]
    telemetry_certified [where K = K, OF assms(1,3)]
  unfolding claims_def close_raises_def by metis

theorem cli_claims_certified_witness:
  "\<exists>x w' log. legacy_main (recorded plain_console) (beside scripted)
       \<lparr>a_port = Some ''COM3'', a_baud = 115200, a_json = True, a_command = Sn32_qualify 30000000 50000 3\<rparr>
       (script_start [[1, 2, 0]], []) = Some (x, w', log) \<and>
     (x = Exit 0 \<longleftrightarrow> Printed HARDWARE_PASS \<in> set log)"
  using cli_claims_certified [OF timely_scripted, where K = plain_console and timeout = 30000000
      and poll = 50000 and n = 3 and w = "script_start [[1, 2, 0]]"
      and args = "\<lparr>a_port = Some ''COM3'', a_baud = 115200, a_json = True,
        a_command = Sn32_qualify 30000000 50000 3\<rparr>"
      and args' = "\<lparr>f_port = ''COM3'', f_baud = 115200, f_json = True,
        f_command = Secure_telemetry_qualify [] [] [] 30000000 50000\<rparr>"
      and items = "[]" and key_seed = "[]" and session_seed = "[]" and timeout' = 30000000 and poll' = 50000]
  by auto

text \<open>
  C9. The window never invents a success. Every reachable state has a history of what the workers reported, with the
  F5 shortcut or without it. When the label says byte-exact, some demonstration among the reports taken from the
  queue succeeded, the latest one was certified, and the plaintext beside the label is its plaintext, which is
  what the button copies, as hexadecimal digits. When the label says that the demonstration passed, the last report
  taken from the queue is that of a demonstration that succeeded and was certified: a failure, or another
  operation, never shows it.
\<close>

theorem gui_pass_certified:
  assumes "gui_history f5 h g"
  shows "(g_match g \<noteq> TXT_MATCH_PASS \<or> (\<exists>p r. latest_demo (handled h g) = Some (p, r) \<and> core_demo_ok p r \<and>
      g_output g = uc (grouped_hex p 4) \<and>
      copy_result clock g log = (Some (uc (bytes_hex_upper p)), add_log clock LOG_COPIED log))) \<and>
    (g_result g \<noteq> TXT_DEMO_PASS \<or>
      (\<exists>h' p r. handled h g = h' @ [(Op_demo p, Success (R_demo r))] \<and> core_demo_ok p r)) \<and>
    (gui_reachable f5 g' \<longleftrightarrow> (\<exists>h'. gui_history f5 h' g'))"
  using labels_certify [OF assms] copy_plaintext reachable_history by blast

theorem gui_pass_certified_witness:
  "\<exists>h g. gui_history False h g \<and> g_match g = TXT_MATCH_PASS \<and>
     (\<exists>p r. latest_demo (handled h g) = Some (p, r) \<and> core_demo_ok p r \<and> g_output g = uc (grouped_hex p 4))"
proof -
  obtain r where r: "core_demo_ok default_payload r" using core_demo_ok_exists [OF default_length] by blast
  note run = after_demo [OF r]
  then obtain h where h: "gui_history False h (gui_after_demo r)" using reachable_history by blast
  from gui_pass_certified [OF h] run h show ?thesis by blast
qed

text \<open>
  C10. A worker of the window always reports: whatever the port entry, the operation and the port do, as long as time
  passes on it, the thread ends with one event for the queue, which is a failure of this operation or a success
  whose result certifies it (a passed qualification, or a demonstration that returned the plaintext).
\<close>

theorem gui_worker_reports:
  assumes "timely P clk backlog"
  shows "\<exists>ev w'. worker_entry K P entry op w = Some (ev, w') \<and>
    ((\<exists>r. ev = Success r \<and> result_of op r) \<or> (\<exists>e. ev = Failure op e))"
  using worker_reports [OF assms] unfolding reports_def .

theorem gui_worker_reports_witness:
  "\<exists>ev w'. worker_entry plain_console scripted ''COM3'' (Op_demo (byte_range 0 24)) (script_start [[1, 2, 0]])
       = Some (ev, w') \<and>
     ((\<exists>r. ev = Success r \<and> result_of (Op_demo (byte_range 0 24)) r) \<or> (\<exists>e. ev = Failure (Op_demo (byte_range 0 24)) e))"
  by (rule gui_worker_reports [OF timely_scripted])

text \<open>
  C11. Without the F5 shortcut the buttons follow the worker: in every reachable state they are disabled exactly
  while something is outstanding, and what is outstanding is one worker that has not reported yet or one
  result that has not been taken from the queue, never more.
\<close>

theorem gui_buttons:
  assumes "gui_reachable False g"
  shows "length (filter ends_operation (g_queue g)) + of_bool (unreported g) = (of_bool (g_busy g) :: nat)"
  using buttons.reachable [OF assms] unfolding buttons_ok_def outstanding_def .

theorem gui_buttons_witness:
  "unreported gui_started \<and> g_busy gui_started"
  using gui_buttons [OF started(1)] started(2,3)
  by (cases "g_busy gui_started") (simp_all add: unreported_def)

text \<open>
  C12. The stage table is well formed in every reachable state of the window: a stage runs exactly when it is the
  current one, so at most one does; it has a start time then, and the nodes lit in the diagram are its own.
\<close>

theorem gui_stages:
  assumes "gui_reachable f5 g"
  shows "(g_stage_state g s = Running \<longleftrightarrow> g_current_stage g = Some s) \<and>
    (g_current_stage g \<noteq> Some s \<or> g_stage_started g s \<noteq> None \<and> g_flow_active g = set (STAGE_NODES s))"
  using stages.reachable [OF assms] unfolding stages_ok_def by blast

theorem gui_stages_witness:
  "g_stage_state (start_prepare 0 gui_init) Preflight = Running \<and>
     (g_stage_state (start_prepare 0 gui_init) Preflight = Running
        \<longleftrightarrow> g_current_stage (start_prepare 0 gui_init) = Some Preflight)"
proof -
  have "gui_reachable False (start_prepare 0 gui_init)"
    by (rule reachable_step [OF reachable_init Button_prepare]) (simp add: gui_init_def)
  from gui_stages [OF this, of Preflight] show ?thesis
    by (simp add: start_prepare_def start_worker_def set_busy_def activate_stage_def reset_stages_def
        gui_init_def Let_def)
qed



text \<open>
  C14. The live-trace check accepts a decoded trace exactly when it shows a genuine exchange: the captured bytes
  are the encodings of the empty request and of a response with the same transaction ID, and the identity
  payload, the repeated CRC and fingerprint fields and the interrupt samples are right.
\<close>

theorem live_trace_accepted:
  assumes "SpiDiagnosticTrace_wf trace"
  shows "validate_live_spi_trace trace target command = Inr () \<longleftrightarrow> live_trace trace target command"
  by (rule validate_live_spi_trace_iff [OF assms])

theorem live_trace_accepted_witness:
  "\<exists>trace. validate_live_spi_trace trace TGT_PRIMER1 SPI_GET_STATUS = Inr () \<and>
     live_trace trace TGT_PRIMER1 SPI_GET_STATUS"
proof -
  define c where "c = SpiCommand_value SPI_GET_STATUS"
  obtain req where req: "spi_encode \<lparr>sp_command = c, sp_flags = 0, sp_transaction_id = 7, sp_payload = [],
      sp_version = PROTOCOL_VERSION\<rparr> = Inr req"
    using spi.enc_total by (fastforce simp: spi_wf_def c_def)
  obtain resp where resp: "spi_encode \<lparr>sp_command = c, sp_flags = RESPONSE, sp_transaction_id = 7,
      sp_payload = replicate 16 0, sp_version = PROTOCOL_VERSION\<rparr> = Inr resp"
    using spi.enc_total by (fastforce simp: spi_wf_def c_def protocol_sizes)
  obtain fp where fp: "request_fingerprint_crc32c c 0 [] = Inr fp"
    using fingerprint_empty unfolding c_def by blast
  define trace where "trace = \<lparr>sd_target_id = 1, sd_command = c, sd_source = 1, sd_result_code = EC_OK,
    sd_target_transaction_id = 7, sd_request_fingerprint = fp, sd_request_length = 10,
    sd_response_capture_length = 26, sd_response_frame_length = 26, sd_request_crc = be_int (drop 8 req),
    sd_response_crc_received = be_int (drop 24 resp), sd_response_crc_calculated = be_int (drop 24 resp),
    sd_irq_before_request = False, sd_irq_after_request = False, sd_irq_before_response = True,
    sd_irq_after_response = False, sd_request_bytes = req, sd_response_bytes = resp\<rparr>"
  have len: "length req = 10" "length resp = 26"
    using spi_length [OF req] spi_length [OF resp] by simp_all
  have "SpiDiagnosticTrace_wf trace"
    using fingerprint_range [OF fp] len be_int_less [of "drop 8 req"] be_int_less [of "drop 24 resp"]
    by (simp add: trace_def SpiDiagnosticTrace_wf_def c_def)
  moreover have "live_trace trace TGT_PRIMER1 SPI_GET_STATUS"
    using req resp fp len unfolding c_def
    by (auto simp: live_trace_def trace_def expected_frame_length_def intro!: exI [of _ "replicate 16 0"])
  ultimately show ?thesis using live_trace_accepted [of trace TGT_PRIMER1 SPI_GET_STATUS] by blast
qed

text \<open>
  C15. Retained results. A managed command that returns has retired its retained result: the last frame it wrote is
  the RETIRE_TXN_RESULT of the transaction ID it returns. Waiting for a retained transaction returns only a
  succeeded result with code OK, of the transaction and the command that were asked for.
\<close>

theorem retained_result_retired:
  fixes s :: "('w \<times> io_event list) client"
  assumes "client_ok s"
  shows "wp True (retained_request (logged P) command payload timeout)
    (\<lambda>(txid, _) s'. sent (io_log s') \<noteq> [] \<and> retires txid (last (sent (io_log s')))) (\<lambda>_ _. True) s \<and>
   wp True (wait_for_transaction P' txid command' timeout' interval)
     (\<lambda>r _. tr_state r = TXN_SUCCEEDED \<and> tr_result_code r = EC_OK \<and> tr_queried_txid r = txid \<and>
        tr_original_command r = command') (\<lambda>_ _. True) s'"
  using retained_request_retires [OF assms] wait_for_transaction_yields [of txid command' P' timeout' interval]
  by (simp add: yields_def)

theorem retained_result_retired_witness:
  "wp True (retained_request (logged scripted) HC_CLOSE_SESSION [] 30000000)
    (\<lambda>(txid, _) s'. sent (io_log s') \<noteq> [] \<and> retires txid (last (sent (io_log s')))) (\<lambda>_ _. True)
    (client_init (script_start [], []))"
  using retained_result_retired [OF client_ok_init] by blast

text \<open>
  C16. Transaction IDs: \<open>n\<close> allocations from a fresh client return the IDs \<open>k mod 65535 + 1\<close> for \<open>k\<close> from 0 on, so an
  ID is never 0, fits 16 bits, and comes again only after 65535 allocations, and they leave the next one in
  the client.
\<close>

theorem txid_cycle:
  "io_for [0..<n] (\<lambda>ids _. io_bind allocate_txid (\<lambda>txid. io_return (ids @ [txid]))) [] (client_init w) =
     Some (Inr (map (\<lambda>k. int k mod 65535 + 1) [0..<n]),
       (client_init w)\<lparr>next_transaction_id := int n mod 65535 + 1\<rparr>)"
  using allocations [where xs = "[0..<n]" and ids = "[]" and s = "client_init w" and k = 0] by (simp add: client_init_def)

text \<open>
  C17. The host-frame decoder accepts exactly the encodings of well-formed frames, each as the frame encoded, and
  the SPI-packet decoder exactly the encodings of well-formed packets, each as the packet encoded. The reference
  checks repeat the packet parser and the checksums beside the host's codec: the parser accepts the same packets
  and returns the same fields, and the checksums are the same functions.
\<close>

theorem codecs_exact:
  "(host_decode_raw bs = Inr f \<longleftrightarrow> host_wf f \<and> host_encode_raw f = Inr bs) \<and>
   (spi_decode bs = Inr p \<longleftrightarrow> spi_wf p \<and> spi_encode p = Inr bs) \<and>
   (parse_spi bs = Inr (command, txid, payload) \<longleftrightarrow>
      (\<exists>sp. spi_decode bs = Inr sp \<and> sp_command sp = command \<and> sp_transaction_id sp = txid \<and>
         sp_payload sp = payload)) \<and>
   ref_crc16 data = crc16_ccitt_false data \<and> ref_crc32c data = crc32c data"
  by (intro conjI host.dec_iff spi.dec_iff parse_spi_is_decode ref_crc16_eq ref_crc32c_eq)

text \<open>
  C18. The wire form of every frame that encodes is at most 269 bytes long (the receive buffer takes 272), has its
  only zero byte at the end, and decodes to the frame with its command byte.
\<close>

theorem host_wire_roundtrip:
  assumes "host_encode_wire f = Inr wire"
  shows "host_decode_wire wire = Inr (f\<lparr>hf_command := hf_command f mod 256\<rparr>) \<and> length wire \<le> 269 \<and>
    (\<exists>enc. wire = enc @ [0] \<and> 0 \<notin> set enc)"
  using host_decode_encode_wire [OF assms] host_encode_wire_length [OF assms]
    host_encode_wire_delimited [OF assms] by blast

theorem host_wire_roundtrip_witness:
  "\<exists>wire. host_encode_wire (HostFrame 1 0 7 [9]) = Inr wire \<and>
     host_decode_wire wire = Inr ((HostFrame 1 0 7 [9])\<lparr>hf_command := 1\<rparr>) \<and> length wire \<le> 269"
proof -
  have "host_wf (HostFrame 1 0 7 [9])" by (simp add: host_wf_def HostFrame_def protocol_sizes)
  then obtain wire where w: "host_encode_wire (HostFrame 1 0 7 [9]) = Inr wire"
    using carries_total by (auto simp: carries_def)
  then show ?thesis
    using host_wire_roundtrip [OF w] by (simp add: HostFrame_def)
qed

text \<open>
  C19. Corruption of up to two adjacent bytes of an accepted byte string, anywhere in it, is always rejected, for
  raw host frames and for SPI packets.
\<close>

theorem bursts_rejected:
  assumes "(b1, b2) \<noteq> (c1, c2)"
  shows "(host_decode_raw (xs @ b1 # b2 # ys) = Inr f \<longrightarrow> (\<exists>e. host_decode_raw (xs @ c1 # c2 # ys) = Inl e)) \<and>
    (spi_decode (xs @ b1 # b2 # ys) = Inr p \<longrightarrow> (\<exists>e. spi_decode (xs @ c1 # c2 # ys) = Inl e))"
  using host.codec_burst_error [OF _ assms] spi.codec_burst_error [OF _ assms] by blast

theorem bursts_rejected_witness:
  "\<exists>b1 b2 ys p. spi_decode ([] @ b1 # b2 # ys) = Inr p \<and> (\<exists>e. spi_decode ([] @ (b1 + 1) # b2 # ys) = Inl e)"
proof -
  define p where "p = \<lparr>sp_command = 2, sp_flags = 0, sp_transaction_id = 7, sp_payload = [9],
    sp_version = PROTOCOL_VERSION\<rparr>"
  have wf: "spi_wf p" by (simp add: spi_wf_def p_def protocol_sizes)
  then obtain raw where raw: "spi_encode p = Inr raw" using spi.enc_total by blast
  then have "10 \<le> length raw" by (auto simp: spi_encode_iff)
  then obtain b1 b2 ys where "raw = b1 # b2 # ys"
    by (auto simp: numeral_eq_Suc Suc_le_length_iff)
  with raw wf have ok: "spi_decode ([] @ b1 # b2 # ys) = Inr p"
    by (simp add: spi.dec_iff)
  have "(b1, b2) \<noteq> (b1 + 1, b2)" by simp
  from ok bursts_rejected [OF this] show ?thesis by blast
qed

text \<open>
  C20. No nonce is used twice under one activation of a key: along every run of the session model without a
  commit, a zeroization or a loss of the enabling line, the nonces that the completed sends form from the
  prefix and the sequence number in force are pairwise different.
\<close>

theorem nonces_fresh:
  assumes "sm_trace s as ns s'" and "list_all keeps_activation as" and "nonces ns = List.map Inr bs"
  shows "distinct bs"
  by (rule sends_fresh [OF assms])

theorem nonces_fresh_witness:
  "distinct [replicate 8 1 @ [0, 0, 0, 0, 0, 0, 0, 1], replicate 8 1 @ [0, 0, 0, 0, 0, 0, 0, 2 :: byte]]"
proof -
  let ?c = "\<lparr>cx_sid = 1, cx_key = replicate 16 1, cx_prefix = replicate 8 1\<rparr>"
  let ?s = "\<lambda>n t. \<lparr>sm_state = ACTIVE, sm_staged = None, sm_active = Some ?c, sm_sequence = n, sm_telemetry = t\<rparr>"
  let ?pt = "replicate 24 7 :: bytes"
  have load: "sm_step (?s n []) (Load ?pt) (?s n ?pt)" for n
    by (simp add: sm_step_iff sm_load_def)
  have send: "sm_step (?s 1 ?pt) Send_complete (?s 2 [])" "sm_step (?s 2 ?pt) Send_complete (?s 3 [])"
    by (simp_all add: sm_step_iff sm_send_complete_def)
  have "sm_trace (?s 1 []) (((([] @ [Load ?pt]) @ [Send_complete]) @ [Load ?pt]) @ [Send_complete])
      (((([] @ sends_under (?s 1 []) (Load ?pt)) @ sends_under (?s 1 ?pt) Send_complete)
        @ sends_under (?s 2 []) (Load ?pt)) @ sends_under (?s 2 ?pt) Send_complete) (?s 3 [])"
    by (intro sm_trace_snoc sm_trace_nil load send)
  then have "sm_trace (?s 1 []) [Load ?pt, Send_complete, Load ?pt, Send_complete] [(?c, 1), (?c, 2)] (?s 3 [])"
    by (simp add: sends_under_def)
  from nonces_fresh [OF this] show ?thesis
    by (simp add: nonces_def make_nonce_def int_to_bytes_def numeral_eq_Suc)
qed

text \<open>
  C21. Every state that the session model reaches satisfies its invariant: contexts have 16-byte keys and 8-byte
  prefixes, a context is staged exactly in STAGED, BLOCKED and ACTIVE have an active context, READY and
  ZEROIZE have none, without one there is neither telemetry nor a sequence number other than 1, and loaded
  telemetry has 24 bytes.
\<close>

theorem session_runs_invariant:
  assumes "sm_run session_init as s"
  shows "sm_inv s"
  by (rule sm_run_inv [OF assms sm_inv_init])

theorem session_runs_invariant_witness:
  "\<exists>s. sm_run session_init restaging s \<and> sm_inv s"
proof -
  obtain s where "sm_run session_init restaging s" using restaging_exec by (auto simp: sm_run_exec)
  then show ?thesis using session_runs_invariant by blast
qed

text \<open>
  C22. With the hardware's guard on staging (READY or STAGED only), losing the enabling line leaves no plaintext in
  any reachable state, clears everything in state ACTIVE, and leaves an active key in state BLOCKED only.
  The model as written has no such guard: after a second stage in state ACTIVE, losing the line clears neither the
  active key nor the loaded plaintext, and after the commit and activation of session 2 the plaintext loaded under
  session 1 is ready to be sent under session 2.
\<close>

theorem enable_loss_clears:
  assumes "guarded_run session_init as s"
  shows "sm_telemetry (sm_apply_secure_enable False s) = [] \<and>
    (sm_state s = ACTIVE \<longrightarrow> nothing_left (sm_apply_secure_enable False s)) \<and>
    (sm_active (sm_apply_secure_enable False s) \<noteq> None \<longrightarrow> sm_state s = BLOCKED) \<and>
    (\<exists>u. sm_run session_init (take 5 restaging) u \<and> sm_apply_secure_enable False u = u \<and>
      map_option cx_sid (sm_active u) = Some 1 \<and> sm_telemetry u = replicate 24 7) \<and>
    (\<exists>u. sm_run session_init restaging u \<and> sm_state u = ACTIVE \<and>
      map_option cx_sid (sm_active u) = Some 2 \<and> sm_telemetry u = replicate 24 7)"
proof -
  have "guarded_inv s" by (rule guarded_run_inv [OF assms guarded_inv_init])
  moreover have "\<exists>u. sm_run session_init restaging u \<and> sm_state u = ACTIVE \<and>
      map_option cx_sid (sm_active u) = Some 2 \<and> sm_telemetry u = replicate 24 7"
    using restaging_exec by (auto simp: sm_run_exec)
  moreover have "\<exists>u. sm_run session_init (take 5 restaging) u \<and> sm_apply_secure_enable False u = u \<and>
      map_option cx_sid (sm_active u) = Some 1 \<and> sm_telemetry u = replicate 24 7"
    by (simp add: sm_run_exec restaging_def session_init_def sm_stage_def sm_commit_def
        sm_apply_secure_enable_def sm_load_def Let_def)
  ultimately show ?thesis
    by (auto simp: guarded_inv_def nothing_left_def sm_apply_secure_enable_def sm_zeroize_def)
qed

theorem enable_loss_clears_witness:
  "\<exists>s. guarded_run session_init
     ([] @ [Stage 1 (replicate 16 1) (replicate 8 1)] @ [Commit 1] @ [Secure_enable True] @ [Load (replicate 24 7)]) s \<and>
   sm_telemetry s = replicate 24 7 \<and> nothing_left (sm_apply_secure_enable False s)"
proof -
  let ?c = "\<lparr>cx_sid = 1, cx_key = replicate 16 1, cx_prefix = replicate 8 1\<rparr>"
  let ?s = "\<lambda>st g a t. \<lparr>sm_state = st, sm_staged = g, sm_active = a, sm_sequence = 1, sm_telemetry = t\<rparr>"
  have i: "session_init = ?s READY None None []" by (simp add: session_init_def)
  have steps: "sm_step (?s READY None None []) (Stage 1 (replicate 16 1) (replicate 8 1)) (?s STAGED (Some ?c) None [])"
    "sm_step (?s STAGED (Some ?c) None []) (Commit 1) (?s BLOCKED None (Some ?c) [])"
    "sm_step (?s BLOCKED None (Some ?c) []) (Secure_enable True) (?s ACTIVE None (Some ?c) [])"
    "sm_step (?s ACTIVE None (Some ?c) []) (Load (replicate 24 7)) (?s ACTIVE None (Some ?c) (replicate 24 7))"
    by (simp_all add: sm_step_iff sm_stage_def sm_commit_def sm_apply_secure_enable_def sm_load_def Let_def)
  have "guarded_run (?s READY None None [])
     (((([] @ [Stage 1 (replicate 16 1) (replicate 8 1)]) @ [Commit 1]) @ [Secure_enable True]) @ [Load (replicate 24 7)])
     (?s ACTIVE None (Some ?c) (replicate 24 7))"
    by (rule guarded_snoc [OF guarded_snoc [OF guarded_snoc [OF guarded_snoc [OF guarded_nil _ steps(1)]
      _ steps(2)] _ steps(3)] _ steps(4)]) (simp_all add: stage_guard_def)
  then have "guarded_run session_init
     ([] @ [Stage 1 (replicate 16 1) (replicate 8 1)] @ [Commit 1] @ [Secure_enable True] @ [Load (replicate 24 7)])
     (?s ACTIVE None (Some ?c) (replicate 24 7))" unfolding i by simp
  with enable_loss_clears [OF this] show ?thesis by (auto simp del: append.simps)
qed

text \<open>
  C23. Decryption of the Primer 2 reference inverts encryption: it yields a plaintext exactly when that plaintext
  encrypts to the ciphertext, and accepts exactly when the tag is the tag of that encryption. The two Ascon-128
  references agree on all inputs, errors included: Primer 1 returns the ciphertext and tag of Primer 2 in one
  string.
\<close>

theorem ascon_references_exact:
  "(p2_ascon_decrypt key nonce ad ct tag = Inr (pt, accepted) \<longleftrightarrow>
     length tag = 16 \<and>
     (\<exists>tag'. p2_ascon_encrypt key nonce ad pt = Inr (ct, tag') \<and> accepted = (tag' = tag))) \<and>
   p1_ascon_encrypt key nonce ad pt =
    (case p2_ascon_encrypt key nonce ad pt of Inl e \<Rightarrow> Inl e | Inr (ct, tag) \<Rightarrow> Inr (ct @ tag))"
  by (intro conjI decrypt_iff p1_is_p2)

text \<open>
  C24. The associated data authenticates its fields: two frames have the same one exactly when their sequence
  numbers, message types and sources are equal, their session identifiers agree modulo 2^32 and their flags
  modulo 2^16.
\<close>

theorem associated_data_determines_fields:
  assumes "make_ad sid seq mt fl src = Inr ad" and "make_ad sid' seq' mt' fl' src' = Inr ad'"
  shows "ad = ad' \<longleftrightarrow> sid mod 2 ^ 32 = sid' mod 2 ^ 32 \<and> seq = seq' \<and> mt = mt' \<and>
    fl mod 2 ^ 16 = fl' mod 2 ^ 16 \<and> src = src'"
  using assms ad_layout_eq_iff unfolding make_ad_eq_Inr by blast

theorem associated_data_determines_fields_witness:
  "make_ad 0x111223344 1 2 0x1234 0x3344 = make_ad 0x11223344 1 2 0x51234 0x3344 \<and>
   make_ad 0x11223344 1 2 0x1234 0x3344 \<noteq> make_ad 0x11223344 2 2 0x1234 0x3344"
proof -
  let ?l = "\<lambda>sid seq fl. ad_layout sid seq 2 fl 0x3344"
  have ads: "make_ad 0x111223344 1 2 0x1234 0x3344 = Inr (?l 0x111223344 1 0x1234)"
    "make_ad 0x11223344 1 2 0x51234 0x3344 = Inr (?l 0x11223344 1 0x51234)"
    "make_ad 0x11223344 1 2 0x1234 0x3344 = Inr (?l 0x11223344 1 0x1234)"
    "make_ad 0x11223344 2 2 0x1234 0x3344 = Inr (?l 0x11223344 2 0x1234)"
    by (simp_all add: make_ad_eq_Inr ad_fields_ok_def)
  have "?l 0x111223344 1 0x1234 = ?l 0x11223344 1 0x51234" "?l 0x11223344 1 0x1234 \<noteq> ?l 0x11223344 2 0x1234"
    using associated_data_determines_fields [OF ads(1,2)] associated_data_determines_fields [OF ads(3,4)] by simp_all
  then show ?thesis by (simp add: ads)
qed

text \<open>
  C25. The pipeline multiplies polynomials: forward transforms, base-case multiplication and inverse transform
  together compute the negacyclic product of the double loop, for every two polynomials of 256 coefficients
  of absolute value at most 13592 (canonical ones are below 3329), although every step wraps to 16 bits. And
  the inverse transform inverts the forward transform: after canonical reduction in between, it returns the
  polynomial it started from, for coefficients of absolute value at most 15302.
\<close>

theorem ntt_computes_product:
  assumes "small 13592 a" and "small 13592 b" and "small 15302 p"
  shows "result_bind (ntt a) (\<lambda>x. result_bind (ntt b) (\<lambda>y. result_bind (basemul_standard x y) (\<lambda>p.
      result_bind (intt_standard p) (\<lambda>r. Inr (List.map canon r))))) = negacyclic a b \<and>
    result_bind (ntt p) (\<lambda>x. result_bind (intt_standard (List.map canon x))
      (\<lambda>y. Inr (List.map canon y))) = Inr (List.map canon p)"
  by (rule conjI [OF ntt_multiplies [OF assms(1,2)] intt_ntt [OF assms(3)]])

theorem ntt_computes_product_witness:
  "result_bind (ntt (replicate 256 3328)) (\<lambda>x. result_bind (ntt (replicate 256 (-5))) (\<lambda>y.
     result_bind (basemul_standard x y) (\<lambda>p. result_bind (intt_standard p) (\<lambda>r. Inr (List.map canon r))))) =
   negacyclic (replicate 256 3328) (replicate 256 (-5)) \<and>
   result_bind (ntt (replicate 256 3328)) (\<lambda>x. result_bind (intt_standard (List.map canon x))
     (\<lambda>y. Inr (List.map canon y))) = Inr (List.map canon (replicate 256 3328))"
  by (rule ntt_computes_product) (simp_all add: small_def)

text \<open>
  C26. The self tests of the reference models. The one of the first controller passes whatever canonical
  polynomials its random generator draws: checksums, packet, fingerprint, the official Ascon answer, the
  transforms, the products, the frame and the session all satisfy its assertions. The one of the second
  controller passes exactly when decryption refuses the fifty altered messages (a byte of the associated data
  or of the ciphertext flipped, another key, another nonce); every other assertion, the sixteen altered tags
  included, holds.
\<close>

theorem self_tests_decided:
  assumes "list_all canonical polys" and "list_all (\<lambda>(a, b). canonical a \<and> canonical b) pairs"
  shows "reference_checks polys pairs = Inr () \<and>
    (\<exists>ad nonce ct tag. make_ad 0x11223344 1 2 0x1234 0x3344 = Inr ad \<and> make_nonce TEST_PREFIX 1 = Inr nonce \<and>
       p2_ascon_encrypt TEST_KEY nonce ad TEST_PLAINTEXT = Inr (ct, tag) \<and>
       (p2_self_test = Inr () \<longleftrightarrow>
          list_all (\<lambda>(k, n, a, c, t). \<exists>p. p2_ascon_decrypt k n a c t = Inr (p, False)) (forgeries nonce ad ct tag)))"
  by (rule conjI [OF checks_pass [OF assms] self_test_iff])

theorem self_tests_decided_witness:
  "reference_checks [replicate 256 5] [(replicate 256 3328, replicate 256 1)] = Inr ()"
  by (rule self_tests_decided [THEN conjunct1]) (simp_all add: canonical_def Q_def list_all_iff)

text \<open>
  C27. What an import of the vendored library can do to the disk outside the temporary directory, the staging
  directory, the imported tree, the manifest, the notes and the lock, wherever it stops. Without the upstream test
  nothing changes there, whatever the archive holds. The test runs a program of the archive: with it, what is
  there afterwards is what was there before or what the test left, started with nothing changed there; the test
  is only assumed to leave the folders that lead to the destination and the temporary directory in place. When
  the download is not the archive the lock pins, the import raises before anything is written.
\<close>

theorem vendor_import_confined:
  assumes "temp \<noteq> []" "\<not> prefix temp b" "\<not> prefix b temp"
    and "\<And>root d. directories (import_directories b temp) d \<Longrightarrow>
      directories (import_directories b temp) (snd (ou_kat X root d))"
    and "directories (import_directories b temp) d"
  shows "((\<forall>p. p \<in> import_region b temp \<or> map_of (snd (import_main X b temp verify_kat d)) p = map_of d p) \<or>
      verify_kat \<and> (\<exists>root d1. (\<forall>p. p \<in> import_region b temp \<or> map_of d1 p = map_of d p) \<and>
        (\<forall>p. p \<in> import_region b temp \<or>
          map_of (snd (import_main X b temp verify_kat d)) p = map_of (snd (ou_kat X root d1)) p))) \<and>
    (archive_accepted X b d \<or> (\<exists>e. import_main X b temp verify_kat d = (Inl e, d)))"
  using import_tested [OF assms, of verify_kat] import_refused [of X b d temp verify_kat]
  unfolding test_outcome_def by blast

theorem vendor_import_confined_witness:
  "\<exists>X. (\<forall>p. p \<in> import_region [''lib''] [''tmp'', ''x''] \<or>
      map_of (snd (import_main X [''lib''] [''tmp'', ''x''] False [([''lib''], Directory), ([''tmp''], Directory)])) p =
        map_of [([''lib''], Directory), ([''tmp''], Directory)] p) \<and>
    (\<exists>e. import_main X [''lib''] [''tmp'', ''x''] False [([''lib''], Directory), ([''tmp''], Directory)] =
      (Inl e, [([''lib''], Directory), ([''tmp''], Directory)]))"
proof -
  let ?X = "\<lparr>ou_sha256 = (\<lambda>_. ''00''), ou_download = (\<lambda>_. Inr []), ou_members = (\<lambda>_. Inr []), ou_text = id,
    ou_encode = id, ou_kat = (\<lambda>_. disk_return ())\<rparr>"
  let ?d = "[([''lib''], Directory), ([''tmp''], Directory)]"
  have kat: "directories (import_directories [''lib''] [''tmp'', ''x'']) (snd (ou_kat ?X root d))"
    if "directories (import_directories [''lib''] [''tmp'', ''x'']) d" for root d
    using that by (simp add: disk_return_def)
  have dirs: "directories (import_directories [''lib''] [''tmp'', ''x'']) ?d"
    by (auto simp: directories_def import_directories_def ancestors_def prefix_Cons)
  have "\<not> archive_accepted ?X [''lib''] ?d" by (simp add: archive_accepted_def)
  then show ?thesis
    using vendor_import_confined [OF _ _ _ kat dirs, of False] by (intro exI [of _ ?X]) simp
qed

text \<open>
  C28. The extraction of an archive, hostile or not, changes nothing outside the destination: names that are absolute,
  that climb with two dots or that resolve elsewhere stop it. Whether it completes or stops, each file below
  an empty destination is a regular member of the archive, at the path its name says, with its content and
  without mode bits above 0777.
\<close>

theorem archive_extraction_confined:
  assumes "b \<noteq> []" and "directories (ancestors b) d" and "\<forall>p \<in> below b. map_of d p = None"
  shows "(\<forall>p. p \<in> below b \<or> map_of (snd (safe_extract_tar members b d)) p = map_of d p) \<and>
    from_archive members b (snd (safe_extract_tar members b d))"
  using extract_confined [OF assms(1), of members] assms(2) extract_from_archive [of b d members] assms(3)
  unfolding confined_def by blast

theorem archive_extraction_confined_witness:
  "let members = [\<lparr>tm_name = ''a/../../x'', tm_kind = Tar_file, tm_mode = 2541, tm_content = ''evil''\<rparr>] in
     map_of (snd (safe_extract_tar members [''t''] [([''t''], Directory)])) [''x''] = None \<and>
     from_archive members [''t''] (snd (safe_extract_tar members [''t''] [([''t''], Directory)]))"
proof -
  let ?d = "[([''t''], Directory)]"
  have "directories (ancestors [''t'']) ?d" "\<forall>p \<in> below [''t'']. map_of ?d p = None"
    by (auto simp: directories_def ancestors_def below_def prefix_Cons strict_prefix_def)
  note kept = archive_extraction_confined [OF _ this]
  have "[''x''] \<notin> below [''t'']" by (simp add: below_def strict_prefix_def)
  then show ?thesis
    using kept [THEN conjunct1, THEN spec, of "[''x'']"] kept [THEN conjunct2] by (simp add: Let_def)
qed

text \<open>
  C29. The importer selects exactly the include closure: it returns a list exactly when the public header is a
  file and every quoted include of the least set of files closed under inclusion from the header and the C
  files names a file of the tree, and then the list is that set, sorted.
\<close>

theorem include_closure_exact:
  "dependency_closure t base = Inr sel \<longleftrightarrow>
     is_file t (base @ [''mlkem'', ''mlkem_native.h'']) \<and>
     (\<nexists>p i. p \<in> closure_set t base \<and> unresolved_include t base p i) \<and>
     sel = sorted_list_of_set (closure_set t base)"
  unfolding dependency_closure_exact by blast

text \<open>
  C30. COBS: decoding inverts encoding for every byte string, the encoding holds no zero byte, it adds one
  byte plus one for each full block of 254 bytes at most, and streams of zero-delimited encodings are equal
  only for equal frames.
\<close>

theorem cobs_roundtrip:
  "cobs_decode (cobs_encode data) = Inr data \<and> 0 \<notin> set (cobs_encode data) \<and>
   length (cobs_encode data) \<le> length data + 1 + length data div 254 \<and>
   (concat (map (\<lambda>xs. cobs_encode xs @ [0]) xss) = concat (map (\<lambda>xs. cobs_encode xs @ [0]) yss)
      \<longleftrightarrow> xss = yss)"
  using cobs.dec_enc cobs.enc_no_zero cobs.enc_length cobs.concat_delimited_inj by blast

text \<open>
  C31. CRC-16/CCITT-FALSE and CRC-32C: the source's arithmetic on unbounded integers is the shift register on
  16-bit words and the reflected one on 32-bit words, for every initial value, and the check values are the
  published ones.
\<close>

theorem checksums_on_words:
  "crc16_ccitt_false_from init data = uint (foldl crc16_byte_w (word_of_int init) data) \<and>
   crc16_ccitt_false check_input = 0x29B1 \<and>
   crc32c_from init' data = uint (NOT (foldl crc32c_byte_w (word_of_int init') data)) \<and>
   crc32c check_input = 0xE3069283"
  using crc16_word crc16_check_value crc32c_word crc32c_check_value by blast

text \<open>
  C32. What the command line prints of a decoded payload determines the payload: equal dictionaries come from
  equal status, information and transaction payloads. Hexadecimal text reads back to its bytes, with spaces or
  without, and a JSON report is a single line whatever its values are.
\<close>

theorem reports_determine_payloads:
  assumes "SystemStatus_decode p1 = Inr s1" "SystemStatus_decode p2 = Inr s2" "p1 \<noteq> p2"
    and "SystemInfo_decode q1 = Inr i1" "SystemInfo_decode q2 = Inr i2" "q1 \<noteq> q2"
    and "TransactionResult_decode r1 = Inr t1" "TransactionResult_decode r2 = Inr t2" "r1 \<noteq> r2"
  shows "status_dict s1 \<noteq> status_dict s2 \<and> info_dict i1 \<noteq> info_dict i2 \<and>
    transaction_dict t1 \<noteq> transaction_dict t2 \<and> bytes_fromhex (bytes_hex bs) = Inr bs \<and>
    bytes_fromhex (bytes_hex_spaced bs) = Inr bs \<and> CHR 0x0A \<notin> set (json_dumps d)"
  using assms status_dict_inj [of s1 s2] info_dict_inj [of i1 i2] transaction_dict_inj [of t1 t2]
    json_dumps_one_line
  by (auto simp: status.dec_iff_layout info.dec_iff_layout txn.dec_iff_layout)

theorem reports_determine_payloads_witness:
  "\<exists>s1 s2 i1 i2 t1 t2. status_dict s1 \<noteq> status_dict s2 \<and> info_dict i1 \<noteq> info_dict i2 \<and>
     transaction_dict t1 \<noteq> transaction_dict t2"
proof -
  let ?s = "\<lambda>x. (sample_status SYS_ACTIVE 5 x)" and ?i = "\<lambda>x. sample_info\<lparr>si_capabilities := x\<rparr>"
    and ?t = "\<lambda>x. sample_self_test\<lparr>tr_queried_txid := x\<rparr>"
  have "SystemStatus_wf (?s x)" "SystemInfo_wf (?i x)" "TransactionResult_wf (?t x)" if "x = 0 \<or> x = 1" for x
    using that by (auto simp: sample_status_def SystemStatus_wf_def ALL_READY_def sample_info_def SystemInfo_wf_def
        EXPECTED_P1_BUILD_ID_def EXPECTED_P2_BUILD_ID_def sample_self_test_def TransactionResult_wf_def)
  note wf = this [OF disjI1 [OF refl]] this [OF disjI2 [OF refl]]
  have d: "SystemStatus_decode (SystemStatus_layout (?s x)) = Inr (?s x)"
    "SystemInfo_decode (SystemInfo_layout (?i x)) = Inr (?i x)"
    "TransactionResult_decode (TransactionResult_layout (?t x)) = Inr (?t x)" if "x = 0 \<or> x = 1" for x
    using that wf by (auto simp: status.dec_iff_layout info.dec_iff_layout txn.dec_iff_layout)
  note d0 = d [OF disjI1 [OF refl]] and d1 = d [OF disjI2 [OF refl]]
  have "SystemStatus_layout (?s 0) \<noteq> SystemStatus_layout (?s 1)"
    "SystemInfo_layout (?i 0) \<noteq> SystemInfo_layout (?i 1)"
    "TransactionResult_layout (?t 0) \<noteq> TransactionResult_layout (?t 1)"
    using status.layout_inj [OF wf(1,4)] info.layout_inj [OF wf(2,5)] txn.layout_inj [OF wf(3,6)]
    by (auto simp: sample_status_def sample_info_def sample_self_test_def)
  from reports_determine_payloads [OF d0(1) d1(1) this(1) d0(2) d1(2) this(2) d0(3) d1(3) this(3)]
  show ?thesis by blast
qed

text \<open>
  C33. The payload decoders of the system status, the retained result, the authenticated result, the system
  information, the last error and the event (reserved byte 0, progress absent or at most 100) each accept
  exactly the layouts of the well-formed values of their type, and return the value laid out. The decoder of the
  first SPI failure accepts a payload exactly when it lays out a first-failure record: nothing recorded, or a
  context, a trace, a transfer and, optionally, register telemetry with its samples. It returns the report of that
  record, and whatever the payload is, it raises only \<open>HostProtocolError\<close>.
\<close>

theorem payload_decoders_exact:
  "(SystemStatus_decode bs = Inr st \<longleftrightarrow> SystemStatus_wf st \<and> bs = SystemStatus_layout st) \<and>
   (TransactionResult_decode bs = Inr tr \<longleftrightarrow> TransactionResult_wf tr \<and> bs = TransactionResult_layout tr) \<and>
   (AuthenticatedResult_decode bs = Inr ar \<longleftrightarrow>
      AuthenticatedResult_wf ar \<and> bs = AuthenticatedResult_layout ar) \<and>
   (SystemInfo_decode bs = Inr si \<longleftrightarrow> SystemInfo_wf si \<and> bs = SystemInfo_layout si) \<and>
   (LastErrorSnapshot_decode bs = Inr le \<longleftrightarrow> LastErrorSnapshot_wf le \<and> bs = LastErrorSnapshot_layout le) \<and>
   (EventEnvelope_decode bs = Inr ev \<longleftrightarrow> EventEnvelope_wf ev \<and> bs = EventEnvelope_layout ev) \<and>
   (first_spi_failure_dict bs = Inr d \<longleftrightarrow>
      (\<exists>ff. first_failure_shape ff bs \<and> d = first_failure_report ff)) \<and>
   raises_only is_HostProtocolError (first_spi_failure_dict bs)"
  by (intro conjI status.dec_iff_layout txn.dec_iff_layout auth.dec_iff_layout info.dec_iff_layout
      last_error.dec_iff_layout event.dec_iff_layout first_failure_iff first_spi_failure_dict_raises)

text \<open>
  C34. Displays the window reaches that do not say what happened. A run that fails with its session active and is
  cleaned up shows the stage that failed as passed and the clean-up as failed. With the F5 shortcut, the
  result of one worker enables the buttons while the next worker runs. After a certified run, a preset shows
  another input beside the label that says byte-exact. While the result
  is awaited, the text that says so can be copied as the authenticated plaintext.
\<close>

theorem gui_display_faults:
  assumes "core_demo_ok default_payload r"
  shows "(gui_reachable f5 (gui_failed e) \<and> g_stage_state (gui_failed e) Session = Passed \<and>
      g_stage_state (gui_failed e) stage.Zeroize = Failed) \<and>
    (gui_reachable True (gui_restarted e) \<and> \<not> g_busy (gui_restarted e) \<and> unreported (gui_restarted e)) \<and>
    (\<exists>g. gui_reachable f5 g \<and> g_match g = TXT_MATCH_PASS \<and> g_input g \<noteq> g_output g) \<and>
    (\<exists>g copied. gui_reachable f5 g \<and> g_output g = TXT_WAIT_OUTPUT \<and>
      copy_result clock g log = (Some copied, add_log clock LOG_COPIED log))"
  using failed restarted preset_after_demo [OF assms] started(1) started_waiting copy_waiting [OF started_waiting] by blast

theorem gui_display_faults_witness:
  "\<exists>g. gui_reachable False g \<and> g_match g = TXT_MATCH_PASS \<and> g_input g \<noteq> g_output g"
proof -
  obtain r where "core_demo_ok default_payload r" using core_demo_ok_exists [OF default_length] by blast
  from gui_display_faults [OF this, of False StructError] show ?thesis by blast
qed

text \<open>
  C35. The guard of the timing constraints accepts a text exactly when its brackets balance, its commands are clocks
  and false paths, its one clock (a line with the command and a space) is the 27 MHz clock and its false paths
  (likewise) are, in any order, one for each of the six asynchronous inputs to its own first synchronizer stage.
  The canonical constraints are accepted; they still are with a further false path from all inputs to all clocks,
  written with a tab after the command.
\<close>

theorem sdc_guard_exact:
  "(validate_sdc s = Inr () \<longleftrightarrow> sdc_accepted s) \<and>
   validate_sdc (sdc_text canonical_lines) = Inr () \<and>
   validate_sdc (sdc_text (canonical_lines @ [unseen_line])) = Inr ()"
  by (intro conjI validate_sdc_iff canonical_accepted unseen_accepted)

text \<open>
  C36. The runners of the testbenches end with 0 exactly when both tools are found and the commands they ran are, in
  order, the compilation and the simulation of every testbench, each with status 0; for Primer 2, after the source
  checks and the reference checks, each with status 0. This holds whatever the commands do.
\<close>

theorem testbench_runs_exact:
  "(fst (p1_run (noted S) root_dir manifest temp (w, [])) = 0 \<longleftrightarrow> \<not> tools_missing S \<and>
      snd (snd (p1_run (noted S) root_dir manifest temp (w, []))) =
        concat (map (passed_top root_dir (manifest_sources root_dir manifest) temp) P1_TOPS)) \<and>
   (fst (p2_run (noted S) python root_dir manifest temp (w, [])) = 0 \<longleftrightarrow> \<not> tools_missing S \<and>
      snd (snd (p2_run (noted S) python root_dir manifest temp (w, []))) = p2_checks python root_dir @
        concat (map (passed_top root_dir (manifest_sources root_dir manifest) temp) P2_TOPS))"
proof -
  obtain c w' log where "p1_run (noted S) root_dir manifest temp (w, []) = (c, w', log)" by (metis prod_cases3)
  note p1 = this p1_run_noted [OF this]
  obtain c' w'' log' where "p2_run (noted S) python root_dir manifest temp (w, []) = (c', w'', log')"
    by (metis prod_cases3)
  note p2 = this p2_run_noted [OF this]
  show ?thesis using p1(2) p2(2) by (simp add: p1(1) p2(1))
qed

text \<open>
  C37. On a disk where the directory of the vectors can be made and none of its names is a directory, the generator
  of the test vectors succeeds, and the numbers read back from the files it leaves agree with each other: the
  expected files are the transforms of the input files, and the expected product, transformed back, is the product
  of the two input polynomials modulo X^256 + 1 and 3329.
\<close>

theorem generated_vectors_agree:
  assumes "room (root_dir @ [''tb'', ''generated'']) d"
  shows "\<exists>d'. generate_vectors root_dir d = (Inr (), d') \<and> vectors_agree (vector_file root_dir d')"
  by (rule vectors_consistent [OF assms])

theorem generated_vectors_agree_witness:
  "\<exists>d'. generate_vectors [''repo'', ''primer1''] [] = (Inr (), d') \<and>
     vectors_agree (vector_file [''repo'', ''primer1''] d')"
  by (rule generated_vectors_agree) (simp add: room_def)

text \<open>
  C38. When the source check of Primer 2 reports nothing, every listed source expands, and its text, with comments and
  strings stripped, has properly nested delimiters and block keywords and clocks only the two allowed signals; the
  text has no tab, no trailing space and no forbidden marker. Stripping comments before strings hides what stands
  between two strings with a comment opener and closer: the unbalanced text there has no faults.
\<close>

theorem rtl_check_nested:
  assumes "rtl_main t root_dir sv = Inr []" and "p \<in> set sv"
  shows "(\<exists>s. read_expanded t [] p = Inr s \<and> source_ok p s) \<and> text_faults hidden_text = []"
  using rtl_main_sources [OF assms] hidden_between_strings by blast

theorem rtl_check_nested_witness:
  "\<exists>s. read_expanded sample_texts [] [''rtl'', ''a.sv''] = Inr s \<and> source_ok [''rtl'', ''a.sv''] s"
  using rtl_check_nested [OF sample_texts_pass, of "[''rtl'', ''a.sv'']"] by simp

text \<open>
  C39. When the layout check of the repository reports nothing: every name at the root is an allowed one; every entry of
  a target outside the pinned submodule is a folder or a regular file, whose name is no forbidden document name
  and has no forbidden suffix unless the file is listed, and whose text does not hold the relative path
  \<open>../ai_context\<close>, with either slash (other mentions of the folder pass); and every source named in the manifest of
  the Tiny target, resolved, lies in the target and is a file there.
\<close>

theorem layout_guaranteed:
  assumes "layout_faults identity r root_dir = Inr []"
  shows "root_allowed r root_dir \<and> targets_clean r root_dir \<and> sources_inside r root_dir"
  by (rule layout_faults_Nil [OF assms])

theorem layout_guaranteed_witness:
  "root_allowed sample_repository [] \<and> targets_clean sample_repository [] \<and> sources_inside sample_repository []"
  by (rule layout_guaranteed [OF sample_repository_passes])

text \<open>
  C40. The classification of the synthesis warnings loses none. On a log whose lines are warnings (with any white space
  where the pattern allows it, and fields that are not empty and hold no quote) and other texts without the word
  \<open>WARN\<close>, the pattern finds exactly the warnings, with their fields. The lines printed are their number, a line
  for each module and a line for each category, sorted, each with the number of warnings of that module or
  category, and the number of warnings whose category is unknown; the status is 1 exactly when known categories are
  required and there is such a warning.
\<close>

theorem synthesis_warnings_counted:
  assumes "list_all item_ok items"
  shows "pa1001_warnings (log_text items) = log_warnings items \<and>
    (\<exists>modules categories.
      tally ''module'' (\<lambda>w. w ! 2) (log_warnings items) modules \<and>
      tally ''category'' (\<lambda>w. category (w ! 0) (w ! 2)) (log_warnings items) categories \<and>
      classify require_known (log_text items) =
        ([''PA1001 total: '' @ py_dec (int (length (log_warnings items)))] @ modules @ categories @
         [''unknown: '' @ py_dec (int (length
            (filter (\<lambda>w. prefix ''UNKNOWN'' (category (w ! 0) (w ! 2))) (log_warnings items))))],
         if require_known \<and> list_ex (\<lambda>w. prefix ''UNKNOWN'' (category (w ! 0) (w ! 2))) (log_warnings items)
         then 1 else 0))"
  by (rule conjI [OF warnings_found [OF assms] classify_log [OF assms]])

theorem synthesis_warnings_counted_witness:
  "pa1001_warnings (log_text sample_log) =
     [[''SOA[3]'', ''src/mlkem.v'', ''mlkem_poly_accel''], [''n12_34_SUM'', ''src/core.v'', ''primer1_command_core''],
      [''spare'', ''src/top.v'', ''top'']]"
  using synthesis_warnings_counted [OF sample_log_ok, THEN conjunct1] by (simp add: log_warnings_def sample_log_def)

end
